(* ===== verification/Prelude.thy ===== *)
theory Prelude
  imports Complex_Main "HOL-Library.AList"
begin

text \<open>
  Shared vocabulary of the development: the JavaScript values the protocol carries
  (strings, numbers, string-keyed records, JSON), thrown errors as values of a sum, and the
  array operations (\<open>findIndex\<close>, \<open>splice\<close>, replace-or-append) out of which every reducer of
  the agent host protocol is built, with the lemmas about them that the components share.
\<close>

section \<open>JavaScript values\<close>

text \<open>
  A \<open>string\<close> is the list of its code units (below 256: the model's identifiers, URIs and
  texts are compared, concatenated and split, never measured against an encoding); a
  \<open>number\<close> is an exact rational (no NaN, no rounding); a \<open>Record<string, T>\<close> is the
  association list of its own properties in insertion order, so that \<open>AList.update\<close> is the
  assignment \<open>r[k] = v\<close> (in place when the key exists, at the end when it does not) and
  \<open>AList.delete\<close> is \<open>delete r[k]\<close>. An optional property that is absent and one whose value
  is \<open>undefined\<close> are both \<open>None\<close>.
\<close>

type_synonym js_string = string
type_synonym js_number = rat
type_synonym 'a js_record = "(js_string \<times> 'a) list"

datatype json =
    JNull
  | JBool bool
  | JNumber js_number
  | JString js_string
  | JArray "json list"
  | JObject "(js_string \<times> json) list"

text \<open>Errors the code throws, and the result of a call that may throw.\<close>

datatype js_error = RangeError js_string | PlainError js_string

type_synonym 'a js_result = "js_error + 'a"

definition js_ok :: "'a js_result \<Rightarrow> bool" where
  "js_ok r = (case r of Inl _ \<Rightarrow> False | Inr _ \<Rightarrow> True)"

definition js_map :: "('a \<Rightarrow> 'b) \<Rightarrow> 'a js_result \<Rightarrow> 'b js_result" where
  "js_map f r = (case r of Inl e \<Rightarrow> Inl e | Inr x \<Rightarrow> Inr (f x))"

lemma js_ok_simps [simp]: "js_ok (Inr x)" "\<not> js_ok (Inl e)"
  by (simp_all add: js_ok_def)

lemma js_ok_iff: "js_ok r \<longleftrightarrow> (\<exists>x. r = Inr x)"
  by (cases r) auto

lemma js_map_simps [simp]: "js_map f (Inr x) = Inr (f x)" "js_map f (Inl e) = Inl e"
  by (simp_all add: js_map_def)

text \<open>\<open>a ?? b\<close> on an optional value: the first that is present.\<close>

fun orelse :: "'a option \<Rightarrow> 'a option \<Rightarrow> 'a option" where
  "orelse (Some x) _ = Some x"
| "orelse None y = y"

definition or_default :: "'a option \<Rightarrow> 'a \<Rightarrow> 'a" where
  "or_default x d = (case x of Some v \<Rightarrow> v | None \<Rightarrow> d)"

lemma or_default_simps [simp]: "or_default (Some v) d = v" "or_default None d = d"
  by (simp_all add: or_default_def)

lemma orelse_None [simp]: "orelse x None = x"
  by (cases x) simp_all

text \<open>JavaScript truthiness of an optional string: \<open>undefined\<close> and the empty string are false.\<close>

definition truthy_string :: "js_string option \<Rightarrow> bool" where
  "truthy_string s = (case s of None \<Rightarrow> False | Some t \<Rightarrow> t \<noteq> [])"

lemma truthy_string_simps [simp]: "\<not> truthy_string None" "truthy_string (Some t) \<longleftrightarrow> t \<noteq> []"
  by (simp_all add: truthy_string_def)

text \<open>
  \<open>{ ...a, ...b }\<close>: the properties of \<open>b\<close> are assigned into \<open>a\<close> one after the other. An
  absent operand contributes nothing (\<open>b ?? {}\<close>).
\<close>

fun spread :: "'a js_record \<Rightarrow> 'a js_record \<Rightarrow> 'a js_record" where
  "spread a [] = a"
| "spread a ((k, v) # b) = spread (AList.update k v a) b"

lemma map_of_spread: "map_of (spread a b) = map_of a ++ map_of (rev b)"
  by (induction a b rule: spread.induct) (auto simp: update_conv' fun_eq_iff map_add_def split: option.splits)

section \<open>Array operations\<close>

text \<open>\<open>xs.findIndex(p)\<close>, with \<open>None\<close> for the result \<open>-1\<close>.\<close>

fun find_index :: "('a \<Rightarrow> bool) \<Rightarrow> 'a list \<Rightarrow> nat option" where
  "find_index P [] = None"
| "find_index P (x # xs) = (if P x then Some 0 else map_option Suc (find_index P xs))"

lemma find_index_None_iff: "find_index P xs = None \<longleftrightarrow> (\<forall>x\<in>set xs. \<not> P x)"
  by (induction xs) auto

lemma find_index_SomeD:
  "find_index P xs = Some i \<Longrightarrow> i < length xs \<and> P (xs ! i) \<and> (\<forall>j<i. \<not> P (xs ! j))"
proof (induction xs arbitrary: i)
  case (Cons x xs)
  show ?case
  proof (cases "P x")
    case False
    with Cons.prems obtain j where j: "find_index P xs = Some j" "i = Suc j" by auto
    from Cons.IH [OF j(1)] False j(2) show ?thesis
      by (auto simp: less_Suc_eq_0_disj)
  qed (use Cons.prems in simp)
qed simp

lemma find_index_less: "find_index P xs = Some i \<Longrightarrow> i < length xs"
  by (blast dest: find_index_SomeD)

lemma find_index_append:
  "find_index P (xs @ ys) =
     (case find_index P xs of Some i \<Rightarrow> Some i | None \<Rightarrow> map_option (\<lambda>i. i + length xs) (find_index P ys))"
  by (induction xs) (auto simp: option.map_comp comp_def option.map_ident split: option.splits)

lemma find_index_map: "find_index P (map f xs) = find_index (\<lambda>x. P (f x)) xs"
  by (induction xs) simp_all

text \<open>\<open>xs.splice(i, 1)\<close> on a copy.\<close>

definition remove_at :: "nat \<Rightarrow> 'a list \<Rightarrow> 'a list" where
  "remove_at i xs = take i xs @ drop (Suc i) xs"

lemma remove_at_simps [simp]:
  "remove_at i [] = []"
  "remove_at 0 (x # xs) = xs"
  "remove_at (Suc i) (x # xs) = x # remove_at i xs"
  by (simp_all add: remove_at_def)

lemma map_remove_at: "map f (remove_at i xs) = remove_at i (map f xs)"
  by (simp add: remove_at_def take_map drop_map)

lemma nth_removed: "distinct xs \<Longrightarrow> i < length xs \<Longrightarrow> xs ! i \<notin> set (remove_at i xs)"
proof (induction xs arbitrary: i)
  case (Cons x xs)
  then show ?case by (cases i) (auto dest: nth_mem)
qed simp

lemma set_remove_at_subset: "set (remove_at i xs) \<subseteq> set xs"
  unfolding remove_at_def using set_take_subset set_drop_subset by fastforce

lemma distinct_remove_at: "distinct xs \<Longrightarrow> distinct (remove_at i xs)"
  unfolding remove_at_def
  by (metis Suc_le_eq distinct_append distinct_drop distinct_take le_SucI le_refl set_take_disj_set_drop_if_distinct)

lemma length_remove_at: "i < length xs \<Longrightarrow> length (remove_at i xs) = length xs - 1"
  by (simp add: remove_at_def)

text \<open>
  Replace the element with the same key in place, or append: what the \<open>Set\<close>, \<open>Added\<close> and
  \<open>Updated\<close> actions of the keyed collections do. \<open>remove_by\<close> drops the first element with
  the key and leaves the list alone when there is none.
\<close>

definition upsert :: "('a \<Rightarrow> 'k) \<Rightarrow> 'a \<Rightarrow> 'a list \<Rightarrow> 'a list" where
  "upsert key x xs =
     (case find_index (\<lambda>y. key y = key x) xs of None \<Rightarrow> xs @ [x] | Some i \<Rightarrow> xs[i := x])"

definition remove_by :: "('a \<Rightarrow> 'k) \<Rightarrow> 'k \<Rightarrow> 'a list \<Rightarrow> 'a list" where
  "remove_by key k xs =
     (case find_index (\<lambda>y. key y = k) xs of None \<Rightarrow> xs | Some i \<Rightarrow> remove_at i xs)"

definition lookup_by :: "('a \<Rightarrow> 'k) \<Rightarrow> 'k \<Rightarrow> 'a list \<Rightarrow> 'a option" where
  "lookup_by key k xs = find (\<lambda>y. key y = k) xs"

lemma lookup_by_simps [simp]:
  "lookup_by key k [] = None"
  "lookup_by key k (x # xs) = (if key x = k then Some x else lookup_by key k xs)"
  by (simp_all add: lookup_by_def)

lemma upsert_simps [simp]:
  "upsert key x [] = [x]"
  "upsert key x (y # ys) = (if key y = key x then x # ys else y # upsert key x ys)"
  by (auto simp: upsert_def split: option.splits)

lemma remove_by_simps [simp]:
  "remove_by key k [] = []"
  "remove_by key k (y # ys) = (if key y = k then ys else y # remove_by key k ys)"
  by (auto simp: remove_by_def split: option.splits)

lemma lookup_by_None_iff: "lookup_by key k xs = None \<longleftrightarrow> k \<notin> key ` set xs"
  by (induction xs) auto

lemma lookup_by_SomeD: "lookup_by key k xs = Some x \<Longrightarrow> x \<in> set xs \<and> key x = k"
  by (induction xs) (auto split: if_splits)

lemma keys_upsert:
  "map key (upsert key x xs) = (if key x \<in> key ` set xs then map key xs else map key xs @ [key x])"
  by (induction xs) auto

lemma distinct_keys_upsert: "distinct (map key xs) \<Longrightarrow> distinct (map key (upsert key x xs))"
  by (auto simp: keys_upsert)

lemma lookup_by_upsert:
  "lookup_by key k (upsert key x xs) = (if k = key x then Some x else lookup_by key k xs)"
  by (induction xs) auto

lemma upsert_upsert: "key x = key y \<Longrightarrow> upsert key x (upsert key y xs) = upsert key x xs"
  by (induction xs) auto

lemma set_upsert_subset: "set (upsert key x xs) \<subseteq> insert x (set xs)"
  by (induction xs) auto

lemma remove_by_absent: "k \<notin> key ` set xs \<Longrightarrow> remove_by key k xs = xs"
  by (induction xs) auto

lemma set_remove_by_subset: "set (remove_by key k xs) \<subseteq> set xs"
  by (induction xs) auto

lemma distinct_keys_remove_by: "distinct (map key xs) \<Longrightarrow> distinct (map key (remove_by key k xs))"
  using set_remove_by_subset [of key k] by (induction xs) fastforce+

lemma lookup_by_remove_by:
  "distinct (map key xs) \<Longrightarrow>
   lookup_by key k (remove_by key k' xs) = (if k = k' then None else lookup_by key k xs)"
  by (induction xs) (auto simp: lookup_by_None_iff)

end
