(* ===== verification/Common_State.thy ===== *)
theory Common_State
  imports Prelude "HOL-Library.Word"
begin

text \<open>
  Value types shared by the channels of the agent host protocol: \<open>common/state.ts\<close> and the
  few types of \<open>channels-root/state.ts\<close> and \<open>channels-session/state.ts\<close> that the chat
  channel refers to. Interfaces are records (their literal \<open>kind\<close>/\<open>type\<close> tag is the
  constructor of the union they belong to), string enums are datatypes, and the status
  bitset is a 32-bit word because the code combines it with JavaScript's bitwise operators.
\<close>

section \<open>Values of \<open>common/state.ts\<close>\<close>

datatype string_or_markdown = PlainText js_string | MarkdownText js_string

datatype json_primitive = PString js_string | PNumber js_number | PBool bool | PNull

datatype icon_theme = LightTheme | DarkTheme

record icon =
  icon_src :: "js_string"
  icon_contentType :: "js_string option"
  icon_sizes :: "js_string list option"
  icon_theme :: "icon_theme option"

record protected_resource_metadata =
  prm_resource :: "js_string"
  prm_resource_name :: "js_string option"
  prm_authorization_servers :: "js_string list option"
  prm_jwks_uri :: "js_string option"
  prm_scopes_supported :: "js_string list option"
  prm_bearer_methods_supported :: "js_string list option"
  prm_resource_signing_alg_values_supported :: "js_string list option"
  prm_resource_documentation :: "js_string option"
  prm_resource_policy_uri :: "js_string option"
  prm_resource_tos_uri :: "js_string option"
  prm_required :: "bool option"

datatype config_property_type = CfgString | CfgNumber | CfgBoolean | CfgArray | CfgObject

datatype config_property_schema = ConfigPropertySchema
  (cfgprop_type: config_property_type)
  (cfgprop_title: js_string)
  (cfgprop_description: "js_string option")
  (cfgprop_default: "json option")
  (cfgprop_enum: "json_primitive list option")
  (cfgprop_enumLabels: "js_string list option")
  (cfgprop_enumDescriptions: "js_string list option")
  (cfgprop_readOnly: "bool option")
  (cfgprop_items: "config_property_schema option")
  (cfgprop_properties: "(js_string \<times> config_property_schema) list option")
  (cfgprop_required: "js_string list option")
  (cfgprop_additionalProperties: "config_property_schema option")

record config_schema =
  cfgschema_properties :: "config_property_schema js_record"
  cfgschema_required :: "js_string list option"

record text_position =
  tpos_line :: "js_number"
  tpos_character :: "js_number"

record text_range =
  trange_start :: "text_position"
  trange_end :: "text_position"

record text_selection =
  tsel_range :: "text_range"

record content_ref =
  cref_uri :: "js_string"
  cref_sizeHint :: "js_number option"
  cref_contentType :: "js_string option"
  cref_nonce :: "js_string option"

record file_edit_side =
  fside_uri :: "js_string"
  fside_content :: "content_ref"

record file_edit_diff =
  fdiff_added :: "js_number option"
  fdiff_removed :: "js_number option"

record file_edit =
  fedit_before :: "file_edit_side option"
  fedit_after :: "file_edit_side option"
  fedit_diff :: "file_edit_diff option"

record usage_info =
  usage_inputTokens :: "js_number option"
  usage_outputTokens :: "js_number option"
  usage_model :: "js_string option"
  usage_cacheReadTokens :: "js_number option"
  usage_meta :: "json js_record option"

record error_info =
  err_errorType :: "js_string"
  err_message :: "js_string"
  err_stack :: "js_string option"
  err_meta :: "json js_record option"

section \<open>Selections and MCP authentication\<close>

record model_selection =
  model_id :: "js_string"
  model_config :: "json_primitive js_record option"

record agent_selection =
  agentsel_uri :: "js_string"

datatype mcp_auth_required_reason = AuthRequiredReason | AuthExpired | AuthInsufficientScope

record mcp_oauth_client =
  oauth_clientId :: "js_string"
  oauth_clientSecret :: "js_string option"

record mcp_auth_requirement =
  mcpauth_reason :: "mcp_auth_required_reason"
  mcpauth_oauthClient :: "mcp_oauth_client option"
  mcpauth_resource :: "protected_resource_metadata"
  mcpauth_requiredScopes :: "js_string list option"
  mcpauth_description :: "js_string option"

section \<open>The session status bitset\<close>

text \<open>
  \<open>SessionStatus\<close> is a \<open>const enum\<close> of bit patterns: bits 0 to 4 hold one activity, bits 5
  and 6 are independent flags. \<open>InputNeeded\<close> contains the \<open>InProgress\<close> bit.
\<close>

unbundle bit_operations_syntax

type_synonym session_status = "32 word"

definition status_Idle :: session_status where "status_Idle = 1"
definition status_Error :: session_status where "status_Error = push_bit 1 1"
definition status_InProgress :: session_status where "status_InProgress = push_bit 3 1"
definition status_InputNeeded :: session_status where
  "status_InputNeeded = push_bit 3 1 OR push_bit 4 1"
definition status_IsRead :: session_status where "status_IsRead = push_bit 5 1"
definition status_IsArchived :: session_status where "status_IsArchived = push_bit 6 1"

lemmas status_defs = status_Idle_def status_Error_def status_InProgress_def
  status_InputNeeded_def status_IsRead_def status_IsArchived_def

text \<open>\<open>const STATUS_ACTIVITY_MASK = (1 << 5) - 1\<close>, the same constant in both reducers.\<close>

definition STATUS_ACTIVITY_MASK :: session_status where
  "STATUS_ACTIVITY_MASK = push_bit 5 1 - 1"

definition withStatusFlag :: "session_status \<Rightarrow> session_status \<Rightarrow> bool \<Rightarrow> session_status" where
  "withStatusFlag status flag on = (if on then status OR flag else status AND NOT flag)"

text \<open>\<open>state.status & ~STATUS_ACTIVITY_MASK | activity\<close>.\<close>

definition withActivity :: "session_status \<Rightarrow> session_status \<Rightarrow> session_status" where
  "withActivity status activity = (status AND NOT STATUS_ACTIVITY_MASK) OR activity"

lemma STATUS_ACTIVITY_MASK_eq: "STATUS_ACTIVITY_MASK = mask 5"
  by (simp add: STATUS_ACTIVITY_MASK_def mask_eq_decr_exp)

lemma bit_STATUS_ACTIVITY_MASK: "bit STATUS_ACTIVITY_MASK n \<longleftrightarrow> n < 5"
  by (auto simp: STATUS_ACTIVITY_MASK_eq bit_mask_iff)

definition is_activity :: "session_status \<Rightarrow> bool" where
  "is_activity a \<longleftrightarrow> a AND STATUS_ACTIVITY_MASK = a"

lemma is_activity_values [simp]:
  "is_activity status_Idle" "is_activity status_Error" "is_activity status_InProgress"
  "is_activity status_InputNeeded"
  by (simp_all add: is_activity_def status_defs STATUS_ACTIVITY_MASK_def)

lemma bit_withActivity:
  assumes "is_activity a"
  shows "bit (withActivity s a) n \<longleftrightarrow> (if n < 5 then bit a n else bit s n)"
proof -
  have "n < 5" if "bit a n"
  proof -
    from that assms have "bit (a AND STATUS_ACTIVITY_MASK) n" by (simp add: is_activity_def)
    then show ?thesis by (simp add: bit_and_iff bit_STATUS_ACTIVITY_MASK)
  qed
  then show ?thesis
    by (auto simp: withActivity_def bit_or_iff bit_and_iff bit_not_iff bit_STATUS_ACTIVITY_MASK
        dest: bit_imp_le_length)
qed

lemma withActivity_activity: "is_activity a \<Longrightarrow> withActivity s a AND STATUS_ACTIVITY_MASK = a"
  by (rule bit_word_eqI)
    (use bit_withActivity in \<open>auto simp: bit_and_iff bit_STATUS_ACTIVITY_MASK is_activity_def
        dest: arg_cong [where f = "\<lambda>w. bit w _"]\<close>)

lemma withActivity_flags:
  "is_activity a \<Longrightarrow> withActivity s a AND NOT STATUS_ACTIVITY_MASK = s AND NOT STATUS_ACTIVITY_MASK"
  by (rule bit_word_eqI)
    (auto simp: bit_and_iff bit_not_iff bit_STATUS_ACTIVITY_MASK bit_withActivity)

lemma withActivity_twice:
  "is_activity a \<Longrightarrow> is_activity b \<Longrightarrow> withActivity (withActivity s a) b = withActivity s b"
  by (rule bit_word_eqI) (simp add: bit_withActivity)

end
