(* ===== verification/Chat_State.thy ===== *)
theory Chat_State
  imports Common_State
begin

text \<open>
  The state of a chat channel, \<open>channels-chat/state.ts\<close>: messages and attachments, pending
  input requests and their answers, the tool call lifecycle, response parts, turns, and the
  chat itself. An interface that extends several others is a constructor of its union over
  the records of the interfaces it extends (a running tool call is \<open>TcRunning\<close> over the base,
  the parameter fields, the post-confirmation fields and its own content).
\<close>

section \<open>Where a chat came from\<close>

record side_chat_selection =
  sidesel_text :: "js_string"
  sidesel_responsePartId :: "js_string option"

datatype chat_origin =
    OriginUser
  | OriginFork js_string js_string
  | OriginSideChat js_string js_string "side_chat_selection option"
  | OriginTool js_string js_string

datatype chat_interactivity = FullInteractivity | ReadOnlyInteractivity | HiddenInteractivity

record chat_summary =
  csum_resource :: "js_string"
  csum_title :: "js_string"
  csum_status :: "session_status"
  csum_activity :: "js_string option"
  csum_modifiedAt :: "js_string"
  csum_origin :: "chat_origin option"
  csum_interactivity :: "chat_interactivity option"
  csum_workingDirectories :: "js_string list option"

section \<open>Messages\<close>

datatype message_kind = UserMessage | AgentMessage | ToolMessage | AutomationMessage | SystemNotificationMessage

record message_origin =
  morigin_kind :: "message_kind"

record message_attachment_base =
  attach_label :: "js_string"
  attach_range :: "text_range option"
  attach_displayKind :: "js_string option"
  attach_meta :: "json js_record option"

record simple_message_attachment = message_attachment_base +
  attSimple_modelRepresentation :: "js_string option"

record message_embedded_resource_attachment = message_attachment_base +
  attEmb_data :: "js_string"
  attEmb_contentType :: "js_string"
  attEmb_selection :: "text_selection option"

record message_resource_attachment = message_attachment_base +
  attRes_ref :: "content_ref"
  attRes_selection :: "text_selection option"

record message_annotations_attachment = message_attachment_base +
  attAnn_resource :: "js_string"
  attAnn_annotationIds :: "js_string list option"

record message_chat_attachment = message_attachment_base +
  attChat_resource :: "js_string"
  attChat_endTurn :: "js_string option"

datatype message_attachment =
    SimpleAttachment simple_message_attachment
  | EmbeddedResourceAttachment message_embedded_resource_attachment
  | ResourceAttachment message_resource_attachment
  | AnnotationsAttachment message_annotations_attachment
  | ChatAttachment message_chat_attachment

record message =
  msg_text :: "js_string"
  msg_origin :: "message_origin"
  msg_attachments :: "message_attachment list option"
  msg_model :: "model_selection option"
  msg_agent :: "agent_selection option"
  msg_meta :: "json js_record option"

datatype pending_message_kind = SteeringPending | QueuedPending

record pending_message =
  pm_id :: "js_string"
  pm_message :: "message"

section \<open>Input requests\<close>

datatype chat_input_response_kind = AcceptInput | DeclineInput | CancelInput

record chat_input_option =
  inopt_id :: "js_string"
  inopt_label :: "js_string"
  inopt_description :: "js_string option"
  inopt_recommended :: "bool option"

record chat_input_question_base =
  inq_id :: "js_string"
  inq_title :: "js_string option"
  inq_message :: "js_string"
  inq_required :: "bool option"

record chat_input_text_question = chat_input_question_base +
  inqtext_format :: "js_string option"
  inqtext_min :: "js_number option"
  inqtext_max :: "js_number option"
  inqtext_defaultValue :: "js_string option"

record chat_input_number_question = chat_input_question_base +
  inqnum_integer :: "bool"
  inqnum_min :: "js_number option"
  inqnum_max :: "js_number option"
  inqnum_defaultValue :: "js_number option"

record chat_input_boolean_question = chat_input_question_base +
  inqbool_defaultValue :: "bool option"

record chat_input_single_select_question = chat_input_question_base +
  inqsingle_options :: "chat_input_option list"
  inqsingle_allowFreeformInput :: "bool option"

record chat_input_multi_select_question = chat_input_question_base +
  inqmulti_options :: "chat_input_option list"
  inqmulti_allowFreeformInput :: "bool option"
  inqmulti_min :: "js_number option"
  inqmulti_max :: "js_number option"

datatype chat_input_question =
    TextQuestion chat_input_text_question
  | NumberQuestion chat_input_number_question
  | BooleanQuestion chat_input_boolean_question
  | SingleSelectQuestion chat_input_single_select_question
  | MultiSelectQuestion chat_input_multi_select_question

record chat_input_selected_answer_value =
  ansSel_value :: "js_string"
  ansSel_freeformValues :: "js_string list option"

record chat_input_selected_many_answer_value =
  ansMany_value :: "js_string list"
  ansMany_freeformValues :: "js_string list option"

datatype chat_input_answer_value =
    TextAnswer js_string
  | NumberAnswer js_number
  | BooleanAnswer bool
  | SelectedAnswer chat_input_selected_answer_value
  | SelectedManyAnswer chat_input_selected_many_answer_value

datatype chat_input_answer =
    DraftAnswer chat_input_answer_value
  | SubmittedAnswer chat_input_answer_value
  | SkippedAnswer "js_string list option"

record chat_input_request =
  inreq_id :: "js_string"
  inreq_message :: "js_string option"
  inreq_url :: "js_string option"
  inreq_questions :: "chat_input_question list option"
  inreq_answers :: "chat_input_answer js_record option"

section \<open>Tool calls\<close>

datatype tool_call_confirmation_reason = NotNeededReason | UserActionReason | SettingReason

record tool_call_risk_assessment_complete_state =
  risk_reason :: "string_or_markdown"
  risk_safety :: "js_number"

datatype tool_call_risk_assessment =
    RiskLoading
  | RiskComplete tool_call_risk_assessment_complete_state

datatype tool_call_cancellation_reason = DeniedReason | SkippedReason | ResultDeniedReason

datatype confirmation_option_kind = ApproveOption | DenyOption

record confirmation_option =
  copt_id :: "js_string"
  copt_label :: "js_string"
  copt_kind :: "confirmation_option_kind"
  copt_group :: "js_number option"

datatype tool_call_contributor =
    ClientContributor js_string
  | McpContributor js_string

record tool_call_base =
  tc_toolCallId :: "js_string"
  tc_toolName :: "js_string"
  tc_displayName :: "js_string"
  tc_intention :: "js_string option"
  tc_contributor :: "tool_call_contributor option"
  tc_meta :: "json js_record option"

datatype tool_input = InlineInput js_string | InputRef content_ref

record tool_call_parameter_fields =
  tcp_invocationMessage :: "string_or_markdown"
  tcp_toolInput :: "tool_input option"

subsection \<open>Tool results\<close>

record tool_result_embedded_resource_content =
  trEmb_data :: "js_string"
  trEmb_contentType :: "js_string"

record terminal_command_result =
  tcmd_exitCode :: "js_number option"
  tcmd_preview :: "js_string option"
  tcmd_truncated :: "bool option"

record tool_result_terminal_content =
  trTerm_resource :: "js_string"
  trTerm_title :: "js_string"
  trTerm_isPty :: "bool option"
  trTerm_result :: "terminal_command_result option"

record tool_result_subagent_content =
  trSub_resource :: "js_string"
  trSub_title :: "js_string"
  trSub_agentName :: "js_string option"
  trSub_description :: "js_string option"

datatype todo_item_status = TodoNotStarted | TodoInProgress | TodoCompleted

record tool_result_todo_item =
  todo_id :: "js_string"
  todo_title :: "js_string"
  todo_status :: "todo_item_status"

datatype tool_result_content =
    ResultText js_string
  | ResultEmbeddedResource tool_result_embedded_resource_content
  | ResultResource content_ref
  | ResultFileEdit file_edit
  | ResultTerminal tool_result_terminal_content
  | ResultSubagent tool_result_subagent_content
  | ResultTodoList "tool_result_todo_item list"

record tool_call_error =
  tcerr_message :: "js_string"
  tcerr_code :: "js_string option"

record tool_call_result =
  tcr_success :: "bool"
  tcr_pastTenseMessage :: "string_or_markdown"
  tcr_content :: "tool_result_content list option"
  tcr_structuredContent :: "json js_record option"
  tcr_error :: "tool_call_error option"

subsection \<open>Lifecycle states\<close>

record tool_call_streaming_state =
  tcs_partialInput :: "js_string option"
  tcs_invocationMessage :: "string_or_markdown option"

record tool_call_pending_confirmation_state =
  tcpc_confirmationTitle :: "string_or_markdown option"
  tcpc_riskAssessment :: "tool_call_risk_assessment option"
  tcpc_edits :: "file_edit list option"
  tcpc_editable :: "bool option"
  tcpc_options :: "confirmation_option list option"

record tool_call_post_confirmation_fields =
  tcpost_confirmed :: "tool_call_confirmation_reason"
  tcpost_selectedOption :: "confirmation_option option"

record tool_call_running_state =
  tcrun_content :: "tool_result_content list option"

record tool_call_auth_required_state =
  tcauth_auth :: "mcp_auth_requirement"
  tcauth_content :: "tool_result_content list option"

record tool_call_cancelled_state =
  tccan_reason :: "tool_call_cancellation_reason"
  tccan_reasonMessage :: "string_or_markdown option"
  tccan_userSuggestion :: "message option"
  tccan_selectedOption :: "confirmation_option option"

datatype tool_call_state =
    TcStreaming tool_call_base tool_call_streaming_state
  | TcPendingConfirmation tool_call_base tool_call_parameter_fields tool_call_pending_confirmation_state
  | TcRunning tool_call_base tool_call_parameter_fields tool_call_post_confirmation_fields
      tool_call_running_state
  | TcAuthRequired tool_call_base tool_call_parameter_fields tool_call_post_confirmation_fields
      tool_call_auth_required_state
  | TcPendingResultConfirmation tool_call_base tool_call_parameter_fields
      tool_call_post_confirmation_fields tool_call_result
  | TcCompleted tool_call_base tool_call_parameter_fields tool_call_post_confirmation_fields
      tool_call_result
  | TcCancelled tool_call_base tool_call_parameter_fields tool_call_cancelled_state

text \<open>\<open>ToolCallStatus\<close>, the discriminant of the union.\<close>

datatype tool_call_status =
    StStreaming | StPendingConfirmation | StRunning | StAuthRequired
  | StPendingResultConfirmation | StCompleted | StCancelled

fun tc_status :: "tool_call_state \<Rightarrow> tool_call_status" where
  "tc_status (TcStreaming _ _) = StStreaming"
| "tc_status (TcPendingConfirmation _ _ _) = StPendingConfirmation"
| "tc_status (TcRunning _ _ _ _) = StRunning"
| "tc_status (TcAuthRequired _ _ _ _) = StAuthRequired"
| "tc_status (TcPendingResultConfirmation _ _ _ _) = StPendingResultConfirmation"
| "tc_status (TcCompleted _ _ _ _) = StCompleted"
| "tc_status (TcCancelled _ _ _) = StCancelled"

section \<open>Response parts, turns and the chat\<close>

record markdown_response_part =
  mdpart_id :: "js_string"
  mdpart_content :: "js_string"

record reasoning_response_part =
  rpart_id :: "js_string"
  rpart_content :: "js_string"

record input_request_response_part =
  irpart_request :: "chat_input_request"
  irpart_response :: "chat_input_response_kind option"

record system_notification_response_part =
  snpart_content :: "string_or_markdown"
  snpart_meta :: "json js_record option"

datatype response_part =
    MarkdownPart markdown_response_part
  | ContentRefPart content_ref
  | ToolCallPart tool_call_state
  | ReasoningPart reasoning_response_part
  | SystemNotificationPart system_notification_response_part
  | InputRequestPart input_request_response_part

datatype turn_state = TurnComplete | TurnCancelled | TurnError

record turn =
  turn_id :: "js_string"
  turn_startedAt :: "js_string option"
  turn_duration :: "js_number option"
  turn_message :: "message"
  turn_responseParts :: "response_part list"
  turn_usage :: "usage_info option"
  turn_state :: "turn_state"
  turn_error :: "error_info option"

record active_turn =
  aturn_id :: "js_string"
  aturn_startedAt :: "js_string"
  aturn_message :: "message"
  aturn_responseParts :: "response_part list"
  aturn_usage :: "usage_info option"

record chat_state =
  chat_resource :: "js_string"
  chat_title :: "js_string"
  chat_status :: "session_status"
  chat_activity :: "js_string option"
  chat_modifiedAt :: "js_string"
  chat_origin :: "chat_origin option"
  chat_interactivity :: "chat_interactivity option"
  chat_workingDirectories :: "js_string list option"
  chat_turns :: "turn list"
  chat_turnsNextCursor :: "js_string option"
  chat_activeTurn :: "active_turn option"
  chat_steeringMessage :: "pending_message option"
  chat_queuedMessages :: "pending_message list option"
  chat_draft :: "message option"
  chat_meta :: "json js_record option"

end
