(* ===== verification/Chat_Actions.thy ===== *)
theory Chat_Actions
  imports Chat_State
begin

text \<open>
  The actions of a chat channel, \<open>channels-chat/actions.ts\<close>: one record per action
  interface (an action that extends \<open>ToolCallActionBase\<close> extends its record; an
  action's literal \<open>approved\<close> tag is the constructor it is under) and the union
  \<open>ChatAction\<close>. \<open>ChatUnhandled\<close> stands for an action whose \<open>type\<close> is in the chat
  namespace but unknown to this version of the protocol, which the reducer's default branch
  receives.
\<close>

record tool_call_action_base =
  tca_turnId :: "js_string"
  tca_toolCallId :: "js_string"
  tca_meta :: "json js_record option"

record chat_turn_started_action =
  turnStarted_turnId :: "js_string"
  turnStarted_startedAt :: "js_string"
  turnStarted_message :: "message"
  turnStarted_queuedMessageId :: "js_string option"
  turnStarted_meta :: "json js_record option"

record chat_delta_action =
  delta_turnId :: "js_string"
  delta_partId :: "js_string"
  delta_content :: "js_string"
  delta_meta :: "json js_record option"

record chat_response_part_action =
  respPart_turnId :: "js_string"
  respPart_part :: "response_part"
  respPart_meta :: "json js_record option"

record chat_tool_call_start_action = tool_call_action_base +
  tcStart_toolName :: "js_string"
  tcStart_displayName :: "js_string"
  tcStart_intention :: "js_string option"
  tcStart_contributor :: "tool_call_contributor option"

record chat_tool_call_delta_action = tool_call_action_base +
  tcDelta_content :: "js_string option"
  tcDelta_invocationMessage :: "string_or_markdown option"

record chat_tool_call_ready_action = tool_call_action_base +
  tcReady_contributor :: "tool_call_contributor option"
  tcReady_intention :: "js_string option"
  tcReady_invocationMessage :: "string_or_markdown"
  tcReady_toolInput :: "tool_input option"
  tcReady_confirmationTitle :: "string_or_markdown option"
  tcReady_riskAssessment :: "tool_call_risk_assessment option"
  tcReady_edits :: "file_edit list option"
  tcReady_editable :: "bool option"
  tcReady_confirmed :: "tool_call_confirmation_reason option"
  tcReady_options :: "confirmation_option list option"

record chat_tool_call_approved_action = tool_call_action_base +
  tcApproved_confirmed :: "tool_call_confirmation_reason"
  tcApproved_editedToolInput :: "js_string option"
  tcApproved_selectedOptionId :: "js_string option"

record chat_tool_call_denied_action = tool_call_action_base +
  tcDenied_reason :: "tool_call_cancellation_reason"
  tcDenied_userSuggestion :: "message option"
  tcDenied_reasonMessage :: "string_or_markdown option"
  tcDenied_selectedOptionId :: "js_string option"

datatype chat_tool_call_confirmed_action =
    ToolCallApproved chat_tool_call_approved_action
  | ToolCallDenied chat_tool_call_denied_action

record chat_tool_call_complete_action = tool_call_action_base +
  tcComplete_result :: "tool_call_result"
  tcComplete_requiresResultConfirmation :: "bool option"

record chat_tool_call_result_confirmed_action = tool_call_action_base +
  tcResConf_approved :: "bool"

record chat_tool_call_content_changed_action = tool_call_action_base +
  tcContent_content :: "tool_result_content list"

record chat_tool_call_auth_required_action = tool_call_action_base +
  tcAuthReq_auth :: "mcp_auth_requirement"

record chat_turn_complete_action =
  turnComplete_turnId :: "js_string"
  turnComplete_duration :: "js_number"
  turnComplete_meta :: "json js_record option"

record chat_turn_cancelled_action =
  turnCancelled_turnId :: "js_string"
  turnCancelled_duration :: "js_number"
  turnCancelled_meta :: "json js_record option"

record chat_error_action =
  chatErr_turnId :: "js_string"
  chatErr_duration :: "js_number"
  chatErr_error :: "error_info"
  chatErr_meta :: "json js_record option"

record chat_usage_action =
  chatUsage_turnId :: "js_string"
  chatUsage_usage :: "usage_info"
  chatUsage_meta :: "json js_record option"

record chat_reasoning_action =
  reasoning_turnId :: "js_string"
  reasoning_partId :: "js_string"
  reasoning_content :: "js_string"
  reasoning_meta :: "json js_record option"

record chat_truncated_action =
  truncated_turnId :: "js_string option"

record chat_turns_loaded_action =
  loaded_turns :: "turn list"
  loaded_turnsNextCursor :: "js_string option"

record chat_pending_message_set_action =
  pmSet_kind :: "pending_message_kind"
  pmSet_id :: "js_string"
  pmSet_message :: "message"

record chat_pending_message_removed_action =
  pmRem_kind :: "pending_message_kind"
  pmRem_id :: "js_string"

record chat_input_answer_changed_action =
  inAns_requestId :: "js_string"
  inAns_questionId :: "js_string"
  inAns_answer :: "chat_input_answer option"

record chat_input_completed_action =
  inCompl_requestId :: "js_string"
  inCompl_response :: "chat_input_response_kind"
  inCompl_answers :: "chat_input_answer js_record option"

datatype chat_action =
    ChatTurnStarted chat_turn_started_action
  | ChatDelta chat_delta_action
  | ChatResponsePart chat_response_part_action
  | ChatToolCallStart chat_tool_call_start_action
  | ChatToolCallDelta chat_tool_call_delta_action
  | ChatToolCallReady chat_tool_call_ready_action
  | ChatToolCallConfirmed chat_tool_call_confirmed_action
  | ChatToolCallComplete chat_tool_call_complete_action
  | ChatToolCallResultConfirmed chat_tool_call_result_confirmed_action
  | ChatToolCallContentChanged chat_tool_call_content_changed_action
  | ChatToolCallAuthRequired chat_tool_call_auth_required_action
  | ChatToolCallAuthResolved tool_call_action_base
  | ChatTurnComplete chat_turn_complete_action
  | ChatTurnCancelled chat_turn_cancelled_action
  | ChatError chat_error_action
  | ChatActivityChanged "js_string option"
  | ChatWorkingDirectorySet js_string
  | ChatWorkingDirectoryRemoved js_string
  | ChatUsage chat_usage_action
  | ChatReasoning chat_reasoning_action
  | ChatTruncated chat_truncated_action
  | ChatTurnsLoaded chat_turns_loaded_action
  | ChatPendingMessageSet chat_pending_message_set_action
  | ChatPendingMessageRemoved chat_pending_message_removed_action
  | ChatQueuedMessagesReordered "js_string list"
  | ChatDraftChanged "message option"
  | ChatInputRequested chat_input_request
  | ChatInputAnswerChanged chat_input_answer_changed_action
  | ChatInputCompleted chat_input_completed_action
  | ChatUnhandled js_string

end
