(* ===== verification/Timestamps.thy ===== *)
theory Timestamps
  imports Prelude
begin

text \<open>
  \<open>common/timestamps.ts\<close>: \<open>new Date(Date.parse(timestamp) + duration).toISOString()\<close>, with
  the ECMAScript \<open>Date\<close> algorithms it uses. A time value is a number of milliseconds since
  1970-01-01T00:00:00Z in the proleptic Gregorian calendar; \<open>None\<close> is NaN.
  \<open>Date.parse\<close> is modelled on the ECMAScript date-time string format with an explicit UTC
  designator (the format \<open>toISOString\<close> writes and the protocol prescribes); every other
  string, whose reading ECMAScript leaves to the host or its time zone, reads as NaN.
\<close>

section \<open>Days, years and months\<close>

definition ms_per_day :: int where "ms_per_day = 86400000"

text \<open>The day number of the first day of a year (ECMAScript \<open>DayFromYear\<close>).\<close>

definition day_from_year :: "int \<Rightarrow> int" where
  "day_from_year y = 365 * (y - 1970) + (y - 1969) div 4 - (y - 1901) div 100 + (y - 1601) div 400"

definition leap_year :: "int \<Rightarrow> bool" where
  "leap_year y \<longleftrightarrow> y mod 4 = 0 \<and> (y mod 100 \<noteq> 0 \<or> y mod 400 = 0)"

lemma div_step:
  fixes y c k :: int
  assumes "0 < k"
  shows "(y + 1 - c) div k = (y - c) div k + (if (y + 1 - c) mod k = 0 then 1 else 0)"
proof (cases "(y - c) mod k = k - 1")
  case True
  define q where "q = (y - c) div k"
  have "y - c = k * q + (k - 1)"
    using mult_div_mod_eq [of k "y - c"] True by (simp add: q_def)
  then have "y + 1 - c = k * (q + 1)" by (simp add: algebra_simps)
  with assms show ?thesis by (simp add: q_def)
next
  case False
  define q r where "q = (y - c) div k" and "r = (y - c) mod k"
  have r: "0 \<le> r" "r < k" "r \<noteq> k - 1" using assms False by (auto simp: r_def)
  have eq: "y + 1 - c = (r + 1) + k * q"
    using mult_div_mod_eq [of k "y - c"] by (simp add: q_def r_def algebra_simps)
  have "(y + 1 - c) div k = q" "(y + 1 - c) mod k = r + 1"
    unfolding eq using r assms by (auto simp: div_pos_pos_trivial mod_pos_pos_trivial)
  with r show ?thesis by (simp add: q_def)
qed

lemma day_from_year_Suc:
  "day_from_year (y + 1) = day_from_year y + (if leap_year y then 366 else 365)"
proof -
  have shift: "(y + 1 - (j * k + 1)) mod k = y mod k" for j k :: int
  proof -
    have "y + 1 - (j * k + 1) = y + (- j) * k" by simp
    then show ?thesis by (simp only: mod_mult_self1)
  qed
  have d4: "(y + 1 - 1969) mod 4 = y mod 4" using shift [of 492 4] by simp
  have d100: "(y + 1 - 1901) mod 100 = y mod 100" using shift [of 19 100] by simp
  have d400: "(y + 1 - 1601) mod 400 = y mod 400" using shift [of 4 400] by simp
  have a4: "(y + 1 - 1969) div 4 = (y - 1969) div 4 + (if y mod 4 = 0 then 1 else 0)"
    using div_step [of 4 y 1969] unfolding d4 by simp
  have a100: "(y + 1 - 1901) div 100 = (y - 1901) div 100 + (if y mod 100 = 0 then 1 else 0)"
    using div_step [of 100 y 1901] unfolding d100 by simp
  have a400: "(y + 1 - 1601) div 400 = (y - 1601) div 400 + (if y mod 400 = 0 then 1 else 0)"
    using div_step [of 400 y 1601] unfolding d400 by simp
  have i100: "y mod 4 = 0" if "y mod 100 = 0"
    using that dvd_trans [of 4 100 y] by (simp add: mod_eq_0_iff_dvd)
  have i400: "y mod 100 = 0" if "y mod 400 = 0"
    using that dvd_trans [of 100 400 y] by (simp add: mod_eq_0_iff_dvd)
  have count: "365 * (y + 1 - 1970) + (a + (if p then 1 else 0)) - (b + (if q then 1 else 0))
        + (c + (if r then 1 else 0))
      = 365 * (y - 1970) + a - b + c + (if p \<and> (\<not> q \<or> r) then 366 else 365)"
    if "q \<longrightarrow> p" "r \<longrightarrow> q" for a b c :: int and p q r
    using that by (cases p; cases q; cases r) simp_all
  show ?thesis
    unfolding day_from_year_def a4 a100 a400 leap_year_def
    by (rule count) (use i100 i400 in \<open>blast+\<close>)
qed

lemma day_from_year_add: "day_from_year a + 365 * int n \<le> day_from_year (a + int n)"
proof (induction n)
  case (Suc n)
  have "day_from_year (a + int n) + 365 \<le> day_from_year (a + int n + 1)"
    unfolding day_from_year_Suc by simp
  with Suc show ?case by (simp add: add.commute add.left_commute)
qed simp

lemma day_from_year_mono: "a \<le> b \<Longrightarrow> day_from_year a + 365 * (b - a) \<le> day_from_year b"
  using day_from_year_add [of a "nat (b - a)"] by simp

lemma day_from_year_strict: "a < b \<Longrightarrow> day_from_year a < day_from_year b"
  using day_from_year_mono [of a b] by simp

text \<open>
  The year of a day (ECMAScript \<open>YearFromTime\<close>: the largest year that starts no later than
  the day), by an upward search from a lower bound.
\<close>

function year_search :: "int \<Rightarrow> int \<Rightarrow> int" where
  "year_search d y = (if day_from_year (y + 1) \<le> d then year_search d (y + 1) else y)"
  by pat_completeness auto
termination
  by (relation "measure (\<lambda>(d, y). nat (d + 1 - day_from_year y))")
    (auto simp: day_from_year_Suc split: if_splits)

declare year_search.simps [simp del]

definition year_from_day :: "int \<Rightarrow> int" where
  "year_from_day d = year_search d (1970 + (if 0 \<le> d then d div 366 else d div 365))"

lemma year_search_bounds:
  "day_from_year y \<le> d \<Longrightarrow>
   day_from_year (year_search d y) \<le> d \<and> d < day_from_year (year_search d y + 1)"
proof (induction d y rule: year_search.induct)
  case (1 d y)
  then show ?case
    by (cases "day_from_year (y + 1) \<le> d") (auto simp: year_search.simps [of d y])
qed

lemma year_search_start:
  "day_from_year (1970 + (if 0 \<le> d then d div 366 else d div 365)) \<le> d"
proof (cases "0 \<le> d")
  case True
  have le: "day_from_year (1970 + int k) \<le> 366 * int k" for k
  proof (induction k)
    case 0
    show ?case by (simp add: day_from_year_def)
  next
    case (Suc k)
    then show ?case using day_from_year_Suc [of "1970 + int k"] by (auto simp: algebra_simps split: if_splits)
  qed
  obtain k where k: "d div 366 = int k" using True by (metis nonneg_int_cases pos_imp_zdiv_nonneg_iff zero_less_numeral)
  have "366 * int k \<le> d" unfolding k [symmetric] by simp
  with le [of k] True k show ?thesis by simp
next
  case False
  have "day_from_year (1970 + d div 365) + 365 * (- (d div 365)) \<le> day_from_year 1970"
    using False day_from_year_mono [of "1970 + d div 365" 1970] by (simp add: div_neg_pos_less0 less_imp_le)
  moreover have "365 * (d div 365) \<le> d" by simp
  ultimately show ?thesis using False by (simp add: day_from_year_def)
qed

lemma year_from_day_bounds:
  "day_from_year (year_from_day d) \<le> d" "d < day_from_year (year_from_day d + 1)"
  using year_search_bounds [OF year_search_start] by (simp_all add: year_from_day_def)

text \<open>The first day of a month within its year.\<close>

definition month_start :: "bool \<Rightarrow> nat \<Rightarrow> int" where
  "month_start leap m =
     ([0, 31, 59, 90, 120, 151, 181, 212, 243, 273, 304, 334] ! m) + (if leap \<and> 2 \<le> m then 1 else 0)"

text \<open>The month (0 to 11) of a day within its year: the last that starts no later.\<close>

definition month_from_day :: "bool \<Rightarrow> int \<Rightarrow> nat" where
  "month_from_day leap d =
     (case find_index (\<lambda>m. month_start leap m \<le> d) (rev [0..<12]) of Some i \<Rightarrow> 11 - i | None \<Rightarrow> 0)"

lemma upto12: "[0..<12] = [0, 1, 2, 3, 4, 5, 6, 7, 8, 9, 10, 11]"
  by code_simp

lemma month_from_day_bounds:
  assumes "0 \<le> d"
  shows "month_from_day leap d < 12 \<and> month_start leap (month_from_day leap d) \<le> d"
  using assms by (cases leap) (simp_all add: month_from_day_def upto12 month_start_def)

section \<open>Reading and writing decimal fields\<close>

definition decimal_digits :: js_string where "decimal_digits = ''0123456789''"

fun pad_digits :: "nat \<Rightarrow> nat \<Rightarrow> js_string" where
  "pad_digits 0 n = []"
| "pad_digits (Suc w) n = pad_digits w (n div 10) @ [decimal_digits ! (n mod 10)]"

fun read_digits :: "nat \<Rightarrow> js_string \<Rightarrow> nat option" where
  "read_digits acc [] = Some acc"
| "read_digits acc (c # cs) =
     (case find_index (\<lambda>x. x = c) decimal_digits of
        None \<Rightarrow> None | Some d \<Rightarrow> read_digits (acc * 10 + d) cs)"

definition read_field :: "nat \<Rightarrow> js_string \<Rightarrow> (nat \<times> js_string) option" where
  "read_field w s =
     (if w \<le> length s then map_option (\<lambda>n. (n, drop w s)) (read_digits 0 (take w s)) else None)"

definition read_char :: "char \<Rightarrow> js_string \<Rightarrow> js_string option" where
  "read_char c s = (case s of [] \<Rightarrow> None | x # xs \<Rightarrow> if x = c then Some xs else None)"

lemma read_char_Cons [simp]: "read_char c (c # s) = Some s"
  by (simp add: read_char_def)

lemma length_pad_digits [simp]: "length (pad_digits w n) = w"
  by (induction w arbitrary: n) simp_all

lemma digit_index: "d < 10 \<Longrightarrow> find_index (\<lambda>x. x = decimal_digits ! d) decimal_digits = Some d"
proof -
  assume "d < 10"
  then have "d \<in> set [0..<10]" by simp
  moreover have "\<forall>d \<in> set [0..<10]. find_index (\<lambda>x. x = decimal_digits ! d) decimal_digits = Some d"
    by code_simp
  ultimately show ?thesis by blast
qed

lemma read_digits_append:
  "read_digits acc (s @ t) = Option.bind (read_digits acc s) (\<lambda>n. read_digits n t)"
  by (induction acc s rule: read_digits.induct) (auto split: option.splits)

lemma read_pad_digits: "n < 10 ^ w \<Longrightarrow> read_digits 0 (pad_digits w n) = Some n"
proof (induction w arbitrary: n)
  case (Suc w)
  then have "n div 10 < 10 ^ w" by (simp add: less_mult_imp_div_less mult.commute)
  from Suc.IH [OF this] show ?case by (simp add: read_digits_append digit_index)
qed simp

lemma read_field_pad: "n < 10 ^ w \<Longrightarrow> read_field w (pad_digits w n @ s) = Some (n, s)"
  by (simp add: read_field_def read_pad_digits)

section \<open>\<open>Date.parse\<close> and \<open>toISOString\<close>\<close>

definition max_time :: int where "max_time = 8640000000000000"

definition read_year :: "js_string \<Rightarrow> (int \<times> js_string) option" where
  "read_year s = (case s of
     [] \<Rightarrow> None
   | c # r \<Rightarrow>
      if c = CHR ''+'' then map_option (\<lambda>(n, r). (int n, r)) (read_field 6 r)
      else if c = CHR ''-'' then map_option (\<lambda>(n, r). (- int n, r)) (read_field 6 r)
      else map_option (\<lambda>(n, r). (int n, r)) (read_field 4 s))"

definition read_fraction :: "js_string \<Rightarrow> (nat \<times> js_string) option" where
  "read_fraction s =
     (case read_char (CHR ''.'') s of Some r \<Rightarrow> read_field 3 r | None \<Rightarrow> Some (0, s))"

definition make_time :: "int \<Rightarrow> nat \<Rightarrow> nat \<Rightarrow> nat \<Rightarrow> nat \<Rightarrow> nat \<Rightarrow> nat \<Rightarrow> int option" where
  "make_time y mo d h mi s ms =
     (let t = (day_from_year y + month_start (leap_year y) (mo - 1) + int d - 1) * ms_per_day
            + int h * 3600000 + int mi * 60000 + int s * 1000 + int ms
      in if 1 \<le> mo \<and> mo \<le> 12 \<and> 1 \<le> d \<and> d \<le> 31 \<and> mi \<le> 59 \<and> s \<le> 59
           \<and> (h \<le> 23 \<or> h = 24 \<and> mi = 0 \<and> s = 0 \<and> ms = 0) \<and> \<bar>t\<bar> \<le> max_time
         then Some t else None)"

definition date_parse :: "js_string \<Rightarrow> int option" where
  "date_parse str =
     Option.bind (read_year str) (\<lambda>(y, r0).
     Option.bind (read_char (CHR ''-'') r0) (\<lambda>r1.
     Option.bind (read_field 2 r1) (\<lambda>(mo, r2).
     Option.bind (read_char (CHR ''-'') r2) (\<lambda>r3.
     Option.bind (read_field 2 r3) (\<lambda>(d, r4).
     Option.bind (read_char (CHR ''T'') r4) (\<lambda>r5.
     Option.bind (read_field 2 r5) (\<lambda>(h, r6).
     Option.bind (read_char (CHR '':'') r6) (\<lambda>r7.
     Option.bind (read_field 2 r7) (\<lambda>(mi, r8).
     Option.bind (read_char (CHR '':'') r8) (\<lambda>r9.
     Option.bind (read_field 2 r9) (\<lambda>(s, r10).
     Option.bind (read_fraction r10) (\<lambda>(ms, r11).
     if r11 = ''Z'' then make_time y mo d h mi s ms else None))))))))))))"

definition year_string :: "int \<Rightarrow> js_string" where
  "year_string y =
     (if 0 \<le> y \<and> y \<le> 9999 then pad_digits 4 (nat y)
      else (if y < 0 then CHR ''-'' else CHR ''+'') # pad_digits 6 (nat \<bar>y\<bar>))"

definition iso_format :: "int \<Rightarrow> js_string" where
  "iso_format t =
     (let d = t div ms_per_day; r = nat (t mod ms_per_day);
          y = year_from_day d; leap = leap_year y; yd = d - day_from_year y;
          m = month_from_day leap yd; dt = nat (yd - month_start leap m + 1)
      in year_string y @ CHR ''-'' # pad_digits 2 (m + 1) @ CHR ''-'' # pad_digits 2 dt
         @ CHR ''T'' # pad_digits 2 (r div 3600000) @ CHR '':'' # pad_digits 2 (r div 60000 mod 60)
         @ CHR '':'' # pad_digits 2 (r div 1000 mod 60) @ CHR ''.'' # pad_digits 3 (r mod 1000) @ ''Z'')"

text \<open>
  \<open>new Date(v).toISOString()\<close>: the time value is clipped to the representable range (outside
  it the date is invalid) and truncated to an integer; an invalid date throws.
\<close>

definition to_iso_string :: "js_number option \<Rightarrow> js_string js_result" where
  "to_iso_string v = (case v of
     None \<Rightarrow> Inl (RangeError ''Invalid time value'')
   | Some x \<Rightarrow>
      if \<bar>x\<bar> \<le> of_int max_time then Inr (iso_format (if 0 \<le> x then \<lfloor>x\<rfloor> else \<lceil>x\<rceil>))
      else Inl (RangeError ''Invalid time value''))"

definition addMillisecondsToTimestamp :: "js_string \<Rightarrow> js_number \<Rightarrow> js_string js_result" where
  "addMillisecondsToTimestamp timestamp duration =
     to_iso_string (map_option (\<lambda>t. of_int t + duration) (date_parse timestamp))"

section \<open>Round trip\<close>

lemma year_bounds:
  assumes "\<bar>t\<bar> \<le> max_time"
  shows "\<bar>year_from_day (t div ms_per_day)\<bar> \<le> 300000"
proof -
  define d where "d = t div ms_per_day"
  have d: "- 100000001 \<le> d" "d \<le> 100000000"
    using assms by (auto simp: d_def max_time_def ms_per_day_def abs_le_iff)
  define y where "y = year_from_day d"
  note b = year_from_day_bounds [of d, folded y_def]
  have z: "day_from_year 1970 = 0" by (simp add: day_from_year_def)
  have "y \<le> 300000"
  proof (rule ccontr)
    assume "\<not> y \<le> 300000"
    then show False using day_from_year_mono [of 1970 y] b(1) d z by simp
  qed
  moreover have "- 300000 \<le> y"
  proof (rule ccontr)
    assume "\<not> - 300000 \<le> y"
    then show False using day_from_year_mono [of "y + 1" 1970] b(2) d z by simp
  qed
  ultimately show ?thesis by (simp add: y_def d_def)
qed

lemma set_pad_digits: "set (pad_digits w n) \<subseteq> set decimal_digits"
proof (induction w arbitrary: n)
  case (Suc w)
  have "n mod 10 < length decimal_digits" by (simp add: decimal_digits_def)
  then have "decimal_digits ! (n mod 10) \<in> set decimal_digits" by (rule nth_mem)
  with Suc show ?case by auto
qed simp

lemma read_year_string:
  assumes "\<bar>y\<bar> \<le> 300000"
  shows "read_year (year_string y @ s) = Some (y, s)"
proof (cases "0 \<le> y \<and> y \<le> 9999")
  case True
  obtain c r where cr: "pad_digits 4 (nat y) = c # r"
    by (metis length_pad_digits list.exhaust list.size(3) zero_neq_numeral)
  have "c \<in> set decimal_digits" using set_pad_digits [of 4 "nat y"] cr by simp
  then have "c \<noteq> CHR ''+''" "c \<noteq> CHR ''-''" by (auto simp: decimal_digits_def)
  moreover have "read_field 4 (c # r @ s) = Some (nat y, s)"
    using read_field_pad [of "nat y" 4 s] True cr by (simp add: nat_less_iff)
  ultimately show ?thesis using True cr by (simp add: read_year_def year_string_def)
next
  case False
  then show ?thesis
    using assms read_field_pad [of "nat \<bar>y\<bar>" 6 s] by (auto simp: read_year_def year_string_def)
qed

lemma time_of_day_fields:
  fixes r :: nat
  shows "int (r div 3600000) * 3600000 + int (r div 60000 mod 60) * 60000
       + int (r div 1000 mod 60) * 1000 + int (r mod 1000) = int r"
proof -
  have "r = r div 1000 * 1000 + r mod 1000" by simp
  moreover have "r div 1000 = r div 60000 * 60 + r div 1000 mod 60"
    using div_mult_mod_eq [of "r div 1000" 60] by (simp add: div_mult2_eq [symmetric])
  moreover have "r div 60000 = r div 3600000 * 60 + r div 60000 mod 60"
    using div_mult_mod_eq [of "r div 60000" 60] by (simp add: div_mult2_eq [symmetric])
  ultimately show ?thesis by linarith
qed

lemma month_day_bounds:
  assumes "0 \<le> yd" and "yd < (if leap then 366 else 365)"
  shows "yd - month_start leap (month_from_day leap yd) < 31"
  using assms by (cases leap) (simp_all add: month_from_day_def upto12 month_start_def)

theorem date_parse_iso_format:
  assumes t: "\<bar>t\<bar> \<le> max_time"
  shows "date_parse (iso_format t) = Some t"
proof -
  define d where "d = t div ms_per_day"
  define r where "r = nat (t mod ms_per_day)"
  define y where "y = year_from_day d"
  define leap where "leap = leap_year y"
  define yd where "yd = d - day_from_year y"
  define m where "m = month_from_day leap yd"
  define dt where "dt = nat (yd - month_start leap m + 1)"
  have yd: "0 \<le> yd" "yd < (if leap then 366 else 365)"
    using year_from_day_bounds [of d] day_from_year_Suc [of y]
    by (auto simp: yd_def leap_def y_def)
  have m: "m < 12" "month_start leap m \<le> yd"
    using month_from_day_bounds [OF yd(1), of leap] by (simp_all add: m_def)
  have dt: "int dt = yd - month_start leap m + 1" "1 \<le> dt" "dt \<le> 31"
    using m month_day_bounds [OF yd] by (auto simp: dt_def m_def [symmetric])
  have r: "r < 86400000" "int r = t mod ms_per_day"
    by (simp_all add: r_def ms_per_day_def nat_less_iff)
  have fields: "r div 3600000 < 24" "r div 60000 mod 60 < 60" "r div 1000 mod 60 < 60" "r mod 1000 < 1000"
    using r(1) by (simp_all add: less_mult_imp_div_less)
  have le59: "x mod 60 \<le> 59" for x :: nat
    using mod_less_divisor [of 60 x] by linarith
  have "(d * ms_per_day) + int r = t" by (simp add: d_def r(2))
  then have total: "(day_from_year y + month_start leap m + int dt - 1) * ms_per_day
      + int (r div 3600000) * 3600000 + int (r div 60000 mod 60) * 60000
      + int (r div 1000 mod 60) * 1000 + int (r mod 1000) = t"
    using time_of_day_fields [of r] by (simp add: dt yd_def algebra_simps)
  have "make_time y (m + 1) dt (r div 3600000) (r div 60000 mod 60) (r div 1000 mod 60) (r mod 1000) = Some t"
    unfolding make_time_def Let_def leap_def [symmetric] add_diff_cancel_right' total
    using m dt fields t le59 by simp
  moreover have "\<bar>y\<bar> \<le> 300000" using year_bounds [OF t] by (simp add: y_def d_def)
  ultimately show ?thesis
    unfolding date_parse_def iso_format_def Let_def d_def [symmetric] r_def [symmetric] y_def [symmetric]
      leap_def [symmetric] yd_def [symmetric] m_def [symmetric] dt_def [symmetric]
    using m dt fields by (simp add: read_year_string read_field_pad read_fraction_def)
qed

end
