(* ===== verification/Chat_Reducer.thy ===== *)
theory Chat_Reducer
  imports Chat_Actions Timestamps
begin

text \<open>
  The chat reducer, \<open>channels-chat/reducer.ts\<close>: one definition per helper and per case of
  the switch, composed by \<open>chatReducer\<close>. A reducer never mutates its argument, so a case that
  returns \<open>state\<close> is the identity; a reference comparison \<open>updated === part.toolCall\<close>
  that only avoids copying is a comparison of values here. Ending a turn computes a
  timestamp and may throw, so those cases return a \<open>js_result\<close>. Logging is not modelled.
\<close>

section \<open>Helpers\<close>

fun tcBase :: "tool_call_state \<Rightarrow> tool_call_base" where
  "tcBase (TcStreaming b _) = b"
| "tcBase (TcPendingConfirmation b _ _) = b"
| "tcBase (TcRunning b _ _ _) = b"
| "tcBase (TcAuthRequired b _ _ _) = b"
| "tcBase (TcPendingResultConfirmation b _ _ _) = b"
| "tcBase (TcCompleted b _ _ _) = b"
| "tcBase (TcCancelled b _ _) = b"

definition tcBaseWithMeta :: "tool_call_state \<Rightarrow> json js_record option \<Rightarrow> tool_call_base" where
  "tcBaseWithMeta tc meta = (tcBase tc)\<lparr>tc_meta := orelse meta (tc_meta (tcBase tc))\<rparr>"

definition refineToolCallContributor ::
    "tool_call_contributor option \<Rightarrow> tool_call_contributor option \<Rightarrow> tool_call_contributor option" where
  "refineToolCallContributor current nxt =
     (case nxt of
        None \<Rightarrow> current
      | Some n \<Rightarrow>
         (case current of
            Some (ClientContributor clientId) \<Rightarrow>
              (case n of
                 ClientContributor c \<Rightarrow> if c = clientId then nxt else current
               | McpContributor _ \<Rightarrow> current)
          | _ \<Rightarrow> (case n of ClientContributor _ \<Rightarrow> current | McpContributor _ \<Rightarrow> nxt)))"

definition resolveSelectedOption ::
    "confirmation_option list option \<Rightarrow> js_string option \<Rightarrow> confirmation_option option" where
  "resolveSelectedOption options oid =
     (if \<not> truthy_string oid then None
      else case options of None \<Rightarrow> None | Some os \<Rightarrow> find (\<lambda>opt. Some (copt_id opt) = oid) os)"

definition blocking_part :: "response_part \<Rightarrow> bool" where
  "blocking_part part =
     (case part of
        ToolCallPart tc \<Rightarrow> tc_status tc = StPendingConfirmation
          \<or> tc_status tc = StPendingResultConfirmation \<or> tc_status tc = StAuthRequired
      | _ \<Rightarrow> False)"

definition hasBlockingToolCall :: "chat_state \<Rightarrow> bool" where
  "hasBlockingToolCall state =
     (case chat_activeTurn state of None \<Rightarrow> False | Some t \<Rightarrow> list_ex blocking_part (aturn_responseParts t))"

definition open_input_part :: "response_part \<Rightarrow> bool" where
  "open_input_part part = (case part of InputRequestPart p \<Rightarrow> irpart_response p = None | _ \<Rightarrow> False)"

definition hasOpenInputRequest :: "chat_state \<Rightarrow> bool" where
  "hasOpenInputRequest state =
     (case chat_activeTurn state of None \<Rightarrow> False | Some t \<Rightarrow> list_ex open_input_part (aturn_responseParts t))"

definition open_request_with_id :: "js_string \<Rightarrow> response_part \<Rightarrow> bool" where
  "open_request_with_id requestId part =
     (case part of
        InputRequestPart p \<Rightarrow> irpart_response p = None \<and> inreq_id (irpart_request p) = requestId
      | _ \<Rightarrow> False)"

definition findOpenInputRequestPart ::
    "response_part list \<Rightarrow> js_string \<Rightarrow> (nat \<times> input_request_response_part) option" where
  "findOpenInputRequestPart parts requestId =
     (case find_index (open_request_with_id requestId) parts of
        None \<Rightarrow> None
      | Some i \<Rightarrow> (case parts ! i of InputRequestPart p \<Rightarrow> Some (i, p) | _ \<Rightarrow> None))"

definition summaryStatus :: "chat_state \<Rightarrow> session_status option \<Rightarrow> session_status" where
  "summaryStatus state terminalStatus =
     withActivity (chat_status state)
       (if terminalStatus \<noteq> None \<and> terminalStatus \<noteq> Some 0 then the terminalStatus
        else if hasOpenInputRequest state \<or> hasBlockingToolCall state then status_InputNeeded
        else if chat_activeTurn state \<noteq> None then status_InProgress
        else status_Idle)"

definition refreshSummaryStatus :: "chat_state \<Rightarrow> chat_state" where
  "refreshSummaryStatus state =
     (let status = summaryStatus state None
      in if status = chat_status state then state else state\<lparr>chat_status := status\<rparr>)"

text \<open>The parameters of a tool call that is forced into the cancelled state.\<close>

fun cancelled_parameters :: "tool_call_state \<Rightarrow> tool_call_parameter_fields" where
  "cancelled_parameters (TcStreaming _ s) =
     \<lparr>tcp_invocationMessage = or_default (tcs_invocationMessage s) (PlainText []), tcp_toolInput = None\<rparr>"
| "cancelled_parameters (TcPendingConfirmation _ p _) = p"
| "cancelled_parameters (TcRunning _ p _ _) = p"
| "cancelled_parameters (TcAuthRequired _ p _ _) = p"
| "cancelled_parameters (TcPendingResultConfirmation _ p _ _) = p"
| "cancelled_parameters (TcCompleted _ p _ _) = p"
| "cancelled_parameters (TcCancelled _ p _) = p"

definition finalize_part :: "response_part \<Rightarrow> response_part" where
  "finalize_part part =
     (case part of
        ToolCallPart tc \<Rightarrow>
          if tc_status tc = StCompleted \<or> tc_status tc = StCancelled then part
          else ToolCallPart (TcCancelled (tcBase tc) (cancelled_parameters tc)
                 \<lparr>tccan_reason = SkippedReason, tccan_reasonMessage = None,
                  tccan_userSuggestion = None, tccan_selectedOption = None\<rparr>)
      | _ \<Rightarrow> part)"

definition endTurn ::
    "chat_state \<Rightarrow> js_string \<Rightarrow> turn_state \<Rightarrow> js_number \<Rightarrow> session_status option \<Rightarrow> error_info option
     \<Rightarrow> chat_state js_result" where
  "endTurn state turnId turnState duration terminalStatus error =
     (case chat_activeTurn state of
        None \<Rightarrow> Inr state
      | Some active \<Rightarrow>
          if aturn_id active \<noteq> turnId then Inr state
          else
            let turn = \<lparr>turn_id = aturn_id active,
                  turn_startedAt = Some (aturn_startedAt active),
                  turn_duration = Some (max 0 duration),
                  turn_message = aturn_message active,
                  turn_responseParts = map finalize_part (aturn_responseParts active),
                  turn_usage = aturn_usage active,
                  turn_state = turnState,
                  turn_error = error\<rparr>
            in js_map
                 (\<lambda>modifiedAt.
                    let nxt = state\<lparr>chat_turns := chat_turns state @ [turn],
                          chat_activeTurn := None, chat_modifiedAt := modifiedAt\<rparr>
                    in nxt\<lparr>chat_status := summaryStatus nxt terminalStatus\<rparr>)
                 (addMillisecondsToTimestamp (aturn_startedAt active) (or_default (turn_duration turn) 0)))"

definition set_active_turn :: "chat_state \<Rightarrow> active_turn \<Rightarrow> chat_state" where
  "set_active_turn state t = state\<lparr>chat_activeTurn := Some t\<rparr>"

definition set_active_parts :: "chat_state \<Rightarrow> active_turn \<Rightarrow> response_part list \<Rightarrow> chat_state" where
  "set_active_parts state t parts = set_active_turn state (t\<lparr>aturn_responseParts := parts\<rparr>)"

definition upsertInputRequestPart :: "chat_state \<Rightarrow> chat_input_request \<Rightarrow> chat_state" where
  "upsertInputRequestPart state request =
     (case chat_activeTurn state of
        None \<Rightarrow> state
      | Some t \<Rightarrow>
          let parts =
            (case findOpenInputRequestPart (aturn_responseParts t) (inreq_id request) of
               Some (i, existing) \<Rightarrow>
                 (aturn_responseParts t)[i := InputRequestPart
                    \<lparr>irpart_request = request\<lparr>inreq_answers :=
                        orelse (inreq_answers request) (inreq_answers (irpart_request existing))\<rparr>,
                     irpart_response = None\<rparr>]
             | None \<Rightarrow> aturn_responseParts t @
                 [InputRequestPart \<lparr>irpart_request = request, irpart_response = None\<rparr>]);
            nxt = set_active_parts state t parts
          in nxt\<lparr>chat_status := withStatusFlag (summaryStatus nxt None) status_IsRead False\<rparr>)"

definition update_tool_call_part ::
    "js_string \<Rightarrow> (tool_call_state \<Rightarrow> tool_call_state) \<Rightarrow> response_part \<Rightarrow> response_part" where
  "update_tool_call_part toolCallId updater part =
     (case part of
        ToolCallPart tc \<Rightarrow>
          if tc_toolCallId (tcBase tc) = toolCallId then ToolCallPart (updater tc) else part
      | _ \<Rightarrow> part)"

definition updateToolCallInParts ::
    "chat_state \<Rightarrow> js_string \<Rightarrow> js_string \<Rightarrow> (tool_call_state \<Rightarrow> tool_call_state) \<Rightarrow> chat_state" where
  "updateToolCallInParts state turnId toolCallId updater =
     (case chat_activeTurn state of
        None \<Rightarrow> state
      | Some t \<Rightarrow>
          if aturn_id t \<noteq> turnId then state
          else
            let parts = map (update_tool_call_part toolCallId updater) (aturn_responseParts t)
            in if parts = aturn_responseParts t then state else set_active_parts state t parts)"

definition response_part_id :: "response_part \<Rightarrow> js_string option" where
  "response_part_id part =
     (case part of
        ToolCallPart tc \<Rightarrow> Some (tc_toolCallId (tcBase tc))
      | MarkdownPart p \<Rightarrow> Some (mdpart_id p)
      | ReasoningPart p \<Rightarrow> Some (rpart_id p)
      | _ \<Rightarrow> None)"

definition updateResponsePart ::
    "chat_state \<Rightarrow> js_string \<Rightarrow> js_string \<Rightarrow> (response_part \<Rightarrow> response_part) \<Rightarrow> chat_state" where
  "updateResponsePart state turnId partId updater =
     (case chat_activeTurn state of
        None \<Rightarrow> state
      | Some t \<Rightarrow>
          if aturn_id t \<noteq> turnId then state
          else (case find_index (\<lambda>p. response_part_id p = Some partId) (aturn_responseParts t) of
                  None \<Rightarrow> state
                | Some i \<Rightarrow> set_active_parts state t
                    ((aturn_responseParts t)[i := updater (aturn_responseParts t ! i)])))"

section \<open>Turn lifecycle\<close>

definition remove_queued :: "js_string \<Rightarrow> pending_message list \<Rightarrow> pending_message list option" where
  "remove_queued mid ms =
     (let filtered = filter (\<lambda>m. pm_id m \<noteq> mid) ms in if filtered \<noteq> [] then Some filtered else None)"

definition chatTurnStarted :: "chat_state \<Rightarrow> chat_turn_started_action \<Rightarrow> chat_state" where
  "chatTurnStarted state a =
     (let n1 = state\<lparr>chat_activeTurn := Some \<lparr>aturn_id = turnStarted_turnId a,
                  aturn_startedAt = turnStarted_startedAt a, aturn_message = turnStarted_message a,
                  aturn_responseParts = [], aturn_usage = None\<rparr>\<rparr>;
          n2 = n1\<lparr>chat_status := withStatusFlag (summaryStatus n1 None) status_IsRead False,
                  chat_modifiedAt := turnStarted_startedAt a\<rparr>
      in if \<not> truthy_string (turnStarted_queuedMessageId a) then n2
         else
           let mid = the (turnStarted_queuedMessageId a);
               n3 = (if map_option pm_id (chat_steeringMessage n2) = Some mid
                     then n2\<lparr>chat_steeringMessage := None\<rparr> else n2)
           in (case chat_queuedMessages n3 of
                 None \<Rightarrow> n3
               | Some ms \<Rightarrow> n3\<lparr>chat_queuedMessages := remove_queued mid ms\<rparr>))"

definition append_markdown :: "js_string \<Rightarrow> response_part \<Rightarrow> response_part" where
  "append_markdown content part =
     (case part of
        MarkdownPart p \<Rightarrow> MarkdownPart (p\<lparr>mdpart_content := mdpart_content p @ content\<rparr>)
      | _ \<Rightarrow> part)"

definition append_reasoning :: "js_string \<Rightarrow> response_part \<Rightarrow> response_part" where
  "append_reasoning content part =
     (case part of
        ReasoningPart p \<Rightarrow> ReasoningPart (p\<lparr>rpart_content := rpart_content p @ content\<rparr>)
      | _ \<Rightarrow> part)"

definition in_active_turn :: "chat_state \<Rightarrow> js_string \<Rightarrow> (active_turn \<Rightarrow> active_turn) \<Rightarrow> chat_state" where
  "in_active_turn state turnId f =
     (case chat_activeTurn state of
        None \<Rightarrow> state
      | Some t \<Rightarrow> if aturn_id t \<noteq> turnId then state else set_active_turn state (f t))"

definition append_part :: "response_part \<Rightarrow> active_turn \<Rightarrow> active_turn" where
  "append_part part t = t\<lparr>aturn_responseParts := aturn_responseParts t @ [part]\<rparr>"

section \<open>Working directories\<close>

definition add_directory :: "js_string list option \<Rightarrow> js_string \<Rightarrow> js_string list option" where
  "add_directory dirs d =
     (let list = or_default dirs [] in if d \<in> set list then dirs else Some (list @ [d]))"

definition remove_directory :: "js_string list option \<Rightarrow> js_string \<Rightarrow> js_string list option" where
  "remove_directory dirs d =
     (case dirs of
        None \<Rightarrow> None
      | Some list \<Rightarrow>
         (case find_index (\<lambda>x. x = d) list of
            None \<Rightarrow> dirs
          | Some i \<Rightarrow> Some (remove_at i list)))"

section \<open>Tool call state machine\<close>

definition streaming_tool_call :: "chat_tool_call_start_action \<Rightarrow> tool_call_state" where
  "streaming_tool_call a =
     TcStreaming \<lparr>tc_toolCallId = tca_toolCallId a, tc_toolName = tcStart_toolName a,
       tc_displayName = tcStart_displayName a, tc_intention = tcStart_intention a,
       tc_contributor = tcStart_contributor a, tc_meta = tca_meta a\<rparr>
       \<lparr>tcs_partialInput = None, tcs_invocationMessage = None\<rparr>"

fun toolCallDelta :: "chat_tool_call_delta_action \<Rightarrow> tool_call_state \<Rightarrow> tool_call_state" where
  "toolCallDelta a (TcStreaming b s) =
     TcStreaming (b\<lparr>tc_meta := orelse (tca_meta a) (tc_meta b)\<rparr>)
       (s\<lparr>tcs_partialInput :=
             (case tcDelta_content a of
                Some c \<Rightarrow> Some (or_default (tcs_partialInput s) [] @ c) | None \<Rightarrow> tcs_partialInput s),
          tcs_invocationMessage := orelse (tcDelta_invocationMessage a) (tcs_invocationMessage s)\<rparr>)"
| "toolCallDelta a tc = tc"

definition ready_base :: "chat_tool_call_ready_action \<Rightarrow> tool_call_state \<Rightarrow> tool_call_base" where
  "ready_base a tc =
     (tcBaseWithMeta tc (tca_meta a))
       \<lparr>tc_contributor := refineToolCallContributor (tc_contributor (tcBase tc)) (tcReady_contributor a),
        tc_intention := orelse (tcReady_intention a) (tc_intention (tcBase tc))\<rparr>"

definition ready_transition ::
    "chat_tool_call_ready_action \<Rightarrow> tool_call_state \<Rightarrow> tool_input option
     \<Rightarrow> tool_call_pending_confirmation_state option \<Rightarrow> tool_call_state" where
  "ready_transition a tc currentInput pending =
     (let params = \<lparr>tcp_invocationMessage = tcReady_invocationMessage a,
                    tcp_toolInput = orelse (tcReady_toolInput a) currentInput\<rparr>
      in case tcReady_confirmed a of
           Some reason \<Rightarrow>
             TcRunning (ready_base a tc) params
               \<lparr>tcpost_confirmed = reason, tcpost_selectedOption = None\<rparr> \<lparr>tcrun_content = None\<rparr>
         | None \<Rightarrow>
             TcPendingConfirmation (ready_base a tc) params
               \<lparr>tcpc_confirmationTitle =
                   orelse (tcReady_confirmationTitle a) (Option.bind pending tcpc_confirmationTitle),
                tcpc_riskAssessment =
                   orelse (tcReady_riskAssessment a) (Option.bind pending tcpc_riskAssessment),
                tcpc_edits = orelse (tcReady_edits a) (Option.bind pending tcpc_edits),
                tcpc_editable = orelse (tcReady_editable a) (Option.bind pending tcpc_editable),
                tcpc_options = orelse (tcReady_options a) (Option.bind pending tcpc_options)\<rparr>)"

definition toolCallReady :: "chat_tool_call_ready_action \<Rightarrow> tool_call_state \<Rightarrow> tool_call_state" where
  "toolCallReady a tc =
     (case tc of
        TcStreaming _ _ \<Rightarrow> ready_transition a tc None None
      | TcRunning _ p _ _ \<Rightarrow> ready_transition a tc (tcp_toolInput p) None
      | TcPendingConfirmation _ p pc \<Rightarrow> ready_transition a tc (tcp_toolInput p) (Some pc)
      | _ \<Rightarrow> tc)"

definition toolCallConfirmed :: "chat_tool_call_confirmed_action \<Rightarrow> tool_call_state \<Rightarrow> tool_call_state" where
  "toolCallConfirmed act tc =
     (case tc of
        TcPendingConfirmation _ p pc \<Rightarrow>
         (case act of
            ToolCallApproved a \<Rightarrow>
              TcRunning (tcBaseWithMeta tc (tca_meta a))
                (p\<lparr>tcp_toolInput :=
                    (case (tcApproved_editedToolInput a, tcp_toolInput p) of
                       (Some e, Some (InlineInput _)) \<Rightarrow> Some (InlineInput e)
                     | _ \<Rightarrow> tcp_toolInput p)\<rparr>)
                \<lparr>tcpost_confirmed = tcApproved_confirmed a,
                 tcpost_selectedOption = resolveSelectedOption (tcpc_options pc) (tcApproved_selectedOptionId a)\<rparr>
                \<lparr>tcrun_content = None\<rparr>
          | ToolCallDenied a \<Rightarrow>
              TcCancelled (tcBaseWithMeta tc (tca_meta a)) p
                \<lparr>tccan_reason = tcDenied_reason a, tccan_reasonMessage = tcDenied_reasonMessage a,
                 tccan_userSuggestion = tcDenied_userSuggestion a,
                 tccan_selectedOption = resolveSelectedOption (tcpc_options pc) (tcDenied_selectedOptionId a)\<rparr>)
      | _ \<Rightarrow> tc)"

text \<open>
  \<open>{ ...(preAuthContent ? { content: preAuthContent } : {}), ...action.result }\<close>: the result's
  own content wins when it has one.
\<close>

definition with_content :: "tool_result_content list option \<Rightarrow> tool_call_result \<Rightarrow> tool_call_result" where
  "with_content content result = result\<lparr>tcr_content := orelse (tcr_content result) content\<rparr>"

definition toolCallComplete :: "chat_tool_call_complete_action \<Rightarrow> tool_call_state \<Rightarrow> tool_call_state" where
  "toolCallComplete a tc =
     (let base = tcBaseWithMeta tc (tca_meta a);
          result = tcComplete_result a;
          review = tcComplete_requiresResultConfirmation a = Some True
      in case tc of
        TcRunning _ p post _ \<Rightarrow>
          (if review then TcPendingResultConfirmation base p post result
           else TcCompleted base p post result)
      | TcPendingConfirmation _ p _ \<Rightarrow>
          (let post = \<lparr>tcpost_confirmed = NotNeededReason, tcpost_selectedOption = None\<rparr>
           in if review then TcPendingResultConfirmation base p post result
              else TcCompleted base p post result)
      | TcAuthRequired _ p post au \<Rightarrow>
          (if tcr_success result then tc
           else TcCompleted base p post (with_content (tcauth_content au) result))
      | _ \<Rightarrow> tc)"

definition toolCallResultConfirmed ::
    "chat_tool_call_result_confirmed_action \<Rightarrow> tool_call_state \<Rightarrow> tool_call_state" where
  "toolCallResultConfirmed a tc =
     (case tc of
        TcPendingResultConfirmation _ p post result \<Rightarrow>
          (if tcResConf_approved a then TcCompleted (tcBaseWithMeta tc (tca_meta a)) p post result
           else TcCancelled (tcBaseWithMeta tc (tca_meta a)) p
                  \<lparr>tccan_reason = ResultDeniedReason, tccan_reasonMessage = None,
                   tccan_userSuggestion = None, tccan_selectedOption = tcpost_selectedOption post\<rparr>)
      | _ \<Rightarrow> tc)"

definition toolCallContentChanged ::
    "chat_tool_call_content_changed_action \<Rightarrow> tool_call_state \<Rightarrow> tool_call_state" where
  "toolCallContentChanged a tc =
     (case tc of
        TcRunning _ p post _ \<Rightarrow>
          TcRunning (tcBaseWithMeta tc (tca_meta a)) p post \<lparr>tcrun_content = Some (tcContent_content a)\<rparr>
      | _ \<Rightarrow> tc)"

definition is_mcp :: "tool_call_contributor option \<Rightarrow> bool" where
  "is_mcp c = (case c of Some (McpContributor _) \<Rightarrow> True | _ \<Rightarrow> False)"

definition toolCallAuthRequired ::
    "chat_tool_call_auth_required_action \<Rightarrow> tool_call_state \<Rightarrow> tool_call_state" where
  "toolCallAuthRequired a tc =
     (case tc of
        TcRunning b p post run \<Rightarrow>
          (if \<not> is_mcp (tc_contributor b) then tc
           else TcAuthRequired (tcBaseWithMeta tc (tca_meta a)) p post
                  \<lparr>tcauth_auth = tcAuthReq_auth a, tcauth_content = tcrun_content run\<rparr>)
      | _ \<Rightarrow> tc)"

definition toolCallAuthResolved :: "tool_call_action_base \<Rightarrow> tool_call_state \<Rightarrow> tool_call_state" where
  "toolCallAuthResolved a tc =
     (case tc of
        TcAuthRequired _ p post au \<Rightarrow>
          TcRunning (tcBaseWithMeta tc (tca_meta a)) p post \<lparr>tcrun_content = tcauth_content au\<rparr>
      | _ \<Rightarrow> tc)"

definition on_tool_call ::
    "chat_state \<Rightarrow> ('a tool_call_action_base_scheme) \<Rightarrow> (tool_call_state \<Rightarrow> tool_call_state) \<Rightarrow> chat_state" where
  "on_tool_call state a updater = updateToolCallInParts state (tca_turnId a) (tca_toolCallId a) updater"

section \<open>Truncation and history\<close>

definition chatTruncated :: "chat_state \<Rightarrow> chat_truncated_action \<Rightarrow> chat_state" where
  "chatTruncated state a =
     (let finish = (\<lambda>turns cursor.
            let nxt = state\<lparr>chat_turns := turns, chat_activeTurn := None, chat_turnsNextCursor := cursor\<rparr>
            in nxt\<lparr>chat_status := summaryStatus nxt None\<rparr>)
      in case truncated_turnId a of
           None \<Rightarrow> finish [] None
         | Some tid \<Rightarrow>
            (case find_index (\<lambda>t. turn_id t = tid) (chat_turns state) of
               None \<Rightarrow> state
             | Some idx \<Rightarrow> finish (take (idx + 1) (chat_turns state)) (chat_turnsNextCursor state)))"

definition chatTurnsLoaded :: "chat_state \<Rightarrow> chat_turns_loaded_action \<Rightarrow> chat_state" where
  "chatTurnsLoaded state a =
     state\<lparr>chat_turns :=
        filter (\<lambda>t. turn_id t \<notin> turn_id ` set (chat_turns state)) (loaded_turns a) @ chat_turns state,
      chat_turnsNextCursor := loaded_turnsNextCursor a\<rparr>"

section \<open>Input requests\<close>

definition none_if_empty :: "'a list \<Rightarrow> 'a list option" where
  "none_if_empty xs = (if xs \<noteq> [] then Some xs else None)"

definition chatInputAnswerChanged :: "chat_state \<Rightarrow> chat_input_answer_changed_action \<Rightarrow> chat_state" where
  "chatInputAnswerChanged state a =
     (case chat_activeTurn state of
        None \<Rightarrow> state
      | Some t \<Rightarrow>
         (case findOpenInputRequestPart (aturn_responseParts t) (inAns_requestId a) of
            None \<Rightarrow> state
          | Some (i, part) \<Rightarrow>
              let request = irpart_request part;
                  answers0 = or_default (inreq_answers request) [];
                  answers = (case inAns_answer a of
                       None \<Rightarrow> AList.delete (inAns_questionId a) answers0
                     | Some ans \<Rightarrow> AList.update (inAns_questionId a) ans answers0)
              in set_active_parts state t ((aturn_responseParts t)[i := InputRequestPart
                   (part\<lparr>irpart_request := request\<lparr>inreq_answers := none_if_empty answers\<rparr>\<rparr>)])))"

definition chatInputCompleted :: "chat_state \<Rightarrow> chat_input_completed_action \<Rightarrow> chat_state" where
  "chatInputCompleted state a =
     (case chat_activeTurn state of
        None \<Rightarrow> state
      | Some t \<Rightarrow>
         (case findOpenInputRequestPart (aturn_responseParts t) (inCompl_requestId a) of
            None \<Rightarrow> state
          | Some (i, part) \<Rightarrow>
              let finalAnswers = spread (spread [] (or_default (inreq_answers (irpart_request part)) []))
                                   (or_default (inCompl_answers a) []);
                  nxt = set_active_parts state t ((aturn_responseParts t)[i := InputRequestPart
                    (part\<lparr>irpart_request := (irpart_request part)\<lparr>inreq_answers := none_if_empty finalAnswers\<rparr>,
                          irpart_response := Some (inCompl_response a)\<rparr>)])
              in nxt\<lparr>chat_status := summaryStatus nxt None\<rparr>))"

section \<open>Pending messages\<close>

definition chatPendingMessageSet :: "chat_state \<Rightarrow> chat_pending_message_set_action \<Rightarrow> chat_state" where
  "chatPendingMessageSet state a =
     (let entry = \<lparr>pm_id = pmSet_id a, pm_message = pmSet_message a\<rparr>
      in case pmSet_kind a of
           SteeringPending \<Rightarrow> state\<lparr>chat_steeringMessage := Some entry\<rparr>
         | QueuedPending \<Rightarrow>
             state\<lparr>chat_queuedMessages := Some (upsert pm_id entry (or_default (chat_queuedMessages state) []))\<rparr>)"

definition chatPendingMessageRemoved :: "chat_state \<Rightarrow> chat_pending_message_removed_action \<Rightarrow> chat_state" where
  "chatPendingMessageRemoved state a =
     (case pmRem_kind a of
        SteeringPending \<Rightarrow>
          (if map_option pm_id (chat_steeringMessage state) = Some (pmRem_id a)
           then state\<lparr>chat_steeringMessage := None\<rparr> else state)
      | QueuedPending \<Rightarrow>
          (case chat_queuedMessages state of
             None \<Rightarrow> state
           | Some existing \<Rightarrow>
               if length (filter (\<lambda>m. pm_id m \<noteq> pmRem_id a) existing) = length existing then state
               else state\<lparr>chat_queuedMessages := remove_queued (pmRem_id a) existing\<rparr>))"

text \<open>
  The ids of \<open>order\<close> that name an existing message, each at its first occurrence (\<open>seen\<close> is
  the set \<open>ordered\<close> of the code).
\<close>

fun known_order :: "js_string list \<Rightarrow> js_string list \<Rightarrow> js_string list \<Rightarrow> js_string list" where
  "known_order known seen [] = []"
| "known_order known seen (x # xs) =
     (if x \<in> set known \<and> x \<notin> set seen then x # known_order known (x # seen) xs
      else known_order known seen xs)"

definition reorder_messages :: "js_string list \<Rightarrow> pending_message list \<Rightarrow> pending_message list" where
  "reorder_messages order existing =
     (let byId = map_of (rev (map (\<lambda>m. (pm_id m, m)) existing));
          ids = known_order (map pm_id existing) [] order
      in map (\<lambda>i. the (byId i)) ids @ filter (\<lambda>m. pm_id m \<notin> set ids) existing)"

definition chatQueuedMessagesReordered :: "chat_state \<Rightarrow> js_string list \<Rightarrow> chat_state" where
  "chatQueuedMessagesReordered state order =
     (case chat_queuedMessages state of
        None \<Rightarrow> state
      | Some existing \<Rightarrow> state\<lparr>chat_queuedMessages := Some (reorder_messages order existing)\<rparr>)"

section \<open>The reducer\<close>

fun chatReducer :: "chat_state \<Rightarrow> chat_action \<Rightarrow> chat_state js_result" where
  "chatReducer s (ChatTurnStarted a) = Inr (chatTurnStarted s a)"
| "chatReducer s (ChatDelta a) =
     Inr (updateResponsePart s (delta_turnId a) (delta_partId a) (append_markdown (delta_content a)))"
| "chatReducer s (ChatResponsePart a) =
     Inr (in_active_turn s (respPart_turnId a) (append_part (respPart_part a)))"
| "chatReducer s (ChatTurnComplete a) =
     endTurn s (turnComplete_turnId a) TurnComplete (turnComplete_duration a) None None"
| "chatReducer s (ChatTurnCancelled a) =
     endTurn s (turnCancelled_turnId a) TurnCancelled (turnCancelled_duration a) None None"
| "chatReducer s (ChatError a) =
     endTurn s (chatErr_turnId a) TurnError (chatErr_duration a) (Some status_Error) (Some (chatErr_error a))"
| "chatReducer s (ChatActivityChanged activity) = Inr (s\<lparr>chat_activity := activity\<rparr>)"
| "chatReducer s (ChatWorkingDirectorySet d) =
     Inr (s\<lparr>chat_workingDirectories := add_directory (chat_workingDirectories s) d\<rparr>)"
| "chatReducer s (ChatWorkingDirectoryRemoved d) =
     Inr (s\<lparr>chat_workingDirectories := remove_directory (chat_workingDirectories s) d\<rparr>)"
| "chatReducer s (ChatToolCallStart a) =
     Inr (in_active_turn s (tca_turnId a) (append_part (ToolCallPart (streaming_tool_call a))))"
| "chatReducer s (ChatToolCallDelta a) = Inr (on_tool_call s a (toolCallDelta a))"
| "chatReducer s (ChatToolCallReady a) =
     Inr (refreshSummaryStatus (on_tool_call s a (toolCallReady a)))"
| "chatReducer s (ChatToolCallConfirmed act) =
     Inr (refreshSummaryStatus (case act of
            ToolCallApproved a \<Rightarrow> on_tool_call s a (toolCallConfirmed act)
          | ToolCallDenied a \<Rightarrow> on_tool_call s a (toolCallConfirmed act)))"
| "chatReducer s (ChatToolCallComplete a) =
     Inr (refreshSummaryStatus (on_tool_call s a (toolCallComplete a)))"
| "chatReducer s (ChatToolCallResultConfirmed a) =
     Inr (refreshSummaryStatus (on_tool_call s a (toolCallResultConfirmed a)))"
| "chatReducer s (ChatToolCallContentChanged a) = Inr (on_tool_call s a (toolCallContentChanged a))"
| "chatReducer s (ChatToolCallAuthRequired a) =
     Inr (refreshSummaryStatus (on_tool_call s a (toolCallAuthRequired a)))"
| "chatReducer s (ChatToolCallAuthResolved a) =
     Inr (refreshSummaryStatus (on_tool_call s a (toolCallAuthResolved a)))"
| "chatReducer s (ChatUsage a) =
     Inr (in_active_turn s (chatUsage_turnId a) (\<lambda>t. t\<lparr>aturn_usage := Some (chatUsage_usage a)\<rparr>))"
| "chatReducer s (ChatReasoning a) =
     Inr (updateResponsePart s (reasoning_turnId a) (reasoning_partId a) (append_reasoning (reasoning_content a)))"
| "chatReducer s (ChatTruncated a) = Inr (chatTruncated s a)"
| "chatReducer s (ChatTurnsLoaded a) = Inr (chatTurnsLoaded s a)"
| "chatReducer s (ChatInputRequested request) = Inr (upsertInputRequestPart s request)"
| "chatReducer s (ChatInputAnswerChanged a) = Inr (chatInputAnswerChanged s a)"
| "chatReducer s (ChatInputCompleted a) = Inr (chatInputCompleted s a)"
| "chatReducer s (ChatPendingMessageSet a) = Inr (chatPendingMessageSet s a)"
| "chatReducer s (ChatPendingMessageRemoved a) = Inr (chatPendingMessageRemoved s a)"
| "chatReducer s (ChatQueuedMessagesReordered order) = Inr (chatQueuedMessagesReordered s order)"
| "chatReducer s (ChatDraftChanged draft) = Inr (s\<lparr>chat_draft := draft\<rparr>)"
| "chatReducer s (ChatUnhandled _) = Inr s"

end
