(* ===== verification/Chat_Evolution.thy ===== *)
theory Chat_Evolution
  imports Chat_Reducer
begin

text \<open>
  How the response parts of a running turn evolve under the chat reducer: tool calls move
  along the documented lifecycle and keep their identity and owner, streamed text only
  grows, an answered input request is never reopened, and nothing else changes. One relation
  on response parts carries all of it; every case of the reducer is shown to respect it.
\<close>

named_theorems evolve "closure facts of the evolution relation"

section \<open>The tool call lifecycle\<close>

text \<open>The transitions the protocol documents for the tool call status.\<close>

inductive tc_lifecycle :: "tool_call_status \<Rightarrow> tool_call_status \<Rightarrow> bool" where
  streaming_delta: "tc_lifecycle StStreaming StStreaming"
| streaming_ready: "tc_lifecycle StStreaming StPendingConfirmation"
| streaming_auto: "tc_lifecycle StStreaming StRunning"
| pending_again: "tc_lifecycle StPendingConfirmation StPendingConfirmation"
| pending_run: "tc_lifecycle StPendingConfirmation StRunning"
| pending_deny: "tc_lifecycle StPendingConfirmation StCancelled"
| pending_done: "tc_lifecycle StPendingConfirmation StCompleted"
| pending_review: "tc_lifecycle StPendingConfirmation StPendingResultConfirmation"
| running_progress: "tc_lifecycle StRunning StRunning"
| running_reconfirm: "tc_lifecycle StRunning StPendingConfirmation"
| running_auth: "tc_lifecycle StRunning StAuthRequired"
| running_done: "tc_lifecycle StRunning StCompleted"
| running_review: "tc_lifecycle StRunning StPendingResultConfirmation"
| auth_resolved: "tc_lifecycle StAuthRequired StRunning"
| auth_cancelled: "tc_lifecycle StAuthRequired StCompleted"
| review_accept: "tc_lifecycle StPendingResultConfirmation StCompleted"
| review_deny: "tc_lifecycle StPendingResultConfirmation StCancelled"

declare tc_lifecycle.intros [intro]

inductive_cases from_completed: "tc_lifecycle StCompleted st"
inductive_cases from_cancelled: "tc_lifecycle StCancelled st"
inductive_cases from_auth: "tc_lifecycle StAuthRequired st"
inductive_simps tc_lifecycle_simps: "tc_lifecycle st st'"

code_pred tc_lifecycle .

text \<open>The client that executes a tool call, if a client does.\<close>

definition client_owner :: "tool_call_state \<Rightarrow> js_string option" where
  "client_owner tc =
     (case tc_contributor (tcBase tc) of Some (ClientContributor c) \<Rightarrow> Some c | _ \<Rightarrow> None)"

definition same_tool :: "tool_call_state \<Rightarrow> tool_call_state \<Rightarrow> bool" where
  "same_tool tc tc' \<longleftrightarrow>
     tc_toolCallId (tcBase tc') = tc_toolCallId (tcBase tc)
   \<and> tc_toolName (tcBase tc') = tc_toolName (tcBase tc)
   \<and> tc_displayName (tcBase tc') = tc_displayName (tcBase tc)
   \<and> client_owner tc' = client_owner tc"

definition tc_step :: "tool_call_state \<Rightarrow> tool_call_state \<Rightarrow> bool" where
  "tc_step tc tc' \<longleftrightarrow> tc' = tc \<or> same_tool tc tc' \<and> tc_lifecycle (tc_status tc) (tc_status tc')"

lemma tc_step_refl [simp, evolve]: "tc_step tc tc"
  by (simp add: tc_step_def)

lemma tc_step_ids: "tc_step tc tc' \<Longrightarrow> same_tool tc tc'"
  by (auto simp: tc_step_def same_tool_def)

lemma tc_step_terminal:
  "tc_step tc tc' \<Longrightarrow> tc_status tc = StCompleted \<or> tc_status tc = StCancelled \<Longrightarrow> tc' = tc"
  by (auto simp: tc_step_def elim: from_completed from_cancelled)

section \<open>The updaters follow the lifecycle\<close>

lemma owner_refine:
  "(case refineToolCallContributor c n of Some (ClientContributor x) \<Rightarrow> Some x | _ \<Rightarrow> None)
   = (case c of Some (ClientContributor x) \<Rightarrow> Some x | _ \<Rightarrow> None)"
  by (auto simp: refineToolCallContributor_def split: option.splits tool_call_contributor.splits)

lemmas tool_step_defs = tc_step_def same_tool_def client_owner_def tcBaseWithMeta_def

lemma toolCallDelta_step [evolve]: "tc_step tc (toolCallDelta a tc)"
  by (cases tc) (auto simp: tool_step_defs)

lemma ready_transition_step:
  "tc_status tc \<in> {StStreaming, StRunning, StPendingConfirmation} \<Longrightarrow>
   tc_step tc (ready_transition a tc i p)"
  by (auto simp: ready_transition_def ready_base_def tool_step_defs owner_refine Let_def split: option.split)

lemma toolCallReady_step [evolve]: "tc_step tc (toolCallReady a tc)"
  by (cases tc) (simp_all add: toolCallReady_def ready_transition_step)

lemma toolCallConfirmed_step [evolve]: "tc_step tc (toolCallConfirmed a tc)"
  by (cases tc; cases a) (auto simp: toolCallConfirmed_def tool_step_defs)

lemma toolCallComplete_step [evolve]: "tc_step tc (toolCallComplete a tc)"
  by (cases tc) (auto simp: toolCallComplete_def tool_step_defs Let_def)

lemma toolCallResultConfirmed_step [evolve]: "tc_step tc (toolCallResultConfirmed a tc)"
  by (cases tc) (auto simp: toolCallResultConfirmed_def tool_step_defs)

lemma toolCallContentChanged_step [evolve]: "tc_step tc (toolCallContentChanged a tc)"
  by (cases tc) (auto simp: toolCallContentChanged_def tool_step_defs)

lemma toolCallAuthRequired_step [evolve]: "tc_step tc (toolCallAuthRequired a tc)"
  by (cases tc) (auto simp: toolCallAuthRequired_def tool_step_defs)

lemma toolCallAuthResolved_step [evolve]: "tc_step tc (toolCallAuthResolved a tc)"
  by (cases tc) (auto simp: toolCallAuthResolved_def tool_step_defs)

section \<open>Evolution of response parts\<close>

definition part_step :: "response_part \<Rightarrow> response_part \<Rightarrow> bool" where
  "part_step part part' =
     (case part of
        ToolCallPart tc \<Rightarrow> (\<exists>tc'. part' = ToolCallPart tc' \<and> tc_step tc tc')
      | MarkdownPart p \<Rightarrow> (\<exists>more. part' = MarkdownPart (p\<lparr>mdpart_content := mdpart_content p @ more\<rparr>))
      | ReasoningPart p \<Rightarrow> (\<exists>more. part' = ReasoningPart (p\<lparr>rpart_content := rpart_content p @ more\<rparr>))
      | InputRequestPart r \<Rightarrow>
          part' = part \<or> irpart_response r = None \<and>
            (\<exists>r'. part' = InputRequestPart r' \<and> inreq_id (irpart_request r') = inreq_id (irpart_request r))
      | _ \<Rightarrow> part' = part)"

lemma part_step_refl [simp, evolve]: "part_step part part"
proof (cases part)
  case (MarkdownPart p)
  then show ?thesis by (auto simp: part_step_def intro!: exI [of _ "[]"])
next
  case (ReasoningPart p)
  then show ?thesis by (auto simp: part_step_def intro!: exI [of _ "[]"])
qed (simp_all add: part_step_def)

lemma part_step_tool [simp]:
  "part_step (ToolCallPart tc) part' \<longleftrightarrow> (\<exists>tc'. part' = ToolCallPart tc' \<and> tc_step tc tc')"
  by (simp add: part_step_def)

lemma part_step_append_markdown [evolve]: "part_step part (append_markdown c part)"
  by (cases part) (auto simp: append_markdown_def, auto simp: part_step_def)

lemma part_step_append_reasoning [evolve]: "part_step part (append_reasoning c part)"
  by (cases part) (auto simp: append_reasoning_def, auto simp: part_step_def)

lemma part_step_update_tool:
  "(\<And>tc. tc_step tc (f tc)) \<Longrightarrow> part_step part (update_tool_call_part i f part)"
  by (cases part) (auto simp: update_tool_call_part_def)

definition parts_evolve :: "response_part list \<Rightarrow> response_part list \<Rightarrow> bool" where
  "parts_evolve ps ps' \<longleftrightarrow>
     length ps \<le> length ps' \<and> (\<forall>i < length ps. part_step (ps ! i) (ps' ! i))"

lemma parts_evolve_refl [simp, evolve]: "parts_evolve ps ps"
  by (simp add: parts_evolve_def)

lemma parts_evolve_append [evolve]: "parts_evolve ps (ps @ qs)"
  by (simp add: parts_evolve_def nth_append)

lemma parts_evolve_map: "(\<And>p. part_step p (f p)) \<Longrightarrow> parts_evolve ps (map f ps)"
  by (simp add: parts_evolve_def)

lemma parts_evolve_update: "part_step (ps ! i) p \<Longrightarrow> parts_evolve ps (ps[i := p])"
  by (cases "i < length ps") (auto simp: parts_evolve_def nth_list_update list_update_beyond)

text \<open>A turn evolves when it keeps its identity and message and its parts evolve, or when it ends.\<close>

definition turn_evolves :: "chat_state \<Rightarrow> chat_state \<Rightarrow> bool" where
  "turn_evolves s s' \<longleftrightarrow>
     (\<forall>t t'. chat_activeTurn s = Some t \<longrightarrow> chat_activeTurn s' = Some t' \<longrightarrow>
        aturn_id t' = aturn_id t \<and> aturn_startedAt t' = aturn_startedAt t
      \<and> aturn_message t' = aturn_message t
      \<and> parts_evolve (aturn_responseParts t) (aturn_responseParts t'))
   \<and> (chat_activeTurn s = None \<longrightarrow> chat_activeTurn s' = None)"

lemma turn_evolves_same: "chat_activeTurn s' = chat_activeTurn s \<Longrightarrow> turn_evolves s s'"
  by (simp add: turn_evolves_def)

lemma turn_evolves_ended: "chat_activeTurn s' = None \<Longrightarrow> turn_evolves s s'"
  by (simp add: turn_evolves_def)

lemma turn_evolves_parts:
  "chat_activeTurn s = Some t \<Longrightarrow> chat_activeTurn s' = Some (t\<lparr>aturn_responseParts := ps\<rparr>) \<Longrightarrow>
   parts_evolve (aturn_responseParts t) ps \<Longrightarrow> turn_evolves s s'"
  by (simp add: turn_evolves_def)

lemma activeTurn_refresh [simp]: "chat_activeTurn (refreshSummaryStatus s) = chat_activeTurn s"
  by (simp add: refreshSummaryStatus_def Let_def)

lemma turn_evolves_refresh [evolve]: "turn_evolves s s' \<Longrightarrow> turn_evolves s (refreshSummaryStatus s')"
  by (simp only: turn_evolves_def activeTurn_refresh simp_thms)

lemma on_tool_call_evolves:
  assumes "\<And>tc. tc_step tc (f tc)"
  shows "turn_evolves s (on_tool_call s a f)"
proof (cases "chat_activeTurn s")
  case (Some t)
  have "parts_evolve (aturn_responseParts t)
      (map (update_tool_call_part (tca_toolCallId a) f) (aturn_responseParts t))"
    by (rule parts_evolve_map) (rule part_step_update_tool, rule assms)
  then show ?thesis
    using Some by (auto simp: on_tool_call_def updateToolCallInParts_def Let_def set_active_parts_def
        set_active_turn_def turn_evolves_def)
qed (simp add: on_tool_call_def updateToolCallInParts_def turn_evolves_same)

lemma updateResponsePart_evolves:
  assumes "\<And>p. part_step p (f p)"
  shows "turn_evolves s (updateResponsePart s tid pid f)"
proof (cases "chat_activeTurn s")
  case (Some t)
  then show ?thesis
    by (auto simp: updateResponsePart_def set_active_parts_def set_active_turn_def turn_evolves_def
        split: option.splits intro!: parts_evolve_update assms)
qed (simp add: updateResponsePart_def turn_evolves_same)

lemma append_part_evolves: "turn_evolves s (in_active_turn s tid (append_part p))"
  by (auto simp: in_active_turn_def append_part_def set_active_turn_def turn_evolves_def
      parts_evolve_append split: option.splits)

lemma usage_evolves: "turn_evolves s (in_active_turn s tid (\<lambda>t. t\<lparr>aturn_usage := u\<rparr>))"
  by (auto simp: in_active_turn_def set_active_turn_def turn_evolves_def split: option.splits)

lemma findOpenInputRequestPartD:
  assumes "findOpenInputRequestPart ps rid = Some (i, r)"
  shows "i < length ps" "ps ! i = InputRequestPart r" "irpart_response r = None"
    "inreq_id (irpart_request r) = rid"
  using assms find_index_SomeD [of "open_request_with_id rid" ps i]
  by (auto simp: findOpenInputRequestPart_def open_request_with_id_def
      split: option.splits response_part.splits)

lemma part_step_open_request:
  assumes "findOpenInputRequestPart ps rid = Some (i, r)" and "inreq_id (irpart_request r') = rid"
  shows "parts_evolve ps (ps[i := InputRequestPart r'])"
  using findOpenInputRequestPartD [OF assms(1)] assms(2)
  by (intro parts_evolve_update) (simp add: part_step_def)

lemma upsertInputRequestPart_evolves: "turn_evolves s (upsertInputRequestPart s req)"
proof (cases "chat_activeTurn s")
  case (Some t)
  then show ?thesis
    by (auto simp: upsertInputRequestPart_def set_active_parts_def set_active_turn_def turn_evolves_def
        Let_def parts_evolve_append split: option.splits intro!: part_step_open_request)
qed (simp add: upsertInputRequestPart_def turn_evolves_same)

lemma chatInputAnswerChanged_evolves: "turn_evolves s (chatInputAnswerChanged s a)"
proof (cases "chat_activeTurn s")
  case (Some t)
  then show ?thesis
    by (auto simp: chatInputAnswerChanged_def set_active_parts_def set_active_turn_def turn_evolves_def
        Let_def split: option.splits dest: findOpenInputRequestPartD intro!: part_step_open_request)
qed (simp add: chatInputAnswerChanged_def turn_evolves_same)

lemma chatInputCompleted_evolves: "turn_evolves s (chatInputCompleted s a)"
proof (cases "chat_activeTurn s")
  case (Some t)
  then show ?thesis
    by (auto simp: chatInputCompleted_def set_active_parts_def set_active_turn_def turn_evolves_def
        Let_def split: option.splits dest: findOpenInputRequestPartD intro!: part_step_open_request)
qed (simp add: chatInputCompleted_def turn_evolves_same)

lemma endTurn_evolves: "endTurn s tid st d ts e = Inr s' \<Longrightarrow> turn_evolves s s'"
  by (auto simp: endTurn_def js_map_def Let_def turn_evolves_same split: option.splits if_splits sum.splits
      intro: turn_evolves_ended)

lemmas evolves_cases = on_tool_call_evolves updateResponsePart_evolves append_part_evolves usage_evolves
  upsertInputRequestPart_evolves chatInputAnswerChanged_evolves chatInputCompleted_evolves

text \<open>Starting a turn is the one action that installs a new active turn.\<close>

definition starts_turn :: "chat_action \<Rightarrow> bool" where
  "starts_turn a = (case a of ChatTurnStarted _ \<Rightarrow> True | _ \<Rightarrow> False)"

lemma chatReducer_evolves:
  assumes "chatReducer s a = Inr s'" and "\<not> starts_turn a"
  shows "turn_evolves s s'"
proof (cases a)
  case (ChatToolCallConfirmed act)
  with assms show ?thesis by (cases act) (auto intro!: evolve evolves_cases)
next
  case (ChatPendingMessageSet x)
  with assms show ?thesis
    by (auto simp: chatPendingMessageSet_def Let_def split: pending_message_kind.splits intro!: turn_evolves_same)
next
  case (ChatPendingMessageRemoved x)
  with assms show ?thesis
    by (auto simp: chatPendingMessageRemoved_def split: pending_message_kind.splits option.splits if_splits
        intro!: turn_evolves_same)
next
  case (ChatQueuedMessagesReordered x)
  with assms show ?thesis
    by (auto simp: chatQueuedMessagesReordered_def split: option.splits intro!: turn_evolves_same)
next
  case (ChatTruncated x)
  with assms show ?thesis
    by (auto simp: chatTruncated_def Let_def split: option.splits intro: turn_evolves_same turn_evolves_ended)
next
  case (ChatTurnsLoaded x)
  with assms show ?thesis by (auto simp: chatTurnsLoaded_def intro: turn_evolves_same)
qed (use assms in \<open>auto simp: starts_turn_def intro!: evolve evolves_cases
    intro: turn_evolves_same endTurn_evolves\<close>)

end
