(* ===== verification/Chat_Properties.thy ===== *)
theory Chat_Properties
  imports Chat_Evolution "HOL-Library.Sublist"
begin

text \<open>
  What the chat reducer guarantees: the summary status follows the turn, tool calls follow
  their lifecycle along every run and never start without an approval, history only grows,
  ending a turn closes every tool call, and streamed text and queued messages are neither
  lost nor duplicated.
\<close>

section \<open>The summary status\<close>

definition expected_activity :: "chat_state \<Rightarrow> session_status" where
  "expected_activity s =
     (if hasOpenInputRequest s \<or> hasBlockingToolCall s then status_InputNeeded
      else if chat_activeTurn s \<noteq> None then status_InProgress else status_Idle)"

definition chat_consistent :: "chat_state \<Rightarrow> bool" where
  "chat_consistent s \<longleftrightarrow>
     chat_status s AND STATUS_ACTIVITY_MASK = expected_activity s
   \<or> chat_activeTurn s = None \<and> chat_status s AND STATUS_ACTIVITY_MASK = status_Error"

text \<open>A response part that arrives already waiting for the user (\<open>chat/responsePart\<close> does not refresh the status).\<close>

definition injects_blocker :: "chat_action \<Rightarrow> bool" where
  "injects_blocker a =
     (case a of ChatResponsePart x \<Rightarrow> blocking_part (respPart_part x) \<or> open_input_part (respPart_part x)
      | _ \<Rightarrow> False)"

named_theorems status_simps "what the reducer's helpers do to the summary status"

lemma is_activity_expected [simp]: "is_activity (expected_activity s)"
  by (simp add: expected_activity_def)

lemma summaryStatus_None: "summaryStatus s None = withActivity (chat_status s) (expected_activity s)"
  by (simp add: summaryStatus_def expected_activity_def)

lemma status_Error_nonzero [simp]: "status_Error \<noteq> 0"
  by (simp add: status_defs)

lemma summaryStatus_Error: "summaryStatus s (Some status_Error) = withActivity (chat_status s) status_Error"
  by (simp add: summaryStatus_def)

lemma expected_activity_cong:
  "chat_activeTurn s' = chat_activeTurn s \<Longrightarrow> expected_activity s' = expected_activity s"
  by (simp add: expected_activity_def hasOpenInputRequest_def hasBlockingToolCall_def)

lemma expected_activity_status [simp]: "expected_activity (s\<lparr>chat_status := w\<rparr>) = expected_activity s"
  by (rule expected_activity_cong) simp

lemma bit_status_IsRead: "bit status_IsRead n \<longleftrightarrow> n = 5"
  by (simp only: status_IsRead_def bit_push_bit_iff bit_1_iff) (auto simp: possible_bit_def)

lemma bit_unread:
  "bit (withStatusFlag w status_IsRead False) n \<longleftrightarrow> bit w n \<and> n \<noteq> 5"
  by (auto simp: withStatusFlag_def bit_and_iff bit_not_iff bit_status_IsRead dest: bit_imp_le_length)

lemma and_mask_unread:
  "withStatusFlag w status_IsRead False AND STATUS_ACTIVITY_MASK = w AND STATUS_ACTIVITY_MASK"
  by (rule bit_word_eqI)
    (auto simp: bit_unread bit_and_iff bit_STATUS_ACTIVITY_MASK)

lemma consistent_summary [status_simps]: "chat_consistent (s\<lparr>chat_status := summaryStatus s None\<rparr>)"
  by (simp add: chat_consistent_def summaryStatus_None withActivity_activity)

lemma consistent_unread [status_simps]:
  "chat_consistent (s\<lparr>chat_status := withStatusFlag (summaryStatus s None) status_IsRead False\<rparr>)"
  by (simp add: chat_consistent_def summaryStatus_None and_mask_unread withActivity_activity)

lemma refresh_eq: "refreshSummaryStatus s = s\<lparr>chat_status := summaryStatus s None\<rparr>"
  by (simp add: refreshSummaryStatus_def Let_def)

lemma consistent_refresh [status_simps]: "chat_consistent (refreshSummaryStatus s)"
  by (simp add: refresh_eq consistent_summary)

lemma consistent_cong:
  "chat_status s' = chat_status s \<Longrightarrow> chat_activeTurn s' = chat_activeTurn s \<Longrightarrow>
   chat_consistent s' = chat_consistent s"
  using expected_activity_cong [of s' s] by (simp add: chat_consistent_def)

lemma consistent_other_fields [simp]:
  "chat_consistent (s\<lparr>chat_activity := x1\<rparr>) = chat_consistent s"
  "chat_consistent (s\<lparr>chat_workingDirectories := x2\<rparr>) = chat_consistent s"
  "chat_consistent (s\<lparr>chat_steeringMessage := x3\<rparr>) = chat_consistent s"
  "chat_consistent (s\<lparr>chat_queuedMessages := x4\<rparr>) = chat_consistent s"
  "chat_consistent (s\<lparr>chat_draft := x5\<rparr>) = chat_consistent s"
  "chat_consistent (s\<lparr>chat_modifiedAt := x6\<rparr>) = chat_consistent s"
  "chat_consistent (s\<lparr>chat_turns := x7, chat_turnsNextCursor := x8\<rparr>) = chat_consistent s"
  by (rule consistent_cong; simp)+

text \<open>Changing response parts without changing which of them block keeps the status right.\<close>

definition attention :: "response_part \<Rightarrow> bool" where
  "attention p \<longleftrightarrow> open_input_part p \<or> blocking_part p"

lemma expected_activity_eq:
  "expected_activity s =
     (case chat_activeTurn s of None \<Rightarrow> status_Idle
      | Some t \<Rightarrow> if list_ex attention (aturn_responseParts t) then status_InputNeeded else status_InProgress)"
  by (auto simp: expected_activity_def hasOpenInputRequest_def hasBlockingToolCall_def attention_def
      list_ex_iff split: option.split)

lemma consistent_parts:
  assumes "chat_consistent s" and "chat_activeTurn s = Some t"
    and "list_ex attention (aturn_responseParts t') = list_ex attention (aturn_responseParts t)"
  shows "chat_consistent (set_active_turn s t')"
  using assms by (simp add: chat_consistent_def expected_activity_eq set_active_turn_def)

lemma list_ex_map_cong: "map P xs = map P ys \<Longrightarrow> list_ex P xs = list_ex P ys"
  by (induction xs ys rule: list_induct2') auto

lemma consistent_parts_update:
  assumes "chat_consistent s" and "chat_activeTurn s = Some t"
    and "i < length (aturn_responseParts t)" and "attention p = attention (aturn_responseParts t ! i)"
  shows "chat_consistent (set_active_parts s t ((aturn_responseParts t)[i := p]))"
proof -
  have "map attention ((aturn_responseParts t)[i := p]) = map attention (aturn_responseParts t)"
    using assms(3,4) by (simp add: map_update list_update_same_conv)
  then have "list_ex attention ((aturn_responseParts t)[i := p]) = list_ex attention (aturn_responseParts t)"
    by (rule list_ex_map_cong)
  then show ?thesis using assms(1,2) by (simp add: set_active_parts_def consistent_parts)
qed

lemma consistent_updateResponsePart:
  assumes "chat_consistent s" and "\<And>p. attention (f p) = attention p"
  shows "chat_consistent (updateResponsePart s tid pid f)"
  using assms by (simp add: updateResponsePart_def consistent_parts_update find_index_less split: option.split)

lemma consistent_in_active_turn:
  assumes "chat_consistent s"
    and "\<And>t. list_ex attention (aturn_responseParts (f t)) = list_ex attention (aturn_responseParts t)"
  shows "chat_consistent (in_active_turn s tid f)"
  using assms by (simp add: in_active_turn_def consistent_parts split: option.split)

lemma consistent_on_tool_call:
  assumes "chat_consistent s" and "\<And>tc. tc_status (f tc) = tc_status tc"
  shows "chat_consistent (on_tool_call s a f)"
proof -
  have "attention (update_tool_call_part i f p) = attention p" for i p
    by (cases p) (simp_all add: update_tool_call_part_def attention_def blocking_part_def open_input_part_def assms)
  then have "list_ex attention (map (update_tool_call_part i f) ps) = list_ex attention ps" for i ps
    by (simp add: list_ex_iff)
  then show ?thesis
    using assms(1) by (simp add: on_tool_call_def updateToolCallInParts_def Let_def set_active_parts_def
        consistent_parts split: option.split)
qed

lemma attention_append_text [simp]:
  "attention (append_markdown c p) = attention p" "attention (append_reasoning c p) = attention p"
  by (cases p; simp add: append_markdown_def append_reasoning_def attention_def open_input_part_def blocking_part_def)+

lemma attention_streaming [simp]: "\<not> attention (ToolCallPart (streaming_tool_call a))"
  by (simp add: attention_def open_input_part_def blocking_part_def streaming_tool_call_def)

lemma status_toolCallDelta [simp]: "tc_status (toolCallDelta a tc) = tc_status tc"
  by (cases tc) simp_all

lemma status_toolCallContentChanged [simp]: "tc_status (toolCallContentChanged a tc) = tc_status tc"
  by (cases tc) (simp_all add: toolCallContentChanged_def)

lemma consistent_inputAnswerChanged:
  assumes "chat_consistent s"
  shows "chat_consistent (chatInputAnswerChanged s a)"
proof (cases "chat_activeTurn s")
  case (Some t)
  have "attention (InputRequestPart (r\<lparr>irpart_request := q\<rparr>)) = attention (aturn_responseParts t ! i)"
      "i < length (aturn_responseParts t)"
    if "findOpenInputRequestPart (aturn_responseParts t) rid = Some (i, r)" for i r q rid
    using findOpenInputRequestPartD [OF that] by (simp_all add: attention_def open_input_part_def)
  then show ?thesis
    using assms Some by (auto simp: chatInputAnswerChanged_def Let_def consistent_parts_update split: option.split)
qed (use assms in \<open>simp add: chatInputAnswerChanged_def\<close>)

lemma consistent_pending:
  assumes "chat_consistent s"
  shows "chat_consistent (chatPendingMessageSet s x)" "chat_consistent (chatPendingMessageRemoved s y)"
    "chat_consistent (chatQueuedMessagesReordered s os)" "chat_consistent (chatTurnsLoaded s z)"
  using assms by (simp_all add: chatPendingMessageSet_def chatPendingMessageRemoved_def
      chatQueuedMessagesReordered_def chatTurnsLoaded_def Let_def split: pending_message_kind.split option.split)

lemma consistent_turnStarted: "chat_consistent (chatTurnStarted s a)"
proof -
  define n1 where "n1 = s\<lparr>chat_activeTurn := Some \<lparr>aturn_id = turnStarted_turnId a,
                  aturn_startedAt = turnStarted_startedAt a, aturn_message = turnStarted_message a,
                  aturn_responseParts = [], aturn_usage = None\<rparr>\<rparr>"
  show ?thesis
    unfolding chatTurnStarted_def Let_def n1_def [symmetric]
    by (auto simp: consistent_unread split: option.split)
qed

lemma consistent_endTurn:
  assumes "chat_consistent s" and "endTurn s tid st d ts e = Inr s'" and "ts \<in> {None, Some status_Error}"
  shows "chat_consistent s'"
  using assms by (auto simp: endTurn_def js_map_def Let_def consistent_summary summaryStatus_Error
      split: option.splits if_splits sum.splits)
    (simp add: chat_consistent_def withActivity_activity)

text \<open>
  C18. The summary status of a chat follows its turn: after every action the activity bits say
  input needed exactly when a tool call or an input request waits for the user, in progress
  when a turn runs otherwise, and idle or error when none does. The one exception is a
  response part that arrives already blocked.
\<close>

theorem chat_status_consistent:
  assumes "chat_consistent s" and "chatReducer s a = Inr s'" and "\<not> injects_blocker a"
  shows "chat_consistent s'"
proof (cases a)
  case (ChatResponsePart x)
  with assms show ?thesis
    by (auto simp: injects_blocker_def append_part_def attention_def intro!: consistent_in_active_turn)
next
  case (ChatToolCallConfirmed act)
  with assms show ?thesis by (auto simp: consistent_refresh)
next
  case (ChatTruncated x)
  with assms show ?thesis by (auto simp: chatTruncated_def Let_def consistent_summary split: option.splits)
next
  case (ChatInputRequested x)
  with assms show ?thesis by (auto simp: upsertInputRequestPart_def Let_def consistent_unread split: option.splits)
next
  case (ChatInputCompleted x)
  with assms show ?thesis by (auto simp: chatInputCompleted_def Let_def consistent_summary split: option.splits)
next
  case (ChatToolCallStart x)
  with assms show ?thesis by (auto simp: append_part_def intro!: consistent_in_active_turn)
qed (use assms in \<open>auto simp: consistent_refresh consistent_inputAnswerChanged consistent_turnStarted
    consistent_updateResponsePart consistent_on_tool_call consistent_in_active_turn consistent_pending
    dest: consistent_endTurn\<close>)

text \<open>
  Concrete values for the witnesses: a chat with one running turn that holds a streamed
  markdown part and one tool call in the given state.
\<close>

definition sample_message :: message where
  "sample_message = \<lparr>msg_text = ''hi'', msg_origin = \<lparr>morigin_kind = UserMessage\<rparr>, msg_attachments = None,
     msg_model = None, msg_agent = None, msg_meta = None\<rparr>"

definition sample_base :: "tool_call_contributor option \<Rightarrow> tool_call_base" where
  "sample_base c = \<lparr>tc_toolCallId = ''c1'', tc_toolName = ''edit'', tc_displayName = ''Edit'',
     tc_intention = None, tc_contributor = c, tc_meta = None\<rparr>"

definition sample_params :: tool_call_parameter_fields where
  "sample_params = \<lparr>tcp_invocationMessage = PlainText ''edit'', tcp_toolInput = None\<rparr>"

definition sample_pending :: tool_call_state where
  "sample_pending = TcPendingConfirmation (sample_base None) sample_params
     \<lparr>tcpc_confirmationTitle = None, tcpc_riskAssessment = None, tcpc_edits = None,
      tcpc_editable = None, tcpc_options = None\<rparr>"

definition sample_running :: tool_call_state where
  "sample_running = TcRunning (sample_base None) sample_params
     \<lparr>tcpost_confirmed = UserActionReason, tcpost_selectedOption = None\<rparr> \<lparr>tcrun_content = None\<rparr>"

definition sample_turn :: "tool_call_state \<Rightarrow> active_turn" where
  "sample_turn tc = \<lparr>aturn_id = ''t1'', aturn_startedAt = ''1970-01-01T00:00:00.000Z'',
     aturn_message = sample_message,
     aturn_responseParts = [MarkdownPart \<lparr>mdpart_id = ''m1'', mdpart_content = ''ab''\<rparr>, ToolCallPart tc],
     aturn_usage = None\<rparr>"

definition sample_chat :: "active_turn option \<Rightarrow> session_status \<Rightarrow> chat_state" where
  "sample_chat t w = \<lparr>chat_resource = ''ahp:/c'', chat_title = ''c'', chat_status = w, chat_activity = None,
     chat_modifiedAt = [], chat_origin = None, chat_interactivity = None, chat_workingDirectories = None,
     chat_turns = [], chat_turnsNextCursor = None, chat_activeTurn = t, chat_steeringMessage = None,
     chat_queuedMessages = None, chat_draft = None, chat_meta = None\<rparr>"

definition sample_approve :: chat_action where
  "sample_approve = ChatToolCallConfirmed (ToolCallApproved \<lparr>tca_turnId = ''t1'', tca_toolCallId = ''c1'',
     tca_meta = None, tcApproved_confirmed = UserActionReason, tcApproved_editedToolInput = None,
     tcApproved_selectedOptionId = None\<rparr>)"

lemmas sample_defs = sample_message_def sample_base_def sample_params_def sample_pending_def
  sample_running_def sample_turn_def sample_chat_def sample_approve_def

lemma sample_approve_step:
  "chatReducer (sample_chat (Some (sample_turn sample_pending)) status_InputNeeded) sample_approve
   = Inr (sample_chat (Some (sample_turn sample_running)) status_InProgress)"
  by code_simp

lemma chat_status_consistent_witness:
  "chat_consistent (sample_chat (Some (sample_turn sample_running)) status_InProgress)"
  by (rule chat_status_consistent [OF _ sample_approve_step]) code_simp+

section \<open>Runs\<close>

text \<open>A chat channel applies its actions one after the other; the first that throws stops it.\<close>

fun chat_run :: "chat_state \<Rightarrow> chat_action list \<Rightarrow> chat_state js_result" where
  "chat_run s [] = Inr s"
| "chat_run s (a # as) = (case chatReducer s a of Inl e \<Rightarrow> Inl e | Inr s' \<Rightarrow> chat_run s' as)"

lemma chat_run_Cons_Inr:
  "chat_run s (a # as) = Inr s'' \<longleftrightarrow> (\<exists>s'. chatReducer s a = Inr s' \<and> chat_run s' as = Inr s'')"
  by (auto split: sum.splits)

definition part_at :: "chat_state \<Rightarrow> nat \<Rightarrow> response_part option" where
  "part_at s i = (case chat_activeTurn s of None \<Rightarrow> None
     | Some t \<Rightarrow> if i < length (aturn_responseParts t) then Some (aturn_responseParts t ! i) else None)"

lemma part_at_active: "part_at s i = Some p \<Longrightarrow> chat_activeTurn s \<noteq> None"
  by (auto simp: part_at_def split: option.splits)

lemma tool_call_step:
  assumes "chatReducer s a = Inr s'" "\<not> starts_turn a" "part_at s i = Some (ToolCallPart tc)"
    "chat_activeTurn s' \<noteq> None"
  obtains tc' where "part_at s' i = Some (ToolCallPart tc')" "tc_step tc tc'"
  using chatReducer_evolves [OF assms(1,2)] assms(3,4)
  by (fastforce simp: turn_evolves_def parts_evolve_def part_at_def split: option.splits if_splits)

lemma no_turn_stays:
  assumes "chat_run s as = Inr s'" "\<forall>a\<in>set as. \<not> starts_turn a" "chat_activeTurn s = None"
  shows "chat_activeTurn s' = None"
  using assms
proof (induction as arbitrary: s)
  case (Cons a as)
  then obtain s1 where s1: "chatReducer s a = Inr s1" "chat_run s1 as = Inr s'"
    by (auto split: sum.splits)
  with Cons chatReducer_evolves [OF s1(1)] show ?case by (simp add: turn_evolves_def)
qed simp

lemma tc_step_same: "same_tool a b \<Longrightarrow> same_tool b c \<Longrightarrow> same_tool a c"
  by (simp add: same_tool_def)

lemma tc_step_lifecycle: "tc_step a b \<Longrightarrow> tc_lifecycle\<^sup>*\<^sup>* (tc_status a) (tc_status b)"
  by (auto simp: tc_step_def)


definition sample_complete :: chat_action where
  "sample_complete = ChatToolCallComplete \<lparr>tca_turnId = ''t1'', tca_toolCallId = ''c1'', tca_meta = None,
     tcComplete_result = \<lparr>tcr_success = True, tcr_pastTenseMessage = PlainText ''edited'', tcr_content = None,
       tcr_structuredContent = None, tcr_error = None\<rparr>, tcComplete_requiresResultConfirmation = None\<rparr>"

definition sample_completed :: tool_call_state where
  "sample_completed = TcCompleted (sample_base None) sample_params
     \<lparr>tcpost_confirmed = UserActionReason, tcpost_selectedOption = None\<rparr>
     \<lparr>tcr_success = True, tcr_pastTenseMessage = PlainText ''edited'', tcr_content = None,
       tcr_structuredContent = None, tcr_error = None\<rparr>"

definition sample_end :: chat_action where
  "sample_end = ChatTurnComplete \<lparr>turnComplete_turnId = ''t1'', turnComplete_duration = 1500,
     turnComplete_meta = None\<rparr>"

lemma sample_run:
  "chat_run (sample_chat (Some (sample_turn sample_pending)) status_InputNeeded) [sample_approve, sample_complete]
   = Inr (sample_chat (Some (sample_turn sample_completed)) status_InProgress)"
  by code_simp


lemma terminal_run:
  assumes "chat_run s as = Inr s'" and "\<forall>a\<in>set as. \<not> starts_turn a"
    and "part_at s i = Some (ToolCallPart tc)" and "tc_status tc = StCompleted \<or> tc_status tc = StCancelled"
    and "chat_activeTurn s' \<noteq> None"
  shows "part_at s' i = Some (ToolCallPart tc)"
  using assms
proof (induction as arbitrary: s)
  case (Cons a as)
  then obtain s1 where s1: "chatReducer s a = Inr s1" "chat_run s1 as = Inr s'"
    by (auto split: sum.splits)
  have "chat_activeTurn s1 \<noteq> None"
    using Cons.prems no_turn_stays [OF s1(2)] by (cases "chat_activeTurn s1") auto
  with s1 Cons.prems obtain tc1 where "part_at s1 i = Some (ToolCallPart tc1)" "tc_step tc tc1"
    by (meson list.set_intros(1) tool_call_step)
  with Cons s1 show ?case by (metis list.set_intros(2) tc_step_terminal)
qed simp

text \<open>
  A tool call that completed or was cancelled is final: no later action of the turn
  changes anything of it, whatever arrives late or twice.
\<close>

theorem terminal_tool_call_immutable:
  assumes "chat_run s as = Inr s'" and "\<forall>a\<in>set as. \<not> starts_turn a"
    and "part_at s i = Some (ToolCallPart tc)" and "tc_status tc = StCompleted \<or> tc_status tc = StCancelled"
  shows "chat_activeTurn s' = None \<or> part_at s' i = Some (ToolCallPart tc)"
  using terminal_run [OF assms] by blast

lemma terminal_tool_call_immutable_witness:
  "chat_run (sample_chat (Some (sample_turn sample_completed)) status_InProgress) [sample_complete, sample_approve]
   = Inr (sample_chat (Some (sample_turn sample_completed)) status_InProgress)
   \<and> part_at (sample_chat (Some (sample_turn sample_completed)) status_InProgress) 1
     = Some (ToolCallPart sample_completed)"
proof -
  have run: "chat_run (sample_chat (Some (sample_turn sample_completed)) status_InProgress)
      [sample_complete, sample_approve]
    = Inr (sample_chat (Some (sample_turn sample_completed)) status_InProgress)"
    by code_simp
  from terminal_tool_call_immutable [OF this, of 1 sample_completed] show ?thesis
    using run by (auto simp: starts_turn_def part_at_def sample_defs sample_complete_def sample_completed_def)
qed

section \<open>Approval and authentication\<close>

text \<open>The actions that may let a tool call run: an approval, or a ready action that carries one.\<close>

definition approves :: "tool_call_state \<Rightarrow> chat_action \<Rightarrow> bool" where
  "approves tc a =
     (case a of
        ChatToolCallConfirmed (ToolCallApproved x) \<Rightarrow> tca_toolCallId x = tc_toolCallId (tcBase tc)
      | ChatToolCallReady x \<Rightarrow> tca_toolCallId x = tc_toolCallId (tcBase tc) \<and> tcReady_confirmed x \<noteq> None
      | _ \<Rightarrow> False)"

lemma part_at_on_tool_call:
  "part_at (on_tool_call s a f) i =
     (if map_option aturn_id (chat_activeTurn s) = Some (tca_turnId a)
      then map_option (update_tool_call_part (tca_toolCallId a) f) (part_at s i) else part_at s i)"
proof (cases "chat_activeTurn s")
  case (Some t)
  have "ps ! i = g (ps ! i)" if "map g ps = ps" "i < length ps" for g :: "response_part \<Rightarrow> response_part" and ps
    using that by (metis nth_map)
  with Some show ?thesis
    by (auto simp: on_tool_call_def updateToolCallInParts_def Let_def part_at_def set_active_parts_def
        set_active_turn_def)
qed (simp add: on_tool_call_def updateToolCallInParts_def part_at_def)

lemma part_at_refresh [simp]: "part_at (refreshSummaryStatus s) i = part_at s i"
  by (simp add: part_at_def)

text \<open>What one action does to the tool call at a position: nothing, or one of the eight transitions.\<close>

definition tool_effect :: "chat_action \<Rightarrow> tool_call_state \<Rightarrow> tool_call_state" where
  "tool_effect a tc =
     (case a of
        ChatToolCallDelta x \<Rightarrow> if tca_toolCallId x = tc_toolCallId (tcBase tc) then toolCallDelta x tc else tc
      | ChatToolCallReady x \<Rightarrow> if tca_toolCallId x = tc_toolCallId (tcBase tc) then toolCallReady x tc else tc
      | ChatToolCallConfirmed (ToolCallApproved x) \<Rightarrow>
          if tca_toolCallId x = tc_toolCallId (tcBase tc) then toolCallConfirmed (ToolCallApproved x) tc else tc
      | ChatToolCallConfirmed (ToolCallDenied x) \<Rightarrow>
          if tca_toolCallId x = tc_toolCallId (tcBase tc) then toolCallConfirmed (ToolCallDenied x) tc else tc
      | ChatToolCallComplete x \<Rightarrow> if tca_toolCallId x = tc_toolCallId (tcBase tc) then toolCallComplete x tc else tc
      | ChatToolCallResultConfirmed x \<Rightarrow>
          if tca_toolCallId x = tc_toolCallId (tcBase tc) then toolCallResultConfirmed x tc else tc
      | ChatToolCallContentChanged x \<Rightarrow>
          if tca_toolCallId x = tc_toolCallId (tcBase tc) then toolCallContentChanged x tc else tc
      | ChatToolCallAuthRequired x \<Rightarrow>
          if tca_toolCallId x = tc_toolCallId (tcBase tc) then toolCallAuthRequired x tc else tc
      | ChatToolCallAuthResolved x \<Rightarrow>
          if tca_toolCallId x = tc_toolCallId (tcBase tc) then toolCallAuthResolved x tc else tc
      | _ \<Rightarrow> tc)"

definition keeps_tools :: "chat_state \<Rightarrow> chat_state \<Rightarrow> bool" where
  "keeps_tools s s' \<longleftrightarrow> (\<forall>i tc. part_at s i = Some (ToolCallPart tc) \<longrightarrow> chat_activeTurn s' \<noteq> None \<longrightarrow>
     part_at s' i = Some (ToolCallPart tc))"

lemma keeps_toolsD:
  "keeps_tools s s' \<Longrightarrow> part_at s i = Some (ToolCallPart tc) \<Longrightarrow> chat_activeTurn s' \<noteq> None \<Longrightarrow>
   part_at s' i = Some (ToolCallPart tc)"
  by (simp add: keeps_tools_def)

lemma keeps_tools_same: "chat_activeTurn s' = chat_activeTurn s \<Longrightarrow> keeps_tools s s'"
  by (simp add: keeps_tools_def part_at_def)

lemma keeps_tools_append: "keeps_tools s (in_active_turn s tid (append_part p))"
  by (auto simp: keeps_tools_def part_at_def in_active_turn_def set_active_turn_def append_part_def
      nth_append split: option.splits if_splits)

lemma keeps_tools_usage: "keeps_tools s (in_active_turn s tid (\<lambda>t. t\<lparr>aturn_usage := u\<rparr>))"
  by (auto simp: keeps_tools_def part_at_def in_active_turn_def set_active_turn_def split: option.splits if_splits)

lemma keeps_tools_update:
  assumes "\<And>tc. f (ToolCallPart tc) = ToolCallPart tc"
  shows "keeps_tools s (updateResponsePart s tid pid f)"
  using assms by (auto simp: keeps_tools_def part_at_def updateResponsePart_def set_active_parts_def
      set_active_turn_def nth_list_update dest: find_index_less split: option.splits if_splits)

lemma keeps_tools_open_request:
  assumes "chat_activeTurn s = Some t" "findOpenInputRequestPart (aturn_responseParts t) rid = Some (i, r)"
  shows "keeps_tools s (set_active_parts s t ((aturn_responseParts t)[i := p]))"
  using assms findOpenInputRequestPartD [OF assms(2)]
  by (auto simp: keeps_tools_def part_at_def set_active_parts_def set_active_turn_def nth_list_update
      split: option.splits if_splits)

lemma keeps_tools_status [simp]: "keeps_tools s (s'\<lparr>chat_status := w\<rparr>) = keeps_tools s s'"
  by (simp add: keeps_tools_def part_at_def)

lemma keeps_tools_input:
  "keeps_tools s (upsertInputRequestPart s req)" "keeps_tools s (chatInputAnswerChanged s x)"
  "keeps_tools s (chatInputCompleted s y)"
proof -
  have "keeps_tools s (set_active_parts s t (aturn_responseParts t @ ps))" if "chat_activeTurn s = Some t" for t ps
    using that by (simp add: keeps_tools_def part_at_def set_active_parts_def set_active_turn_def nth_append)
  then show "keeps_tools s (upsertInputRequestPart s req)"
    by (simp add: upsertInputRequestPart_def Let_def keeps_tools_same keeps_tools_open_request split: option.split)
  show "keeps_tools s (chatInputAnswerChanged s x)"
    by (simp add: chatInputAnswerChanged_def Let_def keeps_tools_same keeps_tools_open_request split: option.split)
  show "keeps_tools s (chatInputCompleted s y)"
    by (simp add: chatInputCompleted_def Let_def keeps_tools_same keeps_tools_open_request split: option.split)
qed

lemma keeps_tools_endTurn: "endTurn s tid st d ts e = Inr s' \<Longrightarrow> keeps_tools s s'"
  by (auto simp: endTurn_def Let_def js_map_def keeps_tools_def part_at_def split: option.splits if_splits sum.splits)

lemma keeps_tools_rest:
  "keeps_tools s (chatPendingMessageSet s x)" "keeps_tools s (chatPendingMessageRemoved s y)"
  "keeps_tools s (chatQueuedMessagesReordered s os)" "keeps_tools s (chatTurnsLoaded s z)"
  "keeps_tools s (chatTruncated s w)"
  by (simp_all add: chatPendingMessageSet_def chatPendingMessageRemoved_def chatQueuedMessagesReordered_def
      chatTurnsLoaded_def chatTruncated_def Let_def keeps_tools_def part_at_def
      split: pending_message_kind.split option.split)

lemma append_text_tool [simp]:
  "append_markdown c (ToolCallPart tc) = ToolCallPart tc" "append_reasoning c (ToolCallPart tc) = ToolCallPart tc"
  by (simp_all add: append_markdown_def append_reasoning_def)

lemmas keeps_tools_cases = keeps_tools_append keeps_tools_usage keeps_tools_update keeps_tools_input
  keeps_tools_rest

definition tool_turn :: "chat_action \<Rightarrow> js_string option" where
  "tool_turn a =
     (case a of
        ChatToolCallDelta x \<Rightarrow> Some (tca_turnId x)
      | ChatToolCallReady x \<Rightarrow> Some (tca_turnId x)
      | ChatToolCallConfirmed (ToolCallApproved x) \<Rightarrow> Some (tca_turnId x)
      | ChatToolCallConfirmed (ToolCallDenied x) \<Rightarrow> Some (tca_turnId x)
      | ChatToolCallComplete x \<Rightarrow> Some (tca_turnId x)
      | ChatToolCallResultConfirmed x \<Rightarrow> Some (tca_turnId x)
      | ChatToolCallContentChanged x \<Rightarrow> Some (tca_turnId x)
      | ChatToolCallAuthRequired x \<Rightarrow> Some (tca_turnId x)
      | ChatToolCallAuthResolved x \<Rightarrow> Some (tca_turnId x)
      | _ \<Rightarrow> None)"

lemma update_tool_call_part_tool [simp]:
  "update_tool_call_part i f (ToolCallPart tc) =
     ToolCallPart (if i = tc_toolCallId (tcBase tc) then f tc else tc)"
  by (simp add: update_tool_call_part_def)

definition acts_on :: "chat_action \<Rightarrow> chat_state \<Rightarrow> bool" where
  "acts_on a s \<longleftrightarrow> tool_turn a \<noteq> None \<and> tool_turn a = map_option aturn_id (chat_activeTurn s)"

lemma reducer_tool_effect:
  assumes "chatReducer s a = Inr s'" and "\<not> starts_turn a"
    and "part_at s i = Some (ToolCallPart tc)" and "chat_activeTurn s' \<noteq> None"
  shows "part_at s' i = Some (ToolCallPart (if acts_on a s then tool_effect a tc else tc))"
proof (cases a)
  case (ChatToolCallConfirmed act)
  with assms show ?thesis
    by (cases act) (auto simp: part_at_on_tool_call tool_effect_def acts_on_def tool_turn_def)
next
  case (ChatTurnComplete x)
  with assms show ?thesis using keeps_toolsD [OF keeps_tools_endTurn]
    by (auto simp: acts_on_def tool_turn_def)
next
  case (ChatTurnCancelled x)
  with assms show ?thesis using keeps_toolsD [OF keeps_tools_endTurn]
    by (auto simp: acts_on_def tool_turn_def)
next
  case (ChatError x)
  with assms show ?thesis using keeps_toolsD [OF keeps_tools_endTurn]
    by (auto simp: acts_on_def tool_turn_def)
qed (use assms keeps_toolsD [OF _ assms(3,4)] in
    \<open>auto simp: part_at_on_tool_call tool_effect_def acts_on_def tool_turn_def starts_turn_def
       keeps_tools_cases keeps_tools_same\<close>)

lemma tool_effect_running:
  assumes "tc_status tc = StPendingConfirmation \<or> tc_status tc = StStreaming"
    and "tc_status (tool_effect a tc) = StRunning"
  shows "approves tc a"
  using assms
  by (cases tc) (auto simp: tool_effect_def approves_def toolCallReady_def ready_transition_def toolCallConfirmed_def
      toolCallComplete_def toolCallResultConfirmed_def toolCallContentChanged_def toolCallAuthRequired_def
      toolCallAuthResolved_def Let_def split: chat_action.splits chat_tool_call_confirmed_action.splits
        if_splits option.splits)

text \<open>
  C24. No tool call starts running unapproved: one that was still streaming or waiting for
  confirmation runs after an action only if that action targets the tool call in the running
  turn and either approves it or marks it ready with a confirmation reason.
\<close>

theorem tool_call_runs_only_approved:
  assumes "chatReducer s a = Inr s'" and "\<not> starts_turn a"
    and "part_at s i = Some (ToolCallPart tc)" and "part_at s' i = Some (ToolCallPart tc')"
    and "tc_status tc = StPendingConfirmation \<or> tc_status tc = StStreaming" and "tc_status tc' = StRunning"
  shows "approves tc a \<and> acts_on a s"
proof -
  have "chat_activeTurn s' \<noteq> None" using assms(4) by (rule part_at_active)
  from reducer_tool_effect [OF assms(1-3) this] assms(4-6) show ?thesis
    using tool_effect_running [of tc a] by (cases "acts_on a s") auto
qed

lemma tool_call_runs_only_approved_witness:
  "approves sample_pending sample_approve
   \<and> acts_on sample_approve (sample_chat (Some (sample_turn sample_pending)) status_InputNeeded)"
  by (rule tool_call_runs_only_approved [OF sample_approve_step, of 1 _ sample_running])
    (simp_all add: starts_turn_def part_at_def sample_defs)

definition auth_gate :: "tool_call_state \<Rightarrow> tool_call_state \<Rightarrow> chat_action \<Rightarrow> bool" where
  "auth_gate tc tc' a \<longleftrightarrow>
     (tc_status tc' = StAuthRequired \<and> tc_status tc \<noteq> StAuthRequired \<longrightarrow>
        tc_status tc = StRunning \<and> is_mcp (tc_contributor (tcBase tc)))
   \<and> (tc_status tc = StAuthRequired \<longrightarrow>
        tc' = tc
      \<or> (\<exists>x. a = ChatToolCallAuthResolved x \<and> tc_status tc' = StRunning)
      \<or> (\<exists>b p post r. tc' = TcCompleted b p post r \<and> \<not> tcr_success r))"

lemma tool_effect_auth: "auth_gate tc (tool_effect a tc) a"
  by (cases tc) (auto simp: auth_gate_def tool_effect_def toolCallReady_def ready_transition_def
      toolCallConfirmed_def toolCallComplete_def toolCallResultConfirmed_def toolCallContentChanged_def
      toolCallAuthRequired_def toolCallAuthResolved_def with_content_def Let_def
      split: chat_action.split chat_tool_call_confirmed_action.split option.split)

text \<open>
  The authentication gate: a tool call comes to wait for authentication only from running
  and only when an MCP server contributed it, and while it waits it goes back to running only
  by the action that says the authentication was resolved, and can only complete as a failure.
\<close>

theorem tool_call_auth_gate:
  assumes "chatReducer s a = Inr s'" and "\<not> starts_turn a"
    and "part_at s i = Some (ToolCallPart tc)" and "part_at s' i = Some (ToolCallPart tc')"
  shows "auth_gate tc tc' a"
proof -
  have "chat_activeTurn s' \<noteq> None" using assms(4) by (rule part_at_active)
  from reducer_tool_effect [OF assms(1-3) this] assms(4) show ?thesis
    by (cases "acts_on a s") (auto simp: tool_effect_auth, simp add: auth_gate_def)
qed

definition sample_auth :: chat_action where
  "sample_auth = ChatToolCallAuthRequired \<lparr>tca_turnId = ''t1'', tca_toolCallId = ''c1'', tca_meta = None,
     tcAuthReq_auth = \<lparr>mcpauth_reason = AuthExpired, mcpauth_oauthClient = None,
       mcpauth_resource = \<lparr>prm_resource = ''r'', prm_resource_name = None, prm_authorization_servers = None,
         prm_jwks_uri = None, prm_scopes_supported = None, prm_bearer_methods_supported = None,
         prm_resource_signing_alg_values_supported = None, prm_resource_documentation = None,
         prm_resource_policy_uri = None, prm_resource_tos_uri = None, prm_required = None\<rparr>,
       mcpauth_requiredScopes = None, mcpauth_description = None\<rparr>\<rparr>"

definition sample_mcp_running :: tool_call_state where
  "sample_mcp_running = TcRunning (sample_base (Some (McpContributor ''m''))) sample_params
     \<lparr>tcpost_confirmed = UserActionReason, tcpost_selectedOption = None\<rparr> \<lparr>tcrun_content = None\<rparr>"

definition sample_waiting :: tool_call_state where
  "sample_waiting = (case (sample_mcp_running, sample_auth) of
     (TcRunning b p post run, ChatToolCallAuthRequired x) \<Rightarrow>
        TcAuthRequired b p post \<lparr>tcauth_auth = tcAuthReq_auth x, tcauth_content = None\<rparr>
   | _ \<Rightarrow> sample_mcp_running)"

lemma sample_auth_step:
  "chatReducer (sample_chat (Some (sample_turn sample_mcp_running)) status_InProgress) sample_auth
   = Inr (sample_chat (Some (sample_turn sample_waiting)) status_InputNeeded)"
  by code_simp

lemma tool_call_auth_gate_witness:
  "auth_gate sample_mcp_running sample_waiting sample_auth \<and> tc_status sample_waiting = StAuthRequired"
  using tool_call_auth_gate [OF sample_auth_step, of 1 sample_mcp_running sample_waiting]
  by (simp add: starts_turn_def part_at_def sample_chat_def sample_turn_def sample_waiting_def
      sample_mcp_running_def sample_auth_def)

section \<open>Ending a turn and the history\<close>

definition finalized_part :: "response_part \<Rightarrow> bool" where
  "finalized_part p = (case p of ToolCallPart tc \<Rightarrow> tc_status tc = StCompleted \<or> tc_status tc = StCancelled | _ \<Rightarrow> True)"

lemma finalized_finalize [simp]: "finalized_part (finalize_part p)"
  by (cases p) (auto simp: finalized_part_def finalize_part_def)

lemma finalize_finalized [simp]: "finalized_part p \<Longrightarrow> finalize_part p = p"
  by (cases p) (auto simp: finalized_part_def finalize_part_def)

text \<open>The turn an active turn is recorded as.\<close>

definition recorded_turn :: "active_turn \<Rightarrow> turn \<Rightarrow> bool" where
  "recorded_turn t r \<longleftrightarrow>
     turn_id r = aturn_id t \<and> turn_startedAt r = Some (aturn_startedAt t) \<and> turn_message r = aturn_message t
   \<and> turn_usage r = aturn_usage t \<and> (\<exists>d \<ge> 0. turn_duration r = Some d)
   \<and> length (turn_responseParts r) = length (aturn_responseParts t)
   \<and> (\<forall>i < length (aturn_responseParts t). finalized_part (turn_responseParts r ! i)
        \<and> (finalized_part (aturn_responseParts t ! i) \<longrightarrow>
             turn_responseParts r ! i = aturn_responseParts t ! i))"

definition turn_end :: "chat_action \<Rightarrow> (js_string \<times> js_number) option" where
  "turn_end a =
     (case a of
        ChatTurnComplete x \<Rightarrow> Some (turnComplete_turnId x, turnComplete_duration x)
      | ChatTurnCancelled x \<Rightarrow> Some (turnCancelled_turnId x, turnCancelled_duration x)
      | ChatError x \<Rightarrow> Some (chatErr_turnId x, chatErr_duration x)
      | _ \<Rightarrow> None)"

lemma endTurn_records:
  assumes "endTurn s tid st d ts e = Inr s'" and "chat_activeTurn s = Some t" and "aturn_id t = tid"
  shows "chat_activeTurn s' = None \<and> (\<exists>r. chat_turns s' = chat_turns s @ [r] \<and> recorded_turn t r \<and> turn_state r = st)"
  using assms by (auto simp: endTurn_def Let_def js_map_def recorded_turn_def split: sum.splits)

lemma endTurn_stale:
  "map_option aturn_id (chat_activeTurn s) \<noteq> Some tid \<Longrightarrow> endTurn s tid st d ts e = Inr s"
  by (auto simp: endTurn_def split: option.split)


text \<open>The end of a turn computes the modification time and is the only place the reducer can throw.\<close>

definition end_throws :: "chat_state \<Rightarrow> chat_action \<Rightarrow> bool" where
  "end_throws s a =
     (case (turn_end a, chat_activeTurn s) of
        (Some (tid, d), Some t) \<Rightarrow> aturn_id t = tid
          \<and> (case date_parse (aturn_startedAt t) of None \<Rightarrow> True
             | Some x \<Rightarrow> \<bar>of_int x + max 0 d\<bar> > (of_int max_time :: js_number))
      | _ \<Rightarrow> False)"

lemma to_iso_string_ok:
  "js_ok (to_iso_string v) \<longleftrightarrow> (case v of None \<Rightarrow> False | Some x \<Rightarrow> \<bar>x\<bar> \<le> of_int max_time)"
  by (simp add: to_iso_string_def split: option.split)

lemma to_iso_string_error: "to_iso_string v = Inl e \<Longrightarrow> e = RangeError ''Invalid time value''"
  by (auto simp: to_iso_string_def split: option.splits if_splits)

lemma js_ok_map [simp]: "js_ok (js_map f r) = js_ok r"
  by (cases r) simp_all

lemma endTurn_ok:
  "js_ok (endTurn s tid st d ts e) \<longleftrightarrow>
     (case chat_activeTurn s of None \<Rightarrow> True
      | Some t \<Rightarrow> aturn_id t = tid \<longrightarrow>
          (case date_parse (aturn_startedAt t) of None \<Rightarrow> False
           | Some x \<Rightarrow> \<bar>of_int x + max 0 d\<bar> \<le> (of_int max_time :: js_number)))"
  by (auto simp: endTurn_def Let_def addMillisecondsToTimestamp_def to_iso_string_ok split: option.split)

lemma chatReducer_ok: "js_ok (chatReducer s a) \<longleftrightarrow> \<not> end_throws s a"
proof (cases a)
  case (ChatTurnComplete x)
  then show ?thesis by (auto simp: end_throws_def turn_end_def endTurn_ok split: option.split)
next
  case (ChatTurnCancelled x)
  then show ?thesis by (auto simp: end_throws_def turn_end_def endTurn_ok split: option.split)
next
  case (ChatError x)
  then show ?thesis by (auto simp: end_throws_def turn_end_def endTurn_ok split: option.split)
qed (simp_all add: end_throws_def turn_end_def)

lemma sample_end_ok: "js_ok (chatReducer (sample_chat (Some (sample_turn tc)) w) sample_end)"
proof -
  have "date_parse ''1970-01-01T00:00:00.000Z'' = Some 0" by code_simp
  then show ?thesis
    by (simp add: endTurn_ok sample_end_def sample_chat_def sample_turn_def
        max_time_def)
qed


text \<open>
  The reducer throws exactly when an action ends the running turn and the recorded start is
  not a valid time, or is one that the duration pushes out of the representable range; the
  error is then the \<open>RangeError\<close> of \<open>toISOString\<close>. Every other action returns a state.
\<close>

theorem chatReducer_throws_iff:
  "chatReducer s a = Inl e \<longleftrightarrow> end_throws s a \<and> e = RangeError ''Invalid time value''"
proof -
  have "e = RangeError ''Invalid time value''" if "endTurn s tid st d ts er = Inl e" for tid st d ts er e
    using that by (auto simp: endTurn_def Let_def js_map_def addMillisecondsToTimestamp_def
        dest: to_iso_string_error split: option.splits if_splits sum.splits)
  then have "e = RangeError ''Invalid time value''" if "chatReducer s a = Inl e" for e
    using that by (cases a) auto
  moreover have "(\<exists>e. chatReducer s a = Inl e) = (\<not> js_ok (chatReducer s a))"
    by (cases "chatReducer s a") auto
  ultimately show ?thesis by (auto simp: chatReducer_ok)
qed

section \<open>History\<close>

definition extends_history :: "chat_state \<Rightarrow> chat_action \<Rightarrow> chat_state \<Rightarrow> bool" where
  "extends_history s a s' =
     (case a of
        ChatTruncated _ \<Rightarrow> prefix (chat_turns s') (chat_turns s)
      | ChatTurnsLoaded x \<Rightarrow> (\<exists>older. chat_turns s' = older @ chat_turns s
          \<and> set older \<subseteq> set (loaded_turns x) \<and> turn_id ` set older \<inter> turn_id ` set (chat_turns s) = {})
      | _ \<Rightarrow> if turn_end a = None then chat_turns s' = chat_turns s
             else prefix (chat_turns s) (chat_turns s') \<and> length (chat_turns s') \<le> length (chat_turns s) + 1)"

lemma turns_helpers [simp]:
  "chat_turns (updateResponsePart s tid pid f) = chat_turns s"
  "chat_turns (in_active_turn s tid g) = chat_turns s"
  "chat_turns (on_tool_call s b h) = chat_turns s"
  "chat_turns (refreshSummaryStatus s) = chat_turns s"
  "chat_turns (upsertInputRequestPart s req) = chat_turns s"
  "chat_turns (chatInputAnswerChanged s x) = chat_turns s"
  "chat_turns (chatInputCompleted s y) = chat_turns s"
  "chat_turns (chatPendingMessageSet s z) = chat_turns s"
  "chat_turns (chatPendingMessageRemoved s w) = chat_turns s"
  "chat_turns (chatQueuedMessagesReordered s os) = chat_turns s"
  "chat_turns (chatTurnStarted s v) = chat_turns s"
  by (simp_all add: updateResponsePart_def in_active_turn_def on_tool_call_def updateToolCallInParts_def
      refreshSummaryStatus_def upsertInputRequestPart_def chatInputAnswerChanged_def chatInputCompleted_def
      chatPendingMessageSet_def chatPendingMessageRemoved_def chatQueuedMessagesReordered_def chatTurnStarted_def
      set_active_parts_def set_active_turn_def Let_def split: option.split pending_message_kind.split)

lemma turns_endTurn:
  "endTurn s tid st d ts e = Inr s' \<Longrightarrow> \<exists>rs. chat_turns s' = chat_turns s @ rs \<and> length rs \<le> 1"
  by (auto simp: endTurn_def Let_def js_map_def split: option.splits if_splits sum.splits)

lemma truncated_prefix: "prefix (chat_turns (chatTruncated s x)) (chat_turns s)"
  by (auto simp: chatTruncated_def Let_def take_is_prefix split: option.split)

text \<open>
  The history of finished turns is never rewritten: truncation keeps a prefix of it,
  loading older turns puts new ones in front of it, the end of a turn adds at most one turn
  after it, and no other action touches it.
\<close>

theorem chat_history_kept:
  assumes "chatReducer s a = Inr s'"
  shows "extends_history s a s'"
proof (cases a)
  case (ChatTurnsLoaded x)
  with assms show ?thesis by (auto simp: extends_history_def chatTurnsLoaded_def)
next
  case (ChatToolCallConfirmed act)
  with assms show ?thesis by (cases act) (auto simp: extends_history_def turn_end_def)
qed (use assms turns_endTurn in \<open>fastforce simp: extends_history_def turn_end_def truncated_prefix\<close>)+

lemma chat_history_kept_witness:
  "extends_history (sample_chat (Some (sample_turn sample_pending)) status_InputNeeded) sample_approve
     (sample_chat (Some (sample_turn sample_running)) status_InProgress)"
  by (rule chat_history_kept [OF sample_approve_step])

section \<open>Flags and stale actions\<close>

definition clears_read :: "chat_state \<Rightarrow> chat_action \<Rightarrow> bool" where
  "clears_read s a =
     (case a of ChatTurnStarted _ \<Rightarrow> True | ChatInputRequested _ \<Rightarrow> chat_activeTurn s \<noteq> None | _ \<Rightarrow> False)"

definition flags_kept :: "session_status \<Rightarrow> session_status \<Rightarrow> bool" where
  "flags_kept w w' \<longleftrightarrow> (\<forall>n \<ge> 5. bit w' n = bit w n)"

lemma flags_kept_refl [simp]: "flags_kept w w" by (simp add: flags_kept_def)

lemma flags_kept_summary:
  "chat_status s = w \<Longrightarrow> flags_kept w (summaryStatus s None)"
  "chat_status s = w \<Longrightarrow> flags_kept w (summaryStatus s (Some status_Error))"
  by (simp_all add: flags_kept_def summaryStatus_None summaryStatus_Error bit_withActivity)

lemma status_helpers [simp]:
  "chat_status (updateResponsePart s tid pid f) = chat_status s"
  "chat_status (in_active_turn s tid g) = chat_status s"
  "chat_status (on_tool_call s b h) = chat_status s"
  "chat_status (chatInputAnswerChanged s x) = chat_status s"
  "chat_status (chatPendingMessageSet s z) = chat_status s"
  "chat_status (chatPendingMessageRemoved s w) = chat_status s"
  "chat_status (chatQueuedMessagesReordered s os) = chat_status s"
  "chat_status (chatTurnsLoaded s ts) = chat_status s"
  by (simp_all add: updateResponsePart_def in_active_turn_def on_tool_call_def updateToolCallInParts_def
      chatInputAnswerChanged_def chatPendingMessageSet_def chatPendingMessageRemoved_def
      chatQueuedMessagesReordered_def chatTurnsLoaded_def set_active_parts_def set_active_turn_def Let_def
      split: option.split pending_message_kind.split)

lemma flags_helpers:
  "flags_kept (chat_status s) (chat_status (refreshSummaryStatus (on_tool_call s b h)))"
  "flags_kept (chat_status s) (chat_status (chatInputCompleted s y))"
  "flags_kept (chat_status s) (chat_status (chatTruncated s w))"
  by (simp_all add: refresh_eq chatInputCompleted_def chatTruncated_def Let_def flags_kept_summary
      set_active_parts_def set_active_turn_def split: option.split)

lemma flags_endTurn:
  "endTurn s tid st d ts e = Inr s' \<Longrightarrow> ts \<in> {None, Some status_Error} \<Longrightarrow>
   flags_kept (chat_status s) (chat_status s')"
  by (auto simp: endTurn_def Let_def js_map_def flags_kept_summary split: option.splits if_splits sum.splits)

lemma flags_unread:
  "chat_status s = w \<Longrightarrow> n \<ge> 5 \<Longrightarrow>
   bit (withStatusFlag (summaryStatus s None) status_IsRead False) n = (bit w n \<and> n \<noteq> 5)"
  by (simp add: bit_unread summaryStatus_None bit_withActivity)

lemma status_turnStarted:
  "n \<ge> 5 \<Longrightarrow> bit (chat_status (chatTurnStarted s x)) n = (bit (chat_status s) n \<and> n \<noteq> 5)"
  by (simp add: chatTurnStarted_def Let_def flags_unread split: option.split)

lemma status_inputRequested:
  "n \<ge> 5 \<Longrightarrow> bit (chat_status (upsertInputRequestPart s x)) n =
     (bit (chat_status s) n \<and> (n \<noteq> 5 \<or> chat_activeTurn s = None))"
  by (simp add: upsertInputRequestPart_def Let_def flags_unread set_active_parts_def set_active_turn_def
      split: option.split)

text \<open>
  Above the activity bits an action changes exactly one bit: \<open>IsRead\<close> is cleared when a
  turn starts or input is requested in a running turn; \<open>IsArchived\<close> and every bit this
  version does not know are kept, and nothing ever sets \<open>IsRead\<close>.
\<close>

theorem chat_flags_exact:
  assumes "chatReducer s a = Inr s'" and "n \<ge> 5"
  shows "bit (chat_status s') n = (bit (chat_status s) n \<and> \<not> (n = 5 \<and> clears_read s a))"
proof -
  have kept: "clears_read s a = False \<Longrightarrow> flags_kept (chat_status s) (chat_status s')"
  proof (cases a)
    case (ChatToolCallConfirmed act)
    with assms show ?thesis by (cases act) (auto simp: flags_helpers)
  next
    case (ChatInputRequested x)
    moreover assume "clears_read s a = False"
    ultimately show ?thesis using assms by (auto simp: clears_read_def upsertInputRequestPart_def)
  qed (use assms in \<open>auto simp: clears_read_def flags_helpers dest: flags_endTurn\<close>)
  show ?thesis
  proof (cases "clears_read s a")
    case True
    then show ?thesis using assms
      by (cases a) (auto simp: clears_read_def status_turnStarted status_inputRequested)
  next
    case False
    then show ?thesis using kept assms(2) by (simp add: flags_kept_def)
  qed
qed

lemma chat_flags_exact_witness:
  "bit (chat_status (sample_chat (Some (sample_turn sample_running)) status_InProgress)) 6
   = bit (chat_status (sample_chat (Some (sample_turn sample_pending)) status_InputNeeded)) 6"
  using chat_flags_exact [OF sample_approve_step, of 6] by simp

text \<open>The tool call actions that refresh the summary status, whether or not they find a tool call.\<close>

definition refreshes :: "chat_action \<Rightarrow> bool" where
  "refreshes a =
     (case a of
        ChatToolCallReady _ \<Rightarrow> True | ChatToolCallConfirmed _ \<Rightarrow> True | ChatToolCallComplete _ \<Rightarrow> True
      | ChatToolCallResultConfirmed _ \<Rightarrow> True | ChatToolCallAuthRequired _ \<Rightarrow> True
      | ChatToolCallAuthResolved _ \<Rightarrow> True | _ \<Rightarrow> False)"

lemma on_tool_call_no_turn [simp]: "chat_activeTurn s = None \<Longrightarrow> on_tool_call s a f = s"
  by (simp add: on_tool_call_def updateToolCallInParts_def)

text \<open>
  C40. A tool call action that arrives when no turn runs (late, after the turn failed) finds
  no tool call to act on, but still rewrites the status of the chat: the error the failed
  turn left in the summary turns into idle.
\<close>

theorem stale_tool_call_erases_error:
  assumes "chat_activeTurn s = None" and "refreshes a"
  shows "chatReducer s a = Inr (s\<lparr>chat_status := withActivity (chat_status s) status_Idle\<rparr>)"
proof -
  have refreshed: "refreshSummaryStatus s = s\<lparr>chat_status := withActivity (chat_status s) status_Idle\<rparr>"
    using assms(1) by (simp add: refresh_eq summaryStatus_None expected_activity_eq)
  show ?thesis
  proof (cases a)
    case (ChatToolCallConfirmed act)
    with assms refreshed show ?thesis by (cases act) simp_all
  qed (use assms refreshed in \<open>auto simp: refreshes_def\<close>)
qed

lemma stale_tool_call_erases_error_witness:
  "chatReducer (sample_chat None status_Error) sample_complete = Inr (sample_chat None status_Idle)"
proof -
  have "withActivity status_Error status_Idle = status_Idle" by code_simp
  then show ?thesis
    using stale_tool_call_erases_error [of "sample_chat None status_Error" sample_complete]
    by (simp add: sample_chat_def refreshes_def sample_complete_def)
qed

section \<open>Queued messages and streamed text\<close>

lemma known_order_props:
  "distinct (known_order known seen os) \<and> set (known_order known seen os) \<subseteq> set known - set seen
   \<and> subseq (known_order known seen os) os"
proof (induction os arbitrary: seen)
  case (Cons x xs)
  then show ?case using Cons.IH [of "x # seen"] by auto
qed simp

lemma known_order_complete:
  "set known \<inter> set os - set seen \<subseteq> set (known_order known seen os)"
proof (induction os arbitrary: seen)
  case (Cons x os)
  from Cons.IH [of seen] Cons.IH [of "x # seen"] show ?case by auto
qed simp

lemma map_of_ids:
  "distinct (map pm_id ms) \<Longrightarrow> m \<in> set ms \<Longrightarrow> map_of (rev (map (\<lambda>m. (pm_id m, m)) ms)) (pm_id m) = Some m"
  by (rule map_of_is_SomeI) (auto simp: rev_map [symmetric] comp_def distinct_rev)

lemma reordered_ids:
  assumes "distinct (map pm_id ms)"
  shows "map pm_id (map (\<lambda>i. the (map_of (rev (map (\<lambda>m. (pm_id m, m)) ms)) i)) (known_order (map pm_id ms) [] os))
    = known_order (map pm_id ms) [] os"
proof -
  have "pm_id (the (map_of (rev (map (\<lambda>m. (pm_id m, m)) ms)) i)) = i"
    if i: "i \<in> set (known_order (map pm_id ms) [] os)" for i
  proof -
    from i known_order_props [of "map pm_id ms" "[]" os] obtain m where "m \<in> set ms" "i = pm_id m" by auto
    with map_of_ids [OF assms] show ?thesis by simp
  qed
  then show ?thesis by (simp add: map_idI)
qed

lemma reorder_mset:
  assumes d: "distinct (map pm_id ms)"
  shows "distinct (map pm_id (reorder_messages os ms))" "set (reorder_messages os ms) = set ms"
proof -
  let ?ids = "known_order (map pm_id ms) [] os"
  let ?by = "map_of (rev (map (\<lambda>m. (pm_id m, m)) ms))"
  note k = known_order_props [of "map pm_id ms" "[]" os]
  have split: "reorder_messages os ms = map (\<lambda>i. the (?by i)) ?ids @ filter (\<lambda>m. pm_id m \<notin> set ?ids) ms"
    by (simp add: reorder_messages_def Let_def)
  have "map pm_id (reorder_messages os ms) = ?ids @ map pm_id (filter (\<lambda>m. pm_id m \<notin> set ?ids) ms)"
    by (simp only: split map_append reordered_ids [OF d])
  moreover have "distinct (map pm_id (filter (\<lambda>m. pm_id m \<notin> set ?ids) ms))"
    by (rule distinct_map_filter [OF d])
  ultimately show "distinct (map pm_id (reorder_messages os ms))" using k by auto
  have "(\<lambda>i. the (?by i)) ` set ?ids = {m \<in> set ms. pm_id m \<in> set ?ids}"
  proof -
    have "the (?by (pm_id m)) = m" if "m \<in> set ms" for m using map_of_ids [OF d that] by simp
    moreover have "set ?ids \<subseteq> pm_id ` set ms" using k by auto
    ultimately show ?thesis by (force simp: image_iff subset_iff)
  qed
  then show "set (reorder_messages os ms) = set ms" by (auto simp: split)
qed

text \<open>
  Reordering the queue loses and duplicates nothing: the queued messages are a permutation
  of the ones before, those the order names come first and in that order, and the others
  follow in the order they had.
\<close>

theorem reorder_is_permutation:
  assumes "distinct (map pm_id ms)"
  shows "distinct (map pm_id (reorder_messages os ms)) \<and> set (reorder_messages os ms) = set ms
    \<and> (\<exists>named rest. reorder_messages os ms = named @ rest \<and> subseq (map pm_id named) os
         \<and> subseq rest ms \<and> pm_id ` set rest \<inter> set os = {})"
proof -
  let ?ids = "known_order (map pm_id ms) [] os"
  have "reorder_messages os ms
      = map (\<lambda>i. the (map_of (rev (map (\<lambda>m. (pm_id m, m)) ms)) i)) ?ids @ filter (\<lambda>m. pm_id m \<notin> set ?ids) ms"
    by (simp add: reorder_messages_def Let_def)
  moreover have "pm_id ` set (filter (\<lambda>m. pm_id m \<notin> set ?ids) ms) \<inter> set os = {}"
    using known_order_complete [of "map pm_id ms" os "[]"] by auto
  ultimately have "\<exists>named rest. reorder_messages os ms = named @ rest \<and> subseq (map pm_id named) os
         \<and> subseq rest ms \<and> pm_id ` set rest \<inter> set os = {}"
    using known_order_props [of "map pm_id ms" "[]" os] reordered_ids [OF assms, of os] subseq_filter_left
    by (intro exI conjI) (assumption | simp)+
  then show ?thesis using reorder_mset [OF assms, of os] by blast
qed

lemma reorder_is_permutation_witness:
  "map pm_id (reorder_messages [''b'', ''x'', ''b''] (map (\<lambda>i. \<lparr>pm_id = i, pm_message = sample_message\<rparr>) [''a'', ''b'', ''c'']))
     = [''b'', ''a'', ''c'']
   \<and> set (reorder_messages [''b'', ''x'', ''b''] (map (\<lambda>i. \<lparr>pm_id = i, pm_message = sample_message\<rparr>) [''a'', ''b'', ''c'']))
     = set (map (\<lambda>i. \<lparr>pm_id = i, pm_message = sample_message\<rparr>) [''a'', ''b'', ''c''])"
  using reorder_is_permutation [of "map (\<lambda>i. \<lparr>pm_id = i, pm_message = sample_message\<rparr>) [''a'', ''b'', ''c'']"
      "[''b'', ''x'', ''b'']"]
  by (simp add: reorder_messages_def Let_def)

definition delta_action :: "js_string \<Rightarrow> js_string \<Rightarrow> js_string \<Rightarrow> chat_action" where
  "delta_action tid pid c =
     ChatDelta \<lparr>delta_turnId = tid, delta_partId = pid, delta_content = c, delta_meta = None\<rparr>"

definition addressed_part :: "chat_state \<Rightarrow> js_string \<Rightarrow> js_string \<Rightarrow> nat option" where
  "addressed_part s tid pid = (case chat_activeTurn s of None \<Rightarrow> None
     | Some t \<Rightarrow> if aturn_id t = tid then find_index (\<lambda>p. response_part_id p = Some pid) (aturn_responseParts t)
               else None)"

lemma find_index_update_same:
  "find_index P xs = Some i \<Longrightarrow> P y \<Longrightarrow> find_index P (xs[i := y]) = Some i"
  by (induction xs arbitrary: i) (auto split: if_splits nat.split)

lemma delta_step:
  assumes "addressed_part s tid pid = Some i" and "part_at s i = Some (MarkdownPart p)"
  obtains s' where "chatReducer s (delta_action tid pid c) = Inr s'" "addressed_part s' tid pid = Some i"
    "part_at s' i = Some (MarkdownPart (p\<lparr>mdpart_content := mdpart_content p @ c\<rparr>))"
proof -
  from assms obtain t where t: "chat_activeTurn s = Some t" "aturn_id t = tid"
    "find_index (\<lambda>q. response_part_id q = Some pid) (aturn_responseParts t) = Some i"
    "i < length (aturn_responseParts t)" "aturn_responseParts t ! i = MarkdownPart p"
    by (auto simp: addressed_part_def part_at_def split: option.splits if_splits)
  from find_index_SomeD [OF t(3)] t(5) have id: "mdpart_id p = pid" by (simp add: response_part_id_def)
  let ?q = "MarkdownPart (p\<lparr>mdpart_content := mdpart_content p @ c\<rparr>)"
  let ?s = "set_active_parts s t ((aturn_responseParts t)[i := ?q])"
  have "chatReducer s (delta_action tid pid c) = Inr ?s"
    using t by (simp add: delta_action_def updateResponsePart_def append_markdown_def)
  moreover have "addressed_part ?s tid pid = Some i"
    using t id by (simp add: addressed_part_def set_active_parts_def set_active_turn_def
        find_index_update_same response_part_id_def)
  moreover have "part_at ?s i = Some ?q"
    using t by (simp add: part_at_def set_active_parts_def set_active_turn_def)
  ultimately show thesis by (rule that)
qed

text \<open>
  Streaming loses no text: after any sequence of deltas the markdown part they address
  holds its old content followed by all of the chunks, in the order they arrived.
\<close>

theorem streamed_text_concatenates:
  assumes "addressed_part s tid pid = Some i" and "part_at s i = Some (MarkdownPart p)"
  shows "\<exists>s'. chat_run s (map (delta_action tid pid) cs) = Inr s'
     \<and> part_at s' i = Some (MarkdownPart (p\<lparr>mdpart_content := mdpart_content p @ concat cs\<rparr>))"
  using assms
proof (induction cs arbitrary: s p)
  case (Cons c cs)
  obtain s1 where s1: "chatReducer s (delta_action tid pid c) = Inr s1" "addressed_part s1 tid pid = Some i"
    "part_at s1 i = Some (MarkdownPart (p\<lparr>mdpart_content := mdpart_content p @ c\<rparr>))"
    by (rule delta_step [OF Cons.prems])
  from Cons.IH [OF s1(2,3)] s1(1) show ?case by simp
qed simp

lemma streamed_text_concatenates_witness:
  "\<exists>s'. chat_run (sample_chat (Some (sample_turn sample_running)) status_InProgress)
       (map (delta_action ''t1'' ''m1'') [''c'', ''de'']) = Inr s'
     \<and> part_at s' 0 = Some (MarkdownPart \<lparr>mdpart_id = ''m1'', mdpart_content = ''abcde''\<rparr>)"
  using streamed_text_concatenates [of "sample_chat (Some (sample_turn sample_running)) status_InProgress"
      "''t1''" "''m1''" 0 "\<lparr>mdpart_id = ''m1'', mdpart_content = ''ab''\<rparr>" "[''c'', ''de'']"]
  by (simp add: addressed_part_def part_at_def sample_chat_def sample_turn_def response_part_id_def)

end
