(* ===== verification/Keyed_Channel.thy ===== *)
theory Keyed_Channel
  imports Prelude
begin

text \<open>
  The contract shared by the keyed collections of the protocol (chats, active clients and input
  requests of a session, files of a changeset, annotations and their entries, automations, queued
  messages): a collection is a finite map, one action replaces or adds the entry with a key
  and one removes it. The collections keep arrays; their order is not part of the contract.
\<close>

datatype ('k, 'v) keyed_op = Put 'v | Drop 'k

fun apply_op :: "('v \<Rightarrow> 's \<Rightarrow> 's) \<Rightarrow> ('k \<Rightarrow> 's \<Rightarrow> 's) \<Rightarrow> ('k, 'v) keyed_op \<Rightarrow> 's \<Rightarrow> 's" where
  "apply_op put drp (Put v) = put v"
| "apply_op put drp (Drop k) = drp k"

text \<open>The specification of an operation on the map.\<close>

fun map_op :: "('v \<Rightarrow> 'k) \<Rightarrow> ('k, 'v) keyed_op \<Rightarrow> ('k \<rightharpoonup> 'v) \<Rightarrow> ('k \<rightharpoonup> 'v)" where
  "map_op key (Put v) m = m(key v \<mapsto> v)"
| "map_op key (Drop k) m = m(k := None)"

fun op_key :: "('v \<Rightarrow> 'k) \<Rightarrow> ('k, 'v) keyed_op \<Rightarrow> 'k" where
  "op_key key (Put v) = key v"
| "op_key key (Drop k) = k"

fun op_value :: "('k, 'v) keyed_op \<Rightarrow> 'v option" where
  "op_value (Put v) = Some v"
| "op_value (Drop k) = None"

lemma map_op_eq: "map_op key p m = m(op_key key p := op_value p)"
  by (cases p) auto

lemma map_op_commute:
  "op_key key p \<noteq> op_key key q \<Longrightarrow> map_op key p (map_op key q m) = map_op key q (map_op key p m)"
  by (simp add: map_op_eq fun_upd_twist)

lemma map_op_absorb:
  "op_key key p = op_key key q \<Longrightarrow> map_op key p (map_op key q m) = map_op key p m"
  by (simp add: map_op_eq)

lemma fold_map_op:
  "fold (map_op key) ops m k =
     (case find (\<lambda>p. op_key key p = k) (rev ops) of None \<Rightarrow> m k | Some p \<Rightarrow> op_value p)"
proof (induction ops arbitrary: m)
  case (Cons p ops)
  have app: "find P (xs @ ys) = (case find P xs of None \<Rightarrow> find P ys | Some x \<Rightarrow> Some x)"
    for P :: "('k, 'v) keyed_op \<Rightarrow> bool" and xs ys by (induction xs) auto
  have "fold (map_op key) (p # ops) m k =
      (case find (\<lambda>p. op_key key p = k) (rev ops) of None \<Rightarrow> map_op key p m k | Some q \<Rightarrow> op_value q)"
    by (simp add: Cons.IH)
  also have "map_op key p m k = (if k = op_key key p then op_value p else m k)"
    by (simp add: map_op_eq)
  finally show ?case by (simp add: app split: option.split)
qed simp

locale keyed_channel =
  fixes inv :: "'s \<Rightarrow> bool" and view :: "'s \<Rightarrow> 'k \<rightharpoonup> 'v" and key :: "'v \<Rightarrow> 'k"
    and put :: "'v \<Rightarrow> 's \<Rightarrow> 's" and drp :: "'k \<Rightarrow> 's \<Rightarrow> 's"
  assumes put_inv: "inv s \<Longrightarrow> inv (put v s)"
    and drop_inv: "inv s \<Longrightarrow> inv (drp k s)"
    and view_put: "inv s \<Longrightarrow> view (put v s) = (view s)(key v \<mapsto> v)"
    and view_drop: "inv s \<Longrightarrow> view (drp k s) = (view s)(k := None)"
begin

lemma step_inv: "inv s \<Longrightarrow> inv (apply_op put drp p s)"
  by (cases p) (simp_all add: put_inv drop_inv)

lemma step_view: "inv s \<Longrightarrow> view (apply_op put drp p s) = map_op key p (view s)"
  by (cases p) (simp_all add: view_put view_drop)

lemma run_inv: "inv s \<Longrightarrow> inv (fold (apply_op put drp) ops s)"
  by (induction ops arbitrary: s) (simp_all add: step_inv)

lemma run_view: "inv s \<Longrightarrow> view (fold (apply_op put drp) ops s) = fold (map_op key) ops (view s)"
  by (induction ops arbitrary: s) (simp_all add: step_inv step_view)

lemma run_last_writer:
  "inv s \<Longrightarrow> view (fold (apply_op put drp) ops s) k =
     (case find (\<lambda>p. op_key key p = k) (rev ops) of None \<Rightarrow> view s k | Some p \<Rightarrow> op_value p)"
  by (simp add: run_view fold_map_op)

lemma replicas_agree:
  "inv s \<Longrightarrow> inv s' \<Longrightarrow> view s = view s' \<Longrightarrow>
   view (fold (apply_op put drp) ops s) = view (fold (apply_op put drp) ops s')"
  by (simp add: run_view)

lemma redelivery:
  "inv s \<Longrightarrow> view (apply_op put drp p (apply_op put drp p s)) = view (apply_op put drp p s)"
  by (simp add: step_view step_inv map_op_absorb)

lemma independent_commute:
  "inv s \<Longrightarrow> op_key key p \<noteq> op_key key q \<Longrightarrow>
   view (apply_op put drp p (apply_op put drp q s)) = view (apply_op put drp q (apply_op put drp p s))"
  by (simp add: step_view step_inv map_op_commute)

end

text \<open>
  The arrays that implement such a map are updated by \<open>upsert\<close> and \<open>remove_by\<close>; they keep
  the keys distinct and so satisfy the contract.
\<close>

definition view_by :: "('v \<Rightarrow> 'k) \<Rightarrow> 'v list \<Rightarrow> 'k \<rightharpoonup> 'v" where
  "view_by key xs k = lookup_by key k xs"

lemma view_by_upsert: "view_by key (upsert key x xs) = (view_by key xs)(key x \<mapsto> x)"
  by (auto simp: view_by_def lookup_by_upsert fun_eq_iff)

lemma view_by_remove: "distinct (map key xs) \<Longrightarrow> view_by key (remove_by key k xs) = (view_by key xs)(k := None)"
  by (auto simp: view_by_def lookup_by_remove_by fun_eq_iff)

lemmas keyed_list = view_by_upsert view_by_remove distinct_keys_upsert distinct_keys_remove_by

interpretation keyed_list: keyed_channel "\<lambda>xs. distinct (map key xs)" "view_by key" key "upsert key" "remove_by key"
  for key :: "'v \<Rightarrow> 'k"
  by unfold_locales (simp_all add: keyed_list)

lemma map_keys_update:
  "i < length xs \<Longrightarrow> key y = key (xs ! i) \<Longrightarrow> map key (xs[i := y]) = map key xs"
  by (simp add: map_update list_update_same_conv)

lemma upsert_existing:
  "find_index (\<lambda>y. key y = key x) xs = Some i \<Longrightarrow> upsert key x xs = xs[i := x]"
  by (simp add: upsert_def)

end
