(* ===== verification/Changeset.thy ===== *)
theory Changeset
  imports Common_State Keyed_Channel
begin

text \<open>
  The changeset channel, \<open>channels-changeset/{state,actions,reducer}.ts\<close>: the computed set of
  changed files, their review marks and the operations offered on them.
\<close>

section \<open>State and actions\<close>

record changeset_capabilities =
  csetcap_review :: "unit js_record option"

record changeset =
  cset_label :: "js_string"
  cset_uriTemplate :: "js_string"
  cset_description :: "js_string option"
  cset_changeKind :: "js_string"
  cset_capabilities :: "changeset_capabilities option"

datatype changeset_status = ChangesetComputing | ChangesetReady | ChangesetErrorStatus

record changeset_file =
  csfile_id :: "js_string"
  csfile_edit :: "file_edit"
  csfile_reviewed :: "bool option"
  csfile_meta :: "json js_record option"

datatype changeset_operation_status = OpIdle | OpRunning | OpError | OpDisabled

datatype changeset_operation_scope = ScopeChangeset | ScopeResource | ScopeRange

record changeset_operation =
  csop_id :: "js_string"
  csop_label :: "js_string"
  csop_description :: "js_string option"
  csop_scopes :: "changeset_operation_scope list"
  csop_confirmation :: "string_or_markdown option"
  csop_icon :: "js_string option"
  csop_group :: "js_string option"
  csop_status :: "changeset_operation_status"
  csop_error :: "error_info option"

record changeset_state =
  cs_status :: "changeset_status"
  cs_error :: "error_info option"
  cs_files :: "changeset_file list"
  cs_operations :: "changeset_operation list option"

record changeset_status_changed_action =
  csStatus_status :: "changeset_status"
  csStatus_error :: "error_info option"

record changeset_files_review_changed_action =
  csReview_files :: "js_string list"
  csReview_reviewed :: "bool"

record changeset_content_changed_action =
  csContent_files :: "changeset_file list"
  csContent_operations :: "changeset_operation list option"

record changeset_operation_status_changed_action =
  csOpStatus_operationId :: "js_string"
  csOpStatus_status :: "changeset_operation_status"
  csOpStatus_error :: "error_info option"

datatype changeset_action =
    ChangesetStatusChanged changeset_status_changed_action
  | ChangesetFileSet changeset_file
  | ChangesetFileRemoved js_string
  | ChangesetFilesReviewChanged changeset_files_review_changed_action
  | ChangesetContentChanged changeset_content_changed_action
  | ChangesetOperationsChanged "changeset_operation list option"
  | ChangesetOperationStatusChanged changeset_operation_status_changed_action
  | ChangesetCleared
  | ChangesetUnhandled js_string

section \<open>The reducer\<close>

definition changesetStatusChanged :: "changeset_state \<Rightarrow> changeset_status_changed_action \<Rightarrow> changeset_state" where
  "changesetStatusChanged state a =
     (if csStatus_status a = ChangesetErrorStatus
      then state\<lparr>cs_status := csStatus_status a, cs_error := csStatus_error a\<rparr>
      else state\<lparr>cs_status := csStatus_status a, cs_error := None\<rparr>)"

definition changesetFileSet :: "changeset_state \<Rightarrow> changeset_file \<Rightarrow> changeset_state" where
  "changesetFileSet state file = state\<lparr>cs_files := upsert csfile_id file (cs_files state)\<rparr>"

definition changesetFileRemoved :: "changeset_state \<Rightarrow> js_string \<Rightarrow> changeset_state" where
  "changesetFileRemoved state fileId =
     (case find_index (\<lambda>f. csfile_id f = fileId) (cs_files state) of
        None \<Rightarrow> state
      | Some idx \<Rightarrow> state\<lparr>cs_files := remove_at idx (cs_files state)\<rparr>)"

definition review_file :: "js_string list \<Rightarrow> bool \<Rightarrow> changeset_file \<Rightarrow> changeset_file" where
  "review_file ids reviewed f =
     (if csfile_id f \<notin> set ids \<or> csfile_reviewed f = Some reviewed then f
      else f\<lparr>csfile_reviewed := Some reviewed\<rparr>)"

definition changesetFilesReviewChanged ::
    "changeset_state \<Rightarrow> changeset_files_review_changed_action \<Rightarrow> changeset_state" where
  "changesetFilesReviewChanged state a =
     (let next = map (review_file (csReview_files a) (csReview_reviewed a)) (cs_files state);
          changed = list_ex (\<lambda>f. csfile_id f \<in> set (csReview_files a)
                               \<and> csfile_reviewed f \<noteq> Some (csReview_reviewed a)) (cs_files state)
      in if changed then state\<lparr>cs_files := next\<rparr> else state)"

definition changesetContentChanged :: "changeset_state \<Rightarrow> changeset_content_changed_action \<Rightarrow> changeset_state" where
  "changesetContentChanged state a =
     (case csContent_operations a of
        None \<Rightarrow> state\<lparr>cs_files := csContent_files a\<rparr>
      | Some ops \<Rightarrow> state\<lparr>cs_files := csContent_files a, cs_operations := Some ops\<rparr>)"

definition operation_with_status ::
    "changeset_operation_status_changed_action \<Rightarrow> changeset_operation \<Rightarrow> changeset_operation" where
  "operation_with_status a current =
     (if csOpStatus_status a = OpError
      then current\<lparr>csop_status := csOpStatus_status a, csop_error := csOpStatus_error a\<rparr>
      else current\<lparr>csop_status := csOpStatus_status a, csop_error := None\<rparr>)"

definition changesetOperationStatusChanged ::
    "changeset_state \<Rightarrow> changeset_operation_status_changed_action \<Rightarrow> changeset_state" where
  "changesetOperationStatusChanged state a =
     (case cs_operations state of
        None \<Rightarrow> state
      | Some ops \<Rightarrow>
         (case find_index (\<lambda>p. csop_id p = csOpStatus_operationId a) ops of
            None \<Rightarrow> state
          | Some idx \<Rightarrow> state\<lparr>cs_operations := Some (ops[idx := operation_with_status a (ops ! idx)])\<rparr>))"

definition changesetCleared :: "changeset_state \<Rightarrow> changeset_state" where
  "changesetCleared state = (if cs_files state = [] then state else state\<lparr>cs_files := []\<rparr>)"

fun changesetReducer :: "changeset_state \<Rightarrow> changeset_action \<Rightarrow> changeset_state" where
  "changesetReducer s (ChangesetStatusChanged a) = changesetStatusChanged s a"
| "changesetReducer s (ChangesetFileSet f) = changesetFileSet s f"
| "changesetReducer s (ChangesetFileRemoved i) = changesetFileRemoved s i"
| "changesetReducer s (ChangesetFilesReviewChanged a) = changesetFilesReviewChanged s a"
| "changesetReducer s (ChangesetContentChanged a) = changesetContentChanged s a"
| "changesetReducer s (ChangesetOperationsChanged ops) = s\<lparr>cs_operations := ops\<rparr>"
| "changesetReducer s (ChangesetOperationStatusChanged a) = changesetOperationStatusChanged s a"
| "changesetReducer s ChangesetCleared = changesetCleared s"
| "changesetReducer s (ChangesetUnhandled _) = s"

section \<open>The files are a finite map\<close>

lemma files_after_set: "cs_files (changesetFileSet s f) = upsert csfile_id f (cs_files s)"
  by (simp add: changesetFileSet_def)

lemma files_after_removed: "cs_files (changesetFileRemoved s i) = remove_by csfile_id i (cs_files s)"
  by (simp add: changesetFileRemoved_def remove_by_def split: option.split)

definition file_ids_distinct :: "changeset_state \<Rightarrow> bool" where
  "file_ids_distinct s \<longleftrightarrow> distinct (map csfile_id (cs_files s))"

definition files_view :: "changeset_state \<Rightarrow> js_string \<rightharpoonup> changeset_file" where
  "files_view s = view_by csfile_id (cs_files s)"

interpretation files: keyed_channel file_ids_distinct files_view csfile_id
    "\<lambda>f s. changesetReducer s (ChangesetFileSet f)" "\<lambda>i s. changesetReducer s (ChangesetFileRemoved i)"
  by unfold_locales
    (simp_all add: file_ids_distinct_def files_view_def files_after_set files_after_removed keyed_list)

lemma csfile_id_review [simp]: "csfile_id (review_file ids r f) = csfile_id f"
  by (simp add: review_file_def)

lemma files_after_review:
  "cs_files (changesetFilesReviewChanged s a) =
     map (review_file (csReview_files a) (csReview_reviewed a)) (cs_files s)"
proof -
  have "map (review_file ids r) fs = fs"
    if "\<not> list_ex (\<lambda>f. csfile_id f \<in> set ids \<and> csfile_reviewed f \<noteq> Some r) fs" for ids r fs
    using that by (induction fs) (auto simp: review_file_def)
  then show ?thesis by (simp add: changesetFilesReviewChanged_def Let_def)
qed

text \<open>An error is present only together with the error status, for the set and for its operations.\<close>

definition operation_error_ok :: "changeset_operation \<Rightarrow> bool" where
  "operation_error_ok p \<longleftrightarrow> csop_error p = None \<or> csop_status p = OpError"

definition changeset_ok :: "changeset_state \<Rightarrow> bool" where
  "changeset_ok s \<longleftrightarrow>
     file_ids_distinct s
   \<and> (cs_error s = None \<or> cs_status s = ChangesetErrorStatus)
   \<and> (case cs_operations s of None \<Rightarrow> True
      | Some ops \<Rightarrow> distinct (map csop_id ops) \<and> list_all operation_error_ok ops)"

text \<open>What the server must respect when it replaces whole lists.\<close>

definition changeset_action_ok :: "changeset_action \<Rightarrow> bool" where
  "changeset_action_ok a =
     (case a of
        ChangesetContentChanged x \<Rightarrow> distinct (map csfile_id (csContent_files x))
          \<and> (case csContent_operations x of None \<Rightarrow> True
             | Some ops \<Rightarrow> distinct (map csop_id ops) \<and> list_all operation_error_ok ops)
      | ChangesetOperationsChanged (Some ops) \<Rightarrow> distinct (map csop_id ops) \<and> list_all operation_error_ok ops
      | _ \<Rightarrow> True)"

lemma operations_after_status:
  assumes "find_index (\<lambda>p. csop_id p = csOpStatus_operationId a) ops = Some i"
    and "distinct (map csop_id ops)" and "list_all operation_error_ok ops"
  shows "distinct (map csop_id (ops[i := operation_with_status a (ops ! i)]))
       \<and> list_all operation_error_ok (ops[i := operation_with_status a (ops ! i)])"
proof -
  have "csop_id (operation_with_status a (ops ! i)) = csop_id (ops ! i)"
    by (simp add: operation_with_status_def)
  then have "map csop_id (ops[i := operation_with_status a (ops ! i)]) = map csop_id ops"
    by (rule map_keys_update [OF find_index_less [OF assms(1)]])
  moreover have "operation_error_ok (operation_with_status a p)" for p
    by (simp add: operation_with_status_def operation_error_ok_def)
  ultimately show ?thesis using assms(2,3) set_update_subset_insert [of ops i]
    by (fastforce simp: list_all_iff)
qed


definition sample_file :: "js_string \<Rightarrow> changeset_file" where
  "sample_file i = \<lparr>csfile_id = i, csfile_edit = \<lparr>fedit_before = None, fedit_after = None, fedit_diff = None\<rparr>,
     csfile_reviewed = None, csfile_meta = None\<rparr>"

definition sample_changeset :: changeset_state where
  "sample_changeset = \<lparr>cs_status = ChangesetReady, cs_error = None,
     cs_files = [sample_file ''a'', sample_file ''b''], cs_operations = None\<rparr>"


text \<open>
  The files of a changeset are a finite map from ids to files: any sequence of set and
  removed actions has the effect of the same updates and deletions of a map, so the last
  action on a file decides what replicas see.
\<close>

theorem changeset_files_refine_map:
  assumes "file_ids_distinct s"
  shows "files_view (fold (apply_op (\<lambda>f s. changesetReducer s (ChangesetFileSet f))
                               (\<lambda>i s. changesetReducer s (ChangesetFileRemoved i))) ops s)
       = fold (map_op csfile_id) ops (files_view s)"
  by (rule files.run_view [OF assms])

lemma changeset_files_refine_map_witness:
  "files_view (fold (apply_op (\<lambda>f s. changesetReducer s (ChangesetFileSet f))
                         (\<lambda>i s. changesetReducer s (ChangesetFileRemoved i)))
       [Drop ''a'', Put (sample_file ''c''), Put (sample_file ''b'')] sample_changeset)
   = fold (map_op csfile_id) [Drop ''a'', Put (sample_file ''c''), Put (sample_file ''b'')]
       (files_view sample_changeset)"
  by (rule changeset_files_refine_map)
    (simp add: file_ids_distinct_def sample_changeset_def sample_file_def)

end
