(* ===== verification/Annotations.thy ===== *)
theory Annotations
  imports Common_State Keyed_Channel
begin

text \<open>
  The annotations channel of a session, \<open>channels-annotations/{state,actions,reducer}.ts\<close>:
  anchored comment threads, each with its entries.
\<close>

section \<open>State and actions\<close>

record annotations_summary =
  annsum_resource :: "js_string"
  annsum_annotationCount :: "js_number"
  annsum_entryCount :: "js_number"

record annotation_origin =
  annorigin_session :: "js_string"
  annorigin_chat :: "js_string option"
  annorigin_turnId :: "js_string option"

record annotation_entry =
  annentry_id :: "js_string"
  annentry_text :: "string_or_markdown"
  annentry_meta :: "json js_record option"

record annotation =
  ann_id :: "js_string"
  ann_origin :: "annotation_origin"
  ann_resource :: "js_string"
  ann_range :: "text_range option"
  ann_resolved :: "bool"
  ann_entries :: "annotation_entry list"
  ann_meta :: "json js_record option"

record annotations_state =
  anns_annotations :: "annotation list"

record annotations_updated_action =
  annUpd_annotationId :: "js_string"
  annUpd_origin :: "annotation_origin option"
  annUpd_resource :: "js_string option"
  annUpd_range :: "text_range option"
  annUpd_resolved :: "bool option"

record annotations_entry_set_action =
  annEntrySet_annotationId :: "js_string"
  annEntrySet_entry :: "annotation_entry"

record annotations_entry_removed_action =
  annEntryRem_annotationId :: "js_string"
  annEntryRem_entryId :: "js_string"

datatype annotations_action =
    AnnotationsSet annotation
  | AnnotationsUpdated annotations_updated_action
  | AnnotationsRemoved js_string
  | AnnotationsEntrySet annotations_entry_set_action
  | AnnotationsEntryRemoved annotations_entry_removed_action
  | AnnotationsUnhandled js_string

section \<open>The reducer\<close>

definition find_annotation :: "annotations_state \<Rightarrow> js_string \<Rightarrow> nat option" where
  "find_annotation state i = find_index (\<lambda>t. ann_id t = i) (anns_annotations state)"

definition set_annotation_at :: "annotations_state \<Rightarrow> nat \<Rightarrow> annotation \<Rightarrow> annotations_state" where
  "set_annotation_at state idx t = state\<lparr>anns_annotations := (anns_annotations state)[idx := t]\<rparr>"

definition annotationsSet :: "annotations_state \<Rightarrow> annotation \<Rightarrow> annotations_state" where
  "annotationsSet state t =
     (case find_annotation state (ann_id t) of
        None \<Rightarrow> state\<lparr>anns_annotations := anns_annotations state @ [t]\<rparr>
      | Some idx \<Rightarrow> set_annotation_at state idx t)"

definition update_annotation :: "annotations_updated_action \<Rightarrow> annotation \<Rightarrow> annotation" where
  "update_annotation a t =
     t\<lparr>ann_origin := or_default (annUpd_origin a) (ann_origin t),
       ann_resource := or_default (annUpd_resource a) (ann_resource t),
       ann_range := orelse (annUpd_range a) (ann_range t),
       ann_resolved := or_default (annUpd_resolved a) (ann_resolved t)\<rparr>"

definition annotationsUpdated :: "annotations_state \<Rightarrow> annotations_updated_action \<Rightarrow> annotations_state" where
  "annotationsUpdated state a =
     (case find_annotation state (annUpd_annotationId a) of
        None \<Rightarrow> state
      | Some idx \<Rightarrow> set_annotation_at state idx (update_annotation a (anns_annotations state ! idx)))"

definition annotationsRemoved :: "annotations_state \<Rightarrow> js_string \<Rightarrow> annotations_state" where
  "annotationsRemoved state i =
     (case find_annotation state i of
        None \<Rightarrow> state
      | Some idx \<Rightarrow> state\<lparr>anns_annotations := remove_at idx (anns_annotations state)\<rparr>)"

definition annotationsEntrySet :: "annotations_state \<Rightarrow> annotations_entry_set_action \<Rightarrow> annotations_state" where
  "annotationsEntrySet state a =
     (case find_annotation state (annEntrySet_annotationId a) of
        None \<Rightarrow> state
      | Some tIdx \<Rightarrow>
         let t = anns_annotations state ! tIdx;
             entry = annEntrySet_entry a;
             entries = (case find_index (\<lambda>c. annentry_id c = annentry_id entry) (ann_entries t) of
                None \<Rightarrow> ann_entries t @ [entry]
              | Some cIdx \<Rightarrow> (ann_entries t)[cIdx := entry])
         in set_annotation_at state tIdx (t\<lparr>ann_entries := entries\<rparr>))"

definition annotationsEntryRemoved :: "annotations_state \<Rightarrow> annotations_entry_removed_action \<Rightarrow> annotations_state" where
  "annotationsEntryRemoved state a =
     (case find_annotation state (annEntryRem_annotationId a) of
        None \<Rightarrow> state
      | Some tIdx \<Rightarrow>
         let t = anns_annotations state ! tIdx
         in (case find_index (\<lambda>c. annentry_id c = annEntryRem_entryId a) (ann_entries t) of
               None \<Rightarrow> state
             | Some cIdx \<Rightarrow> set_annotation_at state tIdx (t\<lparr>ann_entries := remove_at cIdx (ann_entries t)\<rparr>)))"

fun annotationsReducer :: "annotations_state \<Rightarrow> annotations_action \<Rightarrow> annotations_state" where
  "annotationsReducer s (AnnotationsSet t) = annotationsSet s t"
| "annotationsReducer s (AnnotationsUpdated a) = annotationsUpdated s a"
| "annotationsReducer s (AnnotationsRemoved i) = annotationsRemoved s i"
| "annotationsReducer s (AnnotationsEntrySet a) = annotationsEntrySet s a"
| "annotationsReducer s (AnnotationsEntryRemoved a) = annotationsEntryRemoved s a"
| "annotationsReducer s (AnnotationsUnhandled _) = s"

section \<open>Threads and entries are finite maps\<close>

definition annotation_ids_distinct :: "annotations_state \<Rightarrow> bool" where
  "annotation_ids_distinct s \<longleftrightarrow> distinct (map ann_id (anns_annotations s))"

definition annotations_view :: "annotations_state \<Rightarrow> js_string \<rightharpoonup> annotation" where
  "annotations_view s = view_by ann_id (anns_annotations s)"

lemma annotations_after_set: "anns_annotations (annotationsSet s t) = upsert ann_id t (anns_annotations s)"
  by (simp add: annotationsSet_def find_annotation_def set_annotation_at_def upsert_def split: option.split)

lemma annotations_after_removed:
  "anns_annotations (annotationsRemoved s i) = remove_by ann_id i (anns_annotations s)"
  by (simp add: annotationsRemoved_def find_annotation_def remove_by_def split: option.split)

interpretation threads: keyed_channel annotation_ids_distinct annotations_view ann_id
    "\<lambda>t s. annotationsReducer s (AnnotationsSet t)" "\<lambda>i s. annotationsReducer s (AnnotationsRemoved i)"
  by unfold_locales
    (simp_all add: annotation_ids_distinct_def annotations_view_def annotations_after_set
      annotations_after_removed keyed_list)

text \<open>The entries of one existing thread, seen through the whole channel.\<close>

definition thread_entries :: "js_string \<Rightarrow> annotations_state \<Rightarrow> annotation_entry list" where
  "thread_entries i s =
     (case lookup_by ann_id i (anns_annotations s) of None \<Rightarrow> [] | Some t \<Rightarrow> ann_entries t)"

definition entries_ok :: "js_string \<Rightarrow> annotations_state \<Rightarrow> bool" where
  "entries_ok i s \<longleftrightarrow> i \<in> ann_id ` set (anns_annotations s) \<and> distinct (map annentry_id (thread_entries i s))"

definition entries_view :: "js_string \<Rightarrow> annotations_state \<Rightarrow> js_string \<rightharpoonup> annotation_entry" where
  "entries_view i s = view_by annentry_id (thread_entries i s)"

lemma find_index_lookup:
  "find_index (\<lambda>y. key y = k) xs = Some j \<Longrightarrow> lookup_by key k xs = Some (xs ! j)"
  by (induction xs arbitrary: j) (auto split: if_splits)

lemma lookup_update_at:
  "find_index (\<lambda>y. key y = k) xs = Some j \<Longrightarrow> key y = k \<Longrightarrow> lookup_by key k (xs[j := y]) = Some y"
  by (induction xs arbitrary: j) (auto split: if_splits nat.split)

lemma find_annotation_None: "find_annotation s i = None \<longleftrightarrow> i \<notin> ann_id ` set (anns_annotations s)"
  by (auto simp: find_annotation_def find_index_None_iff)

lemma find_annotation_id: "find_annotation s i = Some j \<Longrightarrow> ann_id (anns_annotations s ! j) = i"
  by (auto simp: find_annotation_def dest: find_index_SomeD)

lemma thread_set_at:
  assumes "find_annotation s i = Some j" and "ann_id t = i"
  shows "thread_entries i (set_annotation_at s j t) = ann_entries t"
    "ann_id ` set (anns_annotations (set_annotation_at s j t)) = ann_id ` set (anns_annotations s)"
proof -
  show "thread_entries i (set_annotation_at s j t) = ann_entries t"
    using assms lookup_update_at [of ann_id i "anns_annotations s" j t]
    by (simp add: thread_entries_def set_annotation_at_def find_annotation_def)
  have "map ann_id ((anns_annotations s)[j := t]) = map ann_id (anns_annotations s)"
    using assms find_annotation_id [OF assms(1)]
    by (intro map_keys_update) (auto simp: find_annotation_def dest: find_index_less)
  then show "ann_id ` set (anns_annotations (set_annotation_at s j t)) = ann_id ` set (anns_annotations s)"
    unfolding set_annotation_at_def by (metis (no_types) annotations_state.select_convs(1)
      annotations_state.surjective annotations_state.update_convs(1) list.set_map)
qed

lemma thread_entries_at:
  "find_annotation s i = Some j \<Longrightarrow> thread_entries i s = ann_entries (anns_annotations s ! j)"
  using find_index_lookup [of ann_id i "anns_annotations s" j]
  by (simp add: thread_entries_def find_annotation_def)

lemma entry_set_effect:
  assumes "i \<in> ann_id ` set (anns_annotations s)"
  shows "thread_entries i (annotationsEntrySet s \<lparr>annEntrySet_annotationId = i, annEntrySet_entry = x\<rparr>)
       = upsert annentry_id x (thread_entries i s)
     \<and> i \<in> ann_id ` set (anns_annotations (annotationsEntrySet s \<lparr>annEntrySet_annotationId = i, annEntrySet_entry = x\<rparr>))"
proof -
  from assms obtain j where j: "find_annotation s i = Some j"
    using find_annotation_None [of s i] by (cases "find_annotation s i") auto
  with assms thread_set_at [OF j] find_annotation_id [OF j] show ?thesis
    by (simp add: annotationsEntrySet_def Let_def thread_entries_at upsert_def split: option.split)
qed

lemma entry_removed_effect:
  assumes "i \<in> ann_id ` set (anns_annotations s)"
  shows "thread_entries i (annotationsEntryRemoved s \<lparr>annEntryRem_annotationId = i, annEntryRem_entryId = c\<rparr>)
       = remove_by annentry_id c (thread_entries i s)
     \<and> i \<in> ann_id ` set (anns_annotations (annotationsEntryRemoved s \<lparr>annEntryRem_annotationId = i, annEntryRem_entryId = c\<rparr>))"
proof -
  from assms obtain j where j: "find_annotation s i = Some j"
    using find_annotation_None [of s i] by (cases "find_annotation s i") auto
  with assms thread_set_at [OF j] find_annotation_id [OF j] show ?thesis
    by (simp add: annotationsEntryRemoved_def Let_def thread_entries_at remove_by_def split: option.split)
qed

interpretation entries: keyed_channel "entries_ok i" "entries_view i" annentry_id
    "\<lambda>x s. annotationsReducer s (AnnotationsEntrySet \<lparr>annEntrySet_annotationId = i, annEntrySet_entry = x\<rparr>)"
    "\<lambda>c s. annotationsReducer s (AnnotationsEntryRemoved \<lparr>annEntryRem_annotationId = i, annEntryRem_entryId = c\<rparr>)"
  for i
  by unfold_locales
    (simp_all add: entries_ok_def entries_view_def entry_set_effect entry_removed_effect keyed_list)

text \<open>
  The entries of a thread are a finite map: any sequence of entry-set and entry-removed
  actions on an existing thread has the effect of the same map updates, whatever the order in
  which the arrays hold the entries.
\<close>

theorem annotation_entries_refine_map:
  assumes "entries_ok i s"
  shows "entries_view i (fold (apply_op
      (\<lambda>x s. annotationsReducer s (AnnotationsEntrySet \<lparr>annEntrySet_annotationId = i, annEntrySet_entry = x\<rparr>))
      (\<lambda>c s. annotationsReducer s (AnnotationsEntryRemoved \<lparr>annEntryRem_annotationId = i, annEntryRem_entryId = c\<rparr>)))
      ops s) = fold (map_op annentry_id) ops (entries_view i s)"
  by (rule entries.run_view [OF assms])

definition sample_entry :: "js_string \<Rightarrow> annotation_entry" where
  "sample_entry i = \<lparr>annentry_id = i, annentry_text = PlainText i, annentry_meta = None\<rparr>"

definition sample_annotations :: annotations_state where
  "sample_annotations = \<lparr>anns_annotations = [\<lparr>ann_id = ''n1'',
     ann_origin = \<lparr>annorigin_session = ''s'', annorigin_chat = None, annorigin_turnId = None\<rparr>,
     ann_resource = ''file:/a'', ann_range = None, ann_resolved = False,
     ann_entries = [sample_entry ''e1''], ann_meta = None\<rparr>]\<rparr>"

lemma annotation_entries_refine_map_witness:
  "entries_view ''n1'' (fold (apply_op
      (\<lambda>x s. annotationsReducer s (AnnotationsEntrySet \<lparr>annEntrySet_annotationId = ''n1'', annEntrySet_entry = x\<rparr>))
      (\<lambda>c s. annotationsReducer s (AnnotationsEntryRemoved \<lparr>annEntryRem_annotationId = ''n1'', annEntryRem_entryId = c\<rparr>)))
      [Put (sample_entry ''e2''), Drop ''e1''] sample_annotations)
   = fold (map_op annentry_id) [Put (sample_entry ''e2''), Drop ''e1''] (entries_view ''n1'' sample_annotations)"
  by (rule annotation_entries_refine_map)
    (simp add: entries_ok_def thread_entries_def sample_annotations_def sample_entry_def)

section \<open>Frame of the thread actions\<close>

definition annotation_target :: "annotations_action \<Rightarrow> js_string option" where
  "annotation_target a =
     (case a of
        AnnotationsSet t \<Rightarrow> Some (ann_id t)
      | AnnotationsUpdated x \<Rightarrow> Some (annUpd_annotationId x)
      | AnnotationsRemoved i \<Rightarrow> Some i
      | AnnotationsEntrySet x \<Rightarrow> Some (annEntrySet_annotationId x)
      | AnnotationsEntryRemoved x \<Rightarrow> Some (annEntryRem_annotationId x)
      | AnnotationsUnhandled _ \<Rightarrow> None)"

lemma lookup_update_other:
  "key y \<noteq> k \<Longrightarrow> key (xs ! j) \<noteq> k \<Longrightarrow> lookup_by key k (xs[j := y]) = lookup_by key k xs"
  by (induction xs arbitrary: j) (auto split: nat.split)

lemma set_at_frame:
  assumes "find_annotation s i = Some j" and "ann_id t = i"
  shows "annotation_ids_distinct (set_annotation_at s j t) = annotation_ids_distinct s"
    "i' \<noteq> i \<Longrightarrow> annotations_view (set_annotation_at s j t) i' = annotations_view s i'"
proof -
  have "j < length (anns_annotations s)" using assms(1) by (auto simp: find_annotation_def dest: find_index_less)
  moreover have id: "ann_id (anns_annotations s ! j) = i" by (rule find_annotation_id [OF assms(1)])
  ultimately have "map ann_id ((anns_annotations s)[j := t]) = map ann_id (anns_annotations s)"
    using assms(2) by (simp add: map_keys_update)
  then show "annotation_ids_distinct (set_annotation_at s j t) = annotation_ids_distinct s"
    by (simp add: annotation_ids_distinct_def set_annotation_at_def)
  show "annotations_view (set_annotation_at s j t) i' = annotations_view s i'" if "i' \<noteq> i"
    using that assms(2) id
    by (simp add: annotations_view_def view_by_def set_annotation_at_def lookup_update_other)
qed

lemma annotations_view_None: "annotations_view s i = None \<longleftrightarrow> find_annotation s i = None"
proof -
  have "lookup_by ann_id i xs = None \<longleftrightarrow> find_index (\<lambda>t. ann_id t = i) xs = None" for xs :: "annotation list"
    by (induction xs) auto
  then show ?thesis by (simp add: annotations_view_def view_by_def find_annotation_def)
qed

lemma missing_thread:
  assumes "\<forall>t. a \<noteq> AnnotationsSet t" and "\<forall>i. annotation_target a = Some i \<longrightarrow> annotations_view s i = None"
  shows "annotationsReducer s a = s"
  using assms by (cases a)
    (simp_all add: annotation_target_def annotations_view_None annotationsUpdated_def annotationsRemoved_def
      annotationsEntrySet_def annotationsEntryRemoved_def)

lemma other_threads:
  assumes "annotation_ids_distinct s"
  shows "annotation_ids_distinct (annotationsReducer s a)
    \<and> (\<forall>i. annotation_target a \<noteq> Some i \<longrightarrow>
         annotations_view (annotationsReducer s a) i = annotations_view s i)"
proof (cases a)
  case (AnnotationsSet t)
  with assms threads.put_inv [OF assms, of t] threads.view_put [OF assms, of t] show ?thesis
    by (simp add: annotation_target_def)
next
  case (AnnotationsRemoved i)
  with assms threads.drop_inv [OF assms, of i] threads.view_drop [OF assms, of i] show ?thesis
    by (simp add: annotation_target_def)
next
  case (AnnotationsUpdated x)
  then show ?thesis using assms set_at_frame [of s "annUpd_annotationId x"] find_annotation_id
    by (auto simp: annotation_target_def annotationsUpdated_def update_annotation_def split: option.split)
next
  case (AnnotationsEntrySet x)
  then show ?thesis using assms set_at_frame [of s "annEntrySet_annotationId x"] find_annotation_id
    by (auto simp: annotation_target_def annotationsEntrySet_def Let_def split: option.split)
next
  case (AnnotationsEntryRemoved x)
  then show ?thesis using assms set_at_frame [of s "annEntryRem_annotationId x"] find_annotation_id
    by (auto simp: annotation_target_def annotationsEntryRemoved_def Let_def split: option.split)
next
  case (AnnotationsUnhandled n)
  then show ?thesis using assms by simp
qed

text \<open>
  Every annotation action is local to the thread it names: thread ids stay distinct, no
  other thread changes, and an action on a thread that does not exist, other than the one that
  adds it, changes nothing.
\<close>

theorem annotation_action_local:
  assumes "annotation_ids_distinct s"
  shows "annotation_ids_distinct (annotationsReducer s a)
    \<and> (\<forall>i. annotation_target a \<noteq> Some i \<longrightarrow>
         annotations_view (annotationsReducer s a) i = annotations_view s i)
    \<and> ((\<forall>t. a \<noteq> AnnotationsSet t) \<and> (\<forall>i. annotation_target a = Some i \<longrightarrow> annotations_view s i = None)
         \<longrightarrow> annotationsReducer s a = s)"
  using other_threads [OF assms] missing_thread by blast

lemma annotation_action_local_witness:
  "annotation_ids_distinct (annotationsReducer sample_annotations (AnnotationsRemoved ''n2''))
   \<and> annotations_view (annotationsReducer sample_annotations (AnnotationsRemoved ''n2'')) ''n1''
     = annotations_view sample_annotations ''n1''
   \<and> annotationsReducer sample_annotations (AnnotationsRemoved ''n2'') = sample_annotations"
proof -
  have "annotation_ids_distinct sample_annotations" "annotations_view sample_annotations ''n2'' = None"
    by (simp_all add: annotation_ids_distinct_def sample_annotations_def annotations_view_def view_by_def)
  then show ?thesis
    using annotation_action_local [of sample_annotations "AnnotationsRemoved ''n2''"]
    by (simp add: annotation_target_def)
qed

end
