(* ===== verification/Terminal.thy ===== *)
theory Terminal
  imports Common_State
begin

text \<open>
  The terminal channel, \<open>channels-terminal/{state,actions,reducer}.ts\<close>: the scrollback as a list
  of unclassified and command parts, the claim on the terminal and its lifecycle.
\<close>

section \<open>State and actions\<close>

datatype terminal_lifecycle_state =
    TerminalRunning
  | TerminalExitedState "js_number option"

record terminal_session_claim =
  tclaim_session :: "js_string"
  tclaim_chat :: "js_string"
  tclaim_turnId :: "js_string option"
  tclaim_toolCallId :: "js_string option"

datatype terminal_claim = ClientClaim js_string | SessionClaim terminal_session_claim

record terminal_info =
  terminfo_resource :: "js_string"
  terminfo_title :: "js_string"
  terminfo_claim :: "terminal_claim"
  terminfo_lifecycle :: "terminal_lifecycle_state"

record terminal_unclassified_part =
  tunc_value :: "js_string"

record terminal_command_part =
  tcom_commandId :: "js_string"
  tcom_commandLine :: "js_string"
  tcom_output :: "js_string"
  tcom_timestamp :: "js_number"
  tcom_isComplete :: "bool"
  tcom_exitCode :: "js_number option"
  tcom_durationMs :: "js_number option"

datatype terminal_content_part =
    UnclassifiedContent terminal_unclassified_part
  | CommandContent terminal_command_part

record terminal_state =
  term_title :: "js_string"
  term_cwd :: "js_string option"
  term_cols :: "js_number option"
  term_rows :: "js_number option"
  term_content :: "terminal_content_part list"
  term_lifecycle :: "terminal_lifecycle_state"
  term_claim :: "terminal_claim"
  term_supportsCommandDetection :: "bool option"
  term_isPty :: "bool option"

record terminal_resized_action =
  termResized_cols :: "js_number"
  termResized_rows :: "js_number"

record terminal_command_executed_action =
  termExec_commandId :: "js_string"
  termExec_commandLine :: "js_string"
  termExec_timestamp :: "js_number"

record terminal_command_finished_action =
  termFin_commandId :: "js_string"
  termFin_exitCode :: "js_number option"
  termFin_durationMs :: "js_number option"

datatype terminal_action =
    TerminalData js_string
  | TerminalInput js_string
  | TerminalResized terminal_resized_action
  | TerminalClaimed terminal_claim
  | TerminalTitleChanged js_string
  | TerminalCwdChanged js_string
  | TerminalExited "js_number option"
  | TerminalCleared
  | TerminalCommandDetectionAvailable
  | TerminalCommandExecuted terminal_command_executed_action
  | TerminalCommandFinished terminal_command_finished_action
  | TerminalUnhandled js_string

section \<open>The reducer\<close>

definition append_data :: "js_string \<Rightarrow> terminal_content_part list \<Rightarrow> terminal_content_part list" where
  "append_data data content =
     (if content = [] then [UnclassifiedContent \<lparr>tunc_value = data\<rparr>]
      else case last content of
        CommandContent p \<Rightarrow>
          if \<not> tcom_isComplete p
          then content[length content - 1 := CommandContent (p\<lparr>tcom_output := tcom_output p @ data\<rparr>)]
          else content @ [UnclassifiedContent \<lparr>tunc_value = data\<rparr>]
      | UnclassifiedContent p \<Rightarrow>
          content[length content - 1 := UnclassifiedContent (p\<lparr>tunc_value := tunc_value p @ data\<rparr>)])"

definition command_part :: "terminal_command_executed_action \<Rightarrow> terminal_content_part" where
  "command_part a = CommandContent \<lparr>tcom_commandId = termExec_commandId a,
     tcom_commandLine = termExec_commandLine a, tcom_output = [], tcom_timestamp = termExec_timestamp a,
     tcom_isComplete = False, tcom_exitCode = None, tcom_durationMs = None\<rparr>"

definition finish_part :: "terminal_command_finished_action \<Rightarrow> terminal_content_part \<Rightarrow> terminal_content_part" where
  "finish_part a part =
     (case part of
        CommandContent p \<Rightarrow>
          if tcom_commandId p = termFin_commandId a
          then CommandContent (p\<lparr>tcom_isComplete := True, tcom_exitCode := termFin_exitCode a,
                                 tcom_durationMs := termFin_durationMs a\<rparr>)
          else part
      | UnclassifiedContent _ \<Rightarrow> part)"

fun terminalReducer :: "terminal_state \<Rightarrow> terminal_action \<Rightarrow> terminal_state" where
  "terminalReducer s (TerminalData data) = s\<lparr>term_content := append_data data (term_content s)\<rparr>"
| "terminalReducer s (TerminalInput _) = s"
| "terminalReducer s (TerminalResized a) = s\<lparr>term_cols := Some (termResized_cols a), term_rows := Some (termResized_rows a)\<rparr>"
| "terminalReducer s (TerminalClaimed c) = s\<lparr>term_claim := c\<rparr>"
| "terminalReducer s (TerminalTitleChanged t) = s\<lparr>term_title := t\<rparr>"
| "terminalReducer s (TerminalCwdChanged d) = s\<lparr>term_cwd := Some d\<rparr>"
| "terminalReducer s (TerminalExited code) = s\<lparr>term_lifecycle := TerminalExitedState code\<rparr>"
| "terminalReducer s TerminalCleared = s\<lparr>term_content := []\<rparr>"
| "terminalReducer s TerminalCommandDetectionAvailable = s\<lparr>term_supportsCommandDetection := Some True\<rparr>"
| "terminalReducer s (TerminalCommandExecuted a) =
     s\<lparr>term_content := term_content s @ [command_part a], term_supportsCommandDetection := Some True\<rparr>"
| "terminalReducer s (TerminalCommandFinished a) =
     s\<lparr>term_content := map (finish_part a) (term_content s)\<rparr>"
| "terminalReducer s (TerminalUnhandled _) = s"

section \<open>Every byte is kept, in order\<close>

fun part_text :: "terminal_content_part \<Rightarrow> js_string" where
  "part_text (UnclassifiedContent p) = tunc_value p"
| "part_text (CommandContent p) = tcom_output p"

definition terminal_text :: "terminal_content_part list \<Rightarrow> js_string" where
  "terminal_text content = concat (map part_text content)"

lemma terminal_text_simps [simp]:
  "terminal_text [] = []" "terminal_text (xs @ ys) = terminal_text xs @ terminal_text ys"
  "terminal_text (p # xs) = part_text p @ terminal_text xs"
  by (simp_all add: terminal_text_def)

lemma text_append_data: "terminal_text (append_data d content) = terminal_text content @ d"
proof (cases content rule: rev_cases)
  case (snoc xs x)
  then show ?thesis by (cases x) (simp_all add: append_data_def)
qed (simp add: append_data_def)

lemma text_finish: "terminal_text (map (finish_part a) content) = terminal_text content"
proof -
  have "part_text (finish_part a p) = part_text p" for p
    by (cases p) (simp_all add: finish_part_def)
  then show ?thesis by (simp add: terminal_text_def comp_def)
qed

text \<open>The text an action brings, since the last time the terminal was cleared.\<close>

fun data_of :: "js_string \<Rightarrow> terminal_action list \<Rightarrow> js_string" where
  "data_of acc [] = acc"
| "data_of acc (TerminalData d # as) = data_of (acc @ d) as"
| "data_of acc (TerminalCleared # as) = data_of [] as"
| "data_of acc (_ # as) = data_of acc as"

text \<open>
  C29. A terminal loses no output: after any sequence of actions the texts of its content parts,
  put together, are the text it had and all the data received since it was last cleared, in
  order, however commands start and finish in between.
\<close>

theorem terminal_output_complete:
  "terminal_text (term_content (fold (\<lambda>a s. terminalReducer s a) as s))
   = data_of (terminal_text (term_content s)) as"
proof (induction as arbitrary: s)
  case (Cons a as)
  show ?case
    by (cases a) (simp_all add: Cons.IH text_append_data text_finish command_part_def)
qed simp

text \<open>Only the last part can be an open command or grow; a finished command keeps its output.\<close>

definition complete_at :: "terminal_state \<Rightarrow> nat \<Rightarrow> terminal_command_part option" where
  "complete_at s i =
     (if i < length (term_content s)
      then case term_content s ! i of CommandContent p \<Rightarrow> if tcom_isComplete p then Some p else None | _ \<Rightarrow> None
      else None)"

definition keeps_command :: "terminal_command_part \<Rightarrow> terminal_command_part \<Rightarrow> bool" where
  "keeps_command p q \<longleftrightarrow>
     tcom_commandId q = tcom_commandId p \<and> tcom_commandLine q = tcom_commandLine p
   \<and> tcom_output q = tcom_output p \<and> tcom_timestamp q = tcom_timestamp p"

lemma complete_append_data:
  assumes "complete_at s i = Some p"
  shows "complete_at (s\<lparr>term_content := append_data d (term_content s)\<rparr>) i = Some p"
proof (cases "term_content s" rule: rev_cases)
  case (snoc xs x)
  with assms show ?thesis
    by (cases x) (auto simp: complete_at_def append_data_def nth_append split: if_splits terminal_content_part.splits)
qed (use assms in \<open>simp add: complete_at_def\<close>)

text \<open>
  A finished command is sealed: no later action but clearing the terminal changes its
  command line, its timestamp or its output, even when data arrives right after it; only a
  repeated finish can restate its exit code.
\<close>

theorem finished_command_sealed:
  assumes "complete_at s i = Some p" and "a \<noteq> TerminalCleared"
  shows "\<exists>q. complete_at (terminalReducer s a) i = Some q \<and> keeps_command p q
     \<and> ((\<forall>x. a \<noteq> TerminalCommandFinished x) \<longrightarrow> q = p)"
proof (cases a)
  case (TerminalData d)
  with complete_append_data [OF assms(1)] show ?thesis by (simp add: keeps_command_def)
next
  case (TerminalCommandFinished x)
  with assms(1) show ?thesis
    by (auto simp: complete_at_def finish_part_def keeps_command_def split: terminal_content_part.splits if_splits)
next
  case (TerminalCommandExecuted x)
  with assms(1) show ?thesis
    by (auto simp: complete_at_def nth_append keeps_command_def split: terminal_content_part.splits if_splits)
qed (use assms in \<open>auto simp: complete_at_def keeps_command_def split: if_splits\<close>)

definition sample_command :: terminal_command_part where
  "sample_command = \<lparr>tcom_commandId = ''c'', tcom_commandLine = ''ls'', tcom_output = ''a b'', tcom_timestamp = 0,
     tcom_isComplete = True, tcom_exitCode = Some 0, tcom_durationMs = None\<rparr>"

definition sample_terminal :: terminal_state where
  "sample_terminal = \<lparr>term_title = ''t'', term_cwd = None, term_cols = None, term_rows = None,
     term_content = [CommandContent sample_command], term_lifecycle = TerminalRunning,
     term_claim = ClientClaim ''k'', term_supportsCommandDetection = None, term_isPty = None\<rparr>"

lemma finished_command_sealed_witness:
  "\<exists>q. complete_at (terminalReducer sample_terminal (TerminalData ''x'')) 0 = Some q
     \<and> keeps_command sample_command q \<and> q = sample_command"
  using finished_command_sealed [of sample_terminal 0 sample_command "TerminalData ''x''"]
  by (simp add: complete_at_def sample_terminal_def sample_command_def)

end
