(* ===== verification/Session_State.thy ===== *)
theory Session_State
  imports Chat_State Changeset Annotations
begin

text \<open>
  The state of a session channel, \<open>channels-session/state.ts\<close>: the session's metadata and
  lifecycle, its chats, its active clients and their tools, its configuration, its
  customizations (plugins, directories and MCP servers with their children) and the queue of
  requests that wait for somebody. A type narrowed in the source to one member of a union
  (\<open>ToolCallAuthRequiredState\<close>) is the union here.
\<close>

section \<open>Metadata and tools\<close>

datatype session_lifecycle = SessionCreating | SessionReadyState | SessionFailed

record automation_session_origin =
  autorig_automation :: "js_string"
  autorig_run :: "js_string"

datatype session_origin = AutomationOrigin automation_session_origin

record project_info =
  projinfo_uri :: "js_string"
  projinfo_displayName :: "js_string"

record changes_summary =
  changessum_additions :: "js_number option"
  changessum_deletions :: "js_number option"
  changessum_files :: "js_number option"

record session_metadata =
  smeta_provider :: "js_string"
  smeta_title :: "js_string"
  smeta_status :: "session_status"
  smeta_activity :: "js_string option"
  smeta_origin :: "session_origin option"
  smeta_project :: "project_info option"
  smeta_workingDirectories :: "js_string list option"
  smeta_annotations :: "annotations_summary option"

record tool_annotations =
  toolann_title :: "js_string option"
  toolann_readOnlyHint :: "bool option"
  toolann_destructiveHint :: "bool option"
  toolann_idempotentHint :: "bool option"
  toolann_openWorldHint :: "bool option"

record tool_schema =
  tschema_properties :: "json js_record option"
  tschema_required :: "js_string list option"

record tool_definition =
  tooldef_name :: "js_string"
  tooldef_title :: "js_string option"
  tooldef_description :: "js_string option"
  tooldef_inputSchema :: "tool_schema option"
  tooldef_outputSchema :: "tool_schema option"
  tooldef_annotations :: "tool_annotations option"
  tooldef_meta :: "json js_record option"

section \<open>Customizations\<close>

datatype customization_enablement =
    GlobalEnablement bool
  | WorkspaceEnablement js_string bool
  | SessionEnablement bool

fun enablement_enabled :: "customization_enablement \<Rightarrow> bool" where
  "enablement_enabled (GlobalEnablement e) = e"
| "enablement_enabled (WorkspaceEnablement _ e) = e"
| "enablement_enabled (SessionEnablement e) = e"

datatype child_customization_type =
    AgentType | SkillType | PromptType | RuleType | HookType | McpServerType

datatype customization_load_state =
    LoadLoading | LoadLoaded | LoadDegraded js_string | LoadError js_string

datatype mcp_server_state =
    McpStarting | McpReady | McpAuthRequired mcp_auth_requirement | McpError error_info | McpStopped

record customization_base =
  cust_id :: "js_string"
  cust_uri :: "js_string"
  cust_name :: "js_string"
  cust_icons :: "icon list option"
  cust_range :: "text_range option"
  cust_meta :: "json js_record option"

record child_customization_base = customization_base +
  child_enabled :: "bool option"

record agent_customization = child_customization_base +
  agentc_description :: "js_string option"
  agentc_model :: "js_string option"
  agentc_tools :: "js_string list option"
  agentc_disableModelInvocation :: "bool option"
  agentc_disableUserInvocation :: "bool option"

record skill_customization = child_customization_base +
  skillc_description :: "js_string option"
  skillc_disableModelInvocation :: "bool option"
  skillc_disableUserInvocation :: "bool option"

record prompt_customization = child_customization_base +
  promptc_description :: "js_string option"

record rule_customization = child_customization_base +
  rulec_description :: "js_string option"
  rulec_alwaysApply :: "bool option"
  rulec_globs :: "js_string list option"

record list_changed_capability =
  listcap_listChanged :: "bool option"

record sampling_capability =
  samplecap_tools :: "unit js_record option"

record ahp_mcp_ui_host_capabilities =
  mcpcap_serverTools :: "list_changed_capability option"
  mcpcap_serverResources :: "list_changed_capability option"
  mcpcap_logging :: "unit js_record option"
  mcpcap_sampling :: "sampling_capability option"

record mcp_server_customization_apps =
  mcpapps_capabilities :: "ahp_mcp_ui_host_capabilities"

record mcp_server_customization = customization_base +
  mcps_enablement :: "customization_enablement list option"
  mcps_state :: "mcp_server_state"
  mcps_channel :: "js_string option"
  mcps_mcpApp :: "mcp_server_customization_apps option"

datatype child_customization =
    AgentChild agent_customization
  | SkillChild skill_customization
  | PromptChild prompt_customization
  | RuleChild rule_customization
  | HookChild child_customization_base
  | McpChild mcp_server_customization

record container_customization_base = customization_base +
  cont_clientId :: "js_string option"
  cont_load :: "customization_load_state option"
  cont_children :: "child_customization list option"

record plugin_customization = container_customization_base +
  plugin_enablement :: "customization_enablement list option"
  plugin_version :: "js_string option"

record client_plugin_customization = plugin_customization +
  cplugin_nonce :: "js_string option"
  cplugin_childEnablement :: "customization_enablement list js_record option"

record directory_customization = container_customization_base +
  dirc_enabled :: "bool"
  dirc_contents :: "child_customization_type"
  dirc_writable :: "bool"

datatype customization =
    PluginTop plugin_customization
  | DirectoryTop directory_customization
  | McpTop mcp_server_customization

fun child_id :: "child_customization \<Rightarrow> js_string" where
  "child_id (AgentChild c) = cust_id c"
| "child_id (SkillChild c) = cust_id c"
| "child_id (PromptChild c) = cust_id c"
| "child_id (RuleChild c) = cust_id c"
| "child_id (HookChild c) = cust_id c"
| "child_id (McpChild c) = cust_id c"

fun top_id :: "customization \<Rightarrow> js_string" where
  "top_id (PluginTop c) = cust_id c"
| "top_id (DirectoryTop c) = cust_id c"
| "top_id (McpTop c) = cust_id c"

text \<open>The children of a container; an MCP server at the top level is not a container.\<close>

fun top_children :: "customization \<Rightarrow> child_customization list option" where
  "top_children (PluginTop c) = cont_children c"
| "top_children (DirectoryTop c) = cont_children c"
| "top_children (McpTop _) = None"

fun with_children :: "child_customization list \<Rightarrow> customization \<Rightarrow> customization" where
  "with_children cs (PluginTop c) = PluginTop (c\<lparr>cont_children := Some cs\<rparr>)"
| "with_children cs (DirectoryTop c) = DirectoryTop (c\<lparr>cont_children := Some cs\<rparr>)"
| "with_children cs (McpTop c) = McpTop c"

section \<open>Clients, configuration and input requests\<close>

record session_active_client =
  sac_clientId :: "js_string"
  sac_displayName :: "js_string option"
  sac_tools :: "tool_definition list"
  sac_customizations :: "client_plugin_customization list option"

record session_config_property_schema =
  scps_base :: "config_property_schema"
  scps_enumDynamic :: "bool option"
  scps_sessionMutable :: "bool option"

record session_config_schema =
  scs_properties :: "session_config_property_schema js_record"
  scs_required :: "js_string list option"

record session_config_state =
  scfg_schema :: "session_config_schema"
  scfg_values :: "json js_record"

record session_input_request_base =
  sir_id :: "js_string"
  sir_chat :: "js_string"

record session_chat_input_request = session_input_request_base +
  sirChat_request :: "chat_input_request"

record session_tool_confirmation_request = session_input_request_base +
  sirConf_turnId :: "js_string"
  sirConf_toolCall :: "tool_call_state"

record session_tool_client_execution_request = session_input_request_base +
  sirExec_turnId :: "js_string"
  sirExec_clientId :: "js_string"
  sirExec_toolCall :: "tool_call_state"

record session_tool_authentication_request = session_input_request_base +
  sirAuth_turnId :: "js_string"
  sirAuth_toolCall :: "tool_call_state"

datatype session_input_request =
    ChatInputNeeded session_chat_input_request
  | ToolConfirmationNeeded session_tool_confirmation_request
  | ToolClientExecutionNeeded session_tool_client_execution_request
  | ToolAuthenticationNeeded session_tool_authentication_request

fun request_id :: "session_input_request \<Rightarrow> js_string" where
  "request_id (ChatInputNeeded r) = sir_id r"
| "request_id (ToolConfirmationNeeded r) = sir_id r"
| "request_id (ToolClientExecutionNeeded r) = sir_id r"
| "request_id (ToolAuthenticationNeeded r) = sir_id r"

section \<open>The session\<close>

record session_state = session_metadata +
  ses_lifecycle :: "session_lifecycle"
  ses_creationError :: "error_info option"
  ses_serverTools :: "tool_definition list option"
  ses_activeClients :: "session_active_client list"
  ses_chats :: "chat_summary list"
  ses_defaultChat :: "js_string option"
  ses_config :: "session_config_state option"
  ses_customizations :: "customization list option"
  ses_changesets :: "changeset list option"
  ses_inputNeeded :: "session_input_request list option"
  ses_meta :: "json js_record option"

record session_summary = session_metadata +
  ssum_resource :: "js_string"
  ssum_createdAt :: "js_string"
  ssum_modifiedAt :: "js_string"
  ssum_changes :: "changes_summary option"
  ssum_meta :: "json js_record option"

end
