(* ===== verification/Session_Reducer.thy ===== *)
theory Session_Reducer
  imports Session_State
begin

text \<open>
  The actions of a session channel and its reducer, \<open>channels-session/{actions,reducer}.ts\<close>: one
  definition per helper and per case of the switch. The customization actions walk the two
  levels of the customization tree the way the code does (a top-level entry shadows a child
  with the same id).
\<close>

section \<open>Actions\<close>

text \<open>
  \<open>Partial<ChatSummary>\<close>: a field that is absent is \<open>None\<close>; an optional field that is present
  carries its value, which may be \<open>undefined\<close>.
\<close>

record chat_summary_changes =
  chg_resource :: "js_string option"
  chg_title :: "js_string option"
  chg_status :: "session_status option"
  chg_activity :: "js_string option option"
  chg_modifiedAt :: "js_string option"
  chg_origin :: "chat_origin option option"
  chg_interactivity :: "chat_interactivity option option"
  chg_workingDirectories :: "js_string list option option"

record session_chat_updated_action =
  chatUpd_chat :: "js_string"
  chatUpd_changes :: "chat_summary_changes"

record session_working_directory_replaced_action =
  wdRepl_directory :: "js_string"
  wdRepl_replacement :: "js_string"

record session_customization_toggled_action =
  custTog_id :: "js_string"
  custTog_enablement :: "customization_enablement list"

record session_mcp_server_state_changed_action =
  mcpChg_id :: "js_string"
  mcpChg_state :: "mcp_server_state"
  mcpChg_channel :: "js_string option"

record session_config_changed_action =
  cfgChg_config :: "json js_record"
  cfgChg_replace :: "bool option"

datatype session_action =
    SessionReady
  | SessionCreationFailed error_info
  | SessionChatAdded chat_summary
  | SessionChatRemoved js_string
  | SessionChatUpdated session_chat_updated_action
  | SessionDefaultChatChanged "js_string option"
  | SessionTitleChanged js_string
  | SessionIsReadChanged bool
  | SessionIsArchivedChanged bool
  | SessionActivityChanged "js_string option"
  | SessionChangesetsChanged "changeset list option"
  | SessionConfigChanged session_config_changed_action
  | SessionMetaChanged "json js_record option"
  | SessionServerToolsChanged "tool_definition list"
  | SessionActiveClientSet session_active_client
  | SessionActiveClientRemoved js_string
  | SessionWorkingDirectorySet js_string
  | SessionWorkingDirectoryRemoved js_string
  | SessionWorkingDirectoryReplaced session_working_directory_replaced_action
  | SessionInputNeededSet session_input_request
  | SessionInputNeededRemoved js_string
  | SessionCustomizationsChanged "customization list"
  | SessionCustomizationToggled session_customization_toggled_action
  | SessionCustomizationUpdated customization
  | SessionCustomizationRemoved js_string
  | SessionMcpServerStateChanged session_mcp_server_state_changed_action
  | SessionMcpServerStartRequested js_string
  | SessionMcpServerStopRequested js_string
  | SessionUnhandled js_string

section \<open>Helpers\<close>

definition awaitsUser :: "session_input_request \<Rightarrow> bool" where
  "awaitsUser request = (case request of ToolClientExecutionNeeded _ \<Rightarrow> False | _ \<Rightarrow> True)"

definition withInputNeededStatus :: "session_status \<Rightarrow> session_input_request list \<Rightarrow> session_status" where
  "withInputNeededStatus status inputNeeded =
     (if list_ex awaitsUser inputNeeded then (status AND NOT STATUS_ACTIVITY_MASK) OR status_InputNeeded
      else status AND NOT (status_InputNeeded AND NOT status_InProgress))"

definition update_mcp_child ::
    "js_string \<Rightarrow> (mcp_server_customization \<Rightarrow> mcp_server_customization) \<Rightarrow> customization \<Rightarrow> customization option" where
  "update_mcp_child i update container =
     (case top_children container of
        None \<Rightarrow> None
      | Some children \<Rightarrow>
         (case find_index (\<lambda>c. child_id c = i) children of
            None \<Rightarrow> None
          | Some idx \<Rightarrow>
             (case children ! idx of
                McpChild child \<Rightarrow> Some (with_children (children[idx := McpChild (update child)]) container)
              | _ \<Rightarrow> None)))"

definition updateMcpServerCustomization ::
    "session_state \<Rightarrow> js_string \<Rightarrow> (mcp_server_customization \<Rightarrow> mcp_server_customization) \<Rightarrow> session_state" where
  "updateMcpServerCustomization state i update =
     (case ses_customizations state of
        None \<Rightarrow> state
      | Some list \<Rightarrow>
         (case find_index (\<lambda>c. top_id c = i) list of
            Some topIdx \<Rightarrow>
             (case list ! topIdx of
                McpTop entry \<Rightarrow> state\<lparr>ses_customizations := Some (list[topIdx := McpTop (update entry)])\<rparr>
              | _ \<Rightarrow> state)
          | None \<Rightarrow>
              if list_ex (\<lambda>c. update_mcp_child i update c \<noteq> None) list
              then state\<lparr>ses_customizations := Some (map (\<lambda>c. or_default (update_mcp_child i update c) c) list)\<rparr>
              else state))"

definition none_if_nil :: "'a list \<Rightarrow> 'a list option" where
  "none_if_nil xs = (if xs = [] then None else Some xs)"

definition first_enabled :: "customization_enablement list \<Rightarrow> bool" where
  "first_enabled es = (case es of [] \<Rightarrow> True | e # _ \<Rightarrow> enablement_enabled e)"

fun applyCustomizationEnablement :: "customization \<Rightarrow> customization_enablement list \<Rightarrow> customization" where
  "applyCustomizationEnablement (PluginTop c) es = PluginTop (c\<lparr>plugin_enablement := none_if_nil es\<rparr>)"
| "applyCustomizationEnablement (McpTop c) es = McpTop (c\<lparr>mcps_enablement := none_if_nil es\<rparr>)"
| "applyCustomizationEnablement (DirectoryTop c) es = DirectoryTop (c\<lparr>dirc_enabled := first_enabled es\<rparr>)"

fun applyChildEnablement :: "child_customization \<Rightarrow> customization_enablement list \<Rightarrow> child_customization" where
  "applyChildEnablement (McpChild c) es = McpChild (c\<lparr>mcps_enablement := none_if_nil es\<rparr>)"
| "applyChildEnablement (AgentChild c) es = AgentChild (c\<lparr>child_enabled := Some (first_enabled es)\<rparr>)"
| "applyChildEnablement (SkillChild c) es = SkillChild (c\<lparr>child_enabled := Some (first_enabled es)\<rparr>)"
| "applyChildEnablement (PromptChild c) es = PromptChild (c\<lparr>child_enabled := Some (first_enabled es)\<rparr>)"
| "applyChildEnablement (RuleChild c) es = RuleChild (c\<lparr>child_enabled := Some (first_enabled es)\<rparr>)"
| "applyChildEnablement (HookChild c) es = HookChild (c\<lparr>child_enabled := Some (first_enabled es)\<rparr>)"

section \<open>Cases of the reducer\<close>

definition find_chat :: "session_state \<Rightarrow> js_string \<Rightarrow> nat option" where
  "find_chat state chat = find_index (\<lambda>c. csum_resource c = chat) (ses_chats state)"

definition sessionChatAdded :: "session_state \<Rightarrow> chat_summary \<Rightarrow> session_state" where
  "sessionChatAdded state summary =
     (case find_chat state (csum_resource summary) of
        None \<Rightarrow> state\<lparr>ses_chats := ses_chats state @ [summary]\<rparr>
      | Some idx \<Rightarrow> state\<lparr>ses_chats := (ses_chats state)[idx := summary]\<rparr>)"

definition sessionChatRemoved :: "session_state \<Rightarrow> js_string \<Rightarrow> session_state" where
  "sessionChatRemoved state chat =
     (case find_chat state chat of
        None \<Rightarrow> state
      | Some idx \<Rightarrow>
          let nxt = state\<lparr>ses_chats := remove_at idx (ses_chats state)\<rparr>
          in if ses_defaultChat state = Some chat then nxt\<lparr>ses_defaultChat := None\<rparr> else nxt)"

definition apply_changes :: "chat_summary_changes \<Rightarrow> chat_summary \<Rightarrow> chat_summary" where
  "apply_changes ch c =
     c\<lparr>csum_title := or_default (chg_title ch) (csum_title c),
       csum_status := or_default (chg_status ch) (csum_status c),
       csum_activity := or_default (chg_activity ch) (csum_activity c),
       csum_modifiedAt := or_default (chg_modifiedAt ch) (csum_modifiedAt c),
       csum_origin := or_default (chg_origin ch) (csum_origin c),
       csum_interactivity := or_default (chg_interactivity ch) (csum_interactivity c),
       csum_workingDirectories := or_default (chg_workingDirectories ch) (csum_workingDirectories c)\<rparr>"

definition sessionChatUpdated :: "session_state \<Rightarrow> session_chat_updated_action \<Rightarrow> session_state" where
  "sessionChatUpdated state a =
     (case find_chat state (chatUpd_chat a) of
        None \<Rightarrow> state
      | Some idx \<Rightarrow> state\<lparr>ses_chats :=
          (ses_chats state)[idx := apply_changes (chatUpd_changes a) (ses_chats state ! idx)]\<rparr>)"

definition sessionConfigChanged :: "session_state \<Rightarrow> session_config_changed_action \<Rightarrow> session_state" where
  "sessionConfigChanged state a =
     (case ses_config state of
        None \<Rightarrow> state
      | Some cfg \<Rightarrow> state\<lparr>ses_config := Some (cfg\<lparr>scfg_values :=
          (if cfgChg_replace a = Some True then spread [] (cfgChg_config a)
           else spread (spread [] (scfg_values cfg)) (cfgChg_config a))\<rparr>)\<rparr>)"

definition sessionActiveClientSet :: "session_state \<Rightarrow> session_active_client \<Rightarrow> session_state" where
  "sessionActiveClientSet state client =
     (case find_index (\<lambda>c. sac_clientId c = sac_clientId client) (ses_activeClients state) of
        None \<Rightarrow> state\<lparr>ses_activeClients := ses_activeClients state @ [client]\<rparr>
      | Some idx \<Rightarrow> state\<lparr>ses_activeClients := (ses_activeClients state)[idx := client]\<rparr>)"

definition sessionActiveClientRemoved :: "session_state \<Rightarrow> js_string \<Rightarrow> session_state" where
  "sessionActiveClientRemoved state clientId =
     (case find_index (\<lambda>c. sac_clientId c = clientId) (ses_activeClients state) of
        None \<Rightarrow> state
      | Some idx \<Rightarrow> state\<lparr>ses_activeClients := remove_at idx (ses_activeClients state)\<rparr>)"

definition sessionWorkingDirectorySet :: "session_state \<Rightarrow> js_string \<Rightarrow> session_state" where
  "sessionWorkingDirectorySet state d =
     (let list = or_default (smeta_workingDirectories state) []
      in if d \<in> set list then state else state\<lparr>smeta_workingDirectories := Some (list @ [d])\<rparr>)"

definition sessionWorkingDirectoryRemoved :: "session_state \<Rightarrow> js_string \<Rightarrow> session_state" where
  "sessionWorkingDirectoryRemoved state d =
     (case smeta_workingDirectories state of
        None \<Rightarrow> state
      | Some list \<Rightarrow>
         (case find_index (\<lambda>x. x = d) list of
            None \<Rightarrow> state
          | Some idx \<Rightarrow> state\<lparr>smeta_workingDirectories := Some (remove_at idx list)\<rparr>))"

text \<open>\<open>list.filter((directory, index) => index === idx || directory !== replacement)\<close>, from index \<open>i\<close> on.\<close>

fun drop_duplicates_of :: "js_string \<Rightarrow> nat \<Rightarrow> nat \<Rightarrow> js_string list \<Rightarrow> js_string list" where
  "drop_duplicates_of r idx i [] = []"
| "drop_duplicates_of r idx i (d # ds) =
     (if i = idx \<or> d \<noteq> r then d # drop_duplicates_of r idx (Suc i) ds else drop_duplicates_of r idx (Suc i) ds)"

definition replace_directory :: "js_string \<Rightarrow> js_string \<Rightarrow> js_string list \<Rightarrow> js_string list" where
  "replace_directory d r list =
     (case find_index (\<lambda>x. x = d) list of
        None \<Rightarrow> list
      | Some idx \<Rightarrow>
         (case find_index (\<lambda>x. x = r) list of
            Some replacementIdx \<Rightarrow>
              if replacementIdx < idx then remove_at idx list
              else drop_duplicates_of r idx 0 (list[idx := r])
          | None \<Rightarrow> drop_duplicates_of r idx 0 (list[idx := r])))"

definition sessionWorkingDirectoryReplaced ::
    "session_state \<Rightarrow> session_working_directory_replaced_action \<Rightarrow> session_state" where
  "sessionWorkingDirectoryReplaced state a =
     (case smeta_workingDirectories state of
        None \<Rightarrow> state
      | Some list \<Rightarrow>
          if find_index (\<lambda>x. x = wdRepl_directory a) list = None then state
          else state\<lparr>smeta_workingDirectories :=
                 Some (replace_directory (wdRepl_directory a) (wdRepl_replacement a) list)\<rparr>)"

definition sessionInputNeededSet :: "session_state \<Rightarrow> session_input_request \<Rightarrow> session_state" where
  "sessionInputNeededSet state request =
     (let inputNeeded = upsert request_id request (or_default (ses_inputNeeded state) [])
      in state\<lparr>ses_inputNeeded := Some inputNeeded,
               smeta_status := withInputNeededStatus (smeta_status state) inputNeeded\<rparr>)"

definition sessionInputNeededRemoved :: "session_state \<Rightarrow> js_string \<Rightarrow> session_state" where
  "sessionInputNeededRemoved state i =
     (case ses_inputNeeded state of
        None \<Rightarrow> state
      | Some list \<Rightarrow>
         (case find_index (\<lambda>r. request_id r = i) list of
            None \<Rightarrow> state
          | Some idx \<Rightarrow>
              let remaining = remove_at idx list
              in state\<lparr>smeta_status := withInputNeededStatus (smeta_status state) remaining,
                       ses_inputNeeded := none_if_nil remaining\<rparr>))"

text \<open>The loop of the toggled case: the first container that has the child is changed.\<close>

fun toggle_child :: "js_string \<Rightarrow> customization_enablement list \<Rightarrow> customization list \<Rightarrow> customization list option" where
  "toggle_child i es [] = None"
| "toggle_child i es (container # rest) =
     (case top_children container of
        None \<Rightarrow> map_option ((#) container) (toggle_child i es rest)
      | Some children \<Rightarrow>
         (case find_index (\<lambda>c. child_id c = i) children of
            None \<Rightarrow> map_option ((#) container) (toggle_child i es rest)
          | Some idx \<Rightarrow>
              Some (with_children (children[idx := applyChildEnablement (children ! idx) es]) container # rest)))"

definition sessionCustomizationToggled :: "session_state \<Rightarrow> session_customization_toggled_action \<Rightarrow> session_state" where
  "sessionCustomizationToggled state a =
     (case ses_customizations state of
        None \<Rightarrow> state
      | Some list \<Rightarrow>
         (case find_index (\<lambda>c. top_id c = custTog_id a) list of
            Some topIdx \<Rightarrow> state\<lparr>ses_customizations :=
              Some (list[topIdx := applyCustomizationEnablement (list ! topIdx) (custTog_enablement a)])\<rparr>
          | None \<Rightarrow>
             (case toggle_child (custTog_id a) (custTog_enablement a) list of
                None \<Rightarrow> state
              | Some updated \<Rightarrow> state\<lparr>ses_customizations := Some updated\<rparr>)))"

definition sessionCustomizationUpdated :: "session_state \<Rightarrow> customization \<Rightarrow> session_state" where
  "sessionCustomizationUpdated state c =
     state\<lparr>ses_customizations := Some (upsert top_id c (or_default (ses_customizations state) []))\<rparr>"

definition remove_child :: "js_string \<Rightarrow> customization \<Rightarrow> customization option" where
  "remove_child i container =
     (case top_children container of
        None \<Rightarrow> None
      | Some children \<Rightarrow>
         (case find_index (\<lambda>c. child_id c = i) children of
            None \<Rightarrow> None
          | Some idx \<Rightarrow> Some (with_children (remove_at idx children) container)))"

definition sessionCustomizationRemoved :: "session_state \<Rightarrow> js_string \<Rightarrow> session_state" where
  "sessionCustomizationRemoved state i =
     (case ses_customizations state of
        None \<Rightarrow> state
      | Some list \<Rightarrow>
         (case find_index (\<lambda>c. top_id c = i) list of
            Some topIdx \<Rightarrow> state\<lparr>ses_customizations := Some (remove_at topIdx list)\<rparr>
          | None \<Rightarrow>
              if list_ex (\<lambda>c. remove_child i c \<noteq> None) list
              then state\<lparr>ses_customizations := Some (map (\<lambda>c. or_default (remove_child i c) c) list)\<rparr>
              else state))"

section \<open>The reducer\<close>

fun sessionReducer :: "session_state \<Rightarrow> session_action \<Rightarrow> session_state" where
  "sessionReducer s SessionReady = s\<lparr>ses_lifecycle := SessionReadyState\<rparr>"
| "sessionReducer s (SessionCreationFailed e) = s\<lparr>ses_lifecycle := SessionFailed, ses_creationError := Some e\<rparr>"
| "sessionReducer s (SessionChatAdded summary) = sessionChatAdded s summary"
| "sessionReducer s (SessionChatRemoved chat) = sessionChatRemoved s chat"
| "sessionReducer s (SessionChatUpdated a) = sessionChatUpdated s a"
| "sessionReducer s (SessionDefaultChatChanged d) = s\<lparr>ses_defaultChat := d\<rparr>"
| "sessionReducer s (SessionTitleChanged t) = s\<lparr>smeta_title := t\<rparr>"
| "sessionReducer s (SessionIsReadChanged b) =
     s\<lparr>smeta_status := withStatusFlag (smeta_status s) status_IsRead b\<rparr>"
| "sessionReducer s (SessionIsArchivedChanged b) =
     s\<lparr>smeta_status := withStatusFlag (smeta_status s) status_IsArchived b\<rparr>"
| "sessionReducer s (SessionActivityChanged x) = s\<lparr>smeta_activity := x\<rparr>"
| "sessionReducer s (SessionChangesetsChanged cs) = s\<lparr>ses_changesets := cs\<rparr>"
| "sessionReducer s (SessionConfigChanged a) = sessionConfigChanged s a"
| "sessionReducer s (SessionMetaChanged m) = s\<lparr>ses_meta := m\<rparr>"
| "sessionReducer s (SessionServerToolsChanged ts) = s\<lparr>ses_serverTools := Some ts\<rparr>"
| "sessionReducer s (SessionActiveClientSet c) = sessionActiveClientSet s c"
| "sessionReducer s (SessionActiveClientRemoved i) = sessionActiveClientRemoved s i"
| "sessionReducer s (SessionWorkingDirectorySet d) = sessionWorkingDirectorySet s d"
| "sessionReducer s (SessionWorkingDirectoryRemoved d) = sessionWorkingDirectoryRemoved s d"
| "sessionReducer s (SessionWorkingDirectoryReplaced a) = sessionWorkingDirectoryReplaced s a"
| "sessionReducer s (SessionInputNeededSet r) = sessionInputNeededSet s r"
| "sessionReducer s (SessionInputNeededRemoved i) = sessionInputNeededRemoved s i"
| "sessionReducer s (SessionCustomizationsChanged cs) = s\<lparr>ses_customizations := Some cs\<rparr>"
| "sessionReducer s (SessionCustomizationToggled a) = sessionCustomizationToggled s a"
| "sessionReducer s (SessionCustomizationUpdated c) = sessionCustomizationUpdated s c"
| "sessionReducer s (SessionCustomizationRemoved i) = sessionCustomizationRemoved s i"
| "sessionReducer s (SessionMcpServerStateChanged a) =
     updateMcpServerCustomization s (mcpChg_id a)
       (\<lambda>e. e\<lparr>mcps_state := mcpChg_state a, mcps_channel := mcpChg_channel a\<rparr>)"
| "sessionReducer s (SessionMcpServerStartRequested i) =
     updateMcpServerCustomization s i (\<lambda>e. e\<lparr>mcps_state := McpStarting, mcps_channel := None\<rparr>)"
| "sessionReducer s (SessionMcpServerStopRequested i) =
     updateMcpServerCustomization s i (\<lambda>e. e\<lparr>mcps_state := McpStopped, mcps_channel := None\<rparr>)"
| "sessionReducer s (SessionUnhandled _) = s"

end
