(* ===== verification/Session_Properties.thy ===== *)
theory Session_Properties
  imports Session_Reducer
begin

text \<open>
  What the session reducer guarantees: its keyed collections are finite maps, it keeps a well
  formed session well formed, the input-needed bit follows the queue, and the working
  directories stay a duplicate-free list under replacement.
\<close>

section \<open>Keyed collections\<close>

definition chats_ok :: "session_state \<Rightarrow> bool" where
  "chats_ok s \<longleftrightarrow> distinct (map csum_resource (ses_chats s))"

definition chats_view :: "session_state \<Rightarrow> js_string \<rightharpoonup> chat_summary" where
  "chats_view s = view_by csum_resource (ses_chats s)"

lemma chats_after_added: "ses_chats (sessionChatAdded s c) = upsert csum_resource c (ses_chats s)"
  by (simp add: sessionChatAdded_def find_chat_def upsert_def split: option.split)

lemma chats_after_removed: "ses_chats (sessionChatRemoved s c) = remove_by csum_resource c (ses_chats s)"
  by (simp add: sessionChatRemoved_def find_chat_def remove_by_def Let_def split: option.split)

interpretation chats: keyed_channel chats_ok chats_view csum_resource
    "\<lambda>c s. sessionReducer s (SessionChatAdded c)" "\<lambda>i s. sessionReducer s (SessionChatRemoved i)"
  by unfold_locales (simp_all add: chats_ok_def chats_view_def chats_after_added chats_after_removed keyed_list)

definition clients_ok :: "session_state \<Rightarrow> bool" where
  "clients_ok s \<longleftrightarrow> distinct (map sac_clientId (ses_activeClients s))"

definition clients_view :: "session_state \<Rightarrow> js_string \<rightharpoonup> session_active_client" where
  "clients_view s = view_by sac_clientId (ses_activeClients s)"

lemma clients_after_set:
  "ses_activeClients (sessionActiveClientSet s c) = upsert sac_clientId c (ses_activeClients s)"
  by (simp add: sessionActiveClientSet_def upsert_def split: option.split)

lemma clients_after_removed:
  "ses_activeClients (sessionActiveClientRemoved s i) = remove_by sac_clientId i (ses_activeClients s)"
  by (simp add: sessionActiveClientRemoved_def remove_by_def split: option.split)

interpretation clients: keyed_channel clients_ok clients_view sac_clientId
    "\<lambda>c s. sessionReducer s (SessionActiveClientSet c)" "\<lambda>i s. sessionReducer s (SessionActiveClientRemoved i)"
  by unfold_locales
    (simp_all add: clients_ok_def clients_view_def clients_after_set clients_after_removed keyed_list)

definition input_queue :: "session_state \<Rightarrow> session_input_request list" where
  "input_queue s = or_default (ses_inputNeeded s) []"

definition inputs_ok :: "session_state \<Rightarrow> bool" where
  "inputs_ok s \<longleftrightarrow> distinct (map request_id (input_queue s))"

definition inputs_view :: "session_state \<Rightarrow> js_string \<rightharpoonup> session_input_request" where
  "inputs_view s = view_by request_id (input_queue s)"

lemma none_if_nil_default [simp]: "or_default (none_if_nil xs) [] = xs"
  by (simp add: none_if_nil_def)

lemma inputs_after_set: "input_queue (sessionInputNeededSet s r) = upsert request_id r (input_queue s)"
  by (simp add: sessionInputNeededSet_def input_queue_def Let_def)

lemma inputs_after_removed: "input_queue (sessionInputNeededRemoved s i) = remove_by request_id i (input_queue s)"
  by (cases "ses_inputNeeded s")
    (simp_all add: sessionInputNeededRemoved_def input_queue_def Let_def remove_by_def split: option.split)

interpretation inputs: keyed_channel inputs_ok inputs_view request_id
    "\<lambda>r s. sessionReducer s (SessionInputNeededSet r)" "\<lambda>i s. sessionReducer s (SessionInputNeededRemoved i)"
  by unfold_locales
    (simp_all add: inputs_ok_def inputs_view_def inputs_after_set inputs_after_removed keyed_list)

text \<open>
  The chats of a session are a finite map from resources to summaries: after any sequence
  of added and removed actions a chat is there exactly if the last action on it added it, with
  the summary of that action.
\<close>

theorem session_chats_last_writer:
  assumes "chats_ok s"
  shows "chats_view (fold (apply_op (\<lambda>c s. sessionReducer s (SessionChatAdded c))
                              (\<lambda>i s. sessionReducer s (SessionChatRemoved i))) ops s) k
       = (case find (\<lambda>p. op_key csum_resource p = k) (rev ops) of
            None \<Rightarrow> chats_view s k | Some p \<Rightarrow> op_value p)"
  by (rule chats.run_last_writer [OF assms])

section \<open>The input-needed bit\<close>

lemma bits_of_status:
  "bit status_InputNeeded n \<longleftrightarrow> n = 3 \<or> n = 4" "bit status_InProgress n \<longleftrightarrow> n = 3"
  by (simp_all only: status_InputNeeded_def status_InProgress_def bit_or_iff bit_push_bit_iff bit_1_iff)
    (auto simp: possible_bit_def)

lemma bit_withInputNeeded:
  "bit (withInputNeededStatus w q) n =
     (if list_ex awaitsUser q then (if n < 5 then n = 3 \<or> n = 4 else bit w n) else bit w n \<and> n \<noteq> 4)"
  by (auto simp: withInputNeededStatus_def bit_and_iff bit_or_iff bit_not_iff bit_STATUS_ACTIVITY_MASK
      bits_of_status dest: bit_imp_le_length)

definition input_bit_ok :: "session_state \<Rightarrow> bool" where
  "input_bit_ok s \<longleftrightarrow>
     (if list_ex awaitsUser (input_queue s) then smeta_status s AND STATUS_ACTIVITY_MASK = status_InputNeeded
      else \<not> bit (smeta_status s) 4)"

lemma input_activity:
  "w AND STATUS_ACTIVITY_MASK = status_InputNeeded \<longleftrightarrow> (\<forall>n < 5. bit w n = (n = 3 \<or> n = 4))"
proof
  assume eq: "w AND STATUS_ACTIVITY_MASK = status_InputNeeded"
  have "bit (w AND STATUS_ACTIVITY_MASK) n = bit status_InputNeeded n" for n by (simp add: eq)
  then show "\<forall>n < 5. bit w n = (n = 3 \<or> n = 4)"
    by (auto simp: bit_and_iff bit_STATUS_ACTIVITY_MASK bits_of_status)
next
  assume "\<forall>n < 5. bit w n = (n = 3 \<or> n = 4)"
  then show "w AND STATUS_ACTIVITY_MASK = status_InputNeeded"
    by (intro bit_word_eqI) (auto simp: bit_and_iff bit_STATUS_ACTIVITY_MASK bits_of_status)
qed

lemma input_bit_withStatus:
  "list_ex awaitsUser q \<Longrightarrow> withInputNeededStatus w q AND STATUS_ACTIVITY_MASK = status_InputNeeded"
  "\<not> list_ex awaitsUser q \<Longrightarrow> \<not> bit (withInputNeededStatus w q) 4"
  by (simp_all add: input_activity bit_withInputNeeded)

lemma bit_flag:
  "bit status_IsArchived n \<longleftrightarrow> n = 6"  "bit status_IsRead n \<longleftrightarrow> n = 5"
  by (simp_all only: status_IsArchived_def status_IsRead_def bit_push_bit_iff bit_1_iff)
    (auto simp: possible_bit_def)

lemma bit_withStatusFlag:
  "bit (withStatusFlag w status_IsRead on) n = (if n = 5 then on else bit w n)"
  "bit (withStatusFlag w status_IsArchived on) n = (if n = 6 then on else bit w n)"
  by (auto simp: withStatusFlag_def bit_or_iff bit_and_iff bit_not_iff bit_flag dest: bit_imp_le_length)

section \<open>Well-formed sessions\<close>

definition directories_ok :: "session_state \<Rightarrow> bool" where
  "directories_ok s \<longleftrightarrow> distinct (or_default (smeta_workingDirectories s) [])"

definition default_chat_ok :: "session_state \<Rightarrow> bool" where
  "default_chat_ok s \<longleftrightarrow> (\<forall>c. ses_defaultChat s = Some c \<longrightarrow> c \<in> csum_resource ` set (ses_chats s))"

definition session_ok :: "session_state \<Rightarrow> bool" where
  "session_ok s \<longleftrightarrow> chats_ok s \<and> clients_ok s \<and> inputs_ok s \<and> ses_inputNeeded s \<noteq> Some []
     \<and> input_bit_ok s \<and> directories_ok s \<and> default_chat_ok s"

text \<open>The fields the invariant reads.\<close>

lemma session_ok_cong:
  assumes "ses_chats s' = ses_chats s" "ses_activeClients s' = ses_activeClients s"
    "ses_inputNeeded s' = ses_inputNeeded s" "ses_defaultChat s' = ses_defaultChat s"
    "smeta_workingDirectories s' = smeta_workingDirectories s"
    "\<forall>n < 5. bit (smeta_status s') n = bit (smeta_status s) n"
  shows "session_ok s' = session_ok s"
  using assms by (simp add: session_ok_def chats_ok_def clients_ok_def inputs_ok_def input_queue_def
      input_bit_ok_def directories_ok_def default_chat_ok_def input_activity)

lemma customization_frame:
  "\<exists>cs. sessionCustomizationToggled s a = s\<lparr>ses_customizations := cs\<rparr>"
  "\<exists>cs. sessionCustomizationUpdated s c = s\<lparr>ses_customizations := cs\<rparr>"
  "\<exists>cs. sessionCustomizationRemoved s i = s\<lparr>ses_customizations := cs\<rparr>"
  "\<exists>cs. updateMcpServerCustomization s i u = s\<lparr>ses_customizations := cs\<rparr>"
proof -
  have same: "\<exists>cs. s = s\<lparr>ses_customizations := cs\<rparr>"
    by (rule exI [of _ "ses_customizations s"]) simp
  show "\<exists>cs. sessionCustomizationToggled s a = s\<lparr>ses_customizations := cs\<rparr>"
    using same by (auto simp: sessionCustomizationToggled_def split: option.split)
  show "\<exists>cs. sessionCustomizationUpdated s c = s\<lparr>ses_customizations := cs\<rparr>"
    by (auto simp: sessionCustomizationUpdated_def)
  show "\<exists>cs. sessionCustomizationRemoved s i = s\<lparr>ses_customizations := cs\<rparr>"
    using same by (auto simp: sessionCustomizationRemoved_def split: option.split)
  show "\<exists>cs. updateMcpServerCustomization s i u = s\<lparr>ses_customizations := cs\<rparr>"
    using same by (auto simp: updateMcpServerCustomization_def split: option.split customization.split)
qed

lemma session_ok_customizations [simp]: "session_ok (s\<lparr>ses_customizations := cs\<rparr>) = session_ok s"
  by (rule session_ok_cong) simp_all

lemma session_ok_customization_cases:
  assumes "session_ok s"
  shows "session_ok (sessionCustomizationToggled s a)" "session_ok (sessionCustomizationUpdated s c)"
    "session_ok (sessionCustomizationRemoved s i)" "session_ok (updateMcpServerCustomization s i u)"
  using customization_frame [of s] assms by (metis session_ok_customizations)+

lemma session_ok_input_set:
  assumes "session_ok s"
  shows "session_ok (sessionInputNeededSet s r)"
proof -
  have "upsert request_id r q \<noteq> []" for q by (cases q) auto
  then have "ses_inputNeeded (sessionInputNeededSet s r) \<noteq> Some []"
    by (simp add: sessionInputNeededSet_def Let_def)
  moreover have "input_bit_ok (sessionInputNeededSet s r)"
    unfolding input_bit_ok_def inputs_after_set
    by (simp add: sessionInputNeededSet_def Let_def input_bit_withStatus input_queue_def)
  moreover have "inputs_ok (sessionInputNeededSet s r)"
    using inputs.put_inv [of s r] assms by (simp add: session_ok_def)
  ultimately show ?thesis
    using assms by (simp add: session_ok_def chats_ok_def clients_ok_def directories_ok_def default_chat_ok_def)
      (simp add: sessionInputNeededSet_def Let_def)
qed

lemma session_ok_input_removed:
  assumes "session_ok s"
  shows "session_ok (sessionInputNeededRemoved s i)"
proof (cases "sessionInputNeededRemoved s i = s")
  case False
  then obtain q idx where q: "ses_inputNeeded s = Some q" "find_index (\<lambda>r. request_id r = i) q = Some idx"
    by (auto simp: sessionInputNeededRemoved_def split: option.splits)
  then have eq: "sessionInputNeededRemoved s i = s\<lparr>smeta_status := withInputNeededStatus (smeta_status s) (remove_at idx q),
      ses_inputNeeded := none_if_nil (remove_at idx q)\<rparr>"
    by (simp add: sessionInputNeededRemoved_def Let_def)
  have "input_bit_ok (sessionInputNeededRemoved s i)"
    by (simp add: eq input_bit_ok_def input_queue_def input_bit_withStatus)
  moreover have "inputs_ok (sessionInputNeededRemoved s i)"
    using inputs.drop_inv [of s i] assms by (simp add: session_ok_def)
  ultimately show ?thesis
    using assms by (simp add: session_ok_def chats_ok_def clients_ok_def directories_ok_def default_chat_ok_def)
      (simp add: eq none_if_nil_def)
qed (use assms in simp)

section \<open>Replacing a working directory\<close>

lemma drop_duplicates_append:
  "drop_duplicates_of r idx i (xs @ ys) = drop_duplicates_of r idx i xs @ drop_duplicates_of r idx (i + length xs) ys"
  by (induction xs arbitrary: i) simp_all

lemma drop_duplicates_filter:
  "idx \<notin> {i..<i + length xs} \<Longrightarrow> drop_duplicates_of r idx i xs = filter (\<lambda>d. d \<noteq> r) xs"
  by (induction xs arbitrary: i) auto

lemma drop_duplicates_split:
  "idx < length xs \<Longrightarrow> drop_duplicates_of r idx 0 (xs[idx := r]) =
     filter (\<lambda>d. d \<noteq> r) (take idx xs) @ r # filter (\<lambda>d. d \<noteq> r) (drop (Suc idx) xs)"
proof -
  assume i: "idx < length xs"
  have "drop_duplicates_of r idx 0 (take idx xs @ r # drop (Suc idx) xs)
      = filter (\<lambda>d. d \<noteq> r) (take idx xs) @ r # filter (\<lambda>d. d \<noteq> r) (drop (Suc idx) xs)"
    using i by (simp add: drop_duplicates_append drop_duplicates_filter)
  then show ?thesis using i by (simp add: upd_conv_take_nth_drop)
qed

lemma set_take_drop_distinct:
  assumes "distinct xs" and "i < length xs"
  shows "set (take i xs) \<union> set (drop (Suc i) xs) = set xs - {xs ! i}"
    "set (take i xs) \<inter> set (drop (Suc i) xs) = {}"
    "xs ! i \<notin> set (take i xs)" "xs ! i \<notin> set (drop (Suc i) xs)"
proof -
  have xs: "xs = take i xs @ xs ! i # drop (Suc i) xs" by (rule id_take_nth_drop [OF assms(2)])
  then have "set xs = set (take i xs) \<union> {xs ! i} \<union> set (drop (Suc i) xs)"
    by (metis Un_insert_right list.simps(15) set_append sup_bot.right_neutral insert_is_Un Un_commute Un_left_commute)
  moreover from assms(1) xs have d: "distinct (take i xs @ xs ! i # drop (Suc i) xs)" by simp
  ultimately show "set (take i xs) \<union> set (drop (Suc i) xs) = set xs - {xs ! i}" by auto
  from d show "set (take i xs) \<inter> set (drop (Suc i) xs) = {}" "xs ! i \<notin> set (take i xs)"
    "xs ! i \<notin> set (drop (Suc i) xs)" by auto
qed

lemma replace_directory_set:
  assumes "distinct xs" and "d \<in> set xs"
  shows "distinct (replace_directory d r xs) \<and> set (replace_directory d r xs) = insert r (set xs - {d})"
proof -
  obtain idx where idx: "find_index (\<lambda>x. x = d) xs = Some idx"
    using assms(2) find_index_None_iff [of "\<lambda>x. x = d" xs] by (cases "find_index (\<lambda>x. x = d) xs") auto
  from find_index_SomeD [OF idx] have i: "idx < length xs" "xs ! idx = d" by auto
  note sp = set_take_drop_distinct [OF assms(1) i(1), unfolded i(2)]
  have dt: "distinct (take idx xs)" "distinct (drop (Suc idx) xs)" using assms(1) by simp_all
  show ?thesis
  proof (cases "\<exists>j. find_index (\<lambda>x. x = r) xs = Some j \<and> j < idx")
    case True
    then obtain j where j: "find_index (\<lambda>x. x = r) xs = Some j" "j < idx" by blast
    from find_index_SomeD [OF j(1)] have "xs ! j = r" "j < length xs" by auto
    with j(2) i assms(1) have "r \<in> set xs" "r \<noteq> d" by (auto simp: nth_eq_iff_index_eq)
    moreover have "replace_directory d r xs = remove_at idx xs"
      using idx j by (simp add: replace_directory_def)
    ultimately show ?thesis using sp dt by (auto simp: remove_at_def)
  next
    case False
    then have "replace_directory d r xs = drop_duplicates_of r idx 0 (xs[idx := r])"
      using idx by (auto simp: replace_directory_def split: option.split)
    then show ?thesis using sp dt i by (auto simp: drop_duplicates_split)
  qed
qed

lemma session_ok_directories:
  assumes "session_ok s" and "distinct ds"
  shows "session_ok (s\<lparr>smeta_workingDirectories := Some ds\<rparr>)"
  using assms by (simp add: session_ok_def chats_ok_def clients_ok_def inputs_ok_def input_queue_def
      input_bit_ok_def directories_ok_def default_chat_ok_def)

lemma session_ok_directory_cases:
  assumes "session_ok s"
  shows "session_ok (sessionWorkingDirectorySet s d)" "session_ok (sessionWorkingDirectoryRemoved s d)"
    "session_ok (sessionWorkingDirectoryReplaced s a)"
proof -
  have d: "distinct (or_default (smeta_workingDirectories s) [])"
    using assms by (simp add: session_ok_def directories_ok_def)
  then show "session_ok (sessionWorkingDirectorySet s d)"
    using assms by (auto simp: sessionWorkingDirectorySet_def Let_def intro!: session_ok_directories)
  from d show "session_ok (sessionWorkingDirectoryRemoved s d)"
    using assms by (auto simp: sessionWorkingDirectoryRemoved_def distinct_remove_at
        intro!: session_ok_directories split: option.split)
  from d show "session_ok (sessionWorkingDirectoryReplaced s a)"
    using assms replace_directory_set
    by (auto simp: sessionWorkingDirectoryReplaced_def find_index_None_iff
        intro!: session_ok_directories split: option.split)
qed

lemma keys_update_chat:
  "find_chat s c = Some i \<Longrightarrow>
   map csum_resource ((ses_chats s)[i := apply_changes ch (ses_chats s ! i)]) = map csum_resource (ses_chats s)"
  by (rule map_keys_update) (auto simp: find_chat_def apply_changes_def dest: find_index_less)

lemma session_ok_chat_updated:
  assumes "session_ok s"
  shows "session_ok (sessionChatUpdated s a)"
proof (cases "find_chat s (chatUpd_chat a)")
  case (Some i)
  let ?cs = "(ses_chats s)[i := apply_changes (chatUpd_changes a) (ses_chats s ! i)]"
  have keys: "map csum_resource ?cs = map csum_resource (ses_chats s)" by (rule keys_update_chat [OF Some])
  then have "csum_resource ` set ?cs = csum_resource ` set (ses_chats s)" by (metis list.set_map)
  with keys Some assms show ?thesis
    by (simp add: sessionChatUpdated_def session_ok_def chats_ok_def clients_ok_def inputs_ok_def
        input_queue_def input_bit_ok_def directories_ok_def default_chat_ok_def)
qed (use assms in \<open>simp add: sessionChatUpdated_def\<close>)

lemma session_ok_chat_added:
  assumes "session_ok s"
  shows "session_ok (sessionChatAdded s c)"
proof -
  have "csum_resource ` set (upsert csum_resource c xs) = insert (csum_resource c) (csum_resource ` set xs)" for xs
    by (induction xs) auto
  then have "csum_resource ` set (ses_chats (sessionChatAdded s c))
      = insert (csum_resource c) (csum_resource ` set (ses_chats s))"
    by (simp add: chats_after_added)
  moreover have "chats_ok (sessionChatAdded s c)" using chats.put_inv [of s c] assms by (simp add: session_ok_def)
  moreover have "\<exists>cs. sessionChatAdded s c = s\<lparr>ses_chats := cs\<rparr>"
    by (auto simp: sessionChatAdded_def split: option.split)
  ultimately show ?thesis using assms
    by (auto simp: session_ok_def clients_ok_def inputs_ok_def input_queue_def input_bit_ok_def
        directories_ok_def default_chat_ok_def)
qed

lemma session_ok_chat_removed:
  assumes "session_ok s"
  shows "session_ok (sessionChatRemoved s c)"
proof -
  have keys: "csum_resource ` set (remove_by csum_resource c xs) = csum_resource ` set xs - {c}"
    if "distinct (map csum_resource xs)" for xs
    using that
  proof (induction xs)
    case (Cons a xs)
    then show ?case by (cases "csum_resource a = c") auto
  qed simp
  have "chats_ok (sessionChatRemoved s c)" using chats.drop_inv [of s c] assms by (simp add: session_ok_def)
  moreover have "default_chat_ok (sessionChatRemoved s c)"
    unfolding default_chat_ok_def chats_after_removed
    using assms keys [of "ses_chats s"]
    by (auto simp: session_ok_def chats_ok_def default_chat_ok_def sessionChatRemoved_def find_chat_def
        find_index_None_iff Let_def split: option.splits if_splits)
  moreover have "\<exists>cs d. sessionChatRemoved s c = s\<lparr>ses_chats := cs, ses_defaultChat := d\<rparr>"
    by (cases s) (auto simp: sessionChatRemoved_def Let_def split: option.split)
  ultimately show ?thesis using assms
    by (auto simp: session_ok_def clients_ok_def inputs_ok_def input_queue_def input_bit_ok_def directories_ok_def)
qed

lemma session_ok_clients:
  assumes "session_ok s"
  shows "session_ok (sessionActiveClientSet s c)" "session_ok (sessionActiveClientRemoved s i)"
proof -
  have frame: "\<exists>cs. sessionActiveClientSet s c = s\<lparr>ses_activeClients := cs\<rparr>"
    "\<exists>cs. sessionActiveClientRemoved s i = s\<lparr>ses_activeClients := cs\<rparr>"
    by (cases s, auto simp: sessionActiveClientSet_def sessionActiveClientRemoved_def split: option.split)+
  have "clients_ok (sessionActiveClientSet s c)" "clients_ok (sessionActiveClientRemoved s i)"
    using clients.put_inv [of s c] clients.drop_inv [of s i] assms by (simp_all add: session_ok_def)
  with frame assms show "session_ok (sessionActiveClientSet s c)" "session_ok (sessionActiveClientRemoved s i)"
    by (auto simp: session_ok_def chats_ok_def inputs_ok_def input_queue_def input_bit_ok_def
        directories_ok_def default_chat_ok_def)
qed

section \<open>Properties\<close>

definition session_action_ok :: "session_state \<Rightarrow> session_action \<Rightarrow> bool" where
  "session_action_ok s a =
     (case a of
        SessionDefaultChatChanged (Some c) \<Rightarrow> c \<in> csum_resource ` set (ses_chats s)
      | _ \<Rightarrow> True)"


definition sample_summary :: "js_string \<Rightarrow> chat_summary" where
  "sample_summary r = \<lparr>csum_resource = r, csum_title = r, csum_status = status_Idle, csum_activity = None,
     csum_modifiedAt = [], csum_origin = None, csum_interactivity = None, csum_workingDirectories = None\<rparr>"

definition sample_session :: "session_status \<Rightarrow> session_state" where
  "sample_session w = \<lparr>smeta_provider = ''p'', smeta_title = ''s'', smeta_status = w, smeta_activity = None,
     smeta_origin = None, smeta_project = None, smeta_workingDirectories = Some [''/a'', ''/b'', ''/c''],
     smeta_annotations = None, ses_lifecycle = SessionReadyState, ses_creationError = None,
     ses_serverTools = None, ses_activeClients = [], ses_chats = [sample_summary ''c1'', sample_summary ''c2''],
     ses_defaultChat = Some ''c1'', ses_config = None, ses_customizations = None, ses_changesets = None,
     ses_inputNeeded = None, ses_meta = None\<rparr>"

lemma sample_session_ok: "session_ok (sample_session status_Idle)"
proof -
  have "\<not> bit status_Idle (4 :: nat)" by code_simp
  then show ?thesis
    by (simp add: session_ok_def chats_ok_def clients_ok_def inputs_ok_def input_queue_def input_bit_ok_def
        directories_ok_def default_chat_ok_def sample_session_def sample_summary_def)
qed


lemma session_chats_last_writer_witness:
  "chats_view (fold (apply_op (\<lambda>c s. sessionReducer s (SessionChatAdded c))
                        (\<lambda>i s. sessionReducer s (SessionChatRemoved i)))
      [Put (sample_summary ''c3''), Drop ''c1'', Drop ''c3''] (sample_session status_Idle)) ''c3'' = None"
  using session_chats_last_writer [of "sample_session status_Idle" "[Put (sample_summary ''c3''), Drop ''c1'', Drop ''c3'']" "''c3''"]
  by (simp add: chats_ok_def sample_session_def sample_summary_def)

text \<open>
  Replacing a working directory keeps the list a set of directories: the old one is gone,
  the new one is there exactly once even when it was already listed, and no other directory
  is lost or added.
\<close>

theorem working_directory_replaced:
  assumes "smeta_workingDirectories s = Some ds" and "distinct ds" and "d \<in> set ds"
  shows "\<exists>ds'. smeta_workingDirectories (sessionReducer s (SessionWorkingDirectoryReplaced
            \<lparr>wdRepl_directory = d, wdRepl_replacement = r\<rparr>)) = Some ds'
     \<and> distinct ds' \<and> set ds' = insert r (set ds - {d})"
  using replace_directory_set [OF assms(2,3), of r] assms
  by (auto simp: sessionWorkingDirectoryReplaced_def find_index_None_iff)

lemma working_directory_replaced_witness:
  "\<exists>ds'. smeta_workingDirectories (sessionReducer (sample_session status_Idle) (SessionWorkingDirectoryReplaced
            \<lparr>wdRepl_directory = ''/c'', wdRepl_replacement = ''/a''\<rparr>)) = Some ds'
     \<and> distinct ds' \<and> set ds' = insert ''/a'' (set [''/a'', ''/b'', ''/c''] - {''/c''})"
  by (rule working_directory_replaced) (simp_all add: sample_session_def)

text \<open>
  Asking for input and getting it is not neutral on an idle session: it ends in progress,
  although no turn runs, while a queue that held only work for a client leaves it idle.
\<close>

theorem input_round_trip_leaves_in_progress:
  assumes "ses_inputNeeded s = None" and "smeta_status s AND STATUS_ACTIVITY_MASK = status_Idle" and "awaitsUser r"
  shows "smeta_status (sessionReducer (sessionReducer s (SessionInputNeededSet r))
            (SessionInputNeededRemoved (request_id r))) AND STATUS_ACTIVITY_MASK = status_InProgress"
proof -
  let ?w = "withInputNeededStatus (withInputNeededStatus (smeta_status s) [r]) []"
  have "?w AND STATUS_ACTIVITY_MASK = status_InProgress"
    using assms(3)
    by (intro bit_word_eqI) (auto simp: bit_and_iff bit_STATUS_ACTIVITY_MASK bit_withInputNeeded bits_of_status)
  then show ?thesis
    using assms(1) by (simp add: sessionInputNeededSet_def sessionInputNeededRemoved_def Let_def)
qed

definition sample_request :: session_input_request where
  "sample_request = ChatInputNeeded \<lparr>sir_id = ''r'', sir_chat = ''c1'', sirChat_request =
     \<lparr>inreq_id = ''r'', inreq_message = None, inreq_url = None, inreq_questions = None, inreq_answers = None\<rparr>\<rparr>"

lemma input_round_trip_leaves_in_progress_witness:
  "smeta_status (sessionReducer (sessionReducer (sample_session status_Idle) (SessionInputNeededSet sample_request))
            (SessionInputNeededRemoved (request_id sample_request))) AND STATUS_ACTIVITY_MASK = status_InProgress"
proof (rule input_round_trip_leaves_in_progress)
  show "smeta_status (sample_session status_Idle) AND STATUS_ACTIVITY_MASK = status_Idle"
    by (simp add: sample_session_def status_defs STATUS_ACTIVITY_MASK_def)
qed (simp_all add: sample_session_def sample_request_def awaitsUser_def)

section \<open>MCP server state\<close>

text \<open>A customization tree with the state and the channel of the MCP servers called \<open>i\<close> blanked out.\<close>

definition blank_server :: "js_string \<Rightarrow> mcp_server_customization \<Rightarrow> mcp_server_customization" where
  "blank_server i e = (if cust_id e = i then e\<lparr>mcps_state := McpStopped, mcps_channel := None\<rparr> else e)"

fun blank_child :: "js_string \<Rightarrow> child_customization \<Rightarrow> child_customization" where
  "blank_child i (McpChild e) = McpChild (blank_server i e)"
| "blank_child i c = c"

fun blank_top :: "js_string \<Rightarrow> customization \<Rightarrow> customization" where
  "blank_top i (McpTop e) = McpTop (blank_server i e)"
| "blank_top i (PluginTop c) = PluginTop (c\<lparr>cont_children := map_option (map (blank_child i)) (cont_children c)\<rparr>)"
| "blank_top i (DirectoryTop c) = DirectoryTop (c\<lparr>cont_children := map_option (map (blank_child i)) (cont_children c)\<rparr>)"

definition state_update :: "(mcp_server_customization \<Rightarrow> mcp_server_customization) \<Rightarrow> bool" where
  "state_update u \<longleftrightarrow> (\<exists>st ch. u = (\<lambda>e. e\<lparr>mcps_state := st, mcps_channel := ch\<rparr>))"

lemma blank_update: "state_update u \<Longrightarrow> cust_id e = i \<Longrightarrow> blank_server i (u e) = blank_server i e"
  by (auto simp: state_update_def blank_server_def)

lemma map_update_same: "i < length xs \<Longrightarrow> f y = f (xs ! i) \<Longrightarrow> map f (xs[i := y]) = map f xs"
  by (simp add: map_update list_update_same_conv)

lemma blank_update_child:
  assumes "state_update u" and "update_mcp_child i u c = Some c'"
  shows "blank_top i c' = blank_top i c"
proof -
  obtain cs idx e where c: "top_children c = Some cs" "find_index (\<lambda>c. child_id c = i) cs = Some idx"
    "cs ! idx = McpChild e" "c' = with_children (cs[idx := McpChild (u e)]) c"
    using assms(2) by (auto simp: update_mcp_child_def split: option.splits child_customization.splits)
  from find_index_SomeD [OF c(2)] c(3) have "idx < length cs" "cust_id e = i" by auto
  then have "map (blank_child i) (cs[idx := McpChild (u e)]) = map (blank_child i) cs"
    using c(3) blank_update [OF assms(1)] by (intro map_update_same) auto
  with c show ?thesis by (cases c) auto
qed

lemma blank_after_update:
  assumes "state_update u"
  shows "map_option (map (blank_top i)) (ses_customizations (updateMcpServerCustomization s i u))
       = map_option (map (blank_top i)) (ses_customizations s)"
proof (cases "ses_customizations s")
  case (Some cs)
  show ?thesis
  proof (cases "find_index (\<lambda>c. top_id c = i) cs")
    case None
    have "blank_top i (or_default (update_mcp_child i u c) c) = blank_top i c" for c
      using blank_update_child [OF assms] by (cases "update_mcp_child i u c") auto
    then show ?thesis using Some None by (simp add: updateMcpServerCustomization_def)
  next
    case (Some idx)
    from find_index_SomeD [OF Some] have idx: "idx < length cs" "top_id (cs ! idx) = i" by auto
    have "map (blank_top i) (cs[idx := McpTop (u e)]) = map (blank_top i) cs" if "cs ! idx = McpTop e" for e
      using that idx blank_update [OF assms] by (intro map_update_same) auto
    then show ?thesis using \<open>ses_customizations s = Some cs\<close> Some
      by (simp add: updateMcpServerCustomization_def split: customization.split)
  qed
qed (simp add: updateMcpServerCustomization_def)

definition mcp_target :: "session_action \<Rightarrow> js_string option" where
  "mcp_target a =
     (case a of
        SessionMcpServerStateChanged x \<Rightarrow> Some (mcpChg_id x)
      | SessionMcpServerStartRequested i \<Rightarrow> Some i
      | SessionMcpServerStopRequested i \<Rightarrow> Some i
      | _ \<Rightarrow> None)"

text \<open>
  Starting, stopping or reporting an MCP server changes nothing but the state and the
  channel of MCP servers with that id: no customization is added, lost, moved or re-enabled,
  at either level of the tree.
\<close>

theorem mcp_action_frame:
  assumes "mcp_target a = Some i"
  shows "map_option (map (blank_top i)) (ses_customizations (sessionReducer s a))
       = map_option (map (blank_top i)) (ses_customizations s)"
proof -
  have "state_update (\<lambda>e. e\<lparr>mcps_state := st, mcps_channel := ch\<rparr>)" for st ch
    by (auto simp: state_update_def)
  with assms show ?thesis by (cases a) (auto simp: mcp_target_def blank_after_update)
qed

definition sample_server :: "mcp_server_state \<Rightarrow> mcp_server_customization" where
  "sample_server st = \<lparr>cust_id = ''m'', cust_uri = ''u'', cust_name = ''n'', cust_icons = None, cust_range = None,
     cust_meta = None, mcps_enablement = None, mcps_state = st, mcps_channel = None, mcps_mcpApp = None\<rparr>"

lemma mcp_action_frame_witness:
  "ses_customizations (sessionReducer ((sample_session status_Idle)\<lparr>ses_customizations := Some [McpTop (sample_server McpStopped)]\<rparr>)
      (SessionMcpServerStartRequested ''m'')) = Some [McpTop (sample_server McpStarting)]
   \<and> map_option (map (blank_top ''m'')) (ses_customizations (sessionReducer
        ((sample_session status_Idle)\<lparr>ses_customizations := Some [McpTop (sample_server McpStopped)]\<rparr>)
        (SessionMcpServerStartRequested ''m'')))
     = Some [McpTop (sample_server McpStopped)]"
  using mcp_action_frame [of "SessionMcpServerStartRequested ''m''" "''m''"
      "(sample_session status_Idle)\<lparr>ses_customizations := Some [McpTop (sample_server McpStopped)]\<rparr>"]
  by (simp add: mcp_target_def updateMcpServerCustomization_def sample_server_def blank_server_def)

end
