(* ===== verification/Automation.thy ===== *)
theory Automation
  imports Chat_State Keyed_Channel
begin

text \<open>
  The automation catalog and the automation runs, \<open>channels-automation/{state,actions,reducer}.ts\<close>
  and \<open>channels-automation-run/{state,actions,reducer}.ts\<close>. Requests (create, update, cancel)
  are sent through the channel but change no state: the host answers them with the outcome.
\<close>

section \<open>Runs\<close>

record automation_triggered_run_origin =
  atrig_triggerId :: "js_string"
  atrig_scheduledFor :: "js_string option"
  atrig_catchUp :: "bool option"
  atrig_event :: "json js_record option"

datatype automation_run_origin = ManualRun | TriggeredRun automation_triggered_run_origin

record automation_completed_run_lifecycle =
  arcompl_createdAt :: "js_string"
  arcompl_startedAt :: "js_string"
  arcompl_completedAt :: "js_string"
  arcompl_usage :: "usage_info option"

record automation_failed_run_lifecycle =
  arfail_createdAt :: "js_string"
  arfail_startedAt :: "js_string option"
  arfail_completedAt :: "js_string"
  arfail_error :: "error_info"

record automation_cancelled_run_lifecycle =
  arcanc_createdAt :: "js_string"
  arcanc_startedAt :: "js_string option"
  arcanc_completedAt :: "js_string"

datatype automation_run_lifecycle =
    RunPending js_string
  | RunRunning js_string js_string
  | RunCompleted automation_completed_run_lifecycle
  | RunFailed automation_failed_run_lifecycle
  | RunCancelled automation_cancelled_run_lifecycle

record automation_run_summary =
  arsum_resource :: "js_string"
  arsum_automation :: "js_string"
  arsum_origin :: "automation_run_origin"
  arsum_lifecycle :: "automation_run_lifecycle"
  arsum_primarySession :: "js_string option"
  arsum_sessionCount :: "js_number"
  arsum_meta :: "json js_record option"

record automation_run_state =
  arun_resource :: "js_string"
  arun_automation :: "js_string"
  arun_origin :: "automation_run_origin"
  arun_lifecycle :: "automation_run_lifecycle"
  arun_sessions :: "js_string list"
  arun_primarySession :: "js_string option"
  arun_meta :: "json js_record option"

datatype automation_run_action =
    AutomationRunLifecycleChanged automation_run_lifecycle
  | AutomationRunSessionSet js_string
  | AutomationRunSessionRemoved js_string
  | AutomationRunPrimarySessionChanged "js_string option"
  | AutomationRunCancelRequested
  | AutomationRunUnhandled js_string

definition runSessionSet :: "automation_run_state \<Rightarrow> js_string \<Rightarrow> automation_run_state" where
  "runSessionSet state session =
     (if session \<in> set (arun_sessions state) then state
      else state\<lparr>arun_sessions := arun_sessions state @ [session]\<rparr>)"

definition runSessionRemoved :: "automation_run_state \<Rightarrow> js_string \<Rightarrow> automation_run_state" where
  "runSessionRemoved state session =
     (case find_index (\<lambda>x. x = session) (arun_sessions state) of
        None \<Rightarrow> state
      | Some index \<Rightarrow>
          let nxt = state\<lparr>arun_sessions := remove_at index (arun_sessions state)\<rparr>
          in if arun_primarySession state = Some session then nxt\<lparr>arun_primarySession := None\<rparr> else nxt)"

fun automationRunReducer :: "automation_run_state \<Rightarrow> automation_run_action \<Rightarrow> automation_run_state" where
  "automationRunReducer s (AutomationRunLifecycleChanged l) = s\<lparr>arun_lifecycle := l\<rparr>"
| "automationRunReducer s (AutomationRunSessionSet x) = runSessionSet s x"
| "automationRunReducer s (AutomationRunSessionRemoved x) = runSessionRemoved s x"
| "automationRunReducer s (AutomationRunPrimarySessionChanged p) = s\<lparr>arun_primarySession := p\<rparr>"
| "automationRunReducer s AutomationRunCancelRequested = s"
| "automationRunReducer s (AutomationRunUnhandled _) = s"

section \<open>Automations\<close>

datatype automation_operation = UpdateOperation | RemoveOperation | RunOperation

datatype automation_misfire_policy = MisfireSkip | MisfireRunOnce

record automation_schedule =
  asched_expression :: "js_string"
  asched_timeZone :: "js_string"

record automation_schedule_trigger =
  atsched_id :: "js_string"
  atsched_schedule :: "automation_schedule"
  atsched_misfirePolicy :: "automation_misfire_policy option"

record automation_trigger_event_definition =
  ated_id :: "js_string"
  ated_title :: "js_string"
  ated_description :: "js_string option"

record automation_event_trigger =
  atevent_id :: "js_string"
  atevent_type :: "js_string"
  atevent_title :: "js_string"
  atevent_description :: "js_string option"
  atevent_events :: "automation_trigger_event_definition list"
  atevent_config :: "json js_record option"

datatype automation_trigger =
    ScheduleTrigger automation_schedule_trigger
  | EventTrigger automation_event_trigger

record automation_trigger_definition =
  atdef_type :: "js_string"
  atdef_title :: "js_string"
  atdef_description :: "js_string option"
  atdef_events :: "automation_trigger_event_definition list"
  atdef_configSchema :: "config_schema option"

record automation_session_template =
  atempl_provider :: "js_string option"
  atempl_model :: "model_selection option"
  atempl_agent :: "agent_selection option"
  atempl_workingDirectories :: "js_string list option"
  atempl_config :: "json js_record option"

record automation_definition =
  adef_title :: "js_string"
  adef_message :: "message"
  adef_session :: "automation_session_template"
  adef_enabled :: "bool"
  adef_triggers :: "automation_trigger list"
  adef_meta :: "json js_record option"

record automation_state =
  auto_resource :: "js_string"
  auto_definition :: "automation_definition"
  auto_nextRunAt :: "js_string option"
  auto_runs :: "automation_run_summary list"
  auto_runsNextCursor :: "js_string option"
  auto_operations :: "automation_operation list"
  auto_createdAt :: "js_string"
  auto_modifiedAt :: "js_string"
  auto_meta :: "json js_record option"

record automation_catalog_state =
  acat_automations :: "automation_state list"
  acat_meta :: "json js_record option"

record automation_definition_patch =
  apatch_title :: "js_string option"
  apatch_message :: "message option"
  apatch_session :: "automation_session_template option"
  apatch_enabled :: "bool option"
  apatch_triggers :: "automation_trigger list option"
  apatch_meta :: "json js_record option"

record automation_create_requested_action =
  acreate_resource :: "js_string"
  acreate_definition :: "automation_definition"

record automation_update_requested_action =
  aupdate_resource :: "js_string"
  aupdate_changes :: "automation_definition_patch"

datatype automation_action =
    AutomationCreateRequested automation_create_requested_action
  | AutomationUpdateRequested automation_update_requested_action
  | AutomationSet automation_state
  | AutomationRemoved js_string
  | AutomationUnhandled js_string

definition find_automation :: "automation_catalog_state \<Rightarrow> js_string \<Rightarrow> nat option" where
  "find_automation state r = find_index (\<lambda>a. auto_resource a = r) (acat_automations state)"

definition automationSet :: "automation_catalog_state \<Rightarrow> automation_state \<Rightarrow> automation_catalog_state" where
  "automationSet state a =
     (case find_automation state (auto_resource a) of
        None \<Rightarrow> state\<lparr>acat_automations := acat_automations state @ [a]\<rparr>
      | Some idx \<Rightarrow> state\<lparr>acat_automations := (acat_automations state)[idx := a]\<rparr>)"

definition automationRemoved :: "automation_catalog_state \<Rightarrow> js_string \<Rightarrow> automation_catalog_state" where
  "automationRemoved state r =
     (case find_automation state r of
        None \<Rightarrow> state
      | Some idx \<Rightarrow> state\<lparr>acat_automations := remove_at idx (acat_automations state)\<rparr>)"

fun automationReducer :: "automation_catalog_state \<Rightarrow> automation_action \<Rightarrow> automation_catalog_state" where
  "automationReducer s (AutomationCreateRequested _) = s"
| "automationReducer s (AutomationUpdateRequested _) = s"
| "automationReducer s (AutomationSet a) = automationSet s a"
| "automationReducer s (AutomationRemoved r) = automationRemoved s r"
| "automationReducer s (AutomationUnhandled _) = s"

section \<open>The catalog is a finite map\<close>

definition catalog_ok :: "automation_catalog_state \<Rightarrow> bool" where
  "catalog_ok s \<longleftrightarrow> distinct (map auto_resource (acat_automations s))"

definition catalog_view :: "automation_catalog_state \<Rightarrow> js_string \<rightharpoonup> automation_state" where
  "catalog_view s = view_by auto_resource (acat_automations s)"

lemma automations_after_set: "acat_automations (automationSet s a) = upsert auto_resource a (acat_automations s)"
  by (simp add: automationSet_def find_automation_def upsert_def split: option.split)

lemma automations_after_removed:
  "acat_automations (automationRemoved s r) = remove_by auto_resource r (acat_automations s)"
  by (simp add: automationRemoved_def find_automation_def remove_by_def split: option.split)

interpretation catalog: keyed_channel catalog_ok catalog_view auto_resource
    "\<lambda>a s. automationReducer s (AutomationSet a)" "\<lambda>r s. automationReducer s (AutomationRemoved r)"
  by unfold_locales
    (simp_all add: catalog_ok_def catalog_view_def automations_after_set automations_after_removed keyed_list)

text \<open>What an action of the channel means for the catalog: requests mean nothing.\<close>

fun catalog_effect :: "automation_action \<Rightarrow> (js_string, automation_state) keyed_op option" where
  "catalog_effect (AutomationSet a) = Some (Put a)"
| "catalog_effect (AutomationRemoved r) = Some (Drop r)"
| "catalog_effect _ = None"

fun effects :: "automation_action list \<Rightarrow> (js_string, automation_state) keyed_op list" where
  "effects [] = []"
| "effects (a # as) = (case catalog_effect a of None \<Rightarrow> effects as | Some p \<Rightarrow> p # effects as)"

lemma run_effects:
  "fold (\<lambda>a s. automationReducer s a) as s
   = fold (apply_op (\<lambda>a s. automationReducer s (AutomationSet a))
                    (\<lambda>r s. automationReducer s (AutomationRemoved r))) (effects as) s"
proof (induction as arbitrary: s)
  case (Cons a as)
  then show ?case by (cases a) simp_all
qed simp

text \<open>
  The automation catalog is driven by outcomes only: whatever requests are interleaved with
  them, the catalog after a sequence of actions is the map that the set and removed actions
  alone build, with the last outcome deciding each automation.
\<close>

theorem automation_catalog_outcomes:
  assumes "catalog_ok s"
  shows "catalog_view (fold (\<lambda>a s. automationReducer s a) as s)
       = fold (map_op auto_resource) (effects as) (catalog_view s)"
  unfolding run_effects by (rule catalog.run_view [OF assms])

lemma automation_catalog_outcomes_witness:
  "catalog_view (fold (\<lambda>a s. automationReducer s a) [AutomationRemoved ''x'', AutomationUnhandled ''y'']
     \<lparr>acat_automations = [], acat_meta = None\<rparr>)
   = fold (map_op auto_resource) (effects [AutomationRemoved ''x'', AutomationUnhandled ''y''])
       (catalog_view \<lparr>acat_automations = [], acat_meta = None\<rparr>)"
  by (rule automation_catalog_outcomes) (simp add: catalog_ok_def)

section \<open>Well-formed runs\<close>

definition run_ok :: "automation_run_state \<Rightarrow> bool" where
  "run_ok s \<longleftrightarrow> distinct (arun_sessions s)
     \<and> (\<forall>p. arun_primarySession s = Some p \<longrightarrow> p \<in> set (arun_sessions s))"

lemma set_remove_distinct:
  assumes "distinct xs" and "find_index (\<lambda>x. x = y) xs = Some i"
  shows "set (remove_at i xs) = set xs - {y}"
  using assms
proof (induction xs arbitrary: i)
  case (Cons x xs)
  then show ?case by (cases "x = y") auto
qed simp

text \<open>
  A run keeps a set of sessions and a primary session among them: linking and unlinking
  sessions never duplicates one and never leaves the primary pointing at a session that was
  unlinked. Only an explicit change of primary can break this, by naming a session that is not
  linked.
\<close>

theorem automation_run_ok_preserved:
  assumes "run_ok s" and "\<And>p. a = AutomationRunPrimarySessionChanged (Some p) \<Longrightarrow> p \<in> set (arun_sessions s)"
  shows "run_ok (automationRunReducer s a)"
proof (cases a)
  case (AutomationRunSessionRemoved x)
  with assms show ?thesis
    by (auto simp: run_ok_def runSessionRemoved_def Let_def distinct_remove_at set_remove_distinct split: option.split)
qed (use assms in \<open>auto simp: run_ok_def runSessionSet_def\<close>)

definition sample_run :: automation_run_state where
  "sample_run = \<lparr>arun_resource = ''r'', arun_automation = ''a'', arun_origin = ManualRun,
     arun_lifecycle = RunPending [], arun_sessions = [''s1'', ''s2''], arun_primarySession = Some ''s1'',
     arun_meta = None\<rparr>"

lemma automation_run_ok_preserved_witness:
  "run_ok (automationRunReducer sample_run (AutomationRunSessionRemoved ''s1''))"
  by (rule automation_run_ok_preserved) (simp_all add: run_ok_def sample_run_def)

end
