(* ===== verification/Root_Channel.thy ===== *)
theory Root_Channel
  imports Session_State Terminal
begin

text \<open>
  The root channel of a host and the resource watch channel,
  \<open>channels-root/{state,actions,reducer}.ts\<close> and \<open>channels-resource-watch/{state,actions,reducer}.ts\<close>.
\<close>

section \<open>State and actions\<close>

datatype policy_state = PolicyEnabled | PolicyDisabled | PolicyUnconfigured

datatype model_catalog = OwnedCatalog | ProjectedCatalog

record multiple_chats_capability =
  mchats_fork :: "bool option"
  mchats_sideChat :: "bool option"

record multiple_working_directories_capability =
  mdirs_immutablePrimary :: "bool option"
  mdirs_primaryReplacement :: "bool option"

record agent_capabilities =
  acaps_modelCatalog :: "model_catalog option"
  acaps_multipleChats :: "multiple_chats_capability option"
  acaps_multipleWorkingDirectories :: "multiple_working_directories_capability option"

record session_model_info =
  smodel_id :: "js_string"
  smodel_underlyingModelId :: "js_string option"
  smodel_provider :: "js_string"
  smodel_name :: "js_string"
  smodel_maxContextWindow :: "js_number option"
  smodel_maxOutputTokens :: "js_number option"
  smodel_maxPromptTokens :: "js_number option"
  smodel_supportsVision :: "bool option"
  smodel_policyState :: "policy_state option"
  smodel_configSchema :: "config_schema option"
  smodel_meta :: "json js_record option"

record agent_info =
  agentinfo_provider :: "js_string"
  agentinfo_displayName :: "js_string"
  agentinfo_description :: "js_string"
  agentinfo_models :: "session_model_info list"
  agentinfo_protectedResources :: "protected_resource_metadata list option"
  agentinfo_customizations :: "customization list option"
  agentinfo_capabilities :: "agent_capabilities option"

record root_config_state =
  rcfg_schema :: "config_schema"
  rcfg_values :: "json js_record"

record root_state =
  root_agents :: "agent_info list"
  root_activeSessions :: "js_number option"
  root_terminals :: "terminal_info list option"
  root_config :: "root_config_state option"
  root_meta :: "json js_record option"

record root_config_changed_action =
  rcfgChg_config :: "json js_record"
  rcfgChg_replace :: "bool option"

datatype root_action =
    RootAgentsChanged "agent_info list"
  | RootActiveSessionsChanged js_number
  | RootTerminalsChanged "terminal_info list"
  | RootConfigChanged root_config_changed_action
  | RootUnhandled js_string

datatype resource_change_type = ResourceAdded | ResourceUpdated | ResourceDeleted

record resource_watch_state =
  rwatch_root :: "js_string"
  rwatch_recursive :: "bool"
  rwatch_excludes :: "js_string list option"
  rwatch_includes :: "js_string list option"

record resource_change =
  rchange_uri :: "js_string"
  rchange_type :: "resource_change_type"

datatype resource_watch_action = ResourceWatchChanged "resource_change list" | ResourceWatchUnhandled js_string

section \<open>Reducers\<close>

definition rootConfigChanged :: "root_state \<Rightarrow> root_config_changed_action \<Rightarrow> root_state" where
  "rootConfigChanged state a =
     (case root_config state of
        None \<Rightarrow> state
      | Some cfg \<Rightarrow> state\<lparr>root_config := Some (cfg\<lparr>rcfg_values :=
          (if rcfgChg_replace a = Some True then spread [] (rcfgChg_config a)
           else spread (spread [] (rcfg_values cfg)) (rcfgChg_config a))\<rparr>)\<rparr>)"

fun rootReducer :: "root_state \<Rightarrow> root_action \<Rightarrow> root_state" where
  "rootReducer s (RootAgentsChanged agents) = s\<lparr>root_agents := agents\<rparr>"
| "rootReducer s (RootActiveSessionsChanged n) = s\<lparr>root_activeSessions := Some n\<rparr>"
| "rootReducer s (RootTerminalsChanged ts) = s\<lparr>root_terminals := Some ts\<rparr>"
| "rootReducer s (RootConfigChanged a) = rootConfigChanged s a"
| "rootReducer s (RootUnhandled _) = s"

fun resourceWatchReducer :: "resource_watch_state \<Rightarrow> resource_watch_action \<Rightarrow> resource_watch_state" where
  "resourceWatchReducer s (ResourceWatchChanged _) = s"
| "resourceWatchReducer s (ResourceWatchUnhandled _) = s"

section \<open>Configuration values\<close>

definition config_value :: "root_state \<Rightarrow> js_string \<Rightarrow> json option" where
  "config_value s k = (case root_config s of None \<Rightarrow> None | Some cfg \<Rightarrow> map_of (rcfg_values cfg) k)"

lemma map_of_spread_distinct:
  "distinct (map fst b) \<Longrightarrow> map_of (spread a b) k = (case map_of b k of Some v \<Rightarrow> Some v | None \<Rightarrow> map_of a k)"
proof -
  assume "distinct (map fst b)"
  then have "map_of (rev b) = map_of b"
    by (intro map_of_inject_set [THEN iffD2]) (simp_all add: rev_map [symmetric])
  then show ?thesis by (simp add: map_of_spread map_add_def split: option.split)
qed

text \<open>
  A configuration change is read back exactly: after it a key has the value the change gives
  it; a key the change does not mention keeps its value, or disappears when the change
  replaces the configuration. Nothing happens before the host has published a schema.
\<close>

theorem root_config_read_back:
  assumes "distinct (map fst (rcfgChg_config a))"
    and "\<And>cfg. root_config s = Some cfg \<Longrightarrow> distinct (map fst (rcfg_values cfg))"
  shows "config_value (rootReducer s (RootConfigChanged a)) k =
     (if root_config s = None then None
      else case map_of (rcfgChg_config a) k of
             Some v \<Rightarrow> Some v
           | None \<Rightarrow> if rcfgChg_replace a = Some True then None else config_value s k)"
  using assms
  by (cases "root_config s")
    (auto simp: config_value_def rootConfigChanged_def map_of_spread_distinct split: option.split)

lemma root_config_read_back_witness:
  "config_value (rootReducer \<lparr>root_agents = [], root_activeSessions = None, root_terminals = None,
       root_config = Some \<lparr>rcfg_schema = \<lparr>cfgschema_properties = [], cfgschema_required = None\<rparr>,
         rcfg_values = [(''k'', JNull), (''l'', JBool True)]\<rparr>, root_meta = None\<rparr>
     (RootConfigChanged \<lparr>rcfgChg_config = [(''l'', JBool False)], rcfgChg_replace = None\<rparr>)) ''k'' = Some JNull"
  by (subst root_config_read_back) (simp_all add: config_value_def)

end
