(* ===== verification/State_Actions.thy ===== *)
theory State_Actions
  imports Chat_Actions Session_Reducer Terminal Changeset Annotations Automation Root_Channel
begin

text \<open>
  The actions of all channels as one type, the envelope the server wraps them in, and which of
  them a client may originate: \<open>common/actions.ts\<close>, \<open>action-origin.generated.ts\<close>,
  \<open>common/reducer-helpers.ts\<close> and the type guards of \<open>sessionActions.ts\<close>. The guards test the
  prefix of the action's \<open>type\<close> string; the prefix is the channel the action belongs to, so
  here they test the constructor.
\<close>

datatype state_action =
    RootAct root_action
  | SessionAct session_action
  | ChatAct chat_action
  | TerminalAct terminal_action
  | ChangesetAct changeset_action
  | AnnotationsAct annotations_action
  | ResourceWatchAct resource_watch_action
  | AutomationAct automation_action
  | AutomationRunAct automation_run_action

definition isRootAction :: "state_action \<Rightarrow> bool" where
  "isRootAction a = (case a of RootAct _ \<Rightarrow> True | _ \<Rightarrow> False)"

definition isSessionAction :: "state_action \<Rightarrow> bool" where
  "isSessionAction a = (case a of SessionAct _ \<Rightarrow> True | _ \<Rightarrow> False)"

definition isChatAction :: "state_action \<Rightarrow> bool" where
  "isChatAction a = (case a of ChatAct _ \<Rightarrow> True | _ \<Rightarrow> False)"

definition isTerminalAction :: "state_action \<Rightarrow> bool" where
  "isTerminalAction a = (case a of TerminalAct _ \<Rightarrow> True | _ \<Rightarrow> False)"

definition isChangesetAction :: "state_action \<Rightarrow> bool" where
  "isChangesetAction a = (case a of ChangesetAct _ \<Rightarrow> True | _ \<Rightarrow> False)"

definition isAnnotationsAction :: "state_action \<Rightarrow> bool" where
  "isAnnotationsAction a = (case a of AnnotationsAct _ \<Rightarrow> True | _ \<Rightarrow> False)"

section \<open>Envelopes\<close>

record action_origin =
  org_clientId :: "js_string"
  org_clientSeq :: "nat"

record action_envelope =
  env_channel :: "js_string"
  env_action :: "state_action"
  env_serverSeq :: "nat"
  env_origin :: "action_origin option"
  env_rejectionReason :: "js_string option"

text \<open>\<open>!envelope.rejectionReason\<close>: an empty reason does not reject.\<close>

definition rejected :: "action_envelope \<Rightarrow> bool" where
  "rejected e = truthy_string (env_rejectionReason e)"

text \<open>\<open>envelope.origin?.clientId === clientId\<close>\<close>

definition is_own :: "js_string \<Rightarrow> action_envelope \<Rightarrow> bool" where
  "is_own clientId e = (map_option org_clientId (env_origin e) = Some clientId)"

section \<open>What a client may originate\<close>

fun root_dispatchable :: "root_action \<Rightarrow> bool" where
  "root_dispatchable (RootConfigChanged _) = True"
| "root_dispatchable _ = False"

fun session_dispatchable :: "session_action \<Rightarrow> bool" where
  "session_dispatchable (SessionTitleChanged _) = True"
| "session_dispatchable (SessionActiveClientSet _) = True"
| "session_dispatchable (SessionActiveClientRemoved _) = True"
| "session_dispatchable (SessionWorkingDirectorySet _) = True"
| "session_dispatchable (SessionWorkingDirectoryRemoved _) = True"
| "session_dispatchable (SessionWorkingDirectoryReplaced _) = True"
| "session_dispatchable (SessionCustomizationToggled _) = True"
| "session_dispatchable (SessionMcpServerStartRequested _) = True"
| "session_dispatchable (SessionMcpServerStopRequested _) = True"
| "session_dispatchable (SessionIsReadChanged _) = True"
| "session_dispatchable (SessionIsArchivedChanged _) = True"
| "session_dispatchable (SessionConfigChanged _) = True"
| "session_dispatchable _ = False"

fun chat_dispatchable :: "chat_action \<Rightarrow> bool" where
  "chat_dispatchable (ChatTurnStarted _) = True"
| "chat_dispatchable (ChatToolCallConfirmed _) = True"
| "chat_dispatchable (ChatToolCallComplete _) = True"
| "chat_dispatchable (ChatToolCallResultConfirmed _) = True"
| "chat_dispatchable (ChatToolCallContentChanged _) = True"
| "chat_dispatchable (ChatTurnCancelled _) = True"
| "chat_dispatchable (ChatWorkingDirectorySet _) = True"
| "chat_dispatchable (ChatWorkingDirectoryRemoved _) = True"
| "chat_dispatchable (ChatPendingMessageSet _) = True"
| "chat_dispatchable (ChatPendingMessageRemoved _) = True"
| "chat_dispatchable (ChatQueuedMessagesReordered _) = True"
| "chat_dispatchable (ChatDraftChanged _) = True"
| "chat_dispatchable (ChatInputAnswerChanged _) = True"
| "chat_dispatchable (ChatInputCompleted _) = True"
| "chat_dispatchable (ChatTruncated _) = True"
| "chat_dispatchable _ = False"

fun terminal_dispatchable :: "terminal_action \<Rightarrow> bool" where
  "terminal_dispatchable (TerminalInput _) = True"
| "terminal_dispatchable (TerminalResized _) = True"
| "terminal_dispatchable (TerminalClaimed _) = True"
| "terminal_dispatchable (TerminalTitleChanged _) = True"
| "terminal_dispatchable TerminalCleared = True"
| "terminal_dispatchable _ = False"

fun changeset_dispatchable :: "changeset_action \<Rightarrow> bool" where
  "changeset_dispatchable (ChangesetFilesReviewChanged _) = True"
| "changeset_dispatchable _ = False"

fun annotations_dispatchable :: "annotations_action \<Rightarrow> bool" where
  "annotations_dispatchable (AnnotationsUnhandled _) = False"
| "annotations_dispatchable _ = True"

fun automation_dispatchable :: "automation_action \<Rightarrow> bool" where
  "automation_dispatchable (AutomationCreateRequested _) = True"
| "automation_dispatchable (AutomationUpdateRequested _) = True"
| "automation_dispatchable (AutomationRemoved _) = True"
| "automation_dispatchable _ = False"

fun automation_run_dispatchable :: "automation_run_action \<Rightarrow> bool" where
  "automation_run_dispatchable AutomationRunCancelRequested = True"
| "automation_run_dispatchable _ = False"

fun isClientDispatchable :: "state_action \<Rightarrow> bool" where
  "isClientDispatchable (RootAct a) = root_dispatchable a"
| "isClientDispatchable (SessionAct a) = session_dispatchable a"
| "isClientDispatchable (ChatAct a) = chat_dispatchable a"
| "isClientDispatchable (TerminalAct a) = terminal_dispatchable a"
| "isClientDispatchable (ChangesetAct a) = changeset_dispatchable a"
| "isClientDispatchable (AnnotationsAct a) = annotations_dispatchable a"
| "isClientDispatchable (ResourceWatchAct _) = False"
| "isClientDispatchable (AutomationAct a) = automation_dispatchable a"
| "isClientDispatchable (AutomationRunAct a) = automation_run_dispatchable a"

end
