(* ===== verification/Subscription.thy ===== *)
theory Subscription
  imports State_Actions Chat_Reducer
begin

text \<open>
  The client side of a channel, \<open>common/state/agentSubscription.ts\<close>: a subscription holds the
  state the server confirmed, the actions this client dispatched and the server has not
  confirmed yet, and the optimistic state that replays them on top. Envelopes that arrive
  before the first snapshot are buffered. The five classes share their code shape; what differs
  between them is the reducer and \<open>_reconcile\<close>, which are defined per class. A method whose
  reducer throws leaves the object as it was at the throw, so methods return the object and
  the error. Events are recorded in the order they fire; listeners are not modelled. The
  sequence allocator is a callback of the owner: its result is an argument.
\<close>

section \<open>Objects and errors\<close>

datatype 's sub_value = SubError js_string | SubState 's | SubUndefined

datatype 's sub_event =
    DidChange "'s sub_value"
  | DidError js_string
  | WillApplyAction action_envelope
  | DidApplyAction action_envelope

record 's subscription =
  sub_clientId :: "js_string"
  sub_uri :: "js_string"
  sub_confirmed :: "'s option"
  sub_error :: "js_string option"
  sub_buffered :: "action_envelope list option"
  sub_pending :: "(nat \<times> state_action) list"
  sub_optimistic :: "'s option"
  sub_events :: "'s sub_event list"

type_synonym 'x outcome = "'x \<times> js_error option"

definition and_then :: "'x outcome \<Rightarrow> ('x \<Rightarrow> 'x outcome) \<Rightarrow> 'x outcome" where
  "and_then r f = (case r of (x, None) \<Rightarrow> f x | (x, Some e) \<Rightarrow> (x, Some e))"

lemma and_then_simps [simp]: "and_then (x, None) f = f x" "and_then (x, Some e) f = (x, Some e)"
  by (simp_all add: and_then_def)

lemma and_then_ok: "and_then r f = (y, None) \<longleftrightarrow> (\<exists>x. r = (x, None) \<and> f x = (y, None))"
  by (cases r) (auto simp: and_then_def split: option.split)

definition new_subscription :: "js_string \<Rightarrow> js_string \<Rightarrow> 's subscription" where
  "new_subscription uri clientId = \<lparr>sub_clientId = clientId, sub_uri = uri, sub_confirmed = None,
     sub_error = None, sub_buffered = None, sub_pending = [], sub_optimistic = None, sub_events = []\<rparr>"

definition fire :: "'s sub_event \<Rightarrow> 's subscription \<Rightarrow> 's subscription" where
  "fire e sub = sub\<lparr>sub_events := sub_events sub @ [e]\<rparr>"

lemma fire_simps [simp]:
  "sub_confirmed (fire e s) = sub_confirmed s" "sub_error (fire e s) = sub_error s"
  "sub_buffered (fire e s) = sub_buffered s" "sub_pending (fire e s) = sub_pending s"
  "sub_optimistic (fire e s) = sub_optimistic s" "sub_clientId (fire e s) = sub_clientId s"
  "sub_uri (fire e s) = sub_uri s"
  by (simp_all add: fire_def)

section \<open>BaseAgentSubscription\<close>

definition sub_get_value :: "'s subscription \<Rightarrow> 's sub_value" where
  "sub_get_value sub =
     (case sub_error sub of
        Some e \<Rightarrow> SubError e
      | None \<Rightarrow> (case orelse (sub_optimistic sub) (sub_confirmed sub) of Some s \<Rightarrow> SubState s | None \<Rightarrow> SubUndefined))"

text \<open>The type of \<open>_reconcile\<close> and of the hook that runs after a snapshot.\<close>

type_synonym 's reconcile_method = "action_envelope \<Rightarrow> bool \<Rightarrow> 's subscription \<Rightarrow> 's subscription outcome"

fun replay_buffered ::
    "'s reconcile_method \<Rightarrow> nat \<Rightarrow> action_envelope list \<Rightarrow> 's subscription \<Rightarrow> 's subscription outcome" where
  "replay_buffered reconcile fromSeq [] sub = (sub, None)"
| "replay_buffered reconcile fromSeq (e # es) sub =
     (if env_serverSeq e > fromSeq
      then and_then (reconcile e (is_own (sub_clientId sub) e) sub) (replay_buffered reconcile fromSeq es)
      else replay_buffered reconcile fromSeq es sub)"

definition base_onSnapshotApplied :: "'s reconcile_method \<Rightarrow> nat \<Rightarrow> 's subscription \<Rightarrow> 's subscription outcome" where
  "base_onSnapshotApplied reconcile fromSeq sub =
     (case sub_buffered sub of
        None \<Rightarrow> (sub, None)
      | Some buffered \<Rightarrow> replay_buffered reconcile fromSeq buffered (sub\<lparr>sub_buffered := None\<rparr>))"

definition handleSnapshot ::
    "(nat \<Rightarrow> 's subscription \<Rightarrow> 's subscription outcome) \<Rightarrow> 's \<Rightarrow> nat \<Rightarrow> 's subscription \<Rightarrow> 's subscription outcome" where
  "handleSnapshot onSnapshotApplied state fromSeq sub =
     and_then (onSnapshotApplied fromSeq (sub\<lparr>sub_confirmed := Some state, sub_error := None\<rparr>))
       (\<lambda>sub'. (fire (DidChange (sub_get_value sub')) sub', None))"

definition setError :: "js_string \<Rightarrow> 's subscription \<Rightarrow> 's subscription" where
  "setError err sub = fire (DidError err) (sub\<lparr>sub_error := Some err\<rparr>)"

definition receiveEnvelope ::
    "('s subscription \<Rightarrow> action_envelope \<Rightarrow> bool) \<Rightarrow> 's reconcile_method \<Rightarrow> action_envelope
     \<Rightarrow> 's subscription \<Rightarrow> 's subscription outcome" where
  "receiveEnvelope isRelevant reconcile envelope sub =
     (if \<not> isRelevant sub envelope then (sub, None)
      else case sub_confirmed sub of
        None \<Rightarrow> (sub\<lparr>sub_buffered := Some (or_default (sub_buffered sub) [] @ [envelope])\<rparr>, None)
      | Some _ \<Rightarrow>
          and_then (reconcile envelope (is_own (sub_clientId sub) envelope) (fire (WillApplyAction envelope) sub))
            (\<lambda>sub'. (fire (DidApplyAction envelope) sub', None)))"

text \<open>
  The default \<open>_reconcile\<close> (root and terminal subscriptions): the reducer is applied to the
  confirmed state and a change is reported.
\<close>

definition base_reconcile :: "('s \<Rightarrow> state_action \<Rightarrow> 's js_result) \<Rightarrow> 's reconcile_method" where
  "base_reconcile reduce envelope own sub =
     (case sub_confirmed sub of
        None \<Rightarrow> (sub, None)
      | Some s \<Rightarrow>
         (case reduce s (env_action envelope) of
            Inl e \<Rightarrow> (sub, Some e)
          | Inr s' \<Rightarrow>
              let sub' = sub\<lparr>sub_confirmed := Some s'\<rparr> in (fire (DidChange (sub_get_value sub')) sub', None)))"

section \<open>Write-ahead\<close>

text \<open>The methods whose code is the same in every write-ahead class up to the reducer.\<close>

definition confirmedApply :: "('s \<Rightarrow> state_action \<Rightarrow> 's js_result) \<Rightarrow> state_action \<Rightarrow> 's subscription \<Rightarrow> 's subscription outcome" where
  "confirmedApply reduce action sub =
     (case sub_confirmed sub of
        None \<Rightarrow> (sub, None)
      | Some s \<Rightarrow> (case reduce s action of Inl e \<Rightarrow> (sub, Some e) | Inr s' \<Rightarrow> (sub\<lparr>sub_confirmed := Some s'\<rparr>, None)))"

fun replay_pending :: "('s \<Rightarrow> state_action \<Rightarrow> 's js_result) \<Rightarrow> (nat \<times> state_action) list \<Rightarrow> 's \<Rightarrow> 's js_result" where
  "replay_pending reduce [] s = Inr s"
| "replay_pending reduce (p # ps) s =
     (case reduce s (snd p) of Inl e \<Rightarrow> Inl e | Inr s' \<Rightarrow> replay_pending reduce ps s')"

definition recomputeOptimistic :: "('s \<Rightarrow> state_action \<Rightarrow> 's js_result) \<Rightarrow> 's subscription \<Rightarrow> 's subscription outcome" where
  "recomputeOptimistic reduce sub =
     (case sub_confirmed sub of
        None \<Rightarrow> (sub\<lparr>sub_optimistic := None\<rparr>, None)
      | Some confirmed \<Rightarrow>
          if sub_pending sub = [] then (fire (DidChange (SubState confirmed)) (sub\<lparr>sub_optimistic := None\<rparr>), None)
          else (case replay_pending reduce (sub_pending sub) confirmed of
                  Inl e \<Rightarrow> (sub, Some e)
                | Inr s \<Rightarrow> (fire (DidChange (SubState s)) (sub\<lparr>sub_optimistic := Some s\<rparr>), None)))"

definition applyOptimistic ::
    "('s \<Rightarrow> state_action \<Rightarrow> 's js_result) \<Rightarrow> nat \<Rightarrow> state_action \<Rightarrow> 's subscription \<Rightarrow> 's subscription outcome" where
  "applyOptimistic reduce clientSeq action sub =
     (let sub1 = sub\<lparr>sub_pending := sub_pending sub @ [(clientSeq, action)]\<rparr>
      in case orelse (sub_optimistic sub1) (sub_confirmed sub1) of
           None \<Rightarrow> (sub1, None)
         | Some base \<Rightarrow>
            (case reduce base action of
               Inl e \<Rightarrow> (sub1, Some e)
             | Inr s \<Rightarrow> (fire (DidChange (SubState s)) (sub1\<lparr>sub_optimistic := Some s\<rparr>), None)))"

definition writeAhead_onSnapshotApplied ::
    "('s \<Rightarrow> state_action \<Rightarrow> 's js_result) \<Rightarrow> 's reconcile_method \<Rightarrow> nat \<Rightarrow> 's subscription \<Rightarrow> 's subscription outcome" where
  "writeAhead_onSnapshotApplied reduce reconcile fromSeq sub =
     and_then (base_onSnapshotApplied reconcile fromSeq sub) (recomputeOptimistic reduce)"

definition clearPending :: "'s subscription \<Rightarrow> 's subscription" where
  "clearPending sub = sub\<lparr>sub_pending := [], sub_optimistic := None\<rparr>"

definition getPendingActions :: "'s subscription \<Rightarrow> (nat \<times> state_action \<times> js_string) list" where
  "getPendingActions sub = map (\<lambda>p. (fst p, snd p, sub_uri sub)) (sub_pending sub)"

definition find_pending :: "nat \<Rightarrow> 's subscription \<Rightarrow> nat option" where
  "find_pending clientSeq sub = find_index (\<lambda>p. fst p = clientSeq) (sub_pending sub)"

definition drop_pending_at :: "nat \<Rightarrow> 's subscription \<Rightarrow> 's subscription" where
  "drop_pending_at idx sub = sub\<lparr>sub_pending := remove_at idx (sub_pending sub)\<rparr>"

definition dropPendingByClientSeq :: "nat \<Rightarrow> 's subscription \<Rightarrow> 's subscription \<times> bool" where
  "dropPendingByClientSeq clientSeq sub =
     (case find_pending clientSeq sub of
        None \<Rightarrow> (sub, False)
      | Some idx \<Rightarrow> (drop_pending_at idx sub, True))"

text \<open>
  \<open>_reconcile\<close> of the session and chat classes, which guard every application against
  rejection (\<open>before\<close> is what the chat class does first for somebody else's action), and of the
  changeset and annotations classes, which guard only the echo of a pending action.
\<close>

definition guarded_reconcile ::
    "('s \<Rightarrow> state_action \<Rightarrow> 's js_result) \<Rightarrow> (state_action \<Rightarrow> 's subscription \<Rightarrow> 's subscription outcome)
     \<Rightarrow> 's reconcile_method" where
  "guarded_reconcile reduce before envelope own sub =
     and_then
       (case (own, env_origin envelope) of
          (True, Some origin) \<Rightarrow>
            (case find_pending (org_clientSeq origin) sub of
               Some idx \<Rightarrow>
                 and_then (if \<not> rejected envelope then confirmedApply reduce (env_action envelope) sub else (sub, None))
                   (\<lambda>sub'. (drop_pending_at idx sub', None))
             | None \<Rightarrow> if \<not> rejected envelope then confirmedApply reduce (env_action envelope) sub else (sub, None))
        | _ \<Rightarrow>
            if \<not> rejected envelope
            then and_then (before (env_action envelope) sub) (confirmedApply reduce (env_action envelope))
            else (sub, None))
       (recomputeOptimistic reduce)"

definition unguarded_reconcile :: "('s \<Rightarrow> state_action \<Rightarrow> 's js_result) \<Rightarrow> 's reconcile_method" where
  "unguarded_reconcile reduce envelope own sub =
     and_then
       (case (own, env_origin envelope) of
          (True, Some origin) \<Rightarrow>
            (case find_pending (org_clientSeq origin) sub of
               Some idx \<Rightarrow>
                 and_then (if \<not> rejected envelope then confirmedApply reduce (env_action envelope) sub else (sub, None))
                   (\<lambda>sub'. (drop_pending_at idx sub', None))
             | None \<Rightarrow> confirmedApply reduce (env_action envelope) sub)
        | _ \<Rightarrow> confirmedApply reduce (env_action envelope) sub)
       (recomputeOptimistic reduce)"

section \<open>The classes\<close>

text \<open>
  The reducers as the classes call them: the action of an envelope is cast to the class's own
  action type after the relevance check; any other action is the reducer's default branch.
\<close>

definition root_applyReducer :: "root_state \<Rightarrow> state_action \<Rightarrow> root_state js_result" where
  "root_applyReducer s a = (case a of RootAct x \<Rightarrow> Inr (rootReducer s x) | _ \<Rightarrow> Inr s)"

definition session_applyReducer :: "session_state \<Rightarrow> state_action \<Rightarrow> session_state js_result" where
  "session_applyReducer s a = (case a of SessionAct x \<Rightarrow> Inr (sessionReducer s x) | _ \<Rightarrow> Inr s)"

definition chat_applyReducer :: "chat_state \<Rightarrow> state_action \<Rightarrow> chat_state js_result" where
  "chat_applyReducer s a = (case a of ChatAct x \<Rightarrow> chatReducer s x | _ \<Rightarrow> Inr s)"

definition terminal_applyReducer :: "terminal_state \<Rightarrow> state_action \<Rightarrow> terminal_state js_result" where
  "terminal_applyReducer s a = (case a of TerminalAct x \<Rightarrow> Inr (terminalReducer s x) | _ \<Rightarrow> Inr s)"

definition changeset_applyReducer :: "changeset_state \<Rightarrow> state_action \<Rightarrow> changeset_state js_result" where
  "changeset_applyReducer s a = (case a of ChangesetAct x \<Rightarrow> Inr (changesetReducer s x) | _ \<Rightarrow> Inr s)"

definition annotations_applyReducer :: "annotations_state \<Rightarrow> state_action \<Rightarrow> annotations_state js_result" where
  "annotations_applyReducer s a = (case a of AnnotationsAct x \<Rightarrow> Inr (annotationsReducer s x) | _ \<Rightarrow> Inr s)"

subsection \<open>Root and terminal\<close>

text \<open>\<open>isAhpRootChannel\<close>: \<open>scheme\<close> is the scheme \<open>URI.parse\<close> reads, \<open>None\<close> when it throws.\<close>

definition isAhpRootChannel :: "(js_string \<Rightarrow> js_string option) \<Rightarrow> js_string \<Rightarrow> bool" where
  "isAhpRootChannel scheme uri = (uri = ''ahp-root://'' \<or> scheme uri = Some ''ahp-root'')"

definition root_isRelevant :: "(js_string \<Rightarrow> js_string option) \<Rightarrow> root_state subscription \<Rightarrow> action_envelope \<Rightarrow> bool" where
  "root_isRelevant scheme sub e = (isAhpRootChannel scheme (env_channel e) \<and> isRootAction (env_action e))"

definition terminal_isRelevant :: "terminal_state subscription \<Rightarrow> action_envelope \<Rightarrow> bool" where
  "terminal_isRelevant sub e = (isTerminalAction (env_action e) \<and> env_channel e = sub_uri sub)"

definition root_receive :: "(js_string \<Rightarrow> js_string option) \<Rightarrow> action_envelope \<Rightarrow> root_state subscription \<Rightarrow> root_state subscription outcome" where
  "root_receive scheme = receiveEnvelope (root_isRelevant scheme) (base_reconcile root_applyReducer)"

definition root_snapshot :: "root_state \<Rightarrow> nat \<Rightarrow> root_state subscription \<Rightarrow> root_state subscription outcome" where
  "root_snapshot = handleSnapshot (base_onSnapshotApplied (base_reconcile root_applyReducer))"

definition terminal_receive :: "action_envelope \<Rightarrow> terminal_state subscription \<Rightarrow> terminal_state subscription outcome" where
  "terminal_receive = receiveEnvelope terminal_isRelevant (base_reconcile terminal_applyReducer)"

definition terminal_snapshot :: "terminal_state \<Rightarrow> nat \<Rightarrow> terminal_state subscription \<Rightarrow> terminal_state subscription outcome" where
  "terminal_snapshot = handleSnapshot (base_onSnapshotApplied (base_reconcile terminal_applyReducer))"

subsection \<open>Session\<close>

definition session_reconcile :: "session_state reconcile_method" where
  "session_reconcile = guarded_reconcile session_applyReducer (\<lambda>a sub. (sub, None))"

definition session_isRelevant :: "session_state subscription \<Rightarrow> action_envelope \<Rightarrow> bool" where
  "session_isRelevant sub e = (isSessionAction (env_action e) \<and> env_channel e = sub_uri sub)"

definition session_receive :: "action_envelope \<Rightarrow> session_state subscription \<Rightarrow> session_state subscription outcome" where
  "session_receive = receiveEnvelope session_isRelevant session_reconcile"

definition session_snapshot :: "session_state \<Rightarrow> nat \<Rightarrow> session_state subscription \<Rightarrow> session_state subscription outcome" where
  "session_snapshot = handleSnapshot (writeAhead_onSnapshotApplied session_applyReducer session_reconcile)"

definition session_applyOptimistic :: "nat \<Rightarrow> session_action \<Rightarrow> session_state subscription \<Rightarrow> session_state subscription outcome" where
  "session_applyOptimistic seq a = applyOptimistic session_applyReducer seq (SessionAct a)"

subsection \<open>Chat\<close>

definition ends_turn :: "chat_action \<Rightarrow> js_string option" where
  "ends_turn a =
     (case a of
        ChatTurnComplete x \<Rightarrow> Some (turnComplete_turnId x)
      | ChatTurnCancelled x \<Rightarrow> Some (turnCancelled_turnId x)
      | ChatError x \<Rightarrow> Some (chatErr_turnId x)
      | _ \<Rightarrow> None)"

definition starts_this_turn :: "js_string \<Rightarrow> state_action \<Rightarrow> bool" where
  "starts_this_turn tid a = (case a of ChatAct (ChatTurnStarted x) \<Rightarrow> turnStarted_turnId x = tid | _ \<Rightarrow> False)"

definition promotePendingTurnStartIfTerminal :: "state_action \<Rightarrow> chat_state subscription \<Rightarrow> chat_state subscription outcome" where
  "promotePendingTurnStartIfTerminal action sub =
     (case (case action of ChatAct x \<Rightarrow> ends_turn x | _ \<Rightarrow> None) of
        None \<Rightarrow> (sub, None)
      | Some tid \<Rightarrow>
         (case find_index (\<lambda>p. starts_this_turn tid (snd p)) (sub_pending sub) of
            None \<Rightarrow> (sub, None)
          | Some index \<Rightarrow>
              let pendingAction = snd (sub_pending sub ! index);
                  sub1 = drop_pending_at index sub
              in (case sub_confirmed sub1 of
                    None \<Rightarrow> (sub1, None)
                  | Some s \<Rightarrow>
                      if map_option aturn_id (chat_activeTurn s) \<noteq> Some tid
                      then confirmedApply chat_applyReducer pendingAction sub1
                      else (sub1, None))))"

definition chat_reconcile :: "chat_state reconcile_method" where
  "chat_reconcile = guarded_reconcile chat_applyReducer promotePendingTurnStartIfTerminal"

definition chat_isRelevant :: "chat_state subscription \<Rightarrow> action_envelope \<Rightarrow> bool" where
  "chat_isRelevant sub e = (isChatAction (env_action e) \<and> env_channel e = sub_uri sub)"

definition chat_receive :: "action_envelope \<Rightarrow> chat_state subscription \<Rightarrow> chat_state subscription outcome" where
  "chat_receive = receiveEnvelope chat_isRelevant chat_reconcile"

definition chat_snapshot :: "chat_state \<Rightarrow> nat \<Rightarrow> chat_state subscription \<Rightarrow> chat_state subscription outcome" where
  "chat_snapshot = handleSnapshot (writeAhead_onSnapshotApplied chat_applyReducer chat_reconcile)"

definition chat_applyOptimistic :: "nat \<Rightarrow> chat_action \<Rightarrow> chat_state subscription \<Rightarrow> chat_state subscription outcome" where
  "chat_applyOptimistic seq a = applyOptimistic chat_applyReducer seq (ChatAct a)"

subsection \<open>Changeset\<close>

definition changeset_reconcile :: "changeset_state reconcile_method" where
  "changeset_reconcile = unguarded_reconcile changeset_applyReducer"

definition changeset_isRelevant :: "changeset_state subscription \<Rightarrow> action_envelope \<Rightarrow> bool" where
  "changeset_isRelevant sub e = (isChangesetAction (env_action e) \<and> env_channel e = sub_uri sub)"

definition changeset_receive :: "action_envelope \<Rightarrow> changeset_state subscription \<Rightarrow> changeset_state subscription outcome" where
  "changeset_receive = receiveEnvelope changeset_isRelevant changeset_reconcile"

definition changeset_snapshot :: "changeset_state \<Rightarrow> nat \<Rightarrow> changeset_state subscription \<Rightarrow> changeset_state subscription outcome" where
  "changeset_snapshot = handleSnapshot (writeAhead_onSnapshotApplied changeset_applyReducer changeset_reconcile)"

definition changeset_applyOptimistic :: "nat \<Rightarrow> changeset_action \<Rightarrow> changeset_state subscription \<Rightarrow> changeset_state subscription outcome" where
  "changeset_applyOptimistic seq a = applyOptimistic changeset_applyReducer seq (ChangesetAct a)"

subsection \<open>Annotations\<close>

definition annotations_reconcile :: "annotations_state reconcile_method" where
  "annotations_reconcile = unguarded_reconcile annotations_applyReducer"

definition annotations_isRelevant :: "annotations_state subscription \<Rightarrow> action_envelope \<Rightarrow> bool" where
  "annotations_isRelevant sub e = (isAnnotationsAction (env_action e) \<and> env_channel e = sub_uri sub)"

definition annotations_receive :: "action_envelope \<Rightarrow> annotations_state subscription \<Rightarrow> annotations_state subscription outcome" where
  "annotations_receive = receiveEnvelope annotations_isRelevant annotations_reconcile"

definition annotations_snapshot :: "annotations_state \<Rightarrow> nat \<Rightarrow> annotations_state subscription \<Rightarrow> annotations_state subscription outcome" where
  "annotations_snapshot = handleSnapshot (writeAhead_onSnapshotApplied annotations_applyReducer annotations_reconcile)"

definition annotations_applyOptimistic :: "nat \<Rightarrow> annotations_action \<Rightarrow> annotations_state subscription \<Rightarrow> annotations_state subscription outcome" where
  "annotations_applyOptimistic seq a = applyOptimistic annotations_applyReducer seq (AnnotationsAct a)"

end
