(* ===== verification/Subscription_Laws.thy ===== *)
theory Subscription_Laws
  imports Subscription
begin

text \<open>
  The two contracts the subscription classes are used through. A write-ahead class ends every
  reconciliation with the optimistic state that replays the pending actions over the confirmed
  one; a replica applies to its confirmed state exactly the actions of the envelopes that
  count for it. What follows from a contract is proved once; each class of the code is an
  interpretation.
\<close>

section \<open>Coherence of the optimistic state\<close>

text \<open>The optimistic state is the replay of the pending actions over the confirmed state.\<close>

definition coherent :: "('s \<Rightarrow> state_action \<Rightarrow> 's js_result) \<Rightarrow> 's subscription \<Rightarrow> bool" where
  "coherent reduce sub =
     (case sub_confirmed sub of
        None \<Rightarrow> sub_optimistic sub = None
      | Some s \<Rightarrow>
          if sub_pending sub = [] then sub_optimistic sub = None
          else (\<exists>opt. sub_optimistic sub = Some opt \<and> replay_pending reduce (sub_pending sub) s = Inr opt))"

lemma coherent_fire [simp]: "coherent reduce (fire e sub) = coherent reduce sub"
  by (simp add: coherent_def split: option.split)

lemma coherent_error [simp]: "coherent reduce (sub\<lparr>sub_error := x\<rparr>) = coherent reduce sub"
  by (simp add: coherent_def split: option.split)

lemma coherent_buffered [simp]: "coherent reduce (sub\<lparr>sub_buffered := x\<rparr>) = coherent reduce sub"
  by (simp add: coherent_def split: option.split)

lemma coherent_new [simp]: "coherent reduce (new_subscription u c)"
  by (simp add: coherent_def new_subscription_def)

lemma replay_pending_append:
  "replay_pending reduce (ps @ qs) s =
     (case replay_pending reduce ps s of Inl e \<Rightarrow> Inl e | Inr s' \<Rightarrow> replay_pending reduce qs s')"
  by (induction ps arbitrary: s) (auto split: sum.split)

lemma recompute_coherent: "recomputeOptimistic reduce sub = (sub', None) \<Longrightarrow> coherent reduce sub'"
  by (auto simp: recomputeOptimistic_def coherent_def split: option.splits if_splits sum.splits)

lemma recompute_frame:
  assumes "recomputeOptimistic reduce sub = (sub', x)"
  shows "sub_confirmed sub' = sub_confirmed sub" "sub_pending sub' = sub_pending sub"
    "sub_error sub' = sub_error sub" "sub_buffered sub' = sub_buffered sub"
    "sub_clientId sub' = sub_clientId sub" "sub_uri sub' = sub_uri sub"
  using assms by (auto simp: recomputeOptimistic_def split: option.splits if_splits sum.splits)

lemma value_coherent:
  assumes "coherent reduce sub" and "sub_error sub = None"
  shows "sub_get_value sub =
     (case sub_confirmed sub of None \<Rightarrow> SubUndefined
      | Some s \<Rightarrow> (case replay_pending reduce (sub_pending sub) s of Inr opt \<Rightarrow> SubState opt | Inl e \<Rightarrow> SubUndefined))"
  using assms by (auto simp: coherent_def sub_get_value_def split: option.splits if_splits sum.splits)

locale write_ahead =
  fixes reduce :: "'s \<Rightarrow> state_action \<Rightarrow> 's js_result" and reconcile :: "'s reconcile_method"
  assumes reconcile_recomputes: "reconcile e own sub = (sub', None) \<Longrightarrow> coherent reduce sub'"
begin

lemma apply_coherent:
  assumes "coherent reduce sub" and "applyOptimistic reduce n a sub = (sub', None)"
  shows "coherent reduce sub'"
proof (cases "sub_confirmed sub")
  case None
  with assms show ?thesis by (auto simp: coherent_def applyOptimistic_def Let_def)
next
  case (Some s)
  with assms(1) obtain base where base: "orelse (sub_optimistic sub) (sub_confirmed sub) = Some base"
    "replay_pending reduce (sub_pending sub) s = Inr base"
    by (auto simp: coherent_def split: if_splits)
  with assms(2) Some show ?thesis
    by (auto simp: applyOptimistic_def Let_def coherent_def replay_pending_append split: sum.splits)
qed

lemma clear_coherent: "coherent reduce (clearPending sub)"
  by (simp add: clearPending_def coherent_def split: option.split)

lemma snapshot_coherent:
  "handleSnapshot (writeAhead_onSnapshotApplied reduce reconcile) st n sub = (sub', None) \<Longrightarrow> coherent reduce sub'"
  by (auto simp: handleSnapshot_def writeAhead_onSnapshotApplied_def and_then_ok dest: recompute_coherent)

lemma receive_coherent:
  assumes "coherent reduce sub" and "receiveEnvelope rel reconcile e sub = (sub', None)"
  shows "coherent reduce sub'"
  using assms by (auto simp: receiveEnvelope_def and_then_ok dest: reconcile_recomputes split: if_splits option.splits)

end

lemma and_then_recompute_coherent:
  "and_then r (recomputeOptimistic reduce) = (sub', None) \<Longrightarrow> coherent reduce sub'"
  by (auto simp: and_then_ok dest: recompute_coherent)

interpretation session_ahead: write_ahead session_applyReducer session_reconcile
  by unfold_locales (auto simp: session_reconcile_def guarded_reconcile_def dest: and_then_recompute_coherent)

interpretation chat_ahead: write_ahead chat_applyReducer chat_reconcile
  by unfold_locales (auto simp: chat_reconcile_def guarded_reconcile_def dest: and_then_recompute_coherent)

interpretation changeset_ahead: write_ahead changeset_applyReducer changeset_reconcile
  by unfold_locales (auto simp: changeset_reconcile_def unguarded_reconcile_def dest: and_then_recompute_coherent)

interpretation annotations_ahead: write_ahead annotations_applyReducer annotations_reconcile
  by unfold_locales (auto simp: annotations_reconcile_def unguarded_reconcile_def dest: and_then_recompute_coherent)

section \<open>Replication of the confirmed state\<close>

text \<open>The state a log of envelopes produces from a state, counting the envelopes that \<open>applied\<close> says count.\<close>

fun log_state ::
    "('s \<Rightarrow> state_action \<Rightarrow> 's) \<Rightarrow> (action_envelope \<Rightarrow> bool) \<Rightarrow> action_envelope list \<Rightarrow> 's \<Rightarrow> 's" where
  "log_state step applied [] s = s"
| "log_state step applied (e # es) s =
     log_state step applied es (if applied e then step s (env_action e) else s)"

lemma log_state_append: "log_state step applied (xs @ ys) s = log_state step applied ys (log_state step applied xs s)"
  by (induction xs arbitrary: s) simp_all

fun receive_all ::
    "(action_envelope \<Rightarrow> 's subscription \<Rightarrow> 's subscription outcome) \<Rightarrow> action_envelope list
     \<Rightarrow> 's subscription \<Rightarrow> 's subscription outcome" where
  "receive_all receive [] sub = (sub, None)"
| "receive_all receive (e # es) sub = and_then (receive e sub) (receive_all receive es)"

locale replica =
  fixes step :: "'s \<Rightarrow> state_action \<Rightarrow> 's" and reconcile :: "'s reconcile_method"
    and after :: "nat \<Rightarrow> 's subscription \<Rightarrow> 's subscription outcome"
    and relevant :: "'s subscription \<Rightarrow> action_envelope \<Rightarrow> bool"
    and applied :: "action_envelope \<Rightarrow> bool"
  assumes reconcile_replicates: "sub_confirmed sub = Some s \<Longrightarrow>
      \<exists>sub'. reconcile e own sub = (sub', None)
        \<and> sub_confirmed sub' = Some (if applied e then step s (env_action e) else s)
        \<and> sub_clientId sub' = sub_clientId sub \<and> sub_uri sub' = sub_uri sub
        \<and> sub_buffered sub' = sub_buffered sub \<and> sub_error sub' = sub_error sub"
    and after_replays: "base_onSnapshotApplied reconcile n sub = (sub', None) \<Longrightarrow>
      \<exists>sub''. after n sub = (sub'', None) \<and> sub_confirmed sub'' = sub_confirmed sub'
        \<and> sub_clientId sub'' = sub_clientId sub' \<and> sub_uri sub'' = sub_uri sub'
        \<and> sub_buffered sub'' = sub_buffered sub' \<and> sub_error sub'' = sub_error sub'"
    and relevant_uri: "sub_uri sub = sub_uri sub' \<Longrightarrow> relevant sub e = relevant sub' e"
begin

lemma buffering:
  assumes "sub_confirmed sub = None" and "\<forall>e\<in>set es. relevant sub e"
  shows "\<exists>sub'. receive_all (receiveEnvelope relevant reconcile) es sub = (sub', None)
     \<and> sub_confirmed sub' = None \<and> sub_uri sub' = sub_uri sub
     \<and> or_default (sub_buffered sub') [] = or_default (sub_buffered sub) [] @ es"
  using assms
proof (induction es arbitrary: sub)
  case (Cons e es)
  let ?s = "sub\<lparr>sub_buffered := Some (or_default (sub_buffered sub) [] @ [e])\<rparr>"
  have "receiveEnvelope relevant reconcile e sub = (?s, None)"
    using Cons.prems by (simp add: receiveEnvelope_def)
  moreover have "\<forall>x\<in>set es. relevant ?s x"
    using Cons.prems(2) relevant_uri [of ?s sub] by simp
  ultimately show ?case using Cons.IH [of ?s] Cons.prems(1) by auto
qed auto

lemma live:
  assumes "sub_confirmed sub = Some s" and "\<forall>e\<in>set es. relevant sub e"
  shows "\<exists>sub'. receive_all (receiveEnvelope relevant reconcile) es sub = (sub', None)
     \<and> sub_confirmed sub' = Some (log_state step applied es s) \<and> sub_error sub' = sub_error sub"
  using assms
proof (induction es arbitrary: sub s)
  case (Cons e es)
  obtain sub1 where r: "reconcile e (is_own (sub_clientId sub) e) (fire (WillApplyAction e) sub) = (sub1, None)"
    "sub_confirmed sub1 = Some (if applied e then step s (env_action e) else s)"
    "sub_uri sub1 = sub_uri sub" "sub_error sub1 = sub_error sub"
    using reconcile_replicates [of "fire (WillApplyAction e) sub" s e] Cons.prems(1) by auto
  let ?s = "fire (DidApplyAction e) sub1"
  have "receiveEnvelope relevant reconcile e sub = (?s, None)"
    using Cons.prems r(1) by (simp add: receiveEnvelope_def)
  moreover have "\<forall>x\<in>set es. relevant ?s x"
    using Cons.prems(2) relevant_uri [of ?s sub] r(3) by simp
  ultimately show ?case using Cons.IH [of ?s] r by simp
qed auto

lemma replay:
  assumes "sub_confirmed sub = Some s"
  shows "\<exists>sub'. replay_buffered reconcile n es sub = (sub', None)
     \<and> sub_confirmed sub' = Some (log_state step applied (filter (\<lambda>e. env_serverSeq e > n) es) s)
     \<and> sub_uri sub' = sub_uri sub \<and> sub_buffered sub' = sub_buffered sub \<and> sub_error sub' = sub_error sub"
  using assms
proof (induction es arbitrary: sub s)
  case (Cons e es)
  show ?case
  proof (cases "env_serverSeq e > n")
    case True
    obtain sub1 where r: "reconcile e (is_own (sub_clientId sub) e) sub = (sub1, None)"
      "sub_confirmed sub1 = Some (if applied e then step s (env_action e) else s)"
      "sub_uri sub1 = sub_uri sub" "sub_buffered sub1 = sub_buffered sub" "sub_error sub1 = sub_error sub"
      using reconcile_replicates [OF Cons.prems, of e] by blast
    with Cons.IH [OF r(2)] True show ?thesis by auto
  next
    case False
    with Cons.IH [OF Cons.prems] show ?thesis by simp
  qed
qed auto

lemma snapshot_replays:
  shows "\<exists>sub'. handleSnapshot after st n sub = (sub', None)
     \<and> sub_confirmed sub' =
         Some (log_state step applied (filter (\<lambda>e. env_serverSeq e > n) (or_default (sub_buffered sub) [])) st)
     \<and> sub_uri sub' = sub_uri sub \<and> sub_error sub' = None"
proof -
  let ?s = "sub\<lparr>sub_confirmed := Some st, sub_error := None\<rparr>"
  obtain sub1 where b: "base_onSnapshotApplied reconcile n ?s = (sub1, None)"
    "sub_confirmed sub1 =
       Some (log_state step applied (filter (\<lambda>e. env_serverSeq e > n) (or_default (sub_buffered sub) [])) st)"
    "sub_uri sub1 = sub_uri sub" "sub_error sub1 = None"
    using replay [of "?s\<lparr>sub_buffered := None\<rparr>" st n] by (cases "sub_buffered sub") (auto simp: base_onSnapshotApplied_def)
  obtain sub2 where "after n ?s = (sub2, None)" "sub_confirmed sub2 = sub_confirmed sub1"
    "sub_uri sub2 = sub_uri sub1" "sub_error sub2 = sub_error sub1"
    using after_replays [OF b(1)] by blast
  with b show ?thesis by (simp add: handleSnapshot_def)
qed

lemma converges:
  assumes "\<forall>e\<in>set sent. relevant (new_subscription uri c) e"
    and "sent = missed @ buffered @ later" and "sorted (map env_serverSeq sent)"
    and "\<forall>e\<in>set missed. env_serverSeq e \<le> n" and "\<forall>e\<in>set later. env_serverSeq e > n"
    and "st = log_state step applied (filter (\<lambda>e. env_serverSeq e \<le> n) sent) s0"
  shows "\<exists>s1 s2 s3. receive_all (receiveEnvelope relevant reconcile) buffered (new_subscription uri c) = (s1, None)
     \<and> handleSnapshot after st n s1 = (s2, None)
     \<and> receive_all (receiveEnvelope relevant reconcile) later s2 = (s3, None)
     \<and> sub_confirmed s3 = Some (log_state step applied sent s0) \<and> sub_error s3 = None"
proof -
  let ?new = "new_subscription uri c"
  obtain s1 where s1: "receive_all (receiveEnvelope relevant reconcile) buffered ?new = (s1, None)"
    "sub_uri s1 = uri" "or_default (sub_buffered s1) [] = buffered"
    using buffering [of ?new buffered] assms(1,2) by (auto simp: new_subscription_def)
  obtain s2 where s2: "handleSnapshot after st n s1 = (s2, None)"
    "sub_confirmed s2 = Some (log_state step applied (filter (\<lambda>e. env_serverSeq e > n) buffered) st)"
    "sub_uri s2 = uri" "sub_error s2 = None"
    using snapshot_replays [of st n s1] s1 by auto
  have "\<forall>e\<in>set later. relevant s2 e"
    using assms(1,2) relevant_uri [of s2 ?new] s2(3) by (auto simp: new_subscription_def)
  from live [OF s2(2) this] obtain s3 where
    s3: "receive_all (receiveEnvelope relevant reconcile) later s2 = (s3, None)" "sub_error s3 = None"
    "sub_confirmed s3 = Some (log_state step applied later
       (log_state step applied (filter (\<lambda>e. env_serverSeq e > n) buffered) st))"
    using s2(4) by auto
  have split: "filter (\<lambda>e. env_serverSeq e \<le> n) es @ filter (\<lambda>e. env_serverSeq e > n) es = es"
    if "sorted (map env_serverSeq es)" for es
    using that
  proof (induction es)
    case (Cons e es)
    have "filter (\<lambda>e. env_serverSeq e \<le> n) es = []" if "env_serverSeq e > n"
      using that Cons.prems by (fastforce simp: filter_empty_conv)
    with Cons show ?case by (cases "env_serverSeq e > n") auto
  qed simp
  have "sent = filter (\<lambda>e. env_serverSeq e \<le> n) sent @ filter (\<lambda>e. env_serverSeq e > n) sent"
    using split [OF assms(3)] by simp
  also have "filter (\<lambda>e. env_serverSeq e > n) sent = filter (\<lambda>e. env_serverSeq e > n) buffered @ later"
    using assms(2,4,5) by (auto simp: filter_empty_conv filter_id_conv)
  finally have "log_state step applied sent s0 = log_state step applied later
       (log_state step applied (filter (\<lambda>e. env_serverSeq e > n) buffered) st)"
    using assms(6) by (metis log_state_append)
  with s1 s2 s3 show ?thesis by auto
qed

end

end
