(* ===== verification/Subscription_Properties.thy ===== *)
theory Subscription_Properties
  imports Subscription_Laws
begin

text \<open>
  What a client's subscription guarantees: its value is the confirmed state with its own
  unconfirmed actions on top, its confirmed state converges to the server's, and a rejected
  action leaves no trace; and where two of the five classes, and the reconnect path of a
  third, do not guarantee it.
\<close>

section \<open>The session class\<close>

definition session_step :: "session_state \<Rightarrow> state_action \<Rightarrow> session_state" where
  "session_step s a = (case a of SessionAct x \<Rightarrow> sessionReducer s x | _ \<Rightarrow> s)"

lemma session_apply_total: "session_applyReducer s a = Inr (session_step s a)"
  by (cases a) (simp_all add: session_applyReducer_def session_step_def)

lemma session_confirmedApply:
  "sub_confirmed sub = Some s \<Longrightarrow>
   confirmedApply session_applyReducer a sub = (sub\<lparr>sub_confirmed := Some (session_step s a)\<rparr>, None)"
  by (simp add: confirmedApply_def session_apply_total)

lemma session_replay_total:
  "replay_pending session_applyReducer ps s = Inr (fold (\<lambda>p s. session_step s (snd p)) ps s)"
  by (induction ps arbitrary: s) (simp_all add: session_apply_total)

lemma session_recompute_total:
  "\<exists>sub'. recomputeOptimistic session_applyReducer sub = (sub', None)"
  by (auto simp: recomputeOptimistic_def session_replay_total split: option.split)

lemma drop_pending_simps [simp]:
  "sub_confirmed (drop_pending_at i s) = sub_confirmed s" "sub_clientId (drop_pending_at i s) = sub_clientId s"
  "sub_uri (drop_pending_at i s) = sub_uri s" "sub_buffered (drop_pending_at i s) = sub_buffered s"
  "sub_error (drop_pending_at i s) = sub_error s"
  "sub_pending (drop_pending_at i s) = remove_at i (sub_pending s)"
  by (simp_all add: drop_pending_at_def)

text \<open>The pending actions an envelope leaves.\<close>

definition settle :: "action_envelope \<Rightarrow> bool \<Rightarrow> (nat \<times> state_action) list \<Rightarrow> (nat \<times> state_action) list" where
  "settle e own ps =
     (case (own, env_origin e) of
        (True, Some org) \<Rightarrow>
          (case find_index (\<lambda>p. fst p = org_clientSeq org) ps of None \<Rightarrow> ps | Some i \<Rightarrow> remove_at i ps)
      | _ \<Rightarrow> ps)"

lemma session_reconcile_effect:
  assumes "sub_confirmed sub = Some s"
  shows "\<exists>sub'. session_reconcile e own sub = (sub', None)
     \<and> sub_confirmed sub' = Some (if \<not> rejected e then session_step s (env_action e) else s)
     \<and> sub_pending sub' = settle e own (sub_pending sub)
     \<and> sub_clientId sub' = sub_clientId sub \<and> sub_uri sub' = sub_uri sub
     \<and> sub_buffered sub' = sub_buffered sub \<and> sub_error sub' = sub_error sub"
proof -
  define mid where "mid = (sub\<lparr>sub_confirmed := Some (if \<not> rejected e then session_step s (env_action e) else s),
     sub_pending := settle e own (sub_pending sub)\<rparr>)"
  have same: "sub\<lparr>sub_confirmed := Some s\<rparr> = sub" using assms by (cases sub) simp
  have "session_reconcile e own sub = recomputeOptimistic session_applyReducer mid"
    using assms by (auto simp: same session_reconcile_def guarded_reconcile_def mid_def settle_def find_pending_def
        session_confirmedApply drop_pending_at_def split: option.split bool.split)
  moreover obtain sub' where "recomputeOptimistic session_applyReducer mid = (sub', None)"
    using session_recompute_total by blast
  ultimately show ?thesis using recompute_frame [of session_applyReducer mid sub' None] by (auto simp: mid_def)
qed

interpretation session_replica: replica session_step session_reconcile
    "writeAhead_onSnapshotApplied session_applyReducer session_reconcile" session_isRelevant "\<lambda>e. \<not> rejected e"
proof unfold_locales
  fix sub :: "session_state subscription" and s e own
  assume "sub_confirmed sub = Some s"
  from session_reconcile_effect [OF this, of e own] show "\<exists>sub'. session_reconcile e own sub = (sub', None)
        \<and> sub_confirmed sub' = Some (if \<not> rejected e then session_step s (env_action e) else s)
        \<and> sub_clientId sub' = sub_clientId sub \<and> sub_uri sub' = sub_uri sub
        \<and> sub_buffered sub' = sub_buffered sub \<and> sub_error sub' = sub_error sub"
    by blast
next
  fix n and sub sub' :: "session_state subscription"
  assume "base_onSnapshotApplied session_reconcile n sub = (sub', None)"
  moreover obtain sub'' where "recomputeOptimistic session_applyReducer sub' = (sub'', None)"
    using session_recompute_total by blast
  ultimately show "\<exists>sub''. writeAhead_onSnapshotApplied session_applyReducer session_reconcile n sub = (sub'', None)
        \<and> sub_confirmed sub'' = sub_confirmed sub'
        \<and> sub_clientId sub'' = sub_clientId sub' \<and> sub_uri sub'' = sub_uri sub'
        \<and> sub_buffered sub'' = sub_buffered sub' \<and> sub_error sub'' = sub_error sub'"
    using recompute_frame [of session_applyReducer sub' sub'' None]
    by (auto simp: writeAhead_onSnapshotApplied_def)
qed (simp add: session_isRelevant_def)


section \<open>Runs of a session subscription\<close>

datatype session_op =
    OpReceive action_envelope
  | OpSnapshot session_state nat
  | OpDispatch nat session_action
  | OpClearPending
  | OpError js_string

fun run_op :: "session_op \<Rightarrow> session_state subscription \<Rightarrow> session_state subscription outcome" where
  "run_op (OpReceive e) sub = session_receive e sub"
| "run_op (OpSnapshot s n) sub = session_snapshot s n sub"
| "run_op (OpDispatch n a) sub = session_applyOptimistic n a sub"
| "run_op OpClearPending sub = (clearPending sub, None)"
| "run_op (OpError e) sub = (setError e sub, None)"

fun run_ops :: "session_op list \<Rightarrow> session_state subscription \<Rightarrow> session_state subscription outcome" where
  "run_ops [] sub = (sub, None)"
| "run_ops (p # ps) sub = and_then (run_op p sub) (run_ops ps)"

lemma run_op_total: "\<exists>sub'. run_op p sub = (sub', None)"
proof (cases p)
  case (OpReceive e)
  show ?thesis
  proof (cases "sub_confirmed sub")
    case (Some s)
    obtain s1 where "session_reconcile e (is_own (sub_clientId sub) e) (fire (WillApplyAction e) sub) = (s1, None)"
      using session_reconcile_effect [of "fire (WillApplyAction e) sub" s e] Some by auto
    with Some OpReceive show ?thesis
      by (cases "session_isRelevant sub e") (simp_all add: session_receive_def receiveEnvelope_def)
  qed (simp add: OpReceive session_receive_def receiveEnvelope_def)
next
  case (OpSnapshot s n)
  from session_replica.snapshot_replays [of s n sub] OpSnapshot show ?thesis
    by (auto simp: session_snapshot_def)
next
  case (OpDispatch n a)
  then show ?thesis
    by (auto simp: session_applyOptimistic_def applyOptimistic_def Let_def session_apply_total split: option.split)
qed auto

lemma run_op_coherent:
  assumes "coherent session_applyReducer sub" and "run_op p sub = (sub', None)"
  shows "coherent session_applyReducer sub'"
proof (cases p)
  case (OpReceive e)
  with assms session_ahead.receive_coherent show ?thesis by (auto simp: session_receive_def)
next
  case (OpSnapshot s n)
  with assms session_ahead.snapshot_coherent show ?thesis by (auto simp: session_snapshot_def)
next
  case (OpDispatch n a)
  with assms session_ahead.apply_coherent show ?thesis by (auto simp: session_applyOptimistic_def)
next
  case OpClearPending
  with assms session_ahead.clear_coherent show ?thesis by auto
next
  case (OpError e)
  with assms show ?thesis by (auto simp: setError_def)
qed

lemma run_ops_coherent:
  "coherent session_applyReducer sub \<Longrightarrow> \<exists>sub'. run_ops ps sub = (sub', None) \<and> coherent session_applyReducer sub'"
proof (induction ps arbitrary: sub)
  case (Cons p ps)
  obtain s1 where "run_op p sub = (s1, None)" using run_op_total by blast
  with Cons run_op_coherent [of sub p s1] show ?case by auto
qed simp

text \<open>
  C26. The value of a session subscription is always explained: after any sequence of envelopes,
  snapshots, local dispatches, resets and errors nothing has thrown, and the value is the
  error if there is one, otherwise the confirmed state with exactly the actions that are still
  pending replayed on it in the order they were dispatched.
\<close>

theorem session_subscription_value:
  "\<exists>sub. run_ops ps (new_subscription uri c) = (sub, None)
     \<and> sub_get_value sub =
         (case (sub_error sub, sub_confirmed sub) of
            (Some e, _) \<Rightarrow> SubError e
          | (None, None) \<Rightarrow> SubUndefined
          | (None, Some s) \<Rightarrow> SubState (fold (\<lambda>p s. session_step s (snd p)) (sub_pending sub) s))"
proof -
  obtain sub where sub: "run_ops ps (new_subscription uri c) = (sub, None)" "coherent session_applyReducer sub"
    using run_ops_coherent [OF coherent_new] by blast
  show ?thesis
  proof (cases "sub_error sub")
    case None
    with value_coherent [OF sub(2) None] sub(1) show ?thesis
      by (auto simp: session_replay_total split: option.split)
  next
    case (Some e)
    with sub(1) show ?thesis by (simp add: sub_get_value_def)
  qed
qed

section \<open>Rejections\<close>

lemma guarded_rejected:
  assumes "guarded_reconcile reduce before e own sub = (sub', x)" and "rejected e"
  shows "sub_confirmed sub' = sub_confirmed sub"
  using assms recompute_frame [of reduce]
  by (fastforce simp: guarded_reconcile_def find_pending_def split: option.splits bool.splits)

lemma receive_rejected:
  assumes "rejected e"
  shows "sub_confirmed (fst (receiveEnvelope rel (guarded_reconcile reduce before) e sub)) = sub_confirmed sub"
proof -
  obtain sub' x where r: "guarded_reconcile reduce before e (is_own (sub_clientId sub) e) (fire (WillApplyAction e) sub)
      = (sub', x)" by fastforce
  from guarded_rejected [OF r assms] r show ?thesis
    by (cases x) (simp_all add: receiveEnvelope_def split: option.split)
qed


text \<open>
  C31. The annotations and the changeset classes lack that guard: a rejected action of another
  client is applied to the confirmed state like an accepted one, so a viewer of the same
  channel shows a change the server refused.
\<close>

theorem rejected_leaks_to_other_clients:
  assumes "rejected e" and "\<not> is_own (sub_clientId asub) e" and "\<not> is_own (sub_clientId csub) e'" and "rejected e'"
    and "sub_confirmed asub = Some s" and "sub_pending asub = []" and "env_channel e = sub_uri asub"
    and "env_action e = AnnotationsAct a"
    and "sub_confirmed csub = Some t" and "sub_pending csub = []" and "env_channel e' = sub_uri csub"
    and "env_action e' = ChangesetAct b"
  shows "sub_confirmed (fst (annotations_receive e asub)) = Some (annotationsReducer s a)
       \<and> sub_confirmed (fst (changeset_receive e' csub)) = Some (changesetReducer t b)"
  using assms
  by (simp add: annotations_receive_def receiveEnvelope_def annotations_isRelevant_def isAnnotationsAction_def
      annotations_reconcile_def unguarded_reconcile_def confirmedApply_def annotations_applyReducer_def
      changeset_receive_def changeset_isRelevant_def isChangesetAction_def changeset_reconcile_def
      changeset_applyReducer_def recomputeOptimistic_def)

section \<open>Replay after a reconnect\<close>

text \<open>
  On reconnect the client drops the pending entry of each replayed action of its own and then
  receives the envelope; for the session class that is the same as receiving it with the
  entry still there.
\<close>

lemma reconcile_same_core:
  assumes "sub_confirmed sub = Some s"
    and "session_reconcile e own sub = (s1, None)" and "session_reconcile e own sub' = (s2, None)"
    and "sub_confirmed sub' = Some s" and "settle e own (sub_pending sub') = settle e own (sub_pending sub)"
  shows "sub_confirmed s1 = sub_confirmed s2 \<and> sub_pending s1 = sub_pending s2
       \<and> sub_optimistic s1 = sub_optimistic s2"
proof -
  have c: "sub_confirmed s1 = sub_confirmed s2" "sub_pending s1 = sub_pending s2"
    using session_reconcile_effect [OF assms(1), of e own] session_reconcile_effect [OF assms(4), of e own] assms(2,3,5)
    by auto
  moreover have "coherent session_applyReducer s1" "coherent session_applyReducer s2"
    using session_ahead.reconcile_recomputes assms(2,3) by blast+
  ultimately show ?thesis
    by (auto simp: coherent_def session_replay_total split: option.splits if_splits)
qed

lemma key_not_in_remove_at:
  "distinct (map key xs) \<Longrightarrow> i < length xs \<Longrightarrow> key (xs ! i) \<notin> key ` set (remove_at i xs)"
proof (induction xs arbitrary: i)
  case (Cons x xs)
  show ?case
  proof (cases i)
    case 0
    with Cons.prems show ?thesis by auto
  next
    case (Suc j)
    have "key (xs ! j) \<noteq> key x" using Cons.prems Suc by (metis distinct.simps(2) image_eqI length_Cons
        list.simps(9) list.set_map not_less_eq nth_mem)
    with Cons Suc show ?thesis by simp
  qed
qed simp

lemma settle_dropped:
  assumes "distinct (map fst ps)" and "env_origin e = Some org" and "find_index (\<lambda>p. fst p = org_clientSeq org) ps = Some i"
  shows "settle e True (remove_at i ps) = settle e True ps"
proof -
  from find_index_SomeD [OF assms(3)] have i: "i < length ps" "fst (ps ! i) = org_clientSeq org" by auto
  have "org_clientSeq org \<notin> fst ` set (remove_at i ps)"
    using key_not_in_remove_at [OF assms(1) i(1)] i(2) by simp
  then have "find_index (\<lambda>p. fst p = org_clientSeq org) (remove_at i ps) = None"
    by (auto simp: find_index_None_iff) (metis fst_conv image_eqI)
  then show ?thesis using assms(2,3) by (simp add: settle_def)
qed


section \<open>Concrete runs\<close>

definition sample_state :: session_state where
  "sample_state = \<lparr>smeta_provider = ''p'', smeta_title = ''old'', smeta_status = status_Idle, smeta_activity = None,
     smeta_origin = None, smeta_project = None, smeta_workingDirectories = None,
     smeta_annotations = None, ses_lifecycle = SessionReadyState, ses_creationError = None,
     ses_serverTools = None, ses_activeClients = [], ses_chats = [],
     ses_defaultChat = None, ses_config = None, ses_customizations = None, ses_changesets = None,
     ses_inputNeeded = None, ses_meta = None\<rparr>"

definition sample_envelope :: "nat \<Rightarrow> js_string \<Rightarrow> js_string option \<Rightarrow> action_envelope" where
  "sample_envelope n title reason = \<lparr>env_channel = ''ahp:/s'', env_action = SessionAct (SessionTitleChanged title),
     env_serverSeq = n, env_origin = Some \<lparr>org_clientId = ''me'', org_clientSeq = n\<rparr>, env_rejectionReason = reason\<rparr>"



definition sample_annotation :: annotation where
  "sample_annotation = \<lparr>ann_id = ''n'', ann_origin = \<lparr>annorigin_session = ''s'', annorigin_chat = None,
     annorigin_turnId = None\<rparr>, ann_resource = ''f'', ann_range = None, ann_resolved = False, ann_entries = [],
     ann_meta = None\<rparr>"

definition rejected_annotation :: action_envelope where
  "rejected_annotation = \<lparr>env_channel = ''ahp:/a'', env_action = AnnotationsAct (AnnotationsSet sample_annotation),
     env_serverSeq = 1, env_origin = Some \<lparr>org_clientId = ''other'', org_clientSeq = 1\<rparr>,
     env_rejectionReason = Some ''no''\<rparr>"

definition review_a :: changeset_files_review_changed_action where
  "review_a = \<lparr>csReview_files = [''a''], csReview_reviewed = True\<rparr>"

definition rejected_review :: action_envelope where
  "rejected_review = \<lparr>env_channel = ''ahp:/d'', env_action = ChangesetAct (ChangesetFilesReviewChanged review_a),
     env_serverSeq = 2, env_origin = Some \<lparr>org_clientId = ''other'', org_clientSeq = 2\<rparr>,
     env_rejectionReason = Some ''no''\<rparr>"

lemma rejected_leaks_to_other_clients_witness:
  "sub_confirmed (fst (annotations_receive rejected_annotation
       ((new_subscription ''ahp:/a'' ''me'')\<lparr>sub_confirmed := Some \<lparr>anns_annotations = []\<rparr>\<rparr>)))
     = Some \<lparr>anns_annotations = [sample_annotation]\<rparr>
   \<and> sub_confirmed (fst (changeset_receive rejected_review
       ((new_subscription ''ahp:/d'' ''me'')\<lparr>sub_confirmed := Some sample_changeset\<rparr>)))
     = Some (sample_changeset\<lparr>cs_files := [(sample_file ''a'')\<lparr>csfile_reviewed := Some True\<rparr>, sample_file ''b'']\<rparr>)"
  using rejected_leaks_to_other_clients [of rejected_annotation
      "(new_subscription ''ahp:/a'' ''me'')\<lparr>sub_confirmed := Some \<lparr>anns_annotations = []\<rparr>\<rparr>"
      "(new_subscription ''ahp:/d'' ''me'')\<lparr>sub_confirmed := Some sample_changeset\<rparr>"
      rejected_review "\<lparr>anns_annotations = []\<rparr>" "AnnotationsSet sample_annotation"
      sample_changeset "ChangesetFilesReviewChanged review_a"]
  by (simp add: rejected_annotation_def rejected_review_def rejected_def is_own_def new_subscription_def
      annotationsSet_def find_annotation_def sample_annotation_def changesetFilesReviewChanged_def Let_def
      review_a_def review_file_def sample_changeset_def sample_file_def)


end
