(* ===== verification/Subscription_Manager.thy ===== *)
theory Subscription_Manager
  imports Subscription
begin

text \<open>
  The client's subscription manager, class \<open>AgentSubscriptionManager\<close> of
  \<open>common/state/agentSubscription.ts\<close>. Entries are objects with identity: the heap is the list of
  entries created so far and an entry is named by its position. \<open>mgr_subs\<close> is the map from
  resources to entries, \<open>mgr_idle\<close> the insertion-ordered map of released entries whose timer
  runs. The asynchronous part of \<open>getSubscription\<close> is cut at its awaits: \<open>afterCreate\<close> and
  \<open>afterSubscribe\<close> are the continuations, \<open>timerFired\<close> the callback of a timer that was not
  disposed. \<open>mgr_sent\<close> records the subscribe and unsubscribe calls with the entry they were made
  for. Resources are the strings \<open>URI.toString\<close> gives; \<open>canon\<close> is \<open>URI.parse(x).toString()\<close>.
\<close>

section \<open>State\<close>

datatype state_component =
    RootComponent | SessionComponent | ChatComponent | TerminalComponent | ChangesetComponent | AnnotationsComponent

datatype managed_subscription =
    SessionSub "session_state subscription"
  | ChatSub "chat_state subscription"
  | TerminalSub "terminal_state subscription"
  | ChangesetSub "changeset_state subscription"
  | AnnotationsSub "annotations_state subscription"

datatype sub_phase = WaitingCreate | Subscribing | Settled

record managed_entry =
  me_sub :: "managed_subscription"
  me_kind :: "state_component"
  me_refCount :: "int"
  me_holders :: "(nat \<times> js_string) list"
  me_phase :: "sub_phase"
  me_releaseTimer :: "bool"
  me_releaseExpired :: "bool"
  me_localDisposed :: "bool"
  me_unsubscribeSent :: "bool"
  me_unsubscribeAfterSubscribe :: "bool"

datatype wire_call = CallSubscribe js_string | CallUnsubscribe js_string

record manager =
  mgr_clientId :: "js_string"
  mgr_releaseGraceMs :: "int"
  mgr_maxIdle :: "int"
  mgr_heap :: "managed_entry list"
  mgr_subs :: "(js_string \<times> nat) list"
  mgr_idle :: "(nat \<times> js_string) list"
  mgr_inflight :: "(js_string \<times> nat) list"
  mgr_referenceOwnerIds :: "nat"
  mgr_root :: "root_state subscription"
  mgr_isDisposed :: "bool"
  mgr_sent :: "(nat \<times> wire_call) list"

definition new_manager :: "js_string \<Rightarrow> int \<Rightarrow> int \<Rightarrow> manager" where
  "new_manager clientId grace maxIdle = \<lparr>mgr_clientId = clientId, mgr_releaseGraceMs = grace, mgr_maxIdle = maxIdle,
     mgr_heap = [], mgr_subs = [], mgr_idle = [], mgr_inflight = [], mgr_referenceOwnerIds = 0,
     mgr_root = new_subscription ''ahp-root://'' clientId, mgr_isDisposed = False, mgr_sent = []\<rparr>"

definition entry_at :: "manager \<Rightarrow> nat \<Rightarrow> managed_entry" where
  "entry_at m eid = mgr_heap m ! eid"

definition update_entry :: "nat \<Rightarrow> (managed_entry \<Rightarrow> managed_entry) \<Rightarrow> manager \<Rightarrow> manager" where
  "update_entry eid f m = m\<lparr>mgr_heap := (mgr_heap m)[eid := f (mgr_heap m ! eid)]\<rparr>"

definition lookup_sub :: "manager \<Rightarrow> js_string \<Rightarrow> nat option" where
  "lookup_sub m resource = map_of (mgr_subs m) resource"

section \<open>The subscriptions of an entry\<close>

definition managed_error :: "managed_subscription \<Rightarrow> js_string option" where
  "managed_error sub =
     (case sub of
        SessionSub s \<Rightarrow> sub_error s | ChatSub s \<Rightarrow> sub_error s | TerminalSub s \<Rightarrow> sub_error s
      | ChangesetSub s \<Rightarrow> sub_error s | AnnotationsSub s \<Rightarrow> sub_error s)"

definition managed_setError :: "js_string \<Rightarrow> managed_subscription \<Rightarrow> managed_subscription" where
  "managed_setError e sub =
     (case sub of
        SessionSub s \<Rightarrow> SessionSub (setError e s) | ChatSub s \<Rightarrow> ChatSub (setError e s)
      | TerminalSub s \<Rightarrow> TerminalSub (setError e s) | ChangesetSub s \<Rightarrow> ChangesetSub (setError e s)
      | AnnotationsSub s \<Rightarrow> AnnotationsSub (setError e s))"

text \<open>\<open>clearPending\<close> is called behind \<open>instanceof\<close> tests that name three of the five classes.\<close>

definition managed_clearPending :: "managed_subscription \<Rightarrow> managed_subscription" where
  "managed_clearPending sub =
     (case sub of
        SessionSub s \<Rightarrow> SessionSub (clearPending s)
      | ChatSub s \<Rightarrow> ChatSub (clearPending s)
      | AnnotationsSub s \<Rightarrow> AnnotationsSub (clearPending s)
      | _ \<Rightarrow> sub)"

datatype channel_snapshot =
    SessionSnapshot session_state | ChatSnapshot chat_state | TerminalSnapshot terminal_state
  | ChangesetSnapshot changeset_state | AnnotationsSnapshot annotations_state

definition map_outcome :: "('x \<Rightarrow> 'y) \<Rightarrow> 'x outcome \<Rightarrow> 'y outcome" where
  "map_outcome f r = (f (fst r), snd r)"

text \<open>
  \<open>sub.handleSnapshot(snapshot.state as never, fromSeq)\<close>: the server answers with the state
  type of the subscribed resource; the cast has no other effect to model.
\<close>

definition managed_handleSnapshot :: "channel_snapshot \<Rightarrow> nat \<Rightarrow> managed_subscription \<Rightarrow> managed_subscription outcome" where
  "managed_handleSnapshot snap n sub =
     (case (sub, snap) of
        (SessionSub s, SessionSnapshot st) \<Rightarrow> map_outcome SessionSub (session_snapshot st n s)
      | (ChatSub s, ChatSnapshot st) \<Rightarrow> map_outcome ChatSub (chat_snapshot st n s)
      | (TerminalSub s, TerminalSnapshot st) \<Rightarrow> map_outcome TerminalSub (terminal_snapshot st n s)
      | (ChangesetSub s, ChangesetSnapshot st) \<Rightarrow> map_outcome ChangesetSub (changeset_snapshot st n s)
      | (AnnotationsSub s, AnnotationsSnapshot st) \<Rightarrow> map_outcome AnnotationsSub (annotations_snapshot st n s)
      | _ \<Rightarrow> (sub, None))"

definition managed_receive :: "action_envelope \<Rightarrow> managed_subscription \<Rightarrow> managed_subscription outcome" where
  "managed_receive e sub =
     (case sub of
        SessionSub s \<Rightarrow> map_outcome SessionSub (session_receive e s)
      | ChatSub s \<Rightarrow> map_outcome ChatSub (chat_receive e s)
      | TerminalSub s \<Rightarrow> map_outcome TerminalSub (terminal_receive e s)
      | ChangesetSub s \<Rightarrow> map_outcome ChangesetSub (changeset_receive e s)
      | AnnotationsSub s \<Rightarrow> map_outcome AnnotationsSub (annotations_receive e s))"

definition error_message :: "js_error \<Rightarrow> js_string" where
  "error_message e = (case e of RangeError msg \<Rightarrow> msg | PlainError msg \<Rightarrow> msg)"

definition createSubscription :: "state_component \<Rightarrow> js_string \<Rightarrow> js_string \<Rightarrow> managed_subscription js_result" where
  "createSubscription kind key clientId =
     (case kind of
        SessionComponent \<Rightarrow> Inr (SessionSub (new_subscription key clientId))
      | ChatComponent \<Rightarrow> Inr (ChatSub (new_subscription key clientId))
      | TerminalComponent \<Rightarrow> Inr (TerminalSub (new_subscription key clientId))
      | ChangesetComponent \<Rightarrow> Inr (ChangesetSub (new_subscription key clientId))
      | AnnotationsComponent \<Rightarrow> Inr (AnnotationsSub (new_subscription key clientId))
      | RootComponent \<Rightarrow> Inl (PlainError ''_createSubscription: root subscription is managed separately''))"

section \<open>Disposal and release\<close>

definition send :: "nat \<Rightarrow> wire_call \<Rightarrow> manager \<Rightarrow> manager" where
  "send eid c m = m\<lparr>mgr_sent := mgr_sent m @ [(eid, c)]\<rparr>"

definition disposeSubscriptionEntry :: "js_string \<Rightarrow> nat \<Rightarrow> bool \<Rightarrow> manager \<Rightarrow> manager" where
  "disposeSubscriptionEntry resource eid unsubscribe m =
     (let m1 = (update_entry eid (\<lambda>e. e\<lparr>me_releaseTimer := False\<rparr>) m)\<lparr>mgr_idle := AList.delete eid (mgr_idle m)\<rparr>;
          m2 = (if unsubscribe \<and> \<not> me_unsubscribeSent (entry_at m1 eid)
                then send eid (CallUnsubscribe resource) (update_entry eid (\<lambda>e. e\<lparr>me_unsubscribeSent := True\<rparr>) m1)
                else m1)
      in if \<not> me_localDisposed (entry_at m2 eid)
         then update_entry eid (\<lambda>e. e\<lparr>me_localDisposed := True, me_sub := managed_clearPending (me_sub e)\<rparr>) m2
         else m2)"

definition finalizeSubscriptionEntry :: "js_string \<Rightarrow> nat \<Rightarrow> bool \<Rightarrow> manager \<Rightarrow> manager" where
  "finalizeSubscriptionEntry resource eid unsubscribe m =
     disposeSubscriptionEntry resource eid unsubscribe
       (if lookup_sub m resource = Some eid then m\<lparr>mgr_subs := AList.delete resource (mgr_subs m)\<rparr> else m)"

definition expireSubscriptionRelease :: "js_string \<Rightarrow> nat \<Rightarrow> manager \<Rightarrow> manager" where
  "expireSubscriptionRelease resource eid m =
     (let m1 = m\<lparr>mgr_idle := AList.delete eid (mgr_idle m)\<rparr>
      in if lookup_sub m1 resource \<noteq> Some eid \<or> me_refCount (entry_at m1 eid) > 0 then m1
         else
           let m2 = update_entry eid (\<lambda>e. e\<lparr>me_releaseExpired := True\<rparr>) m1
           in (case me_phase (entry_at m2 eid) of
                 WaitingCreate \<Rightarrow> finalizeSubscriptionEntry resource eid False m2
               | Subscribing \<Rightarrow> m2
               | Settled \<Rightarrow> finalizeSubscriptionEntry resource eid True m2))"

definition cancelScheduledRelease :: "nat \<Rightarrow> manager \<Rightarrow> manager" where
  "cancelScheduledRelease eid m =
     (update_entry eid (\<lambda>e. e\<lparr>me_releaseTimer := False, me_releaseExpired := False\<rparr>) m)
       \<lparr>mgr_idle := AList.delete eid (mgr_idle m)\<rparr>"

lemma idle_update_entry [simp]: "mgr_idle (update_entry eid f m) = mgr_idle m"
  by (simp add: update_entry_def)

lemma idle_dispose [simp]: "mgr_idle (disposeSubscriptionEntry r eid u m) = AList.delete eid (mgr_idle m)"
  by (simp add: disposeSubscriptionEntry_def Let_def send_def)

lemma idle_expire: "mgr_idle (expireSubscriptionRelease r eid m) = AList.delete eid (mgr_idle m)"
  by (simp add: expireSubscriptionRelease_def Let_def finalizeSubscriptionEntry_def AList.delete_idem split: sub_phase.split)

text \<open>The eviction loop of \<open>_scheduleSubscriptionRelease\<close>: the oldest idle entries expire until the bound holds.\<close>

function evict_idle :: "manager \<Rightarrow> manager" where
  "evict_idle m =
     (if int (length (mgr_idle m)) \<le> mgr_maxIdle m then m
      else case mgr_idle m of
        [] \<Rightarrow> m
      | (eid, resource) # _ \<Rightarrow>
          evict_idle (expireSubscriptionRelease resource eid
            (update_entry eid (\<lambda>e. e\<lparr>me_releaseTimer := False\<rparr>) m)))"
  by pat_completeness auto
termination
  by (relation "measure (\<lambda>m. length (mgr_idle m))")
    (auto simp: idle_expire le_imp_less_Suc AList.length_delete_le)

declare evict_idle.simps [simp del]

definition scheduleSubscriptionRelease :: "js_string \<Rightarrow> nat \<Rightarrow> manager \<Rightarrow> manager" where
  "scheduleSubscriptionRelease resource eid m =
     (let m1 = cancelScheduledRelease eid m
      in if mgr_releaseGraceMs m1 \<le> 0 \<or> mgr_maxIdle m1 \<le> 0 then expireSubscriptionRelease resource eid m1
         else evict_idle
           ((update_entry eid (\<lambda>e. e\<lparr>me_releaseTimer := True\<rparr>) m1)
              \<lparr>mgr_idle := AList.update eid resource (mgr_idle m1)\<rparr>))"

definition timerFired :: "js_string \<Rightarrow> nat \<Rightarrow> manager \<Rightarrow> manager" where
  "timerFired resource eid m =
     (if me_releaseTimer (entry_at m eid)
      then expireSubscriptionRelease resource eid (update_entry eid (\<lambda>e. e\<lparr>me_releaseTimer := False\<rparr>) m)
      else m)"

definition releaseSubscription :: "js_string \<Rightarrow> nat \<Rightarrow> manager \<Rightarrow> manager" where
  "releaseSubscription resource expected m =
     (if lookup_sub m resource \<noteq> Some expected then m
      else
        let m1 = update_entry expected (\<lambda>e. e\<lparr>me_refCount := me_refCount e - 1\<rparr>) m
        in if me_refCount (entry_at m1 expected) \<le> 0 then scheduleSubscriptionRelease resource expected m1 else m1)"

section \<open>References\<close>

definition acquireReference :: "nat \<Rightarrow> js_string \<Rightarrow> manager \<Rightarrow> manager \<times> nat" where
  "acquireReference eid owner m =
     (let ownerId = mgr_referenceOwnerIds m + 1
      in (update_entry eid (\<lambda>e. e\<lparr>me_holders := AList.update ownerId owner (me_holders e)\<rparr>)
            (m\<lparr>mgr_referenceOwnerIds := ownerId\<rparr>), ownerId))"

text \<open>\<open>dispose\<close> of a reference: the second call does nothing, because the first removed its holder.\<close>

definition disposeReference :: "js_string \<Rightarrow> nat \<Rightarrow> nat \<Rightarrow> manager \<Rightarrow> manager" where
  "disposeReference resource eid ownerId m =
     (if map_of (me_holders (entry_at m eid)) ownerId = None then m
      else releaseSubscription resource eid
             (update_entry eid (\<lambda>e. e\<lparr>me_holders := AList.delete ownerId (me_holders e)\<rparr>) m))"

definition start_subscribe :: "js_string \<Rightarrow> nat \<Rightarrow> manager \<Rightarrow> manager" where
  "start_subscribe resource eid m =
     (if lookup_sub m resource \<noteq> Some eid \<or> me_localDisposed (entry_at m eid) then m
      else send eid (CallSubscribe resource) (update_entry eid (\<lambda>e. e\<lparr>me_phase := Subscribing\<rparr>) m))"

definition new_entry :: "state_component \<Rightarrow> managed_subscription \<Rightarrow> managed_entry" where
  "new_entry kind sub = \<lparr>me_sub = sub, me_kind = kind, me_refCount = 1, me_holders = [], me_phase = WaitingCreate,
     me_releaseTimer = False, me_releaseExpired = False, me_localDisposed = False, me_unsubscribeSent = False,
     me_unsubscribeAfterSubscribe = False\<rparr>"

definition create_entry :: "state_component \<Rightarrow> js_string \<Rightarrow> managed_subscription \<Rightarrow> js_string \<Rightarrow> manager \<Rightarrow> manager \<times> nat" where
  "create_entry kind resource sub owner m =
     (let eid = length (mgr_heap m);
          m1 = m\<lparr>mgr_heap := mgr_heap m @ [new_entry kind sub], mgr_subs := AList.update resource eid (mgr_subs m)\<rparr>;
          m2 = (if map_of (mgr_inflight m1) resource = None then start_subscribe resource eid m1 else m1)
      in acquireReference eid owner m2)"

text \<open>\<open>getSubscription\<close>: the manager and the owner id of the new reference, or what it throws.\<close>

definition getSubscription ::
    "state_component \<Rightarrow> js_string \<Rightarrow> js_string \<Rightarrow> manager \<Rightarrow> manager \<times> nat js_result" where
  "getSubscription kind resource owner m =
     (if mgr_isDisposed m then (m, Inl (PlainError ''AgentSubscriptionManager is disposed''))
      else
        let fresh = (\<lambda>m. case createSubscription kind resource (mgr_clientId m) of
                 Inl e \<Rightarrow> (m, Inl e)
               | Inr sub \<Rightarrow> (let (m', i) = create_entry kind resource sub owner m in (m', Inr i)))
        in (case lookup_sub m resource of
              None \<Rightarrow> fresh m
            | Some eid \<Rightarrow>
                if managed_error (me_sub (entry_at m eid)) \<noteq> None \<and> me_phase (entry_at m eid) = Settled
                then fresh (finalizeSubscriptionEntry resource eid True m)
                else
                  let (m', i) = acquireReference eid owner
                        (update_entry eid (\<lambda>e. e\<lparr>me_refCount := me_refCount e + 1\<rparr>) (cancelScheduledRelease eid m))
                  in (m', Inr i)))"

text \<open>The continuation after the create the entry waited for settled, either way.\<close>

definition afterCreate :: "js_string \<Rightarrow> nat \<Rightarrow> manager \<Rightarrow> manager" where
  "afterCreate resource eid m =
     (if me_phase (entry_at m eid) = WaitingCreate then start_subscribe resource eid m else m)"

text \<open>
  The continuation after the server answered the subscribe request with a snapshot (\<open>Inr\<close>) or
  an error (\<open>Inl\<close>): the try and catch blocks, then the finally block.
\<close>

definition deliver_snapshot :: "js_string \<Rightarrow> nat \<Rightarrow> js_string + channel_snapshot \<times> nat \<Rightarrow> manager \<Rightarrow> manager" where
  "deliver_snapshot resource eid answer m =
     (if lookup_sub m resource \<noteq> Some eid then m
      else case answer of
        Inl err \<Rightarrow> update_entry eid (\<lambda>e. e\<lparr>me_sub := managed_setError err (me_sub e)\<rparr>) m
      | Inr (snap, n) \<Rightarrow>
          update_entry eid (\<lambda>e. e\<lparr>me_sub :=
            (case managed_handleSnapshot snap n (me_sub e) of
               (sub, None) \<Rightarrow> sub
             | (sub, Some err) \<Rightarrow> managed_setError (error_message err) sub)\<rparr>) m)"

definition afterSubscribe :: "js_string \<Rightarrow> nat \<Rightarrow> js_string + channel_snapshot \<times> nat \<Rightarrow> manager \<Rightarrow> manager" where
  "afterSubscribe resource eid answer m =
     (if me_phase (entry_at m eid) \<noteq> Subscribing then m
      else
        let m1 = update_entry eid (\<lambda>e. e\<lparr>me_phase := Settled\<rparr>) (deliver_snapshot resource eid answer m);
            e = entry_at m1 eid
        in if me_unsubscribeAfterSubscribe e then disposeSubscriptionEntry resource eid True m1
           else if lookup_sub m1 resource = Some eid \<and> me_refCount e \<le> 0 \<and> me_releaseExpired e
           then finalizeSubscriptionEntry resource eid True m1
           else m1)"

text \<open>\<open>trackSessionCreate\<close> and the settling of the promise it tracks.\<close>

definition trackSessionCreate :: "js_string \<Rightarrow> nat \<Rightarrow> manager \<Rightarrow> manager" where
  "trackSessionCreate resource promise m =
     (if mgr_isDisposed m then m else m\<lparr>mgr_inflight := AList.update resource promise (mgr_inflight m)\<rparr>)"

definition createSettled :: "js_string \<Rightarrow> nat \<Rightarrow> manager \<Rightarrow> manager" where
  "createSettled resource promise m =
     (if map_of (mgr_inflight m) resource = Some promise
      then m\<lparr>mgr_inflight := AList.delete resource (mgr_inflight m)\<rparr> else m)"

fun dispose_entries :: "(js_string \<times> nat) list \<Rightarrow> manager \<Rightarrow> manager" where
  "dispose_entries [] m = m"
| "dispose_entries ((resource, eid) # rest) m =
     (if me_phase (entry_at m eid) = Subscribing
      then dispose_entries rest (disposeSubscriptionEntry resource eid False
             (update_entry eid (\<lambda>e. e\<lparr>me_unsubscribeAfterSubscribe := True\<rparr>) m))
      else dispose_entries rest
             (disposeSubscriptionEntry resource eid (me_phase (entry_at m eid) = Settled) m))"

definition disposeManager :: "manager \<Rightarrow> manager" where
  "disposeManager m =
     (dispose_entries (mgr_subs m) m)\<lparr>mgr_subs := [], mgr_idle := [], mgr_inflight := [], mgr_isDisposed := True\<rparr>"

section \<open>Envelopes, dispatch and reconnect\<close>

fun receive_entries :: "action_envelope \<Rightarrow> nat list \<Rightarrow> manager \<Rightarrow> manager outcome" where
  "receive_entries e [] m = (m, None)"
| "receive_entries e (eid # rest) m =
     (let r = managed_receive e (me_sub (entry_at m eid));
          m1 = update_entry eid (\<lambda>x. x\<lparr>me_sub := fst r\<rparr>) m
      in case snd r of None \<Rightarrow> receive_entries e rest m1 | Some err \<Rightarrow> (m1, Some err))"

definition manager_receiveEnvelope :: "(js_string \<Rightarrow> js_string option) \<Rightarrow> action_envelope \<Rightarrow> manager \<Rightarrow> manager outcome" where
  "manager_receiveEnvelope scheme e m =
     (let r = root_receive scheme e (mgr_root m); m1 = m\<lparr>mgr_root := fst r\<rparr>
      in case snd r of None \<Rightarrow> receive_entries e (map snd (mgr_subs m1)) m1 | Some err \<Rightarrow> (m1, Some err))"

text \<open>
  \<open>dispatchOptimistic\<close> with the sequence number the allocator gives next: it is used by the
  subscription the action goes to, or handed out when there is none.
\<close>

definition managed_applyOptimistic :: "nat \<Rightarrow> state_action \<Rightarrow> managed_subscription \<Rightarrow> managed_subscription outcome" where
  "managed_applyOptimistic seq a sub =
     (case (a, sub) of
        (SessionAct x, SessionSub s) \<Rightarrow> map_outcome SessionSub (session_applyOptimistic seq x s)
      | (ChatAct x, ChatSub s) \<Rightarrow> map_outcome ChatSub (chat_applyOptimistic seq x s)
      | (ChangesetAct x, ChangesetSub s) \<Rightarrow> map_outcome ChangesetSub (changeset_applyOptimistic seq x s)
      | (AnnotationsAct x, AnnotationsSub s) \<Rightarrow> map_outcome AnnotationsSub (annotations_applyOptimistic seq x s)
      | _ \<Rightarrow> (sub, None))"

definition dispatchOptimistic ::
    "(js_string \<Rightarrow> js_string) \<Rightarrow> nat \<Rightarrow> js_string \<Rightarrow> state_action \<Rightarrow> manager \<Rightarrow> manager outcome" where
  "dispatchOptimistic canon seq channel a m =
     (case lookup_sub m (canon channel) of
        None \<Rightarrow> (m, None)
      | Some eid \<Rightarrow>
          let r = managed_applyOptimistic seq a (me_sub (entry_at m eid))
          in (update_entry eid (\<lambda>x. x\<lparr>me_sub := fst r\<rparr>) m, snd r))"

definition managed_pending :: "managed_subscription \<Rightarrow> (nat \<times> state_action \<times> js_string) list" where
  "managed_pending sub =
     (case sub of
        SessionSub s \<Rightarrow> getPendingActions s | ChatSub s \<Rightarrow> getPendingActions s
      | AnnotationsSub s \<Rightarrow> getPendingActions s | _ \<Rightarrow> [])"

definition manager_getPendingActions :: "manager \<Rightarrow> (nat \<times> state_action \<times> js_string) list" where
  "manager_getPendingActions m = concat (map (\<lambda>(r, eid). managed_pending (me_sub (entry_at m eid))) (mgr_subs m))"

definition managed_dropPending :: "nat \<Rightarrow> managed_subscription \<Rightarrow> managed_subscription" where
  "managed_dropPending seq sub =
     (case sub of
        SessionSub s \<Rightarrow> SessionSub (fst (dropPendingByClientSeq seq s))
      | ChatSub s \<Rightarrow> ChatSub (fst (dropPendingByClientSeq seq s))
      | AnnotationsSub s \<Rightarrow> AnnotationsSub (fst (dropPendingByClientSeq seq s))
      | _ \<Rightarrow> sub)"

definition dropPendingAction :: "(js_string \<Rightarrow> js_string) \<Rightarrow> js_string \<Rightarrow> nat \<Rightarrow> manager \<Rightarrow> manager" where
  "dropPendingAction canon resource seq m =
     (case lookup_sub m (canon resource) of
        None \<Rightarrow> m
      | Some eid \<Rightarrow> update_entry eid (\<lambda>e. e\<lparr>me_sub := managed_dropPending seq (me_sub e)\<rparr>) m)"

datatype reconnect_state = RootSnapshot root_state | ChannelSnapshot channel_snapshot

definition applyReconnectSnapshot ::
    "(js_string \<Rightarrow> js_string option) \<Rightarrow> (js_string \<Rightarrow> js_string) \<Rightarrow> js_string \<Rightarrow> reconnect_state \<Rightarrow> nat \<Rightarrow> bool
     \<Rightarrow> manager \<Rightarrow> manager outcome" where
  "applyReconnectSnapshot scheme canon resource st fromSeq preservePending m =
     (if isAhpRootChannel scheme resource
      then (case st of
              RootSnapshot s \<Rightarrow> map_outcome (\<lambda>r. m\<lparr>mgr_root := r\<rparr>) (root_snapshot s fromSeq (mgr_root m))
            | ChannelSnapshot _ \<Rightarrow> (m, None))
      else case lookup_sub m (canon resource) of
        None \<Rightarrow> (m, None)
      | Some eid \<Rightarrow>
          let sub = me_sub (entry_at m eid);
              sub1 = (if \<not> preservePending then managed_clearPending sub else sub);
              r = (case st of ChannelSnapshot snap \<Rightarrow> managed_handleSnapshot snap fromSeq sub1 | RootSnapshot _ \<Rightarrow> (sub1, None))
          in (update_entry eid (\<lambda>e. e\<lparr>me_sub := fst r\<rparr>) m, snd r))"

fun markSubscriptionsMissing :: "js_string list \<Rightarrow> manager \<Rightarrow> manager" where
  "markSubscriptionsMissing [] m = m"
| "markSubscriptionsMissing (resource # rest) m =
     markSubscriptionsMissing rest
       (case lookup_sub m resource of
          None \<Rightarrow> m
        | Some eid \<Rightarrow>
            if me_phase (entry_at m eid) = Settled
            then update_entry eid (\<lambda>e. e\<lparr>me_sub := managed_setError
                   (''Subscription no longer available after reconnect: '' @ resource)
                   (managed_clearPending (me_sub e))\<rparr>) m
            else m)"

text \<open>\<open>isActionEnvelopeRelevantToSubscriptionUris\<close>\<close>

definition isActionEnvelopeRelevantToSubscriptionUris ::
    "(js_string \<Rightarrow> js_string option) \<Rightarrow> action_envelope \<Rightarrow> js_string list \<Rightarrow> bool" where
  "isActionEnvelopeRelevantToSubscriptionUris scheme e uris =
     (if isAhpRootChannel scheme (env_channel e) then list_ex (isAhpRootChannel scheme) uris
      else list_ex (\<lambda>u. u = env_channel e) uris)"

end
