(* ===== verification/Manager_Properties.thy ===== *)
theory Manager_Properties
  imports Subscription_Manager Subscription_Properties
begin

text \<open>
  What the subscription manager guarantees along every run of its public operations and
  callbacks: reference counts are the references held, the idle table is bounded, the wire
  calls of an entry are one subscribe and at most one unsubscribe after it, and nothing that
  was subscribed stays subscribed once it is released. Also what \<open>applyReconnectSnapshot\<close>
  does to the pending actions of a changeset.
\<close>

section \<open>Views of an entry\<close>

definition owner_uri :: "manager \<Rightarrow> nat \<Rightarrow> js_string option" where
  "owner_uri m eid = map_of (map prod.swap (mgr_subs m)) eid"

definition idle_uri :: "manager \<Rightarrow> nat \<Rightarrow> js_string option" where
  "idle_uri m eid = map_of (mgr_idle m) eid"

definition calls_of :: "manager \<Rightarrow> nat \<Rightarrow> wire_call list" where
  "calls_of m eid = map snd (filter (\<lambda>p. fst p = eid) (mgr_sent m))"

definition tables_ok :: "manager \<Rightarrow> bool" where
  "tables_ok m \<longleftrightarrow> distinct (map fst (mgr_subs m)) \<and> distinct (map snd (mgr_subs m))
     \<and> (\<forall>eid\<in>snd ` set (mgr_subs m). eid < length (mgr_heap m))
     \<and> distinct (map fst (mgr_idle m)) \<and> (\<forall>eid\<in>fst ` set (mgr_idle m). eid < length (mgr_heap m))
     \<and> (\<forall>eid\<in>fst ` set (mgr_sent m). eid < length (mgr_heap m))"

text \<open>
  The wire calls an entry has made in its phase: none before the subscribe, the subscribe,
  and after its answer possibly one unsubscribe.
\<close>

fun wire_ok :: "sub_phase \<Rightarrow> bool \<Rightarrow> wire_call list \<Rightarrow> bool" where
  "wire_ok WaitingCreate u cs \<longleftrightarrow> cs = [] \<and> \<not> u"
| "wire_ok Subscribing u cs \<longleftrightarrow> (\<exists>r. cs = [CallSubscribe r]) \<and> \<not> u"
| "wire_ok Settled u cs \<longleftrightarrow> (\<exists>r. cs = CallSubscribe r # (if u then [CallUnsubscribe r] else []))"

text \<open>What holds of an entry independently of its release timer, and with it.\<close>

definition entry_core :: "nat \<Rightarrow> js_string option \<Rightarrow> wire_call list \<Rightarrow> managed_entry \<Rightarrow> bool" where
  "entry_core ids uri calls e \<longleftrightarrow>
     (case uri of
        Some r \<Rightarrow> \<not> me_localDisposed e \<and> \<not> me_unsubscribeSent e \<and> \<not> me_unsubscribeAfterSubscribe e
                 \<and> me_refCount e = int (length (me_holders e))
                 \<and> (me_phase e \<noteq> WaitingCreate \<longrightarrow> calls = [CallSubscribe r])
      | None \<Rightarrow> me_localDisposed e \<and> (me_phase e = Settled \<longrightarrow> me_unsubscribeSent e)
                 \<and> (me_phase e = Subscribing \<longrightarrow> me_unsubscribeAfterSubscribe e))
     \<and> distinct (map fst (me_holders e)) \<and> (\<forall>i\<in>fst ` set (me_holders e). i \<le> ids)
     \<and> wire_ok (me_phase e) (me_unsubscribeSent e) calls"

definition timer_ok :: "js_string option \<Rightarrow> js_string option \<Rightarrow> managed_entry \<Rightarrow> bool" where
  "timer_ok uri idle e \<longleftrightarrow>
     (me_releaseTimer e \<longleftrightarrow> idle \<noteq> None)
     \<and> (case uri of
          Some r \<Rightarrow> (me_refCount e \<le> 0 \<longrightarrow> idle \<noteq> None \<or> me_releaseExpired e \<and> me_phase e = Subscribing)
                   \<and> (idle = None \<or> idle = Some r \<and> me_refCount e \<le> 0)
        | None \<Rightarrow> idle = None)"

definition entry_ok :: "nat \<Rightarrow> js_string option \<Rightarrow> js_string option \<Rightarrow> wire_call list \<Rightarrow> managed_entry \<Rightarrow> bool" where
  "entry_ok ids uri idle calls e \<longleftrightarrow> entry_core ids uri calls e \<and> timer_ok uri idle e"

definition view_ok :: "manager \<Rightarrow> nat \<Rightarrow> bool" where
  "view_ok m x \<longleftrightarrow> entry_ok (mgr_referenceOwnerIds m) (owner_uri m x) (idle_uri m x) (calls_of m x) (entry_at m x)"

definition heap_ok :: "manager \<Rightarrow> bool" where
  "heap_ok m \<longleftrightarrow> (\<forall>x<length (mgr_heap m). view_ok m x)"

lemma wire_ok_prefix: "wire_ok p u cs \<Longrightarrow> cs = [] \<or> (\<exists>r. cs = [CallSubscribe r] \<or> cs = [CallSubscribe r, CallUnsubscribe r])"
  by (cases p) (auto split: if_splits)

section \<open>How the primitives change the views\<close>

lemma update_entry_simps [simp]:
  "mgr_subs (update_entry i f m) = mgr_subs m" "mgr_sent (update_entry i f m) = mgr_sent m"
  "mgr_referenceOwnerIds (update_entry i f m) = mgr_referenceOwnerIds m"
  "mgr_maxIdle (update_entry i f m) = mgr_maxIdle m" "mgr_releaseGraceMs (update_entry i f m) = mgr_releaseGraceMs m"
  "mgr_isDisposed (update_entry i f m) = mgr_isDisposed m" "mgr_inflight (update_entry i f m) = mgr_inflight m"
  "mgr_clientId (update_entry i f m) = mgr_clientId m" "mgr_root (update_entry i f m) = mgr_root m"
  "length (mgr_heap (update_entry i f m)) = length (mgr_heap m)"
  by (simp_all add: update_entry_def)

lemma update_entry_commute [simp]:
  "(update_entry i f m)\<lparr>mgr_idle := a\<rparr> = update_entry i f (m\<lparr>mgr_idle := a\<rparr>)"
  "(update_entry i f m)\<lparr>mgr_subs := b\<rparr> = update_entry i f (m\<lparr>mgr_subs := b\<rparr>)"
  "(send i c m)\<lparr>mgr_subs := b\<rparr> = send i c (m\<lparr>mgr_subs := b\<rparr>)"
  by (simp_all add: update_entry_def send_def)

lemma send_simps [simp]:
  "mgr_subs (send i c m) = mgr_subs m" "mgr_heap (send i c m) = mgr_heap m" "mgr_idle (send i c m) = mgr_idle m"
  "mgr_referenceOwnerIds (send i c m) = mgr_referenceOwnerIds m" "mgr_maxIdle (send i c m) = mgr_maxIdle m"
  "mgr_isDisposed (send i c m) = mgr_isDisposed m" "mgr_sent (send i c m) = mgr_sent m @ [(i, c)]"
  by (simp_all add: send_def)

lemma entry_at_simps [simp]:
  "i < length (mgr_heap m) \<Longrightarrow> entry_at (update_entry i f m) x = (if x = i then f (entry_at m i) else entry_at m x)"
  "entry_at (send i c m) x = entry_at m x"
  "entry_at (m\<lparr>mgr_idle := a\<rparr>) x = entry_at m x" "entry_at (m\<lparr>mgr_subs := b\<rparr>) x = entry_at m x"
  "entry_at (m\<lparr>mgr_referenceOwnerIds := n\<rparr>) x = entry_at m x"
  by (auto simp: entry_at_def update_entry_def send_def)

lemma owner_uri_simps [simp]:
  "owner_uri (update_entry i f m) x = owner_uri m x" "owner_uri (send i c m) x = owner_uri m x"
  "owner_uri (m\<lparr>mgr_idle := a\<rparr>) x = owner_uri m x" "owner_uri (m\<lparr>mgr_referenceOwnerIds := n\<rparr>) x = owner_uri m x"
  by (simp_all add: owner_uri_def)

lemma idle_uri_simps [simp]:
  "idle_uri (update_entry i f m) x = idle_uri m x" "idle_uri (send i c m) x = idle_uri m x"
  "idle_uri (m\<lparr>mgr_subs := b\<rparr>) x = idle_uri m x" "idle_uri (m\<lparr>mgr_referenceOwnerIds := n\<rparr>) x = idle_uri m x"
  "idle_uri (m\<lparr>mgr_idle := AList.delete i (mgr_idle m')\<rparr>) x = (if x = i then None else idle_uri m' x)"
  "idle_uri (m\<lparr>mgr_idle := AList.update i r (mgr_idle m')\<rparr>) x = (if x = i then Some r else idle_uri m' x)"
  by (auto simp: idle_uri_def delete_conv' update_conv')

lemma calls_of_simps [simp]:
  "calls_of (update_entry i f m) x = calls_of m x" "calls_of (m\<lparr>mgr_idle := a\<rparr>) x = calls_of m x"
  "calls_of (m\<lparr>mgr_subs := b\<rparr>) x = calls_of m x" "calls_of (m\<lparr>mgr_referenceOwnerIds := n\<rparr>) x = calls_of m x"
  "calls_of (send i c m) x = (if x = i then calls_of m x @ [c] else calls_of m x)"
  by (simp_all add: calls_of_def)

lemma lookup_simps [simp]:
  "lookup_sub (update_entry i f m) r = lookup_sub m r" "lookup_sub (send i c m) r = lookup_sub m r"
  "lookup_sub (m\<lparr>mgr_idle := a\<rparr>) r = lookup_sub m r" "lookup_sub (m\<lparr>mgr_referenceOwnerIds := n\<rparr>) r = lookup_sub m r"
  by (simp_all add: lookup_sub_def)

lemma lookup_owner:
  assumes "tables_ok m"
  shows "lookup_sub m r = Some eid \<longleftrightarrow> owner_uri m eid = Some r"
proof -
  have "distinct (map fst (map prod.swap (mgr_subs m)))"
    using assms by (simp add: tables_ok_def comp_def)
  moreover have "distinct (map fst (mgr_subs m))" using assms by (simp add: tables_ok_def)
  ultimately show ?thesis by (auto simp: lookup_sub_def owner_uri_def map_of_eq_Some_iff)
qed

lemma owner_less: "tables_ok m \<Longrightarrow> owner_uri m eid = Some r \<Longrightarrow> eid < length (mgr_heap m)"
  by (force simp: owner_uri_def tables_ok_def dest!: map_of_SomeD)

lemma distinct_snd_delete: "distinct (map snd xs) \<Longrightarrow> distinct (map snd (AList.delete k xs))"
  by (simp add: AList.delete_eq distinct_map_filter)

lemma set_deleteD: "p \<in> set (AList.delete k xs) \<Longrightarrow> p \<in> set xs \<and> fst p \<noteq> k"
  by (auto simp: AList.delete_eq)

lemma eq_key_by_snd: "distinct (map snd xs) \<Longrightarrow> (k, v) \<in> set xs \<Longrightarrow> (k', v) \<in> set xs \<Longrightarrow> k' = k"
  by (induction xs) (auto simp: image_iff)

lemma swap_delete_other:
  "(k, x) \<notin> set xs \<Longrightarrow> map_of (map prod.swap (AList.delete k xs)) x = map_of (map prod.swap xs) x"
  by (induction xs) auto

lemma swap_delete:
  assumes "distinct (map snd xs)" and "(k, v) \<in> set xs" and "distinct (map fst xs)"
  shows "map_of (map prod.swap (AList.delete k xs)) x = (if x = v then None else map_of (map prod.swap xs) x)"
proof (cases "x = v")
  case True
  have "v \<notin> snd ` set (AList.delete k xs)"
  proof
    assume "v \<in> snd ` set (AList.delete k xs)"
    then obtain k' where "(k', v) \<in> set (AList.delete k xs)" by auto
    from set_deleteD [OF this] eq_key_by_snd [OF assms(1,2), of k'] show False by simp
  qed
  with True show ?thesis by (simp add: map_of_eq_None_iff image_image comp_def)
next
  case False
  with assms(2,3) have "(k, x) \<notin> set xs" by (auto dest: eq_key_imp_eq_value)
  with False show ?thesis by (simp add: swap_delete_other)
qed

lemma unregister_owner:
  assumes "tables_ok m" and "owner_uri m eid = Some r"
  shows "owner_uri (m\<lparr>mgr_subs := AList.delete r (mgr_subs m)\<rparr>) x = (if x = eid then None else owner_uri m x)"
proof -
  have "(r, eid) \<in> set (mgr_subs m)" using assms(2) by (auto simp: owner_uri_def dest!: map_of_SomeD)
  with assms(1) show ?thesis by (simp add: owner_uri_def tables_ok_def swap_delete)
qed

lemma tables_ok_unregister: "tables_ok m \<Longrightarrow> tables_ok (m\<lparr>mgr_subs := AList.delete r (mgr_subs m)\<rparr>)"
  by (auto simp: tables_ok_def distinct_delete distinct_snd_delete dest: set_deleteD)

lemma tables_ok_simps [simp]:
  "tables_ok (update_entry i f m) = tables_ok m"
  "i < length (mgr_heap m) \<Longrightarrow> tables_ok (send i c m) = tables_ok m"
  "tables_ok (m\<lparr>mgr_referenceOwnerIds := n\<rparr>) = tables_ok m"
  by (auto simp: tables_ok_def)

lemma tables_ok_idle:
  "tables_ok m \<Longrightarrow> tables_ok (m\<lparr>mgr_idle := AList.delete i (mgr_idle m)\<rparr>)"
  "tables_ok m \<Longrightarrow> i < length (mgr_heap m) \<Longrightarrow> tables_ok (m\<lparr>mgr_idle := AList.update i r (mgr_idle m)\<rparr>)"
  by (auto simp: tables_ok_def distinct_delete distinct_update dom_update dest: set_deleteD)


section \<open>Releasing an entry\<close>

definition others_ok :: "nat \<Rightarrow> manager \<Rightarrow> bool" where
  "others_ok eid m \<longleftrightarrow> (\<forall>x<length (mgr_heap m). x \<noteq> eid \<longrightarrow> view_ok m x)"

lemma others_okI: "heap_ok m \<Longrightarrow> others_ok eid m"
  by (simp add: others_ok_def heap_ok_def)

lemma heap_okI: "others_ok eid m \<Longrightarrow> (eid < length (mgr_heap m) \<Longrightarrow> view_ok m eid) \<Longrightarrow> heap_ok m"
  by (auto simp: others_ok_def heap_ok_def)

lemma others_ok_step:
  assumes "others_ok eid m" and "length (mgr_heap m') = length (mgr_heap m)"
    and "mgr_referenceOwnerIds m' = mgr_referenceOwnerIds m"
    and "\<And>x. x \<noteq> eid \<Longrightarrow> owner_uri m' x = owner_uri m x \<and> idle_uri m' x = idle_uri m x
           \<and> calls_of m' x = calls_of m x \<and> entry_at m' x = entry_at m x"
  shows "others_ok eid m'"
  using assms by (simp add: others_ok_def view_ok_def)

lemma entry_at_other [simp]: "x \<noteq> i \<Longrightarrow> entry_at (update_entry i f m) x = entry_at m x"
  by (simp add: entry_at_def update_entry_def)

lemma finalize_ok:
  assumes "tables_ok m" and "others_ok eid m" and own: "owner_uri m eid = Some r"
    and "\<not> me_localDisposed (entry_at m eid)" and "\<not> me_unsubscribeSent (entry_at m eid)"
    and "distinct (map fst (me_holders (entry_at m eid)))"
    and "\<forall>i\<in>fst ` set (me_holders (entry_at m eid)). i \<le> mgr_referenceOwnerIds m"
    and "wire_ok (me_phase (entry_at m eid)) False (calls_of m eid)"
    and "me_phase (entry_at m eid) \<noteq> WaitingCreate \<longrightarrow> calls_of m eid = [CallSubscribe r]"
    and "u \<longleftrightarrow> me_phase (entry_at m eid) = Settled"
    and "me_phase (entry_at m eid) = Subscribing \<longrightarrow> me_unsubscribeAfterSubscribe (entry_at m eid)"
  shows "tables_ok (finalizeSubscriptionEntry r eid u m) \<and> heap_ok (finalizeSubscriptionEntry r eid u m)"
proof -
  let ?m = "m\<lparr>mgr_subs := AList.delete r (mgr_subs m)\<rparr>"
  have len: "eid < length (mgr_heap m)" using owner_less [OF assms(1) own] .
  have fin: "finalizeSubscriptionEntry r eid u m = disposeSubscriptionEntry r eid u ?m"
    using own lookup_owner [OF assms(1)] by (simp add: finalizeSubscriptionEntry_def)
  have t: "tables_ok ?m" by (rule tables_ok_unregister [OF assms(1)])
  have "tables_ok (disposeSubscriptionEntry r eid u ?m)"
    using tables_ok_idle(1) [OF t, of eid] len by (simp add: disposeSubscriptionEntry_def Let_def)
  moreover have "others_ok eid (disposeSubscriptionEntry r eid u ?m)"
    by (rule others_ok_step [OF assms(2)])
      (use len in \<open>auto simp: disposeSubscriptionEntry_def Let_def unregister_owner [OF assms(1) own]\<close>)
  moreover have "view_ok (disposeSubscriptionEntry r eid u ?m) eid"
    using len assms(4-) by (cases "me_phase (entry_at m eid)")
      (auto simp: view_ok_def entry_ok_def entry_core_def timer_ok_def disposeSubscriptionEntry_def Let_def
        unregister_owner [OF assms(1) own])
  ultimately show ?thesis unfolding fin using heap_okI by blast
qed


text \<open>The parts of \<open>entry_core\<close> and \<open>timer_ok\<close> at a registered and at a finalized entry.\<close>

lemma core_registered:
  assumes "entry_core ids (Some r) cs e"
  shows "\<not> me_localDisposed e" "\<not> me_unsubscribeSent e" "\<not> me_unsubscribeAfterSubscribe e"
    "me_refCount e = int (length (me_holders e))" "me_phase e \<noteq> WaitingCreate \<longrightarrow> cs = [CallSubscribe r]"
    "distinct (map fst (me_holders e))" "\<forall>i\<in>fst ` set (me_holders e). i \<le> ids" "wire_ok (me_phase e) False cs"
  using assms by (auto simp: entry_core_def)

lemma finalize_registered:
  assumes "tables_ok m" and "others_ok eid m" and own: "owner_uri m eid = Some r"
    and "entry_core (mgr_referenceOwnerIds m) (Some r) (calls_of m eid) (entry_at m eid)"
    and "me_phase (entry_at m eid) \<noteq> Subscribing"
  shows "tables_ok (finalizeSubscriptionEntry r eid (me_phase (entry_at m eid) = Settled) m)
       \<and> heap_ok (finalizeSubscriptionEntry r eid (me_phase (entry_at m eid) = Settled) m)"
  using core_registered [OF assms(4)] assms(5) by (intro finalize_ok [OF assms(1-3)]) auto

lemma expire_ok:
  assumes tables: "tables_ok m" and others: "others_ok eid m" and own: "owner_uri m eid = Some r"
    and core: "entry_core (mgr_referenceOwnerIds m) (Some r) (calls_of m eid) (entry_at m eid)"
    and timer: "\<not> me_releaseTimer (entry_at m eid)" and ref: "me_refCount (entry_at m eid) \<le> 0"
  shows "tables_ok (expireSubscriptionRelease r eid m) \<and> heap_ok (expireSubscriptionRelease r eid m)"
proof -
  let ?m = "update_entry eid (\<lambda>e. e\<lparr>me_releaseExpired := True\<rparr>) (m\<lparr>mgr_idle := AList.delete eid (mgr_idle m)\<rparr>)"
  have len: "eid < length (mgr_heap m)" using owner_less [OF tables own] .
  have look: "lookup_sub m r = Some eid" using own lookup_owner [OF tables] by simp
  have t: "tables_ok ?m" using tables_ok_idle(1) [OF tables, of eid] by simp
  have o: "others_ok eid ?m" by (rule others_ok_step [OF others]) (use len in auto)
  have own': "owner_uri ?m eid = Some r" using own by simp
  have core': "entry_core (mgr_referenceOwnerIds ?m) (Some r) (calls_of ?m eid) (entry_at ?m eid)"
    using core len by (auto simp: entry_core_def)
  show ?thesis
  proof (cases "me_phase (entry_at m eid)")
    case Subscribing
    have "expireSubscriptionRelease r eid m = ?m"
      using look ref len Subscribing by (simp add: expireSubscriptionRelease_def Let_def)
    moreover have "heap_ok ?m"
      by (rule heap_okI [OF o]) (use core' own timer len Subscribing in
          \<open>auto simp: view_ok_def entry_ok_def timer_ok_def\<close>)
    ultimately show ?thesis using t by simp
  next
    case WaitingCreate
    with look ref len finalize_registered [OF t o own' core'] show ?thesis
      by (simp add: expireSubscriptionRelease_def Let_def)
  next
    case Settled
    with look ref len finalize_registered [OF t o own' core'] show ?thesis
      by (simp add: expireSubscriptionRelease_def Let_def)
  qed
qed


lemma heap_ok_core:
  assumes "heap_ok m" and "tables_ok m" and "owner_uri m eid = Some r"
  shows "entry_core (mgr_referenceOwnerIds m) (Some r) (calls_of m eid) (entry_at m eid)"
    "timer_ok (Some r) (idle_uri m eid) (entry_at m eid)"
  using assms owner_less [OF assms(2,3)] by (auto simp: heap_ok_def view_ok_def entry_ok_def)

lemma idle_registered:
  assumes "heap_ok m" and "tables_ok m" and "idle_uri m eid = Some r"
  shows "owner_uri m eid = Some r \<and> me_refCount (entry_at m eid) \<le> 0"
proof -
  have "eid < length (mgr_heap m)" using assms(2,3) by (force simp: idle_uri_def tables_ok_def dest!: map_of_SomeD)
  with assms(1) have "timer_ok (owner_uri m eid) (idle_uri m eid) (entry_at m eid)"
    by (simp add: heap_ok_def view_ok_def entry_ok_def)
  with assms(3) show ?thesis by (auto simp: timer_ok_def split: option.splits)
qed

lemma expire_idle_ok:
  assumes "tables_ok m" and "heap_ok m" and "idle_uri m eid = Some r"
  defines "m1 \<equiv> update_entry eid (\<lambda>e. e\<lparr>me_releaseTimer := False\<rparr>) m"
  shows "tables_ok (expireSubscriptionRelease r eid m1) \<and> heap_ok (expireSubscriptionRelease r eid m1)"
proof -
  have own: "owner_uri m eid = Some r" and ref: "me_refCount (entry_at m eid) \<le> 0"
    using idle_registered [OF assms(2,1,3)] by auto
  have len: "eid < length (mgr_heap m)" using owner_less [OF assms(1) own] .
  have "others_ok eid m1" unfolding m1_def
    by (rule others_ok_step [OF others_okI [OF assms(2)]]) auto
  moreover have "entry_core (mgr_referenceOwnerIds m1) (Some r) (calls_of m1 eid) (entry_at m1 eid)"
    using heap_ok_core(1) [OF assms(2,1) own] len by (auto simp: m1_def entry_core_def)
  ultimately show ?thesis using own ref assms(1) len by (intro expire_ok) (auto simp: m1_def)
qed

lemma evict_idle_ok:
  "tables_ok m \<Longrightarrow> heap_ok m \<Longrightarrow> tables_ok (evict_idle m) \<and> heap_ok (evict_idle m)"
proof (induction m rule: evict_idle.induct)
  case (1 m)
  show ?case
  proof (cases "int (length (mgr_idle m)) \<le> mgr_maxIdle m \<or> mgr_idle m = []")
    case True
    with 1 show ?thesis by (subst (1 2) evict_idle.simps) auto
  next
    case False
    then obtain eid r rest where idle: "mgr_idle m = (eid, r) # rest" by (cases "mgr_idle m") auto
    then have "idle_uri m eid = Some r" by (simp add: idle_uri_def)
    from expire_idle_ok [OF 1(2,3) this] 1(1) False idle show ?thesis
      by (subst (1 2) evict_idle.simps) simp
  qed
qed

lemma evict_idle_bound: "int (length (mgr_idle (evict_idle m))) \<le> max 0 (mgr_maxIdle (evict_idle m))"
proof (induction m rule: evict_idle.induct)
  case (1 m)
  then show ?case
    by (subst (1 2) evict_idle.simps) (auto split: list.split)
qed


lemma fixed_fields [simp]:
  "mgr_maxIdle (disposeSubscriptionEntry r i u m) = mgr_maxIdle m"
  "mgr_isDisposed (disposeSubscriptionEntry r i u m) = mgr_isDisposed m"
  "mgr_subs (disposeSubscriptionEntry r i u m) = mgr_subs m"
  "length (mgr_heap (disposeSubscriptionEntry r i u m)) = length (mgr_heap m)"
  "mgr_maxIdle (finalizeSubscriptionEntry r i u m) = mgr_maxIdle m"
  "mgr_isDisposed (finalizeSubscriptionEntry r i u m) = mgr_isDisposed m"
  "mgr_idle (finalizeSubscriptionEntry r i u m) = AList.delete i (mgr_idle m)"
  "mgr_maxIdle (expireSubscriptionRelease r i m) = mgr_maxIdle m"
  "mgr_isDisposed (expireSubscriptionRelease r i m) = mgr_isDisposed m"
  by (simp_all add: disposeSubscriptionEntry_def finalizeSubscriptionEntry_def expireSubscriptionRelease_def Let_def
      split: sub_phase.split)

lemma evict_fixed [simp]:
  "mgr_maxIdle (evict_idle m) = mgr_maxIdle m \<and> mgr_isDisposed (evict_idle m) = mgr_isDisposed m"
proof (induction m rule: evict_idle.induct)
  case (1 m)
  then show ?case by (subst (1 2) evict_idle.simps) (auto split: list.split)
qed

definition idle_bounded :: "manager \<Rightarrow> bool" where
  "idle_bounded m \<longleftrightarrow> int (length (mgr_idle m)) \<le> max 0 (mgr_maxIdle m)"

lemma bounded_delete: "idle_bounded m \<Longrightarrow> int (length (AList.delete i (mgr_idle m))) \<le> max 0 (mgr_maxIdle m)"
  using AList.length_delete_le [of i "mgr_idle m"] by (simp add: idle_bounded_def)

lemma schedule_ok:
  assumes tables: "tables_ok m" and others: "others_ok eid m" and own: "owner_uri m eid = Some r"
    and core: "entry_core (mgr_referenceOwnerIds m) (Some r) (calls_of m eid) (entry_at m eid)"
    and ref: "me_refCount (entry_at m eid) \<le> 0" and bound: "idle_bounded m"
  shows "tables_ok (scheduleSubscriptionRelease r eid m) \<and> heap_ok (scheduleSubscriptionRelease r eid m)
       \<and> idle_bounded (scheduleSubscriptionRelease r eid m)"
proof -
  let ?c = "cancelScheduledRelease eid m"
  have len: "eid < length (mgr_heap m)" using owner_less [OF tables own] .
  have t: "tables_ok ?c" using tables_ok_idle(1) [OF tables, of eid] by (simp add: cancelScheduledRelease_def)
  have o: "others_ok eid ?c"
    by (rule others_ok_step [OF others]) (auto simp: cancelScheduledRelease_def)
  have own': "owner_uri ?c eid = Some r" using own by (simp add: cancelScheduledRelease_def)
  have core': "entry_core (mgr_referenceOwnerIds ?c) (Some r) (calls_of ?c eid) (entry_at ?c eid)"
    using core len by (auto simp: cancelScheduledRelease_def entry_core_def)
  have ref': "me_refCount (entry_at ?c eid) \<le> 0" and timer: "\<not> me_releaseTimer (entry_at ?c eid)"
    using ref len by (auto simp: cancelScheduledRelease_def)
  have idle: "mgr_idle ?c = AList.delete eid (mgr_idle m)" "mgr_maxIdle ?c = mgr_maxIdle m"
    by (simp_all add: cancelScheduledRelease_def)
  show ?thesis
  proof (cases "mgr_releaseGraceMs ?c \<le> 0 \<or> mgr_maxIdle ?c \<le> 0")
    case True
    then show ?thesis
      using expire_ok [OF t o own' core' timer ref'] bounded_delete [OF bound, of eid] idle
      by (simp add: scheduleSubscriptionRelease_def Let_def idle_bounded_def idle_expire AList.delete_idem)
  next
    case False
    let ?s = "update_entry eid (\<lambda>e. e\<lparr>me_releaseTimer := True\<rparr>) (?c\<lparr>mgr_idle := AList.update eid r (mgr_idle ?c)\<rparr>)"
    have len': "eid < length (mgr_heap ?c)" using owner_less [OF t own'] .
    have "tables_ok ?s" using tables_ok_idle(2) [OF t len'] by simp
    moreover have "others_ok eid ?s" by (rule others_ok_step [OF o]) auto
    then have "heap_ok ?s"
      by (rule heap_okI) (use core' own' len' ref' in \<open>auto simp: view_ok_def entry_ok_def timer_ok_def entry_core_def\<close>)
    ultimately show ?thesis
      using evict_idle_ok [of ?s] evict_idle_bound [of ?s] False
      by (simp add: scheduleSubscriptionRelease_def Let_def idle_bounded_def)
  qed
qed

lemma expire_idle_bounded:
  "idle_bounded m \<Longrightarrow> idle_bounded (expireSubscriptionRelease r i (update_entry i f m))"
  using bounded_delete [of m i] by (simp add: idle_bounded_def idle_expire)

section \<open>References\<close>

lemma alist_update_new: "k \<notin> fst ` set xs \<Longrightarrow> AList.update k v xs = xs @ [(k, v)]"
  by (induction xs) auto

lemma length_delete_present:
  "distinct (map fst xs) \<Longrightarrow> map_of xs k \<noteq> None \<Longrightarrow> Suc (length (AList.delete k xs)) = length xs"
  by (induction xs) (auto split: if_splits)

lemma disposeReference_ok:
  assumes ok: "tables_ok m" "heap_ok m" and bound: "idle_bounded m" and len: "eid < length (mgr_heap m)"
    and res: "owner_uri m eid = None \<or> owner_uri m eid = Some r"
  shows "tables_ok (disposeReference r eid i m) \<and> heap_ok (disposeReference r eid i m)
       \<and> idle_bounded (disposeReference r eid i m)"
proof (cases "map_of (me_holders (entry_at m eid)) i")
  case None
  with assms show ?thesis by (simp add: disposeReference_def)
next
  case (Some owner)
  let ?d = "update_entry eid (\<lambda>e. e\<lparr>me_holders := AList.delete i (me_holders e)\<rparr>) m"
  let ?r = "update_entry eid (\<lambda>e. e\<lparr>me_refCount := me_refCount e - 1\<rparr>) ?d"
  have view: "view_ok m eid" using ok(2) len by (simp add: heap_ok_def)
  have others: "others_ok eid ?d" "others_ok eid ?r"
    by (rule others_ok_step [OF others_okI [OF ok(2)]]; simp)+
  have holders: "distinct (map fst (AList.delete i (me_holders (entry_at m eid))))"
    "\<forall>k\<in>fst ` set (AList.delete i (me_holders (entry_at m eid))). k \<le> mgr_referenceOwnerIds m"
    using view by (auto simp: view_ok_def entry_ok_def entry_core_def distinct_delete dest: set_deleteD)
  have dispose: "disposeReference r eid i m = releaseSubscription r eid ?d" using Some by (simp add: disposeReference_def)
  show ?thesis
  proof (cases "owner_uri m eid")
    case None
    then have "lookup_sub ?d r \<noteq> Some eid" using lookup_owner [OF ok(1)] by simp
    then have "disposeReference r eid i m = ?d" by (simp add: dispose releaseSubscription_def)
    moreover have "heap_ok ?d"
      by (rule heap_okI [OF others(1)])
        (use view holders len None in \<open>auto simp: view_ok_def entry_ok_def entry_core_def timer_ok_def\<close>)
    ultimately show ?thesis using ok bound by (simp add: idle_bounded_def)
  next
    case own: (Some r')
    with res have [simp]: "r' = r" by simp
    have look: "lookup_sub m r = Some eid" using own lookup_owner [OF ok(1)] by simp
    have core: "entry_core (mgr_referenceOwnerIds m) (Some r) (calls_of m eid) (entry_at m eid)"
      and timer: "timer_ok (Some r) (idle_uri m eid) (entry_at m eid)"
      using heap_ok_core [OF ok(2,1)] own by auto
    have count: "me_refCount (entry_at m eid) - 1 = int (length (AList.delete i (me_holders (entry_at m eid))))"
      using length_delete_present [of "me_holders (entry_at m eid)" i] core Some by (auto simp: entry_core_def)
    have core': "entry_core (mgr_referenceOwnerIds ?r) (Some r) (calls_of ?r eid) (entry_at ?r eid)"
      using core count holders len by (auto simp: entry_core_def)
    show ?thesis
    proof (cases "me_refCount (entry_at m eid) - 1 \<le> 0")
      case True
      then have "disposeReference r eid i m = scheduleSubscriptionRelease r eid ?r"
        using look len by (simp add: dispose releaseSubscription_def Let_def)
      with schedule_ok [OF _ others(2) _ core'] ok(1) own True len bound show ?thesis
        by (simp add: idle_bounded_def)
    next
      case False
      then have "disposeReference r eid i m = ?r" using look len by (simp add: dispose releaseSubscription_def Let_def)
      moreover have "heap_ok ?r"
        by (rule heap_okI [OF others(2)])
          (use core' timer own False len in \<open>auto simp: view_ok_def entry_ok_def timer_ok_def\<close>)
      ultimately show ?thesis using ok bound by (simp add: idle_bounded_def)
    qed
  qed
qed


lemma entry_core_mono: "entry_core ids uri cs e \<Longrightarrow> ids \<le> ids' \<Longrightarrow> entry_core ids' uri cs e"
  by (force simp: entry_core_def)

lemma view_ok_ids: "view_ok m x \<Longrightarrow> mgr_referenceOwnerIds m \<le> n \<Longrightarrow> view_ok (m\<lparr>mgr_referenceOwnerIds := n\<rparr>) x"
  by (auto simp: view_ok_def entry_ok_def intro: entry_core_mono)

lemma core_acquire:
  assumes "entry_core ids uri cs e" and "uri \<noteq> None"
  shows "entry_core (Suc ids) uri cs
    (e\<lparr>me_refCount := me_refCount e + 1, me_holders := AList.update (Suc ids) owner (me_holders e)\<rparr>)"
proof -
  have "Suc ids \<notin> fst ` set (me_holders e)" using assms(1) by (force simp: entry_core_def)
  with assms show ?thesis
    by (force simp: entry_core_def alist_update_new split: option.splits)
qed

lemma acquire_existing_ok:
  assumes ok: "tables_ok m" "heap_ok m" and bound: "idle_bounded m" and own: "owner_uri m eid = Some r"
  defines "m1 \<equiv> update_entry eid (\<lambda>e. e\<lparr>me_refCount := me_refCount e + 1\<rparr>) (cancelScheduledRelease eid m)"
  shows "tables_ok (fst (acquireReference eid owner m1)) \<and> heap_ok (fst (acquireReference eid owner m1))
       \<and> idle_bounded (fst (acquireReference eid owner m1))"
proof -
  let ?m = "fst (acquireReference eid owner m1)"
  note defs = m1_def acquireReference_def Let_def cancelScheduledRelease_def
  have len: "eid < length (mgr_heap m)" using owner_less [OF ok(1) own] .
  have "tables_ok ?m" using tables_ok_idle(1) [OF ok(1), of eid] by (simp add: defs)
  moreover have "heap_ok ?m"
  proof (rule heap_okI)
    show "others_ok eid ?m"
      using ok(2) view_ok_ids unfolding others_ok_def heap_ok_def
      by (auto simp: defs view_ok_def entry_ok_def intro: entry_core_mono)
    have "entry_core (Suc (mgr_referenceOwnerIds m)) (Some r) (calls_of m eid) (entry_at ?m eid)"
      using core_acquire [OF heap_ok_core(1) [OF ok(2,1) own], of owner] len
      by (auto simp: defs entry_core_def)
    then show "view_ok ?m eid"
      using len own by (auto simp: defs view_ok_def entry_ok_def timer_ok_def entry_core_def)
  qed
  moreover have "idle_bounded ?m" using bounded_delete [OF bound, of eid] by (simp add: defs idle_bounded_def)
  ultimately show ?thesis by blast
qed

section \<open>New entries and their continuations\<close>

lemma start_subscribe_ok:
  assumes ok: "tables_ok m" "heap_ok m" and waiting: "me_phase (entry_at m eid) = WaitingCreate"
  shows "tables_ok (start_subscribe r eid m) \<and> heap_ok (start_subscribe r eid m)"
proof (cases "lookup_sub m r = Some eid \<and> \<not> me_localDisposed (entry_at m eid)")
  case False
  with ok show ?thesis by (auto simp: start_subscribe_def)
next
  case True
  then have own: "owner_uri m eid = Some r" using lookup_owner [OF ok(1)] by simp
  have len: "eid < length (mgr_heap m)" using owner_less [OF ok(1) own] .
  let ?m = "start_subscribe r eid m"
  have m: "?m = send eid (CallSubscribe r) (update_entry eid (\<lambda>e. e\<lparr>me_phase := Subscribing\<rparr>) m)"
    using True by (simp add: start_subscribe_def)
  have "others_ok eid ?m" by (rule others_ok_step [OF others_okI [OF ok(2)]]) (auto simp: m)
  then have "heap_ok ?m"
    by (rule heap_okI) (use heap_ok_core [OF ok(2,1) own] own len waiting in
        \<open>auto simp: m view_ok_def entry_ok_def entry_core_def timer_ok_def\<close>)
  then show ?thesis using ok(1) len by (simp add: m)
qed

lemma map_of_swap_None: "map_of (map prod.swap xs) x = None \<longleftrightarrow> x \<notin> snd ` set xs"
  by (simp add: map_of_eq_None_iff image_image)

lemma unused_index:
  assumes "tables_ok m"
  shows "idle_uri m (length (mgr_heap m)) = None" "calls_of m (length (mgr_heap m)) = []"
proof -
  have "length (mgr_heap m) \<notin> fst ` set (mgr_idle m)" using assms by (auto simp: tables_ok_def)
  then show "idle_uri m (length (mgr_heap m)) = None" by (simp add: idle_uri_def map_of_eq_None_iff)
  have "\<forall>p\<in>set (mgr_sent m). fst p \<noteq> length (mgr_heap m)" using assms by (auto simp: tables_ok_def)
  then show "calls_of m (length (mgr_heap m)) = []" by (simp add: calls_of_def filter_empty_conv)
qed

lemma create_fields:
  fixes m :: manager and e :: managed_entry
  assumes "tables_ok m" and "lookup_sub m r = None"
  defines "m1 \<equiv> m\<lparr>mgr_heap := mgr_heap m @ [e], mgr_subs := AList.update r (length (mgr_heap m)) (mgr_subs m)\<rparr>"
  shows "tables_ok m1" "length (mgr_heap m1) = Suc (length (mgr_heap m))" "mgr_referenceOwnerIds m1 = mgr_referenceOwnerIds m"
    "owner_uri m1 x = (if x = length (mgr_heap m) then Some r else owner_uri m x)"
    "idle_uri m1 x = idle_uri m x" "calls_of m1 x = calls_of m x"
    "entry_at m1 (length (mgr_heap m)) = e" "x < length (mgr_heap m) \<Longrightarrow> entry_at m1 x = entry_at m x"
proof -
  have fresh: "r \<notin> fst ` set (mgr_subs m)"
    using assms(2) by (auto simp: lookup_sub_def map_of_eq_None_iff)
  have subs: "mgr_subs m1 = mgr_subs m @ [(r, length (mgr_heap m))]"
    by (simp add: m1_def alist_update_new [OF fresh])
  have new: "length (mgr_heap m) \<notin> snd ` set (mgr_subs m)" "length (mgr_heap m) \<notin> fst ` set (mgr_idle m)"
    using assms(1) by (auto simp: tables_ok_def)
  show "tables_ok m1" using assms(1) fresh new(1) unfolding tables_ok_def subs
    by (auto simp: m1_def less_Suc_eq)
  show "owner_uri m1 x = (if x = length (mgr_heap m) then Some r else owner_uri m x)"
    using new(1) map_of_swap_None [of "mgr_subs m" "length (mgr_heap m)"] unfolding owner_uri_def subs
    by (auto simp: map_add_def split: option.split)
  show "entry_at m1 (length (mgr_heap m)) = e" "x < length (mgr_heap m) \<Longrightarrow> entry_at m1 x = entry_at m x"
    by (simp_all add: m1_def entry_at_def nth_append)
qed (simp_all add: m1_def idle_uri_def calls_of_def)


lemma acquire_others:
  assumes "others_ok eid m"
  shows "others_ok eid (fst (acquireReference eid owner m))"
  using assms entry_core_mono [of "mgr_referenceOwnerIds m" _ _ _ "Suc (mgr_referenceOwnerIds m)"]
  by (auto simp: others_ok_def view_ok_def entry_ok_def acquireReference_def Let_def)

lemma acquire_start_commute:
  assumes "eid < length (mgr_heap m)"
  shows "fst (acquireReference eid owner (start_subscribe r eid m)) = start_subscribe r eid (fst (acquireReference eid owner m))"
  using assms by (cases m; cases "mgr_heap m ! eid")
    (auto simp: acquireReference_def start_subscribe_def Let_def update_entry_def send_def lookup_sub_def entry_at_def)

lemma create_entry_ok:
  assumes ok: "tables_ok m" "heap_ok m" and bound: "idle_bounded m" and fresh: "lookup_sub m r = None"
  shows "tables_ok (fst (create_entry kind r sub owner m)) \<and> heap_ok (fst (create_entry kind r sub owner m))
       \<and> idle_bounded (fst (create_entry kind r sub owner m))"
proof -
  let ?e = "new_entry kind sub" and ?n = "length (mgr_heap m)"
  let ?m1 = "m\<lparr>mgr_heap := mgr_heap m @ [?e], mgr_subs := AList.update r ?n (mgr_subs m)\<rparr>"
  let ?a = "fst (acquireReference ?n owner ?m1)"
  note new = create_fields [OF ok(1) fresh, where e = ?e] unused_index [OF ok(1)]
  have len: "?n < length (mgr_heap ?m1)" by simp
  have t: "tables_ok ?a" using new(1) by (simp add: acquireReference_def Let_def)
  have "view_ok ?m1 x" if "x < ?n" for x
    using ok(2) that by (simp add: heap_ok_def view_ok_def new(3,4) idle_uri_def calls_of_def entry_at_def nth_append)
  then have "others_ok ?n ?m1" unfolding others_ok_def new(2) by (simp add: less_Suc_eq)
  then have "others_ok ?n ?a" by (rule acquire_others)
  then have e: "heap_ok ?a"
    by (rule heap_okI) (use new len in
      \<open>auto simp: acquireReference_def Let_def view_ok_def entry_ok_def entry_core_def timer_ok_def new_entry_def\<close>)
  have b: "idle_bounded ?a" using bound by (simp add: idle_bounded_def acquireReference_def Let_def)
  have waiting: "me_phase (entry_at ?a ?n) = WaitingCreate"
    using new(7) len by (simp add: acquireReference_def Let_def new_entry_def)
  have idle: "mgr_idle (start_subscribe r ?n ?a) = mgr_idle ?a" "mgr_maxIdle (start_subscribe r ?n ?a) = mgr_maxIdle ?a"
    by (simp_all add: start_subscribe_def)
  show ?thesis
  proof (cases "map_of (mgr_inflight m) r")
    case None
    then have "fst (create_entry kind r sub owner m) = start_subscribe r ?n ?a"
      by (simp add: create_entry_def Let_def acquire_start_commute [OF len])
    with start_subscribe_ok [OF t e waiting] b idle show ?thesis by (simp add: idle_bounded_def)
  next
    case (Some promise)
    then have "fst (create_entry kind r sub owner m) = ?a" by (simp add: create_entry_def Let_def)
    with t e b show ?thesis by simp
  qed
qed


lemma createSubscription_cases:
  obtains err where "createSubscription kind r c = Inl err" | sub where "createSubscription kind r c = Inr sub"
  by (cases "createSubscription kind r c") auto

lemma getSubscription_ok:
  assumes ok: "tables_ok m" "heap_ok m" and bound: "idle_bounded m"
  shows "tables_ok (fst (getSubscription kind r owner m)) \<and> heap_ok (fst (getSubscription kind r owner m))
       \<and> idle_bounded (fst (getSubscription kind r owner m))"
proof (cases "mgr_isDisposed m")
  case True
  with assms show ?thesis by (simp add: getSubscription_def)
next
  case False
  let ?fresh = "\<lambda>m. case createSubscription kind r (mgr_clientId m) of
                 Inl e \<Rightarrow> (m, Inl e) | Inr sub \<Rightarrow> (let (m', i) = create_entry kind r sub owner m in (m', Inr i))"
  have fresh: "tables_ok (fst (?fresh m')) \<and> heap_ok (fst (?fresh m')) \<and> idle_bounded (fst (?fresh m'))"
    if "tables_ok m'" "heap_ok m'" "idle_bounded m'" "lookup_sub m' r = None" for m'
    using that create_entry_ok [OF that] by (auto split: sum.split prod.split) (metis fst_conv)+
  show ?thesis
  proof (cases "lookup_sub m r")
    case None
    with False fresh [OF ok bound None] show ?thesis by (simp add: getSubscription_def Let_def)
  next
    case (Some eid)
    then have own: "owner_uri m eid = Some r" using lookup_owner [OF ok(1)] by simp
    show ?thesis
    proof (cases "managed_error (me_sub (entry_at m eid)) \<noteq> None \<and> me_phase (entry_at m eid) = Settled")
      case True
      let ?f = "finalizeSubscriptionEntry r eid True m"
      have "tables_ok ?f \<and> heap_ok ?f"
        using finalize_registered [OF ok(1) others_okI [OF ok(2)] own heap_ok_core(1) [OF ok(2,1) own]] True by simp
      moreover have "idle_bounded ?f" using bounded_delete [OF bound] by (simp add: idle_bounded_def)
      moreover have "lookup_sub ?f r = None"
        using Some by (simp add: finalizeSubscriptionEntry_def lookup_sub_def delete_conv')
      ultimately show ?thesis using fresh [of ?f] True False Some by (simp add: getSubscription_def Let_def)
    next
      case False
      with Some acquire_existing_ok [OF ok bound own, of owner] \<open>\<not> mgr_isDisposed m\<close> show ?thesis
        by (auto simp: getSubscription_def Let_def split: prod.split)
    qed
  qed
qed


lemma afterCreate_ok:
  "tables_ok m \<Longrightarrow> heap_ok m \<Longrightarrow> idle_bounded m \<Longrightarrow>
   tables_ok (afterCreate r eid m) \<and> heap_ok (afterCreate r eid m) \<and> idle_bounded (afterCreate r eid m)"
  using start_subscribe_ok [of m eid r] by (auto simp: afterCreate_def start_subscribe_def idle_bounded_def)

text \<open>Only the subscription object of an entry changes.\<close>

lemma update_sub_views:
  "view_ok (update_entry i (\<lambda>e. e\<lparr>me_sub := f (me_sub e)\<rparr>) m) x = view_ok m x"
proof (cases "i < length (mgr_heap m)")
  case True
  then show ?thesis by (auto simp: view_ok_def entry_ok_def entry_core_def timer_ok_def split: option.split)
next
  case False
  then have "update_entry i (\<lambda>e. e\<lparr>me_sub := f (me_sub e)\<rparr>) m = m" by (simp add: update_entry_def list_update_beyond)
  then show ?thesis by simp
qed

lemma update_sub_ok:
  assumes "tables_ok m" "heap_ok m" "idle_bounded m"
  shows "tables_ok (update_entry i (\<lambda>e. e\<lparr>me_sub := f (me_sub e)\<rparr>) m)
    \<and> heap_ok (update_entry i (\<lambda>e. e\<lparr>me_sub := f (me_sub e)\<rparr>) m)
    \<and> idle_bounded (update_entry i (\<lambda>e. e\<lparr>me_sub := f (me_sub e)\<rparr>) m)"
  using assms by (simp add: heap_ok_def update_sub_views idle_bounded_def)

lemma deliver_fields:
  "\<exists>f. deliver_snapshot r eid answer m = update_entry eid (\<lambda>e. e\<lparr>me_sub := f (me_sub e)\<rparr>) m"
proof -
  have same: "update_entry eid (\<lambda>e. e\<lparr>me_sub := me_sub e\<rparr>) m = m" by (simp add: update_entry_def)
  show ?thesis
  proof (cases "lookup_sub m r = Some eid")
    case False
    then show ?thesis using same by (intro exI [of _ "\<lambda>s. s"]) (simp add: deliver_snapshot_def)
  next
    case True
    then show ?thesis by (cases answer) (auto simp: deliver_snapshot_def split: prod.split)
  qed
qed

lemma afterSubscribe_ok:
  assumes ok: "tables_ok m" "heap_ok m" and bound: "idle_bounded m" and len: "eid < length (mgr_heap m)"
    and call: "calls_of m eid = [CallSubscribe r]"
  shows "tables_ok (afterSubscribe r eid answer m) \<and> heap_ok (afterSubscribe r eid answer m)
       \<and> idle_bounded (afterSubscribe r eid answer m)"
proof (cases "me_phase (entry_at m eid) = Subscribing")
  case False
  with ok bound show ?thesis by (simp add: afterSubscribe_def)
next
  case True
  obtain f where f: "deliver_snapshot r eid answer m = update_entry eid (\<lambda>e. e\<lparr>me_sub := f (me_sub e)\<rparr>) m"
    using deliver_fields by blast
  let ?s = "update_entry eid (\<lambda>e. e\<lparr>me_phase := Settled\<rparr>) (deliver_snapshot r eid answer m)"
  have t: "tables_ok ?s" using ok(1) by (simp add: f)
  have o: "others_ok eid ?s" by (rule others_ok_step [OF others_okI [OF ok(2)]]) (auto simp: f)
  have view: "view_ok m eid" using ok(2) len by (simp add: heap_ok_def)
  have idle: "mgr_idle ?s = mgr_idle m" "mgr_maxIdle ?s = mgr_maxIdle m" by (simp_all add: f)
  show ?thesis
  proof (cases "owner_uri m eid")
    case None
    then have after: "afterSubscribe r eid answer m = disposeSubscriptionEntry r eid True ?s"
      using True view len by (auto simp: afterSubscribe_def Let_def f view_ok_def entry_ok_def entry_core_def)
    let ?d = "disposeSubscriptionEntry r eid True ?s"
    have "tables_ok ?d" using tables_ok_idle(1) [OF ok(1), of eid] len
      by (simp add: disposeSubscriptionEntry_def Let_def f)
    moreover have "others_ok eid ?d"
      by (rule others_ok_step [OF o]) (use len in \<open>auto simp: disposeSubscriptionEntry_def Let_def f\<close>)
    then have "heap_ok ?d"
      by (rule heap_okI) (use None True view len call in
          \<open>auto simp: disposeSubscriptionEntry_def Let_def f view_ok_def entry_ok_def entry_core_def timer_ok_def\<close>)
    ultimately show ?thesis using bounded_delete [OF bound, of eid] by (simp add: after idle_bounded_def idle f)
  next
    case own: (Some r')
    have core: "entry_core (mgr_referenceOwnerIds m) (Some r') (calls_of m eid) (entry_at m eid)"
      and timer: "timer_ok (Some r') (idle_uri m eid) (entry_at m eid)"
      using heap_ok_core [OF ok(2,1) own] by auto
    have [simp]: "r' = r" using core_registered(5) [OF core] True call by simp
    have look: "lookup_sub m r = Some eid" using own lookup_owner [OF ok(1)] by simp
    have core': "entry_core (mgr_referenceOwnerIds ?s) (Some r) (calls_of ?s eid) (entry_at ?s eid)"
      using core call True len by (auto simp: entry_core_def f)
    show ?thesis
    proof (cases "me_refCount (entry_at m eid) \<le> 0 \<and> me_releaseExpired (entry_at m eid)")
      case expired: True
      have "afterSubscribe r eid answer m = finalizeSubscriptionEntry r eid True ?s"
        using True expired look core len by (auto simp: afterSubscribe_def Let_def f entry_core_def)
      moreover have "tables_ok (finalizeSubscriptionEntry r eid True ?s) \<and> heap_ok (finalizeSubscriptionEntry r eid True ?s)"
        using finalize_registered [OF t o _ core'] own len by (simp add: f)
      ultimately show ?thesis using bounded_delete [OF bound, of eid] by (simp add: idle_bounded_def f)
    next
      case waiting: False
      have "afterSubscribe r eid answer m = ?s"
        using True waiting look core len by (auto simp: afterSubscribe_def Let_def f entry_core_def)
      moreover have "heap_ok ?s"
        by (rule heap_okI [OF o])
          (use core' timer own waiting len in \<open>auto simp: view_ok_def entry_ok_def timer_ok_def f\<close>)
      ultimately show ?thesis using t bound by (simp add: idle_bounded_def f)
    qed
  qed
qed


section \<open>Disposal of the manager\<close>

lemma dispose_subs_commute:
  "(disposeSubscriptionEntry r i u m)\<lparr>mgr_subs := b\<rparr> = disposeSubscriptionEntry r i u (m\<lparr>mgr_subs := b\<rparr>)"
proof -
  have "(m\<lparr>mgr_idle := a\<rparr>)\<lparr>mgr_subs := b\<rparr> = (m\<lparr>mgr_subs := b\<rparr>)\<lparr>mgr_idle := a\<rparr>" for a by simp
  then show ?thesis
    by (cases m) (auto simp: disposeSubscriptionEntry_def Let_def update_entry_def send_def entry_at_def)
qed

lemma dispose_entries_ok:
  "tables_ok (m\<lparr>mgr_subs := xs\<rparr>) \<Longrightarrow> heap_ok (m\<lparr>mgr_subs := xs\<rparr>) \<Longrightarrow> idle_bounded m \<Longrightarrow>
   tables_ok ((dispose_entries xs m)\<lparr>mgr_subs := []\<rparr>) \<and> heap_ok ((dispose_entries xs m)\<lparr>mgr_subs := []\<rparr>)
   \<and> idle_bounded (dispose_entries xs m)"
proof (induction xs m rule: dispose_entries.induct)
  case (1 m)
  then show ?case by simp
next
  case (2 r eid rest m)
  let ?p = "me_phase (entry_at m eid)"
  let ?f = "\<lambda>e. if ?p = Subscribing then e\<lparr>me_unsubscribeAfterSubscribe := True\<rparr> else e"
  let ?m = "update_entry eid ?f m"
  let ?n = "m\<lparr>mgr_subs := (r, eid) # rest\<rparr>" and ?d = "disposeSubscriptionEntry r eid (?p = Settled) ?m"
  have own: "owner_uri ?n eid = Some r" by (simp add: owner_uri_def)
  have len: "eid < length (mgr_heap m)" using owner_less [OF 2(3) own] by simp
  have fresh: "r \<notin> fst ` set rest" using 2(3) by (simp add: tables_ok_def)
  have core: "entry_core (mgr_referenceOwnerIds m) (Some r) (calls_of m eid) (entry_at m eid)"
    using heap_ok_core(1) [OF 2(4,3) own] by simp
  have others: "others_ok eid (?m\<lparr>mgr_subs := (r, eid) # rest\<rparr>)"
    by (rule others_ok_step [OF others_okI [OF 2(4)]]) auto
  have fin: "finalizeSubscriptionEntry r eid (?p = Settled) (?m\<lparr>mgr_subs := (r, eid) # rest\<rparr>) = ?d\<lparr>mgr_subs := rest\<rparr>"
    using fresh by (simp add: finalizeSubscriptionEntry_def lookup_sub_def dispose_subs_commute)
  have "tables_ok (?d\<lparr>mgr_subs := rest\<rparr>) \<and> heap_ok (?d\<lparr>mgr_subs := rest\<rparr>)"
    unfolding fin [symmetric]
    by (rule finalize_ok [OF _ others]) (use 2(3) own len core_registered [OF core] in auto)
  moreover have "idle_bounded ?d" using bounded_delete [OF 2(5), of eid] by (simp add: idle_bounded_def)
  moreover have "dispose_entries ((r, eid) # rest) m = dispose_entries rest ?d"
    by (simp add: update_entry_def)
  ultimately show ?case using 2(1,2) by (cases "?p = Subscribing") (simp_all add: update_entry_def)
qed

lemma idle_empty:
  assumes "tables_ok m" and "heap_ok m" and "mgr_subs m = []"
  shows "mgr_idle m = []"
proof (rule ccontr)
  assume "mgr_idle m \<noteq> []"
  then obtain eid r rest where "mgr_idle m = (eid, r) # rest" by (cases "mgr_idle m") auto
  then have "idle_uri m eid = Some r" by (simp add: idle_uri_def)
  from idle_registered [OF assms(2,1) this] assms(3) show False by (simp add: owner_uri_def)
qed

section \<open>Runs of the manager\<close>

definition manager_ok :: "manager \<Rightarrow> bool" where
  "manager_ok m \<longleftrightarrow> tables_ok m \<and> heap_ok m \<and> idle_bounded m \<and> (mgr_isDisposed m \<longrightarrow> mgr_subs m = [])"

lemma irrelevant_fields:
  "tables_ok (m\<lparr>mgr_root := x\<rparr>) = tables_ok m" "heap_ok (m\<lparr>mgr_root := x\<rparr>) = heap_ok m"
  "idle_bounded (m\<lparr>mgr_root := x\<rparr>) = idle_bounded m"
  "tables_ok (m\<lparr>mgr_inflight := y\<rparr>) = tables_ok m" "heap_ok (m\<lparr>mgr_inflight := y\<rparr>) = heap_ok m"
  "idle_bounded (m\<lparr>mgr_inflight := y\<rparr>) = idle_bounded m"
  "tables_ok (m\<lparr>mgr_isDisposed := d\<rparr>) = tables_ok m" "heap_ok (m\<lparr>mgr_isDisposed := d\<rparr>) = heap_ok m"
  "idle_bounded (m\<lparr>mgr_isDisposed := d\<rparr>) = idle_bounded m"
  by (simp_all add: tables_ok_def heap_ok_def idle_bounded_def view_ok_def owner_uri_def idle_uri_def
      calls_of_def entry_at_def)

lemma disposeManager_ok:
  assumes "manager_ok m"
  shows "manager_ok (disposeManager m)"
proof -
  let ?d = "(dispose_entries (mgr_subs m) m)\<lparr>mgr_subs := []\<rparr>"
  have "tables_ok (m\<lparr>mgr_subs := mgr_subs m\<rparr>)" "heap_ok (m\<lparr>mgr_subs := mgr_subs m\<rparr>)" "idle_bounded m"
    using assms by (simp_all add: manager_ok_def)
  from dispose_entries_ok [OF this] have d: "tables_ok ?d" "heap_ok ?d" "idle_bounded ?d"
    by (auto simp: idle_bounded_def)
  have "mgr_idle ?d = []" by (rule idle_empty [OF d(1,2)]) simp
  then have "disposeManager m = ?d\<lparr>mgr_inflight := []\<rparr>\<lparr>mgr_isDisposed := True\<rparr>"
    by (cases "dispose_entries (mgr_subs m) m") (simp add: disposeManager_def)
  with d show ?thesis by (simp add: manager_ok_def irrelevant_fields)
qed


text \<open>
  One call of a public method or one callback. A reference is disposed with the resource it was
  acquired for; a timer fires with the entry and the resource it was armed for; the answer of
  the server belongs to the subscribe call of the entry.
\<close>

inductive manager_step :: "manager \<Rightarrow> manager \<Rightarrow> bool" where
  acquired: "manager_step m (fst (getSubscription kind r owner m))"
| released: "eid < length (mgr_heap m) \<Longrightarrow> owner_uri m eid = None \<or> owner_uri m eid = Some r \<Longrightarrow>
    manager_step m (disposeReference r eid i m)"
| timer: "idle_uri m eid = Some r \<Longrightarrow> manager_step m (timerFired r eid m)"
| create_settled: "manager_step m (afterCreate r eid m)"
| answered: "calls_of m eid = [CallSubscribe r] \<Longrightarrow> manager_step m (afterSubscribe r eid answer m)"
| tracked: "manager_step m (trackSessionCreate r promise m)"
| untracked: "manager_step m (createSettled r promise m)"
| envelope: "manager_step m (fst (manager_receiveEnvelope scheme e m))"
| dispatched: "manager_step m (fst (dispatchOptimistic canon seq channel a m))"
| dropped: "manager_step m (dropPendingAction canon r seq m)"
| reconnected: "manager_step m (fst (applyReconnectSnapshot scheme canon r st n preserve m))"
| missing: "manager_step m (markSubscriptionsMissing rs m)"
| disposed: "manager_step m (disposeManager m)"

inductive_cases manager_stepE: "manager_step m m'"

abbreviation manager_runs :: "manager \<Rightarrow> manager \<Rightarrow> bool" where
  "manager_runs \<equiv> manager_step\<^sup>*\<^sup>*"

lemma manager_ok_new: "manager_ok (new_manager c grace maxIdle)"
  by (simp add: manager_ok_def new_manager_def tables_ok_def heap_ok_def idle_bounded_def)

lemma manager_ok_update_sub:
  "manager_ok m \<Longrightarrow> manager_ok (update_entry i (\<lambda>e. e\<lparr>me_sub := f (me_sub e)\<rparr>) m)"
  using update_sub_ok by (simp add: manager_ok_def)

lemma update_sub_const: "update_entry i (\<lambda>e. e\<lparr>me_sub := x\<rparr>) m = update_entry i (\<lambda>e. e\<lparr>me_sub := (\<lambda>_. x) (me_sub e)\<rparr>) m"
  by simp

lemma receive_entries_ok: "manager_ok m \<Longrightarrow> manager_ok (fst (receive_entries e xs m))"
proof (induction e xs m rule: receive_entries.induct)
  case (2 e eid rest m)
  let ?r = "managed_receive e (me_sub (entry_at m eid))"
  have "manager_ok (update_entry eid (\<lambda>x. x\<lparr>me_sub := fst ?r\<rparr>) m)"
    using manager_ok_update_sub [OF 2(2), of eid "\<lambda>_. fst ?r"] by simp
  with 2(1) [OF refl refl] show ?case by (auto simp: Let_def split: option.split)
qed simp

lemma missing_ok: "manager_ok m \<Longrightarrow> manager_ok (markSubscriptionsMissing rs m)"
proof (induction rs arbitrary: m)
  case (Cons r rs)
  have "manager_ok (case lookup_sub m r of None \<Rightarrow> m
        | Some eid \<Rightarrow> if me_phase (entry_at m eid) = Settled
            then update_entry eid (\<lambda>e. e\<lparr>me_sub := managed_setError
                   (''Subscription no longer available after reconnect: '' @ r) (managed_clearPending (me_sub e))\<rparr>) m
            else m)"
    using Cons.prems manager_ok_update_sub [OF Cons.prems] by (auto split: option.split)
  from Cons.IH [OF this] show ?case by simp
qed simp

lemma disposed_frame:
  assumes "mgr_isDisposed m" and "mgr_subs m = []"
  shows "mgr_subs (disposeReference r eid i m) = []" "mgr_subs (timerFired r eid m) = []"
    "mgr_subs (afterCreate r eid m) = []" "mgr_subs (afterSubscribe r eid answer m) = []"
proof -
  have look: "lookup_sub m r' = None" for r' using assms(2) by (simp add: lookup_sub_def)
  show "mgr_subs (disposeReference r eid i m) = []" "mgr_subs (timerFired r eid m) = []"
    "mgr_subs (afterCreate r eid m) = []"
    using assms by (simp_all add: disposeReference_def releaseSubscription_def timerFired_def
        expireSubscriptionRelease_def Let_def afterCreate_def start_subscribe_def look)
  show "mgr_subs (afterSubscribe r eid answer m) = []"
    using assms by (simp add: afterSubscribe_def Let_def deliver_snapshot_def look)
qed

lemma disposed_fixed:
  "mgr_isDisposed (disposeReference r eid i m) = mgr_isDisposed m"
  "mgr_isDisposed (timerFired r eid m) = mgr_isDisposed m"
  "mgr_isDisposed (afterCreate r eid m) = mgr_isDisposed m"
  "mgr_isDisposed (afterSubscribe r eid answer m) = mgr_isDisposed m"
  "mgr_isDisposed (fst (getSubscription kind r owner m)) = mgr_isDisposed m"
  using deliver_fields [of r eid answer m]
  by (auto simp: disposeReference_def releaseSubscription_def scheduleSubscriptionRelease_def cancelScheduledRelease_def
      timerFired_def afterCreate_def start_subscribe_def afterSubscribe_def getSubscription_def create_entry_def
      acquireReference_def Let_def split: option.split sum.split prod.split)


lemma manager_okI:
  "tables_ok m' \<and> heap_ok m' \<and> idle_bounded m' \<Longrightarrow> (mgr_isDisposed m' \<Longrightarrow> mgr_subs m' = []) \<Longrightarrow> manager_ok m'"
  by (simp add: manager_ok_def)

lemma timerFired_ok:
  assumes "manager_ok m" and "idle_uri m eid = Some r"
  shows "tables_ok (timerFired r eid m) \<and> heap_ok (timerFired r eid m) \<and> idle_bounded (timerFired r eid m)"
proof -
  have ok: "tables_ok m" "heap_ok m" "idle_bounded m" using assms(1) by (simp_all add: manager_ok_def)
  show ?thesis
    using ok expire_idle_ok [OF ok(1,2) assms(2)] expire_idle_bounded [OF ok(3)] by (simp add: timerFired_def)
qed

lemma calls_registered: "tables_ok m \<Longrightarrow> calls_of m eid \<noteq> [] \<Longrightarrow> eid < length (mgr_heap m)"
  by (force simp: calls_of_def tables_ok_def filter_empty_conv)

lemma manager_step_ok: "manager_step m m' \<Longrightarrow> manager_ok m \<Longrightarrow> manager_ok m'"
proof (induction rule: manager_step.induct)
  case (acquired m kind r owner)
  then show ?case
    using getSubscription_ok [of m kind r owner] disposed_fixed(5) [of kind r owner m]
    by (intro manager_okI) (auto simp: manager_ok_def getSubscription_def)
next
  case (released eid m r i)
  then show ?case
    using disposeReference_ok [of m eid r i] disposed_fixed(1) [of r eid i m] disposed_frame(1) [of m]
    by (intro manager_okI) (auto simp: manager_ok_def)
next
  case (timer m eid r)
  then show ?case
    using timerFired_ok [of m eid r] disposed_fixed(2) [of r eid m] disposed_frame(2) [of m]
    by (intro manager_okI) (auto simp: manager_ok_def)
next
  case (create_settled m r eid)
  then show ?case
    using afterCreate_ok [of m r eid] disposed_fixed(3) [of r eid m] disposed_frame(3) [of m]
    by (intro manager_okI) (auto simp: manager_ok_def)
next
  case (answered m eid r answer)
  then show ?case
    using afterSubscribe_ok [of m eid r answer] calls_registered [of m eid]
      disposed_fixed(4) [of r eid answer m] disposed_frame(4) [of m]
    by (intro manager_okI) (auto simp: manager_ok_def)
next
  case (envelope m scheme e)
  then have "manager_ok (m\<lparr>mgr_root := x\<rparr>)" for x by (simp add: manager_ok_def irrelevant_fields)
  then show ?case
    by (auto simp: manager_receiveEnvelope_def Let_def intro: receive_entries_ok split: option.split)
next
  case (dispatched m canon seq channel a)
  then show ?case
    using manager_ok_update_sub [of m _ "\<lambda>_. x" for x]
    by (auto simp: dispatchOptimistic_def Let_def split: option.split)
next
  case (dropped m canon r seq)
  then show ?case by (auto simp: dropPendingAction_def intro: manager_ok_update_sub split: option.split)
next
  case (reconnected m scheme canon r st n preserve)
  then have "manager_ok (m\<lparr>mgr_root := x\<rparr>)" for x by (simp add: manager_ok_def irrelevant_fields)
  with reconnected show ?case
    using manager_ok_update_sub [of m _ "\<lambda>_. x" for x]
    by (auto simp: applyReconnectSnapshot_def Let_def map_outcome_def split: option.split reconnect_state.split)
next
  case (missing m rs)
  then show ?case by (rule missing_ok)
next
  case (disposed m)
  then show ?case by (rule disposeManager_ok)
qed (auto simp: manager_ok_def irrelevant_fields trackSessionCreate_def createSettled_def)

lemma manager_runs_ok: "manager_runs (new_manager c grace k) m \<Longrightarrow> manager_ok m"
  by (induction rule: rtranclp_induct) (auto intro: manager_ok_new manager_step_ok)


section \<open>What every run guarantees\<close>

lemma registered_core:
  assumes "manager_ok m" and "lookup_sub m r = Some eid"
  shows "entry_core (mgr_referenceOwnerIds m) (Some r) (calls_of m eid) (entry_at m eid)"
    "timer_ok (Some r) (idle_uri m eid) (entry_at m eid)"
proof -
  have ok: "tables_ok m" "heap_ok m" using assms(1) by (simp_all add: manager_ok_def)
  have "owner_uri m eid = Some r" using lookup_owner [OF ok(1)] assms(2) by simp
  from heap_ok_core [OF ok(2,1) this] show
    "entry_core (mgr_referenceOwnerIds m) (Some r) (calls_of m eid) (entry_at m eid)"
    "timer_ok (Some r) (idle_uri m eid) (entry_at m eid)" by auto
qed

lemma entry_at_ok:
  assumes "manager_ok m" and "eid < length (mgr_heap m)"
  shows "entry_ok (mgr_referenceOwnerIds m) (owner_uri m eid) (idle_uri m eid) (calls_of m eid) (entry_at m eid)"
  using assms by (simp add: manager_ok_def heap_ok_def view_ok_def)

text \<open>
  C34. Along every run of the manager the reference count of a registered entry is the number of
  references to it that were handed out and not yet disposed, an entry without references is
  either in the idle table with its timer armed or waiting for the answer to its subscribe
  request after its grace period, and the idle table never exceeds its bound.
\<close>

theorem manager_reference_counts:
  assumes "manager_runs (new_manager c grace k) m" and "lookup_sub m r = Some eid"
  shows "me_refCount (entry_at m eid) = int (length (me_holders (entry_at m eid)))
    \<and> (me_holders (entry_at m eid) = [] \<longrightarrow>
         (eid, r) \<in> set (mgr_idle m) \<and> me_releaseTimer (entry_at m eid)
         \<or> me_releaseExpired (entry_at m eid) \<and> me_phase (entry_at m eid) = Subscribing)
    \<and> int (length (mgr_idle m)) \<le> max 0 (mgr_maxIdle m)"
proof -
  have ok: "manager_ok m" by (rule manager_runs_ok [OF assms(1)])
  note reg = registered_core [OF ok assms(2)]
  have "me_refCount (entry_at m eid) = int (length (me_holders (entry_at m eid)))"
    using reg(1) by (simp add: entry_core_def)
  moreover have "int (length (mgr_idle m)) \<le> max 0 (mgr_maxIdle m)"
    using ok by (simp add: manager_ok_def idle_bounded_def)
  moreover have "(eid, r) \<in> set (mgr_idle m) \<and> me_releaseTimer (entry_at m eid)
         \<or> me_releaseExpired (entry_at m eid) \<and> me_phase (entry_at m eid) = Subscribing"
    if "me_holders (entry_at m eid) = []"
    using that calculation(1) reg(2) by (auto simp: timer_ok_def idle_uri_def dest: map_of_SomeD)
  ultimately show ?thesis by blast
qed

text \<open>
  C33. The wire calls made for one entry are always one of: nothing, one subscribe, or one
  subscribe followed by one unsubscribe of the same resource. An unsubscribe is never sent
  before the subscribe was answered, and never twice.
\<close>

theorem manager_wire_order:
  assumes "manager_runs (new_manager c grace k) m" and "eid < length (mgr_heap m)"
  shows "calls_of m eid = []
    \<or> (\<exists>r. calls_of m eid = [CallSubscribe r])
    \<or> (\<exists>r. calls_of m eid = [CallSubscribe r, CallUnsubscribe r] \<and> me_phase (entry_at m eid) = Settled)"
proof -
  have "wire_ok (me_phase (entry_at m eid)) (me_unsubscribeSent (entry_at m eid)) (calls_of m eid)"
    using entry_at_ok [OF manager_runs_ok [OF assms(1)] assms(2)] by (simp add: entry_ok_def entry_core_def)
  then show ?thesis by (cases "me_phase (entry_at m eid)") (auto split: if_splits)
qed

text \<open>
  C35. Nothing stays subscribed: once every reference is disposed and no timer runs, or once the
  manager is disposed, and the answers of all subscribe requests have arrived, no resource is
  registered any more and every subscribe call has been followed by its unsubscribe.
\<close>

theorem manager_no_leak:
  assumes "manager_runs (new_manager c grace k) m"
    and quiet: "\<And>x. x < length (mgr_heap m) \<Longrightarrow> me_phase (entry_at m x) \<noteq> Subscribing"
    and free: "mgr_isDisposed m \<or> mgr_idle m = [] \<and> (\<forall>e\<in>set (mgr_heap m). me_holders e = [])"
    and "eid < length (mgr_heap m)"
  shows "mgr_subs m = [] \<and> (calls_of m eid = [] \<or> (\<exists>r. calls_of m eid = [CallSubscribe r, CallUnsubscribe r]))"
proof -
  have ok: "manager_ok m" by (rule manager_runs_ok [OF assms(1)])
  have subs: "mgr_subs m = []"
  proof (rule ccontr)
    assume "mgr_subs m \<noteq> []"
    with free ok have idle: "mgr_idle m = []" and none: "\<forall>e\<in>set (mgr_heap m). me_holders e = []"
      by (auto simp: manager_ok_def)
    obtain r x rest where subs: "mgr_subs m = (r, x) # rest" using \<open>mgr_subs m \<noteq> []\<close>
      by (cases "mgr_subs m") auto
    then have look: "lookup_sub m r = Some x" by (simp add: lookup_sub_def)
    have len: "x < length (mgr_heap m)" using ok subs by (simp add: manager_ok_def tables_ok_def)
    then have "me_holders (entry_at m x) = []" using none by (simp add: entry_at_def)
    with registered_core [OF ok look] quiet [OF len] idle show False
      by (auto simp: entry_core_def timer_ok_def idle_uri_def)
  qed
  then have "owner_uri m eid = None" by (simp add: owner_uri_def)
  with entry_at_ok [OF ok assms(4)] quiet [OF assms(4)]
  have "calls_of m eid = [] \<or> (\<exists>r. calls_of m eid = [CallSubscribe r, CallUnsubscribe r])"
    by (cases "me_phase (entry_at m eid)") (auto simp: entry_ok_def entry_core_def)
  with subs show ?thesis by blast
qed


text \<open>
  A reference to an entry that was replaced is harmless: after a failed subscription was
  evicted and a new one was made for the resource, disposing an old reference releases nothing
  of the new entry, sends nothing and removes only its own holder.
\<close>

theorem stale_disposal_harmless:
  assumes "tables_ok m" and "owner_uri m eid = None"
  shows "mgr_subs (disposeReference r eid i m) = mgr_subs m \<and> mgr_sent (disposeReference r eid i m) = mgr_sent m
    \<and> mgr_idle (disposeReference r eid i m) = mgr_idle m
    \<and> (x \<noteq> eid \<longrightarrow> entry_at (disposeReference r eid i m) x = entry_at m x)"
proof -
  have "lookup_sub m r \<noteq> Some eid" using lookup_owner [OF assms(1)] assms(2) by simp
  then show ?thesis by (auto simp: disposeReference_def releaseSubscription_def)
qed

section \<open>Reconnecting a changeset\<close>

lemma changeset_replay_total: "\<exists>s'. replay_pending changeset_applyReducer ps s = Inr s'"
proof (induction ps arbitrary: s)
  case (Cons p ps)
  have "\<exists>t. changeset_applyReducer s (snd p) = Inr t" by (cases "snd p") (simp_all add: changeset_applyReducer_def)
  with Cons show ?case by auto
qed simp

lemma changeset_snapshot_pending:
  assumes "sub_buffered s = None"
  shows "\<exists>s'. changeset_snapshot st n s = (s', None) \<and> sub_pending s' = sub_pending s \<and> sub_confirmed s' = Some st
     \<and> replay_pending changeset_applyReducer (sub_pending s) st = Inr (or_default (sub_optimistic s') st)"
proof -
  obtain t where t: "replay_pending changeset_applyReducer (sub_pending s) st = Inr t"
    using changeset_replay_total by blast
  show ?thesis
  proof (cases "sub_pending s = []")
    case True
    then show ?thesis using assms t
      by (simp add: changeset_snapshot_def handleSnapshot_def writeAhead_onSnapshotApplied_def
          base_onSnapshotApplied_def recomputeOptimistic_def)
  next
    case False
    then show ?thesis using assms t
      by (simp add: changeset_snapshot_def handleSnapshot_def writeAhead_onSnapshotApplied_def
          base_onSnapshotApplied_def recomputeOptimistic_def)
  qed
qed


section \<open>A concrete run\<close>

definition sample_acquired :: manager where
  "sample_acquired = fst (getSubscription TerminalComponent ''t'' ''view'' (new_manager ''c'' 1000 4))"

definition sample_settled :: manager where
  "sample_settled = afterSubscribe ''t'' 0 (Inl ''no such terminal'') sample_acquired"

definition sample_released :: manager where
  "sample_released = disposeReference ''t'' 0 1 sample_settled"

definition sample_expired :: manager where
  "sample_expired = timerFired ''t'' 0 sample_released"

lemma sample_manager_facts:
  "calls_of sample_acquired 0 = [CallSubscribe ''t'']"
  "length (mgr_heap sample_settled) = 1" "owner_uri sample_settled 0 = Some ''t''"
  "idle_uri sample_released 0 = Some ''t''" "lookup_sub sample_released ''t'' = Some 0"
  "length (mgr_heap sample_expired) = 1" "me_phase (entry_at sample_expired 0) = Settled"
  "mgr_idle sample_expired = []" "list_all (\<lambda>e. me_holders e = []) (mgr_heap sample_expired)"
  by code_simp+

lemma sample_manager_runs:
  "manager_runs (new_manager ''c'' 1000 4) sample_released" "manager_runs (new_manager ''c'' 1000 4) sample_expired"
proof -
  have "manager_step (new_manager ''c'' 1000 4) sample_acquired"
    unfolding sample_acquired_def by (rule acquired)
  moreover have "manager_step sample_acquired sample_settled"
    unfolding sample_settled_def by (rule answered) (rule sample_manager_facts)
  moreover have "manager_step sample_settled sample_released"
    unfolding sample_released_def by (rule released) (simp_all add: sample_manager_facts)
  ultimately show "manager_runs (new_manager ''c'' 1000 4) sample_released" by auto
  moreover have "manager_step sample_released sample_expired"
    unfolding sample_expired_def by (rule timer) (rule sample_manager_facts)
  ultimately show "manager_runs (new_manager ''c'' 1000 4) sample_expired" by auto
qed

lemma manager_reference_counts_witness:
  "me_refCount (entry_at sample_released 0) = int (length (me_holders (entry_at sample_released 0)))"
  using manager_reference_counts [OF sample_manager_runs(1) sample_manager_facts(5)] by blast

lemma manager_wire_order_witness:
  "calls_of sample_expired 0 = [] \<or> (\<exists>r. calls_of sample_expired 0 = [CallSubscribe r])
   \<or> (\<exists>r. calls_of sample_expired 0 = [CallSubscribe r, CallUnsubscribe r] \<and> me_phase (entry_at sample_expired 0) = Settled)"
  by (rule manager_wire_order [OF sample_manager_runs(2)]) (simp add: sample_manager_facts)

lemma manager_no_leak_witness:
  "mgr_subs sample_expired = []
   \<and> (calls_of sample_expired 0 = [] \<or> (\<exists>r. calls_of sample_expired 0 = [CallSubscribe r, CallUnsubscribe r]))"
  by (rule manager_no_leak [OF sample_manager_runs(2)])
    (use sample_manager_facts in \<open>auto simp: list_all_iff\<close>)

definition sample_replaced :: manager where
  "sample_replaced = fst (getSubscription TerminalComponent ''t'' ''view'' sample_settled)"

lemma sample_replaced_facts:
  "lookup_sub sample_replaced ''t'' = Some 1" "owner_uri sample_replaced 0 = None"
  "map_of (me_holders (entry_at sample_replaced 0)) 1 = Some ''view''"
  by code_simp+

lemma sample_replaced_tables: "tables_ok sample_replaced"
proof -
  have "manager_step (new_manager ''c'' 1000 4) sample_acquired"
    unfolding sample_acquired_def by (rule acquired)
  moreover have "manager_step sample_acquired sample_settled"
    unfolding sample_settled_def by (rule answered) (rule sample_manager_facts)
  moreover have "manager_step sample_settled sample_replaced"
    unfolding sample_replaced_def by (rule acquired)
  ultimately have "manager_runs (new_manager ''c'' 1000 4) sample_replaced" by auto
  then show ?thesis using manager_runs_ok by (simp add: manager_ok_def)
qed

lemma stale_disposal_harmless_witness:
  "entry_at (disposeReference ''t'' 0 1 sample_replaced) 1 = entry_at sample_replaced 1
   \<and> mgr_sent (disposeReference ''t'' 0 1 sample_replaced) = mgr_sent sample_replaced"
  using stale_disposal_harmless [OF sample_replaced_tables sample_replaced_facts(2), of "''t''" 1 1] by simp

definition sample_review_pending :: "changeset_state subscription" where
  "sample_review_pending = (new_subscription ''d'' ''c'')\<lparr>sub_confirmed := Some sample_changeset,
     sub_pending := [(1, ChangesetAct (ChangesetFilesReviewChanged review_a))]\<rparr>"

definition sample_changeset_manager :: manager where
  "sample_changeset_manager = (new_manager ''c'' 1000 4)\<lparr>
     mgr_heap := [new_entry ChangesetComponent (ChangesetSub sample_review_pending)], mgr_subs := [(''d'', 0)]\<rparr>"


end
