(* ===== verification/Changeset_Cache.thy ===== *)
theory Changeset_Cache
  imports Changeset
begin

text \<open>
  The memory policy for expanded changeset states, class \<open>AgentHostChangesetStateCache\<close> of
  \<open>node/agentHostChangesetStateCache.ts\<close>. \<open>_states\<close> is the insertion-ordered map of states,
  \<open>_lru\<close> the linked map whose keys are in order of use: \<open>set\<close> with \<open>Touch.AsNew\<close> moves a key to
  the end. \<open>canEvict\<close> is the owner's callback; it is an argument of the operations that call it.
\<close>

section \<open>State and operations\<close>

record changeset_cache =
  cc_states :: "(js_string \<times> changeset_state) list"
  cc_lru :: "js_string list"
  cc_softLimit :: "nat"

text \<open>\<open>Math.max(0, softLimit ?? 500)\<close>\<close>

definition new_changeset_cache :: "int option \<Rightarrow> changeset_cache" where
  "new_changeset_cache softLimit = \<lparr>cc_states = [], cc_lru = [], cc_softLimit = nat (or_default softLimit 500)\<rparr>"

definition cache_has :: "js_string \<Rightarrow> changeset_cache \<Rightarrow> bool" where
  "cache_has changeset c = (map_of (cc_states c) changeset \<noteq> None)"

definition lru_touch :: "js_string \<Rightarrow> js_string list \<Rightarrow> js_string list" where
  "lru_touch k ks = removeAll k ks @ [k]"

definition cache_touch :: "js_string \<Rightarrow> changeset_cache \<Rightarrow> changeset_cache" where
  "cache_touch changeset c = (if cache_has changeset c then c\<lparr>cc_lru := lru_touch changeset (cc_lru c)\<rparr> else c)"

definition cache_get :: "js_string \<Rightarrow> changeset_cache \<Rightarrow> changeset_cache \<times> changeset_state option" where
  "cache_get changeset c = (let c' = cache_touch changeset c in (c', map_of (cc_states c') changeset))"

definition cache_delete :: "js_string \<Rightarrow> changeset_cache \<Rightarrow> changeset_cache" where
  "cache_delete changeset c =
     c\<lparr>cc_states := AList.delete changeset (cc_states c), cc_lru := removeAll changeset (cc_lru c)\<rparr>"

text \<open>The two loops of \<open>_evictIfOverLimit\<close>, each over a copy of the keys.\<close>

fun evict_all :: "(js_string \<Rightarrow> bool) \<Rightarrow> js_string list \<Rightarrow> changeset_cache \<Rightarrow> changeset_cache" where
  "evict_all canEvict [] c = c"
| "evict_all canEvict (k # ks) c = evict_all canEvict ks (if canEvict k then cache_delete k c else c)"

fun evict_down :: "(js_string \<Rightarrow> bool) \<Rightarrow> js_string list \<Rightarrow> changeset_cache \<Rightarrow> changeset_cache" where
  "evict_down canEvict [] c = c"
| "evict_down canEvict (k # ks) c =
     (if length (cc_states c) \<le> cc_softLimit c then c
      else if \<not> cache_has k c then evict_down canEvict ks (c\<lparr>cc_lru := removeAll k (cc_lru c)\<rparr>)
      else evict_down canEvict ks (if canEvict k then cache_delete k c else c))"

definition evictIfOverLimit :: "(js_string \<Rightarrow> bool) \<Rightarrow> changeset_cache \<Rightarrow> changeset_cache" where
  "evictIfOverLimit canEvict c =
     (if cc_softLimit c = 0 then evict_all canEvict (cc_lru c) c else evict_down canEvict (cc_lru c) c)"

definition cache_set :: "(js_string \<Rightarrow> bool) \<Rightarrow> js_string \<Rightarrow> changeset_state \<Rightarrow> changeset_cache \<Rightarrow> changeset_cache" where
  "cache_set canEvict changeset s c =
     evictIfOverLimit canEvict (cache_touch changeset (c\<lparr>cc_states := AList.update changeset s (cc_states c)\<rparr>))"

definition cache_register ::
    "(js_string \<Rightarrow> bool) \<Rightarrow> js_string \<Rightarrow> changeset_status \<Rightarrow> changeset_cache \<Rightarrow> changeset_cache" where
  "cache_register canEvict changeset initialStatus c =
     (if cache_has changeset c then cache_touch changeset c
      else cache_set canEvict changeset
             \<lparr>cs_status = initialStatus, cs_error = None, cs_files = [], cs_operations = None\<rparr> c)"

section \<open>The two tables stay in step\<close>

definition cache_ok :: "changeset_cache \<Rightarrow> bool" where
  "cache_ok c \<longleftrightarrow> distinct (map fst (cc_states c)) \<and> distinct (cc_lru c) \<and> set (cc_lru c) = fst ` set (cc_states c)"

lemma cache_has_iff: "cache_has k c \<longleftrightarrow> k \<in> fst ` set (cc_states c)"
  by (simp add: cache_has_def map_of_eq_None_iff)

lemma keys_delete: "fst ` set (AList.delete k xs) = fst ` set xs - {k}"
proof -
  have "set (map fst (AList.delete k xs)) = set (removeAll k (map fst xs))" by (simp only: AList.delete_keys)
  then show ?thesis by simp
qed

lemma cache_ok_delete: "cache_ok c \<Longrightarrow> cache_ok (cache_delete k c)"
  by (simp add: cache_ok_def cache_delete_def distinct_delete distinct_removeAll keys_delete)

lemma cache_ok_touch: "cache_ok c \<Longrightarrow> cache_ok (cache_touch k c)"
  by (auto simp: cache_ok_def cache_touch_def cache_has_iff lru_touch_def distinct_removeAll)

lemma cache_ok_evict_all: "cache_ok c \<Longrightarrow> cache_ok (evict_all p ks c)"
  by (induction p ks c rule: evict_all.induct) (simp_all add: cache_ok_delete)

lemma cache_ok_evict_down: "cache_ok c \<Longrightarrow> cache_ok (evict_down p ks c)"
proof (induction p ks c rule: evict_down.induct)
  case (2 p k ks c)
  have "c\<lparr>cc_lru := removeAll k (cc_lru c)\<rparr> = c" if "\<not> cache_has k c"
    using that 2(3) by (simp add: cache_ok_def cache_has_iff)
  with 2 show ?case by (simp add: cache_ok_delete)
qed simp

lemma cache_ok_evict: "cache_ok c \<Longrightarrow> cache_ok (evictIfOverLimit p c)"
  by (simp add: evictIfOverLimit_def cache_ok_evict_all cache_ok_evict_down)

lemma cache_ok_set:
  assumes "cache_ok c"
  shows "cache_ok (cache_set p k s c)"
proof -
  have "cache_ok ((cache_touch k (c\<lparr>cc_states := AList.update k s (cc_states c)\<rparr>)))"
    using assms by (auto simp: cache_ok_def cache_touch_def cache_has_iff lru_touch_def distinct_removeAll
        distinct_update dom_update)
  then show ?thesis by (simp add: cache_set_def cache_ok_evict)
qed

lemma cache_ok_register: "cache_ok c \<Longrightarrow> cache_ok (cache_register p k st c)"
  by (simp add: cache_register_def cache_ok_touch cache_ok_set)


section \<open>What an eviction keeps\<close>

lemma has_delete: "cache_has x (cache_delete k c) \<longleftrightarrow> x \<noteq> k \<and> cache_has x c"
  by (simp add: cache_has_def cache_delete_def delete_conv')

lemma lru_delete: "distinct (pre @ k # ks) \<Longrightarrow> removeAll k (pre @ k # ks) = pre @ ks"
  by simp

lemma evict_all_lru:
  "cache_ok c \<Longrightarrow> cc_lru c = pre @ ks \<Longrightarrow> cc_lru (evict_all p ks c) = pre @ filter (\<lambda>k. \<not> p k) ks"
proof (induction p ks c arbitrary: pre rule: evict_all.induct)
  case (2 p k ks c)
  have d: "distinct (pre @ k # ks)" using 2(2,3) by (simp add: cache_ok_def)
  show ?case
  proof (cases "p k")
    case True
    have "cc_lru (cache_delete k c) = pre @ ks" using lru_delete [OF d] 2(3) by (simp add: cache_delete_def)
    with 2(1) [of pre] cache_ok_delete [OF 2(2)] True show ?thesis by simp
  next
    case False
    with 2(1) [of "pre @ [k]"] 2(2,3) show ?thesis by simp
  qed
qed simp

text \<open>
  The loop stops after the first \<open>i\<close> keys: of those only the pinned ones stay, and it stops
  early only because the limit is reached.
\<close>

lemma evict_down_lru:
  "cache_ok c \<Longrightarrow> cc_lru c = pre @ ks \<Longrightarrow>
   \<exists>i. cc_lru (evict_down p ks c) = pre @ filter (\<lambda>k. \<not> p k) (take i ks) @ drop i ks
     \<and> (i < length ks \<longrightarrow> length (cc_states (evict_down p ks c)) \<le> cc_softLimit c)"
proof (induction p ks c arbitrary: pre rule: evict_down.induct)
  case (2 p k ks c)
  have d: "distinct (pre @ k # ks)" using 2(3,4) by (simp add: cache_ok_def)
  have has: "cache_has k c"
  proof -
    have "k \<in> set (cc_lru c)" using 2(4) by simp
    then show ?thesis using 2(3) by (simp add: cache_ok_def cache_has_iff)
  qed
  show ?case
  proof (cases "length (cc_states c) \<le> cc_softLimit c")
    case True
    with 2(4) show ?thesis by (intro exI [of _ 0]) simp
  next
    case False
    let ?c = "if p k then cache_delete k c else c" and ?pre = "if p k then pre else pre @ [k]"
    have "cc_lru ?c = ?pre @ ks" using lru_delete [OF d] 2(4) by (simp add: cache_delete_def)
    moreover have "cache_ok ?c" using 2(3) by (simp add: cache_ok_delete)
    ultimately obtain i where "cc_lru (evict_down p ks ?c) = ?pre @ filter (\<lambda>k. \<not> p k) (take i ks) @ drop i ks"
      "i < length ks \<longrightarrow> length (cc_states (evict_down p ks ?c)) \<le> cc_softLimit ?c"
      using 2(2) [OF False] has by blast
    then show ?thesis using False has
      by (intro exI [of _ "Suc i"]) (auto simp: cache_delete_def)
  qed
qed simp

lemma evict_lru:
  assumes "cache_ok c"
  shows "\<exists>i. cc_lru (evictIfOverLimit p c) = filter (\<lambda>k. \<not> p k) (take i (cc_lru c)) @ drop i (cc_lru c)
     \<and> (i < length (cc_lru c) \<longrightarrow> length (cc_states (evictIfOverLimit p c)) \<le> cc_softLimit c)"
proof (cases "cc_softLimit c = 0")
  case True
  then show ?thesis using evict_all_lru [OF assms, of "[]" "cc_lru c" p]
    by (intro exI [of _ "length (cc_lru c)"]) (simp add: evictIfOverLimit_def)
next
  case False
  then show ?thesis using evict_down_lru [OF assms, of "[]" "cc_lru c" p] by (simp add: evictIfOverLimit_def)
qed

lemma evict_keeps_pinned:
  assumes "\<not> p k"
  shows "map_of (cc_states (evict_all p ks c)) k = map_of (cc_states c) k"
    and "map_of (cc_states (evict_down p ks c)) k = map_of (cc_states c) k"
proof -
  show "map_of (cc_states (evict_all p ks c)) k = map_of (cc_states c) k"
    using assms by (induction p ks c rule: evict_all.induct) (auto simp: cache_delete_def delete_conv')
  show "map_of (cc_states (evict_down p ks c)) k = map_of (cc_states c) k"
    using assms by (induction p ks c rule: evict_down.induct) (auto simp: cache_delete_def delete_conv')
qed

text \<open>
  C37. Storing a changeset state keeps the cache within its soft limit as far as pinned entries
  allow: either the limit holds or only pinned entries are left; a pinned entry is never
  evicted; and what is evicted is the least recently used part, the new entry counting as the
  most recent.
\<close>

theorem changeset_cache_bounds:
  assumes "cache_ok c" and "c' = cache_set p k s c"
  shows "cache_ok c'
    \<and> (length (cc_states c') \<le> cc_softLimit c \<or> list_all (\<lambda>x. \<not> p (fst x)) (cc_states c'))
    \<and> (\<not> p x \<longrightarrow> map_of (cc_states c') x = ((map_of (cc_states c))(k \<mapsto> s)) x)
    \<and> (\<exists>i. cc_lru c' = filter (\<lambda>k. \<not> p k) (take i (lru_touch k (cc_lru c))) @ drop i (lru_touch k (cc_lru c)))"
proof -
  let ?t = "cache_touch k (c\<lparr>cc_states := AList.update k s (cc_states c)\<rparr>)"
  have t: "cc_lru ?t = lru_touch k (cc_lru c)" "cc_states ?t = AList.update k s (cc_states c)"
    "cc_softLimit ?t = cc_softLimit c"
    by (auto simp: cache_touch_def cache_has_iff dom_update)
  have ok: "cache_ok ?t"
    using assms(1) by (auto simp: cache_ok_def cache_touch_def cache_has_iff lru_touch_def distinct_removeAll
        distinct_update dom_update)
  have c': "c' = evictIfOverLimit p ?t" using assms(2) by (simp add: cache_set_def)
  have ok': "cache_ok c'" unfolding c' by (rule cache_ok_evict [OF ok])
  obtain i where i: "cc_lru c' = filter (\<lambda>k. \<not> p k) (take i (lru_touch k (cc_lru c))) @ drop i (lru_touch k (cc_lru c))"
    "i < length (lru_touch k (cc_lru c)) \<longrightarrow> length (cc_states c') \<le> cc_softLimit c"
    using evict_lru [OF ok, of p] unfolding c' t by blast
  have "length (cc_states c') \<le> cc_softLimit c \<or> list_all (\<lambda>x. \<not> p (fst x)) (cc_states c')"
  proof (cases "i < length (lru_touch k (cc_lru c))")
    case False
    then have "\<forall>x\<in>set (cc_lru c'). \<not> p x" using i(1) by auto
    with ok' show ?thesis by (auto simp: cache_ok_def list_all_iff)
  qed (use i(2) in simp)
  moreover have "\<not> p x \<longrightarrow> map_of (cc_states c') x = ((map_of (cc_states c))(k \<mapsto> s)) x"
    using evict_keeps_pinned [of p x] t(2) by (auto simp: c' evictIfOverLimit_def update_conv')
  ultimately show ?thesis using ok' i(1) by blast
qed

definition sample_cache :: changeset_cache where
  "sample_cache = \<lparr>cc_states = [(''a'', sample_changeset), (''b'', sample_changeset)], cc_lru = [''b'', ''a''],
     cc_softLimit = 1\<rparr>"

lemma changeset_cache_bounds_witness:
  "length (cc_states (cache_set (\<lambda>k. k \<noteq> ''b'') ''c'' sample_changeset sample_cache)) \<le> 1
   \<or> list_all (\<lambda>x. fst x = ''b'') (cc_states (cache_set (\<lambda>k. k \<noteq> ''b'') ''c'' sample_changeset sample_cache))"
  using changeset_cache_bounds [of sample_cache "cache_set (\<lambda>k. k \<noteq> ''b'') ''c'' sample_changeset sample_cache"
      "\<lambda>k. k \<noteq> ''b''" "''c''" sample_changeset]
  by (auto simp: cache_ok_def sample_cache_def)

end
