(* ===== verification/Base64.thy ===== *)
theory Base64
  imports Prelude "HOL-Library.Word"
begin

text \<open>
  \<open>encodeBase64\<close> and \<open>decodeBase64\<close> of \<open>src/vs/base/common/buffer.ts\<close>, with which the chat channel
  URIs carry their session. An element of a \<open>Uint8Array\<close> is an \<open>8 word\<close>: storing a number in
  it keeps the low eight bits. The shifts and masks between loads and stores are of small
  non-negative numbers. \<open>decodeBase64\<close> flushes its last partial byte behind the part of the
  buffer it returns, so the flush is not modelled; it throws on a character outside both
  alphabets, which is \<open>None\<close>.
\<close>

unbundle bit_operations_syntax

type_synonym byte = "8 word"

section \<open>Encoding\<close>

definition base64Alphabet :: js_string where
  "base64Alphabet = ''ABCDEFGHIJKLMNOPQRSTUVWXYZabcdefghijklmnopqrstuvwxyz0123456789+/''"

definition base64UrlSafeAlphabet :: js_string where
  "base64UrlSafeAlphabet = ''ABCDEFGHIJKLMNOPQRSTUVWXYZabcdefghijklmnopqrstuvwxyz0123456789-_''"

definition dictionary :: "bool \<Rightarrow> js_string" where
  "dictionary urlSafe = (if urlSafe then base64UrlSafeAlphabet else base64Alphabet)"

definition sextet1 :: "byte \<Rightarrow> nat" where
  "sextet1 a = drop_bit 2 (unat a)"

definition sextet2 :: "byte \<Rightarrow> nat \<Rightarrow> nat" where
  "sextet2 a b = (push_bit 4 (unat a) OR drop_bit 4 b) AND 63"

definition sextet3 :: "byte \<Rightarrow> nat \<Rightarrow> nat" where
  "sextet3 b c = (push_bit 2 (unat b) OR drop_bit 6 c) AND 63"

definition sextet4 :: "byte \<Rightarrow> nat" where
  "sextet4 c = unat c AND 63"

fun encode_sextets :: "byte list \<Rightarrow> nat list" where
  "encode_sextets (a # b # c # rest) =
     sextet1 a # sextet2 a (unat b) # sextet3 b (unat c) # sextet4 c # encode_sextets rest"
| "encode_sextets [a, b] = [sextet1 a, sextet2 a (unat b), sextet3 b 0]"
| "encode_sextets [a] = [sextet1 a, sextet2 a 0]"
| "encode_sextets [] = []"

definition encodeBase64 :: "byte list \<Rightarrow> bool \<Rightarrow> bool \<Rightarrow> js_string" where
  "encodeBase64 buffer padded urlSafe =
     map (\<lambda>i. dictionary urlSafe ! i) (encode_sextets buffer)
     @ (if padded \<and> length buffer mod 3 = 1 then ''==''
        else if padded \<and> length buffer mod 3 = 2 then ''='' else [])"

section \<open>Decoding\<close>

definition base64_value :: "char \<Rightarrow> nat option" where
  "base64_value ch =
     (let code = of_char ch :: nat
      in if code \<ge> 65 \<and> code \<le> 90 then Some (code - 65)
         else if code \<ge> 97 \<and> code \<le> 122 then Some (code - 97 + 26)
         else if code \<ge> 48 \<and> code \<le> 57 then Some (code - 48 + 52)
         else if code = 43 \<or> code = 45 then Some 62
         else if code = 47 \<or> code = 95 then Some 63
         else None)"

record decoder =
  dec_building :: nat
  dec_remainder :: nat
  dec_buffer :: "byte list"

definition decoder_append :: "nat \<Rightarrow> decoder \<Rightarrow> decoder" where
  "decoder_append v d =
     (if dec_remainder d = 3
      then d\<lparr>dec_buffer := dec_buffer d @ [word_of_nat (dec_building d OR v)], dec_remainder := 0\<rparr>
      else if dec_remainder d = 2
      then d\<lparr>dec_buffer := dec_buffer d @ [word_of_nat (dec_building d OR drop_bit 2 v)],
             dec_building := push_bit 6 v, dec_remainder := 3\<rparr>
      else if dec_remainder d = 1
      then d\<lparr>dec_buffer := dec_buffer d @ [word_of_nat (dec_building d OR drop_bit 4 v)],
             dec_building := push_bit 4 v, dec_remainder := 2\<rparr>
      else d\<lparr>dec_building := push_bit 2 v, dec_remainder := 1\<rparr>)"

fun decode_loop :: "js_string \<Rightarrow> decoder \<Rightarrow> byte list option" where
  "decode_loop [] d = Some (dec_buffer d)"
| "decode_loop (ch # chs) d =
     (case base64_value ch of
        Some v \<Rightarrow> decode_loop chs (decoder_append v d)
      | None \<Rightarrow> if of_char ch = (61 :: nat) then Some (dec_buffer d) else None)"

definition decodeBase64 :: "js_string \<Rightarrow> byte list option" where
  "decodeBase64 encoded = decode_loop encoded \<lparr>dec_building = 0, dec_remainder = 0, dec_buffer = []\<rparr>"

section \<open>Round trip\<close>

lemma sextets_less:
  "sextet1 a < 64" "sextet2 a n < 64" "sextet3 a n < 64" "sextet4 a < 64"
proof -
  have "unat a < 256" using unsigned_less [of a] by simp
  then show "sextet1 a < 64" by (simp add: sextet1_def drop_bit_eq_div)
  have "x AND 63 < 64" for x :: nat
    using take_bit_nat_less_exp [of 6 x] by (simp add: take_bit_eq_mask mask_eq_exp_minus_1)
  then show "sextet2 a n < 64" "sextet3 a n < 64" "sextet4 a < 64"
    by (simp_all add: sextet2_def sextet3_def sextet4_def)
qed

lemma bit_63: "bit (63 :: nat) n \<longleftrightarrow> n < 6"
  using bit_mask_iff [of 6 n, where ?'a = nat] by (simp add: mask_eq_exp_minus_1)

lemma bit_unat_byte: "bit (unat (a :: byte)) n \<longleftrightarrow> n < 8 \<and> bit a n"
  using bit_imp_le_length [of a n] by (auto simp: bit_unsigned_iff)

lemma bit_byte_of_nat: "bit (word_of_nat k :: byte) n \<longleftrightarrow> n < 8 \<and> bit k n"
  by transfer (simp add: bit_take_bit_iff bit_of_nat_iff)

lemmas sextet_bits = bit_or_iff bit_and_iff bit_push_bit_iff_nat bit_drop_bit_eq bit_63 bit_unat_byte comp_def
  bit_byte_of_nat

lemma byte_eqI:
  fixes a b :: byte
  assumes "\<forall>i\<in>{0, 1, 2, 3, 4, 5, 6, 7}. bit a i = bit b i"
  shows "a = b"
proof (rule bit_word_eqI)
  fix i assume "i < LENGTH(8)"
  then have "i = 0 \<or> i = 1 \<or> i = 2 \<or> i = 3 \<or> i = 4 \<or> i = 5 \<or> i = 6 \<or> i = 7" by simp arith
  with assms show "bit a i = bit b i" by auto
qed

lemma high_bits: "n < 256 \<Longrightarrow> 8 \<le> i \<Longrightarrow> \<not> bit (n :: nat) i"
  using less_exp [of i] power_increasing [of 8 i "2 :: nat"] by (auto simp: bit_iff_odd)

lemma joined:
  fixes a b c :: byte
  shows "word_of_nat (push_bit 2 (sextet1 a) OR drop_bit 4 (sextet2 a (unat b))) = a"
    "word_of_nat (push_bit 2 (sextet1 a) OR drop_bit 4 (sextet2 a 0)) = a"
    "word_of_nat (push_bit 4 (sextet2 a (unat b)) OR drop_bit 2 (sextet3 b (unat c))) = b"
    "word_of_nat (push_bit 4 (sextet2 a (unat b)) OR drop_bit 2 (sextet3 b 0)) = b"
    "word_of_nat (push_bit 6 (sextet3 b (unat c)) OR sextet4 c) = c"
  by ((rule byte_eqI, simp add: sextet1_def sextet2_def sextet3_def sextet4_def sextet_bits,
      (simp add: numeral_2_eq_2 numeral_3_eq_3 bit_0)?)[1])+


lemma alphabet_values:
  "map base64_value base64UrlSafeAlphabet = map Some [0..<64]"
  "map base64_value base64Alphabet = map Some [0..<64]"
  by code_simp+

lemma dictionary_values:
  assumes "i < 64"
  shows "base64_value (base64UrlSafeAlphabet ! i) = Some i" "base64_value (base64Alphabet ! i) = Some i"
proof -
  have "map base64_value base64UrlSafeAlphabet ! i = Some i" "map base64_value base64Alphabet ! i = Some i"
    unfolding alphabet_values using assms by simp_all
  moreover have "length base64UrlSafeAlphabet = 64" "length base64Alphabet = 64"
    using arg_cong [OF alphabet_values(1), of length] arg_cong [OF alphabet_values(2), of length] by simp_all
  ultimately show "base64_value (base64UrlSafeAlphabet ! i) = Some i" "base64_value (base64Alphabet ! i) = Some i"
    using assms by simp_all
qed

lemma decode_step:
  "i < 64 \<Longrightarrow> decode_loop (dictionary u ! i # cs) d = decode_loop cs (decoder_append i d)"
  by (simp add: dictionary_def dictionary_values)

lemma decode_padding:
  "set cs \<subseteq> {CHR ''=''} \<Longrightarrow> decode_loop cs d = Some (dec_buffer d)"
proof (cases cs)
  case (Cons c cs')
  assume "set cs \<subseteq> {CHR ''=''}"
  with Cons have "c = CHR ''=''" by simp
  moreover have "base64_value (CHR ''='') = None" by code_simp
  ultimately show ?thesis using Cons by simp
qed simp

lemma decode_sextets:
  assumes "set pad \<subseteq> {CHR ''=''}"
  shows "decode_loop (map (\<lambda>i. dictionary u ! i) (encode_sextets bs) @ pad)
      \<lparr>dec_building = n, dec_remainder = 0, dec_buffer = out\<rparr> = Some (out @ bs)"
proof (induction bs arbitrary: n out rule: encode_sextets.induct)
  case (1 a b c rest)
  then show ?case by (simp add: decode_step sextets_less decoder_append_def joined del: decode_loop.simps(2))
qed (use assms in \<open>simp_all add: decode_step sextets_less decoder_append_def joined decode_padding del: decode_loop.simps(2)\<close>)

lemma decode_encode: "decodeBase64 (encodeBase64 bs padded urlSafe) = Some bs"
  unfolding decodeBase64_def encodeBase64_def by (subst decode_sextets) auto

text \<open>
  C38. Base64 loses nothing: any byte string is read back exactly from its encoding, with either
  alphabet, padded or not.
\<close>

theorem base64_round_trip: "decodeBase64 (encodeBase64 bs padded urlSafe) = Some bs"
  by (rule decode_encode)

end
