(* ===== verification/Channel_Uris.thy ===== *)
theory Channel_Uris
  imports Base64
begin

text \<open>
  The URIs that name channels: \<open>URI.parse\<close> (\<open>src/vs/base/common/uri.ts\<close>), the chat channel
  URIs of \<open>common/state/sessionState.ts\<close>, which carry their session in base64, and the
  annotations and changeset URIs, which are nested under it (\<open>common/annotationsUri.ts\<close>,
  \<open>common/changesetUri.ts\<close>). The platform's text codec (\<open>TextEncoder\<close>, \<open>TextDecoder\<close>) and
  \<open>decodeURIComponent\<close> are not in the repository: they are the record \<open>platform\<close>, an argument.
\<close>

section \<open>The platform\<close>

record platform =
  pf_encode :: "js_string \<Rightarrow> byte list"
  pf_decode :: "byte list \<Rightarrow> js_string"
  pf_encodeURIComponent :: "js_string \<Rightarrow> js_string"
  pf_decodeURIComponent :: "js_string \<Rightarrow> js_string option"

section \<open>\<open>URI.parse\<close>\<close>

record uri =
  uri_scheme :: js_string
  uri_authority :: js_string
  uri_path :: js_string
  uri_query :: js_string
  uri_fragment :: js_string

definition is_alnum :: "char \<Rightarrow> bool" where
  "is_alnum c = (let n = of_char c :: nat in (48 \<le> n \<and> n \<le> 57) \<or> (65 \<le> n \<and> n \<le> 90) \<or> (97 \<le> n \<and> n \<le> 122))"

text \<open>\<open>_schemePattern\<close>: a word character, then word characters, plus, dot and minus.\<close>

definition scheme_ok :: "js_string \<Rightarrow> bool" where
  "scheme_ok s =
     (case s of
        [] \<Rightarrow> False
      | c # cs \<Rightarrow> (is_alnum c \<or> c = CHR ''_'') \<and> list_all (\<lambda>c. is_alnum c \<or> c \<in> set ''_+.-'') cs)"

definition starts_with :: "js_string \<Rightarrow> js_string \<Rightarrow> bool" where
  "starts_with p s = (take (length p) s = p)"

definition validateUri :: "uri \<Rightarrow> bool" where
  "validateUri u =
     ((uri_scheme u = [] \<or> scheme_ok (uri_scheme u))
      \<and> (uri_path u = []
         \<or> (if uri_authority u \<noteq> [] then starts_with ''/'' (uri_path u) else \<not> starts_with ''//'' (uri_path u))))"

definition schemeFix :: "js_string \<Rightarrow> js_string" where
  "schemeFix scheme = (if scheme = [] then ''file'' else scheme)"

definition referenceResolution :: "js_string \<Rightarrow> js_string \<Rightarrow> js_string" where
  "referenceResolution scheme path =
     (if scheme \<in> {''https'', ''http'', ''file''} then
        (if path = [] then ''/'' else if hd path \<noteq> CHR ''/'' then ''/'' @ path else path)
      else path)"

function decodeURIComponentGraceful :: "platform \<Rightarrow> js_string \<Rightarrow> js_string" where
  "decodeURIComponentGraceful pl str =
     (case pf_decodeURIComponent pl str of
        Some s \<Rightarrow> s
      | None \<Rightarrow> if length str > 3 then take 3 str @ decodeURIComponentGraceful pl (drop 3 str) else str)"
  by pat_completeness auto
termination by (relation "measure (\<lambda>(pl, str). length str)") auto

declare decodeURIComponentGraceful.simps [simp del]

text \<open>The maximal runs of \<open>%xx\<close>, the first argument being the run read so far.\<close>

fun percent_runs :: "platform \<Rightarrow> js_string \<Rightarrow> js_string \<Rightarrow> js_string" where
  "percent_runs pl run (c # a # b # rest) =
     (if c = CHR ''%'' \<and> is_alnum a \<and> is_alnum b then percent_runs pl (run @ [c, a, b]) rest
      else (if run = [] then [] else decodeURIComponentGraceful pl run) @ c # percent_runs pl [] (a # b # rest))"
| "percent_runs pl run s = (if run = [] then [] else decodeURIComponentGraceful pl run) @ s"

definition percentDecode :: "platform \<Rightarrow> js_string \<Rightarrow> js_string" where
  "percentDecode pl str = percent_runs pl [] str"

text \<open>The groups of \<open>_regexp\<close>: scheme, authority, path, query and fragment.\<close>

definition split_scheme :: "js_string \<Rightarrow> js_string \<times> js_string" where
  "split_scheme s =
     (let p = takeWhile (\<lambda>c. c \<notin> set '':/?#'') s; rest = dropWhile (\<lambda>c. c \<notin> set '':/?#'') s
      in if p \<noteq> [] \<and> starts_with '':'' rest then (p, tl rest) else ([], s))"

definition split_authority :: "js_string \<Rightarrow> js_string \<times> js_string" where
  "split_authority s =
     (if starts_with ''//'' s
      then (takeWhile (\<lambda>c. c \<notin> set ''/?#'') (drop 2 s), dropWhile (\<lambda>c. c \<notin> set ''/?#'') (drop 2 s))
      else ([], s))"

definition split_query :: "js_string \<Rightarrow> js_string \<times> js_string" where
  "split_query s =
     (if starts_with ''?'' s then (takeWhile (\<lambda>c. c \<noteq> CHR ''#'') (tl s), dropWhile (\<lambda>c. c \<noteq> CHR ''#'') (tl s)) else ([], s))"

definition parseUri :: "platform \<Rightarrow> js_string \<Rightarrow> uri option" where
  "parseUri pl value =
     (let (scheme, r1) = split_scheme value;
          (authority, r2) = split_authority r1;
          path = takeWhile (\<lambda>c. c \<notin> set ''?#'') r2;
          (query, r3) = split_query (dropWhile (\<lambda>c. c \<notin> set ''?#'') r2);
          fragment = (if starts_with ''#'' r3 then takeWhile (\<lambda>c. of_char c \<noteq> (10 :: nat) \<and> of_char c \<noteq> (13 :: nat)) (tl r3) else []);
          scheme' = schemeFix scheme;
          u = \<lparr>uri_scheme = scheme', uri_authority = percentDecode pl authority,
               uri_path = referenceResolution scheme' (percentDecode pl path),
               uri_query = percentDecode pl query, uri_fragment = percentDecode pl fragment\<rparr>
      in if validateUri u then Some u else None)"

section \<open>Chat channels\<close>

definition chat_scheme :: js_string where "chat_scheme = ''ahp-chat''"

definition default_chat_id :: js_string where "default_chat_id = ''default''"

definition subagent_chat_id :: js_string where "subagent_chat_id = ''subagent''"

definition buildChatUri :: "platform \<Rightarrow> js_string \<Rightarrow> js_string \<Rightarrow> js_string" where
  "buildChatUri pl session chatId =
     chat_scheme @ ''://'' @ chatId @ ''/'' @ encodeBase64 (pf_encode pl session) False True"

definition buildDefaultChatUri :: "platform \<Rightarrow> js_string \<Rightarrow> js_string" where
  "buildDefaultChatUri pl session = buildChatUri pl session default_chat_id"

definition buildSubagentChatUri :: "platform \<Rightarrow> js_string \<Rightarrow> js_string \<Rightarrow> js_string" where
  "buildSubagentChatUri pl session toolCallId =
     chat_scheme @ ''://'' @ subagent_chat_id @ ''/'' @ encodeBase64 (pf_encode pl session) False True
       @ ''/'' @ pf_encodeURIComponent pl toolCallId"

definition drop_slash :: "js_string \<Rightarrow> js_string" where
  "drop_slash s = (if starts_with ''/'' s then tl s else s)"

definition decode_session :: "platform \<Rightarrow> js_string \<Rightarrow> js_string option" where
  "decode_session pl encoded = map_option (pf_decode pl) (decodeBase64 encoded)"

text \<open>\<open>parseChatUri\<close>: the session and the chat id. \<open>[sessionPart, ...rest] = encoded.split('/')\<close>, \<open>rest.join('/')\<close>.\<close>

definition parseChatUri :: "platform \<Rightarrow> js_string \<Rightarrow> (js_string \<times> js_string) option" where
  "parseChatUri pl s =
     (case parseUri pl s of
        None \<Rightarrow> None
      | Some u \<Rightarrow>
          if uri_scheme u \<noteq> chat_scheme \<or> uri_authority u = [] then None
          else
            let encoded = drop_slash (uri_path u)
            in if encoded = [] then None
               else if uri_authority u = subagent_chat_id then
                 (let sessionPart = takeWhile (\<lambda>c. c \<noteq> CHR ''/'') encoded;
                      toolCallId = tl (dropWhile (\<lambda>c. c \<noteq> CHR ''/'') encoded)
                  in if sessionPart = [] \<or> toolCallId = [] then None
                     else case decode_session pl sessionPart of
                            None \<Rightarrow> None
                          | Some session \<Rightarrow>
                              map_option (\<lambda>t. (session, subagent_chat_id @ ''/'' @ t)) (pf_decodeURIComponent pl toolCallId))
               else map_option (\<lambda>session. (session, uri_authority u)) (decode_session pl encoded))"

definition parseDefaultChatUri :: "platform \<Rightarrow> js_string \<Rightarrow> js_string option" where
  "parseDefaultChatUri pl s = map_option fst (parseChatUri pl s)"

definition parseRequiredSessionUriFromChatUri :: "platform \<Rightarrow> js_string \<Rightarrow> js_string js_result" where
  "parseRequiredSessionUriFromChatUri pl s =
     (case parseDefaultChatUri pl s of
        None \<Rightarrow> Inl (PlainError (''Malformed AHP chat URI: '' @ s))
      | Some session \<Rightarrow> Inr session)"

definition isDefaultChatUri :: "platform \<Rightarrow> js_string \<Rightarrow> bool" where
  "isDefaultChatUri pl s = (map_option snd (parseChatUri pl s) = Some default_chat_id)"

definition isAhpChatChannel :: "platform \<Rightarrow> js_string \<Rightarrow> bool" where
  "isAhpChatChannel pl s = (map_option uri_scheme (parseUri pl s) = Some chat_scheme)"

text \<open>\<open>URI.parse\<close> may throw here: \<open>None\<close>.\<close>

definition isSubagentChatUri :: "platform \<Rightarrow> js_string \<Rightarrow> bool option" where
  "isSubagentChatUri pl s =
     map_option (\<lambda>u. uri_scheme u = chat_scheme \<and> uri_authority u = subagent_chat_id) (parseUri pl s)"

text \<open>The scheme \<open>isAhpRootChannel\<close> looks at.\<close>

definition uri_scheme_of :: "platform \<Rightarrow> js_string \<Rightarrow> js_string option" where
  "uri_scheme_of pl s = map_option uri_scheme (parseUri pl s)"

section \<open>Annotations and changesets\<close>

definition buildAnnotationsUri :: "js_string \<Rightarrow> js_string" where
  "buildAnnotationsUri session = session @ ''/annotations''"

definition parseAnnotationsUri :: "js_string \<Rightarrow> js_string option" where
  "parseAnnotationsUri s =
     (let n = length s - length ''/annotations''
      in if length ''/annotations'' \<le> length s \<and> drop n s = ''/annotations'' \<and> take n s \<noteq> [] then Some (take n s) else None)"

definition isAnnotationsUri :: "js_string \<Rightarrow> bool" where
  "isAnnotationsUri s = (parseAnnotationsUri s \<noteq> None)"

text \<open>\<open>s.lastIndexOf(p)\<close> for a non-empty \<open>p\<close>.\<close>

fun last_index_of :: "js_string \<Rightarrow> js_string \<Rightarrow> nat option" where
  "last_index_of p [] = None"
| "last_index_of p (c # cs) =
     (case last_index_of p cs of
        Some i \<Rightarrow> Some (Suc i)
      | None \<Rightarrow> if starts_with p (c # cs) then Some 0 else None)"

datatype changeset_kind =
    BranchChangeset | UncommittedChangeset | SessionChangeset
  | TurnChangeset js_string
  | CompareChangeset js_string js_string
  | UnknownChangeset

record changeset_uri =
  csuri_sessionUri :: js_string
  csuri_changesetId :: js_string
  csuri_kind :: changeset_kind

definition changeset_segment :: js_string where "changeset_segment = ''/changeset/''"

definition buildBranchChangesetUri :: "js_string \<Rightarrow> js_string" where
  "buildBranchChangesetUri session = session @ changeset_segment @ ''branch''"

definition buildSessionChangesetUri :: "js_string \<Rightarrow> js_string" where
  "buildSessionChangesetUri session = session @ changeset_segment @ ''session''"

definition buildUncommittedChangesetUri :: "js_string \<Rightarrow> js_string" where
  "buildUncommittedChangesetUri session = session @ changeset_segment @ ''uncommitted''"

definition turn_id_ok :: "js_string \<Rightarrow> bool" where
  "turn_id_ok i = (i \<noteq> [] \<and> CHR ''/'' \<notin> set i)"

text \<open>The builders throw on a bad id; the message quotes it with \<open>JSON.stringify\<close> and is not modelled.\<close>

definition buildTurnChangesetUri :: "js_string \<Rightarrow> js_string \<Rightarrow> js_string js_result" where
  "buildTurnChangesetUri session turnId =
     (if \<not> turn_id_ok turnId then Inl (PlainError ''buildTurnChangesetUri'')
      else Inr (session @ changeset_segment @ ''turn/'' @ turnId))"

definition buildCompareTurnsChangesetUri :: "js_string \<Rightarrow> js_string \<Rightarrow> js_string \<Rightarrow> js_string js_result" where
  "buildCompareTurnsChangesetUri session originalTurnId modifiedTurnId =
     (if \<not> turn_id_ok originalTurnId \<or> \<not> turn_id_ok modifiedTurnId then Inl (PlainError ''buildCompareTurnsChangesetUri'')
      else Inr (session @ changeset_segment @ ''compare/'' @ originalTurnId @ ''/'' @ modifiedTurnId))"

definition buildChangesetUri :: "js_string \<Rightarrow> js_string \<Rightarrow> js_string js_result" where
  "buildChangesetUri session changesetId =
     (if \<not> turn_id_ok changesetId then Inl (PlainError ''buildChangesetUri'')
      else Inr (session @ changeset_segment @ changesetId))"

text \<open>\<open>tail.split('/')\<close> with exactly two parts.\<close>

definition split_pair :: "js_string \<Rightarrow> (js_string \<times> js_string) option" where
  "split_pair t =
     (let a = takeWhile (\<lambda>c. c \<noteq> CHR ''/'') t; r = dropWhile (\<lambda>c. c \<noteq> CHR ''/'') t
      in if r = [] \<or> CHR ''/'' \<in> set (tl r) then None else Some (a, tl r))"

definition changeset_kind_of :: "js_string \<Rightarrow> changeset_kind option" where
  "changeset_kind_of i =
     (if i = ''branch'' then Some BranchChangeset
      else if i = ''uncommitted'' then Some UncommittedChangeset
      else if i = ''session'' then Some SessionChangeset
      else if starts_with ''turn/'' i then
        (let turnId = drop 5 i
         in if \<not> turn_id_ok turnId \<or> turnId = ''{turnId}'' then None else Some (TurnChangeset turnId))
      else if starts_with ''compare/'' i then
        (case split_pair (drop 8 i) of
           None \<Rightarrow> None
         | Some (original, modified) \<Rightarrow>
             if original = [] \<or> modified = [] \<or> original = ''{originalTurnId}'' \<or> modified = ''{modifiedTurnId}''
             then None else Some (CompareChangeset original modified))
      else if CHR ''/'' \<in> set i then None else Some UnknownChangeset)"

definition parseChangesetUri :: "js_string \<Rightarrow> changeset_uri option" where
  "parseChangesetUri s =
     (case last_index_of changeset_segment s of
        None \<Rightarrow> None
      | Some idx \<Rightarrow>
          let i = drop (idx + length changeset_segment) s
          in if i = [] then None
             else map_option (\<lambda>k. \<lparr>csuri_sessionUri = take idx s, csuri_changesetId = i, csuri_kind = k\<rparr>)
                    (changeset_kind_of i))"


section \<open>Round trips\<close>

lemma percentDecode_plain: "CHR ''%'' \<notin> set s \<Longrightarrow> percentDecode pl s = s"
proof -
  have "percent_runs pl run s = s" if "CHR ''%'' \<notin> set s" "run = []" for run
    using that by (induction pl run s rule: percent_runs.induct) auto
  then show "CHR ''%'' \<notin> set s \<Longrightarrow> percentDecode pl s = s" by (simp add: percentDecode_def)
qed

lemma encoded_chars:
  assumes "c \<in> set (encodeBase64 bs False True)"
  shows "c \<notin> set ''%/?#:''"
proof -
  have "set (encode_sextets bs) \<subseteq> {..<64}" by (induction bs rule: encode_sextets.induct) (simp_all add: sextets_less)
  moreover have "length base64UrlSafeAlphabet = 64"
    using arg_cong [OF alphabet_values(1), of length] by simp
  ultimately have "c \<in> set base64UrlSafeAlphabet"
    using assms by (auto simp: encodeBase64_def dictionary_def dest!: subsetD intro!: nth_mem)
  moreover have "list_all (\<lambda>c. c \<notin> set ''%/?#:'') base64UrlSafeAlphabet" by code_simp
  ultimately show ?thesis by (simp add: list_all_iff)
qed

lemma encoded_nonempty: "bs \<noteq> [] \<Longrightarrow> encodeBase64 bs p u \<noteq> []"
  by (cases bs rule: encode_sextets.cases) (simp_all add: encodeBase64_def)

lemma takeWhile_stop: "\<forall>x\<in>set xs. P x \<Longrightarrow> \<not> P y \<Longrightarrow> takeWhile P (xs @ y # ys) = xs"
  by (induction xs) auto

lemma dropWhile_stop: "\<forall>x\<in>set xs. P x \<Longrightarrow> \<not> P y \<Longrightarrow> dropWhile P (xs @ y # ys) = y # ys"
  by (induction xs) auto

lemma percentDecode_prefix:
  "CHR ''%'' \<notin> set xs \<Longrightarrow> percentDecode pl (xs @ ys) = xs @ percentDecode pl ys"
proof (induction xs)
  case (Cons x xs)
  have "percent_runs pl [] (x # zs) = x # percent_runs pl [] zs" if "x \<noteq> CHR ''%''" for zs
  proof (cases zs)
    case (Cons z zs')
    with that show ?thesis by (cases zs') simp_all
  qed simp
  moreover from Cons have "x \<noteq> CHR ''%''" by auto
  ultimately show ?case using Cons by (simp add: percentDecode_def)
qed (simp add: percentDecode_def)

lemma chat_uri_parses:
  assumes "authority \<noteq> []" and "set authority \<inter> set ''%/?#'' = {}" and "set tail \<inter> set ''?#'' = {}"
  shows "parseUri pl (chat_scheme @ ''://'' @ authority @ ''/'' @ tail)
    = Some \<lparr>uri_scheme = chat_scheme, uri_authority = authority, uri_path = ''/'' @ percentDecode pl tail,
        uri_query = [], uri_fragment = []\<rparr>"
proof -
  have scheme: "split_scheme (chat_scheme @ ''://'' @ authority @ ''/'' @ tail) = (chat_scheme, ''//'' @ authority @ ''/'' @ tail)"
    by (simp add: split_scheme_def chat_scheme_def starts_with_def)
  have plain_auth: "\<forall>c\<in>set authority. c \<noteq> CHR ''/'' \<and> c \<noteq> CHR ''?'' \<and> c \<noteq> CHR ''#''"
    using assms(2) by auto
  have auth: "split_authority (''//'' @ authority @ ''/'' @ tail) = (authority, ''/'' @ tail)"
    using plain_auth by (simp add: split_authority_def starts_with_def takeWhile_stop dropWhile_stop)
  have path: "takeWhile (\<lambda>c. c \<notin> set ''?#'') (''/'' @ tail) = ''/'' @ tail"
    "dropWhile (\<lambda>c. c \<notin> set ''?#'') (''/'' @ tail) = []"
    using assms(3) by (auto simp: takeWhile_eq_all_conv dropWhile_eq_Nil_conv)
  have plain: "percentDecode pl authority = authority" "percentDecode pl [] = []"
    "percentDecode pl (''/'' @ tail) = ''/'' @ percentDecode pl tail"
    using assms(2) percentDecode_prefix [of "''/''"] by (auto intro!: percentDecode_plain)
  have "scheme_ok chat_scheme" by code_simp
  then have "validateUri \<lparr>uri_scheme = chat_scheme, uri_authority = authority, uri_path = ''/'' @ p,
      uri_query = [], uri_fragment = []\<rparr>" for p
    using assms(1) by (simp add: validateUri_def starts_with_def)
  moreover have "schemeFix chat_scheme = chat_scheme" "referenceResolution chat_scheme p = p" for p
    by (simp_all add: schemeFix_def referenceResolution_def chat_scheme_def)
  ultimately show ?thesis
    by (simp only: parseUri_def scheme auth path Let_def prod.case plain split_query_def)
      (simp add: starts_with_def plain)
qed

lemma chat_uri_read_back:
  assumes "pf_decode pl (pf_encode pl session) = session" and "pf_encode pl session \<noteq> []"
    and "chatId \<noteq> []" and "set chatId \<inter> set ''%/?#'' = {}" and "chatId \<noteq> subagent_chat_id"
  shows "parseChatUri pl (buildChatUri pl session chatId) = Some (session, chatId)
    \<and> isAhpChatChannel pl (buildChatUri pl session chatId)"
proof -
  let ?enc = "encodeBase64 (pf_encode pl session) False True"
  have "set ?enc \<inter> set ''?#'' = {}" using encoded_chars by fastforce
  note parsed = chat_uri_parses [OF assms(3,4) this, of pl, simplified]
  have "percentDecode pl ?enc = ?enc" using encoded_chars by (intro percentDecode_plain) fastforce
  show ?thesis
    using assms encoded_nonempty [OF assms(2), of False True]
    by (simp add: parseChatUri_def buildChatUri_def isAhpChatChannel_def parsed \<open>percentDecode pl ?enc = ?enc\<close>
        drop_slash_def starts_with_def decode_session_def decode_encode)
qed

lemma default_chat_uri_read_back:
  assumes "pf_decode pl (pf_encode pl session) = session" and "pf_encode pl session \<noteq> []"
  shows "parseDefaultChatUri pl (buildDefaultChatUri pl session) = Some session"
    and "isAhpChatChannel pl (buildDefaultChatUri pl session)"
  using chat_uri_read_back [OF assms, of default_chat_id]
  by (simp_all add: parseDefaultChatUri_def buildDefaultChatUri_def default_chat_id_def subagent_chat_id_def)

text \<open>
  C39. The URI of a chat channel carries its session and its chat id: for any session URI and any
  plain chat id, parsing what \<open>buildChatUri\<close> built recovers both, and the URI is recognised as
  a chat channel. This rests on the text codec reading back what it wrote.
\<close>

theorem chat_uri_round_trip:
  assumes "pf_decode pl (pf_encode pl session) = session" and "pf_encode pl session \<noteq> []"
    and "chatId \<noteq> []" and "set chatId \<inter> set ''%/?#'' = {}" and "chatId \<noteq> subagent_chat_id"
  shows "parseChatUri pl (buildChatUri pl session chatId) = Some (session, chatId)
    \<and> isAhpChatChannel pl (buildChatUri pl session chatId)"
  using assms by (rule chat_uri_read_back)


text \<open>A platform to evaluate on: ASCII text and a \<open>decodeURIComponent\<close> that decodes \<open>%xx\<close> below 128.\<close>

definition ascii_encode :: "js_string \<Rightarrow> byte list" where
  "ascii_encode s = map (\<lambda>c. word_of_nat (of_char c)) s"

definition ascii_decode :: "byte list \<Rightarrow> js_string" where
  "ascii_decode bs = map (\<lambda>b. char_of (unat b)) bs"

definition hex_value :: "char \<Rightarrow> nat option" where
  "hex_value c =
     (let n = of_char c :: nat
      in if 48 \<le> n \<and> n \<le> 57 then Some (n - 48) else if 65 \<le> n \<and> n \<le> 70 then Some (n - 55)
         else if 97 \<le> n \<and> n \<le> 102 then Some (n - 87) else None)"

fun ascii_decode_component :: "js_string \<Rightarrow> js_string option" where
  "ascii_decode_component [] = Some []"
| "ascii_decode_component (c # cs) =
     (if c \<noteq> CHR ''%'' then map_option ((#) c) (ascii_decode_component cs)
      else case cs of
        a # b # rest \<Rightarrow>
          (case (hex_value a, hex_value b) of
             (Some x, Some y) \<Rightarrow> if 16 * x + y < 128 then map_option ((#) (char_of (16 * x + y))) (ascii_decode_component rest) else None
           | _ \<Rightarrow> None)
      | _ \<Rightarrow> None)"

definition hex_digit :: "nat \<Rightarrow> char" where
  "hex_digit n = ''0123456789ABCDEF'' ! n"

definition ascii_encode_component :: "js_string \<Rightarrow> js_string" where
  "ascii_encode_component s = concat (map (\<lambda>c. if is_alnum c \<or> c \<in> set ''-_.!~*()'' then [c]
     else [CHR ''%'', hex_digit (of_char c div 16), hex_digit (of_char c mod 16)]) s)"

definition ascii_platform :: platform where
  "ascii_platform = \<lparr>pf_encode = ascii_encode, pf_decode = ascii_decode,
     pf_encodeURIComponent = ascii_encode_component, pf_decodeURIComponent = ascii_decode_component\<rparr>"

lemma ascii_codec: "ascii_decode (ascii_encode s) = s"
proof -
  have "char_of (unat (word_of_nat (of_char c) :: byte)) = (c :: char)" for c
    by (simp add: unat_of_nat of_char_of take_bit_nat_eq_self)
  then show ?thesis by (simp add: ascii_decode_def ascii_encode_def map_idI)
qed

lemma ascii_platform_fields [simp]:
  "pf_encode ascii_platform = ascii_encode" "pf_decode ascii_platform = ascii_decode"
  "pf_encodeURIComponent ascii_platform = ascii_encode_component"
  "pf_decodeURIComponent ascii_platform = ascii_decode_component"
  by (simp_all add: ascii_platform_def)

lemma ascii_encode_Nil: "ascii_encode s = [] \<longleftrightarrow> s = []"
  by (simp add: ascii_encode_def)

lemma chat_uri_round_trip_witness:
  "parseChatUri ascii_platform (buildChatUri ascii_platform ''copilot:/s1'' ''default'') = Some (''copilot:/s1'', ''default'')"
proof -
  have "pf_encode ascii_platform ''copilot:/s1'' \<noteq> []" by (simp add: ascii_encode_Nil)
  moreover have "''default'' \<noteq> subagent_chat_id" "set ''default'' \<inter> set ''%/?#'' = {}" by (simp_all add: subagent_chat_id_def)
  ultimately show ?thesis
    using chat_uri_round_trip [of ascii_platform "''copilot:/s1''" "''default''"] ascii_codec by auto
qed

section \<open>Subagent chats\<close>

text \<open>
  The tool call id of a subagent chat URI is encoded once and decoded twice, in \<open>URI.parse\<close> and
  in \<open>parseChatUri\<close>.
\<close>

lemma subagent_chat_uri_decoded_twice:
  assumes "pf_decode pl (pf_encode pl session) = session" and "pf_encode pl session \<noteq> []"
    and "set (pf_encodeURIComponent pl t) \<inter> set ''?#'' = {}"
    and "t' = percentDecode pl (pf_encodeURIComponent pl t)" and "t' \<noteq> []"
  shows "parseChatUri pl (buildSubagentChatUri pl session t)
    = map_option (\<lambda>x. (session, subagent_chat_id @ ''/'' @ x)) (pf_decodeURIComponent pl t')"
proof -
  let ?enc = "encodeBase64 (pf_encode pl session) False True"
  have plain: "c \<noteq> CHR ''%''" "c \<noteq> CHR ''/''" "c \<noteq> CHR ''?''" "c \<noteq> CHR ''#''" if "c \<in> set ?enc" for c
    using encoded_chars [OF that] by auto
  have tail: "set (?enc @ ''/'' @ pf_encodeURIComponent pl t) \<inter> set ''?#'' = {}" using assms(3) plain by auto
  have path: "percentDecode pl (?enc @ ''/'' @ pf_encodeURIComponent pl t) = ?enc @ ''/'' @ t'"
    using percentDecode_prefix [of "?enc @ ''/''"] plain assms(4) by auto
  have split: "takeWhile (\<lambda>c. c \<noteq> CHR ''/'') (?enc @ ''/'' @ t') = ?enc"
    "dropWhile (\<lambda>c. c \<noteq> CHR ''/'') (?enc @ ''/'' @ t') = ''/'' @ t'"
    using plain by (auto simp: takeWhile_append dropWhile_append)
  have "parseUri pl (buildSubagentChatUri pl session t) = Some \<lparr>uri_scheme = chat_scheme,
      uri_authority = subagent_chat_id, uri_path = ''/'' @ ?enc @ ''/'' @ t', uri_query = [], uri_fragment = []\<rparr>"
    using chat_uri_parses [of subagent_chat_id "?enc @ ''/'' @ pf_encodeURIComponent pl t" pl] tail path
    by (simp add: buildSubagentChatUri_def subagent_chat_id_def)
  then show ?thesis
    using split assms(1,5) encoded_nonempty [OF assms(2), of False True]
    by (simp add: parseChatUri_def drop_slash_def starts_with_def decode_session_def decode_encode subagent_chat_id_def
        split: option.split)
qed

text \<open>So an id with a percent sign does not come back.\<close>

lemma subagent_chat_uri_loses_percent:
  "parseChatUri ascii_platform (buildSubagentChatUri ascii_platform ''copilot:/s1'' ''a%2Fb'')
     = Some (''copilot:/s1'', ''subagent/a/b'')"
proof -
  have enc: "ascii_encode_component ''a%2Fb'' = ''a%252Fb''" by code_simp
  have "percentDecode ascii_platform ''a%252Fb'' = ''a%2Fb''" by code_simp
  moreover have "ascii_decode_component ''a%2Fb'' = Some ''a/b''" by code_simp
  ultimately show ?thesis
    using subagent_chat_uri_decoded_twice [of ascii_platform "''copilot:/s1''" "''a%2Fb''"] enc
    by (simp add: ascii_codec ascii_encode_Nil subagent_chat_id_def)
qed

section \<open>Changeset URIs read back\<close>

definition isChangesetUri :: "js_string \<Rightarrow> bool" where
  "isChangesetUri s = (parseChangesetUri s \<noteq> None)"

definition isSessionChangesetUri :: "js_string \<Rightarrow> bool" where
  "isSessionChangesetUri s = (map_option csuri_kind (parseChangesetUri s) = Some SessionChangeset)"

definition isUncommittedChangesetUri :: "js_string \<Rightarrow> bool" where
  "isUncommittedChangesetUri s = (map_option csuri_kind (parseChangesetUri s) = Some UncommittedChangeset)"

definition parseTurnChangesetUri :: "js_string \<Rightarrow> (js_string \<times> js_string) option" where
  "parseTurnChangesetUri s =
     (case parseChangesetUri s of
        None \<Rightarrow> None
      | Some u \<Rightarrow> (case csuri_kind u of TurnChangeset t \<Rightarrow> Some (csuri_sessionUri u, t) | _ \<Rightarrow> None))"

definition parseCompareTurnsChangesetUri :: "js_string \<Rightarrow> (js_string \<times> js_string \<times> js_string) option" where
  "parseCompareTurnsChangesetUri s =
     (case parseChangesetUri s of
        None \<Rightarrow> None
      | Some u \<Rightarrow> (case csuri_kind u of CompareChangeset a b \<Rightarrow> Some (csuri_sessionUri u, a, b) | _ \<Rightarrow> None))"

lemma last_index_of_append: "last_index_of p ys = Some i \<Longrightarrow> last_index_of p (xs @ ys) = Some (length xs + i)"
  by (induction xs) simp_all

text \<open>Text without a slash holds no later segment, nor does text in front of such text that holds none itself.\<close>

lemma last_index_of_plain: "CHR ''/'' \<notin> set s \<Longrightarrow> last_index_of changeset_segment s = None"
  by (induction s) (auto simp: changeset_segment_def starts_with_def)

lemma segment_slash: "starts_with changeset_segment (CHR ''/'' # s) \<Longrightarrow> CHR ''/'' \<in> set s"
proof -
  assume "starts_with changeset_segment (CHR ''/'' # s)"
  then have "take 10 s = ''changeset/''" by (simp add: starts_with_def changeset_segment_def numeral_eq_Suc)
  then show ?thesis using set_take_subset [of 10 s] by auto
qed

lemma parse_segment:
  assumes "last_index_of changeset_segment (''changeset/'' @ i) = None" and "i \<noteq> []"
  shows "parseChangesetUri (session @ changeset_segment @ i)
    = map_option (\<lambda>k. \<lparr>csuri_sessionUri = session, csuri_changesetId = i, csuri_kind = k\<rparr>) (changeset_kind_of i)"
proof -
  have "last_index_of changeset_segment (changeset_segment @ i) = Some 0"
    using assms(1) by (simp add: changeset_segment_def starts_with_def)
  from last_index_of_append [OF this, of session] show ?thesis
    using assms(2) by (simp add: parseChangesetUri_def)
qed

lemma last_index_of_skip:
  "CHR ''/'' \<notin> set xs \<Longrightarrow> last_index_of changeset_segment s = None \<Longrightarrow> last_index_of changeset_segment (xs @ s) = None"
  by (induction xs) (auto simp: changeset_segment_def starts_with_def)

lemma segment_split:
  assumes "starts_with changeset_segment (CHR ''/'' # a @ CHR ''/'' # b)" and "CHR ''/'' \<notin> set a"
  shows "a = ''changeset''"
proof -
  have "take 10 (a @ CHR ''/'' # b) = ''changeset/''"
    using assms(1) by (simp add: starts_with_def changeset_segment_def numeral_eq_Suc)
  then have "a @ CHR ''/'' # b = ''changeset'' @ CHR ''/'' # drop 10 (a @ CHR ''/'' # b)"
    using append_take_drop_id [of 10 "a @ CHR ''/'' # b"] by simp
  then have "takeWhile (\<lambda>c. c \<noteq> CHR ''/'') (a @ CHR ''/'' # b)
    = takeWhile (\<lambda>c. c \<noteq> CHR ''/'') (''changeset'' @ CHR ''/'' # drop 10 (a @ CHR ''/'' # b))"
    by (rule arg_cong)
  moreover have "takeWhile (\<lambda>c. c \<noteq> CHR ''/'') (a @ CHR ''/'' # b) = a"
    using assms(2) by (auto intro!: takeWhile_stop)
  ultimately show ?thesis by simp
qed

lemma last_index_of_slash:
  "last_index_of changeset_segment s = None \<Longrightarrow> \<not> starts_with changeset_segment (CHR ''/'' # s)
   \<Longrightarrow> last_index_of changeset_segment (CHR ''/'' # s) = None"
  by simp

lemma no_later_segment:
  assumes "CHR ''/'' \<notin> set t"
  shows "last_index_of changeset_segment (''changeset/'' @ t) = None"
    and "last_index_of changeset_segment (''changeset/turn/'' @ t) = None"
proof -
  have t: "last_index_of changeset_segment (CHR ''/'' # t) = None"
    using assms last_index_of_plain last_index_of_slash segment_slash by blast
  show "last_index_of changeset_segment (''changeset/'' @ t) = None"
    using last_index_of_skip [OF _ t, of "''changeset''"] by simp
  have "last_index_of changeset_segment (''turn/'' @ t) = None"
    using last_index_of_skip [OF _ t, of "''turn''"] by simp
  moreover have "\<not> starts_with changeset_segment (CHR ''/'' # ''turn/'' @ t)"
    by (simp add: starts_with_def changeset_segment_def)
  ultimately have "last_index_of changeset_segment (CHR ''/'' # ''turn/'' @ t) = None"
    by (rule last_index_of_slash)
  from last_index_of_skip [OF _ this, of "''changeset''"]
  show "last_index_of changeset_segment (''changeset/turn/'' @ t) = None" by simp
qed

lemma no_later_segment_compare:
  assumes "CHR ''/'' \<notin> set a" "CHR ''/'' \<notin> set b" "a \<noteq> ''changeset''"
  shows "last_index_of changeset_segment (''changeset/compare/'' @ a @ ''/'' @ b) = None"
proof -
  have "last_index_of changeset_segment (CHR ''/'' # b) = None"
    using assms(2) last_index_of_plain last_index_of_slash segment_slash by blast
  from last_index_of_skip [OF assms(1) this]
  have "last_index_of changeset_segment (CHR ''/'' # a @ CHR ''/'' # b) = None"
    using segment_split assms(1,3) last_index_of_slash by blast
  from last_index_of_skip [OF _ this, of "''compare''"]
  have "last_index_of changeset_segment (''compare/'' @ a @ CHR ''/'' # b) = None" by simp
  moreover have "\<not> starts_with changeset_segment (CHR ''/'' # ''compare/'' @ a @ CHR ''/'' # b)"
    by (simp add: starts_with_def changeset_segment_def)
  ultimately have "last_index_of changeset_segment (CHR ''/'' # ''compare/'' @ a @ CHR ''/'' # b) = None"
    by (rule last_index_of_slash)
  from last_index_of_skip [OF _ this, of "''changeset''"] show ?thesis by simp
qed

text \<open>
  A changeset URI reads back: for any session URI, what the builders made of a turn id or of
  two turn ids parses to the session and the same ids, and is recognised as a changeset of that
  kind; an opaque id that is not one of the well-known names parses as unknown. The comparison
  of turns needs its first turn not to be called \<open>changeset\<close>, which the builder accepts.
\<close>

theorem changeset_uri_round_trip:
  assumes "buildTurnChangesetUri session t = Inr u" and "t \<noteq> ''{turnId}''"
    and "buildCompareTurnsChangesetUri session a b = Inr v"
    and "a \<notin> {''{originalTurnId}'', ''changeset''}" and "b \<noteq> ''{modifiedTurnId}''"
  shows "parseTurnChangesetUri u = Some (session, t)
    \<and> parseCompareTurnsChangesetUri v = Some (session, a, b)
    \<and> isSessionChangesetUri (buildSessionChangesetUri session)
    \<and> isUncommittedChangesetUri (buildUncommittedChangesetUri session)
    \<and> parseChangesetUri (buildBranchChangesetUri session)
        = Some \<lparr>csuri_sessionUri = session, csuri_changesetId = ''branch'', csuri_kind = BranchChangeset\<rparr>"
proof -
  have t: "turn_id_ok t" "u = session @ changeset_segment @ ''turn/'' @ t"
    using assms(1) by (auto simp: buildTurnChangesetUri_def split: if_splits)
  have ab: "turn_id_ok a" "turn_id_ok b" "v = session @ changeset_segment @ ''compare/'' @ a @ ''/'' @ b"
    using assms(3) by (auto simp: buildCompareTurnsChangesetUri_def split: if_splits)
  have "changeset_kind_of (''turn/'' @ t) = Some (TurnChangeset t)"
    using t(1) assms(2) by (simp add: changeset_kind_of_def starts_with_def)
  moreover have "last_index_of changeset_segment (''changeset/'' @ ''turn/'' @ t) = None"
    using no_later_segment(2) [of t] t(1) by (simp add: turn_id_ok_def)
  ultimately have "parseTurnChangesetUri u = Some (session, t)"
    using parse_segment [of "''turn/'' @ t" session] by (simp add: parseTurnChangesetUri_def t(2))
  moreover have "changeset_kind_of (''compare/'' @ a @ ''/'' @ b) = Some (CompareChangeset a b)"
  proof -
    have "split_pair (a @ CHR ''/'' # b) = Some (a, b)"
    proof -
      have "takeWhile (\<lambda>c. c \<noteq> CHR ''/'') (a @ CHR ''/'' # b) = a"
        "dropWhile (\<lambda>c. c \<noteq> CHR ''/'') (a @ CHR ''/'' # b) = CHR ''/'' # b"
        using ab(1) by (auto simp: turn_id_ok_def intro!: takeWhile_stop dropWhile_stop)
      then show ?thesis using ab(2) by (simp add: split_pair_def turn_id_ok_def)
    qed
    then show ?thesis using ab(1,2) assms(4,5)
      by (simp add: changeset_kind_of_def starts_with_def turn_id_ok_def)
  qed
  moreover have "last_index_of changeset_segment (''changeset/'' @ ''compare/'' @ a @ ''/'' @ b) = None"
    using no_later_segment_compare [of a b] ab(1,2) assms(4) by (simp add: turn_id_ok_def)
  ultimately have "parseCompareTurnsChangesetUri v = Some (session, a, b)" "parseTurnChangesetUri u = Some (session, t)"
    using parse_segment [of "''compare/'' @ a @ ''/'' @ b" session]
    by (simp_all add: parseCompareTurnsChangesetUri_def ab(3))
  moreover have "parseChangesetUri (session @ changeset_segment @ i)
      = Some \<lparr>csuri_sessionUri = session, csuri_changesetId = i, csuri_kind = k\<rparr>"
    if "CHR ''/'' \<notin> set i" "i \<noteq> []" "changeset_kind_of i = Some k" for i k
    using parse_segment [of i session] no_later_segment(1) [of i] that by simp
  ultimately show ?thesis
    by (simp add: isSessionChangesetUri_def isUncommittedChangesetUri_def buildSessionChangesetUri_def
        buildUncommittedChangesetUri_def buildBranchChangesetUri_def changeset_kind_of_def)
qed

lemma changeset_uri_round_trip_witness:
  "parseTurnChangesetUri ''copilot:/s/changeset/turn/t1'' = Some (''copilot:/s'', ''t1'')"
  using changeset_uri_round_trip [of "''copilot:/s''" "''t1''" "''copilot:/s/changeset/turn/t1''" "''a''" "''b''"
      "''copilot:/s/changeset/compare/a/b''"]
  by (simp add: buildTurnChangesetUri_def buildCompareTurnsChangesetUri_def turn_id_ok_def changeset_segment_def)

end
