(* ===== verification/Session_Catalog.thy ===== *)
theory Session_Catalog
  imports Chat_Reducer Session_Reducer Root_Channel
begin

text \<open>
  The session catalog of the root channel: the factories and projections of
  \<open>common/state/sessionState.ts\<close> between a session's state, its chats and their summaries, the
  diff of two summaries that \<open>SessionSummaryNotifier\<close> (\<open>node/agentHostStateManager.ts\<close>) puts on
  the wire, and \<open>normalizeSessionSummaryChanges\<close>, with which a client reads it.
\<close>

unbundle bit_operations_syntax

section \<open>Typed views of \<open>_meta\<close>\<close>

definition meta_value :: "json js_record option \<Rightarrow> js_string \<Rightarrow> json option" where
  "meta_value meta k = Option.bind meta (\<lambda>m. map_of m k)"

text \<open>\<open>readToolCallMeta(toolCall).autoApproveBySetting === true\<close>\<close>

definition autoApproveBySetting :: "tool_call_state \<Rightarrow> bool" where
  "autoApproveBySetting tc = (meta_value (tc_meta (tcBase tc)) ''autoApproveBySetting'' = Some (JBool True))"

text \<open>\<open>readEphemeralSessionMeta(source).isEphemeral\<close> as a condition.\<close>

definition isEphemeral :: "json js_record option \<Rightarrow> bool" where
  "isEphemeral meta = (meta_value meta ''vscode.chat.ephemeralSession'' = Some (JBool True))"

definition readSessionExternal :: "json js_record option \<Rightarrow> bool" where
  "readSessionExternal meta = (meta_value meta ''vscode.external'' = Some (JBool True))"

section \<open>Factories\<close>

definition createRootState :: root_state where
  "createRootState = \<lparr>root_agents = [], root_activeSessions = Some 0, root_terminals = None, root_config = None,
     root_meta = None\<rparr>"

definition createSessionState :: "session_summary \<Rightarrow> session_state" where
  "createSessionState summary =
     \<lparr>smeta_provider = smeta_provider summary, smeta_title = smeta_title summary, smeta_status = smeta_status summary,
      smeta_activity = smeta_activity summary, smeta_origin = None, smeta_project = smeta_project summary,
      smeta_workingDirectories = smeta_workingDirectories summary, smeta_annotations = smeta_annotations summary,
      ses_lifecycle = SessionCreating, ses_creationError = None, ses_serverTools = None, ses_activeClients = [],
      ses_chats = [], ses_defaultChat = None, ses_config = None, ses_customizations = None,
      ses_changesets = None, ses_inputNeeded = None, ses_meta = ssum_meta summary\<rparr>"

definition createChatState :: "chat_summary \<Rightarrow> chat_state" where
  "createChatState summary =
     \<lparr>chat_resource = csum_resource summary, chat_title = csum_title summary, chat_status = csum_status summary,
      chat_activity = csum_activity summary, chat_modifiedAt = csum_modifiedAt summary,
      chat_origin = csum_origin summary, chat_interactivity = csum_interactivity summary,
      chat_workingDirectories = csum_workingDirectories summary, chat_turns = [], chat_turnsNextCursor = None,
      chat_activeTurn = None, chat_steeringMessage = None, chat_queuedMessages = None, chat_draft = None,
      chat_meta = None\<rparr>"

definition createDefaultChatSummary :: "session_summary \<Rightarrow> js_string \<Rightarrow> chat_summary" where
  "createDefaultChatSummary session chatUri =
     \<lparr>csum_resource = chatUri, csum_title = smeta_title session, csum_status = smeta_status session,
      csum_activity = smeta_activity session, csum_modifiedAt = ssum_modifiedAt session,
      csum_origin = Some OriginUser, csum_interactivity = None, csum_workingDirectories = None\<rparr>"

definition createActiveTurn :: "js_string \<Rightarrow> message \<Rightarrow> js_string \<Rightarrow> active_turn" where
  "createActiveTurn i message startedAt =
     \<lparr>aturn_id = i, aturn_startedAt = startedAt, aturn_message = message, aturn_responseParts = [], aturn_usage = None\<rparr>"

section \<open>From a chat to its summary\<close>

definition auto_approved_part :: "response_part \<Rightarrow> bool" where
  "auto_approved_part part =
     (case part of
        ToolCallPart tc \<Rightarrow> tc_status tc = StPendingConfirmation \<and> autoApproveBySetting tc
      | _ \<Rightarrow> False)"

definition hasAutoApprovedPendingConfirmation :: "chat_state \<Rightarrow> bool" where
  "hasAutoApprovedPendingConfirmation state =
     (case chat_activeTurn state of None \<Rightarrow> False | Some t \<Rightarrow> list_ex auto_approved_part (aturn_responseParts t))"

definition awaiting_part :: "response_part \<Rightarrow> bool" where
  "awaiting_part part =
     (case part of
        InputRequestPart p \<Rightarrow> irpart_response p = None
      | ToolCallPart tc \<Rightarrow>
          tc_status tc = StPendingResultConfirmation \<or> tc_status tc = StAuthRequired
          \<or> (tc_status tc = StPendingConfirmation \<and> \<not> autoApproveBySetting tc)
      | _ \<Rightarrow> False)"

definition chatAwaitsUserInput :: "chat_state \<Rightarrow> bool" where
  "chatAwaitsUserInput state =
     (case chat_activeTurn state of None \<Rightarrow> False | Some t \<Rightarrow> list_ex awaiting_part (aturn_responseParts t))"

definition chatSummaryStatus :: "chat_state \<Rightarrow> session_status" where
  "chatSummaryStatus state =
     (let status = chat_status state
      in if status AND status_InputNeeded \<noteq> status_InputNeeded then status
         else if hasAutoApprovedPendingConfirmation state \<and> \<not> chatAwaitsUserInput state
         then (status AND NOT STATUS_ACTIVITY_MASK) OR status_InProgress
         else status)"

definition chatSummaryFromState :: "chat_state \<Rightarrow> chat_summary" where
  "chatSummaryFromState state =
     \<lparr>csum_resource = chat_resource state, csum_title = chat_title state, csum_status = chatSummaryStatus state,
      csum_activity = chat_activity state, csum_modifiedAt = chat_modifiedAt state, csum_origin = chat_origin state,
      csum_interactivity = chat_interactivity state, csum_workingDirectories = chat_workingDirectories state\<rparr>"

definition effectiveChatInteractivity :: "chat_interactivity option \<Rightarrow> bool \<Rightarrow> chat_interactivity" where
  "effectiveChatInteractivity interactivity sessionArchived =
     (if interactivity = Some HiddenInteractivity then HiddenInteractivity
      else if sessionArchived then ReadOnlyInteractivity
      else or_default interactivity FullInteractivity)"

definition isChatReadOnly :: "chat_interactivity option \<Rightarrow> bool \<Rightarrow> bool" where
  "isChatReadOnly interactivity sessionArchived =
     (effectiveChatInteractivity interactivity sessionArchived = ReadOnlyInteractivity)"

definition getDefaultChat :: "session_state \<Rightarrow> chat_summary option" where
  "getDefaultChat session =
     (case Option.bind (ses_defaultChat session) (\<lambda>d. find (\<lambda>c. csum_resource c = d) (ses_chats session)) of
        Some c \<Rightarrow> Some c
      | None \<Rightarrow> (case ses_chats session of [] \<Rightarrow> None | c # _ \<Rightarrow> Some c))"

record session_with_chat = session_state +
  swc_turns :: "turn list"
  swc_activeTurn :: "active_turn option"
  swc_steeringMessage :: "pending_message option"
  swc_queuedMessages :: "pending_message list option"
  swc_draft :: "message option"

definition mergeSessionWithDefaultChat :: "session_state \<Rightarrow> chat_state option \<Rightarrow> session_with_chat" where
  "mergeSessionWithDefaultChat session chat =
     session_state.extend
       (session\<lparr>smeta_workingDirectories :=
          orelse (Option.bind chat chat_workingDirectories) (smeta_workingDirectories session)\<rparr>)
       (session_with_chat.fields
          (case chat of None \<Rightarrow> [] | Some c \<Rightarrow> chat_turns c)
          (Option.bind chat chat_activeTurn) (Option.bind chat chat_steeringMessage)
          (Option.bind chat chat_queuedMessages) (Option.bind chat chat_draft))"

section \<open>Summary diffs\<close>

text \<open>
  A property of a diff: absent, present with the value \<open>undefined\<close>, present with \<open>null\<close>, or
  with a value. \<open>JSON.stringify\<close> drops the properties that are \<open>undefined\<close>.
\<close>

datatype 'a field = Absent | Undef | Null | Val 'a

definition json_field :: "'a field \<Rightarrow> 'a field" where
  "json_field f = (if f = Undef then Absent else f)"

record session_summary_changes =
  chs_resource :: "js_string field"
  chs_provider :: "js_string field"
  chs_createdAt :: "js_string field"
  chs_title :: "js_string field"
  chs_status :: "session_status field"
  chs_modifiedAt :: "js_string field"
  chs_activity :: "js_string field"
  chs_origin :: "session_origin field"
  chs_project :: "project_info field"
  chs_workingDirectories :: "js_string list field"
  chs_annotations :: "annotations_summary field"
  chs_changes :: "changes_summary field"
  chs_meta :: "json js_record field"

definition no_changes :: session_summary_changes where
  "no_changes = \<lparr>chs_resource = Absent, chs_provider = Absent, chs_createdAt = Absent, chs_title = Absent,
     chs_status = Absent, chs_modifiedAt = Absent, chs_activity = Absent, chs_origin = Absent, chs_project = Absent,
     chs_workingDirectories = Absent, chs_annotations = Absent, chs_changes = Absent, chs_meta = Absent\<rparr>"

text \<open>\<open>if (current.x !== announced.x) { changes.x = current.x ?? null; }\<close>, values compared by content.\<close>

definition diff_field :: "'a \<Rightarrow> 'a \<Rightarrow> 'a field" where
  "diff_field current announced = (if current \<noteq> announced then Val current else Absent)"

definition diff_optional :: "'a option \<Rightarrow> 'a option \<Rightarrow> 'a field" where
  "diff_optional current announced =
     (if current \<noteq> announced then (case current of None \<Rightarrow> Null | Some v \<Rightarrow> Val v) else Absent)"

definition summary_diff :: "session_summary \<Rightarrow> session_summary \<Rightarrow> session_summary_changes" where
  "summary_diff current announced = no_changes
     \<lparr>chs_title := diff_field (smeta_title current) (smeta_title announced),
      chs_status := diff_field (smeta_status current) (smeta_status announced),
      chs_activity := diff_optional (smeta_activity current) (smeta_activity announced),
      chs_modifiedAt := diff_field (ssum_modifiedAt current) (ssum_modifiedAt announced),
      chs_project := diff_optional (smeta_project current) (smeta_project announced),
      chs_changes := diff_optional (ssum_changes current) (ssum_changes announced),
      chs_workingDirectories := diff_optional (smeta_workingDirectories current) (smeta_workingDirectories announced),
      chs_meta := diff_optional (ssum_meta current) (ssum_meta announced)\<rparr>"

definition changes_through_json :: "session_summary_changes \<Rightarrow> session_summary_changes" where
  "changes_through_json c = \<lparr>chs_resource = json_field (chs_resource c), chs_provider = json_field (chs_provider c),
     chs_createdAt = json_field (chs_createdAt c), chs_title = json_field (chs_title c),
     chs_status = json_field (chs_status c), chs_modifiedAt = json_field (chs_modifiedAt c),
     chs_activity = json_field (chs_activity c), chs_origin = json_field (chs_origin c),
     chs_project = json_field (chs_project c), chs_workingDirectories = json_field (chs_workingDirectories c),
     chs_annotations = json_field (chs_annotations c), chs_changes = json_field (chs_changes c),
     chs_meta = json_field (chs_meta c)\<rparr>"

text \<open>The two shapes of a line of \<open>normalizeSessionSummaryChanges\<close>: a required field and an optional one.\<close>

definition normalize_required :: "'a field \<Rightarrow> 'a field" where
  "normalize_required f = (if f = Undef then Absent else f)"

definition normalize_optional :: "'a field \<Rightarrow> 'a field" where
  "normalize_optional f = (case f of Absent \<Rightarrow> Absent | Null \<Rightarrow> Undef | Undef \<Rightarrow> Undef | Val v \<Rightarrow> Val v)"

definition normalizeSessionSummaryChanges :: "session_summary_changes \<Rightarrow> session_summary_changes" where
  "normalizeSessionSummaryChanges c = no_changes
     \<lparr>chs_title := normalize_required (chs_title c), chs_status := normalize_required (chs_status c),
      chs_modifiedAt := normalize_required (chs_modifiedAt c), chs_activity := normalize_optional (chs_activity c),
      chs_origin := normalize_optional (chs_origin c), chs_project := normalize_optional (chs_project c),
      chs_workingDirectories := normalize_optional (chs_workingDirectories c),
      chs_annotations := normalize_optional (chs_annotations c), chs_changes := normalize_optional (chs_changes c),
      chs_meta := normalize_optional (chs_meta c)\<rparr>"

text \<open>
  \<open>{ ...cached, ...normalized }\<close>. A required field is never \<open>null\<close>: the type of a diff allows
  \<open>null\<close> for the optional fields only.
\<close>

definition over_required :: "'a \<Rightarrow> 'a field \<Rightarrow> 'a" where
  "over_required old f = (case f of Val v \<Rightarrow> v | _ \<Rightarrow> old)"

definition over_optional :: "'a option \<Rightarrow> 'a field \<Rightarrow> 'a option" where
  "over_optional old f = (case f of Absent \<Rightarrow> old | Val v \<Rightarrow> Some v | _ \<Rightarrow> None)"

definition apply_summary_changes :: "session_summary \<Rightarrow> session_summary_changes \<Rightarrow> session_summary" where
  "apply_summary_changes s c = s
     \<lparr>ssum_resource := over_required (ssum_resource s) (chs_resource c),
      smeta_provider := over_required (smeta_provider s) (chs_provider c),
      ssum_createdAt := over_required (ssum_createdAt s) (chs_createdAt c),
      smeta_title := over_required (smeta_title s) (chs_title c),
      smeta_status := over_required (smeta_status s) (chs_status c),
      ssum_modifiedAt := over_required (ssum_modifiedAt s) (chs_modifiedAt c),
      smeta_activity := over_optional (smeta_activity s) (chs_activity c),
      smeta_origin := over_optional (smeta_origin s) (chs_origin c),
      smeta_project := over_optional (smeta_project s) (chs_project c),
      smeta_workingDirectories := over_optional (smeta_workingDirectories s) (chs_workingDirectories c),
      smeta_annotations := over_optional (smeta_annotations s) (chs_annotations c),
      ssum_changes := over_optional (ssum_changes s) (chs_changes c),
      ssum_meta := over_optional (ssum_meta s) (chs_meta c)\<rparr>"

definition receive_summary_changes :: "session_summary \<Rightarrow> session_summary_changes \<Rightarrow> session_summary" where
  "receive_summary_changes cached c =
     apply_summary_changes cached (normalizeSessionSummaryChanges (changes_through_json c))"

section \<open>What a diff carries\<close>

text \<open>The fields a diff can carry; the others keep what the session was announced with.\<close>

definition with_mutable_fields :: "session_summary \<Rightarrow> session_summary \<Rightarrow> session_summary" where
  "with_mutable_fields current s = s
     \<lparr>smeta_title := smeta_title current, smeta_status := smeta_status current,
      smeta_activity := smeta_activity current, ssum_modifiedAt := ssum_modifiedAt current,
      smeta_project := smeta_project current, ssum_changes := ssum_changes current,
      smeta_workingDirectories := smeta_workingDirectories current, ssum_meta := ssum_meta current\<rparr>"

lemma field_round_trip [simp]:
  "over_required y (normalize_required (json_field (diff_field x y))) = x"
  "over_optional b (normalize_optional (json_field (diff_optional a b))) = a"
  "over_required y (Absent :: 'a field) = y"
  "over_optional b (normalize_optional (json_field Absent)) = b"
  by (auto simp: over_required_def over_optional_def normalize_required_def normalize_optional_def json_field_def
      diff_field_def diff_optional_def split: option.split)

text \<open>
  A summary diff survives the wire: computing the diff of two summaries, serialising it,
  decoding it and applying it to the older summary gives the newer one in every field a diff
  carries, including the optional fields that were cleared; the fields it does not carry
  (identity, origin, annotations) keep their value. In particular a diff between summaries that
  agree on those fields turns one into the other.
\<close>

theorem summary_diff_round_trip:
  "receive_summary_changes s (summary_diff current s) = with_mutable_fields current s"
  by (simp add: receive_summary_changes_def apply_summary_changes_def normalizeSessionSummaryChanges_def
      changes_through_json_def summary_diff_def no_changes_def with_mutable_fields_def)

lemma summary_diff_empty:
  "summary_diff current s = no_changes \<longleftrightarrow> with_mutable_fields current s = s"
  by (cases current; cases s)
    (auto simp: summary_diff_def no_changes_def with_mutable_fields_def diff_field_def diff_optional_def
      split: option.splits if_splits)

end
