(* ===== verification/Root_Config.thy ===== *)
theory Root_Config
  imports Root_Channel
begin

text \<open>
  What the state manager does with a configuration change before it reaches the root reducer: the
  deep comparison \<open>equals\<close> (\<open>src/vs/base/common/objects.ts\<close>) that recognises a change without
  effect, and \<open>common/agentCustomizationSettings.ts\<close>, which keeps the values of the settings a
  provider registered when a client replaces the configuration.
\<close>

section \<open>Deep equality\<close>

text \<open>The keys of an object are compared as sorted lists, so their order does not count.\<close>

function (sequential) json_equals :: "json \<Rightarrow> json \<Rightarrow> bool" where
  "json_equals (JArray xs) (JArray ys) = (length xs = length ys \<and> list_all (\<lambda>(x, y). json_equals x y) (zip xs ys))"
| "json_equals (JObject xs) (JObject ys) =
     (length xs = length ys \<and> fst ` set xs = fst ` set ys
      \<and> list_all (\<lambda>(k, v). case map_of ys k of None \<Rightarrow> False | Some w \<Rightarrow> json_equals v w) xs)"
| "json_equals x y = (x = y)"
  by pat_completeness auto
termination
proof (relation "measure (\<lambda>(x, y). size x)", goal_cases)
  case (2 xs ys z a b)
  then show ?case
    using size_list_estimation' [of a xs "size a" size] by (auto dest: set_zip_leftD simp: less_Suc_eq_le)
next
  case (3 xs ys z a b w)
  then show ?case
    using size_list_estimation' [of "(a, b)" xs "size b" "size_prod (\<lambda>x. 0) size"] by (auto simp: less_Suc_eq_le)
qed simp

definition record_equals :: "json js_record \<Rightarrow> json js_record \<Rightarrow> bool" where
  "record_equals xs ys = json_equals (JObject xs) (JObject ys)"

section \<open>Settings a provider registered\<close>

definition json_get :: "json \<Rightarrow> js_string \<Rightarrow> json option" where
  "json_get v k = (case v of JObject m \<Rightarrow> map_of m k | _ \<Rightarrow> None)"

definition is_string :: "json option \<Rightarrow> bool" where
  "is_string v = (case v of Some (JString _) \<Rightarrow> True | _ \<Rightarrow> False)"

definition is_optional_string :: "json option \<Rightarrow> bool" where
  "is_optional_string v = (v = None \<or> is_string v)"

text \<open>A value that is no object has none of the properties the descriptors require.\<close>

definition isAgentCustomizationSettingDescriptor :: "json \<Rightarrow> bool" where
  "isAgentCustomizationSettingDescriptor v =
     (is_string (json_get v ''key'') \<and> is_string (json_get v ''group'')
      \<and> (json_get v ''kind'' = None \<or> json_get v ''kind'' = Some (JString ''multiline''))
      \<and> is_optional_string (json_get v ''saveLabel''))"

definition configuration_file_ok :: "json option \<Rightarrow> bool" where
  "configuration_file_ok f =
     (case f of
        None \<Rightarrow> True
      | Some file \<Rightarrow>
          is_string (json_get file ''resource'') \<and> is_string (json_get file ''title'')
          \<and> is_string (json_get file ''description'') \<and> is_string (json_get file ''openLabel'')
          \<and> is_optional_string (json_get file ''documentationUrl'')
          \<and> is_optional_string (json_get file ''documentationLabel''))"

definition json_elements :: "json option \<Rightarrow> json list option" where
  "json_elements v = (case v of Some (JArray xs) \<Rightarrow> Some xs | _ \<Rightarrow> None)"

definition isAgentCustomizationSettingsDescriptor :: "json \<Rightarrow> bool" where
  "isAgentCustomizationSettingsDescriptor v =
     (is_string (json_get v ''provider'') \<and> is_string (json_get v ''title'') \<and> is_string (json_get v ''description'')
      \<and> (case json_elements (json_get v ''settings'') of
           None \<Rightarrow> False
         | Some settings \<Rightarrow> list_all isAgentCustomizationSettingDescriptor settings)
      \<and> configuration_file_ok (json_get v ''configurationFile''))"

definition getAgentCustomizationSettingsEntries :: "root_state \<Rightarrow> json list" where
  "getAgentCustomizationSettingsEntries state =
     (case json_elements (Option.bind (root_meta state) (\<lambda>m. map_of m ''vscode.agentCustomizationSettings'')) of
        None \<Rightarrow> []
      | Some entries \<Rightarrow> filter isAgentCustomizationSettingsDescriptor entries)"

definition setting_keys :: "json \<Rightarrow> js_string list" where
  "setting_keys e =
     (case json_elements (json_get e ''settings'') of
        None \<Rightarrow> []
      | Some settings \<Rightarrow> concat (map (\<lambda>s. case json_get s ''key'' of Some (JString k) \<Rightarrow> [k] | _ \<Rightarrow> []) settings))"

definition getProviderBackedRootConfigKeys :: "root_state \<Rightarrow> js_string list" where
  "getProviderBackedRootConfigKeys state = remdups (concat (map setting_keys (getAgentCustomizationSettingsEntries state)))"

fun preserve_keys :: "json js_record \<Rightarrow> js_string list \<Rightarrow> json js_record \<Rightarrow> json js_record" where
  "preserve_keys current [] vals = vals"
| "preserve_keys current (k # ks) vals =
     (case (map_of vals k, map_of current k) of
        (None, Some v) \<Rightarrow> preserve_keys current ks (AList.update k v vals)
      | _ \<Rightarrow> preserve_keys current ks vals)"

definition preserveProviderBackedRootConfigValues :: "root_state \<Rightarrow> json js_record \<Rightarrow> json js_record" where
  "preserveProviderBackedRootConfigValues state replacement =
     (let vals = spread [] replacement
      in case root_config state of
           None \<Rightarrow> vals
         | Some cfg \<Rightarrow> preserve_keys (rcfg_values cfg) (getProviderBackedRootConfigKeys state) vals)"

lemma map_of_preserve_keys:
  "map_of (preserve_keys current ks vals) k =
     (case map_of vals k of Some v \<Rightarrow> Some v | None \<Rightarrow> if k \<in> set ks then map_of current k else None)"
  by (induction current ks vals rule: preserve_keys.induct) (auto simp: update_conv' split: option.splits)

end
