(* ===== verification/Uri_Format.thy ===== *)
theory Uri_Format
  imports Channel_Uris
begin

text \<open>
  Printing URIs (\<open>URI.toString\<close> with its encoder, \<open>URI.with\<close>, \<open>src/vs/base/common/uri.ts\<close>) and the
  URIs of subagent sessions (\<open>common/state/sessionState.ts\<close>), which hang under their parent
  session's path. \<open>None\<close> is the exception of \<open>_validateUri\<close>.
\<close>

section \<open>The encoder\<close>

definition encodeTable :: "char \<Rightarrow> js_string option" where
  "encodeTable c = map_of
     [(CHR '':'', ''%3A''), (CHR ''/'', ''%2F''), (CHR ''?'', ''%3F''), (CHR ''#'', ''%23''), (CHR ''['', ''%5B''),
      (CHR '']'', ''%5D''), (CHR ''@'', ''%40''), (CHR ''!'', ''%21''), (CHR ''$'', ''%24''), (CHR ''&'', ''%26''),
      (CHR 0x27, ''%27''), (CHR ''('', ''%28''), (CHR '')'', ''%29''), (CHR ''*'', ''%2A''), (CHR ''+'', ''%2B''),
      (CHR '','', ''%2C''), (CHR '';'', ''%3B''), (CHR ''='', ''%3D''), (CHR '' '', ''%20'')] c"

definition kept_char :: "bool \<Rightarrow> bool \<Rightarrow> char \<Rightarrow> bool" where
  "kept_char isPath isAuthority c =
     (is_alnum c \<or> c \<in> set ''-._~'' \<or> (isPath \<and> c = CHR ''/'') \<or> (isAuthority \<and> c \<in> set ''[]:''))"

text \<open>The first argument is the run of characters that waits for the native encoder.\<close>

fun encode_runs :: "platform \<Rightarrow> bool \<Rightarrow> bool \<Rightarrow> js_string \<Rightarrow> js_string \<Rightarrow> js_string" where
  "encode_runs pl isPath isAuthority run [] = (if run = [] then [] else pf_encodeURIComponent pl run)"
| "encode_runs pl isPath isAuthority run (c # cs) =
     (let flushed = (if run = [] then [] else pf_encodeURIComponent pl run)
      in if kept_char isPath isAuthority c then flushed @ c # encode_runs pl isPath isAuthority [] cs
         else case encodeTable c of
           Some escaped \<Rightarrow> flushed @ escaped @ encode_runs pl isPath isAuthority [] cs
         | None \<Rightarrow> encode_runs pl isPath isAuthority (run @ [c]) cs)"

definition encodeURIComponentFast :: "platform \<Rightarrow> js_string \<Rightarrow> bool \<Rightarrow> bool \<Rightarrow> js_string" where
  "encodeURIComponentFast pl s isPath isAuthority = encode_runs pl isPath isAuthority [] s"

section \<open>Printing\<close>

definition lower_char :: "char \<Rightarrow> char" where
  "lower_char c = (let n = of_char c :: nat in if 65 \<le> n \<and> n \<le> 90 then char_of (n + 32) else c)"

definition is_upper :: "char \<Rightarrow> bool" where
  "is_upper c = (let n = of_char c :: nat in 65 \<le> n \<and> n \<le> 90)"

text \<open>\<open>s.lastIndexOf(c)\<close> and the text before and after it.\<close>

definition split_last :: "char \<Rightarrow> js_string \<Rightarrow> (js_string \<times> js_string) option" where
  "split_last c s =
     (case last_index_of [c] s of None \<Rightarrow> None | Some i \<Rightarrow> Some (take i s, drop (Suc i) s))"

definition format_userinfo :: "platform \<Rightarrow> js_string \<Rightarrow> js_string" where
  "format_userinfo pl userinfo =
     (case split_last (CHR '':'') userinfo of
        None \<Rightarrow> encodeURIComponentFast pl userinfo False False
      | Some (user, pass) \<Rightarrow>
          encodeURIComponentFast pl user False False @ '':'' @ encodeURIComponentFast pl pass False True) @ ''@''"

definition format_host :: "platform \<Rightarrow> js_string \<Rightarrow> js_string" where
  "format_host pl authority =
     (let a = map lower_char authority
      in case split_last (CHR '':'') a of
           None \<Rightarrow> encodeURIComponentFast pl a False True
         | Some (auth, port) \<Rightarrow> encodeURIComponentFast pl auth False True @ '':'' @ port)"

definition format_authority :: "platform \<Rightarrow> js_string \<Rightarrow> js_string" where
  "format_authority pl authority =
     (if CHR ''@'' \<in> set authority
      then format_userinfo pl (takeWhile (\<lambda>c. c \<noteq> CHR ''@'') authority)
             @ format_host pl (tl (dropWhile (\<lambda>c. c \<noteq> CHR ''@'') authority))
      else format_host pl authority)"

definition lower_drive :: "js_string \<Rightarrow> js_string" where
  "lower_drive path =
     (case path of
        s # d # c # rest \<Rightarrow>
          if s = CHR ''/'' \<and> c = CHR '':'' then (if is_upper d then s # lower_char d # c # rest else path)
          else if d = CHR '':'' \<and> is_upper s then lower_char s # d # c # rest else path
      | [s, d] \<Rightarrow> if d = CHR '':'' \<and> is_upper s then [lower_char s, d] else path
      | _ \<Rightarrow> path)"

definition asFormatted :: "platform \<Rightarrow> uri \<Rightarrow> js_string" where
  "asFormatted pl u =
     (if uri_scheme u = [] then [] else uri_scheme u @ '':'')
     @ (if uri_authority u \<noteq> [] \<or> uri_scheme u = ''file'' then ''//'' else [])
     @ (if uri_authority u = [] then [] else format_authority pl (uri_authority u))
     @ (if uri_path u = [] then [] else encodeURIComponentFast pl (lower_drive (uri_path u)) True False)
     @ (if uri_query u = [] then [] else ''?'' @ encodeURIComponentFast pl (uri_query u) False False)
     @ (if uri_fragment u = [] then [] else ''#'' @ encodeURIComponentFast pl (uri_fragment u) False False)"

text \<open>\<open>uri.with({ path })\<close>: the same object when nothing changes, otherwise a new, validated one.\<close>

definition withPath :: "uri \<Rightarrow> js_string \<Rightarrow> uri option" where
  "withPath u path =
     (if path = uri_path u then Some u
      else
        let scheme = schemeFix (uri_scheme u);
            u' = u\<lparr>uri_scheme := scheme, uri_path := referenceResolution scheme path\<rparr>
        in if validateUri u' then Some u' else None)"

section \<open>Subagent sessions\<close>

definition subagent_marker :: js_string where "subagent_marker = ''/subagent/''"

definition getSubagentBasePath :: "platform \<Rightarrow> js_string \<Rightarrow> (uri \<times> js_string) option" where
  "getSubagentBasePath pl parentSession =
     map_option
       (\<lambda>parent.
          let path = uri_path parent;
              parentPath = (if path \<noteq> [] \<and> List.last path = CHR ''/'' then butlast path else path)
          in (parent, parentPath @ subagent_marker))
       (parseUri pl parentSession)"

definition buildSubagentSessionUri :: "platform \<Rightarrow> js_string \<Rightarrow> js_string \<Rightarrow> js_string option" where
  "buildSubagentSessionUri pl parentSession toolCallId =
     (case getSubagentBasePath pl parentSession of
        None \<Rightarrow> None
      | Some (parent, path) \<Rightarrow> map_option (asFormatted pl) (withPath parent (path @ toolCallId)))"

definition buildSubagentSessionUriPrefix :: "platform \<Rightarrow> js_string \<Rightarrow> js_string option" where
  "buildSubagentSessionUriPrefix pl parentSession =
     (case getSubagentBasePath pl parentSession of
        None \<Rightarrow> None
      | Some (parent, path) \<Rightarrow> map_option (asFormatted pl) (withPath parent path))"

text \<open>
  \<open>SUBAGENT_URI_PATH_REGEX\<close>: both groups are greedy and not empty, and a dot matches no line
  break, so the path splits at the last marker that has text on both sides.
\<close>

definition subagent_split :: "js_string \<Rightarrow> (js_string \<times> js_string) option" where
  "subagent_split path =
     (if list_ex (\<lambda>c. of_char c = (10 :: nat) \<or> of_char c = (13 :: nat)) path then None
      else case filter (\<lambda>i. starts_with subagent_marker (drop i path) \<and> i + length subagent_marker < length path)
                  (rev [1..<length path]) of
             [] \<Rightarrow> None
           | i # _ \<Rightarrow> Some (take i path, drop (i + length subagent_marker) path))"

text \<open>The outer \<open>None\<close> is an exception of \<open>URI.parse\<close> or \<open>with\<close>.\<close>

definition parseSubagentSessionUri :: "platform \<Rightarrow> js_string \<Rightarrow> (uri \<times> js_string) option option" where
  "parseSubagentSessionUri pl s =
     (case parseUri pl s of
        None \<Rightarrow> None
      | Some resource \<Rightarrow>
         (case subagent_split (uri_path resource) of
            None \<Rightarrow> Some None
          | Some (parentPath, toolCallId) \<Rightarrow>
              map_option (\<lambda>u. Some (u, toolCallId)) (withPath resource parentPath)))"

definition isSubagentSession :: "platform \<Rightarrow> js_string \<Rightarrow> bool option" where
  "isSubagentSession pl s = map_option (\<lambda>r. r \<noteq> None) (parseSubagentSessionUri pl s)"

end
