(* ===== verification/State_Manager.thy ===== *)
theory State_Manager
  imports Session_Catalog Root_Config State_Actions Subscription Uri_Format Changeset_Cache
begin

text \<open>
  The server's state manager, class \<open>AgentHostStateManager\<close> of \<open>node/agentHostStateManager.ts\<close>,
  with its \<open>SessionSummaryNotifier\<close>: it owns the authoritative state of every channel, runs
  every action through the reducers, numbers the envelopes and notifies the clients. What it
  fires on its emitters is recorded, in order, in \<open>sm_out\<close>; the listeners are not part of the
  model. Objects are compared by content where the code compares references: the code may in
  addition announce a change whose value is the same.

  A chat entry is an object that a pending promise may hold on to; \<open>cent_id\<close> is its identity. A
  resolver is a callback of the caller: \<open>cent_resolver\<close> names it. \<open>resolveChatState\<close> is cut at
  its \<open>await\<close>: \<open>chatResolved\<close> and \<open>chatResolveFailed\<close> continue it.
\<close>

unbundle bit_operations_syntax

section \<open>State\<close>

datatype session_use = UnusedDraft | UsedSession

record session_entry =
  sent_state :: session_state
  sent_createdAt :: js_string
  sent_modifiedAt :: js_string
  sent_changes :: "changes_summary option"
  sent_use :: session_use

record chat_entry =
  cent_id :: nat
  cent_session :: js_string
  cent_summary :: chat_summary
  cent_state :: "chat_state option"
  cent_providerData :: "js_string option"
  cent_draft :: "message option"
  cent_resolver :: "nat option"
  cent_inFlight :: bool
  cent_valid :: bool

datatype notification =
    SessionAddedNote session_summary
  | SessionRemovedNote js_string
  | SessionSummaryChangedNote js_string session_summary_changes

datatype emission =
    EmitEnvelope action_envelope
  | EmitNotification notification
  | EmitActiveTurn js_string bool
  | EmitStatus js_string session_status
  | EmitSessionRemoved js_string
  | EmitTitle js_string js_string
  | EmitDefaultChatTitle js_string js_string js_string
  | EmitConfig js_string "session_config_state option" "session_config_state option"
  | EmitWorkingDirectories js_string
  | EmitSummaryChanged js_string session_summary_changes

record state_manager =
  sm_serverSeq :: nat
  sm_root :: root_state
  sm_sessions :: "(js_string \<times> session_entry) list"
  sm_chats :: "(js_string \<times> chat_entry) list"
  sm_nextChat :: nat
  sm_changesets :: changeset_cache
  sm_annotations :: "(js_string \<times> annotations_state) list"
  sm_active :: "(js_string \<times> js_string list) list"
  sm_lastNotified :: "(js_string \<times> session_summary) list"
  sm_dirty :: "js_string list"
  sm_published :: "js_string list"
  sm_added :: "js_string list"
  sm_out :: "emission list"

text \<open>What the manager is constructed with: the platform and the retention callback \<open>canEvict\<close>.\<close>

record host =
  host_platform :: platform
  host_canEvict :: "js_string \<Rightarrow> bool"

definition ROOT_STATE_URI :: js_string where "ROOT_STATE_URI = ''ahp-root://''"

text \<open>\<open>config\<close> and \<open>meta\<close> are the platform's configuration schema with its defaults and the build information.\<close>

definition new_state_manager :: "root_config_state \<Rightarrow> json js_record option \<Rightarrow> int option \<Rightarrow> state_manager" where
  "new_state_manager config meta softLimit =
     \<lparr>sm_serverSeq = 0, sm_root = createRootState\<lparr>root_config := Some config, root_meta := meta\<rparr>,
      sm_sessions = [], sm_chats = [], sm_nextChat = 0, sm_changesets = new_changeset_cache softLimit,
      sm_annotations = [], sm_active = [], sm_lastNotified = [], sm_dirty = [], sm_published = [], sm_added = [],
      sm_out = []\<rparr>"

definition set_add :: "'a \<Rightarrow> 'a list \<Rightarrow> 'a list" where
  "set_add x xs = (if x \<in> set xs then xs else xs @ [x])"

definition emit :: "emission \<Rightarrow> state_manager \<Rightarrow> state_manager" where
  "emit e m = m\<lparr>sm_out := sm_out m @ [e]\<rparr>"

definition session_at :: "state_manager \<Rightarrow> js_string \<Rightarrow> session_entry option" where
  "session_at m s = map_of (sm_sessions m) s"

definition chat_at :: "state_manager \<Rightarrow> js_string \<Rightarrow> chat_entry option" where
  "chat_at m c = map_of (sm_chats m) c"

definition set_session :: "js_string \<Rightarrow> session_entry \<Rightarrow> state_manager \<Rightarrow> state_manager" where
  "set_session s e m = m\<lparr>sm_sessions := AList.update s e (sm_sessions m)\<rparr>"

definition set_chat :: "js_string \<Rightarrow> chat_entry \<Rightarrow> state_manager \<Rightarrow> state_manager" where
  "set_chat c e m = m\<lparr>sm_chats := AList.update c e (sm_chats m)\<rparr>"

definition new_chat ::
    "js_string \<Rightarrow> js_string \<Rightarrow> chat_summary \<Rightarrow> chat_state option \<Rightarrow> js_string option \<Rightarrow> message option \<Rightarrow> nat option
     \<Rightarrow> state_manager \<Rightarrow> state_manager" where
  "new_chat uri session summary state providerData draft resolver m =
     set_chat uri \<lparr>cent_id = sm_nextChat m, cent_session = session, cent_summary = summary, cent_state = state,
       cent_providerData = providerData, cent_draft = draft, cent_resolver = resolver, cent_inFlight = False,
       cent_valid = True\<rparr> (m\<lparr>sm_nextChat := Suc (sm_nextChat m)\<rparr>)"

definition chat_state_at :: "state_manager \<Rightarrow> js_string \<Rightarrow> chat_state option" where
  "chat_state_at m c = Option.bind (chat_at m c) cent_state"

section \<open>Summaries and their notification\<close>

definition toSummary :: "js_string \<Rightarrow> session_entry \<Rightarrow> session_summary" where
  "toSummary session entry =
     (let state = sent_state entry
      in \<lparr>smeta_provider = smeta_provider state, smeta_title = smeta_title state, smeta_status = smeta_status state,
          smeta_activity = smeta_activity state, smeta_origin = None, smeta_project = smeta_project state,
          smeta_workingDirectories = smeta_workingDirectories state, smeta_annotations = smeta_annotations state,
          ssum_resource = session, ssum_createdAt = sent_createdAt entry, ssum_modifiedAt = sent_modifiedAt entry,
          ssum_changes = sent_changes entry, ssum_meta = ses_meta state\<rparr>)"

definition getSessionSummary :: "js_string \<Rightarrow> state_manager \<Rightarrow> session_summary option" where
  "getSessionSummary session m = map_option (toSummary session) (session_at m session)"

definition summaryFieldsEqual :: "session_state \<Rightarrow> session_state \<Rightarrow> bool" where
  "summaryFieldsEqual a b =
     (smeta_title a = smeta_title b \<and> smeta_status a = smeta_status b \<and> smeta_activity a = smeta_activity b
      \<and> smeta_project a = smeta_project b \<and> smeta_workingDirectories a = smeta_workingDirectories b
      \<and> smeta_annotations a = smeta_annotations b \<and> ses_meta a = ses_meta b)"

definition announce :: "js_string \<Rightarrow> session_summary \<Rightarrow> state_manager \<Rightarrow> state_manager" where
  "announce session summary m = m\<lparr>sm_lastNotified := AList.update session summary (sm_lastNotified m)\<rparr>"

definition getAnnounced :: "js_string \<Rightarrow> state_manager \<Rightarrow> session_summary option" where
  "getAnnounced session m = map_of (sm_lastNotified m) session"

definition isAnnounced :: "js_string \<Rightarrow> state_manager \<Rightarrow> bool" where
  "isAnnounced session m = (getAnnounced session m \<noteq> None)"

definition markDirty :: "js_string \<Rightarrow> state_manager \<Rightarrow> state_manager" where
  "markDirty session m = m\<lparr>sm_dirty := set_add session (sm_dirty m)\<rparr>"

definition clearDirty :: "js_string \<Rightarrow> state_manager \<Rightarrow> state_manager" where
  "clearDirty session m = m\<lparr>sm_dirty := removeAll session (sm_dirty m)\<rparr>"

definition notifier_remove :: "js_string \<Rightarrow> state_manager \<Rightarrow> state_manager" where
  "notifier_remove session m =
     m\<lparr>sm_lastNotified := AList.delete session (sm_lastNotified m), sm_dirty := removeAll session (sm_dirty m)\<rparr>"

definition emitSessionSummaryChanged :: "js_string \<Rightarrow> session_summary_changes \<Rightarrow> state_manager \<Rightarrow> state_manager" where
  "emitSessionSummaryChanged session changes m =
     (let m1 = emit (EmitSummaryChanged session changes) m
      in if session \<in> set (sm_published m1)
         then emit (EmitNotification (SessionSummaryChangedNote session changes)) m1 else m1)"

definition notifier_flush :: "js_string \<Rightarrow> state_manager \<Rightarrow> state_manager" where
  "notifier_flush session m =
     (case (getSessionSummary session m, getAnnounced session m) of
        (Some current, Some announced) \<Rightarrow>
          (let changes = summary_diff current announced; m1 = announce session current m
           in if changes \<noteq> no_changes then emitSessionSummaryChanged session changes m1 else m1)
      | _ \<Rightarrow> m)"

text \<open>The scheduled \<open>_flushAll\<close>, which runs when the debounce timer fires.\<close>

definition flushAll :: "state_manager \<Rightarrow> state_manager" where
  "flushAll m = (fold notifier_flush (sm_dirty m) m)\<lparr>sm_dirty := []\<rparr>"

definition emitSessionAdded :: "session_summary \<Rightarrow> state_manager \<Rightarrow> state_manager" where
  "emitSessionAdded summary m =
     (if isEphemeral (ssum_meta summary) then m
      else
        let s = ssum_resource summary; m1 = announce s summary m
        in emit (EmitNotification (SessionAddedNote summary))
             (m1\<lparr>sm_published := set_add s (sm_published m1), sm_added := set_add s (sm_added m1)\<rparr>))"

definition markSessionUsed :: "js_string \<Rightarrow> state_manager \<Rightarrow> state_manager" where
  "markSessionUsed session m =
     (case session_at m session of
        None \<Rightarrow> m
      | Some entry \<Rightarrow> set_session session (entry\<lparr>sent_use := UsedSession\<rparr>) m)"

definition retainSession :: "js_string \<Rightarrow> state_manager \<Rightarrow> state_manager" where
  "retainSession session m = markSessionUsed session m"

section \<open>Dispatch\<close>

definition emit_envelope ::
    "js_string \<Rightarrow> state_action \<Rightarrow> action_origin option \<Rightarrow> js_string option \<Rightarrow> state_manager \<Rightarrow> state_manager" where
  "emit_envelope channel action origin reason m =
     (let n = Suc (sm_serverSeq m)
      in emit (EmitEnvelope \<lparr>env_channel = channel, env_action = action, env_serverSeq = n, env_origin = origin,
           env_rejectionReason = reason\<rparr>) (m\<lparr>sm_serverSeq := n\<rparr>))"

definition rejectClientAction ::
    "js_string \<Rightarrow> state_action \<Rightarrow> action_origin \<Rightarrow> js_string \<Rightarrow> state_manager \<Rightarrow> state_manager" where
  "rejectClientAction channel action origin reason m = emit_envelope channel action (Some origin) (Some reason) m"

subsection \<open>Root actions\<close>

definition rewrite_root_action :: "root_state \<Rightarrow> root_action \<Rightarrow> root_action" where
  "rewrite_root_action rs a =
     (case a of
        RootConfigChanged c \<Rightarrow>
          if rcfgChg_replace c = Some True
          then RootConfigChanged (c\<lparr>rcfgChg_config := preserveProviderBackedRootConfigValues rs (rcfgChg_config c)\<rparr>)
          else a
      | _ \<Rightarrow> a)"

definition root_action_noop :: "root_state \<Rightarrow> root_action \<Rightarrow> bool" where
  "root_action_noop rs a =
     (case (a, root_config rs) of
        (RootConfigChanged c, Some cfg) \<Rightarrow>
          (let current = rcfg_values cfg; patch = rcfgChg_config c
           in if rcfgChg_replace c = Some True then record_equals current patch
              else record_equals (spread (spread [] current) patch) current)
      | _ \<Rightarrow> False)"

definition dispatch_root ::
    "js_string \<Rightarrow> root_action \<Rightarrow> action_origin option \<Rightarrow> state_manager \<Rightarrow> state_manager" where
  "dispatch_root channel action origin m =
     (let a = rewrite_root_action (sm_root m) action
      in if root_action_noop (sm_root m) a then m
         else emit_envelope channel (RootAct a) origin None (m\<lparr>sm_root := rootReducer (sm_root m) a\<rparr>))"

definition dispatch_active_count :: "state_manager \<Rightarrow> state_manager" where
  "dispatch_active_count m =
     dispatch_root ROOT_STATE_URI (RootActiveSessionsChanged (of_nat (length (sm_active m)))) None m"

subsection \<open>Session actions\<close>

definition invalidateChatEntry :: "js_string \<Rightarrow> state_manager \<Rightarrow> state_manager" where
  "invalidateChatEntry chat m = m\<lparr>sm_chats := AList.delete chat (sm_chats m)\<rparr>"

text \<open>
  \<open>{ ...existing.state, ...summary }\<close>: the summary's properties win; one the summary does not
  have keeps the state's value. (A property that is present and \<open>undefined\<close>, which only a
  cleared activity can be, agrees with the state at that point.)
\<close>

definition merge_summary :: "chat_summary \<Rightarrow> chat_state \<Rightarrow> chat_state" where
  "merge_summary summary state = state
     \<lparr>chat_resource := csum_resource summary, chat_title := csum_title summary, chat_status := csum_status summary,
      chat_activity := orelse (csum_activity summary) (chat_activity state),
      chat_modifiedAt := csum_modifiedAt summary,
      chat_origin := orelse (csum_origin summary) (chat_origin state),
      chat_interactivity := orelse (csum_interactivity summary) (chat_interactivity state),
      chat_workingDirectories := orelse (csum_workingDirectories summary) (chat_workingDirectories state)\<rparr>"

definition synchronize_one :: "js_string \<Rightarrow> chat_summary \<Rightarrow> state_manager \<Rightarrow> state_manager" where
  "synchronize_one session summary m =
     (case chat_at m (csum_resource summary) of
        Some existing \<Rightarrow>
          set_chat (csum_resource summary)
            (existing\<lparr>cent_summary := summary, cent_state := map_option (merge_summary summary) (cent_state existing)\<rparr>) m
      | None \<Rightarrow> new_chat (csum_resource summary) session summary None None None None m)"

definition synchronizeChatEntries :: "js_string \<Rightarrow> chat_summary list \<Rightarrow> state_manager \<Rightarrow> state_manager" where
  "synchronizeChatEntries session summaries m =
     (let m1 = fold (synchronize_one session) summaries m
      in m1\<lparr>sm_chats := filter (\<lambda>(chat, entry).
              \<not> (cent_session entry = session \<and> chat \<notin> csum_resource ` set summaries)) (sm_chats m1)\<rparr>)"

definition apply_session :: "js_string \<Rightarrow> session_action \<Rightarrow> state_manager \<Rightarrow> state_manager" where
  "apply_session key action m =
     (case session_at m key of
        None \<Rightarrow> m
      | Some entry \<Rightarrow>
          let previous = sent_state entry;
              new = sessionReducer previous action;
              m1 = synchronizeChatEntries key (ses_chats new) (set_session key (entry\<lparr>sent_state := new\<rparr>) m);
              m2 = (if smeta_title previous \<noteq> smeta_title new then emit (EmitTitle key (smeta_title new)) m1 else m1);
              m3 = (case action of
                      SessionConfigChanged _ \<Rightarrow> emit (EmitConfig key (ses_config previous) (ses_config new)) m2
                    | _ \<Rightarrow> m2);
              m4 = (if smeta_workingDirectories previous \<noteq> smeta_workingDirectories new
                    then emit (EmitWorkingDirectories key) m3 else m3)
          in if \<not> summaryFieldsEqual previous new then markDirty key m4 else m4)"

definition dispatch_session ::
    "js_string \<Rightarrow> session_action \<Rightarrow> action_origin option \<Rightarrow> state_manager \<Rightarrow> state_manager" where
  "dispatch_session key action origin m =
     emit_envelope key (SessionAct action) origin None (apply_session key action m)"

subsection \<open>Chat actions\<close>

definition removeChatActiveTurn :: "js_string \<Rightarrow> js_string \<Rightarrow> state_manager \<Rightarrow> state_manager" where
  "removeChatActiveTurn sessionKey chatUri m =
     (case map_of (sm_active m) sessionKey of
        None \<Rightarrow> m
      | Some activeChats \<Rightarrow>
          if chatUri \<notin> set activeChats then m
          else
            let rest = removeAll chatUri activeChats
            in if rest = []
               then dispatch_active_count
                      (emit (EmitActiveTurn sessionKey False)
                        (m\<lparr>sm_active := AList.delete sessionKey (sm_active m)\<rparr>))
               else m\<lparr>sm_active := AList.update sessionKey rest (sm_active m)\<rparr>)"

definition addChatActiveTurn :: "js_string \<Rightarrow> js_string \<Rightarrow> state_manager \<Rightarrow> state_manager" where
  "addChatActiveTurn sessionKey chatUri m =
     (let activeChats = or_default (map_of (sm_active m) sessionKey) [];
          m1 = m\<lparr>sm_active := AList.update sessionKey (set_add chatUri activeChats) (sm_active m)\<rparr>
      in if activeChats = [] then dispatch_active_count (emit (EmitActiveTurn sessionKey True) m1) else m1)"

record chat_aggregate =
  agg_status :: "session_status option"
  agg_activity :: "js_string option"
  agg_modifiedAt :: "int option option"

definition chat_flags_mask :: session_status where
  "chat_flags_mask = NOT (status_IsRead OR status_IsArchived)"

text \<open>\<open>Date.parse(b.modifiedAt) > Date.parse(a.modifiedAt) ? b : a\<close>; a comparison with \<open>NaN\<close> is false.\<close>

definition later_chat :: "chat_summary \<Rightarrow> chat_summary \<Rightarrow> chat_summary" where
  "later_chat a b =
     (case (date_parse (csum_modifiedAt a), date_parse (csum_modifiedAt b)) of
        (Some x, Some y) \<Rightarrow> if y > x then b else a
      | _ \<Rightarrow> a)"

definition max_time_of :: "int option \<Rightarrow> chat_summary \<Rightarrow> int option" where
  "max_time_of acc c =
     (case (acc, date_parse (csum_modifiedAt c)) of (Some x, Some y) \<Rightarrow> Some (max x y) | _ \<Rightarrow> None)"

definition aggregateChatSummaries :: "chat_summary list \<Rightarrow> js_string option \<Rightarrow> chat_aggregate" where
  "aggregateChatSummaries chats defaultChat =
     (case chats of
        [] \<Rightarrow> \<lparr>agg_status = None, agg_activity = None, agg_modifiedAt = None\<rparr>
      | c # cs \<Rightarrow>
          let base = or_default (Option.bind defaultChat (\<lambda>d. find (\<lambda>x. csum_resource x = d) chats)) (foldl later_chat c cs);
              errorChat = find (\<lambda>x. csum_status x AND status_Error = status_Error) chats;
              inputChat = find (\<lambda>x. csum_status x AND status_InputNeeded = status_InputNeeded) chats;
              inProgressChat = find (\<lambda>x. csum_status x AND status_InputNeeded = status_InProgress) chats;
              (status, driver) =
                (case (inputChat, errorChat, inProgressChat) of
                   (Some d, _, _) \<Rightarrow> (status_InputNeeded, d)
                 | (None, Some d, _) \<Rightarrow> (status_Error, d)
                 | (None, None, Some d) \<Rightarrow> (status_InProgress, d)
                 | _ \<Rightarrow> (csum_status base AND chat_flags_mask, base))
          in \<lparr>agg_status = Some status, agg_activity = csum_activity driver,
              agg_modifiedAt = Some (foldl max_time_of (Some 0) chats)\<rparr>)"

definition mergeSessionStatus :: "session_status \<Rightarrow> session_status \<Rightarrow> session_status" where
  "mergeSessionStatus sessionStatus chatStatus =
     (chatStatus AND chat_flags_mask) OR (sessionStatus AND (status_IsRead OR status_IsArchived))"

definition status_changes :: "chat_summary \<Rightarrow> chat_summary_changes" where
  "status_changes summary =
     \<lparr>chg_resource = None, chg_title = None, chg_status = Some (csum_status summary),
      chg_activity = Some (csum_activity summary), chg_modifiedAt = None, chg_origin = None, chg_interactivity = None,
      chg_workingDirectories = None\<rparr>"

definition track_active_turn :: "js_string \<Rightarrow> js_string \<Rightarrow> chat_state \<Rightarrow> chat_state \<Rightarrow> state_manager \<Rightarrow> state_manager" where
  "track_active_turn sessionKey chatUri prev nxt m =
     (if (chat_activeTurn prev \<noteq> None) \<noteq> (chat_activeTurn nxt \<noteq> None) then
        (if chat_activeTurn nxt \<noteq> None then addChatActiveTurn sessionKey chatUri m
         else removeChatActiveTurn sessionKey chatUri m)
      else m)"

text \<open>
  The rest of \<open>_onChatStateChanged\<close>, for a session that has an entry: the chat's status is
  forwarded to the session's catalog, then the aggregate of the catalog is stored.
\<close>

definition forward_chat_status :: "js_string \<Rightarrow> js_string \<Rightarrow> chat_summary \<Rightarrow> session_state \<Rightarrow> state_manager \<Rightarrow> state_manager" where
  "forward_chat_status sessionKey chatUri nextEntry sessionState m =
     (let prevEntry = find (\<lambda>c. csum_resource c = chatUri) (ses_chats sessionState)
      in if map_option csum_status prevEntry \<noteq> Some (csum_status nextEntry)
         then dispatch_session sessionKey
                (SessionChatUpdated \<lparr>chatUpd_chat = chatUri, chatUpd_changes = status_changes nextEntry\<rparr>) None m
         else m)"

definition aggregated_state :: "chat_summary list \<Rightarrow> session_state \<Rightarrow> session_state" where
  "aggregated_state chats sessionState =
     (let aggregate = aggregateChatSummaries chats (ses_defaultChat sessionState)
      in sessionState
        \<lparr>ses_chats := chats,
         smeta_status :=
           (case agg_status aggregate of
              None \<Rightarrow> smeta_status sessionState
            | Some s \<Rightarrow> mergeSessionStatus (smeta_status sessionState) s),
         smeta_activity := agg_activity aggregate\<rparr>)"

definition store_modified :: "js_string \<Rightarrow> bool \<Rightarrow> int option option \<Rightarrow> session_entry \<Rightarrow> state_manager \<Rightarrow> state_manager outcome" where
  "store_modified sessionKey summaryChanged modifiedAt entry m =
     (let finish = (\<lambda>changed m. if changed then markDirty sessionKey m else m)
      in case modifiedAt of
           None \<Rightarrow> (finish summaryChanged m, None)
         | Some t \<Rightarrow>
            (case to_iso_string (map_option of_int t) of
               Inl e \<Rightarrow> (m, Some e)
             | Inr newModifiedAt \<Rightarrow>
                 if newModifiedAt \<noteq> sent_modifiedAt entry
                 then (finish True (set_session sessionKey (entry\<lparr>sent_modifiedAt := newModifiedAt\<rparr>) m), None)
                 else (finish summaryChanged m, None)))"

definition store_aggregate :: "js_string \<Rightarrow> chat_summary list \<Rightarrow> session_state \<Rightarrow> state_manager \<Rightarrow> state_manager outcome" where
  "store_aggregate sessionKey chats sessionState m =
     (case session_at m sessionKey of
        None \<Rightarrow> (m, None)
      | Some entry \<Rightarrow>
          let newState = aggregated_state chats sessionState;
              entry' = entry\<lparr>sent_state := newState\<rparr>;
              statusChanged = (smeta_status newState \<noteq> smeta_status sessionState);
              activityChanged = (smeta_activity newState \<noteq> smeta_activity sessionState);
              m1 = set_session sessionKey entry' m;
              m2 = (if statusChanged then emit (EmitStatus sessionKey (smeta_status newState)) m1 else m1)
          in store_modified sessionKey (statusChanged \<or> activityChanged)
               (agg_modifiedAt (aggregateChatSummaries chats (ses_defaultChat sessionState))) entry' m2)"

definition roll_up_chat :: "js_string \<Rightarrow> js_string \<Rightarrow> chat_state \<Rightarrow> session_state \<Rightarrow> state_manager \<Rightarrow> state_manager outcome" where
  "roll_up_chat sessionKey chatUri nxt sessionState m =
     (let nextEntry = chatSummaryFromState nxt;
          chats = map (\<lambda>c. if csum_resource c = chatUri then nextEntry else c) (ses_chats sessionState)
      in store_aggregate sessionKey chats sessionState (forward_chat_status sessionKey chatUri nextEntry sessionState m))"

definition onChatStateChanged ::
    "js_string \<Rightarrow> js_string \<Rightarrow> chat_state \<Rightarrow> chat_state \<Rightarrow> state_manager \<Rightarrow> state_manager outcome" where
  "onChatStateChanged sessionKey chatUri prev nxt m =
     (let m1 = (if chat_turns nxt \<noteq> [] \<or> chat_activeTurn nxt \<noteq> None then markSessionUsed sessionKey m else m);
          m2 = track_active_turn sessionKey chatUri prev nxt m1
      in case session_at m2 sessionKey of
           None \<Rightarrow> (m2, None)
         | Some entry \<Rightarrow> roll_up_chat sessionKey chatUri nxt (sent_state entry) m2)"

definition dispatch_chat ::
    "platform \<Rightarrow> js_string \<Rightarrow> chat_action \<Rightarrow> action_origin option \<Rightarrow> state_manager \<Rightarrow> state_manager outcome" where
  "dispatch_chat pl channel action origin m =
     (if \<not> isAhpChatChannel pl channel
      then (m, Some (PlainError ''[AgentHostStateManager] Chat action dispatched to non-chat channel''))
      else case parseRequiredSessionUriFromChatUri pl channel of
        Inl e \<Rightarrow> (m, Some e)
      | Inr sessionKey \<Rightarrow>
         (case chat_at m channel of
            Some entry \<Rightarrow>
             (case cent_state entry of
                Some chat \<Rightarrow>
                 (case chatReducer chat action of
                    Inl e \<Rightarrow> (m, Some e)
                  | Inr newChat \<Rightarrow>
                      and_then
                        (onChatStateChanged sessionKey channel chat newChat
                          (set_chat channel (entry\<lparr>cent_state := Some newChat\<rparr>) m))
                        (\<lambda>m'. (emit_envelope channel (ChatAct action) origin None m', None)))
              | None \<Rightarrow> (emit_envelope channel (ChatAct action) origin None m, None))
          | None \<Rightarrow> (emit_envelope channel (ChatAct action) origin None m, None)))"

subsection \<open>Changesets, annotations and the other channels\<close>

definition dispatch_changeset ::
    "(js_string \<Rightarrow> bool) \<Rightarrow> js_string \<Rightarrow> changeset_action \<Rightarrow> action_origin option \<Rightarrow> state_manager \<Rightarrow> state_manager" where
  "dispatch_changeset canEvict key action origin m =
     (case cache_get key (sm_changesets m) of
        (cache, None) \<Rightarrow> m\<lparr>sm_changesets := cache\<rparr>
      | (cache, Some state) \<Rightarrow>
          let newState = changesetReducer state action;
              cache' = (if newState \<noteq> state then cache_set canEvict key newState cache else cache)
          in emit_envelope key (ChangesetAct action) origin None (m\<lparr>sm_changesets := cache'\<rparr>))"

definition annotations_at :: "state_manager \<Rightarrow> js_string \<Rightarrow> annotations_state" where
  "annotations_at m key = or_default (map_of (sm_annotations m) key) \<lparr>anns_annotations = []\<rparr>"

definition dispatch_annotations ::
    "js_string \<Rightarrow> annotations_action \<Rightarrow> action_origin option \<Rightarrow> state_manager \<Rightarrow> state_manager" where
  "dispatch_annotations key action origin m =
     (let state = annotations_at m key;
          newState = annotationsReducer state action;
          m1 = (if newState \<noteq> state then m\<lparr>sm_annotations := AList.update key newState (sm_annotations m)\<rparr> else m)
      in emit_envelope key (AnnotationsAct action) origin None m1)"

definition applyAndEmit ::
    "host \<Rightarrow> js_string \<Rightarrow> state_action \<Rightarrow> action_origin option \<Rightarrow> state_manager \<Rightarrow> state_manager outcome" where
  "applyAndEmit h channel action origin m =
     (case action of
        RootAct a \<Rightarrow> (dispatch_root channel a origin m, None)
      | SessionAct a \<Rightarrow> (dispatch_session channel a origin m, None)
      | ChatAct a \<Rightarrow> dispatch_chat (host_platform h) channel a origin m
      | ChangesetAct a \<Rightarrow> (dispatch_changeset (host_canEvict h) channel a origin m, None)
      | AnnotationsAct a \<Rightarrow> (dispatch_annotations channel a origin m, None)
      | _ \<Rightarrow> (emit_envelope channel action origin None m, None))"

definition dispatchServerAction :: "host \<Rightarrow> js_string \<Rightarrow> state_action \<Rightarrow> state_manager \<Rightarrow> state_manager outcome" where
  "dispatchServerAction h channel action m = applyAndEmit h channel action None m"

definition dispatchClientAction ::
    "host \<Rightarrow> js_string \<Rightarrow> state_action \<Rightarrow> action_origin \<Rightarrow> state_manager \<Rightarrow> state_manager outcome" where
  "dispatchClientAction h channel action origin m = applyAndEmit h channel action (Some origin) m"

end
