(* ===== verification/State_Lifecycle.thy ===== *)
theory State_Lifecycle
  imports State_Manager Subscription_Manager
begin

text \<open>
  The operations of \<open>AgentHostStateManager\<close> (\<open>node/agentHostStateManager.ts\<close>) besides the dispatch
  of actions: creating, restoring, listing, publishing and removing sessions, their chats and the
  lazy resolution of restored chats, changesets, annotations, and snapshots.
\<close>

section \<open>Sessions enter the catalog\<close>

definition newEntry :: "session_state \<Rightarrow> session_summary \<Rightarrow> session_use \<Rightarrow> session_entry" where
  "newEntry state summary use =
     \<lparr>sent_state = state, sent_createdAt = ssum_createdAt summary, sent_modifiedAt = ssum_modifiedAt summary,
      sent_changes = ssum_changes summary, sent_use = use\<rparr>"

definition ensureDefaultChat ::
    "platform \<Rightarrow> js_string \<Rightarrow> session_summary \<Rightarrow> turn list \<Rightarrow> message option \<Rightarrow> js_string option
     \<Rightarrow> state_manager \<Rightarrow> state_manager" where
  "ensureDefaultChat pl key summary turns draft title m =
     (let chatUri = buildDefaultChatUri pl key;
          chatSummary = (createDefaultChatSummary summary chatUri)\<lparr>csum_title := or_default title []\<rparr>;
          m1 = new_chat chatUri key chatSummary
                 (Some ((createChatState chatSummary)\<lparr>chat_turns := turns, chat_draft := draft\<rparr>)) None None None m
      in case session_at m1 key of
           None \<Rightarrow> m1
         | Some entry \<Rightarrow> set_session key
             (entry\<lparr>sent_state := (sent_state entry)\<lparr>ses_chats := [chatSummary], ses_defaultChat := Some chatUri\<rparr>\<rparr>) m1)"

definition createSession :: "host \<Rightarrow> session_summary \<Rightarrow> bool \<Rightarrow> state_manager \<Rightarrow> state_manager" where
  "createSession h summary emitNotification m =
     (let key = ssum_resource summary
      in if session_at m key \<noteq> None then m
         else
           let m1 = set_session key (newEntry (createSessionState summary) summary UnusedDraft) m;
               m2 = ensureDefaultChat (host_platform h) key summary [] None None m1
           in if emitNotification then emitSessionAdded summary m2 else m2)"

definition markSessionPersisted :: "js_string \<Rightarrow> session_summary \<Rightarrow> state_manager \<Rightarrow> state_manager" where
  "markSessionPersisted key summary m =
     (case session_at m key of
        None \<Rightarrow> m
      | Some entry \<Rightarrow>
          let entry' = entry
                \<lparr>sent_state := (sent_state entry)\<lparr>smeta_project := smeta_project summary,
                     smeta_workingDirectories := smeta_workingDirectories summary\<rparr>,
                 sent_modifiedAt := ssum_modifiedAt summary, sent_changes := ssum_changes summary\<rparr>;
              m1 = set_session key entry' m
          in if isAnnounced key m then markDirty key m1 else emitSessionAdded (toSummary key entry') m1)"

definition restoreSession ::
    "host \<Rightarrow> session_summary \<Rightarrow> turn list \<Rightarrow> message option \<Rightarrow> js_string option \<Rightarrow> state_manager \<Rightarrow> state_manager" where
  "restoreSession h summary turns draft title m =
     (let key = ssum_resource summary
      in if session_at m key \<noteq> None then m
         else
           let state = (createSessionState summary)\<lparr>ses_lifecycle := SessionReadyState\<rparr>;
               m1 = set_session key (newEntry state summary UsedSession) m;
               m2 = ensureDefaultChat (host_platform h) key summary turns draft title m1
           in if isAnnounced key m2 then notifier_flush key m2 else announce key summary m2)"

section \<open>Surfaced and published summaries\<close>

definition announceSurfacedSession :: "session_summary \<Rightarrow> state_manager \<Rightarrow> state_manager" where
  "announceSurfacedSession summary m =
     (let key = ssum_resource summary
      in if session_at m key \<noteq> None \<or> key \<in> set (sm_added m) then m else emitSessionAdded summary m)"

definition updateSurfacedSessionTitle :: "js_string \<Rightarrow> js_string \<Rightarrow> state_manager \<Rightarrow> state_manager" where
  "updateSurfacedSessionTitle session title m =
     (case getAnnounced session m of
        None \<Rightarrow> m
      | Some announced \<Rightarrow>
          if session_at m session \<noteq> None \<or> smeta_title announced = title then m
          else emitSessionSummaryChanged session (no_changes\<lparr>chs_title := Val title\<rparr>)
                 (announce session (announced\<lparr>smeta_title := title\<rparr>) m))"

text \<open>Withdrawing a summary from the clients, shared by the two operations that do it.\<close>

definition unpublish :: "js_string \<Rightarrow> state_manager \<Rightarrow> state_manager" where
  "unpublish session m =
     (if session \<notin> set (sm_published m) \<and> session \<notin> set (sm_added m) then m
      else emit (EmitNotification (SessionRemovedNote session))
             (notifier_remove session
               (m\<lparr>sm_published := removeAll session (sm_published m), sm_added := removeAll session (sm_added m)\<rparr>)))"

definition retractSurfacedSession :: "js_string \<Rightarrow> state_manager \<Rightarrow> state_manager" where
  "retractSurfacedSession session m = (if session_at m session \<noteq> None then m else unpublish session m)"

definition setSessionSummaryPublished :: "js_string \<Rightarrow> bool \<Rightarrow> state_manager \<Rightarrow> state_manager" where
  "setSessionSummaryPublished session published m =
     (if published then
        (if session \<in> set (sm_added m) then m
         else case session_at m session of
           None \<Rightarrow> m
         | Some entry \<Rightarrow> emitSessionAdded (toSummary session entry) m)
      else unpublish session m)"

definition mergeLiveSummaryForListing :: "session_summary \<Rightarrow> session_summary \<Rightarrow> session_summary" where
  "mergeLiveSummaryForListing listed current = listed
     \<lparr>smeta_title := (if smeta_title current \<noteq> [] then smeta_title current else smeta_title listed),
      smeta_status := smeta_status current, smeta_activity := smeta_activity current,
      ssum_modifiedAt := ssum_modifiedAt current,
      smeta_project := orelse (smeta_project current) (smeta_project listed),
      smeta_workingDirectories := orelse (smeta_workingDirectories current) (smeta_workingDirectories listed),
      ssum_changes := orelse (ssum_changes current) (ssum_changes listed),
      ssum_meta :=
        (if ssum_meta listed \<noteq> None \<or> ssum_meta current \<noteq> None
         then Some (spread (spread [] (or_default (ssum_meta listed) [])) (or_default (ssum_meta current) []))
         else ssum_meta listed)\<rparr>"

definition prepare_listing_one :: "session_summary \<Rightarrow> state_manager \<Rightarrow> state_manager \<times> session_summary" where
  "prepare_listing_one summary m =
     (let s = ssum_resource summary;
          wasPublished = s \<in> set (sm_published m);
          m1 = (if wasPublished \<and> s \<in> set (sm_dirty m) then notifier_flush s m else m);
          current = (case session_at m1 s of Some entry \<Rightarrow> toSummary s entry | None \<Rightarrow> summary);
          m2 = (if wasPublished then m1 else (announce s current m1)\<lparr>sm_published := set_add s (sm_published m1)\<rparr>)
      in (m2, case session_at m1 s of Some _ \<Rightarrow> mergeLiveSummaryForListing summary current | None \<Rightarrow> summary))"

fun prepareSessionSummariesForListing ::
    "session_summary list \<Rightarrow> state_manager \<Rightarrow> state_manager \<times> session_summary list" where
  "prepareSessionSummariesForListing [] m = (m, [])"
| "prepareSessionSummariesForListing (summary # rest) m =
     (let (m1, listed) = prepare_listing_one summary m;
          (m2, result) = prepareSessionSummariesForListing rest m1
      in (m2, listed # result))"

definition getSurfacedSessionSummary :: "js_string \<Rightarrow> state_manager \<Rightarrow> session_summary option" where
  "getSurfacedSessionSummary session m = (if session_at m session \<noteq> None then None else getAnnounced session m)"

definition getExposedExternalSessionKeys :: "state_manager \<Rightarrow> js_string list" where
  "getExposedExternalSessionKeys m =
     filter (\<lambda>s. readSessionExternal
         (Option.bind (case session_at m s of Some e \<Rightarrow> Some (toSummary s e) | None \<Rightarrow> getAnnounced s m) ssum_meta))
       (sm_published m)"

definition isIdleProvisional :: "platform \<Rightarrow> js_string \<Rightarrow> session_lifecycle \<Rightarrow> state_manager \<Rightarrow> bool" where
  "isIdleProvisional pl session lifecycle m =
     (lifecycle = SessionCreating
      \<and> (case chat_state_at m (buildDefaultChatUri pl session) of
           None \<Rightarrow> True
         | Some c \<Rightarrow> chat_activeTurn c = None \<and> chat_turns c = []))"

definition isEphemeralSession :: "js_string \<Rightarrow> state_manager \<Rightarrow> bool" where
  "isEphemeralSession session m =
     (case session_at m session of None \<Rightarrow> False | Some e \<Rightarrow> isEphemeral (ses_meta (sent_state e)))"

definition isIdleProvisionalSession :: "platform \<Rightarrow> js_string \<Rightarrow> state_manager \<Rightarrow> bool" where
  "isIdleProvisionalSession pl session m =
     (case session_at m session of None \<Rightarrow> False | Some e \<Rightarrow> isIdleProvisional pl session (ses_lifecycle (sent_state e)) m)"

definition getOverlaySessionSummaries :: "platform \<Rightarrow> state_manager \<Rightarrow> session_summary list" where
  "getOverlaySessionSummaries pl m =
     map (\<lambda>(key, entry). toSummary key entry)
       (filter (\<lambda>(key, entry). \<not> (isIdleProvisional pl key (ses_lifecycle (sent_state entry)) m \<or> isEphemeralSession key m))
         (sm_sessions m))"

section \<open>Chats\<close>

definition title_changes :: "js_string \<Rightarrow> chat_summary_changes" where
  "title_changes title =
     \<lparr>chg_resource = None, chg_title = Some title, chg_status = None, chg_activity = None, chg_modifiedAt = None,
      chg_origin = None, chg_interactivity = None, chg_workingDirectories = None\<rparr>"

definition updateChatTitle :: "js_string \<Rightarrow> js_string \<Rightarrow> js_string \<Rightarrow> state_manager \<Rightarrow> state_manager" where
  "updateChatTitle session chatUri title m =
     (let m1 = (case chat_at m chatUri of
                  Some entry \<Rightarrow>
                    (case cent_state entry of
                       Some st \<Rightarrow> set_chat chatUri (entry\<lparr>cent_state := Some (st\<lparr>chat_title := title\<rparr>)\<rparr>) m
                     | None \<Rightarrow> m)
                | None \<Rightarrow> m)
      in dispatch_session session
           (SessionChatUpdated \<lparr>chatUpd_chat = chatUri, chatUpd_changes = title_changes title\<rparr>) None m1)"

definition snapshotDefaultChatTitle :: "platform \<Rightarrow> js_string \<Rightarrow> session_state \<Rightarrow> state_manager \<Rightarrow> state_manager" where
  "snapshotDefaultChatTitle pl session state m =
     (let defaultChat = buildDefaultChatUri pl session
      in case find (\<lambda>c. csum_resource c = defaultChat) (ses_chats state) of
           None \<Rightarrow> m
         | Some summary \<Rightarrow>
             if csum_title summary = [] \<and> smeta_title state \<noteq> []
             then emit (EmitDefaultChatTitle session defaultChat (smeta_title state))
                    (updateChatTitle session defaultChat (smeta_title state) m)
             else m)"

definition peer_chat_summary ::
    "js_string \<Rightarrow> session_entry \<Rightarrow> js_string \<Rightarrow> js_string option \<Rightarrow> chat_origin option \<Rightarrow> chat_interactivity option \<Rightarrow> chat_summary" where
  "peer_chat_summary session entry chatUri title origin interactivity =
     (let d = createDefaultChatSummary (toSummary session entry) chatUri
      in d\<lparr>csum_title := or_default title [], csum_status := status_Idle, csum_origin := orelse origin (csum_origin d),
           csum_interactivity := interactivity\<rparr>)"

definition addChat ::
    "host \<Rightarrow> js_string \<Rightarrow> js_string \<Rightarrow> js_string option \<Rightarrow> turn list \<Rightarrow> chat_origin option \<Rightarrow> js_string option
     \<Rightarrow> chat_interactivity option \<Rightarrow> state_manager \<Rightarrow> state_manager" where
  "addChat h session chatUri title turns origin providerData interactivity m =
     (case session_at m session of
        None \<Rightarrow> m
      | Some entry \<Rightarrow>
          if list_ex (\<lambda>c. csum_resource c = chatUri) (ses_chats (sent_state entry)) then m
          else
            let m1 = snapshotDefaultChatTitle (host_platform h) session (sent_state entry) m;
                chatSummary = peer_chat_summary session (or_default (session_at m1 session) entry) chatUri title origin interactivity;
                m2 = new_chat chatUri session chatSummary (Some ((createChatState chatSummary)\<lparr>chat_turns := turns\<rparr>))
                       providerData None None m1
            in dispatch_session session (SessionChatAdded chatSummary) None m2)"

definition registerRestoredChatSummary ::
    "host \<Rightarrow> js_string \<Rightarrow> js_string \<Rightarrow> js_string option \<Rightarrow> chat_origin option \<Rightarrow> chat_interactivity option
     \<Rightarrow> message option \<Rightarrow> js_string option \<Rightarrow> nat option \<Rightarrow> state_manager \<Rightarrow> state_manager" where
  "registerRestoredChatSummary h session chatUri title origin interactivity draft providerData resolver m =
     (case session_at m session of
        None \<Rightarrow> m
      | Some entry \<Rightarrow>
          if list_ex (\<lambda>c. csum_resource c = chatUri) (ses_chats (sent_state entry)) then
            (case chat_at m chatUri of
               Some existing \<Rightarrow>
                 if cent_state existing = None \<and> resolver \<noteq> None
                 then set_chat chatUri (existing\<lparr>cent_providerData := providerData, cent_draft := draft, cent_resolver := resolver\<rparr>) m
                 else m
             | None \<Rightarrow> m)
          else
            let m1 = snapshotDefaultChatTitle (host_platform h) session (sent_state entry) m;
                entry' = or_default (session_at m1 session) entry;
                chatSummary = peer_chat_summary session entry' chatUri title origin interactivity;
                m2 = set_session session
                       (entry'\<lparr>sent_state := (sent_state entry')\<lparr>ses_chats := ses_chats (sent_state entry') @ [chatSummary]\<rparr>\<rparr>) m1
            in new_chat chatUri session chatSummary None providerData draft resolver m2)"

definition removeChat :: "host \<Rightarrow> js_string \<Rightarrow> js_string \<Rightarrow> state_manager \<Rightarrow> state_manager" where
  "removeChat h session chatUri m =
     (case session_at m session of
        None \<Rightarrow> m
      | Some entry \<Rightarrow>
          if \<not> list_ex (\<lambda>c. csum_resource c = chatUri) (ses_chats (sent_state entry)) then m
          else if Some chatUri = ses_defaultChat (sent_state entry) \<or> isDefaultChatUri (host_platform h) chatUri then m
          else dispatch_session session (SessionChatRemoved chatUri) None
                 (invalidateChatEntry chatUri (removeChatActiveTurn session chatUri m)))"

definition seedDefaultChatTurns :: "platform \<Rightarrow> js_string \<Rightarrow> turn list \<Rightarrow> state_manager \<Rightarrow> state_manager" where
  "seedDefaultChatTurns pl session turns m =
     (let chatUri = buildDefaultChatUri pl session;
          m1 = (case chat_at m chatUri of
                  Some entry \<Rightarrow>
                    set_chat chatUri (entry\<lparr>cent_state := map_option (\<lambda>c. c\<lparr>chat_turns := turns\<rparr>) (cent_state entry)\<rparr>) m
                | None \<Rightarrow> m)
      in if turns \<noteq> [] then markSessionUsed session m1 else m1)"

definition updateChatProviderData :: "js_string \<Rightarrow> js_string option \<Rightarrow> state_manager \<Rightarrow> state_manager" where
  "updateChatProviderData chat providerData m =
     (case chat_at m chat of None \<Rightarrow> m | Some entry \<Rightarrow> set_chat chat (entry\<lparr>cent_providerData := providerData\<rparr>) m)"

text \<open>What a caller of \<open>resolveChatState\<close> gets: an answer, or the promise of a resolution that runs for an entry.\<close>

datatype resolution =
    ResolvedNow "chat_state option"
  | JoinedResolution nat
  | StartedResolution nat nat "js_string option"

definition resolveChatState :: "js_string \<Rightarrow> state_manager \<Rightarrow> state_manager \<times> resolution" where
  "resolveChatState chat m =
     (case chat_at m chat of
        None \<Rightarrow> (m, ResolvedNow None)
      | Some entry \<Rightarrow>
          if \<not> cent_valid entry then (m, ResolvedNow None)
          else case cent_state entry of
            Some st \<Rightarrow> (m, ResolvedNow (Some st))
          | None \<Rightarrow>
             (case cent_resolver entry of
                None \<Rightarrow> (m, ResolvedNow None)
              | Some resolver \<Rightarrow>
                  if cent_inFlight entry then (m, JoinedResolution (cent_id entry))
                  else (set_chat chat (entry\<lparr>cent_inFlight := True\<rparr>) m,
                        StartedResolution (cent_id entry) resolver (cent_providerData entry))))"

definition chatResolveFailed :: "js_string \<Rightarrow> nat \<Rightarrow> state_manager \<Rightarrow> state_manager" where
  "chatResolveFailed chat i m =
     (case chat_at m chat of
        None \<Rightarrow> m
      | Some entry \<Rightarrow> if cent_id entry = i then set_chat chat (entry\<lparr>cent_inFlight := False\<rparr>) m else m)"

definition chatResolved ::
    "js_string \<Rightarrow> nat \<Rightarrow> turn list \<Rightarrow> message option \<Rightarrow> state_manager \<Rightarrow> state_manager \<times> chat_state js_result" where
  "chatResolved chat i turns draft m =
     (let invalidated = Inl (PlainError (''Restored chat was invalidated while resolving: '' @ chat))
      in case chat_at m chat of
        None \<Rightarrow> (m, invalidated)
      | Some entry \<Rightarrow>
          if cent_id entry \<noteq> i \<or> \<not> cent_valid entry then (chatResolveFailed chat i m, invalidated)
          else case cent_state entry of
            Some st \<Rightarrow> (chatResolveFailed chat i m, Inr st)
          | None \<Rightarrow>
              let st = (createChatState (cent_summary entry))\<lparr>chat_turns := turns, chat_draft := orelse draft (cent_draft entry)\<rparr>;
                  m1 = set_chat chat (entry\<lparr>cent_state := Some st, cent_resolver := None, cent_inFlight := False\<rparr>) m
              in (if turns \<noteq> [] then markSessionUsed (cent_session entry) m1 else m1, Inr st))"

definition invalidateSessionChatResolutions :: "js_string \<Rightarrow> state_manager \<Rightarrow> state_manager" where
  "invalidateSessionChatResolutions session m =
     m\<lparr>sm_chats := map (\<lambda>(c, e). (c, if cent_session e = session then e\<lparr>cent_valid := False\<rparr> else e)) (sm_chats m)\<rparr>"

section \<open>Session state set by the host\<close>

definition update_session_state :: "js_string \<Rightarrow> (session_state \<Rightarrow> session_state) \<Rightarrow> state_manager \<Rightarrow> state_manager" where
  "update_session_state session f m =
     (case session_at m session of
        None \<Rightarrow> m
      | Some entry \<Rightarrow> set_session session (entry\<lparr>sent_state := f (sent_state entry)\<rparr>) m)"

definition setSessionMeta :: "js_string \<Rightarrow> json js_record option \<Rightarrow> state_manager \<Rightarrow> state_manager" where
  "setSessionMeta session meta m = dispatch_session session (SessionMetaChanged meta) None m"

definition setSessionConfig :: "js_string \<Rightarrow> session_config_state option \<Rightarrow> state_manager \<Rightarrow> state_manager" where
  "setSessionConfig session config m = update_session_state session (\<lambda>s. s\<lparr>ses_config := config\<rparr>) m"

definition setSessionCustomizations :: "js_string \<Rightarrow> customization list option \<Rightarrow> state_manager \<Rightarrow> state_manager" where
  "setSessionCustomizations session cs m = update_session_state session (\<lambda>s. s\<lparr>ses_customizations := cs\<rparr>) m"

definition setSessionSummaryChanges :: "js_string \<Rightarrow> changes_summary option \<Rightarrow> state_manager \<Rightarrow> state_manager" where
  "setSessionSummaryChanges session changes m =
     (case session_at m session of
        None \<Rightarrow> m
      | Some entry \<Rightarrow>
          if sent_changes entry = changes then m
          else markDirty session (set_session session (entry\<lparr>sent_changes := changes\<rparr>) m))"

definition setSessionChangesets :: "js_string \<Rightarrow> changeset list option \<Rightarrow> state_manager \<Rightarrow> state_manager" where
  "setSessionChangesets session changesets m =
     (case session_at m session of
        None \<Rightarrow> m
      | Some entry \<Rightarrow>
          if or_default (ses_changesets (sent_state entry)) [] = or_default changesets [] then m
          else dispatch_session session (SessionChangesetsChanged changesets) None m)"

section \<open>Changesets and annotations\<close>

definition registerChangeset :: "host \<Rightarrow> js_string \<Rightarrow> changeset_status \<Rightarrow> state_manager \<Rightarrow> state_manager" where
  "registerChangeset h uri initialStatus m =
     m\<lparr>sm_changesets := cache_register (host_canEvict h) uri initialStatus (sm_changesets m)\<rparr>"

definition getChangesetState :: "js_string \<Rightarrow> state_manager \<Rightarrow> state_manager \<times> changeset_state option" where
  "getChangesetState uri m =
     (let (cache, st) = cache_get uri (sm_changesets m) in (m\<lparr>sm_changesets := cache\<rparr>, st))"

definition onChangesetLivenessChanged :: "host \<Rightarrow> state_manager \<Rightarrow> state_manager" where
  "onChangesetLivenessChanged h m = m\<lparr>sm_changesets := evictIfOverLimit (host_canEvict h) (sm_changesets m)\<rparr>"

definition disposeChangeset :: "host \<Rightarrow> js_string \<Rightarrow> state_manager \<Rightarrow> state_manager" where
  "disposeChangeset h changeset m =
     (if \<not> cache_has changeset (sm_changesets m) then m
      else
        let m1 = dispatch_changeset (host_canEvict h) changeset ChangesetCleared None m
        in m1\<lparr>sm_changesets := cache_delete changeset (sm_changesets m1)\<rparr>)"

definition disposeSessionChangesets :: "host \<Rightarrow> js_string \<Rightarrow> state_manager \<Rightarrow> state_manager" where
  "disposeSessionChangesets h session m =
     fold (disposeChangeset h)
       (filter (\<lambda>uri. map_option csuri_sessionUri (parseChangesetUri uri) = Some session)
         (map fst (cc_states (sm_changesets m)))) m"

text \<open>Whether an annotations channel belongs to a session or one of its subagents; \<open>None\<close> when parsing throws.\<close>

definition annotations_owned :: "platform \<Rightarrow> js_string \<Rightarrow> js_string \<Rightarrow> bool option" where
  "annotations_owned pl session resource =
     (case parseAnnotationsUri resource of
        None \<Rightarrow> Some False
      | Some sessionUri \<Rightarrow>
          map_option
            (\<lambda>subagent. sessionUri = session \<or> map_option (\<lambda>(parent, _). asFormatted pl parent) subagent = Some session)
            (parseSubagentSessionUri pl sessionUri))"

fun dispose_annotations_loop ::
    "platform \<Rightarrow> js_string \<Rightarrow> js_string list \<Rightarrow> state_manager \<Rightarrow> state_manager outcome" where
  "dispose_annotations_loop pl session [] m = (m, None)"
| "dispose_annotations_loop pl session (r # rs) m =
     (case annotations_owned pl session r of
        None \<Rightarrow> (m, Some (PlainError ''[UriError]''))
      | Some owned \<Rightarrow>
          dispose_annotations_loop pl session rs
            (if owned then m\<lparr>sm_annotations := AList.delete r (sm_annotations m)\<rparr> else m))"

definition disposeSessionAnnotations :: "platform \<Rightarrow> js_string \<Rightarrow> state_manager \<Rightarrow> state_manager outcome" where
  "disposeSessionAnnotations pl session m = dispose_annotations_loop pl session (map fst (sm_annotations m)) m"

definition restoreAnnotations :: "js_string \<Rightarrow> annotations_state \<Rightarrow> state_manager \<Rightarrow> state_manager" where
  "restoreAnnotations session state m =
     m\<lparr>sm_annotations := AList.update (buildAnnotationsUri session) state (sm_annotations m)\<rparr>"

section \<open>Sessions leave\<close>

definition drop_active_session :: "js_string \<Rightarrow> state_manager \<Rightarrow> state_manager" where
  "drop_active_session session m =
     (if map_of (sm_active m) session = None then m
      else dispatch_active_count
             (emit (EmitActiveTurn session False) (m\<lparr>sm_active := AList.delete session (sm_active m)\<rparr>)))"

definition removeSession :: "host \<Rightarrow> js_string \<Rightarrow> state_manager \<Rightarrow> state_manager" where
  "removeSession h session m =
     (case session_at m session of
        None \<Rightarrow> m
      | Some entry \<Rightarrow>
          let m1 = invalidateSessionChatResolutions session m;
              m2 = (if session \<in> set (sm_dirty m1) then notifier_flush session m1 else m1);
              m3 = drop_active_session session m2;
              m4 = fold (\<lambda>c. invalidateChatEntry (csum_resource c)) (ses_chats (sent_state entry)) m3;
              m5 = invalidateChatEntry (buildDefaultChatUri (host_platform h) session) m4;
              m6 = m5\<lparr>sm_sessions := AList.delete session (sm_sessions m5)\<rparr>
          in notifier_remove session (emit (EmitSessionRemoved session) m6))"

definition deleteSession :: "host \<Rightarrow> js_string \<Rightarrow> state_manager \<Rightarrow> state_manager outcome" where
  "deleteSession h session m =
     (let wasPublished = session \<in> set (sm_published m);
          m1 = disposeSessionChangesets h session (clearDirty session m)
      in and_then (disposeSessionAnnotations (host_platform h) session m1)
           (\<lambda>m2.
              let m3 = removeSession h session m2
              in (if wasPublished
                  then emit (EmitNotification (SessionRemovedNote session))
                         (m3\<lparr>sm_published := removeAll session (sm_published m3), sm_added := removeAll session (sm_added m3)\<rparr>)
                  else m3, None)))"

section \<open>Reading the state\<close>

definition resolveOwningSession :: "platform \<Rightarrow> js_string \<Rightarrow> js_string option" where
  "resolveOwningSession pl sessionOrChat =
     (if isAhpChatChannel pl sessionOrChat then parseDefaultChatUri pl sessionOrChat else Some sessionOrChat)"

definition getSessionState :: "platform \<Rightarrow> js_string \<Rightarrow> state_manager \<Rightarrow> session_with_chat option" where
  "getSessionState pl sessionOrChat m =
     (case resolveOwningSession pl sessionOrChat of
        None \<Rightarrow> None
      | Some session \<Rightarrow>
          map_option
            (\<lambda>entry. mergeSessionWithDefaultChat (sent_state entry)
               (chat_state_at m (if isAhpChatChannel pl sessionOrChat then sessionOrChat else buildDefaultChatUri pl session)))
            (session_at m session))"

definition isUnusedDraft :: "platform \<Rightarrow> js_string \<Rightarrow> state_manager \<Rightarrow> bool option" where
  "isUnusedDraft pl sessionOrChat m =
     (case resolveOwningSession pl sessionOrChat of
        None \<Rightarrow> None
      | Some session \<Rightarrow> map_option (\<lambda>e. sent_use e = UnusedDraft) (session_at m session))"

definition getActiveTurnId :: "platform \<Rightarrow> js_string \<Rightarrow> state_manager \<Rightarrow> js_string option" where
  "getActiveTurnId pl sessionOrChat m =
     map_option aturn_id
       (Option.bind
         (chat_state_at m (if isAhpChatChannel pl sessionOrChat then sessionOrChat else buildDefaultChatUri pl sessionOrChat))
         chat_activeTurn)"

definition hasActiveSessions :: "state_manager \<Rightarrow> bool" where
  "hasActiveSessions m = (sm_active m \<noteq> [])"

definition hasActiveTurn :: "js_string \<Rightarrow> state_manager \<Rightarrow> bool" where
  "hasActiveTurn session m = (map_of (sm_active m) session \<noteq> None)"

datatype server_snapshot = RootSnapshot root_state | ChannelSnapshot channel_snapshot

text \<open>\<open>getSnapshot\<close>: the resource, its state and the sequence number; reading a changeset touches the cache.\<close>

definition getSnapshot ::
    "platform \<Rightarrow> js_string \<Rightarrow> state_manager \<Rightarrow> state_manager \<times> (js_string \<times> server_snapshot \<times> nat) option" where
  "getSnapshot pl resource m =
     (if isAhpRootChannel (uri_scheme_of pl) resource
      then (m, Some (ROOT_STATE_URI, RootSnapshot (sm_root m), sm_serverSeq m))
      else
        case getChangesetState resource m of
          (m1, Some st) \<Rightarrow> (m1, Some (resource, ChannelSnapshot (ChangesetSnapshot st), sm_serverSeq m1))
        | (m1, None) \<Rightarrow>
            if isAhpChatChannel pl resource
            then (m1, map_option (\<lambda>st. (resource, ChannelSnapshot (ChatSnapshot st), sm_serverSeq m1)) (chat_state_at m1 resource))
            else if isAnnotationsUri resource
            then (m1, Some (resource, ChannelSnapshot (AnnotationsSnapshot (annotations_at m1 resource)), sm_serverSeq m1))
            else (m1, map_option (\<lambda>e. (resource, ChannelSnapshot (SessionSnapshot (sent_state e)), sm_serverSeq m1))
                        (session_at m1 resource)))"

definition resolveChatStateForUri :: "platform \<Rightarrow> js_string \<Rightarrow> state_manager \<Rightarrow> chat_state option" where
  "resolveChatStateForUri pl chatUri m =
     (case chat_state_at m chatUri of
        Some st \<Rightarrow> Some st
      | None \<Rightarrow>
          if \<not> isAhpChatChannel pl chatUri then chat_state_at m (buildDefaultChatUri pl chatUri)
          else if isDefaultChatUri pl chatUri
          then Option.bind (parseDefaultChatUri pl chatUri) (\<lambda>s. chat_state_at m (buildDefaultChatUri pl s))
          else None)"

end
