(* ===== verification/State_Manager_Laws.thy ===== *)
theory State_Manager_Laws
  imports State_Lifecycle
begin

text \<open>
  The operations of the state manager as one executable step function, and the contract of an
  invariant that speaks of the sequence number, the root state and the emitted envelopes only:
  it has to survive a root dispatch and an envelope, and then survives every operation.
\<close>

section \<open>Runs of the state manager\<close>

datatype host_op =
    OpServerDispatch js_string state_action
  | OpClientDispatch js_string state_action action_origin
  | OpReject js_string state_action action_origin js_string
  | OpCreateSession session_summary bool
  | OpMarkPersisted js_string session_summary
  | OpRestoreSession session_summary "turn list" "message option" "js_string option"
  | OpAnnounceSurfaced session_summary
  | OpUpdateSurfacedTitle js_string js_string
  | OpRetractSurfaced js_string
  | OpSetPublished js_string bool
  | OpPrepareListing "session_summary list"
  | OpAddChat js_string js_string "js_string option" "turn list" "chat_origin option" "js_string option"
      "chat_interactivity option"
  | OpRegisterRestored js_string js_string "js_string option" "chat_origin option" "chat_interactivity option"
      "message option" "js_string option" "nat option"
  | OpRemoveChat js_string js_string
  | OpUpdateChatTitle js_string js_string js_string
  | OpSeedTurns js_string "turn list"
  | OpProviderData js_string "js_string option"
  | OpResolveChat js_string
  | OpChatResolved js_string nat "turn list" "message option"
  | OpChatResolveFailed js_string nat
  | OpInvalidateResolutions js_string
  | OpRemoveSession js_string
  | OpDeleteSession js_string
  | OpRetain js_string
  | OpSetMeta js_string "json js_record option"
  | OpSetConfig js_string "session_config_state option"
  | OpSetCustomizations js_string "customization list option"
  | OpSetSummaryChanges js_string "changes_summary option"
  | OpSetChangesets js_string "changeset list option"
  | OpRegisterChangeset js_string changeset_status
  | OpDisposeChangeset js_string
  | OpDisposeSessionChangesets js_string
  | OpDisposeSessionAnnotations js_string
  | OpRestoreAnnotations js_string annotations_state
  | OpChangesetLiveness
  | OpFlush
  | OpSnapshot js_string

fun host_step :: "host \<Rightarrow> host_op \<Rightarrow> state_manager \<Rightarrow> state_manager" where
  "host_step h (OpServerDispatch channel a) m = fst (dispatchServerAction h channel a m)"
| "host_step h (OpClientDispatch channel a origin) m = fst (dispatchClientAction h channel a origin m)"
| "host_step h (OpReject channel a origin reason) m = rejectClientAction channel a origin reason m"
| "host_step h (OpCreateSession summary b) m = createSession h summary b m"
| "host_step h (OpMarkPersisted s summary) m = markSessionPersisted s summary m"
| "host_step h (OpRestoreSession summary turns draft title) m = restoreSession h summary turns draft title m"
| "host_step h (OpAnnounceSurfaced summary) m = announceSurfacedSession summary m"
| "host_step h (OpUpdateSurfacedTitle s title) m = updateSurfacedSessionTitle s title m"
| "host_step h (OpRetractSurfaced s) m = retractSurfacedSession s m"
| "host_step h (OpSetPublished s b) m = setSessionSummaryPublished s b m"
| "host_step h (OpPrepareListing summaries) m = fst (prepareSessionSummariesForListing summaries m)"
| "host_step h (OpAddChat s c title turns origin providerData i) m = addChat h s c title turns origin providerData i m"
| "host_step h (OpRegisterRestored s c title origin i draft providerData resolver) m =
     registerRestoredChatSummary h s c title origin i draft providerData resolver m"
| "host_step h (OpRemoveChat s c) m = removeChat h s c m"
| "host_step h (OpUpdateChatTitle s c title) m = updateChatTitle s c title m"
| "host_step h (OpSeedTurns s turns) m = seedDefaultChatTurns (host_platform h) s turns m"
| "host_step h (OpProviderData c d) m = updateChatProviderData c d m"
| "host_step h (OpResolveChat c) m = fst (resolveChatState c m)"
| "host_step h (OpChatResolved c i turns draft) m = fst (chatResolved c i turns draft m)"
| "host_step h (OpChatResolveFailed c i) m = chatResolveFailed c i m"
| "host_step h (OpInvalidateResolutions s) m = invalidateSessionChatResolutions s m"
| "host_step h (OpRemoveSession s) m = removeSession h s m"
| "host_step h (OpDeleteSession s) m = fst (deleteSession h s m)"
| "host_step h (OpRetain s) m = retainSession s m"
| "host_step h (OpSetMeta s meta) m = setSessionMeta s meta m"
| "host_step h (OpSetConfig s config) m = setSessionConfig s config m"
| "host_step h (OpSetCustomizations s cs) m = setSessionCustomizations s cs m"
| "host_step h (OpSetSummaryChanges s cs) m = setSessionSummaryChanges s cs m"
| "host_step h (OpSetChangesets s cs) m = setSessionChangesets s cs m"
| "host_step h (OpRegisterChangeset u st) m = registerChangeset h u st m"
| "host_step h (OpDisposeChangeset u) m = disposeChangeset h u m"
| "host_step h (OpDisposeSessionChangesets s) m = disposeSessionChangesets h s m"
| "host_step h (OpDisposeSessionAnnotations s) m = fst (disposeSessionAnnotations (host_platform h) s m)"
| "host_step h (OpRestoreAnnotations s st) m = restoreAnnotations s st m"
| "host_step h OpChangesetLiveness m = onChangesetLivenessChanged h m"
| "host_step h OpFlush m = flushAll m"
| "host_step h (OpSnapshot r) m = fst (getSnapshot (host_platform h) r m)"

definition host_run :: "host \<Rightarrow> host_op list \<Rightarrow> state_manager \<Rightarrow> state_manager" where
  "host_run h ops m = fold (host_step h) ops m"

text \<open>A rejection carries its reason.\<close>

fun has_reason :: "host_op \<Rightarrow> bool" where
  "has_reason (OpReject _ _ _ reason) = (reason \<noteq> [])"
| "has_reason _ = True"

section \<open>The part of the state the envelopes depend on\<close>

fun envelope_of :: "emission \<Rightarrow> action_envelope option" where
  "envelope_of (EmitEnvelope e) = Some e"
| "envelope_of _ = None"

definition envelopes :: "state_manager \<Rightarrow> action_envelope list" where
  "envelopes m = List.map_filter envelope_of (sm_out m)"

definition wire_core :: "state_manager \<Rightarrow> nat \<times> root_state \<times> action_envelope list" where
  "wire_core m = (sm_serverSeq m, sm_root m, envelopes m)"

named_theorems wire_core_simps

lemma map_filter_snoc: "List.map_filter f (xs @ [x]) = List.map_filter f xs @ (case f x of None \<Rightarrow> [] | Some y \<Rightarrow> [y])"
  by (induction xs) (auto simp: List.map_filter_simps split: option.splits)

lemma wire_core_fields [wire_core_simps]:
  "wire_core (m\<lparr>sm_sessions := a\<rparr>) = wire_core m" "wire_core (m\<lparr>sm_chats := b\<rparr>) = wire_core m"
  "wire_core (m\<lparr>sm_nextChat := n\<rparr>) = wire_core m" "wire_core (m\<lparr>sm_changesets := c\<rparr>) = wire_core m"
  "wire_core (m\<lparr>sm_annotations := d\<rparr>) = wire_core m" "wire_core (m\<lparr>sm_active := e\<rparr>) = wire_core m"
  "wire_core (m\<lparr>sm_lastNotified := f\<rparr>) = wire_core m" "wire_core (m\<lparr>sm_dirty := g\<rparr>) = wire_core m"
  "wire_core (m\<lparr>sm_published := p\<rparr>) = wire_core m" "wire_core (m\<lparr>sm_added := p\<rparr>) = wire_core m"
  by (simp_all add: wire_core_def envelopes_def)

lemma wire_core_emit [wire_core_simps]: "envelope_of e = None \<Longrightarrow> wire_core (emit e m) = wire_core m"
  by (simp add: wire_core_def envelopes_def emit_def map_filter_snoc)

lemma wire_core_entries [wire_core_simps]:
  "wire_core (set_session s x m) = wire_core m" "wire_core (set_chat c y m) = wire_core m"
  "wire_core (new_chat u s sm st p d r m) = wire_core m" "wire_core (invalidateChatEntry c m) = wire_core m"
  by (simp_all add: set_session_def set_chat_def new_chat_def invalidateChatEntry_def wire_core_simps)

lemma wire_core_notifier [wire_core_simps]:
  "wire_core (announce s x m) = wire_core m" "wire_core (markDirty s m) = wire_core m"
  "wire_core (clearDirty s m) = wire_core m" "wire_core (notifier_remove s m) = wire_core m"
  "wire_core (emitSessionSummaryChanged s ch m) = wire_core m" "wire_core (emitSessionAdded x m) = wire_core m"
  "wire_core (unpublish s m) = wire_core m"
  by (simp_all add: announce_def markDirty_def clearDirty_def notifier_remove_def emitSessionSummaryChanged_def
      emitSessionAdded_def unpublish_def wire_core_simps Let_def)

lemma wire_core_flush [wire_core_simps]: "wire_core (notifier_flush s m) = wire_core m"
  by (auto simp: notifier_flush_def wire_core_simps Let_def split: option.split)

lemma wire_core_fold: "(\<And>x m. wire_core (f x m) = wire_core m) \<Longrightarrow> wire_core (fold f xs m) = wire_core m"
  by (induction xs arbitrary: m) simp_all

lemma wire_core_used [wire_core_simps]: "wire_core (markSessionUsed s m) = wire_core m"
  by (simp add: markSessionUsed_def wire_core_simps split: option.split)

lemma wire_core_synchronize [wire_core_simps]: "wire_core (synchronizeChatEntries s cs m) = wire_core m"
proof -
  have "wire_core (synchronize_one s c m) = wire_core m" for c m
    by (simp add: synchronize_one_def wire_core_simps split: option.split)
  then show ?thesis by (simp add: synchronizeChatEntries_def Let_def wire_core_simps wire_core_fold)
qed

lemma wire_core_apply_session [wire_core_simps]: "wire_core (apply_session s a m) = wire_core m"
  by (cases a; simp add: apply_session_def Let_def wire_core_simps split: option.split)

lemma wire_core_store [wire_core_simps]: "wire_core (fst (store_aggregate s cs st m)) = wire_core m"
proof -
  have "wire_core (fst (store_modified s b t e m)) = wire_core m" for b t e m
    by (simp add: store_modified_def Let_def wire_core_simps split: option.split sum.split)
  then show ?thesis by (simp add: store_aggregate_def Let_def wire_core_simps split: option.split)
qed

section \<open>Invariants of that part\<close>

locale wire_invariant =
  fixes I :: "state_manager \<Rightarrow> bool"
  assumes frame: "wire_core m' = wire_core m \<Longrightarrow> I m \<Longrightarrow> I m'"
    and root: "I m \<Longrightarrow> I (dispatch_root channel a origin m)"
    and envelope: "\<not> isRootAction b \<or> truthy_string reason \<Longrightarrow> I m \<Longrightarrow> I (emit_envelope channel b origin reason m)"
begin

lemma count: "I m \<Longrightarrow> I (dispatch_active_count m)"
  by (simp add: dispatch_active_count_def root)

lemma core_step: "wire_core (f m) = wire_core m \<Longrightarrow> I m \<Longrightarrow> I (f m)"
  by (rule frame)

lemma session: "I m \<Longrightarrow> I (dispatch_session s a origin m)"
  unfolding dispatch_session_def
  by (rule envelope) (simp_all add: isRootAction_def frame [OF wire_core_apply_session])

lemma drop_turn: "I m \<Longrightarrow> I (removeChatActiveTurn s c m)"
  by (auto simp: removeChatActiveTurn_def Let_def split: option.split
      intro!: count intro: frame [rotated] simp: wire_core_simps)

lemma add_turn: "I m \<Longrightarrow> I (addChatActiveTurn s c m)"
  by (auto simp: addChatActiveTurn_def Let_def intro!: count intro: frame [rotated] simp: wire_core_simps)

lemma track_turn: "I m \<Longrightarrow> I (track_active_turn s c p n m)"
  by (simp add: track_active_turn_def drop_turn add_turn)

lemma forward: "I m \<Longrightarrow> I (forward_chat_status s c e st m)"
  by (simp add: forward_chat_status_def session Let_def)

lemma roll_up: "I m \<Longrightarrow> I (fst (roll_up_chat s c n st m))"
  unfolding roll_up_chat_def Let_def
  by (rule frame [OF wire_core_store]) (rule forward)

lemma chat_changed: "I m \<Longrightarrow> I (fst (onChatStateChanged s c p n m))"
proof -
  assume m: "I m"
  have "I (fst (case session_at m1 s of None \<Rightarrow> (m1, None) | Some e \<Rightarrow> roll_up_chat s c n (sent_state e) m1))"
    if "I m1" for m1
    using that by (simp add: roll_up split: option.split)
  moreover have "I (track_active_turn s c p n m1)" if "I m1" for m1
    using that by (rule track_turn)
  moreover have "I (if u then markSessionUsed s m else m)" for u
    using m by (simp add: frame [OF wire_core_used])
  ultimately show ?thesis unfolding onChatStateChanged_def Let_def by blast
qed

lemma chat: "I m \<Longrightarrow> I (fst (dispatch_chat pl c a origin m))"
proof -
  assume m: "I m"
  have "I (fst (and_then r (\<lambda>m'. (emit_envelope c (ChatAct a) origin None m', None))))" if "I (fst r)" for r
    using that by (cases r; cases "snd r") (auto simp: isRootAction_def intro: envelope)
  then show ?thesis
    using m chat_changed frame [OF wire_core_entries(2) m]
    by (simp add: dispatch_chat_def envelope isRootAction_def split: sum.split option.split)
qed

lemma changeset: "I m \<Longrightarrow> I (dispatch_changeset ev u a origin m)"
  by (auto simp: dispatch_changeset_def Let_def isRootAction_def split: prod.split option.split
      intro!: envelope intro: frame [rotated] simp: wire_core_simps)

lemma annotations: "I m \<Longrightarrow> I (dispatch_annotations u a origin m)"
  by (auto simp: dispatch_annotations_def Let_def isRootAction_def
      intro!: envelope intro: frame [rotated] simp: wire_core_simps)

lemma dispatch: "I m \<Longrightarrow> I (fst (applyAndEmit h u a origin m))"
  by (cases a) (simp_all add: applyAndEmit_def root session chat changeset annotations envelope isRootAction_def)

lemma title: "I m \<Longrightarrow> I (updateChatTitle s c t m)"
  by (auto simp: updateChatTitle_def Let_def wire_core_simps split: option.split intro!: session intro: frame [rotated])

lemma snapshot_title: "I m \<Longrightarrow> I (snapshotDefaultChatTitle pl s st m)"
  by (auto simp: snapshotDefaultChatTitle_def Let_def wire_core_simps split: option.split
      intro: frame [OF wire_core_emit] title)

lemma add_chat: "I m \<Longrightarrow> I (addChat h s c t ts origin pd i m)"
  by (auto simp: addChat_def Let_def split: option.split
      intro!: session frame [OF wire_core_entries(3)] snapshot_title)

lemma register_chat: "I m \<Longrightarrow> I (registerRestoredChatSummary h s c t origin i d pd r m)"
  by (auto simp: registerRestoredChatSummary_def Let_def split: option.split
      intro!: frame [OF wire_core_entries(3)] frame [OF wire_core_entries(1)] frame [OF wire_core_entries(2)]
        snapshot_title)

lemma remove_chat: "I m \<Longrightarrow> I (removeChat h s c m)"
  by (auto simp: removeChat_def split: option.split intro!: session frame [OF wire_core_entries(4)] drop_turn)

lemma drop_active: "I m \<Longrightarrow> I (drop_active_session s m)"
  by (auto simp: drop_active_session_def intro!: count intro: frame [rotated] simp: wire_core_simps)

lemma dispose_changeset: "I m \<Longrightarrow> I (disposeChangeset h u m)"
  by (auto simp: disposeChangeset_def Let_def intro!: frame [OF wire_core_fields(4)] changeset)

lemma dispose_changesets: "I m \<Longrightarrow> I (disposeSessionChangesets h s m)"
proof -
  have "I m \<Longrightarrow> I (fold (disposeChangeset h) us m)" for us
    by (induction us arbitrary: m) (simp_all add: dispose_changeset)
  then show "I m \<Longrightarrow> ?thesis" by (simp add: disposeSessionChangesets_def)
qed

end

lemma wire_core_dispose_loop: "wire_core (fst (dispose_annotations_loop pl s rs m)) = wire_core m"
  by (induction rs arbitrary: m) (auto simp: wire_core_simps split: option.split)

lemma wire_core_dispose_annotations [wire_core_simps]: "wire_core (fst (disposeSessionAnnotations pl s m)) = wire_core m"
  by (simp add: disposeSessionAnnotations_def wire_core_dispose_loop)

lemma wire_core_invalidate [wire_core_simps]: "wire_core (invalidateSessionChatResolutions s m) = wire_core m"
  by (simp add: invalidateSessionChatResolutions_def wire_core_simps)

lemma wire_core_default_chat [wire_core_simps]: "wire_core (ensureDefaultChat pl s x ts d t m) = wire_core m"
  by (simp add: ensureDefaultChat_def Let_def wire_core_simps split: option.split)

lemma wire_core_catalog [wire_core_simps]:
  "wire_core (createSession h x b m) = wire_core m"
  "wire_core (markSessionPersisted s x m) = wire_core m"
  "wire_core (restoreSession h x ts d t m) = wire_core m"
  "wire_core (announceSurfacedSession x m) = wire_core m"
  "wire_core (updateSurfacedSessionTitle s tt m) = wire_core m"
  "wire_core (retractSurfacedSession s m) = wire_core m"
  "wire_core (setSessionSummaryPublished s b m) = wire_core m"
  "wire_core (flushAll m) = wire_core m"
  by (simp_all add: createSession_def markSessionPersisted_def restoreSession_def announceSurfacedSession_def
      updateSurfacedSessionTitle_def retractSurfacedSession_def setSessionSummaryPublished_def flushAll_def
      wire_core_simps wire_core_fold Let_def split: option.split)

lemma wire_core_listing [wire_core_simps]: "wire_core (fst (prepareSessionSummariesForListing xs m)) = wire_core m"
proof (induction xs arbitrary: m)
  case (Cons x xs)
  have "wire_core (fst (prepare_listing_one x m)) = wire_core m"
    by (simp add: prepare_listing_one_def Let_def wire_core_simps)
  with Cons show ?case by (simp add: case_prod_beta)
qed simp

lemma wire_core_chats [wire_core_simps]:
  "wire_core (seedDefaultChatTurns pl s ts m) = wire_core m"
  "wire_core (updateChatProviderData c d m) = wire_core m"
  "wire_core (fst (resolveChatState c m)) = wire_core m"
  "wire_core (chatResolveFailed c i m) = wire_core m"
  by (simp_all add: seedDefaultChatTurns_def updateChatProviderData_def resolveChatState_def chatResolveFailed_def
      wire_core_simps Let_def split: option.split)

lemma wire_core_resolved [wire_core_simps]: "wire_core (fst (chatResolved c i ts d m)) = wire_core m"
  by (simp add: chatResolved_def wire_core_simps Let_def split: option.split)

lemma wire_core_host_set [wire_core_simps]:
  "wire_core (setSessionConfig s cfg m) = wire_core m"
  "wire_core (setSessionCustomizations s cs m) = wire_core m"
  "wire_core (setSessionSummaryChanges s ch m) = wire_core m"
  "wire_core (registerChangeset h u st m) = wire_core m"
  "wire_core (onChangesetLivenessChanged h m) = wire_core m"
  "wire_core (restoreAnnotations s an m) = wire_core m"
  "wire_core (fst (getChangesetState u m)) = wire_core m"
  by (simp_all add: setSessionConfig_def setSessionCustomizations_def update_session_state_def
      setSessionSummaryChanges_def registerChangeset_def onChangesetLivenessChanged_def restoreAnnotations_def
      getChangesetState_def wire_core_simps Let_def split: option.split prod.split)

lemma wire_core_snapshot [wire_core_simps]: "wire_core (fst (getSnapshot pl r m)) = wire_core m"
proof -
  have "wire_core m1 = wire_core m" if "getChangesetState r m = (m1, x)" for m1 x
    using wire_core_host_set(7) [of r m] that by simp
  then show ?thesis by (auto simp: getSnapshot_def split: prod.split option.split)
qed

context wire_invariant
begin

lemma remove_session: "I m \<Longrightarrow> I (removeSession h s m)"
proof (cases "session_at m s")
  case (Some entry)
  assume m: "I m"
  have tidy: "wire_core (fold (\<lambda>c. invalidateChatEntry (csum_resource c)) cs m') = wire_core m'" for cs m'
    by (rule wire_core_fold) (rule wire_core_entries(4))
  let ?m1 = "invalidateSessionChatResolutions s m"
  let ?m2 = "if s \<in> set (sm_dirty ?m1) then notifier_flush s ?m1 else ?m1"
  have "I ?m2" by (rule frame [OF _ m]) (simp add: wire_core_simps)
  then have "I (drop_active_session s ?m2)" by (rule drop_active)
  then show ?thesis unfolding removeSession_def Some option.case Let_def
    by (rule frame [rotated]) (simp add: wire_core_simps tidy)
qed (simp add: removeSession_def)

lemma delete_session: "I m \<Longrightarrow> I (fst (deleteSession h s m))"
proof -
  assume "I m"
  let ?d = "disposeSessionAnnotations (host_platform h) s (disposeSessionChangesets h s (clearDirty s m))"
  have "I (fst ?d)"
    by (intro frame [OF wire_core_dispose_annotations] dispose_changesets frame [OF wire_core_notifier(3)] \<open>I m\<close>)
  moreover have published: "I (emit (EmitNotification n) (m'\<lparr>sm_published := p, sm_added := q\<rparr>))" if "I m'" for m' n p q
    using that by (rule frame [rotated]) (simp add: wire_core_simps)
  ultimately show ?thesis
    by (cases ?d; cases "snd ?d") (auto simp: deleteSession_def Let_def intro!: published remove_session)
qed

lemma step:
  assumes "I m" and "has_reason op"
  shows "I (host_step h op m)"
proof (cases op)
  case (OpReject channel a origin reason)
  with assms show ?thesis by (simp add: rejectClientAction_def envelope)
qed (simp_all add: assms(1) dispatchServerAction_def dispatchClientAction_def dispatch add_chat register_chat remove_chat
    title remove_session delete_session setSessionMeta_def session setSessionChangesets_def dispose_changeset
    dispose_changesets retainSession_def frame [OF wire_core_catalog(1) assms(1)] frame [OF wire_core_catalog(2) assms(1)]
    frame [OF wire_core_catalog(3) assms(1)] frame [OF wire_core_catalog(4) assms(1)] frame [OF wire_core_catalog(5) assms(1)]
    frame [OF wire_core_catalog(6) assms(1)] frame [OF wire_core_catalog(7) assms(1)] frame [OF wire_core_catalog(8) assms(1)]
    frame [OF wire_core_listing assms(1)] frame [OF wire_core_chats(1) assms(1)] frame [OF wire_core_chats(2) assms(1)]
    frame [OF wire_core_chats(3) assms(1)] frame [OF wire_core_chats(4) assms(1)] frame [OF wire_core_resolved assms(1)]
    frame [OF wire_core_host_set(1) assms(1)] frame [OF wire_core_host_set(2) assms(1)] frame [OF wire_core_host_set(3) assms(1)]
    frame [OF wire_core_host_set(4) assms(1)] frame [OF wire_core_host_set(5) assms(1)] frame [OF wire_core_host_set(6) assms(1)]
    frame [OF wire_core_dispose_annotations assms(1)] frame [OF wire_core_invalidate assms(1)]
    frame [OF wire_core_used assms(1)] frame [OF wire_core_snapshot assms(1)] split: option.split)

lemma run: "I m \<Longrightarrow> list_all has_reason ops \<Longrightarrow> I (host_run h ops m)"
  by (induction ops arbitrary: m) (simp_all add: host_run_def step)

end

end
