(* ===== verification/Host_Properties.thy ===== *)
theory Host_Properties
  imports State_Manager_Laws Subscription_Laws
begin

text \<open>
  What the server's state manager guarantees along every run of its operations: the envelopes
  are numbered without gap or repetition, the root state is the fold of the root actions it
  emitted, and with the subscription of a client on the other end, the client's copy of the
  root state is the server's.
\<close>

section \<open>Numbering\<close>

definition numbered :: "state_manager \<Rightarrow> bool" where
  "numbered m \<longleftrightarrow> map env_serverSeq (envelopes m) = [1..<Suc (sm_serverSeq m)]"

lemma envelopes_emit_envelope:
  "envelopes (emit_envelope channel a origin reason m) = envelopes m @
     [\<lparr>env_channel = channel, env_action = a, env_serverSeq = Suc (sm_serverSeq m), env_origin = origin,
       env_rejectionReason = reason\<rparr>]"
  by (simp add: emit_envelope_def envelopes_def emit_def map_filter_snoc Let_def)

lemma emit_envelope_fields [simp]:
  "sm_serverSeq (emit_envelope channel a origin reason m) = Suc (sm_serverSeq m)"
  "sm_root (emit_envelope channel a origin reason m) = sm_root m"
  by (simp_all add: emit_envelope_def emit_def Let_def)

lemma envelopes_set_root [simp]: "envelopes (m\<lparr>sm_root := r\<rparr>) = envelopes m"
  by (simp add: envelopes_def)

interpretation numbering: wire_invariant numbered
proof unfold_locales
  show "numbered m'" if "wire_core m' = wire_core m" "numbered m" for m m'
    using that by (simp add: wire_core_def numbered_def)
  have envelope: "numbered (emit_envelope channel b origin reason m)" if "numbered m" for channel b origin reason m
    using that by (simp add: numbered_def envelopes_emit_envelope)
  then show "numbered (emit_envelope channel b origin reason m)" if "numbered m" for channel b origin reason m
    using that by blast
  show "numbered (dispatch_root channel a origin m)" if "numbered m" for channel a origin m
  proof -
    have "numbered (m\<lparr>sm_root := r\<rparr>)" for r using that by (simp add: numbered_def)
    then show ?thesis using that envelope by (simp add: dispatch_root_def Let_def)
  qed
qed

lemma numbered_new [simp]: "numbered (new_state_manager config meta limit)"
  by (simp add: numbered_def new_state_manager_def envelopes_def List.map_filter_simps)

section \<open>The root state\<close>

definition root_step :: "root_state \<Rightarrow> state_action \<Rightarrow> root_state" where
  "root_step s a = (case a of RootAct x \<Rightarrow> rootReducer s x | _ \<Rightarrow> s)"

definition root_replicated :: "root_state \<Rightarrow> state_manager \<Rightarrow> bool" where
  "root_replicated r m \<longleftrightarrow> sm_root m = log_state root_step (\<lambda>e. \<not> rejected e) (envelopes m) r"

lemma log_state_snoc:
  "log_state step applied (xs @ [e]) s =
     (if applied e then step (log_state step applied xs s) (env_action e) else log_state step applied xs s)"
  by (simp add: log_state_append)

interpretation root_log: wire_invariant "root_replicated r" for r
proof unfold_locales
  show "root_replicated r m'" if "wire_core m' = wire_core m" "root_replicated r m" for m m'
    using that by (simp add: wire_core_def root_replicated_def)
  show "root_replicated r (dispatch_root channel a origin m)" if "root_replicated r m" for channel a origin m
    using that by (simp add: dispatch_root_def Let_def root_replicated_def envelopes_emit_envelope log_state_snoc
        rejected_def root_step_def)
  show "root_replicated r (emit_envelope channel b origin reason m)"
    if "\<not> isRootAction b \<or> truthy_string reason" "root_replicated r m" for channel b origin reason m
    using that by (cases b) (auto simp: root_replicated_def envelopes_emit_envelope log_state_snoc rejected_def
        root_step_def isRootAction_def)
qed

definition initial_root :: "root_config_state \<Rightarrow> json js_record option \<Rightarrow> root_state" where
  "initial_root config meta = createRootState\<lparr>root_config := Some config, root_meta := meta\<rparr>"

lemma root_replicated_new: "root_replicated (initial_root config meta) (new_state_manager config meta limit)"
  by (simp add: root_replicated_def new_state_manager_def envelopes_def List.map_filter_simps initial_root_def)

text \<open>
  C22. The server numbers its envelopes without a gap: after any run of operations, whatever
  dispatches were nested in one another, threw an exception or were rejected, the envelopes
  emitted so far carry the numbers 1, 2, 3 and so on in the order they were emitted, and the
  last one is the current sequence number.
\<close>

theorem envelopes_numbered:
  assumes "m = host_run h ops (new_state_manager config meta limit)" and "list_all has_reason ops"
  shows "map env_serverSeq (envelopes m) = [1..<Suc (sm_serverSeq m)]"
proof -
  have "numbered m"
    unfolding assms(1) by (rule numbering.run [OF numbered_new assms(2)])
  then show ?thesis by (simp add: numbered_def)
qed

section \<open>The root subscription of a client\<close>

lemma root_apply_total: "root_applyReducer s a = Inr (root_step s a)"
  by (cases a) (simp_all add: root_applyReducer_def root_step_def)

interpretation root_replica: replica root_step "base_reconcile root_applyReducer"
    "base_onSnapshotApplied (base_reconcile root_applyReducer)" "root_isRelevant scheme" "\<lambda>e. True" for scheme
proof unfold_locales
  fix sub :: "root_state subscription" and s e own
  assume "sub_confirmed sub = Some s"
  then show "\<exists>sub'. base_reconcile root_applyReducer e own sub = (sub', None)
        \<and> sub_confirmed sub' = Some (if True then root_step s (env_action e) else s)
        \<and> sub_clientId sub' = sub_clientId sub \<and> sub_uri sub' = sub_uri sub
        \<and> sub_buffered sub' = sub_buffered sub \<and> sub_error sub' = sub_error sub"
    by (simp add: base_reconcile_def root_apply_total Let_def fire_def)
qed (auto simp: root_isRelevant_def)

lemma log_state_filter:
  assumes "\<And>e s. e \<in> set es \<Longrightarrow> \<not> P e \<Longrightarrow> step s (env_action e) = s" and "\<And>e. e \<in> set es \<Longrightarrow> P e \<Longrightarrow> applied e"
  shows "log_state step (\<lambda>e. True) (filter P es) s = log_state step applied es s"
  using assms
proof (induction es arbitrary: s)
  case (Cons e es)
  then show ?case by (cases "P e") simp_all
qed simp

interpretation emitted: wire_invariant "\<lambda>m. \<exists>later. envelopes m = earlier @ later" for earlier
proof unfold_locales
  show "\<exists>later. envelopes m' = earlier @ later"
    if "wire_core m' = wire_core m" "\<exists>later. envelopes m = earlier @ later" for m m'
    using that by (simp add: wire_core_def)
  have envelope: "\<exists>later. envelopes (emit_envelope channel b origin reason m) = earlier @ later"
    if "\<exists>later. envelopes m = earlier @ later" for channel b origin reason m
    using that by (auto simp: envelopes_emit_envelope)
  then show "\<exists>later. envelopes (emit_envelope channel b origin reason m) = earlier @ later"
    if "\<exists>later. envelopes m = earlier @ later" for channel b origin reason m using that by blast
  show "\<exists>later. envelopes (dispatch_root channel a origin m) = earlier @ later"
    if "\<exists>later. envelopes m = earlier @ later" for channel a origin m
    using that envelope by (simp add: dispatch_root_def Let_def)
qed

lemma earlier_envelopes:
  assumes "numbered m" "numbered m'" "envelopes m' = envelopes m @ later"
  shows "filter (\<lambda>e. env_serverSeq e \<le> sm_serverSeq m) (envelopes m') = envelopes m"
proof -
  let ?n = "sm_serverSeq m" and ?n' = "sm_serverSeq m'"
  have "[1..<Suc ?n'] = [1..<Suc ?n] @ map env_serverSeq later"
    using assms by (simp add: numbered_def)
  then have "map env_serverSeq later = drop ?n [1..<Suc ?n']" by simp
  then have later: "map env_serverSeq later = [Suc ?n..<Suc ?n']" by (simp add: drop_upt)
  have "env_serverSeq e > ?n" if "e \<in> set later" for e
  proof -
    have "env_serverSeq e \<in> set [Suc ?n..<Suc ?n']" using that later by (metis image_eqI list.set_map)
    then show ?thesis by auto
  qed
  moreover have "env_serverSeq e \<le> ?n" if "e \<in> set (envelopes m)" for e
  proof -
    have "env_serverSeq e \<in> set [1..<Suc ?n]" using that assms(1) unfolding numbered_def by (metis image_eqI list.set_map)
    then show ?thesis by auto
  qed
  ultimately show ?thesis using assms(3) by (auto simp: filter_id_conv filter_empty_conv not_le)
qed

text \<open>
  C21. A client's copy of the root state is the server's: take any run of the server, let a client
  take its snapshot of the root channel at some point of it, miss the envelopes before, buffer
  those that overtake the snapshot and receive the rest; when all have arrived its confirmed
  state is the server's root state. This needs the root actions to travel on the root channel
  and none to be rejected, which the server does not check (the root subscription, unlike the
  write-ahead ones, applies rejected actions).
\<close>

theorem root_replica_follows_server:
  assumes "m0 = host_run h ops0 (new_state_manager config meta limit)" and "m = host_run h ops m0"
    and "list_all has_reason (ops0 @ ops)"
    and "\<forall>e\<in>set (envelopes m). isRootAction (env_action e) \<longrightarrow> isAhpRootChannel scheme (env_channel e) \<and> \<not> rejected e"
    and "filter (root_isRelevant scheme (new_subscription uri c)) (envelopes m) = missed @ buffered @ later"
    and "\<forall>e\<in>set missed. env_serverSeq e \<le> sm_serverSeq m0" and "\<forall>e\<in>set later. env_serverSeq e > sm_serverSeq m0"
  shows "\<exists>s1 s2 s3. receive_all (root_receive scheme) buffered (new_subscription uri c) = (s1, None)
     \<and> root_snapshot (sm_root m0) (sm_serverSeq m0) s1 = (s2, None)
     \<and> receive_all (root_receive scheme) later s2 = (s3, None)
     \<and> sub_confirmed s3 = Some (sm_root m)"
proof -
  let ?r = "initial_root config meta" and ?rel = "root_isRelevant scheme (new_subscription uri c)"
  have reasons: "list_all has_reason ops0" "list_all has_reason ops" using assms(3) by simp_all
  have n0: "numbered m0" unfolding assms(1) by (rule numbering.run [OF numbered_new reasons(1)])
  have n: "numbered m" unfolding assms(2) by (rule numbering.run [OF n0 reasons(2)])
  have r0: "root_replicated ?r m0" unfolding assms(1) by (rule root_log.run [OF root_replicated_new reasons(1)])
  have r: "root_replicated ?r m" unfolding assms(2) by (rule root_log.run [OF r0 reasons(2)])
  obtain new where new: "envelopes m = envelopes m0 @ new"
    unfolding assms(2) using emitted.run [OF _ reasons(2), where earlier = "envelopes m0"] by fastforce
  have fold: "log_state root_step (\<lambda>e. True) (filter ?rel es) ?r = log_state root_step (\<lambda>e. \<not> rejected e) es ?r"
    if "set es \<subseteq> set (envelopes m)" for es
  proof (rule log_state_filter)
    show "root_step s (env_action e) = s" if "e \<in> set es" "\<not> ?rel e" for e s
      using that assms(4) \<open>set es \<subseteq> _\<close>
      by (cases "env_action e") (auto simp: root_isRelevant_def isRootAction_def root_step_def dest!: subsetD bspec)
    show "\<not> rejected e" if "e \<in> set es" "?rel e" for e
      using that assms(4) \<open>set es \<subseteq> _\<close> by (auto simp: root_isRelevant_def)
  qed
  let ?sent = "filter ?rel (envelopes m)"
  have "sorted (map env_serverSeq (envelopes m))" using n sorted_upt by (metis numbered_def)
  then have sorted: "sorted (map env_serverSeq ?sent)" by (rule sorted_filter)
  have "filter (\<lambda>e. env_serverSeq e \<le> sm_serverSeq m0) ?sent
      = filter ?rel (filter (\<lambda>e. env_serverSeq e \<le> sm_serverSeq m0) (envelopes m))"
    by (simp add: conj_commute)
  also have "\<dots> = filter ?rel (envelopes m0)" by (simp only: earlier_envelopes [OF n0 n new])
  finally have "sm_root m0 = log_state root_step (\<lambda>e. True) (filter (\<lambda>e. env_serverSeq e \<le> sm_serverSeq m0) ?sent) ?r"
    using r0 fold [of "envelopes m0"] new by (simp add: root_replicated_def)
  from root_replica.converges [OF _ assms(5) sorted assms(6,7) this]
  show ?thesis using r fold [of "envelopes m"]
    unfolding root_receive_def root_snapshot_def root_replicated_def by fastforce
qed

text \<open>
  C32. Where that can fail: a configuration change a client sends on any channel changes the root
  state, but on a channel other than the root channel its envelope reaches no root
  subscription, so every client's copy falls behind; and a rejected root action changes nothing
  on the server but is applied by every root subscription that is up to date.
\<close>

theorem root_channel_unchecked:
  assumes "\<not> isAhpRootChannel scheme channel"
    and "\<not> root_action_noop (sm_root m) (rewrite_root_action (sm_root m) a)"
    and "isAhpRootChannel scheme root_channel" and "sub_confirmed sub = Some r"
  shows "(\<exists>m' e. dispatchClientAction h channel (RootAct a) origin m = (m', None)
       \<and> sm_root m' = rootReducer (sm_root m) (rewrite_root_action (sm_root m) a)
       \<and> envelopes m' = envelopes m @ [e] \<and> \<not> root_isRelevant scheme sub e)
    \<and> (\<exists>e sub'. envelopes (rejectClientAction root_channel (RootAct a) origin reason m) = envelopes m @ [e]
       \<and> sm_root (rejectClientAction root_channel (RootAct a) origin reason m) = sm_root m
       \<and> root_receive scheme e sub = (sub', None) \<and> sub_confirmed sub' = Some (rootReducer r a))"
  using assms
  by (simp add: dispatchClientAction_def applyAndEmit_def dispatch_root_def Let_def envelopes_emit_envelope
      root_isRelevant_def rejectClientAction_def root_receive_def receiveEnvelope_def base_reconcile_def
      root_applyReducer_def isRootAction_def fire_def)

section \<open>Examples\<close>

definition sample_config :: root_config_state where
  "sample_config = \<lparr>rcfg_schema = \<lparr>cfgschema_properties = [], cfgschema_required = None\<rparr>, rcfg_values = []\<rparr>"

definition sample_host :: host where
  "sample_host = \<lparr>host_platform = ascii_platform, host_canEvict = (\<lambda>_. True)\<rparr>"

definition sample_root_op :: "nat \<Rightarrow> host_op" where
  "sample_root_op n = OpServerDispatch ROOT_STATE_URI (RootAct (RootActiveSessionsChanged (of_nat n)))"

lemma sample_root_step:
  "host_step sample_host (sample_root_op n) m =
     emit_envelope ROOT_STATE_URI (RootAct (RootActiveSessionsChanged (of_nat n))) None None
       (m\<lparr>sm_root := (sm_root m)\<lparr>root_activeSessions := Some (of_nat n)\<rparr>\<rparr>)"
  by (simp add: sample_root_op_def dispatchServerAction_def applyAndEmit_def dispatch_root_def rewrite_root_action_def
      root_action_noop_def Let_def)

lemma sample_new: "envelopes (new_state_manager sample_config None None) = []" "sm_serverSeq (new_state_manager sample_config None None) = 0"
  by (simp_all add: new_state_manager_def envelopes_def List.map_filter_simps)

lemma envelopes_numbered_witness:
  "map env_serverSeq (envelopes (host_run sample_host [sample_root_op 1, sample_root_op 2]
     (new_state_manager sample_config None None))) = [1, 2]"
proof -
  have "sm_serverSeq (host_run sample_host [sample_root_op 1, sample_root_op 2] (new_state_manager sample_config None None)) = 2"
    by (simp add: host_run_def sample_root_step new_state_manager_def)
  moreover have "list_all has_reason [sample_root_op 1, sample_root_op 2]" by (simp add: sample_root_op_def)
  ultimately show ?thesis
    using envelopes_numbered [OF refl, of "[sample_root_op 1, sample_root_op 2]" sample_host sample_config None None]
    by (simp add: upt_rec)
qed

definition sample_early :: state_manager where
  "sample_early = host_run sample_host [sample_root_op 1] (new_state_manager sample_config None None)"

definition sample_late :: state_manager where
  "sample_late = host_run sample_host [sample_root_op 2] sample_early"

lemma root_replica_follows_server_witness:
  "\<exists>s1 s2 s3. receive_all (root_receive (\<lambda>_. None)) [] (new_subscription ''ahp-root:'' ''c'') = (s1, None)
     \<and> root_snapshot (sm_root sample_early) (sm_serverSeq sample_early) s1 = (s2, None)
     \<and> receive_all (root_receive (\<lambda>_. None)) (drop 1 (envelopes sample_late)) s2 = (s3, None)
     \<and> map_option root_activeSessions (sub_confirmed s3) = Some (Some 2)"
proof -
  have relevant: "isAhpRootChannel (\<lambda>_. None) ROOT_STATE_URI" by (simp add: isAhpRootChannel_def ROOT_STATE_URI_def)
  note run = sample_late_def sample_early_def host_run_def sample_root_step envelopes_emit_envelope sample_new
  have log: "envelopes sample_late =
      [\<lparr>env_channel = ROOT_STATE_URI, env_action = RootAct (RootActiveSessionsChanged 1), env_serverSeq = 1, env_origin = None, env_rejectionReason = None\<rparr>,
       \<lparr>env_channel = ROOT_STATE_URI, env_action = RootAct (RootActiveSessionsChanged 2), env_serverSeq = 2, env_origin = None, env_rejectionReason = None\<rparr>]"
    by (simp add: run)
  have facts: "sm_serverSeq sample_early = 1" "root_activeSessions (sm_root sample_late) = Some 2"
    by (simp_all add: run)
  have "\<exists>s1 s2 s3. receive_all (root_receive (\<lambda>_. None)) [] (new_subscription ''ahp-root:'' ''c'') = (s1, None)
     \<and> root_snapshot (sm_root sample_early) (sm_serverSeq sample_early) s1 = (s2, None)
     \<and> receive_all (root_receive (\<lambda>_. None)) (drop 1 (envelopes sample_late)) s2 = (s3, None)
     \<and> sub_confirmed s3 = Some (sm_root sample_late)"
    by (rule root_replica_follows_server [OF sample_early_def sample_late_def, where missed = "take 1 (envelopes sample_late)"])
      (use log facts(1) relevant in \<open>auto simp: root_isRelevant_def isRootAction_def rejected_def sample_root_op_def\<close>)
  then show ?thesis using facts(2) by auto
qed

lemma root_channel_unchecked_witness:
  "\<exists>m'. dispatchClientAction sample_host ''copilot:/s1''
      (RootAct (RootConfigChanged \<lparr>rcfgChg_config = [(''k'', JNull)], rcfgChg_replace = None\<rparr>)) \<lparr>org_clientId = ''c'', org_clientSeq = 1\<rparr>
      (new_state_manager sample_config None None) = (m', None)"
proof -
  let ?a = "RootConfigChanged \<lparr>rcfgChg_config = [(''k'', JNull)], rcfgChg_replace = None\<rparr>"
  let ?m = "new_state_manager sample_config None None"
  have "\<not> root_action_noop (sm_root ?m) (rewrite_root_action (sm_root ?m) ?a)"
    by (simp add: new_state_manager_def root_action_noop_def rewrite_root_action_def sample_config_def record_equals_def Let_def)
  moreover have "\<not> isAhpRootChannel (\<lambda>_. None) ''copilot:/s1''" "isAhpRootChannel (\<lambda>_. None) ROOT_STATE_URI"
    by (simp_all add: isAhpRootChannel_def ROOT_STATE_URI_def)
  ultimately show ?thesis
    using root_channel_unchecked [of "\<lambda>_. None" "''copilot:/s1''" ?m ?a ROOT_STATE_URI
        "(new_subscription ''ahp-root:'' ''c'')\<lparr>sub_confirmed := Some createRootState\<rparr>" createRootState sample_host]
    by auto
qed

end
