(* ===== verification/Host_View.thy ===== *)
theory Host_View
  imports Host_Properties
begin

text \<open>
  A view of the state manager for the properties about chats: which chats each session lists,
  the session and the activity of every chat, the table \<open>_sessionsWithActiveTurn\<close> and the count
  the root state shows. First what the operations do to the view, then which changes of a view
  keep it consistent.
\<close>

section \<open>The view\<close>

definition listed_chats :: "state_manager \<Rightarrow> js_string \<Rightarrow> js_string set option" where
  "listed_chats m s = map_option (\<lambda>e. csum_resource ` set (ses_chats (sent_state e))) (session_at m s)"

type_synonym chat_view = "js_string \<times> js_string \<times> (js_string \<times> bool) option"

definition entry_view :: "chat_entry \<Rightarrow> chat_view" where
  "entry_view e = (cent_session e, csum_resource (cent_summary e),
     map_option (\<lambda>st. (chat_resource st, chat_activeTurn st \<noteq> None)) (cent_state e))"

definition chats_view :: "state_manager \<Rightarrow> js_string \<Rightarrow> chat_view option" where
  "chats_view m c = map_option entry_view (chat_at m c)"

definition host_view where
  "host_view m = (distinct (map fst (sm_chats m)), listed_chats m, chats_view m, sm_active m, root_activeSessions (sm_root m))"

text \<open>A chat entry as it belongs under its URI: its session, and the URI in its summary and its state.\<close>

definition entry_fits :: "platform \<Rightarrow> js_string \<Rightarrow> chat_view \<Rightarrow> bool" where
  "entry_fits pl c v =
     (case v of (s, r, st) \<Rightarrow> parseDefaultChatUri pl c = Some s \<and> r = c \<and> (case st of None \<Rightarrow> True | Some (r', _) \<Rightarrow> r' = c))"

definition is_active :: "chat_view option \<Rightarrow> bool" where
  "is_active v = (case v of Some (_, _, Some (_, a)) \<Rightarrow> a | _ \<Rightarrow> False)"

definition turns_of :: "(js_string \<times> js_string list) list \<Rightarrow> js_string \<Rightarrow> js_string set" where
  "turns_of A s = set (or_default (map_of A s) [])"

definition table_ok :: "(js_string \<times> js_string list) list \<Rightarrow> bool" where
  "table_ok A = (distinct (map fst A) \<and> (\<forall>(s, cs)\<in>set A. cs \<noteq> [] \<and> distinct cs))"

definition owned_ok :: "platform \<Rightarrow> (js_string \<Rightarrow> js_string set option) \<Rightarrow> (js_string \<Rightarrow> chat_view option) \<Rightarrow> bool" where
  "owned_ok pl V C =
     ((\<forall>c v. C c = Some v \<longrightarrow> entry_fits pl c v \<and> (\<exists>R. V (fst v) = Some R \<and> c \<in> R))
      \<and> (\<forall>s R c. V s = Some R \<longrightarrow> c \<in> R \<longrightarrow> parseDefaultChatUri pl c = Some s))"

definition exact_turns :: "platform \<Rightarrow> (js_string \<Rightarrow> chat_view option) \<Rightarrow> (js_string \<times> js_string list) list \<Rightarrow> bool" where
  "exact_turns pl C A = (\<forall>s. turns_of A s = {c. is_active (C c) \<and> parseDefaultChatUri pl c = Some s})"

definition view_ok where
  "view_ok pl v =
     (case v of (K, V, C, A, n) \<Rightarrow>
        K \<and> table_ok A \<and> owned_ok pl V C \<and> exact_turns pl C A \<and> n = Some (of_nat (length A)))"

definition activity_ok :: "platform \<Rightarrow> state_manager \<Rightarrow> bool" where
  "activity_ok pl m = view_ok pl (host_view m)"

section \<open>What the operations do to the view\<close>

named_theorems view_simps

lemma host_view_fields [view_simps]:
  "host_view (m\<lparr>sm_serverSeq := n\<rparr>) = host_view m" "host_view (m\<lparr>sm_nextChat := n\<rparr>) = host_view m"
  "host_view (m\<lparr>sm_changesets := c\<rparr>) = host_view m" "host_view (m\<lparr>sm_annotations := d\<rparr>) = host_view m"
  "host_view (m\<lparr>sm_lastNotified := f\<rparr>) = host_view m" "host_view (m\<lparr>sm_dirty := g\<rparr>) = host_view m"
  "host_view (m\<lparr>sm_published := p\<rparr>) = host_view m" "host_view (m\<lparr>sm_added := p\<rparr>) = host_view m"
  "host_view (m\<lparr>sm_out := out\<rparr>) = host_view m"
  by (simp_all add: host_view_def listed_chats_def chats_view_def session_at_def chat_at_def fun_eq_iff)

lemma host_view_quiet [view_simps]:
  "host_view (emit e m) = host_view m" "host_view (announce s x m) = host_view m"
  "host_view (markDirty s m) = host_view m" "host_view (clearDirty s m) = host_view m"
  "host_view (notifier_remove s m) = host_view m" "host_view (emit_envelope u a og r m) = host_view m"
  by (simp_all add: emit_def announce_def markDirty_def clearDirty_def notifier_remove_def emit_envelope_def Let_def
      view_simps)

lemma host_view_notify [view_simps]:
  "host_view (emitSessionSummaryChanged s ch m) = host_view m" "host_view (emitSessionAdded x m) = host_view m"
  "host_view (unpublish s m) = host_view m" "host_view (notifier_flush s m) = host_view m"
  by (simp_all add: emitSessionSummaryChanged_def emitSessionAdded_def unpublish_def notifier_flush_def view_simps Let_def
      split: option.split)

lemma view_parts:
  assumes "host_view m' = host_view m"
  shows "listed_chats m' = listed_chats m" "chats_view m' = chats_view m" "sm_active m' = sm_active m"
    "root_activeSessions (sm_root m') = root_activeSessions (sm_root m)"
  using assms by (simp_all add: host_view_def)

lemma listed_set_session [simp]:
  "listed_chats (set_session s e m) = (listed_chats m)(s \<mapsto> csum_resource ` set (ses_chats (sent_state e)))"
  by (simp add: listed_chats_def session_at_def set_session_def update_conv' fun_eq_iff)

lemma distinct_update_keys [simp]: "distinct (map fst (AList.update k v xs)) = distinct (map fst xs)"
  by (induction xs) (auto simp: AList.update_keys split: if_splits)

lemma listed_sm_chats [simp]: "listed_chats (m\<lparr>sm_chats := xs\<rparr>) = listed_chats m"
  by (simp add: listed_chats_def session_at_def fun_eq_iff)

lemma chats_set_chat [simp]: "chats_view (set_chat c e m) = (chats_view m)(c \<mapsto> entry_view e)"
  by (simp add: chats_view_def chat_at_def set_chat_def update_conv' fun_eq_iff)

lemma set_frames [simp]:
  "chats_view (set_session s e m) = chats_view m" "sm_active (set_session s e m) = sm_active m"
  "sm_root (set_session s e m) = sm_root m"
  "listed_chats (set_chat c x m) = listed_chats m" "sm_active (set_chat c x m) = sm_active m"
  "sm_root (set_chat c x m) = sm_root m" "sm_chats (set_session s e m) = sm_chats m"
  "distinct (map fst (sm_chats (set_chat c x m))) = distinct (map fst (sm_chats m))"
  by (simp_all add: set_session_def set_chat_def chats_view_def listed_chats_def chat_at_def session_at_def fun_eq_iff)

lemma view_set_session:
  "host_view (set_session s e m) =
     (distinct (map fst (sm_chats m)), (listed_chats m)(s \<mapsto> csum_resource ` set (ses_chats (sent_state e))),
      chats_view m, sm_active m, root_activeSessions (sm_root m))"
  by (simp add: host_view_def)

lemma view_set_session_same:
  assumes "session_at m s = Some e" and "csum_resource ` set (ses_chats (sent_state e')) = csum_resource ` set (ses_chats (sent_state e))"
  shows "host_view (set_session s e' m) = host_view m"
  using assms by (auto simp: host_view_def listed_chats_def fun_eq_iff)

lemma view_set_chat_same:
  assumes "chat_at m c = Some e" and "entry_view e' = entry_view e"
  shows "host_view (set_chat c e' m) = host_view m"
  using assms by (auto simp: host_view_def chats_view_def fun_eq_iff)

lemma view_set_chat:
  "host_view (set_chat c e m) =
     (distinct (map fst (sm_chats m)), listed_chats m, (chats_view m)(c \<mapsto> entry_view e), sm_active m,
      root_activeSessions (sm_root m))"
  by (simp add: host_view_def)

lemma host_view_used [view_simps]: "host_view (markSessionUsed s m) = host_view m"
  by (auto simp: markSessionUsed_def intro!: view_set_session_same split: option.split)

section \<open>The reducers keep the resources\<close>

lemma chat_resource_simps [simp]:
  "chat_resource (refreshSummaryStatus s) = chat_resource s" "chat_resource (set_active_turn s t) = chat_resource s"
  "chat_resource (set_active_parts s t ps) = chat_resource s" "chat_resource (in_active_turn s i f) = chat_resource s"
  "chat_resource (on_tool_call s b u) = chat_resource s" "chat_resource (updateResponsePart s i p g) = chat_resource s"
  "chat_resource (upsertInputRequestPart s r) = chat_resource s"
  by (simp_all add: refreshSummaryStatus_def set_active_turn_def set_active_parts_def in_active_turn_def on_tool_call_def
      updateToolCallInParts_def updateResponsePart_def upsertInputRequestPart_def Let_def split: option.split)

lemma chat_resource_cases [simp]:
  "chat_resource (chatTurnStarted s a) = chat_resource s" "chat_resource (chatTruncated s b) = chat_resource s"
  "chat_resource (chatInputAnswerChanged s c) = chat_resource s" "chat_resource (chatInputCompleted s d) = chat_resource s"
  "chat_resource (chatPendingMessageSet s e) = chat_resource s" "chat_resource (chatPendingMessageRemoved s f) = chat_resource s"
  "chat_resource (chatQueuedMessagesReordered s os) = chat_resource s" "chat_resource (chatTurnsLoaded s g) = chat_resource s"
  by (simp_all add: chatTurnStarted_def chatTruncated_def chatInputAnswerChanged_def chatInputCompleted_def
      chatPendingMessageSet_def chatPendingMessageRemoved_def chatQueuedMessagesReordered_def chatTurnsLoaded_def Let_def
      split: option.split pending_message_kind.split)

lemma endTurn_resource: "endTurn s i st d ts e = Inr s' \<Longrightarrow> chat_resource s' = chat_resource s"
  by (auto simp: endTurn_def js_map_def Let_def split: option.splits if_splits sum.splits)

lemma chatReducer_resource: "chatReducer s a = Inr s' \<Longrightarrow> chat_resource s' = chat_resource s"
  by (cases a) (auto dest: endTurn_resource split: chat_tool_call_confirmed_action.splits)

text \<open>The actions that change which chats a session lists.\<close>

definition lists_chats :: "session_action \<Rightarrow> bool" where
  "lists_chats a = (case a of SessionChatAdded _ \<Rightarrow> True | SessionChatRemoved _ \<Rightarrow> True | _ \<Rightarrow> False)"

lemma apply_changes_resource [simp]: "csum_resource (apply_changes ch c) = csum_resource c"
  by (simp add: apply_changes_def)

lemma sessionChatUpdated_resources:
  "map csum_resource (ses_chats (sessionChatUpdated s a)) = map csum_resource (ses_chats s)"
  by (auto simp: sessionChatUpdated_def map_update find_chat_def split: option.split dest!: find_index_SomeD
      intro!: nth_equalityI simp: nth_list_update)

lemma sessionReducer_resources:
  "\<not> lists_chats a \<Longrightarrow> csum_resource ` set (ses_chats (sessionReducer s a)) = csum_resource ` set (ses_chats s)"
  using sessionChatUpdated_resources [of s]
  by (cases a)
    (auto simp: lists_chats_def sessionConfigChanged_def sessionActiveClientSet_def sessionActiveClientRemoved_def
      sessionWorkingDirectorySet_def sessionWorkingDirectoryRemoved_def sessionWorkingDirectoryReplaced_def
      sessionInputNeededSet_def sessionInputNeededRemoved_def sessionCustomizationToggled_def
      sessionCustomizationUpdated_def sessionCustomizationRemoved_def updateMcpServerCustomization_def Let_def
      simp flip: set_map split: option.split customization.split)

section \<open>Synchronising the chats of a session\<close>

definition sync_entry :: "js_string \<Rightarrow> js_string \<Rightarrow> chat_view option \<Rightarrow> chat_view" where
  "sync_entry s c v =
     (case v of None \<Rightarrow> (s, c, None) | Some (s', _, st) \<Rightarrow> (s', c, map_option (\<lambda>(_, a). (c, a)) st))"

definition sync_chats ::
    "js_string \<Rightarrow> js_string set \<Rightarrow> (js_string \<Rightarrow> chat_view option) \<Rightarrow> js_string \<Rightarrow> chat_view option" where
  "sync_chats s R C =
     (\<lambda>c. if c \<in> R then Some (sync_entry s c (C c))
          else case C c of None \<Rightarrow> None | Some v \<Rightarrow> if fst v = s then None else Some v)"

lemma sync_entry_idem [simp]: "sync_entry s c (Some (sync_entry s c v)) = sync_entry s c v"
  by (auto simp: sync_entry_def option.map_comp comp_def split_def split: option.splits)

lemma is_active_sync [simp]: "is_active (Some (sync_entry s c v)) = is_active v"
  by (auto simp: sync_entry_def is_active_def split: option.splits prod.splits)

lemma map_of_filter_distinct:
  "distinct (map fst xs) \<Longrightarrow>
   map_of (filter (\<lambda>(k, v). P k v) xs) k = (case map_of xs k of None \<Rightarrow> None | Some v \<Rightarrow> if P k v then Some v else None)"
  by (induction xs) (auto simp: map_of_eq_None_iff split: option.split)

lemma distinct_filter_keys: "distinct (map fst xs) \<Longrightarrow> distinct (map fst (filter P xs))"
  by (induction xs) auto

lemma view_new_chat:
  "host_view (new_chat uri s summary st pd d r m) =
     (distinct (map fst (sm_chats m)), listed_chats m,
      (chats_view m)(uri \<mapsto> (s, csum_resource summary, map_option (\<lambda>x. (chat_resource x, chat_activeTurn x \<noteq> None)) st)),
      sm_active m, root_activeSessions (sm_root m))"
proof -
  let ?m = "m\<lparr>sm_nextChat := Suc (sm_nextChat m)\<rparr>"
  have "host_view ?m = host_view m" by (simp add: view_simps)
  then show ?thesis by (simp add: new_chat_def view_set_chat entry_view_def host_view_def)
qed

lemma view_synchronize_one:
  "host_view (synchronize_one s x m) =
     (distinct (map fst (sm_chats m)), listed_chats m,
      (chats_view m)(csum_resource x \<mapsto> sync_entry s (csum_resource x) (chats_view m (csum_resource x))),
      sm_active m, root_activeSessions (sm_root m))"
  by (auto simp: synchronize_one_def view_new_chat view_set_chat chats_view_def sync_entry_def entry_view_def
      merge_summary_def option.map_comp comp_def split: option.split)

lemma view_synchronize_fold:
  "host_view (fold (synchronize_one s) xs m) =
     (distinct (map fst (sm_chats m)), listed_chats m,
      (\<lambda>c. if c \<in> csum_resource ` set xs then Some (sync_entry s c (chats_view m c)) else chats_view m c),
      sm_active m, root_activeSessions (sm_root m))"
proof (induction xs arbitrary: m)
  case (Cons x xs)
  let ?m = "synchronize_one s x m"
  have "distinct (map fst (sm_chats ?m)) = distinct (map fst (sm_chats m))" "listed_chats ?m = listed_chats m"
    "chats_view ?m = (chats_view m)(csum_resource x \<mapsto> sync_entry s (csum_resource x) (chats_view m (csum_resource x)))"
    "sm_active ?m = sm_active m" "root_activeSessions (sm_root ?m) = root_activeSessions (sm_root m)"
    using view_synchronize_one [of s x m] by (simp_all add: host_view_def)
  with Cons [of ?m] show ?case by (auto simp: fun_eq_iff)
qed (simp add: host_view_def)

lemma view_synchronize:
  assumes "distinct (map fst (sm_chats m))"
  shows "host_view (synchronizeChatEntries s xs m) =
     (True, listed_chats m, sync_chats s (csum_resource ` set xs) (chats_view m), sm_active m,
      root_activeSessions (sm_root m))"
proof -
  let ?R = "csum_resource ` set xs"
  let ?m = "fold (synchronize_one s) xs m"
  have fold: "distinct (map fst (sm_chats ?m))" "listed_chats ?m = listed_chats m"
    "chats_view ?m = (\<lambda>c. if c \<in> ?R then Some (sync_entry s c (chats_view m c)) else chats_view m c)"
    "sm_active ?m = sm_active m" "root_activeSessions (sm_root ?m) = root_activeSessions (sm_root m)"
    using view_synchronize_fold [of s xs m] assms by (simp_all add: host_view_def)
  let ?keep = "\<lambda>c e. \<not> (cent_session e = s \<and> c \<notin> ?R)"
  let ?m' = "?m\<lparr>sm_chats := filter (\<lambda>(c, e). ?keep c e) (sm_chats ?m)\<rparr>"
  have "chat_at ?m' c = (case chat_at ?m c of None \<Rightarrow> None | Some e \<Rightarrow> if ?keep c e then Some e else None)" for c
    using map_of_filter_distinct [OF fold(1), of ?keep c] by (simp add: chat_at_def)
  then have "chats_view ?m' c = (case chats_view ?m c of None \<Rightarrow> None | Some v \<Rightarrow> if fst v = s \<and> c \<notin> ?R then None else Some v)" for c
    by (auto simp: chats_view_def entry_view_def split: option.split)
  then have "chats_view ?m' = sync_chats s ?R (chats_view m)"
    by (auto simp: fold(3) sync_chats_def fun_eq_iff split: option.split)
  then show ?thesis
    using fold distinct_filter_keys [OF fold(1)]
    by (simp add: synchronizeChatEntries_def Let_def host_view_def)
qed

lemma view_apply_session:
  assumes "distinct (map fst (sm_chats m))" and "session_at m s = Some e"
  shows "host_view (apply_session s a m) =
     (True, (listed_chats m)(s \<mapsto> csum_resource ` set (ses_chats (sessionReducer (sent_state e) a))),
      sync_chats s (csum_resource ` set (ses_chats (sessionReducer (sent_state e) a))) (chats_view m), sm_active m,
      root_activeSessions (sm_root m))"
proof -
  let ?m = "set_session s (e\<lparr>sent_state := sessionReducer (sent_state e) a\<rparr>) m"
  have quiet: "host_view (if d then markDirty s m' else m') = host_view m'"
    "host_view (if d then emit ev m' else m') = host_view m'"
    "host_view (case a of SessionConfigChanged _ \<Rightarrow> emit ev m' | _ \<Rightarrow> m') = host_view m'" for d m' ev
    by (simp_all add: view_simps split: session_action.split)
  show ?thesis
    using assms by (simp add: apply_session_def Let_def quiet view_synchronize)
qed

section \<open>The table of active turns\<close>

lemma turns_update: "turns_of (AList.update s cs A) = (turns_of A)(s := set cs)"
  by (simp add: turns_of_def update_conv' fun_eq_iff)

lemma turns_delete: "turns_of (AList.delete s A) = (turns_of A)(s := {})"
  by (simp add: turns_of_def delete_conv' fun_eq_iff)

lemma table_update: "table_ok A \<Longrightarrow> cs \<noteq> [] \<Longrightarrow> distinct cs \<Longrightarrow> table_ok (AList.update s cs A)"
  by (induction A) (auto simp: table_ok_def AList.update_keys split: if_splits)

lemma table_delete: "table_ok A \<Longrightarrow> table_ok (AList.delete s A)"
proof -
  have "set (AList.delete s A) \<subseteq> set A" by (induction A) auto
  then show "table_ok A \<Longrightarrow> ?thesis" by (auto simp: table_ok_def distinct_delete)
qed

lemma table_row: "table_ok A \<Longrightarrow> map_of A s = Some cs \<Longrightarrow> cs \<noteq> [] \<and> distinct cs"
  by (auto simp: table_ok_def dest!: map_of_SomeD)

text \<open>A table that replaces the turns of one session by \<open>T\<close>.\<close>

definition retabled :: "(js_string \<times> js_string list) list \<Rightarrow> js_string \<Rightarrow> js_string set \<Rightarrow> (js_string \<times> js_string list) list \<Rightarrow> bool" where
  "retabled A s T A' \<longleftrightarrow> table_ok A' \<and> turns_of A' = (turns_of A)(s := T)"

lemma view_count:
  "host_view (dispatch_active_count m) =
     (distinct (map fst (sm_chats m)), listed_chats m, chats_view m, sm_active m, Some (of_nat (length (sm_active m))))"
proof -
  let ?n = "Some (of_nat (length (sm_active m)))"
  have "host_view (m\<lparr>sm_root := (sm_root m)\<lparr>root_activeSessions := ?n\<rparr>\<rparr>) =
     (distinct (map fst (sm_chats m)), listed_chats m, chats_view m, sm_active m, ?n)"
    by (simp add: host_view_def listed_chats_def session_at_def chats_view_def chat_at_def fun_eq_iff)
  then show ?thesis
    by (simp add: dispatch_active_count_def dispatch_root_def rewrite_root_action_def root_action_noop_def Let_def view_simps)
qed

text \<open>The three operations on the table; each keeps the rest of the view.\<close>

definition turns_changed where
  "turns_changed m s T m' \<longleftrightarrow>
     (\<exists>A'. retabled (sm_active m) s T A'
       \<and> host_view m' = (distinct (map fst (sm_chats m)), listed_chats m, chats_view m, A', Some (of_nat (length A'))))"

lemma turns_changedI:
  "retabled (sm_active m) s T A \<Longrightarrow>
   host_view m' = (distinct (map fst (sm_chats m)), listed_chats m, chats_view m, A, Some (of_nat (length A))) \<Longrightarrow>
   turns_changed m s T m'"
  by (auto simp: turns_changed_def)

lemma view_set_active:
  "host_view (m\<lparr>sm_active := A\<rparr>) =
     (distinct (map fst (sm_chats m)), listed_chats m, chats_view m, A, root_activeSessions (sm_root m))"
  by (simp add: host_view_def listed_chats_def session_at_def chats_view_def chat_at_def fun_eq_iff)

lemma view_count_set:
  "host_view (dispatch_active_count (emit ev (m\<lparr>sm_active := A\<rparr>))) =
     (distinct (map fst (sm_chats m)), listed_chats m, chats_view m, A, Some (of_nat (length A)))"
proof -
  let ?m = "emit ev (m\<lparr>sm_active := A\<rparr>)"
  have "host_view ?m = host_view (m\<lparr>sm_active := A\<rparr>)" by (simp add: view_simps)
  then show ?thesis unfolding view_count view_set_active by (simp add: host_view_def)
qed

lemma length_update_row: "map_of A s \<noteq> None \<Longrightarrow> length (AList.update s cs A) = length A"
  by (induction A) (auto split: if_splits)

lemma dropped_turn:
  assumes "table_ok (sm_active m)" and "root_activeSessions (sm_root m) = Some (of_nat (length (sm_active m)))"
  shows "turns_changed m s (turns_of (sm_active m) s - {c}) (removeChatActiveTurn s c m)"
proof (cases "map_of (sm_active m) s")
  case None
  then show ?thesis
    using assms by (auto simp: removeChatActiveTurn_def turns_changed_def retabled_def host_view_def turns_of_def fun_eq_iff)
next
  case (Some cs)
  note row = table_row [OF assms(1) Some]
  have turns: "turns_of (sm_active m) s = set cs" by (simp add: turns_of_def Some)
  show ?thesis
  proof (cases "c \<in> set cs")
    case False
    then show ?thesis
      using assms Some turns by (auto simp: removeChatActiveTurn_def turns_changed_def retabled_def host_view_def fun_eq_iff)
  next
    case True
    let ?rest = "removeAll c cs"
    show ?thesis
    proof (cases "?rest = []")
      case empty: True
      then have none: "set cs - {c} = {}" using set_removeAll [of c cs] by simp
      have "retabled (sm_active m) s (set cs - {c}) (AList.delete s (sm_active m))"
        unfolding none by (simp add: retabled_def turns_delete table_delete assms(1))
      moreover have "removeChatActiveTurn s c m =
          dispatch_active_count (emit (EmitActiveTurn s False) (m\<lparr>sm_active := AList.delete s (sm_active m)\<rparr>))"
        using True empty by (simp add: removeChatActiveTurn_def Some)
      ultimately show ?thesis unfolding turns_changed_def turns by (auto simp: view_count_set)
    next
      case rest: False
      then have "retabled (sm_active m) s (set cs - {c}) (AList.update s ?rest (sm_active m))"
        using row by (simp add: retabled_def turns_update table_update assms(1) distinct_removeAll)
      then show ?thesis
        using True rest assms(2) length_update_row [of "sm_active m" s ?rest]
        by (auto simp: removeChatActiveTurn_def Some turns_changed_def turns view_set_active Let_def)
    qed
  qed
qed

lemma added_turn:
  assumes "table_ok (sm_active m)" and "root_activeSessions (sm_root m) = Some (of_nat (length (sm_active m)))"
  shows "turns_changed m s (insert c (turns_of (sm_active m) s)) (addChatActiveTurn s c m)"
proof -
  let ?cs = "or_default (map_of (sm_active m) s) []"
  let ?A = "AList.update s (set_add c ?cs) (sm_active m)"
  have row: "distinct ?cs" 
  proof (cases "map_of (sm_active m) s")
    case (Some cs)
    then show ?thesis using table_row [OF assms(1) Some] by simp
  qed simp
  have turns: "turns_of (sm_active m) s = set ?cs" by (simp add: turns_of_def)
  have add: "set (set_add c ?cs) = insert c (set ?cs)" "set_add c ?cs \<noteq> []" "distinct (set_add c ?cs)"
    using row by (auto simp: set_add_def)
  have tabled: "retabled (sm_active m) s (insert c (set ?cs)) ?A"
    using add by (simp add: retabled_def turns_update table_update assms(1))
  show ?thesis
  proof (cases "?cs = []")
    case True
    then have "addChatActiveTurn s c m = dispatch_active_count (emit (EmitActiveTurn s True) (m\<lparr>sm_active := ?A\<rparr>))"
      by (simp add: addChatActiveTurn_def Let_def)
    then show ?thesis unfolding turns by (simp only: turns_changedI [OF tabled view_count_set])
  next
    case False
    then have "map_of (sm_active m) s \<noteq> None" by (cases "map_of (sm_active m) s") auto
    then have "length ?A = length (sm_active m)" by (rule length_update_row)
    moreover have "addChatActiveTurn s c m = m\<lparr>sm_active := ?A\<rparr>"
      using False by (simp add: addChatActiveTurn_def Let_def)
    moreover have "host_view (m\<lparr>sm_active := ?A\<rparr>) =
        (distinct (map fst (sm_chats m)), listed_chats m, chats_view m, ?A, Some (of_nat (length ?A)))"
      unfolding view_set_active assms(2) using calculation(1) by simp
    ultimately show ?thesis unfolding turns by (simp only: turns_changedI [OF tabled])
  qed
qed

lemma dropped_session:
  assumes "table_ok (sm_active m)" and "root_activeSessions (sm_root m) = Some (of_nat (length (sm_active m)))"
  shows "turns_changed m s {} (drop_active_session s m)"
proof (cases "map_of (sm_active m) s")
  case None
  then show ?thesis
    using assms by (auto simp: drop_active_session_def turns_changed_def retabled_def host_view_def turns_of_def fun_eq_iff)
next
  case (Some cs)
  have "retabled (sm_active m) s {} (AList.delete s (sm_active m))"
    by (simp add: retabled_def turns_delete table_delete assms(1))
  then show ?thesis by (auto simp: drop_active_session_def Some turns_changed_def view_count_set)
qed

section \<open>What preserves the view invariant\<close>

lemma view_okD:
  assumes "view_ok pl (K, V, C, A, n)"
  shows "K" "table_ok A" "n = Some (of_nat (length A))"
    and "C c = Some v \<Longrightarrow> entry_fits pl c v \<and> (\<exists>R. V (fst v) = Some R \<and> c \<in> R)"
    and "V s = Some R \<Longrightarrow> c \<in> R \<Longrightarrow> parseDefaultChatUri pl c = Some s"
    and "turns_of A s = {c. is_active (C c) \<and> parseDefaultChatUri pl c = Some s}"
  using assms by (cases v; auto simp: view_ok_def owned_ok_def exact_turns_def)+

lemma view_okI:
  assumes "table_ok A" and "n = Some (of_nat (length A))"
    and "\<And>c v. C c = Some v \<Longrightarrow> entry_fits pl c v \<and> (\<exists>R. V (fst v) = Some R \<and> c \<in> R)"
    and "\<And>s R c. V s = Some R \<Longrightarrow> c \<in> R \<Longrightarrow> parseDefaultChatUri pl c = Some s"
    and "\<And>s. turns_of A s = {c. is_active (C c) \<and> parseDefaultChatUri pl c = Some s}"
  shows "view_ok pl (True, V, C, A, n)"
  using assms by (auto simp: view_ok_def owned_ok_def exact_turns_def)

lemma entry_fits_owner: "entry_fits pl c v \<Longrightarrow> parseDefaultChatUri pl c = Some (fst v)"
  by (auto simp: entry_fits_def split: prod.splits)

lemma entry_fits_sync: "entry_fits pl c v \<Longrightarrow> entry_fits pl c (sync_entry s c (Some v))"
  by (auto simp: entry_fits_def sync_entry_def split: prod.splits option.splits)

lemma fst_sync [simp]: "fst (sync_entry s c (Some v)) = fst v" "fst (sync_entry s c None) = s"
  by (simp_all add: sync_entry_def split: prod.split)

lemma view_ok_sync:
  assumes ok: "view_ok pl (K, V, C, A, n)" and R: "V s = Some R"
  shows "view_ok pl (True, V, sync_chats s R C, A, n)"
proof -
  have outside: "sync_chats s R C c = C c" if "c \<notin> R" for c
    using view_okD(4) [OF ok, of c] R that by (auto simp: sync_chats_def split: option.split)
  have inside: "sync_chats s R C c = Some (sync_entry s c (C c))" if "c \<in> R" for c
    using that by (simp add: sync_chats_def)
  have active: "is_active (sync_chats s R C c) = is_active (C c)" for c
    by (cases "c \<in> R") (simp_all add: outside inside)
  show ?thesis
  proof (rule view_okI)
    fix c v
    assume c: "sync_chats s R C c = Some v"
    show "entry_fits pl c v \<and> (\<exists>R. V (fst v) = Some R \<and> c \<in> R)"
    proof (cases "c \<in> R")
      case False
      with c show ?thesis using view_okD(4) [OF ok] by (simp add: outside)
    next
      case True
      then have v: "v = sync_entry s c (C c)" using c by (simp add: inside)
      show ?thesis
      proof (cases "C c")
        case None
        then show ?thesis
          using True R view_okD(5) [OF ok R True] by (simp add: v) (simp add: entry_fits_def sync_entry_def)
      next
        case (Some w)
        then show ?thesis using view_okD(4) [OF ok Some] by (simp add: v entry_fits_sync)
      qed
    qed
  qed (use view_okD [OF ok] in \<open>simp_all add: active\<close>)
qed

lemma view_ok_free:
  assumes "view_ok pl (K, V, C, A, n)" and "parseDefaultChatUri pl c = Some s" and "\<forall>R. V s = Some R \<longrightarrow> c \<notin> R"
  shows "C c = None"
proof (rule ccontr)
  assume "C c \<noteq> None"
  then obtain v where "C c = Some v" by auto
  with view_okD(4) [OF assms(1)] have "entry_fits pl c v" "\<exists>R. V (fst v) = Some R \<and> c \<in> R" by auto
  then show False using entry_fits_owner [of pl c v] assms(2,3) by auto
qed

text \<open>A chat enters the listing of its session, with an entry that has no running turn.\<close>

lemma view_ok_enter:
  assumes ok: "view_ok pl (K, V, C, A, n)" and owner: "parseDefaultChatUri pl c = Some s"
    and new: "\<forall>R. V s = Some R \<longrightarrow> c \<notin> R" and idle: "st = None \<or> st = Some (c, False)"
  shows "view_ok pl (True, V(s \<mapsto> insert c (or_default (V s) {})), C(c \<mapsto> (s, c, st)), A, n)"
proof -
  have free: "C c = None" by (rule view_ok_free [OF ok owner new])
  have active: "is_active ((C(c \<mapsto> (s, c, st))) x) = is_active (C x)" for x
    using free idle by (auto simp: is_active_def)
  show ?thesis
  proof (rule view_okI)
    fix c' v
    assume "(C(c \<mapsto> (s, c, st))) c' = Some v"
    then show "entry_fits pl c' v \<and> (\<exists>R. (V(s \<mapsto> insert c (or_default (V s) {}))) (fst v) = Some R \<and> c' \<in> R)"
      using view_okD(4) [OF ok, of c' v] owner idle by (auto simp: entry_fits_def split: if_splits)
  next
    fix s' R c'
    assume "(V(s \<mapsto> insert c (or_default (V s) {}))) s' = Some R" and "c' \<in> R"
    then show "parseDefaultChatUri pl c' = Some s'"
      using owner view_okD(5) [OF ok, of s' _ c'] by (cases "V s") (auto split: if_splits)
  qed (use view_okD [OF ok] in \<open>simp_all only: active\<close>)
qed

text \<open>The running turn of a chat starts or ends.\<close>

lemma view_ok_turn:
  assumes ok: "view_ok pl (K, V, C, A, n)" and c: "C c = Some (s, c, Some (c, a))"
    and A: "retabled A s (if b then insert c (turns_of A s) else turns_of A s - {c}) A'"
  shows "view_ok pl (True, V, C(c \<mapsto> (s, c, Some (c, b))), A', Some (of_nat (length A')))"
proof -
  have fits: "entry_fits pl c (s, c, Some (c, a))" "\<exists>R. V s = Some R \<and> c \<in> R" using view_okD(4) [OF ok c] by auto
  then have owner: "parseDefaultChatUri pl c = Some s" by (simp add: entry_fits_def)
  show ?thesis
  proof (rule view_okI)
    show "turns_of A' s' = {x. is_active ((C(c \<mapsto> (s, c, Some (c, b)))) x) \<and> parseDefaultChatUri pl x = Some s'}" for s'
      using A owner view_okD(6) [OF ok, of s'] by (auto simp: retabled_def is_active_def)
    show "entry_fits pl c' v \<and> (\<exists>R. V (fst v) = Some R \<and> c' \<in> R)" if "(C(c \<mapsto> (s, c, Some (c, b)))) c' = Some v" for c' v
      using that view_okD(4) [OF ok, of c' v] fits by (auto simp: entry_fits_def split: if_splits)
  qed (use A view_okD(5) [OF ok] in \<open>auto simp: retabled_def\<close>)
qed

text \<open>A chat leaves; the listing may have held it twice.\<close>

lemma view_ok_leave:
  assumes ok: "view_ok pl (K, V, C, A, n)" and R: "V s = Some R" "c \<in> R" "R - {c} \<subseteq> R'" "R' \<subseteq> R"
    and A: "retabled A s (turns_of A s - {c}) A'"
  shows "view_ok pl (True, V(s \<mapsto> R'), C(c := None), A', Some (of_nat (length A')))"
proof -
  have owner: "parseDefaultChatUri pl c = Some s" by (rule view_okD(5) [OF ok R(1,2)])
  show ?thesis
  proof (rule view_okI)
    show "turns_of A' s' = {x. is_active ((C(c := None)) x) \<and> parseDefaultChatUri pl x = Some s'}" for s'
      using A owner view_okD(6) [OF ok, of s'] view_okD(6) [OF ok, of s] by (auto simp: retabled_def is_active_def)
    show "entry_fits pl c' v \<and> (\<exists>R. (V(s \<mapsto> R')) (fst v) = Some R \<and> c' \<in> R)" if "(C(c := None)) c' = Some v" for c' v
    proof -
      from that have "c' \<noteq> c" "C c' = Some v" by (auto split: if_splits)
      then show ?thesis using view_okD(4) [OF ok, of c' v] R by auto
    qed
    show "parseDefaultChatUri pl c' = Some s'" if "(V(s \<mapsto> R')) s' = Some Q" "c' \<in> Q" for s' Q c'
      using that view_okD(5) [OF ok, of s' _ c'] R by (auto split: if_splits)
  qed (use A in \<open>simp_all add: retabled_def\<close>)
qed

text \<open>A session leaves with its chats.\<close>

lemma view_ok_gone:
  assumes ok: "view_ok pl (K, V, C, A, n)" and R: "V s = Some R" and D: "\<And>c. c \<in> D \<Longrightarrow> parseDefaultChatUri pl c = Some s"
    and A: "retabled A s {} A'"
  shows "view_ok pl (True, V(s := None), (\<lambda>c. if c \<in> R \<union> D then None else C c), A', Some (of_nat (length A')))"
proof -
  have gone: "c \<in> R" if "C c = Some v" "parseDefaultChatUri pl c = Some s" for c v
    using view_okD(4) [OF ok that(1)] entry_fits_owner [of pl c v] that(2) R by auto
  show ?thesis
  proof (rule view_okI)
    show "turns_of A' s' = {x. is_active (if x \<in> R \<union> D then None else C x) \<and> parseDefaultChatUri pl x = Some s'}" for s'
    proof (cases "s' = s")
      case True
      then show ?thesis using A gone by (auto simp: retabled_def is_active_def split: option.splits)
    next
      case False
      then have "x \<notin> R \<union> D" if "parseDefaultChatUri pl x = Some s'" for x
        using that D view_okD(5) [OF ok R, of x] by auto
      then show ?thesis using A False view_okD(6) [OF ok, of s'] by (auto simp: retabled_def)
    qed
    show "entry_fits pl c v \<and> (\<exists>Q. (V(s := None)) (fst v) = Some Q \<and> c \<in> Q)"
      if "(if c \<in> R \<union> D then None else C c) = Some v" for c v
    proof -
      from that have c: "c \<notin> R" "C c = Some v" by (auto split: if_splits)
      then have "fst v \<noteq> s" using view_okD(4) [OF ok c(2)] R by auto
      then show ?thesis using view_okD(4) [OF ok c(2)] by simp
    qed
    show "parseDefaultChatUri pl c = Some s'" if "(V(s := None)) s' = Some Q" "c \<in> Q" for s' Q c
      using that view_okD(5) [OF ok, of s' Q c] by (auto split: if_splits)
  qed (use A in \<open>simp_all add: retabled_def\<close>)
qed

end
