(* ===== verification/Host_Activity.thy ===== *)
theory Host_Activity
  imports Host_View
begin

text \<open>
  Which sessions are active. The state manager keeps the chats with a running turn per session
  (\<open>_sessionsWithActiveTurn\<close>) beside the chats themselves; its size gates the automatic shutdown
  of the host. Here that table is shown to be exact along every run, together with the ownership
  of chats by sessions it depends on.
\<close>

section \<open>The operations keep the table exact\<close>

lemma activity_frame: "host_view m' = host_view m \<Longrightarrow> activity_ok pl m \<Longrightarrow> activity_ok pl m'"
  by (simp add: activity_ok_def)

lemma activity_viewI: "host_view m' = v \<Longrightarrow> view_ok pl v \<Longrightarrow> activity_ok pl m'"
  by (simp add: activity_ok_def)

lemma activityD:
  assumes "activity_ok pl m"
  shows "distinct (map fst (sm_chats m))" "table_ok (sm_active m)"
    and "root_activeSessions (sm_root m) = Some (of_nat (length (sm_active m)))"
    and "view_ok pl (True, listed_chats m, chats_view m, sm_active m, root_activeSessions (sm_root m))"
  using assms by (auto simp: activity_ok_def host_view_def view_ok_def)

lemma listed_session: "session_at m s = Some e \<Longrightarrow> listed_chats m s = Some (csum_resource ` set (ses_chats (sent_state e)))"
  by (simp add: listed_chats_def)

lemma apply_session_quiet:
  assumes "activity_ok pl m" and "\<not> lists_chats a"
  shows "activity_ok pl (apply_session s a m) \<and> listed_chats (apply_session s a m) = listed_chats m"
proof (cases "session_at m s")
  case None
  then show ?thesis using assms by (simp add: apply_session_def)
next
  case (Some e)
  let ?R = "csum_resource ` set (ses_chats (sent_state e))"
  have R: "listed_chats m s = Some ?R" by (rule listed_session [OF Some])
  then have same: "(listed_chats m)(s \<mapsto> ?R) = listed_chats m" by auto
  have "host_view (apply_session s a m) =
      (True, listed_chats m, sync_chats s ?R (chats_view m), sm_active m, root_activeSessions (sm_root m))"
    using view_apply_session [OF activityD(1) [OF assms(1)] Some, of a] sessionReducer_resources [OF assms(2)]
    by (simp add: same)
  moreover have "view_ok pl (True, listed_chats m, sync_chats s ?R (chats_view m), sm_active m, root_activeSessions (sm_root m))"
    by (rule view_ok_sync [OF activityD(4) [OF assms(1)] R])
  ultimately show ?thesis by (simp add: activity_ok_def host_view_def)
qed

lemma dispatch_session_quiet:
  assumes "activity_ok pl m" and "\<not> lists_chats a"
  shows "activity_ok pl (dispatch_session s a origin m)" "listed_chats (dispatch_session s a origin m) = listed_chats m"
proof -
  have view: "host_view (dispatch_session s a origin m) = host_view (apply_session s a m)"
    by (simp add: dispatch_session_def view_simps)
  show "activity_ok pl (dispatch_session s a origin m)"
    using apply_session_quiet [OF assms] by (simp add: activity_ok_def view)
  show "listed_chats (dispatch_session s a origin m) = listed_chats m"
    using apply_session_quiet [OF assms] view_parts(1) [OF view] by simp
qed

lemma updated_lists [simp]: "\<not> lists_chats (SessionChatUpdated u)"
  by (simp add: lists_chats_def)

lemma forward_quiet:
  assumes "activity_ok pl m"
  shows "activity_ok pl (forward_chat_status s c x st m)" "listed_chats (forward_chat_status s c x st m) = listed_chats m"
  using assms dispatch_session_quiet [OF assms updated_lists] by (simp_all add: forward_chat_status_def Let_def)

lemma view_store:
  assumes "listed_chats m s = Some (csum_resource ` set chats)"
  shows "host_view (fst (store_aggregate s chats st m)) = host_view m"
proof -
  have mod: "host_view (fst (store_modified s b t e m')) = host_view m'"
    if "listed_chats m' s = Some (csum_resource ` set (ses_chats (sent_state e)))" for b t e m'
  proof -
    have "host_view (set_session s (e\<lparr>sent_modifiedAt := x\<rparr>) m') = host_view m'" for x
      using that by (simp add: view_set_session) (auto simp: host_view_def fun_eq_iff)
    then show ?thesis by (simp add: store_modified_def Let_def view_simps split: option.split sum.split)
  qed
  show ?thesis
  proof (cases "session_at m s")
    case (Some e)
    let ?e = "e\<lparr>sent_state := aggregated_state chats st\<rparr>"
    let ?m = "set_session s ?e m"
    have chats: "ses_chats (aggregated_state chats st) = chats" by (simp add: aggregated_state_def Let_def)
    have same: "host_view ?m = host_view m"
      using assms by (simp add: view_set_session chats) (auto simp: host_view_def fun_eq_iff)
    have emitted: "host_view (if b then emit ev ?m else ?m) = host_view m" for b ev
      by (simp add: same view_simps)
    then have "listed_chats (if b then emit ev ?m else ?m) s = Some (csum_resource ` set (ses_chats (sent_state ?e)))" for b ev
      using assms view_parts(1) [OF emitted] by (simp add: chats)
    then show ?thesis
      unfolding store_aggregate_def Some option.case Let_def by (simp only: mod emitted)
  qed (simp add: store_aggregate_def)
qed

lemma roll_up_quiet:
  assumes "activity_ok pl m" and "session_at m s = Some e" and "chat_resource n = c"
  shows "activity_ok pl (fst (roll_up_chat s c n (sent_state e) m))"
proof -
  let ?x = "chatSummaryFromState n"
  let ?chats = "map (\<lambda>d. if csum_resource d = c then ?x else d) (ses_chats (sent_state e))"
  let ?m = "forward_chat_status s c ?x (sent_state e) m"
  have "csum_resource ?x = c" by (simp add: chatSummaryFromState_def assms(3))
  then have "map csum_resource ?chats = map csum_resource (ses_chats (sent_state e))" by simp
  then have "csum_resource ` set ?chats = csum_resource ` set (ses_chats (sent_state e))" by (metis list.set_map)
  then have "listed_chats ?m s = Some (csum_resource ` set ?chats)"
    using forward_quiet(2) [OF assms(1)] listed_session [OF assms(2)] by simp
  then have "host_view (fst (roll_up_chat s c n (sent_state e) m)) = host_view ?m"
    by (simp add: roll_up_chat_def Let_def view_store)
  then show ?thesis by (rule activity_frame) (rule forward_quiet(1) [OF assms(1)])
qed

lemma track_turn_exact:
  assumes ok: "activity_ok pl m0" and c: "chats_view m0 c = Some (s, c, Some (c, a))" "a = (chat_activeTurn p \<noteq> None)"
    and m: "host_view m = (True, listed_chats m0, (chats_view m0)(c \<mapsto> (s, c, Some (c, chat_activeTurn n \<noteq> None))), sm_active m0,
        root_activeSessions (sm_root m0))"
  shows "activity_ok pl (track_active_turn s c p n m)"
proof -
  let ?b = "chat_activeTurn n \<noteq> None"
  have parts: "sm_active m = sm_active m0" "root_activeSessions (sm_root m) = root_activeSessions (sm_root m0)"
    "listed_chats m = listed_chats m0" "chats_view m = (chats_view m0)(c \<mapsto> (s, c, Some (c, ?b)))"
    "distinct (map fst (sm_chats m))"
    using m by (simp_all add: host_view_def)
  note fresh = activityD(2,3) [OF ok, folded parts(1,2)]
  have change: "activity_ok pl m'"
    if "turns_changed m s (if ?b then insert c (turns_of (sm_active m) s) else turns_of (sm_active m) s - {c}) m'" for m'
  proof -
    from that obtain A' where "retabled (sm_active m0) s (if ?b then insert c (turns_of (sm_active m0) s) else turns_of (sm_active m0) s - {c}) A'"
      and "host_view m' = (True, listed_chats m0, (chats_view m0)(c \<mapsto> (s, c, Some (c, ?b))), A', Some (of_nat (length A')))"
      unfolding turns_changed_def parts by (auto simp: activityD(1) [OF ok] parts(5))
    then show ?thesis using view_ok_turn [OF activityD(4) [OF ok] c(1)] by (blast intro: activity_viewI)
  qed
  show ?thesis
  proof (cases "a = ?b")
    case True
    then have "(chats_view m0)(c \<mapsto> (s, c, Some (c, ?b))) = chats_view m0" using c(1) by auto
    then have "host_view m = host_view m0" using m activityD(1) [OF ok] by (simp add: host_view_def)
    then show ?thesis using True c(2) activity_frame [OF _ ok] by (simp add: track_active_turn_def)
  next
    case False
    then show ?thesis
      using change added_turn [OF fresh, of s c] dropped_turn [OF fresh, of s c] c(2)
      by (cases ?b) (simp_all add: track_active_turn_def)
  qed
qed

lemma chat_changed_exact:
  assumes ok: "activity_ok pl m" and e: "chat_at m c = Some e" "cent_state e = Some chat"
    and n: "chatReducer chat a = Inr new" and s: "parseDefaultChatUri pl c = Some s"
  shows "activity_ok pl (fst (onChatStateChanged s c chat new (set_chat c (e\<lparr>cent_state := Some new\<rparr>) m)))"
proof -
  have view: "chats_view m c = Some (cent_session e, csum_resource (cent_summary e), Some (chat_resource chat, chat_activeTurn chat \<noteq> None))"
    using e by (simp add: chats_view_def entry_view_def)
  have "entry_fits pl c (cent_session e, csum_resource (cent_summary e), Some (chat_resource chat, chat_activeTurn chat \<noteq> None))"
    using view_okD(4) [OF activityD(4) [OF ok] view] by simp
  then have fits: "cent_session e = s" "csum_resource (cent_summary e) = c" "chat_resource chat = c"
    using s by (simp_all add: entry_fits_def)
  have new: "chat_resource new = c" using chatReducer_resource [OF n] fits by simp
  let ?m1 = "set_chat c (e\<lparr>cent_state := Some new\<rparr>) m"
  have m1: "host_view ?m1 = (True, listed_chats m, (chats_view m)(c \<mapsto> (s, c, Some (c, chat_activeTurn new \<noteq> None))), sm_active m,
      root_activeSessions (sm_root m))"
    by (simp add: view_set_chat entry_view_def fits new activityD(1) [OF ok])
  have used: "host_view (if u then markSessionUsed s ?m1 else ?m1) = host_view ?m1" for u
    by (simp add: host_view_used)
  have tracked: "activity_ok pl (track_active_turn s c chat new (if u then markSessionUsed s ?m1 else ?m1))" for u
    by (rule track_turn_exact [OF ok view [unfolded fits] refl]) (simp only: used m1)
  have "activity_ok pl (fst (case session_at m2 s of None \<Rightarrow> (m2, None) | Some x \<Rightarrow> roll_up_chat s c new (sent_state x) m2))"
    if "activity_ok pl m2" for m2
    using that roll_up_quiet [OF that _ new] by (simp split: option.split)
  then show ?thesis unfolding onChatStateChanged_def Let_def using tracked by blast
qed

lemma dispatch_chat_exact:
  assumes "activity_ok pl m"
  shows "activity_ok pl (fst (dispatch_chat pl c a origin m))"
proof -
  have envelope: "activity_ok pl (fst (and_then r (\<lambda>m'. (emit_envelope c (ChatAct a) origin None m', None))))"
    if "activity_ok pl (fst r)" for r
    using that by (cases r; cases "snd r") (auto simp: view_simps intro: activity_frame [rotated])
  have owner: "parseDefaultChatUri pl c = Some s" if "parseRequiredSessionUriFromChatUri pl c = Inr s" for s
    using that by (simp add: parseRequiredSessionUriFromChatUri_def split: option.splits)
  have quiet: "activity_ok pl (emit_envelope c (ChatAct a) origin None m)"
    by (rule activity_frame [OF _ assms]) (simp add: view_simps)
  show ?thesis
    unfolding dispatch_chat_def using assms quiet
    by (auto split: sum.split option.split intro!: envelope intro: chat_changed_exact owner)
qed

section \<open>Chats enter and leave\<close>

lemma added_resources:
  "csum_resource ` set (ses_chats (sessionChatAdded st x)) = insert (csum_resource x) (csum_resource ` set (ses_chats st))"
proof (cases "find_chat st (csum_resource x)")
  case (Some i)
  then have i: "i < length (ses_chats st)" "csum_resource (ses_chats st ! i) = csum_resource x"
    by (auto simp: find_chat_def dest: find_index_SomeD)
  then have "map csum_resource ((ses_chats st)[i := x]) = map csum_resource (ses_chats st)"
    by (metis list_update_id map_update nth_map length_map)
  then have "csum_resource ` set ((ses_chats st)[i := x]) = csum_resource ` set (ses_chats st)" by (metis list.set_map)
  moreover have "csum_resource x \<in> csum_resource ` set (ses_chats st)" using i by (metis imageI nth_mem)
  ultimately show ?thesis using Some by (simp add: sessionChatAdded_def insert_absorb)
qed (simp add: sessionChatAdded_def)

lemma removed_resources:
  "csum_resource ` set (ses_chats (sessionChatRemoved st c)) \<subseteq> csum_resource ` set (ses_chats st)"
  "csum_resource ` set (ses_chats st) - {c} \<subseteq> csum_resource ` set (ses_chats (sessionChatRemoved st c))"
proof -
  have sub: "set (remove_at i xs) \<subseteq> set xs" "set xs \<subseteq> insert (xs ! i) (set (remove_at i xs))" if "i < length xs"
    for i and xs :: "chat_summary list"
  proof -
    have split: "set xs = set (take i xs) \<union> insert (xs ! i) (set (drop (Suc i) xs))"
      using id_take_nth_drop [OF that] by (metis list.set(2) set_append)
    show "set (remove_at i xs) \<subseteq> set xs" "set xs \<subseteq> insert (xs ! i) (set (remove_at i xs))"
      unfolding split by (auto simp: remove_at_def)
  qed
  have "csum_resource ` set (ses_chats (sessionChatRemoved st c)) \<subseteq> csum_resource ` set (ses_chats st)
      \<and> csum_resource ` set (ses_chats st) - {c} \<subseteq> csum_resource ` set (ses_chats (sessionChatRemoved st c))"
  proof (cases "find_chat st c")
    case (Some i)
    then have i: "i < length (ses_chats st)" "csum_resource (ses_chats st ! i) = c"
      by (auto simp: find_chat_def dest: find_index_SomeD)
    have "ses_chats (sessionChatRemoved st c) = remove_at i (ses_chats st)"
      using Some by (simp add: sessionChatRemoved_def Let_def)
    then show ?thesis using sub [OF i(1)] i(2) by auto
  qed (auto simp: sessionChatRemoved_def)
  then show "csum_resource ` set (ses_chats (sessionChatRemoved st c)) \<subseteq> csum_resource ` set (ses_chats st)"
    "csum_resource ` set (ses_chats st) - {c} \<subseteq> csum_resource ` set (ses_chats (sessionChatRemoved st c))" by auto
qed

lemma title_exact:
  assumes "activity_ok pl m"
  shows "activity_ok pl (updateChatTitle s c t m)" "listed_chats (updateChatTitle s c t m) = listed_chats m"
proof -
  let ?m = "case chat_at m c of Some e \<Rightarrow> (case cent_state e of Some st \<Rightarrow>
      set_chat c (e\<lparr>cent_state := Some (st\<lparr>chat_title := t\<rparr>)\<rparr>) m | None \<Rightarrow> m) | None \<Rightarrow> m"
  have "host_view ?m = host_view m"
    by (auto simp: entry_view_def intro!: view_set_chat_same split: option.split)
  then have ok: "activity_ok pl ?m" and listed: "listed_chats ?m = listed_chats m"
    using assms by (auto intro: activity_frame view_parts)
  show "activity_ok pl (updateChatTitle s c t m)" "listed_chats (updateChatTitle s c t m) = listed_chats m"
    unfolding updateChatTitle_def Let_def using dispatch_session_quiet [OF ok updated_lists] listed by simp_all
qed

lemma snapshot_title_exact:
  assumes "activity_ok pl m"
  shows "activity_ok pl (snapshotDefaultChatTitle pl' s st m)" "listed_chats (snapshotDefaultChatTitle pl' s st m) = listed_chats m"
proof -
  have "host_view (emit ev (updateChatTitle s c t m)) = host_view (updateChatTitle s c t m)" for ev c t
    by (simp add: view_simps)
  note emitted = activity_frame [OF this title_exact(1) [OF assms]] view_parts(1) [OF this]
  show "activity_ok pl (snapshotDefaultChatTitle pl' s st m)" "listed_chats (snapshotDefaultChatTitle pl' s st m) = listed_chats m"
    using assms emitted title_exact(2) [OF assms]
    by (auto simp: snapshotDefaultChatTitle_def Let_def split: option.split)
qed

lemma listed_new_chat [simp]:
  "session_at (new_chat u s' sm st p d r m) s = session_at m s"
  by (simp add: new_chat_def set_chat_def session_at_def)

lemma listed_upd: "V s = Some R \<Longrightarrow> V(s \<mapsto> insert c (or_default (V s) {})) = V(s \<mapsto> insert c R)"
  by simp

lemma new_chat_listed:
  assumes ok: "activity_ok pl m" and e: "session_at m s = Some e" and x: "csum_resource x = c"
    and new: "c \<notin> csum_resource ` set (ses_chats (sent_state e))" and owner: "parseDefaultChatUri pl c = Some s"
    and idle: "\<forall>y. st = Some y \<longrightarrow> chat_resource y = c \<and> chat_activeTurn y = None"
  shows "activity_ok pl (dispatch_session s (SessionChatAdded x) None (new_chat c s x st p d r m))"
proof -
  let ?R = "csum_resource ` set (ses_chats (sent_state e))"
  let ?m = "new_chat c s x st p d r m"
  let ?st = "map_option (\<lambda>y. (chat_resource y, chat_activeTurn y \<noteq> None)) st"
  have R: "listed_chats m s = Some ?R" by (rule listed_session [OF e])
  have view: "host_view ?m = (True, listed_chats m, (chats_view m)(c \<mapsto> (s, c, ?st)), sm_active m, root_activeSessions (sm_root m))"
    by (simp add: view_new_chat x activityD(1) [OF ok])
  then have parts: "distinct (map fst (sm_chats ?m))" "listed_chats ?m = listed_chats m"
    "chats_view ?m = (chats_view m)(c \<mapsto> (s, c, ?st))" "sm_active ?m = sm_active m"
    "root_activeSessions (sm_root ?m) = root_activeSessions (sm_root m)"
    by (simp_all add: host_view_def)
  have entered: "view_ok pl (True, (listed_chats m)(s \<mapsto> insert c ?R), (chats_view m)(c \<mapsto> (s, c, ?st)), sm_active m,
      root_activeSessions (sm_root m))"
    using view_ok_enter [OF activityD(4) [OF ok] owner, of ?st] new idle
    unfolding listed_upd [of "listed_chats m", OF R] by (cases st) (auto simp: R)
  have "session_at ?m s = Some e" using e by simp
  from view_apply_session [OF parts(1) this, of "SessionChatAdded x"]
  have "host_view (apply_session s (SessionChatAdded x) ?m) =
      (True, (listed_chats m)(s \<mapsto> insert c ?R), sync_chats s (insert c ?R) ((chats_view m)(c \<mapsto> (s, c, ?st))), sm_active m,
       root_activeSessions (sm_root m))"
    by (simp add: added_resources x parts)
  moreover have "view_ok pl (True, (listed_chats m)(s \<mapsto> insert c ?R),
      sync_chats s (insert c ?R) ((chats_view m)(c \<mapsto> (s, c, ?st))), sm_active m, root_activeSessions (sm_root m))"
    by (rule view_ok_sync [OF entered]) simp
  ultimately show ?thesis by (simp add: dispatch_session_def activity_ok_def view_simps)
qed

lemma listed_again: "listed_chats m1 = listed_chats m \<Longrightarrow> session_at m s = Some e \<Longrightarrow>
  \<exists>e1. session_at m1 s = Some e1 \<and> csum_resource ` set (ses_chats (sent_state e1)) = csum_resource ` set (ses_chats (sent_state e))"
  by (drule fun_cong [of _ _ s]) (auto simp: listed_chats_def)

lemma peer_resource [simp]: "csum_resource (peer_chat_summary s e c t og i) = c"
  by (simp add: peer_chat_summary_def Let_def createDefaultChatSummary_def)

lemma created_chat [simp]:
  "chat_resource (createChatState x) = csum_resource x" "chat_activeTurn (createChatState x) = None"
  by (simp_all add: createChatState_def)

lemma add_chat_exact:
  assumes ok: "activity_ok pl m" and owner: "parseDefaultChatUri pl c = Some s"
  shows "activity_ok pl (addChat h s c t ts origin pd i m)"
proof (cases "session_at m s")
  case (Some e)
  show ?thesis
  proof (cases "list_ex (\<lambda>d. csum_resource d = c) (ses_chats (sent_state e))")
    case False
    then have new: "c \<notin> csum_resource ` set (ses_chats (sent_state e))" by (auto simp: list_ex_iff)
    let ?m1 = "snapshotDefaultChatTitle (host_platform h) s (sent_state e) m"
    note m1 = snapshot_title_exact [OF ok, of "host_platform h" s "sent_state e"]
    obtain e1 where e1: "session_at ?m1 s = Some e1"
      "csum_resource ` set (ses_chats (sent_state e1)) = csum_resource ` set (ses_chats (sent_state e))"
      using listed_again [OF m1(2) Some] by auto
    show ?thesis
      using new_chat_listed [OF m1(1) e1(1), where c = c] new owner e1(2) False
      by (simp add: addChat_def Some Let_def)
  qed (simp add: addChat_def Some ok)
qed (simp add: addChat_def ok)

lemma register_chat_exact:
  assumes ok: "activity_ok pl m" and owner: "parseDefaultChatUri pl c = Some s"
  shows "activity_ok pl (registerRestoredChatSummary h s c t origin i d pd r m)"
proof (cases "session_at m s")
  case (Some e)
  show ?thesis
  proof (cases "list_ex (\<lambda>d. csum_resource d = c) (ses_chats (sent_state e))")
    case True
    have "host_view (set_chat c (x\<lparr>cent_providerData := pd, cent_draft := d, cent_resolver := r\<rparr>) m) = host_view m"
      if "chat_at m c = Some x" for x
      by (rule view_set_chat_same [OF that]) (simp add: entry_view_def)
    then show ?thesis
      using True ok by (auto simp: registerRestoredChatSummary_def Some intro: activity_frame split: option.split)
  next
    case False
    let ?m1 = "snapshotDefaultChatTitle (host_platform h) s (sent_state e) m"
    note m1 = snapshot_title_exact [OF ok, of "host_platform h" s "sent_state e"]
    obtain e1 where e1: "session_at ?m1 s = Some e1"
      "csum_resource ` set (ses_chats (sent_state e1)) = csum_resource ` set (ses_chats (sent_state e))"
      using listed_again [OF m1(2) Some] by auto
    let ?x = "peer_chat_summary s e1 c t origin i"
    let ?e2 = "e1\<lparr>sent_state := (sent_state e1)\<lparr>ses_chats := ses_chats (sent_state e1) @ [?x]\<rparr>\<rparr>"
    let ?R = "csum_resource ` set (ses_chats (sent_state e1))"
    have R: "listed_chats ?m1 s = Some ?R" by (rule listed_session [OF e1(1)])
    have "registerRestoredChatSummary h s c t origin i d pd r m = new_chat c s ?x None pd d r (set_session s ?e2 ?m1)"
      using False by (simp add: registerRestoredChatSummary_def Some e1(1) Let_def)
    moreover have "host_view (new_chat c s ?x None pd d r (set_session s ?e2 ?m1)) =
        (True, (listed_chats ?m1)(s \<mapsto> insert c ?R), (chats_view ?m1)(c \<mapsto> (s, c, None)), sm_active ?m1,
         root_activeSessions (sm_root ?m1))"
      by (simp add: view_new_chat activityD(1) [OF m1(1)])
    moreover have "view_ok pl (True, (listed_chats ?m1)(s \<mapsto> insert c ?R), (chats_view ?m1)(c \<mapsto> (s, c, None)), sm_active ?m1,
         root_activeSessions (sm_root ?m1))"
      using view_ok_enter [OF activityD(4) [OF m1(1)] owner, of None] False e1(2)
      unfolding listed_upd [of "listed_chats ?m1", OF R] by (auto simp: R list_ex_iff)
    ultimately show ?thesis by (metis activity_viewI)
  qed
qed (simp add: registerRestoredChatSummary_def ok)

lemma view_invalidate:
  assumes "distinct (map fst (sm_chats m))"
  shows "host_view (invalidateChatEntry c m) =
    (True, listed_chats m, (chats_view m)(c := None), sm_active m, root_activeSessions (sm_root m))"
  using assms by (auto simp: host_view_def invalidateChatEntry_def chats_view_def chat_at_def distinct_delete delete_conv' fun_eq_iff)

lemma remove_chat_exact:
  assumes ok: "activity_ok pl m"
  shows "activity_ok pl (removeChat h s c m)"
proof (cases "session_at m s")
  case (Some e)
  let ?R = "csum_resource ` set (ses_chats (sent_state e))"
  have R: "listed_chats m s = Some ?R" by (rule listed_session [OF Some])
  show ?thesis
  proof (cases "list_ex (\<lambda>d. csum_resource d = c) (ses_chats (sent_state e))
      \<and> \<not> (Some c = ses_defaultChat (sent_state e) \<or> isDefaultChatUri (host_platform h) c)")
    case True
    then have c: "c \<in> ?R" by (auto simp: list_ex_iff)
    let ?m1 = "removeChatActiveTurn s c m"
    let ?m2 = "invalidateChatEntry c ?m1"
    obtain A' where A': "retabled (sm_active m) s (turns_of (sm_active m) s - {c}) A'"
      and m1: "host_view ?m1 = (True, listed_chats m, chats_view m, A', Some (of_nat (length A')))"
      using dropped_turn [OF activityD(2,3) [OF ok], of s c] activityD(1) [OF ok] by (auto simp: turns_changed_def)
    then have m2: "host_view ?m2 = (True, listed_chats m, (chats_view m)(c := None), A', Some (of_nat (length A')))"
      using view_invalidate [of ?m1 c] by (simp add: host_view_def)
    then have parts: "distinct (map fst (sm_chats ?m2))" "listed_chats ?m2 = listed_chats m"
      "chats_view ?m2 = (chats_view m)(c := None)" "sm_active ?m2 = A'" "root_activeSessions (sm_root ?m2) = Some (of_nat (length A'))"
      by (simp_all add: host_view_def)
    obtain e1 where e1: "session_at ?m2 s = Some e1" "csum_resource ` set (ses_chats (sent_state e1)) = ?R"
      using listed_again [OF parts(2) Some] by auto
    let ?R' = "csum_resource ` set (ses_chats (sessionChatRemoved (sent_state e1) c))"
    have sub: "?R - {c} \<subseteq> ?R'" "?R' \<subseteq> ?R"
      using removed_resources [of "sent_state e1" c] by (simp_all add: e1(2))
    have "host_view (apply_session s (SessionChatRemoved c) ?m2) =
        (True, (listed_chats m)(s \<mapsto> ?R'), sync_chats s ?R' ((chats_view m)(c := None)), A', Some (of_nat (length A')))"
      using view_apply_session [OF parts(1) e1(1), of "SessionChatRemoved c"] by (simp add: parts)
    moreover have "view_ok pl (True, (listed_chats m)(s \<mapsto> ?R'), sync_chats s ?R' ((chats_view m)(c := None)), A', Some (of_nat (length A')))"
      using view_ok_leave [OF activityD(4) [OF ok] R c sub A'] by (rule view_ok_sync) simp
    moreover have "removeChat h s c m = dispatch_session s (SessionChatRemoved c) None ?m2"
      using True by (simp add: removeChat_def Some)
    ultimately show ?thesis by (simp add: dispatch_session_def activity_ok_def view_simps)
  qed (use ok in \<open>auto simp: removeChat_def Some\<close>)
qed (simp add: removeChat_def ok)

lemma parts_of_new:
  "listed_chats (new_chat u s x st p d r m) = listed_chats m"
  "chats_view (new_chat u s x st p d r m) =
     (chats_view m)(u \<mapsto> (s, csum_resource x, map_option (\<lambda>y. (chat_resource y, chat_activeTurn y \<noteq> None)) st))"
  "sm_active (new_chat u s x st p d r m) = sm_active m"
  "root_activeSessions (sm_root (new_chat u s x st p d r m)) = root_activeSessions (sm_root m)"
  "distinct (map fst (sm_chats (new_chat u s x st p d r m))) = distinct (map fst (sm_chats m))"
  using view_new_chat [of u s x st p d r m] by (simp_all add: host_view_def)

section \<open>Sessions enter and leave\<close>

text \<open>The text codec reads the session back from the URI of its default chat.\<close>

definition names_session :: "platform \<Rightarrow> js_string \<Rightarrow> bool" where
  "names_session pl s = (parseDefaultChatUri pl (buildDefaultChatUri pl s) = Some s)"

lemma view_default_chat:
  assumes "distinct (map fst (sm_chats m))" and "c = buildDefaultChatUri pl s"
  shows "host_view (ensureDefaultChat pl s x ts d t (set_session s e m)) =
      (True, (listed_chats m)(s \<mapsto> {c}), (chats_view m)(c \<mapsto> (s, c, Some (c, False))), sm_active m, root_activeSessions (sm_root m))"
proof -
  have "session_at (set_session s e m) s = Some e" by (simp add: session_at_def set_session_def update_conv')
  then show ?thesis
    using assms by (simp add: ensureDefaultChat_def Let_def view_set_session parts_of_new createDefaultChatSummary_def)
qed

lemma default_chat_exact:
  assumes ok: "activity_ok pl m" and new: "session_at m s = None" and codec: "names_session pl s"
  shows "activity_ok pl (ensureDefaultChat pl s x ts d t (set_session s e m))"
proof -
  let ?c = "buildDefaultChatUri pl s"
  have V: "listed_chats m s = None" by (simp add: listed_chats_def new)
  show ?thesis
    unfolding activity_ok_def view_default_chat [OF activityD(1) [OF ok] refl]
    using view_ok_enter [OF activityD(4) [OF ok] codec [unfolded names_session_def], of "Some (?c, False)"] V by simp
qed

lemma create_exact:
  assumes ok: "activity_ok pl m" and codec: "names_session (host_platform h) (ssum_resource x)" and "pl = host_platform h"
  shows "activity_ok pl (createSession h x b m)" "activity_ok pl (restoreSession h x ts d t m)"
proof -
  let ?s = "ssum_resource x"
  have exact: "activity_ok pl (ensureDefaultChat pl ?s x ts d t (set_session ?s (newEntry st x u) m))"
    if "session_at m ?s = None" for st u ts d t
    using that codec by (intro default_chat_exact [OF ok]) (simp_all add: assms(3))
  show "activity_ok pl (createSession h x b m)"
    using ok exact by (auto simp: createSession_def Let_def assms(3) activity_ok_def view_simps)
  show "activity_ok pl (restoreSession h x ts d t m)"
    using ok exact
    by (auto simp: restoreSession_def Let_def assms(3) activity_ok_def view_simps)
qed

lemma view_fold_invalidate:
  assumes "distinct (map fst (sm_chats m))"
  shows "host_view (fold (\<lambda>x. invalidateChatEntry (f x)) xs m) =
    (True, listed_chats m, (\<lambda>c. if c \<in> f ` set xs then None else chats_view m c), sm_active m, root_activeSessions (sm_root m))"
  using assms
proof (induction xs arbitrary: m)
  case (Cons x xs)
  let ?m = "invalidateChatEntry (f x) m"
  have "distinct (map fst (sm_chats ?m))" "listed_chats ?m = listed_chats m" "chats_view ?m = (chats_view m)(f x := None)"
    "sm_active ?m = sm_active m" "root_activeSessions (sm_root ?m) = root_activeSessions (sm_root m)"
    using view_invalidate [OF Cons.prems, of "f x"] by (simp_all add: host_view_def)
  with Cons.IH [of ?m] show ?case by (auto simp: fun_eq_iff)
qed (simp add: host_view_def)

lemma view_chain:
  assumes "host_view m = (True, V, C, A, n)"
  shows "host_view (invalidateChatEntry c m) = (True, V, C(c := None), A, n)"
    and "host_view (fold (\<lambda>x. invalidateChatEntry (f x)) xs m) = (True, V, (\<lambda>c. if c \<in> f ` set xs then None else C c), A, n)"
    and "host_view (m\<lparr>sm_sessions := AList.delete s (sm_sessions m)\<rparr>) = (True, V(s := None), C, A, n)"
  using assms view_invalidate [of m c] view_fold_invalidate [of m f xs]
  by (simp_all add: host_view_def listed_chats_def session_at_def chats_view_def chat_at_def delete_conv' fun_eq_iff)

lemma view_invalidate_all [view_simps]: "host_view (invalidateSessionChatResolutions s m) = host_view m"
proof -
  let ?f = "\<lambda>e. if cent_session e = s then e\<lparr>cent_valid := False\<rparr> else e"
  have "map fst (map (\<lambda>(c, e). (c, ?f e)) xs) = map fst xs" for xs by (induction xs) auto
  then have "distinct (map fst (map (\<lambda>(c, e). (c, ?f e)) (sm_chats m))) = distinct (map fst (sm_chats m))" by metis
  moreover have "map_of (map (\<lambda>(c, e). (c, ?f e)) (sm_chats m)) c = map_option ?f (map_of (sm_chats m) c)" for c
    using map_of_map [of ?f "sm_chats m"] by (simp add: fun_eq_iff comp_def)
  moreover have "entry_view (?f e) = entry_view e" for e by (simp add: entry_view_def)
  then have "map_option entry_view (map_option ?f x) = map_option entry_view x" for x
    by (cases x) simp_all
  ultimately show ?thesis
    by (simp add: invalidateSessionChatResolutions_def host_view_def listed_chats_def session_at_def chats_view_def
        chat_at_def fun_eq_iff)
qed

lemma remove_session_exact:
  assumes ok: "activity_ok pl m" and codec: "names_session pl s" and pl: "pl = host_platform h"
  shows "activity_ok pl (removeSession h s m)"
proof (cases "session_at m s")
  case (Some e)
  let ?R = "csum_resource ` set (ses_chats (sent_state e))"
  let ?d = "buildDefaultChatUri pl s"
  have R: "listed_chats m s = Some ?R" by (rule listed_session [OF Some])
  let ?m1 = "invalidateSessionChatResolutions s m"
  let ?m2 = "if s \<in> set (sm_dirty ?m1) then notifier_flush s ?m1 else ?m1"
  have m2: "host_view ?m2 = host_view m" by (simp add: view_simps)
  have ok2: "activity_ok pl ?m2" by (rule activity_frame [OF m2 ok])
  let ?m3 = "drop_active_session s ?m2"
  obtain A' where A': "retabled (sm_active m) s {} A'"
    and m3: "host_view ?m3 = (True, listed_chats m, chats_view m, A', Some (of_nat (length A')))"
    using dropped_session [OF activityD(2,3) [OF ok2], of s] activityD(1) [OF ok2] view_parts [OF m2]
    by (auto simp: turns_changed_def)
  let ?m4 = "fold (\<lambda>c. invalidateChatEntry (csum_resource c)) (ses_chats (sent_state e)) ?m3"
  have m4: "host_view ?m4 = (True, listed_chats m, (\<lambda>c. if c \<in> ?R then None else chats_view m c), A', Some (of_nat (length A')))"
    by (rule view_chain(2) [OF m3])
  let ?m5 = "invalidateChatEntry ?d ?m4"
  have m5: "host_view ?m5 = (True, listed_chats m, (\<lambda>c. if c \<in> ?R \<union> {?d} then None else chats_view m c), A', Some (of_nat (length A')))"
    unfolding view_chain(1) [OF m4] by (auto simp: fun_eq_iff)
  have m6: "host_view (?m5\<lparr>sm_sessions := AList.delete s (sm_sessions ?m5)\<rparr>) = (True, (listed_chats m)(s := None),
      (\<lambda>c. if c \<in> ?R \<union> {?d} then None else chats_view m c), A', Some (of_nat (length A')))"
    by (rule view_chain(3) [OF m5])
  have gone: "view_ok pl (True, (listed_chats m)(s := None), (\<lambda>c. if c \<in> ?R \<union> {?d} then None else chats_view m c), A',
      Some (of_nat (length A')))"
    by (rule view_ok_gone [OF activityD(4) [OF ok] R _ A']) (use codec in \<open>simp add: names_session_def\<close>)
  have removed: "removeSession h s m =
      notifier_remove s (emit (EmitSessionRemoved s) (?m5\<lparr>sm_sessions := AList.delete s (sm_sessions ?m5)\<rparr>))"
    unfolding removeSession_def Some option.case Let_def pl ..
  show ?thesis unfolding removed activity_ok_def host_view_quiet(1,5) m6 by (rule gone)
qed (simp add: removeSession_def ok)

lemma view_changesets [view_simps]:
  "host_view (dispatch_changeset ev u a origin m) = host_view m" "host_view (disposeChangeset h u m) = host_view m"
  "host_view (registerChangeset h u st m) = host_view m" "host_view (onChangesetLivenessChanged h m) = host_view m"
  "host_view (fst (getChangesetState u m)) = host_view m" "host_view (disposeSessionChangesets h s m) = host_view m"
proof -
  show changeset: "host_view (dispatch_changeset ev u a origin m) = host_view m" for ev u a origin m
    by (simp add: dispatch_changeset_def Let_def view_simps split: prod.split option.split)
  show dispose: "host_view (disposeChangeset h u m) = host_view m" for u m
    by (simp add: disposeChangeset_def Let_def view_simps changeset)
  show "host_view (registerChangeset h u st m) = host_view m" "host_view (onChangesetLivenessChanged h m) = host_view m"
    "host_view (fst (getChangesetState u m)) = host_view m"
    by (simp_all add: registerChangeset_def onChangesetLivenessChanged_def getChangesetState_def view_simps split: prod.split)
  have "host_view (fold (disposeChangeset h) us m) = host_view m" for us
    by (induction us arbitrary: m) (simp_all add: dispose)
  then show "host_view (disposeSessionChangesets h s m) = host_view m" by (simp add: disposeSessionChangesets_def)
qed

lemma view_annotations [view_simps]:
  "host_view (dispatch_annotations u a origin m) = host_view m" "host_view (restoreAnnotations s an m) = host_view m"
  "host_view (fst (disposeSessionAnnotations pl s m)) = host_view m"
proof -
  show "host_view (dispatch_annotations u a origin m) = host_view m" "host_view (restoreAnnotations s an m) = host_view m"
    by (simp_all add: dispatch_annotations_def restoreAnnotations_def Let_def view_simps)
  have "host_view (fst (dispose_annotations_loop pl s rs m)) = host_view m" for rs
    by (induction rs arbitrary: m) (simp_all add: view_simps split: option.split)
  then show "host_view (fst (disposeSessionAnnotations pl s m)) = host_view m" by (simp add: disposeSessionAnnotations_def)
qed

lemma delete_session_exact:
  assumes ok: "activity_ok pl m" and codec: "names_session pl s" and pl: "pl = host_platform h"
  shows "activity_ok pl (fst (deleteSession h s m))"
proof -
  let ?r = "disposeSessionAnnotations (host_platform h) s (disposeSessionChangesets h s (clearDirty s m))"
  have r: "activity_ok pl (fst ?r)" by (rule activity_frame [OF _ ok]) (simp add: view_simps)
  have published: "activity_ok pl (emit ev (m'\<lparr>sm_published := p, sm_added := q\<rparr>))" if "activity_ok pl m'" for m' ev p q
    by (rule activity_frame [OF _ that]) (simp add: view_simps)
  show ?thesis
    using r remove_session_exact [OF _ codec pl] by (cases ?r; cases "snd ?r") (auto simp: deleteSession_def Let_def intro: published)
qed

section \<open>Every operation\<close>

text \<open>
  What the operations are asked to respect: nobody but the manager sets the number of active
  sessions or changes which chats a session lists, and a chat is added under the URI that names
  its session.
\<close>

fun tame_action :: "state_action \<Rightarrow> bool" where
  "tame_action (RootAct (RootActiveSessionsChanged n)) = False"
| "tame_action (SessionAct a) = (\<not> lists_chats a)"
| "tame_action _ = True"

fun keeps_table :: "platform \<Rightarrow> host_op \<Rightarrow> bool" where
  "keeps_table pl (OpServerDispatch channel a) = tame_action a"
| "keeps_table pl (OpClientDispatch channel a origin) = tame_action a"
| "keeps_table pl (OpCreateSession summary b) = names_session pl (ssum_resource summary)"
| "keeps_table pl (OpRestoreSession summary turns draft title) = names_session pl (ssum_resource summary)"
| "keeps_table pl (OpAddChat s c title turns origin pd i) = (parseDefaultChatUri pl c = Some s)"
| "keeps_table pl (OpRegisterRestored s c title origin i draft pd resolver) = (parseDefaultChatUri pl c = Some s)"
| "keeps_table pl (OpRemoveSession s) = names_session pl s"
| "keeps_table pl (OpDeleteSession s) = names_session pl s"
| "keeps_table pl _ = True"

lemma view_root:
  assumes "\<And>n. a \<noteq> RootActiveSessionsChanged n"
  shows "host_view (dispatch_root channel a origin m) = host_view m"
proof -
  have "root_activeSessions (rootReducer r b) = root_activeSessions r" if "\<And>n. b \<noteq> RootActiveSessionsChanged n" for r b
    using that by (cases b) (auto simp: rootConfigChanged_def split: option.split)
  moreover have "rewrite_root_action r a \<noteq> RootActiveSessionsChanged n" for r n
    using assms by (auto simp: rewrite_root_action_def split: root_action.splits if_splits)
  ultimately have "host_view (m\<lparr>sm_root := rootReducer (sm_root m) (rewrite_root_action (sm_root m) a)\<rparr>) = host_view m"
    by (simp add: host_view_def listed_chats_def session_at_def chats_view_def chat_at_def fun_eq_iff)
  then show ?thesis by (simp add: dispatch_root_def Let_def view_simps)
qed

lemma dispatch_exact:
  assumes "activity_ok pl m" and "tame_action a" and "pl = host_platform h"
  shows "activity_ok pl (fst (applyAndEmit h channel a origin m))"
proof (cases a)
  case (RootAct x)
  then have "\<And>n. x \<noteq> RootActiveSessionsChanged n" using assms(2) by auto
  then show ?thesis using assms(1) RootAct by (simp add: applyAndEmit_def activity_ok_def view_root)
next
  case (SessionAct x)
  then show ?thesis using assms by (simp add: applyAndEmit_def dispatch_session_quiet)
next
  case (ChatAct x)
  then show ?thesis using dispatch_chat_exact [OF assms(1)] by (simp add: applyAndEmit_def assms(3))
qed (use assms(1) in \<open>simp_all add: applyAndEmit_def activity_ok_def view_simps\<close>)

lemma view_update [view_simps]:
  assumes "\<And>st. ses_chats (f st) = ses_chats st"
  shows "host_view (update_session_state s f m) = host_view m"
  by (auto simp: update_session_state_def assms intro!: view_set_session_same split: option.split)

lemma view_catalog [view_simps]:
  "host_view (markSessionPersisted s x m) = host_view m" "host_view (announceSurfacedSession x m) = host_view m"
  "host_view (updateSurfacedSessionTitle s tt m) = host_view m" "host_view (retractSurfacedSession s m) = host_view m"
  "host_view (setSessionSummaryPublished s b m) = host_view m" "host_view (flushAll m) = host_view m"
  "host_view (setSessionConfig s cfg m) = host_view m" "host_view (setSessionCustomizations s cs m) = host_view m"
  "host_view (setSessionSummaryChanges s ch m) = host_view m" "host_view (retainSession s m) = host_view m"
proof -
  have set_entry: "host_view (set_session s e' m) = host_view m"
    if "session_at m s = Some e" "ses_chats (sent_state e') = ses_chats (sent_state e)" for e e'
    using that by (intro view_set_session_same) simp_all
  show "host_view (markSessionPersisted s x m) = host_view m"
    by (simp add: markSessionPersisted_def Let_def view_simps set_entry split: option.split)
  show "host_view (setSessionSummaryChanges s ch m) = host_view m"
    by (simp add: setSessionSummaryChanges_def view_simps set_entry split: option.split)
  have "host_view (fold notifier_flush xs m) = host_view m" for xs
    by (induction xs arbitrary: m) (simp_all add: view_simps)
  then show "host_view (flushAll m) = host_view m" by (simp add: flushAll_def view_simps)
qed (simp_all add: announceSurfacedSession_def updateSurfacedSessionTitle_def retractSurfacedSession_def
    setSessionSummaryPublished_def setSessionConfig_def setSessionCustomizations_def retainSession_def Let_def view_simps
    split: option.split)

lemma view_listing [view_simps]: "host_view (fst (prepareSessionSummariesForListing xs m)) = host_view m"
proof (induction xs arbitrary: m)
  case (Cons x xs)
  have "host_view (fst (prepare_listing_one x m)) = host_view m"
    by (simp add: prepare_listing_one_def Let_def view_simps)
  with Cons show ?case by (simp add: case_prod_beta)
qed simp

lemma view_chat_entries [view_simps]:
  "host_view (seedDefaultChatTurns pl s ts m) = host_view m" "host_view (updateChatProviderData c d m) = host_view m"
  "host_view (fst (resolveChatState c m)) = host_view m" "host_view (chatResolveFailed c i m) = host_view m"
proof -
  have set_entry: "host_view (set_chat c e' m) = host_view m" if "chat_at m c = Some e" "entry_view e' = entry_view e" for c e e'
    using that by (rule view_set_chat_same)
  show "host_view (updateChatProviderData c d m) = host_view m" "host_view (fst (resolveChatState c m)) = host_view m"
    "host_view (chatResolveFailed c i m) = host_view m"
    by (simp_all add: updateChatProviderData_def resolveChatState_def chatResolveFailed_def set_entry entry_view_def
        split: option.split)
  have "entry_view (e\<lparr>cent_state := map_option (\<lambda>c. c\<lparr>chat_turns := ts\<rparr>) (cent_state e)\<rparr>) = entry_view e" for e ts
    by (cases "cent_state e") (simp_all add: entry_view_def)
  then show "host_view (seedDefaultChatTurns pl s ts m) = host_view m"
    by (simp add: seedDefaultChatTurns_def Let_def set_entry view_simps split: option.split)
qed

lemma resolved_exact:
  assumes ok: "activity_ok pl m"
  shows "activity_ok pl (fst (chatResolved c i ts d m))"
proof (cases "chat_at m c")
  case (Some e)
  show ?thesis
  proof (cases "cent_id e \<noteq> i \<or> \<not> cent_valid e \<or> cent_state e \<noteq> None")
    case True
    then show ?thesis using ok by (auto simp: chatResolved_def Some Let_def activity_ok_def view_simps split: option.split)
  next
    case False
    let ?x = "(createChatState (cent_summary e))\<lparr>chat_turns := ts, chat_draft := orelse d (cent_draft e)\<rparr>"
    let ?m = "set_chat c (e\<lparr>cent_state := Some ?x, cent_resolver := None, cent_inFlight := False\<rparr>) m"
    have C: "chats_view m c = Some (cent_session e, csum_resource (cent_summary e), None)"
      using Some False by (simp add: chats_view_def entry_view_def)
    have fits: "entry_fits pl c (cent_session e, csum_resource (cent_summary e), None)"
      "\<exists>R. listed_chats m (cent_session e) = Some R \<and> c \<in> R"
      using view_okD(4) [OF activityD(4) [OF ok] C] by auto
    then have c: "csum_resource (cent_summary e) = c" by (simp add: entry_fits_def)
    have "view_ok pl (True, listed_chats m, (chats_view m)(c \<mapsto> (cent_session e, c, Some (c, False))), sm_active m,
        root_activeSessions (sm_root m))"
    proof (rule view_okI)
      show "turns_of (sm_active m) s = {x. is_active (((chats_view m)(c \<mapsto> (cent_session e, c, Some (c, False)))) x) \<and> parseDefaultChatUri pl x = Some s}" for s
        using view_okD(6) [OF activityD(4) [OF ok], of s] C by (auto simp: is_active_def)
      show "entry_fits pl x v \<and> (\<exists>R. listed_chats m (fst v) = Some R \<and> x \<in> R)"
        if "((chats_view m)(c \<mapsto> (cent_session e, c, Some (c, False)))) x = Some v" for x v
        using that view_okD(4) [OF activityD(4) [OF ok], of x v] fits by (auto simp: entry_fits_def c split: if_splits)
    qed (use view_okD(5) [OF activityD(4) [OF ok]] activityD(2,3) [OF ok] in auto)
    moreover have "host_view ?m = (True, listed_chats m, (chats_view m)(c \<mapsto> (cent_session e, c, Some (c, False))), sm_active m,
        root_activeSessions (sm_root m))"
      using activityD(1) [OF ok] by (simp add: view_set_chat entry_view_def c)
    ultimately have "activity_ok pl ?m" by (rule activity_viewI [rotated])
    moreover have "fst (chatResolved c i ts d m) = (if ts \<noteq> [] then markSessionUsed (cent_session e) ?m else ?m)"
      using False by (simp add: chatResolved_def Some Let_def)
    ultimately show ?thesis by (cases "ts = []") (simp_all add: activity_ok_def view_simps)
  qed
qed (simp add: chatResolved_def ok)

lemma view_snapshot [view_simps]: "host_view (fst (getSnapshot pl r m)) = host_view m"
proof -
  have "host_view m1 = host_view m" if "getChangesetState r m = (m1, x)" for m1 x
    using view_changesets(5) [of r m] that by simp
  then show ?thesis by (auto simp: getSnapshot_def split: prod.split option.split)
qed

lemma step_exact:
  assumes ok: "activity_ok pl m" and tame: "keeps_table pl op" and pl: "pl = host_platform h"
  shows "activity_ok pl (host_step h op m)"
proof (cases op)
  case (OpSetMeta s meta)
  then show ?thesis using dispatch_session_quiet [OF ok] by (simp add: setSessionMeta_def lists_chats_def)
next
  case (OpSetChangesets s cs)
  then show ?thesis using dispatch_session_quiet [OF ok] ok by (simp add: setSessionChangesets_def lists_chats_def split: option.split)
next
  case (OpServerDispatch c a)
  then show ?thesis using dispatch_exact [OF ok _ pl] tame by (simp add: dispatchServerAction_def)
next
  case (OpClientDispatch c a og)
  then show ?thesis using dispatch_exact [OF ok _ pl] tame by (simp add: dispatchClientAction_def)
next
  case (OpCreateSession x b)
  then show ?thesis using create_exact [OF ok _ pl] tame pl by simp
next
  case (OpRestoreSession x ts d t)
  then show ?thesis using create_exact [OF ok _ pl] tame pl by simp
next
  case (OpAddChat s c t ts og pd i)
  then show ?thesis using add_chat_exact [OF ok] tame by simp
next
  case (OpRegisterRestored s c t og i d pd r)
  then show ?thesis using register_chat_exact [OF ok] tame by simp
next
  case (OpRemoveSession s)
  then show ?thesis using remove_session_exact [OF ok _ pl] tame by simp
next
  case (OpDeleteSession s)
  then show ?thesis using delete_session_exact [OF ok _ pl] tame by simp
next
  case (OpUpdateChatTitle s c t)
  then show ?thesis using title_exact(1) [OF ok] by simp
next
  case (OpRemoveChat s c)
  then show ?thesis using remove_chat_exact [OF ok] by simp
next
  case (OpChatResolved c i ts d)
  then show ?thesis using resolved_exact [OF ok] by simp
qed (use ok in \<open>simp_all add: activity_ok_def rejectClientAction_def view_simps\<close>)

lemma run_exact:
  "activity_ok pl m \<Longrightarrow> list_all (keeps_table pl) ops \<Longrightarrow> pl = host_platform h \<Longrightarrow> activity_ok pl (host_run h ops m)"
  by (induction ops arbitrary: m) (simp_all add: host_run_def step_exact)

lemma new_exact: "activity_ok pl (new_state_manager config meta limit)"
  by (simp add: activity_ok_def host_view_def new_state_manager_def createRootState_def view_ok_def table_ok_def owned_ok_def
      exact_turns_def turns_of_def listed_chats_def chats_view_def session_at_def chat_at_def is_active_def)

section \<open>The host knows which sessions are active\<close>

text \<open>A chat with a running turn, and the session its URI names.\<close>

definition runs_turn :: "platform \<Rightarrow> state_manager \<Rightarrow> js_string \<Rightarrow> js_string \<Rightarrow> bool" where
  "runs_turn pl m s c \<longleftrightarrow>
     parseDefaultChatUri pl c = Some s \<and> (\<exists>st. chat_state_at m c = Some st \<and> chat_activeTurn st \<noteq> None)"

lemma is_active_chat: "is_active (chats_view m c) \<longleftrightarrow> (\<exists>st. chat_state_at m c = Some st \<and> chat_activeTurn st \<noteq> None)"
  by (auto simp: is_active_def chats_view_def entry_view_def chat_state_at_def split: option.splits)

lemma active_session:
  assumes "activity_ok pl m"
  shows "hasActiveTurn s m \<longleftrightarrow> (\<exists>c. runs_turn pl m s c)"
proof -
  have turns: "turns_of (sm_active m) s = {c. runs_turn pl m s c}"
    using view_okD(6) [OF activityD(4) [OF assms], of s] by (auto simp: is_active_chat runs_turn_def)
  have "hasActiveTurn s m \<longleftrightarrow> turns_of (sm_active m) s \<noteq> {}"
    using table_row [OF activityD(2) [OF assms], of s]
    by (cases "map_of (sm_active m) s") (auto simp: hasActiveTurn_def turns_of_def)
  then show ?thesis by (simp add: turns)
qed

lemma active_count:
  assumes "activity_ok pl m"
  shows "root_activeSessions (sm_root m) = Some (of_nat (card {s. \<exists>c. runs_turn pl m s c}))"
proof -
  have "{s. \<exists>c. runs_turn pl m s c} = {s. map_of (sm_active m) s \<noteq> None}"
    using active_session [OF assms] by (auto simp: hasActiveTurn_def)
  also have "\<dots> = fst ` set (sm_active m)" by (simp add: map_of_eq_None_iff)
  finally have "card {s. \<exists>c. runs_turn pl m s c} = length (sm_active m)"
    using activityD(2) [OF assms] distinct_card [of "map fst (sm_active m)"] by (simp add: table_ok_def)
  then show ?thesis using activityD(3) [OF assms] by simp
qed


definition sample_host_session :: session_summary where
  "sample_host_session = \<lparr>smeta_provider = ''copilot'', smeta_title = ''s'', smeta_status = status_Idle, smeta_activity = None,
     smeta_origin = None, smeta_project = None, smeta_workingDirectories = None, smeta_annotations = None,
     ssum_resource = ''copilot:/s1'', ssum_createdAt = ''2026-01-01T00:00:00.000Z'',
     ssum_modifiedAt = ''2026-01-01T00:00:00.000Z'', ssum_changes = None, ssum_meta = None\<rparr>"

definition sample_turn_start :: chat_turn_started_action where
  "sample_turn_start = \<lparr>turnStarted_turnId = ''t1'', turnStarted_startedAt = ''2026-01-01T00:00:01.000Z'',
     turnStarted_message = \<lparr>msg_text = ''hi'', msg_origin = \<lparr>morigin_kind = UserMessage\<rparr>, msg_attachments = None,
       msg_model = None, msg_agent = None, msg_meta = None\<rparr>, turnStarted_queuedMessageId = None, turnStarted_meta = None\<rparr>"

text \<open>A run that creates a session and starts a turn in its default chat.\<close>

definition sample_turn_run :: "host_op list" where
  "sample_turn_run = [OpCreateSession sample_host_session False,
     OpServerDispatch (buildDefaultChatUri ascii_platform ''copilot:/s1'') (ChatAct (ChatTurnStarted sample_turn_start))]"

lemma active_quiet [simp]:
  "sm_active (emit ev m) = sm_active m" "sm_active (markDirty s m) = sm_active m"
  "sm_active (markSessionUsed s m) = sm_active m" "sm_active (emit_envelope u a og r m) = sm_active m"
  by (simp_all add: emit_def markDirty_def markSessionUsed_def emit_envelope_def Let_def split: option.split)

lemma active_dispatch_session [simp]: "sm_active (dispatch_session s a origin m) = sm_active m"
proof -
  have "sm_active (synchronizeChatEntries s xs m) = sm_active m" for xs m
    using view_synchronize_fold [of s xs m] by (simp add: synchronizeChatEntries_def Let_def host_view_def)
  then show ?thesis
    by (simp add: dispatch_session_def apply_session_def Let_def split: option.split session_action.split)
qed

lemma active_roll_up [simp]: "sm_active (fst (roll_up_chat s c n st m)) = sm_active m"
  by (simp add: roll_up_chat_def forward_chat_status_def store_aggregate_def store_modified_def Let_def
      split: option.split sum.split)

lemma active_count_quiet [simp]: "sm_active (dispatch_active_count m) = sm_active m"
  by (simp add: dispatch_active_count_def dispatch_root_def rewrite_root_action_def root_action_noop_def Let_def)

lemma turn_started_active:
  assumes "chat_at m c = Some e" and "cent_state e = Some st" and "chat_activeTurn st = None"
    and "parseDefaultChatUri pl c = Some s" and "isAhpChatChannel pl c" and "sm_active m = []"
  shows "sm_active (fst (dispatch_chat pl c (ChatTurnStarted a) None m)) = [(s, [c])]"
proof -
  let ?new = "chatTurnStarted st a"
  have started: "chat_activeTurn ?new \<noteq> None" by (auto simp: chatTurnStarted_def Let_def split: option.split)
  have tracked: "sm_active (track_active_turn s c st ?new m') = [(s, [c])]" if "sm_active m' = []" for m'
    using started assms(3) that by (simp add: track_active_turn_def addChatActiveTurn_def set_add_def Let_def)
  have "sm_active (fst (onChatStateChanged s c st ?new m')) = [(s, [c])]" if "sm_active m' = []" for m'
    using that tracked by (simp add: onChatStateChanged_def Let_def split: option.split)
  then have changed: "sm_active (fst (onChatStateChanged s c st ?new (set_chat c (e\<lparr>cent_state := Some ?new\<rparr>) m))) = [(s, [c])]"
    using assms(6) by simp
  have "sm_active (fst (and_then r (\<lambda>m'. (emit_envelope c x None None m', None)))) = sm_active (fst r)" for r x
    by (cases r; cases "snd r") auto
  then show ?thesis
    using assms(1,2,4,5) changed by (simp add: dispatch_chat_def parseRequiredSessionUriFromChatUri_def)
qed


end
