(* ===== verification/Lifecycle_Store.thy ===== *)
theory Lifecycle_Store
  imports Prelude "HOL-Library.List_Lexorder" "HOL-Library.Char_ord"
begin

text \<open>
  The host's catalog database (\<open>node/agentHostDatabase.ts\<close>) and the store of delete
  intents on top of it (\<open>node/fumie/sessionLifecycleStore.ts\<close>). A table is the association list of
  its rows by primary key; a definition of the class \<open>AgentHostDatabase\<close> is the SQL it
  executes, a transaction being one step. A statement that the database rejects is the caller's
  business (\<open>Session_Delete\<close>). A column that holds JSON text holds here what \<open>JSON.parse\<close> gives
  for it, \<open>None\<close> when the text is not JSON.
\<close>

section \<open>The tables\<close>

datatype registration_source = RegisteredExplicit | RegisteredRestore | RegisteredDiscovery

record session_row =
  srow_provider :: js_string
  srow_startTime :: int
  srow_external :: "bool option"
  srow_source :: registration_source

record intent_row =
  irow_operationId :: js_string
  irow_provider :: js_string
  irow_phase :: js_string
  irow_targets :: "json option"
  irow_attempt :: int
  irow_createdAt :: int
  irow_updatedAt :: int
  irow_lastError :: "js_string option"

record catalog_db =
  db_sessions :: "(js_string \<times> session_row) list"
  db_metadata :: "(js_string \<times> js_string) list"
  db_intents :: "(js_string \<times> intent_row) list"

definition empty_db :: catalog_db where
  "empty_db = \<lparr>db_sessions = [], db_metadata = [], db_intents = []\<rparr>"

definition tombstoneKey :: "js_string \<Rightarrow> js_string" where
  "tombstoneKey session = ''sessionTombstone:'' @ session"

definition agentMergeEnabledKey :: "js_string \<Rightarrow> js_string" where
  "agentMergeEnabledKey session = ''agentMergeEnabled:'' @ session"

definition providerBackfillKey :: "js_string \<Rightarrow> js_string" where
  "providerBackfillKey provider = ''sessionRegistryBackfilled:'' @ provider"

text \<open>\<open>INSERT ... ON CONFLICT(key) DO UPDATE SET value = excluded.value\<close> and \<open>DELETE FROM metadata\<close>.\<close>

definition set_meta :: "js_string \<Rightarrow> catalog_db \<Rightarrow> catalog_db" where
  "set_meta key db = db\<lparr>db_metadata := AList.update key ''true'' (db_metadata db)\<rparr>"

definition drop_meta :: "js_string \<Rightarrow> catalog_db \<Rightarrow> catalog_db" where
  "drop_meta key db = db\<lparr>db_metadata := AList.delete key (db_metadata db)\<rparr>"

definition has_meta :: "js_string \<Rightarrow> catalog_db \<Rightarrow> bool" where
  "has_meta key db = (map_of (db_metadata db) key = Some ''true'')"

section \<open>The session registry\<close>

definition isSessionTombstoned :: "js_string \<Rightarrow> catalog_db \<Rightarrow> bool" where
  "isSessionTombstoned session db = has_meta (tombstoneKey session) db"

definition markSessionTombstoned :: "js_string \<Rightarrow> catalog_db \<Rightarrow> catalog_db" where
  "markSessionTombstoned session db = set_meta (tombstoneKey session) db"

definition clearSessionTombstone :: "js_string \<Rightarrow> catalog_db \<Rightarrow> catalog_db" where
  "clearSessionTombstone session db = drop_meta (tombstoneKey session) db"

text \<open>The row that \<open>ON CONFLICT(session_uri) DO UPDATE\<close> leaves: \<open>old\<close> is \<open>sessions\<close>, \<open>provider\<close> and \<open>source\<close> are \<open>excluded\<close>.\<close>

definition upsert_row :: "js_string \<Rightarrow> registration_source \<Rightarrow> session_row \<Rightarrow> session_row" where
  "upsert_row provider source old = old
     \<lparr>srow_provider := (if source = RegisteredExplicit then provider else srow_provider old),
      srow_external :=
        (if source = RegisteredExplicit \<or> source = RegisteredRestore then Some False
         else if srow_source old = RegisteredExplicit then srow_external old else Some True),
      srow_source :=
        (if source = RegisteredExplicit \<or> srow_source old = RegisteredExplicit then RegisteredExplicit else source)\<rparr>"

definition registerSession ::
    "js_string \<Rightarrow> js_string \<Rightarrow> int \<Rightarrow> registration_source \<Rightarrow> bool \<Rightarrow> catalog_db \<Rightarrow> catalog_db \<times> bool" where
  "registerSession session provider startTime source checkTombstone db =
     (let selected = (\<not> checkTombstone \<or> \<not> isSessionTombstoned session db);
          row = (case map_of (db_sessions db) session of
                   Some old \<Rightarrow> upsert_row provider source old
                 | None \<Rightarrow> \<lparr>srow_provider = provider, srow_startTime = startTime,
                              srow_external = Some (source = RegisteredDiscovery), srow_source = source\<rparr>);
          db1 = (if selected then db\<lparr>db_sessions := AList.update session row (db_sessions db)\<rparr> else db)
      in (if \<not> checkTombstone then clearSessionTombstone session db1 else db1, selected))"

definition unregisterSession :: "js_string \<Rightarrow> catalog_db \<Rightarrow> catalog_db" where
  "unregisterSession session db =
     drop_meta (agentMergeEnabledKey session) (db\<lparr>db_sessions := AList.delete session (db_sessions db)\<rparr>)"

definition tombstoneAndUnregisterSession :: "js_string \<Rightarrow> catalog_db \<Rightarrow> catalog_db" where
  "tombstoneAndUnregisterSession session db =
     (let db1 = drop_meta (agentMergeEnabledKey session) (set_meta (tombstoneKey session) db)
      in db1\<lparr>db_sessions := AList.delete session (db_sessions db1)\<rparr>)"

definition external_row :: "bool \<Rightarrow> session_row \<Rightarrow> session_row" where
  "external_row external row =
     (if srow_external row \<noteq> None then row
      else row\<lparr>srow_external := Some external,
             srow_source :=
               (if external then RegisteredDiscovery
                else if srow_source row = RegisteredExplicit then RegisteredExplicit else RegisteredRestore)\<rparr>)"

definition updateSessionExternal :: "(js_string \<times> bool) list \<Rightarrow> catalog_db \<Rightarrow> catalog_db" where
  "updateSessionExternal updates db =
     fold (\<lambda>(session, external) db.
        db\<lparr>db_sessions := AList.map_entry session (external_row external) (db_sessions db)\<rparr>) updates db"

definition getSession :: "js_string \<Rightarrow> catalog_db \<Rightarrow> session_row option" where
  "getSession session db = map_of (db_sessions db) session"

definition listSessions :: "catalog_db \<Rightarrow> (js_string \<times> session_row) list" where
  "listSessions db = db_sessions db"

definition isSessionRegistryEmpty :: "catalog_db \<Rightarrow> bool" where
  "isSessionRegistryEmpty db = (db_sessions db = [])"

definition isProviderBackfilled :: "js_string \<Rightarrow> catalog_db \<Rightarrow> bool" where
  "isProviderBackfilled provider db = has_meta (providerBackfillKey provider) db"

definition markProviderBackfilled :: "js_string \<Rightarrow> catalog_db \<Rightarrow> catalog_db" where
  "markProviderBackfilled provider db = set_meta (providerBackfillKey provider) db"

definition setSessionAgentMergeEnabled :: "js_string \<Rightarrow> bool \<Rightarrow> catalog_db \<Rightarrow> catalog_db" where
  "setSessionAgentMergeEnabled session enabled db =
     (if enabled then set_meta (agentMergeEnabledKey session) db else drop_meta (agentMergeEnabledKey session) db)"

section \<open>Delete intents in the database\<close>

definition prepareDeleteIntent :: "js_string \<Rightarrow> intent_row \<Rightarrow> catalog_db \<Rightarrow> catalog_db \<times> intent_row js_result" where
  "prepareDeleteIntent session row db =
     (case map_of (db_intents db) session of
        Some old \<Rightarrow> (db, Inr old)
      | None \<Rightarrow>
          if list_ex (\<lambda>(_, r). irow_operationId r = irow_operationId row) (db_intents db)
          then (db, Inl (PlainError ''UNIQUE constraint failed''))
          else (db\<lparr>db_intents := AList.update session row (db_intents db)\<rparr>, Inr row))"

definition getDeleteIntent :: "js_string \<Rightarrow> catalog_db \<Rightarrow> intent_row option" where
  "getDeleteIntent session db = map_of (db_intents db) session"

definition listDeleteIntents :: "catalog_db \<Rightarrow> (js_string \<times> intent_row) list" where
  "listDeleteIntents db =
     sort_key (\<lambda>(_, r). irow_createdAt r) (sort_key fst (db_intents db))"

definition updateDeleteIntent ::
    "js_string \<Rightarrow> js_string \<Rightarrow> (intent_row \<Rightarrow> intent_row) \<Rightarrow> catalog_db \<Rightarrow> catalog_db \<times> bool" where
  "updateDeleteIntent session operationId assign db =
     (case map_of (db_intents db) session of
        None \<Rightarrow> (db, False)
      | Some row \<Rightarrow>
          if irow_operationId row = operationId
          then (db\<lparr>db_intents := AList.update session (assign row) (db_intents db)\<rparr>, True) else (db, False))"

definition finalizeDeleteIntent :: "js_string \<Rightarrow> js_string \<Rightarrow> catalog_db \<Rightarrow> catalog_db \<times> bool" where
  "finalizeDeleteIntent session operationId db =
     (if map_option irow_operationId (map_of (db_intents db) session) \<noteq> Some operationId then (db, False)
      else
        let db1 = drop_meta (agentMergeEnabledKey session) (set_meta (tombstoneKey session) db);
            db2 = db1\<lparr>db_sessions := AList.delete session (db_sessions db1)\<rparr>
        in (db2\<lparr>db_intents := AList.delete session (db_intents db2)\<rparr>, True))"

section \<open>The store\<close>

datatype delete_phase = PhasePrepared | PhaseStopping | PhaseDeletingBackings | PhaseCleaningFumie

datatype target_status = TargetPending | TargetDeleted

record delete_target =
  dt_chat :: js_string
  dt_providerData :: "js_string option"
  dt_status :: target_status

record delete_intent =
  di_operationId :: js_string
  di_session :: js_string
  di_provider :: js_string
  di_phase :: delete_phase
  di_targets :: "delete_target list"
  di_attempt :: int
  di_createdAt :: int
  di_updatedAt :: int
  di_lastError :: "js_string option"

text \<open>A property that is absent from the patch is \<open>None\<close>; for \<open>lastError\<close>, \<open>Some None\<close> is \<open>null\<close>.\<close>

record delete_intent_patch =
  pat_phase :: "delete_phase option"
  pat_targets :: "delete_target list option"
  pat_attempt :: "int option"
  pat_lastError :: "js_string option option"
  pat_updatedAt :: int

definition phase_text :: "delete_phase \<Rightarrow> js_string" where
  "phase_text p =
     (case p of PhasePrepared \<Rightarrow> ''prepared'' | PhaseStopping \<Rightarrow> ''stopping''
      | PhaseDeletingBackings \<Rightarrow> ''deletingBackings'' | PhaseCleaningFumie \<Rightarrow> ''cleaningFumie'')"

definition deletePhases :: "(js_string \<times> delete_phase) list" where
  "deletePhases = map (\<lambda>p. (phase_text p, p)) [PhasePrepared, PhaseStopping, PhaseDeletingBackings, PhaseCleaningFumie]"

definition status_text :: "target_status \<Rightarrow> js_string" where
  "status_text s = (case s of TargetPending \<Rightarrow> ''pending'' | TargetDeleted \<Rightarrow> ''deleted'')"

definition target_json :: "delete_target \<Rightarrow> json" where
  "target_json t =
     JObject ([(''chat'', JString (dt_chat t))]
       @ (case dt_providerData t of Some d \<Rightarrow> [(''providerData'', JString d)] | None \<Rightarrow> [])
       @ [(''status'', JString (status_text (dt_status t)))])"

definition toDatabaseIntent :: "delete_intent \<Rightarrow> intent_row" where
  "toDatabaseIntent i =
     \<lparr>irow_operationId = di_operationId i, irow_provider = di_provider i, irow_phase = phase_text (di_phase i),
      irow_targets = Some (JArray (map target_json (di_targets i))), irow_attempt = di_attempt i,
      irow_createdAt = di_createdAt i, irow_updatedAt = di_updatedAt i, irow_lastError = di_lastError i\<rparr>"

subsection \<open>Validation\<close>

text \<open>
  \<open>validateDeleteIntent\<close> reads the columns as the types they are cast to; the definitions give the
  typed value it has vouched for. The checks that SQL columns and numbers of the model make
  vacuous (an attempt that is not an integer, a timestamp that is not finite) are left out.
\<close>

definition json_property :: "js_string \<Rightarrow> json \<Rightarrow> json option" where
  "json_property k v = (case v of JObject ps \<Rightarrow> map_of ps k | _ \<Rightarrow> None)"

definition read_target :: "js_string list \<Rightarrow> json \<Rightarrow> delete_target js_result" where
  "read_target chats v =
     (case json_property ''chat'' v of
        Some (JString chat) \<Rightarrow>
          if chat = [] then Inl (PlainError ''Session delete target requires a chat URI'')
          else if chat \<in> set chats then Inl (PlainError (''Duplicate session delete target: '' @ chat))
          else
            (let finish = (\<lambda>data.
                   case json_property ''status'' v of
                     Some (JString s) \<Rightarrow>
                       if s = ''pending'' then Inr \<lparr>dt_chat = chat, dt_providerData = data, dt_status = TargetPending\<rparr>
                       else if s = ''deleted'' then Inr \<lparr>dt_chat = chat, dt_providerData = data, dt_status = TargetDeleted\<rparr>
                       else Inl (PlainError (''Invalid session delete target status: '' @ chat))
                   | _ \<Rightarrow> Inl (PlainError (''Invalid session delete target status: '' @ chat)))
             in case json_property ''providerData'' v of
                  None \<Rightarrow> finish None
                | Some (JString d) \<Rightarrow> finish (Some d)
                | Some _ \<Rightarrow> Inl (PlainError (''Invalid provider data for session delete target: '' @ chat)))
      | _ \<Rightarrow> Inl (PlainError ''Session delete target requires a chat URI''))"

fun read_targets :: "js_string list \<Rightarrow> json list \<Rightarrow> delete_target list js_result" where
  "read_targets chats [] = Inr []"
| "read_targets chats (v # vs) =
     (case read_target chats v of
        Inl e \<Rightarrow> Inl e
      | Inr t \<Rightarrow> js_map (\<lambda>ts. t # ts) (read_targets (dt_chat t # chats) vs))"

definition validateDeleteIntent :: "js_string \<Rightarrow> intent_row \<Rightarrow> json \<Rightarrow> delete_intent js_result" where
  "validateDeleteIntent session row targets =
     (if irow_operationId row = [] \<or> session = [] \<or> irow_provider row = []
      then Inl (PlainError ''Session delete intent requires operationId, session, and provider'')
      else case map_of deletePhases (irow_phase row) of
        None \<Rightarrow> Inl (PlainError (''Invalid session delete phase: '' @ irow_phase row))
      | Some phase \<Rightarrow>
          if irow_attempt row < 0 then Inl (PlainError ''Invalid session delete attempt'')
          else case targets of
            JArray vs \<Rightarrow>
              js_map
                (\<lambda>ts. \<lparr>di_operationId = irow_operationId row, di_session = session, di_provider = irow_provider row,
                       di_phase = phase, di_targets = ts, di_attempt = irow_attempt row,
                       di_createdAt = irow_createdAt row, di_updatedAt = irow_updatedAt row,
                       di_lastError = irow_lastError row\<rparr>)
                (read_targets [] vs)
          | _ \<Rightarrow> Inl (PlainError ''Session delete targets must be an array''))"

definition fromDatabaseIntent :: "js_string \<Rightarrow> intent_row \<Rightarrow> delete_intent js_result" where
  "fromDatabaseIntent session row =
     (case irow_targets row of
        None \<Rightarrow> Inl (PlainError (''Invalid delete targets for '' @ session))
      | Some targets \<Rightarrow> validateDeleteIntent session row targets)"

text \<open>The validation of a value that is typed already.\<close>

definition check_intent :: "delete_intent \<Rightarrow> delete_intent js_result" where
  "check_intent i = fromDatabaseIntent (di_session i) (toDatabaseIntent i)"

subsection \<open>Operations\<close>

definition store_prepare :: "delete_intent \<Rightarrow> catalog_db \<Rightarrow> catalog_db \<times> delete_intent js_result" where
  "store_prepare intent db =
     (case check_intent intent of
        Inl e \<Rightarrow> (db, Inl e)
      | Inr _ \<Rightarrow>
         (case prepareDeleteIntent (di_session intent) (toDatabaseIntent intent) db of
            (db', Inl e) \<Rightarrow> (db', Inl e)
          | (db', Inr row) \<Rightarrow> (db', fromDatabaseIntent (di_session intent) row)))"

definition store_get :: "js_string \<Rightarrow> catalog_db \<Rightarrow> delete_intent option js_result" where
  "store_get session db =
     (case getDeleteIntent session db of
        None \<Rightarrow> Inr None
      | Some row \<Rightarrow> js_map Some (fromDatabaseIntent session row))"

fun read_intents :: "(js_string \<times> intent_row) list \<Rightarrow> delete_intent list js_result" where
  "read_intents [] = Inr []"
| "read_intents ((session, row) # rows) =
     (case fromDatabaseIntent session row of
        Inl e \<Rightarrow> Inl e
      | Inr i \<Rightarrow> js_map (\<lambda>is. i # is) (read_intents rows))"

definition store_list :: "catalog_db \<Rightarrow> delete_intent list js_result" where
  "store_list db = read_intents (listDeleteIntents db)"

definition apply_patch :: "delete_intent_patch \<Rightarrow> delete_intent \<Rightarrow> delete_intent" where
  "apply_patch p i = i
     \<lparr>di_phase := or_default (pat_phase p) (di_phase i), di_targets := or_default (pat_targets p) (di_targets i),
      di_attempt := or_default (pat_attempt p) (di_attempt i), di_updatedAt := pat_updatedAt p,
      di_lastError := or_default (pat_lastError p) (di_lastError i)\<rparr>"

definition assign_columns :: "delete_intent \<Rightarrow> intent_row \<Rightarrow> intent_row" where
  "assign_columns i row = row
     \<lparr>irow_phase := phase_text (di_phase i), irow_targets := Some (JArray (map target_json (di_targets i))),
      irow_attempt := di_attempt i, irow_updatedAt := di_updatedAt i, irow_lastError := di_lastError i\<rparr>"

definition not_owned :: "js_string \<Rightarrow> js_string \<Rightarrow> js_error" where
  "not_owned session operationId = PlainError (''Session deletion is not owned by operation '' @ operationId @ '': '' @ session)"

definition store_update ::
    "js_string \<Rightarrow> js_string \<Rightarrow> delete_intent_patch \<Rightarrow> catalog_db \<Rightarrow> catalog_db \<times> delete_intent js_result" where
  "store_update session operationId patch db =
     (case store_get session db of
        Inl e \<Rightarrow> (db, Inl e)
      | Inr None \<Rightarrow> (db, Inl (not_owned session operationId))
      | Inr (Some current) \<Rightarrow>
          if di_operationId current \<noteq> operationId then (db, Inl (not_owned session operationId))
          else
            let nxt = apply_patch patch current
            in case check_intent nxt of
              Inl e \<Rightarrow> (db, Inl e)
            | Inr _ \<Rightarrow>
                (case updateDeleteIntent session operationId (assign_columns nxt) db of
                   (db', True) \<Rightarrow> (db', Inr nxt)
                 | (db', False) \<Rightarrow>
                    (db', Inl (PlainError (''Session deletion changed while operation '' @ operationId
                                @ '' was updating it: '' @ session)))))"

definition store_finalize :: "js_string \<Rightarrow> js_string \<Rightarrow> catalog_db \<Rightarrow> catalog_db \<times> js_error option" where
  "store_finalize session operationId db =
     (case finalizeDeleteIntent session operationId db of
        (db', True) \<Rightarrow> (db', None)
      | (db', False) \<Rightarrow> (db', Some (not_owned session operationId)))"

section \<open>Laws\<close>

definition intent_ok :: "delete_intent \<Rightarrow> bool" where
  "intent_ok i \<longleftrightarrow>
     di_operationId i \<noteq> [] \<and> di_session i \<noteq> [] \<and> di_provider i \<noteq> [] \<and> 0 \<le> di_attempt i
     \<and> [] \<notin> dt_chat ` set (di_targets i) \<and> distinct (map dt_chat (di_targets i))"

lemma phase_read_back [simp]: "map_of deletePhases (phase_text p) = Some p"
  by (cases p) (simp_all add: deletePhases_def phase_text_def)

lemma status_text_simps [simp]:
  "status_text TargetPending = ''pending''" "status_text TargetDeleted = ''deleted''"
  by (simp_all add: status_text_def)

lemma target_properties [simp]:
  "json_property ''chat'' (target_json t) = Some (JString (dt_chat t))"
  "json_property ''providerData'' (target_json t) = map_option JString (dt_providerData t)"
  "json_property ''status'' (target_json t) = Some (JString (status_text (dt_status t)))"
  by (simp_all add: json_property_def target_json_def split: option.split)

lemma read_target_json:
  "read_target chats (target_json t) =
     (if dt_chat t = [] then Inl (PlainError ''Session delete target requires a chat URI'')
      else if dt_chat t \<in> set chats then Inl (PlainError (''Duplicate session delete target: '' @ dt_chat t))
      else Inr t)"
  by (cases "dt_status t"; cases "dt_providerData t") (auto simp: read_target_def Let_def)

lemma read_targets_json:
  "(\<exists>ts'. read_targets chats (map target_json ts) = Inr ts')
     \<longleftrightarrow> [] \<notin> dt_chat ` set ts \<and> distinct (map dt_chat ts) \<and> set chats \<inter> dt_chat ` set ts = {}"
  "read_targets chats (map target_json ts) = Inr ts' \<Longrightarrow> ts' = ts"
proof (induction ts arbitrary: chats ts')
  case (Cons t ts)
  { case 1
    show ?case
      using Cons.IH(1) [of "dt_chat t # chats"]
      by (cases "read_targets (dt_chat t # chats) (map target_json ts)") (auto simp: read_target_json)
  next
    case 2
    then show ?case
      using Cons.IH(2) [of "dt_chat t # chats"]
      by (cases "read_targets (dt_chat t # chats) (map target_json ts)")
        (auto simp: read_target_json split: if_splits)
  }
qed simp_all

lemma check_intent_iff: "check_intent i = Inr j \<longleftrightarrow> intent_ok i \<and> j = i"
proof -
  have "(\<exists>ts. read_targets [] (map target_json (di_targets i)) = Inr ts)
          \<longleftrightarrow> [] \<notin> dt_chat ` set (di_targets i) \<and> distinct (map dt_chat (di_targets i))"
    using read_targets_json(1) [of "[]" "di_targets i"] by simp
  then show ?thesis
    using read_targets_json(2) [of "[]" "di_targets i"]
    by (cases "read_targets [] (map target_json (di_targets i))")
      (auto simp: check_intent_def fromDatabaseIntent_def validateDeleteIntent_def toDatabaseIntent_def intent_ok_def)
qed

text \<open>What was written is read back.\<close>

lemma intent_read_back: "intent_ok i \<Longrightarrow> fromDatabaseIntent (di_session i) (toDatabaseIntent i) = Inr i"
  using check_intent_iff [of i i] by (simp add: check_intent_def)

end
