(* ===== verification/Session_Delete.thy ===== *)
theory Session_Delete
  imports Lifecycle_Store
begin

text \<open>
  The durable deletion of a session, class \<open>AgentSessionLifecycleService\<close> of
  \<open>node/fumie/agentSessionLifecycleService.ts\<close>, for one session: the process-local gate, and
  \<open>_deleteSessionNow\<close> cut at its \<open>await\<close>s into stages. The host's callbacks and the database are
  the environment: a \<open>reply\<close> is how the awaited call ends, and the process may end between any two
  replies and start again.

  \<open>Reject\<close> is a call that rejects without an effect; \<open>RejectLate\<close> one whose database statement took
  effect and whose promise rejected all the same. \<open>dw_calls\<close> records what the host did for the
  delete intent that is stored, and is not part of the program.
\<close>

section \<open>Stages\<close>

datatype delete_stage =
    Queued
  | AwaitLoad
  | AwaitGet
  | AwaitCapture
  | AwaitPrepare delete_intent
  | AwaitStopUpdate delete_intent
  | AwaitStop delete_intent
  | AwaitBackingsUpdate delete_intent
  | AwaitDelete delete_intent nat "js_error option"
  | AwaitRecord delete_intent nat "js_error option"
  | AwaitCleanUpdate delete_intent
  | AwaitClean delete_intent
  | AwaitFinalize delete_intent
  | AwaitAnnounce delete_intent
  | AwaitErrorUpdate delete_intent js_error

datatype load_state = LoadPending | LoadReady | LoadFailed js_error

datatype host_call = BackingDeleted js_string | CleanedUp

datatype delete_outcome = DeleteDone | DeleteFailed js_error

record delete_world =
  dw_db :: catalog_db
  dw_load :: load_state
  dw_deleting :: "js_string list"
  dw_stage :: "(js_string \<times> delete_stage) option"
  dw_outcome :: "delete_outcome option"
  dw_calls :: "host_call list"

text \<open>
  How an awaited call ends. \<open>Answered\<close> carries what the call and the code after it read from the
  outside: the time, a fresh operation id, and the targets \<open>captureDeleteTargets\<close> found.
\<close>

datatype reply =
    Answered int js_string "(js_string \<times> js_string option) list"
  | Reject js_error
  | RejectLate int js_error

definition isReady :: "delete_world \<Rightarrow> bool" where
  "isReady w = (dw_load w = LoadReady)"

definition isDeleting :: "js_string \<Rightarrow> delete_world \<Rightarrow> bool" where
  "isDeleting session w = (session \<in> set (dw_deleting w))"

text \<open>What \<open>assertMutable\<close> answers once the load has ended; \<open>None\<close> while it waits for the load.\<close>

definition assertMutable :: "js_string \<Rightarrow> delete_world \<Rightarrow> unit js_result option" where
  "assertMutable session w =
     (case dw_load w of
        LoadPending \<Rightarrow> None
      | LoadFailed e \<Rightarrow> Some (Inl e)
      | LoadReady \<Rightarrow>
          if isDeleting session w then Some (Inl (PlainError (''Session is being deleted: '' @ session)))
          else Some (Inr ()))"

definition gate :: "js_string \<Rightarrow> delete_world \<Rightarrow> delete_world" where
  "gate session w =
     w\<lparr>dw_deleting := (if session \<in> set (dw_deleting w) then dw_deleting w else dw_deleting w @ [session])\<rparr>"

section \<open>Start-up and requests\<close>

text \<open>A new process: the constructor starts \<open>_loadPendingDeletes\<close>.\<close>

definition restart :: "delete_world \<Rightarrow> delete_world" where
  "restart w = w\<lparr>dw_load := LoadPending, dw_deleting := [], dw_stage := None, dw_outcome := None\<rparr>"

definition loadPendingDeletes :: "delete_world \<Rightarrow> delete_world" where
  "loadPendingDeletes w =
     (case store_list (dw_db w) of
        Inl e \<Rightarrow> w\<lparr>dw_load := LoadFailed e\<rparr>
      | Inr intents \<Rightarrow> (fold (\<lambda>i. gate (di_session i)) intents w)\<lparr>dw_load := LoadReady\<rparr>)"

text \<open>\<open>deleteSession\<close>: a delete of the session that is in flight is joined.\<close>

definition deleteSession_request :: "js_string \<Rightarrow> js_string \<Rightarrow> delete_world \<Rightarrow> delete_world" where
  "deleteSession_request session provider w =
     (if dw_stage w \<noteq> None then w
      else (gate session w)\<lparr>dw_stage := Some (provider, Queued), dw_outcome := None\<rparr>)"

text \<open>Which sessions \<open>resumePendingDeletes\<close> deletes, when the load and the listing succeed.\<close>

definition resumePendingDeletes :: "js_string \<Rightarrow> catalog_db \<Rightarrow> js_string list js_result" where
  "resumePendingDeletes provider db =
     js_map (\<lambda>intents. map di_session (filter (\<lambda>i. di_provider i = provider) intents)) (store_list db)"

section \<open>One attempt\<close>

text \<open>Where the \<open>for\<close> loop stops next: the first target from \<open>i\<close> on that is not deleted.\<close>

definition next_target :: "delete_intent \<Rightarrow> nat \<Rightarrow> nat option" where
  "next_target intent i =
     map_option (\<lambda>j. i + j) (find_index (\<lambda>t. dt_status t \<noteq> TargetDeleted) (drop i (di_targets intent)))"

definition enter_loop :: "delete_intent \<Rightarrow> nat \<Rightarrow> js_error option \<Rightarrow> delete_stage" where
  "enter_loop intent i firstError =
     (case next_target intent i of
        Some j \<Rightarrow> AwaitDelete intent j firstError
      | None \<Rightarrow>
         (case firstError of
            Some e \<Rightarrow> AwaitErrorUpdate intent e
          | None \<Rightarrow> AwaitCleanUpdate intent))"

definition mark_deleted :: "nat \<Rightarrow> delete_target list \<Rightarrow> delete_target list" where
  "mark_deleted i ts = (if i < length ts then ts[i := (ts ! i)\<lparr>dt_status := TargetDeleted\<rparr>] else ts)"

definition no_patch :: "int \<Rightarrow> delete_intent_patch" where
  "no_patch t = \<lparr>pat_phase = None, pat_targets = None, pat_attempt = None, pat_lastError = None, pat_updatedAt = t\<rparr>"

definition stop_patch :: "int \<Rightarrow> delete_intent \<Rightarrow> delete_intent_patch" where
  "stop_patch t i = (no_patch t)\<lparr>pat_phase := Some PhaseStopping, pat_attempt := Some (di_attempt i + 1),
     pat_lastError := Some None\<rparr>"

definition backings_patch :: "int \<Rightarrow> delete_intent_patch" where
  "backings_patch t = (no_patch t)\<lparr>pat_phase := Some PhaseDeletingBackings\<rparr>"

definition clean_patch :: "int \<Rightarrow> delete_intent_patch" where
  "clean_patch t = (no_patch t)\<lparr>pat_phase := Some PhaseCleaningFumie\<rparr>"

definition record_patch :: "int \<Rightarrow> delete_intent \<Rightarrow> nat \<Rightarrow> delete_intent_patch" where
  "record_patch t i n = (no_patch t)\<lparr>pat_targets := Some (mark_deleted n (di_targets i))\<rparr>"

definition error_patch :: "int \<Rightarrow> js_error \<Rightarrow> delete_intent_patch" where
  "error_patch t e =
     (no_patch t)\<lparr>pat_lastError := Some (Some (case e of RangeError msg \<Rightarrow> msg | PlainError msg \<Rightarrow> msg))\<rparr>"

definition new_intent ::
    "js_string \<Rightarrow> js_string \<Rightarrow> int \<Rightarrow> js_string \<Rightarrow> (js_string \<times> js_string option) list \<Rightarrow> delete_intent" where
  "new_intent session provider now uuid captured =
     \<lparr>di_operationId = uuid, di_session = session, di_provider = provider, di_phase = PhasePrepared,
      di_targets = map (\<lambda>(chat, data). \<lparr>dt_chat = chat, dt_providerData = data, dt_status = TargetPending\<rparr>) captured,
      di_attempt = 0, di_createdAt = now, di_updatedAt = now, di_lastError = None\<rparr>"

definition go_to :: "js_string \<Rightarrow> delete_stage \<Rightarrow> delete_world \<Rightarrow> delete_world" where
  "go_to provider stage w = w\<lparr>dw_stage := Some (provider, stage)\<rparr>"

definition end_attempt :: "delete_outcome \<Rightarrow> delete_world \<Rightarrow> delete_world" where
  "end_attempt outcome w = w\<lparr>dw_stage := None, dw_outcome := Some outcome\<rparr>"

text \<open>A rejection inside the \<open>try\<close> is recorded in the intent first; one before it ends the attempt.\<close>

fun rejected_at :: "delete_stage \<Rightarrow> js_error \<Rightarrow> delete_stage option" where
  "rejected_at (AwaitStopUpdate i) e = Some (AwaitErrorUpdate i e)"
| "rejected_at (AwaitStop i) e = Some (AwaitErrorUpdate i e)"
| "rejected_at (AwaitBackingsUpdate i) e = Some (AwaitErrorUpdate i e)"
| "rejected_at (AwaitDelete i n err) e = Some (enter_loop i (Suc n) (orelse err (Some e)))"
| "rejected_at (AwaitRecord i n err) e = Some (AwaitErrorUpdate i e)"
| "rejected_at (AwaitCleanUpdate i) e = Some (AwaitErrorUpdate i e)"
| "rejected_at (AwaitClean i) e = Some (AwaitErrorUpdate i e)"
| "rejected_at (AwaitFinalize i) e = Some (AwaitErrorUpdate i e)"
| "rejected_at (AwaitAnnounce i) e = Some (AwaitErrorUpdate i e)"
| "rejected_at _ e = None"

definition reject :: "js_string \<Rightarrow> delete_stage \<Rightarrow> js_error \<Rightarrow> delete_world \<Rightarrow> delete_world" where
  "reject provider stage e w =
     (case stage of
        AwaitErrorUpdate i original \<Rightarrow> end_attempt (DeleteFailed original) w
      | _ \<Rightarrow>
         (case rejected_at stage e of
            Some stage' \<Rightarrow> go_to provider stage' w
          | None \<Rightarrow> end_attempt (DeleteFailed e) w))"

text \<open>\<open>store.update\<close> and what follows it: the continuation gets the updated intent.\<close>

definition updating ::
    "js_string \<Rightarrow> js_string \<Rightarrow> delete_stage \<Rightarrow> delete_intent \<Rightarrow> delete_intent_patch \<Rightarrow> (delete_intent \<Rightarrow> delete_stage)
     \<Rightarrow> delete_world \<Rightarrow> delete_world" where
  "updating session provider stage i patch k w =
     (case store_update session (di_operationId i) patch (dw_db w) of
        (db, Inl e) \<Rightarrow> reject provider stage e (w\<lparr>dw_db := db\<rparr>)
      | (db, Inr i') \<Rightarrow> go_to provider (k i') (w\<lparr>dw_db := db\<rparr>))"

definition preparing :: "js_string \<Rightarrow> js_string \<Rightarrow> delete_intent \<Rightarrow> delete_world \<Rightarrow> delete_world" where
  "preparing session provider i w =
     (case store_prepare i (dw_db w) of
        (db, Inl e) \<Rightarrow> end_attempt (DeleteFailed e) (w\<lparr>dw_db := db\<rparr>)
      | (db, Inr i') \<Rightarrow>
          go_to provider (AwaitStopUpdate i')
            (gate session
              (w\<lparr>dw_db := db,
                 dw_calls := (if getDeleteIntent session (dw_db w) = None then [] else dw_calls w)\<rparr>)))"

definition fetched :: "js_string \<Rightarrow> js_string \<Rightarrow> delete_world \<Rightarrow> delete_world" where
  "fetched session provider w =
     (case store_get session (dw_db w) of
        Inl e \<Rightarrow> end_attempt (DeleteFailed e) w
      | Inr None \<Rightarrow> go_to provider AwaitCapture w
      | Inr (Some i) \<Rightarrow>
          if di_provider i \<noteq> provider
          then end_attempt (DeleteFailed (PlainError (''Delete intent provider mismatch for '' @ session @ '': ''
                 @ di_provider i @ '' !== '' @ provider))) w
          else go_to provider (AwaitStopUpdate i) (gate session w))"

definition loaded :: "js_string \<Rightarrow> delete_world \<Rightarrow> delete_world" where
  "loaded provider w =
     (case dw_load w of
        LoadPending \<Rightarrow> w
      | LoadFailed e \<Rightarrow> end_attempt (DeleteFailed e) w
      | LoadReady \<Rightarrow> go_to provider AwaitGet w)"

definition finalizing :: "js_string \<Rightarrow> js_string \<Rightarrow> delete_intent \<Rightarrow> delete_world \<Rightarrow> delete_world" where
  "finalizing session provider i w =
     (case store_finalize session (di_operationId i) (dw_db w) of
        (db, Some e) \<Rightarrow> reject provider (AwaitFinalize i) e (w\<lparr>dw_db := db\<rparr>)
      | (db, None) \<Rightarrow> go_to provider (AwaitAnnounce i) (w\<lparr>dw_db := db\<rparr>))"

definition called :: "host_call \<Rightarrow> delete_world \<Rightarrow> delete_world" where
  "called c w = w\<lparr>dw_calls := dw_calls w @ [c]\<rparr>"

definition ungate :: "js_string \<Rightarrow> delete_world \<Rightarrow> delete_world" where
  "ungate session w = w\<lparr>dw_deleting := removeAll session (dw_deleting w)\<rparr>"

definition answered ::
    "js_string \<Rightarrow> js_string \<Rightarrow> delete_stage \<Rightarrow> int \<Rightarrow> js_string \<Rightarrow> (js_string \<times> js_string option) list
     \<Rightarrow> delete_world \<Rightarrow> delete_world" where
  "answered session provider stage now uuid captured w =
     (case stage of
        Queued \<Rightarrow> go_to provider AwaitLoad w
      | AwaitLoad \<Rightarrow> loaded provider w
      | AwaitGet \<Rightarrow> fetched session provider w
      | AwaitCapture \<Rightarrow> go_to provider (AwaitPrepare (new_intent session provider now uuid captured)) w
      | AwaitPrepare i \<Rightarrow> preparing session provider i w
      | AwaitStopUpdate i \<Rightarrow> updating session provider stage i (stop_patch now i) AwaitStop w
      | AwaitStop i \<Rightarrow> go_to provider (AwaitBackingsUpdate i) w
      | AwaitBackingsUpdate i \<Rightarrow> updating session provider stage i (backings_patch now) (\<lambda>i'. enter_loop i' 0 None) w
      | AwaitDelete i n err \<Rightarrow>
          go_to provider (AwaitRecord i n err) (called (BackingDeleted (dt_chat (di_targets i ! n))) w)
      | AwaitRecord i n err \<Rightarrow>
          updating session provider stage i (record_patch now i n) (\<lambda>i'. enter_loop i' (Suc n) err) w
      | AwaitCleanUpdate i \<Rightarrow> updating session provider stage i (clean_patch now) AwaitClean w
      | AwaitClean i \<Rightarrow> go_to provider (AwaitFinalize i) (called CleanedUp w)
      | AwaitFinalize i \<Rightarrow> finalizing session provider i w
      | AwaitAnnounce i \<Rightarrow> end_attempt DeleteDone (ungate session w)
      | AwaitErrorUpdate i e \<Rightarrow>
          end_attempt (DeleteFailed e) (w\<lparr>dw_db := fst (store_update session (di_operationId i) (error_patch now e) (dw_db w))\<rparr>))"

text \<open>The effect a rejected database call may have had.\<close>

definition late_effect :: "js_string \<Rightarrow> delete_stage \<Rightarrow> int \<Rightarrow> delete_world \<Rightarrow> delete_world" where
  "late_effect session stage now w =
     (let update = (\<lambda>i patch. w\<lparr>dw_db := fst (store_update session (di_operationId i) patch (dw_db w))\<rparr>)
      in case stage of
           AwaitPrepare i \<Rightarrow>
             w\<lparr>dw_db := fst (store_prepare i (dw_db w)),
               dw_calls := (if getDeleteIntent session (dw_db w) = None then [] else dw_calls w)\<rparr>
         | AwaitStopUpdate i \<Rightarrow> update i (stop_patch now i)
         | AwaitBackingsUpdate i \<Rightarrow> update i (backings_patch now)
         | AwaitRecord i n err \<Rightarrow> update i (record_patch now i n)
         | AwaitCleanUpdate i \<Rightarrow> update i (clean_patch now)
         | AwaitFinalize i \<Rightarrow> w\<lparr>dw_db := fst (store_finalize session (di_operationId i) (dw_db w))\<rparr>
         | AwaitErrorUpdate i e \<Rightarrow> update i (error_patch now e)
         | _ \<Rightarrow> w)"

definition advance :: "js_string \<Rightarrow> reply \<Rightarrow> delete_world \<Rightarrow> delete_world" where
  "advance session r w =
     (case dw_stage w of
        None \<Rightarrow> w
      | Some (provider, stage) \<Rightarrow>
         (case r of
            Answered now uuid captured \<Rightarrow> answered session provider stage now uuid captured w
          | Reject e \<Rightarrow> if stage = Queued \<or> stage = AwaitLoad then w else reject provider stage e w
          | RejectLate now e \<Rightarrow>
              if stage = Queued \<or> stage = AwaitLoad then w
              else reject provider stage e (late_effect session stage now w)))"

section \<open>Runs\<close>

text \<open>
  What else goes on: other sessions are created and deleted, and this session's row and tombstone
  may change; its delete intent and its place in the gate are the attempt's own.
\<close>

definition same_session :: "js_string \<Rightarrow> delete_world \<Rightarrow> delete_world \<Rightarrow> bool" where
  "same_session session w w' \<longleftrightarrow>
     getDeleteIntent session (dw_db w') = getDeleteIntent session (dw_db w)
     \<and> isDeleting session w' = isDeleting session w
     \<and> dw_load w' = dw_load w \<and> dw_stage w' = dw_stage w \<and> dw_outcome w' = dw_outcome w \<and> dw_calls w' = dw_calls w"

inductive delete_step :: "js_string \<Rightarrow> delete_world \<Rightarrow> delete_world \<Rightarrow> bool" for session where
  Request: "delete_step session w (deleteSession_request session provider w)"
| Reply: "delete_step session w (advance session r w)"
| Load: "dw_load w = LoadPending \<Longrightarrow> delete_step session w (loadPendingDeletes w)"
| LoadFails: "dw_load w = LoadPending \<Longrightarrow> delete_step session w (w\<lparr>dw_load := LoadFailed e\<rparr>)"
| Restart: "delete_step session w (restart w)"
| Elsewhere: "same_session session w w' \<Longrightarrow> delete_step session w w'"

inductive_cases delete_stepE: "delete_step session w w'"

text \<open>A process starts on a database in which no delete of the session is pending.\<close>

definition delete_start :: "js_string \<Rightarrow> delete_world \<Rightarrow> bool" where
  "delete_start session w \<longleftrightarrow>
     getDeleteIntent session (dw_db w) = None \<and> dw_load w = LoadPending \<and> dw_deleting w = [] \<and> dw_stage w = None"

inductive delete_run :: "js_string \<Rightarrow> delete_world \<Rightarrow> bool" for session where
  Start: "delete_start session w \<Longrightarrow> delete_run session w"
| Step: "delete_run session w \<Longrightarrow> delete_step session w w' \<Longrightarrow> delete_run session w'"

end
