(* ===== verification/Delete_Properties.thy ===== *)
theory Delete_Properties
  imports Session_Delete
begin

text \<open>
  What the durable deletion of a session guarantees over every failure and every restart: the
  invariant that ties the stage of the running attempt to the stored intent and to what the host has
  done, by rule induction over the runs of \<open>Session_Delete\<close>, and the properties that follow.
\<close>

section \<open>The stored intent\<close>

abbreviation stored :: "js_string \<Rightarrow> catalog_db \<Rightarrow> intent_row option" where
  "stored \<equiv> getDeleteIntent"

lemma stored_simps [simp]:
  "stored s (db\<lparr>db_sessions := x\<rparr>) = stored s db"
  "stored s (db\<lparr>db_metadata := y\<rparr>) = stored s db"
  "stored s (set_meta k db) = stored s db"
  "stored s (drop_meta k db) = stored s db"
  by (simp_all add: getDeleteIntent_def set_meta_def drop_meta_def)

lemma toDatabaseIntent_eq_iff:
  assumes "intent_ok i" "intent_ok j" "di_session i = di_session j"
  shows "toDatabaseIntent i = toDatabaseIntent j \<longleftrightarrow> i = j"
  by (metis assms intent_read_back sum.inject(2))

lemma assign_columns_eq:
  "di_operationId j = di_operationId i \<Longrightarrow> di_provider j = di_provider i \<Longrightarrow> di_createdAt j = di_createdAt i
     \<Longrightarrow> assign_columns j (toDatabaseIntent i) = toDatabaseIntent j"
  by (simp add: assign_columns_def toDatabaseIntent_def)

lemma apply_patch_simps [simp]:
  "di_operationId (apply_patch p i) = di_operationId i" "di_session (apply_patch p i) = di_session i"
  "di_provider (apply_patch p i) = di_provider i" "di_createdAt (apply_patch p i) = di_createdAt i"
  "di_targets (apply_patch p i) = or_default (pat_targets p) (di_targets i)"
  by (simp_all add: apply_patch_def)

definition holds :: "js_string \<Rightarrow> catalog_db \<Rightarrow> delete_intent \<Rightarrow> bool" where
  "holds session db i \<longleftrightarrow> stored session db = Some (toDatabaseIntent i) \<and> intent_ok i \<and> di_session i = session"

lemma store_get_holds: "holds session db i \<Longrightarrow> store_get session db = Inr (Some i)"
  using intent_read_back [of i] by (auto simp: holds_def store_get_def)

lemma holds_unique: "holds session db i \<Longrightarrow> holds session db j \<Longrightarrow> i = j"
  using toDatabaseIntent_eq_iff [of i j] by (simp add: holds_def)

lemma store_update_holds:
  assumes "holds session db i" "intent_ok (apply_patch p i)"
  obtains db' where "store_update session (di_operationId i) p db = (db', Inr (apply_patch p i))"
    "holds session db' (apply_patch p i)"
proof -
  have *: "map_of (db_intents db) session = Some (toDatabaseIntent i)" "di_session i = session"
    using assms(1) by (simp_all add: holds_def getDeleteIntent_def)
  let ?db = "db\<lparr>db_intents := AList.update session (toDatabaseIntent (apply_patch p i)) (db_intents db)\<rparr>"
  have "updateDeleteIntent session (di_operationId i) (assign_columns (apply_patch p i)) db = (?db, True)"
    using * by (simp add: updateDeleteIntent_def assign_columns_eq) (simp add: toDatabaseIntent_def)
  moreover have "check_intent (apply_patch p i) = Inr (apply_patch p i)"
    using assms(2) by (simp add: check_intent_iff)
  ultimately have "store_update session (di_operationId i) p db = (?db, Inr (apply_patch p i))"
    using store_get_holds [OF assms(1)] by (simp add: store_update_def Let_def)
  moreover have "holds session ?db (apply_patch p i)"
    using assms(2) * by (simp add: holds_def getDeleteIntent_def update_conv')
  ultimately show thesis by (rule that)
qed

text \<open>An update of an intent that is not the stored one changes nothing.\<close>

lemma store_update_cases:
  assumes "\<And>r. stored session db = Some r \<Longrightarrow> \<exists>j. holds session db j"
  obtains (same) "fst (store_update session op p db) = db"
    | (updated) i where "holds session db i" "op = di_operationId i" "intent_ok (apply_patch p i)"
proof (cases "stored session db")
  case None
  then have "fst (store_update session op p db) = db" by (simp add: store_update_def store_get_def)
  then show thesis by (rule same)
next
  case (Some r)
  then obtain j where j: "holds session db j" using assms by blast
  show thesis
  proof (cases "op = di_operationId j \<and> intent_ok (apply_patch p j)")
    case True
    with j show thesis using updated by blast
  next
    case False
    then have "fst (store_update session op p db) = db"
      using store_get_holds [OF j] check_intent_iff [of "apply_patch p j"]
      by (cases "check_intent (apply_patch p j)") (auto simp: store_update_def Let_def)
    then show thesis by (rule same)
  qed
qed

lemma finalize_effect:
  "stored session (fst (finalizeDeleteIntent session op db)) = (if snd (finalizeDeleteIntent session op db) then None else stored session db)"
  "snd (finalizeDeleteIntent session op db) \<longleftrightarrow> map_option irow_operationId (stored session db) = Some op"
  "snd (finalizeDeleteIntent session op db) \<Longrightarrow> isSessionTombstoned session (fst (finalizeDeleteIntent session op db))"
  "snd (finalizeDeleteIntent session op db) \<Longrightarrow> getSession session (fst (finalizeDeleteIntent session op db)) = None"
proof -
  have owned: "snd (finalizeDeleteIntent session op db) \<longleftrightarrow> map_option irow_operationId (stored session db) = Some op"
    by (simp add: finalizeDeleteIntent_def getDeleteIntent_def Let_def)
  then show "snd (finalizeDeleteIntent session op db) \<longleftrightarrow> map_option irow_operationId (stored session db) = Some op" .
  show "stored session (fst (finalizeDeleteIntent session op db)) = (if snd (finalizeDeleteIntent session op db) then None else stored session db)"
    by (simp add: finalizeDeleteIntent_def getDeleteIntent_def Let_def delete_conv')
  assume "snd (finalizeDeleteIntent session op db)"
  then have "map_option irow_operationId (map_of (db_intents db) session) = Some op"
    by (simp only: owned getDeleteIntent_def)
  then show "isSessionTombstoned session (fst (finalizeDeleteIntent session op db))"
      "getSession session (fst (finalizeDeleteIntent session op db)) = None"
    by (simp_all add: finalizeDeleteIntent_def Let_def isSessionTombstoned_def has_meta_def drop_meta_def set_meta_def
        getSession_def delete_conv' update_conv' tombstoneKey_def agentMergeEnabledKey_def)
qed

lemma store_finalize_eq:
  "store_finalize session op db =
     (fst (finalizeDeleteIntent session op db), if snd (finalizeDeleteIntent session op db) then None else Some (not_owned session op))"
  by (cases "finalizeDeleteIntent session op db") (simp add: store_finalize_def split: bool.split)

lemma finalize_holds:
  assumes "holds session db i"
  obtains db' where "store_finalize session (di_operationId i) db = (db', None)" "stored session db' = None"
    "isSessionTombstoned session db'" "getSession session db' = None"
proof -
  have "snd (finalizeDeleteIntent session (di_operationId i) db)"
    using assms by (simp add: finalize_effect(2) holds_def toDatabaseIntent_def)
  with finalize_effect [of session "di_operationId i" db] show thesis
    by (intro that [of "fst (finalizeDeleteIntent session (di_operationId i) db)"]) (simp_all add: store_finalize_eq)
qed

lemma finalize_stored:
  "stored session (fst (store_finalize session op db)) = stored session db
     \<or> stored session (fst (store_finalize session op db)) = None"
  by (simp add: store_finalize_eq finalize_effect(1))

lemma prepare_stored:
  assumes "stored session db = None" "di_session i = session"
  shows "(\<exists>db'. store_prepare i db = (db', Inr i) \<and> holds session db' i)
    \<or> (\<exists>e. store_prepare i db = (db, Inl e))"
proof (cases "check_intent i")
  case (Inr j)
  then have ok: "intent_ok i" by (simp add: check_intent_iff)
  let ?db = "db\<lparr>db_intents := AList.update session (toDatabaseIntent i) (db_intents db)\<rparr>"
  have "holds session ?db i" using ok assms(2) by (simp add: holds_def getDeleteIntent_def update_conv')
  moreover have "fromDatabaseIntent session (toDatabaseIntent i) = Inr i"
    using intent_read_back [OF ok] assms(2) by simp
  ultimately show ?thesis
    using assms ok by (auto simp: store_prepare_def check_intent_iff prepareDeleteIntent_def getDeleteIntent_def Inr)
qed (simp add: store_prepare_def)

section \<open>The invariant\<close>

definition done_in :: "host_call list \<Rightarrow> delete_intent \<Rightarrow> bool" where
  "done_in calls i \<longleftrightarrow> (\<forall>t\<in>set (di_targets i). dt_status t = TargetDeleted \<longrightarrow> BackingDeleted (dt_chat t) \<in> set calls)"

definition all_deleted :: "delete_intent \<Rightarrow> bool" where
  "all_deleted i \<longleftrightarrow> (\<forall>t\<in>set (di_targets i). dt_status t = TargetDeleted)"

definition owns :: "js_string \<Rightarrow> js_string \<Rightarrow> delete_world \<Rightarrow> delete_intent \<Rightarrow> bool" where
  "owns session provider w i \<longleftrightarrow> holds session (dw_db w) i \<and> done_in (dw_calls w) i \<and> di_provider i = provider"

definition at_target :: "delete_intent \<Rightarrow> nat \<Rightarrow> js_error option \<Rightarrow> bool" where
  "at_target i n err \<longleftrightarrow>
     n < length (di_targets i) \<and> dt_status (di_targets i ! n) = TargetPending
     \<and> (err = None \<longrightarrow> (\<forall>k<n. dt_status (di_targets i ! k) = TargetDeleted))"

fun stage_ok :: "js_string \<Rightarrow> delete_world \<Rightarrow> js_string \<Rightarrow> delete_stage \<Rightarrow> bool" where
  "stage_ok session w provider AwaitCapture \<longleftrightarrow> stored session (dw_db w) = None"
| "stage_ok session w provider (AwaitPrepare i) \<longleftrightarrow>
     stored session (dw_db w) = None \<and> di_session i = session \<and> di_provider i = provider
     \<and> (\<forall>t\<in>set (di_targets i). dt_status t = TargetPending)"
| "stage_ok session w provider (AwaitStopUpdate i) \<longleftrightarrow> owns session provider w i"
| "stage_ok session w provider (AwaitStop i) \<longleftrightarrow> owns session provider w i"
| "stage_ok session w provider (AwaitBackingsUpdate i) \<longleftrightarrow> owns session provider w i"
| "stage_ok session w provider (AwaitDelete i n err) \<longleftrightarrow> owns session provider w i \<and> at_target i n err"
| "stage_ok session w provider (AwaitRecord i n err) \<longleftrightarrow>
     owns session provider w i \<and> at_target i n err \<and> BackingDeleted (dt_chat (di_targets i ! n)) \<in> set (dw_calls w)"
| "stage_ok session w provider (AwaitCleanUpdate i) \<longleftrightarrow> owns session provider w i \<and> all_deleted i"
| "stage_ok session w provider (AwaitClean i) \<longleftrightarrow> owns session provider w i \<and> all_deleted i"
| "stage_ok session w provider (AwaitFinalize i) \<longleftrightarrow>
     owns session provider w i \<and> all_deleted i \<and> CleanedUp \<in> set (dw_calls w)"
| "stage_ok session w provider (AwaitAnnounce i) \<longleftrightarrow> stored session (dw_db w) = None"
| "stage_ok session w provider _ \<longleftrightarrow> True"

definition row_ok :: "js_string \<Rightarrow> delete_world \<Rightarrow> bool" where
  "row_ok session w \<longleftrightarrow>
     (\<forall>r. stored session (dw_db w) = Some r \<longrightarrow> (\<exists>i. holds session (dw_db w) i \<and> done_in (dw_calls w) i))"

definition delete_inv :: "js_string \<Rightarrow> delete_world \<Rightarrow> bool" where
  "delete_inv session w \<longleftrightarrow>
     row_ok session w
     \<and> (\<forall>p s. dw_stage w = Some (p, s) \<longrightarrow> isDeleting session w \<and> stage_ok session w p s)
     \<and> (isReady w \<longrightarrow> stored session (dw_db w) \<noteq> None \<longrightarrow> isDeleting session w)"

lemma gate_simps [simp]:
  "dw_db (gate s w) = dw_db w" "dw_load (gate s w) = dw_load w" "dw_stage (gate s w) = dw_stage w"
  "dw_calls (gate s w) = dw_calls w" "dw_outcome (gate s w) = dw_outcome w"
  "isDeleting s' (gate s w) \<longleftrightarrow> s' = s \<or> isDeleting s' w"
  by (auto simp: gate_def isDeleting_def)

lemma world_simps [simp]:
  "isDeleting s (w\<lparr>dw_db := db\<rparr>) = isDeleting s w" "isDeleting s (w\<lparr>dw_calls := cs\<rparr>) = isDeleting s w"
  "isDeleting s (w\<lparr>dw_stage := st\<rparr>) = isDeleting s w" "isDeleting s (w\<lparr>dw_outcome := oc\<rparr>) = isDeleting s w"
  "isDeleting s (w\<lparr>dw_load := ld\<rparr>) = isDeleting s w"
  "isReady (w\<lparr>dw_db := db\<rparr>) = isReady w" "isReady (w\<lparr>dw_calls := cs\<rparr>) = isReady w"
  "isReady (w\<lparr>dw_stage := st\<rparr>) = isReady w" "isReady (w\<lparr>dw_outcome := oc\<rparr>) = isReady w"
  "isReady (gate s w) = isReady w"
  by (simp_all add: isDeleting_def isReady_def)

lemma go_to_simps [simp]:
  "dw_db (go_to p st w) = dw_db w" "dw_load (go_to p st w) = dw_load w" "dw_stage (go_to p st w) = Some (p, st)"
  "dw_calls (go_to p st w) = dw_calls w" "isDeleting s (go_to p st w) = isDeleting s w"
  "isReady (go_to p st w) = isReady w"
  by (simp_all add: go_to_def)

lemma end_attempt_simps [simp]:
  "dw_db (end_attempt oc w) = dw_db w" "dw_load (end_attempt oc w) = dw_load w" "dw_stage (end_attempt oc w) = None"
  "dw_calls (end_attempt oc w) = dw_calls w" "isDeleting s (end_attempt oc w) = isDeleting s w"
  "isReady (end_attempt oc w) = isReady w" "dw_outcome (end_attempt oc w) = Some oc"
  by (simp_all add: end_attempt_def)

lemma called_simps [simp]:
  "dw_db (called c w) = dw_db w" "dw_load (called c w) = dw_load w" "dw_stage (called c w) = dw_stage w"
  "dw_calls (called c w) = dw_calls w @ [c]" "isDeleting s (called c w) = isDeleting s w"
  "isReady (called c w) = isReady w"
  by (simp_all add: called_def isDeleting_def isReady_def)

lemma ungate_simps [simp]:
  "dw_db (ungate s w) = dw_db w" "dw_load (ungate s w) = dw_load w" "dw_stage (ungate s w) = dw_stage w"
  "dw_calls (ungate s w) = dw_calls w" "isReady (ungate s w) = isReady w"
  "isDeleting s' (ungate s w) \<longleftrightarrow> s' \<noteq> s \<and> isDeleting s' w"
  by (auto simp: ungate_def isDeleting_def isReady_def)

text \<open>What a stage needs is preserved when the world keeps the row and what the host has done.\<close>

lemma stage_ok_cong:
  assumes "stored session (dw_db w') = stored session (dw_db w)" "set (dw_calls w) \<subseteq> set (dw_calls w')"
    "stage_ok session w p st"
  shows "stage_ok session w' p st"
  using assms by (cases st) (auto simp: owns_def holds_def done_in_def)

lemma row_ok_cong:
  assumes "stored session (dw_db w') = stored session (dw_db w)" "set (dw_calls w) \<subseteq> set (dw_calls w')" "row_ok session w"
  shows "row_ok session w'"
  using assms by (fastforce simp: row_ok_def holds_def done_in_def)

lemma owns_row_ok: "owns session p w i \<Longrightarrow> row_ok session w"
  by (auto simp: row_ok_def owns_def)

subsection \<open>Every reply keeps it\<close>

lemma goto_inv:
  assumes "row_ok session w" "isDeleting session w" "stage_ok session w p st"
  shows "delete_inv session (go_to p st w)"
  using assms row_ok_cong [of session "go_to p st w" w] stage_ok_cong [of session "go_to p st w" w p st]
  by (simp add: delete_inv_def)

lemma end_attempt_inv:
  assumes "row_ok session w" "isDeleting session w \<or> stored session (dw_db w) = None"
  shows "delete_inv session (end_attempt oc w)"
  using assms row_ok_cong [of session "end_attempt oc w" w] by (auto simp: delete_inv_def)

lemma next_target_facts:
  "next_target i m = Some n \<Longrightarrow> m \<le> n \<and> n < length (di_targets i) \<and> dt_status (di_targets i ! n) = TargetPending
     \<and> (\<forall>k. m \<le> k \<and> k < n \<longrightarrow> dt_status (di_targets i ! k) = TargetDeleted)"
  "next_target i m = None \<Longrightarrow> m \<le> k \<Longrightarrow> k < length (di_targets i) \<Longrightarrow> dt_status (di_targets i ! k) = TargetDeleted"
proof -
  assume "next_target i m = Some n"
  then obtain j where j: "n = m + j" "find_index (\<lambda>t. dt_status t \<noteq> TargetDeleted) (drop m (di_targets i)) = Some j"
    by (auto simp: next_target_def)
  note f = find_index_SomeD [OF j(2)]
  have "dt_status (di_targets i ! k) = TargetDeleted" if "m \<le> k" "k < n" for k
    using f that j(1) by (auto dest!: spec [of _ "k - m"])
  with f j(1) show "m \<le> n \<and> n < length (di_targets i) \<and> dt_status (di_targets i ! n) = TargetPending
     \<and> (\<forall>k. m \<le> k \<and> k < n \<longrightarrow> dt_status (di_targets i ! k) = TargetDeleted)"
    by (cases "dt_status (di_targets i ! n)") auto
next
  assume "next_target i m = None" and k: "m \<le> k" "k < length (di_targets i)"
  then have "\<forall>t\<in>set (drop m (di_targets i)). dt_status t = TargetDeleted"
    by (auto simp: next_target_def find_index_None_iff)
  moreover have "di_targets i ! k \<in> set (drop m (di_targets i))"
    using k nth_mem [of "k - m" "drop m (di_targets i)"] by simp
  ultimately show "dt_status (di_targets i ! k) = TargetDeleted" by blast
qed

lemma all_deleted_nth: "all_deleted i \<longleftrightarrow> (\<forall>k<length (di_targets i). dt_status (di_targets i ! k) = TargetDeleted)"
  by (simp add: all_deleted_def all_set_conv_all_nth)

lemma done_in_nth:
  "done_in calls i \<longleftrightarrow> (\<forall>k<length (di_targets i). dt_status (di_targets i ! k) = TargetDeleted
     \<longrightarrow> BackingDeleted (dt_chat (di_targets i ! k)) \<in> set calls)"
  by (simp add: done_in_def all_set_conv_all_nth)

lemma enter_loop_ok:
  assumes "owns session p w i" "err = None \<longrightarrow> (\<forall>k<m. k < length (di_targets i) \<longrightarrow> dt_status (di_targets i ! k) = TargetDeleted)"
  shows "stage_ok session w p (enter_loop i m err)"
proof (cases "next_target i m")
  case None
  have "all_deleted i" if "err = None"
    using assms(2) that next_target_facts(2) [OF None] by (metis all_deleted_nth not_le)
  with None assms(1) show ?thesis by (auto simp: enter_loop_def split: option.split)
next
  case (Some n)
  then show ?thesis
    using next_target_facts(1) [OF Some] assms
    by (auto simp: enter_loop_def at_target_def) (metis not_le order.strict_trans)
qed

lemma reject_inv:
  assumes "row_ok session w" "isDeleting session w" "\<And>i n err. st = AwaitDelete i n err \<Longrightarrow> stage_ok session w p st"
  shows "delete_inv session (reject p st e w)"
proof (cases st)
  case (AwaitDelete i n err)
  have "stage_ok session w p (enter_loop i (Suc n) (orelse err (Some e)))"
    by (rule enter_loop_ok) (use assms(3) AwaitDelete in \<open>auto split: option.splits elim: orelse.elims\<close>)
  with AwaitDelete assms show ?thesis by (simp add: reject_def goto_inv)
qed (use assms in \<open>simp_all add: reject_def goto_inv end_attempt_inv\<close>)

lemma update_row_ok:
  assumes "row_ok session w"
    "\<And>i. holds session (dw_db w) i \<Longrightarrow> op = di_operationId i \<Longrightarrow> done_in (dw_calls w) i \<Longrightarrow> done_in (dw_calls w) (apply_patch p i)"
  shows "row_ok session (w\<lparr>dw_db := fst (store_update session op p (dw_db w))\<rparr>)"
proof (rule store_update_cases [of session "dw_db w" op p])
  show "\<exists>j. holds session (dw_db w) j" if "stored session (dw_db w) = Some r" for r
    using assms(1) that by (auto simp: row_ok_def)
next
  assume "fst (store_update session op p (dw_db w)) = dw_db w"
  then show ?thesis using assms(1) by simp
next
  fix i assume i: "holds session (dw_db w) i" "op = di_operationId i" "intent_ok (apply_patch p i)"
  obtain j where "holds session (dw_db w) j" "done_in (dw_calls w) j"
    using assms(1) i(1) by (auto simp: row_ok_def holds_def)
  then have "done_in (dw_calls w) (apply_patch p i)" using assms(2) i holds_unique by metis
  moreover obtain db' where "store_update session op p (dw_db w) = (db', Inr (apply_patch p i))" "holds session db' (apply_patch p i)"
    using store_update_holds [OF i(1,3)] i(2) by metis
  ultimately show ?thesis by (auto simp: row_ok_def)
qed

lemma patch_targets [simp]:
  "pat_targets (stop_patch t i) = None" "pat_targets (backings_patch t) = None" "pat_targets (clean_patch t) = None"
  "pat_targets (error_patch t e) = None" "pat_targets (record_patch t i n) = Some (mark_deleted n (di_targets i))"
  by (simp_all add: stop_patch_def backings_patch_def clean_patch_def error_patch_def record_patch_def no_patch_def)

lemma done_in_patch: "pat_targets p = None \<Longrightarrow> done_in calls (apply_patch p i) = done_in calls i"
  by (simp add: done_in_def)

lemma mark_deleted_view [simp]:
  "length (mark_deleted n ts) = length ts" "map dt_chat (mark_deleted n ts) = map dt_chat ts"
  "map dt_providerData (mark_deleted n ts) = map dt_providerData ts"
  by (auto simp: mark_deleted_def map_update intro!: nth_equalityI) (simp_all add: nth_list_update)

lemma mark_deleted_nth:
  "k < length ts \<Longrightarrow> dt_status (mark_deleted n ts ! k) = (if k = n then TargetDeleted else dt_status (ts ! k))"
  by (simp add: mark_deleted_def nth_list_update)

lemma mark_deleted_chat: "k < length ts \<Longrightarrow> dt_chat (mark_deleted n ts ! k) = dt_chat (ts ! k)"
  by (simp add: mark_deleted_def nth_list_update)

lemma intent_ok_patch:
  "intent_ok i \<Longrightarrow> intent_ok (apply_patch (stop_patch t i) i)" "intent_ok i \<Longrightarrow> intent_ok (apply_patch (backings_patch t) i)"
  "intent_ok i \<Longrightarrow> intent_ok (apply_patch (clean_patch t) i)" "intent_ok i \<Longrightarrow> intent_ok (apply_patch (error_patch t e) i)"
  "intent_ok i \<Longrightarrow> intent_ok (apply_patch (record_patch t i n) i)"
  by (simp_all add: intent_ok_def apply_patch_def stop_patch_def backings_patch_def clean_patch_def error_patch_def
      record_patch_def no_patch_def flip: set_map)

lemma done_in_record:
  assumes "done_in calls i" "BackingDeleted (dt_chat (di_targets i ! n)) \<in> set calls"
  shows "done_in calls (apply_patch (record_patch t i n) i)"
  using assms by (simp add: done_in_nth mark_deleted_nth mark_deleted_chat)

lemma updating_inv:
  assumes "owns session p w i" "isDeleting session w" "intent_ok (apply_patch patch i)"
    "done_in (dw_calls w) (apply_patch patch i)"
    "\<And>w'. owns session p w' (apply_patch patch i) \<Longrightarrow> dw_calls w' = dw_calls w \<Longrightarrow> stage_ok session w' p (k (apply_patch patch i))"
  shows "delete_inv session (updating session p st i patch k w)"
proof -
  have h: "holds session (dw_db w) i" using assms(1) by (simp add: owns_def)
  obtain db' where db': "store_update session (di_operationId i) patch (dw_db w) = (db', Inr (apply_patch patch i))"
      "holds session db' (apply_patch patch i)"
    by (rule store_update_holds [OF h assms(3)])
  have o: "owns session p (w\<lparr>dw_db := db'\<rparr>) (apply_patch patch i)"
    using db'(2) assms(1,4) by (simp add: owns_def)
  have "delete_inv session (go_to p (k (apply_patch patch i)) (w\<lparr>dw_db := db'\<rparr>))"
    using assms(2) by (intro goto_inv owns_row_ok [OF o] assms(5) [OF o]) simp_all
  then show ?thesis by (simp add: updating_def db'(1))
qed

lemma answered_inv:
  assumes inv: "delete_inv session w" and st: "dw_stage w = Some (p, st)"
  shows "delete_inv session (answered session p st now uuid captured w)"
proof -
  have row: "row_ok session w" and g: "isDeleting session w" and ok: "stage_ok session w p st"
    using inv st by (auto simp: delete_inv_def)
  show ?thesis
  proof (cases st)
    case AwaitLoad
    then show ?thesis
      using inv row g by (cases "dw_load w") (simp_all add: answered_def loaded_def end_attempt_inv goto_inv)
  next
    case AwaitGet
    show ?thesis
    proof (cases "stored session (dw_db w)")
      case None
      then show ?thesis using AwaitGet row g by (simp add: answered_def fetched_def store_get_def goto_inv)
    next
      case (Some r)
      then obtain i where i: "holds session (dw_db w) i" "done_in (dw_calls w) i" using row by (auto simp: row_ok_def)
      have "delete_inv session (go_to p (AwaitStopUpdate i) (gate session w))" if "di_provider i = p"
        using i that row_ok_cong [of session "gate session w" w] row by (intro goto_inv) (simp_all add: owns_def)
      with i g row show ?thesis
        by (simp add: AwaitGet answered_def fetched_def store_get_holds end_attempt_inv)
    qed
  next
    case AwaitCapture
    then show ?thesis using row g ok by (auto simp: answered_def new_intent_def intro!: goto_inv)
  next
    case (AwaitPrepare i)
    then have i: "stored session (dw_db w) = None" "di_session i = session" "di_provider i = p"
        "\<forall>t\<in>set (di_targets i). dt_status t = TargetPending"
      using ok by simp_all
    from prepare_stored [OF i(1,2)] show ?thesis
    proof (elim disjE exE conjE)
      fix db' assume db': "store_prepare i (dw_db w) = (db', Inr i)" "holds session db' i"
      have "owns session p (gate session (w\<lparr>dw_db := db', dw_calls := []\<rparr>)) i"
        using db'(2) i by (simp add: owns_def done_in_def)
      then have "delete_inv session (go_to p (AwaitStopUpdate i) (gate session (w\<lparr>dw_db := db', dw_calls := []\<rparr>)))"
        by (intro goto_inv owns_row_ok) simp_all
      then show ?thesis by (simp add: AwaitPrepare answered_def preparing_def db'(1) i(1))
    next
      fix e assume "store_prepare i (dw_db w) = (dw_db w, Inl e)"
      then show ?thesis using row g by (simp add: AwaitPrepare answered_def preparing_def end_attempt_inv)
    qed
  next
    case (AwaitStopUpdate i)
    then have "owns session p w i" using ok by simp
    then show ?thesis
      using g by (simp add: AwaitStopUpdate answered_def, intro updating_inv)
        (simp_all add: owns_def holds_def intent_ok_patch done_in_patch)
  next
    case (AwaitBackingsUpdate i)
    then have o: "owns session p w i" using ok by simp
    then have d: "intent_ok i" "done_in (dw_calls w) i" by (simp_all add: owns_def holds_def)
    have "delete_inv session
        (updating session p st i (backings_patch now) (\<lambda>i'. enter_loop i' 0 None) w)"
      using o g d
      by (intro updating_inv enter_loop_ok intent_ok_patch(2) [OF d(1)]) (simp_all add: done_in_patch)
    then show ?thesis by (simp add: AwaitBackingsUpdate answered_def)
  next
    case (AwaitDelete i n err)
    then have o: "owns session p w i" "at_target i n err" using ok by simp_all
    let ?w = "called (BackingDeleted (dt_chat (di_targets i ! n))) w"
    have "owns session p ?w i" using o(1) by (auto simp: owns_def done_in_def)
    then have "delete_inv session (go_to p (AwaitRecord i n err) ?w)"
      using g o(2) by (intro goto_inv owns_row_ok) simp_all
    then show ?thesis by (simp add: AwaitDelete answered_def)
  next
    case (AwaitRecord i n err)
    then have o: "owns session p w i" "at_target i n err" "BackingDeleted (dt_chat (di_targets i ! n)) \<in> set (dw_calls w)"
      using ok by simp_all
    then have d: "intent_ok i" "done_in (dw_calls w) i" by (simp_all add: owns_def holds_def)
    have "delete_inv session
        (updating session p st i (record_patch now i n) (\<lambda>i'. enter_loop i' (Suc n) err) w)"
      using o g
      by (intro updating_inv enter_loop_ok intent_ok_patch(5) [OF d(1)] done_in_record [OF d(2)])
        (auto simp: at_target_def mark_deleted_nth less_Suc_eq)
    then show ?thesis by (simp add: AwaitRecord answered_def)
  next
    case (AwaitCleanUpdate i)
    then have "owns session p w i" "all_deleted i" using ok by simp_all
    then show ?thesis
      using g by (simp add: AwaitCleanUpdate answered_def, intro updating_inv)
        (simp_all add: owns_def holds_def intent_ok_patch done_in_patch all_deleted_def)
  next
    case (AwaitClean i)
    then have o: "owns session p w i" "all_deleted i" using ok by simp_all
    have "owns session p (called CleanedUp w) i" using o(1) by (auto simp: owns_def done_in_def)
    then have "delete_inv session (go_to p (AwaitFinalize i) (called CleanedUp w))"
      using g o(2) by (intro goto_inv owns_row_ok) simp_all
    then show ?thesis by (simp add: AwaitClean answered_def)
  next
    case (AwaitFinalize i)
    then have "holds session (dw_db w) i" using ok by (simp add: owns_def)
    then obtain db' where db': "store_finalize session (di_operationId i) (dw_db w) = (db', None)" "stored session db' = None"
      by (rule finalize_holds)
    have "delete_inv session (go_to p (AwaitAnnounce i) (w\<lparr>dw_db := db'\<rparr>))"
      using g db'(2) by (intro goto_inv) (simp_all add: row_ok_def)
    then show ?thesis by (simp add: AwaitFinalize answered_def finalizing_def db'(1))
  next
    case (AwaitAnnounce i)
    then have "stored session (dw_db w) = None" using ok by simp
    then show ?thesis
      by (simp add: AwaitAnnounce answered_def delete_inv_def row_ok_def)
  next
    case (AwaitErrorUpdate i e)
    have "row_ok session (w\<lparr>dw_db := fst (store_update session (di_operationId i) (error_patch now e) (dw_db w))\<rparr>)"
      by (rule update_row_ok [OF row]) (simp add: done_in_patch)
    then show ?thesis using g by (simp add: AwaitErrorUpdate answered_def end_attempt_inv)
  qed (use row g ok in \<open>simp_all add: answered_def goto_inv\<close>)
qed

lemma late_effect_row:
  assumes inv: "delete_inv session w" and st: "dw_stage w = Some (p, st)"
  shows "row_ok session (late_effect session st now w)"
proof -
  have row: "row_ok session w" and ok: "stage_ok session w p st"
    using inv st by (auto simp: delete_inv_def)
  have up: "row_ok session (w\<lparr>dw_db := fst (store_update session op p' (dw_db w))\<rparr>)" if "pat_targets p' = None" for op p'
    by (rule update_row_ok [OF row]) (simp add: done_in_patch that)
  show ?thesis
  proof (cases st)
    case (AwaitPrepare i)
    then have i: "stored session (dw_db w) = None" "di_session i = session" "\<forall>t\<in>set (di_targets i). dt_status t = TargetPending"
      using ok by simp_all
    from prepare_stored [OF i(1,2)] show ?thesis
      by (elim disjE exE conjE) (use i row in \<open>auto simp: AwaitPrepare late_effect_def row_ok_def done_in_def\<close>)
  next
    case (AwaitRecord i n err)
    then have o: "owns session p w i" "BackingDeleted (dt_chat (di_targets i ! n)) \<in> set (dw_calls w)" using ok by simp_all
    have "row_ok session (w\<lparr>dw_db := fst (store_update session (di_operationId i) (record_patch now i n) (dw_db w))\<rparr>)"
    proof (rule update_row_ok [OF row])
      fix j assume "holds session (dw_db w) j" "done_in (dw_calls w) j"
      moreover from this o(1) have "j = i" using holds_unique by (auto simp: owns_def)
      ultimately show "done_in (dw_calls w) (apply_patch (record_patch now i n) j)" using o(2) done_in_record by simp
    qed
    then show ?thesis by (simp add: AwaitRecord late_effect_def)
  next
    case (AwaitFinalize i)
    then have "holds session (dw_db w) i" using ok by (simp add: owns_def)
    then obtain db' where db': "store_finalize session (di_operationId i) (dw_db w) = (db', None)" "stored session db' = None"
      by (rule finalize_holds)
    then show ?thesis by (simp add: AwaitFinalize late_effect_def row_ok_def)
  qed (use row up in \<open>simp_all add: late_effect_def\<close>)
qed

lemma late_effect_simps [simp]:
  "isDeleting s (late_effect session st now w) = isDeleting s w"
  "\<not> (\<exists>i. st = AwaitPrepare i) \<Longrightarrow> dw_calls (late_effect session st now w) = dw_calls w"
  by (cases st; simp add: late_effect_def)+

lemma advance_inv: "delete_inv session w \<Longrightarrow> delete_inv session (advance session r w)"
proof (cases "dw_stage w")
  case (Some ps)
  obtain p st where ps: "ps = (p, st)" by (cases ps)
  assume inv: "delete_inv session w"
  then have g: "isDeleting session w" "row_ok session w" "stage_ok session w p st" using Some ps by (auto simp: delete_inv_def)
  show ?thesis
  proof (cases r)
    case (RejectLate now e)
    have "delete_inv session (reject p st e (late_effect session st now w))"
    proof (rule reject_inv)
      show "row_ok session (late_effect session st now w)" by (rule late_effect_row [OF inv]) (simp add: Some ps)
      show "stage_ok session (late_effect session st now w) p st" if "st = AwaitDelete i n err" for i n err
        using g(3) that by (simp add: late_effect_def)
    qed (use g(1) in simp)
    then show ?thesis using Some ps inv by (simp add: advance_def RejectLate)
  next
    case (Reject e)
    have "delete_inv session (reject p st e w)" by (rule reject_inv) (use g in auto)
    then show ?thesis using Some ps inv by (simp add: advance_def Reject)
  qed (use Some ps inv answered_inv in \<open>simp add: advance_def\<close>)
qed (simp add: advance_def)

subsection \<open>Every run keeps it\<close>

lemma validate_session: "fromDatabaseIntent s row = Inr i \<Longrightarrow> di_session i = s"
  by (auto simp: fromDatabaseIntent_def validateDeleteIntent_def js_map_def
      split: option.splits if_splits json.splits sum.splits)

lemma read_intents_sessions: "read_intents rows = Inr is \<Longrightarrow> map di_session is = map fst rows"
proof (induction rows arbitrary: "is")
  case (Cons row rows)
  obtain s r where "row = (s, r)" by (cases row)
  with Cons show ?case
    by (cases "fromDatabaseIntent s r"; cases "read_intents rows") (auto simp: validate_session)
qed simp

lemma listed_sessions:
  assumes "store_list db = Inr is"
  shows "set (map di_session is) = fst ` set (db_intents db)"
proof -
  have "set (map di_session is) = set (map fst (listDeleteIntents db))"
    using read_intents_sessions [OF assms [unfolded store_list_def]] by simp
  then show ?thesis by (simp add: listDeleteIntents_def)
qed

lemma stored_listed: "stored session db \<noteq> None \<longleftrightarrow> session \<in> fst ` set (db_intents db)"
  by (simp add: getDeleteIntent_def map_of_eq_None_iff)

lemma fold_gate_simps:
  "dw_db (fold (\<lambda>i. gate (f i)) is w) = dw_db w" "dw_stage (fold (\<lambda>i. gate (f i)) is w) = dw_stage w"
  "dw_calls (fold (\<lambda>i. gate (f i)) is w) = dw_calls w"
  "isDeleting s (fold (\<lambda>i. gate (f i)) is w) \<longleftrightarrow> s \<in> f ` set is \<or> isDeleting s w"
  by (induction "is" arbitrary: w) auto

lemma load_simps:
  "dw_db (loadPendingDeletes w) = dw_db w" "dw_stage (loadPendingDeletes w) = dw_stage w"
  "dw_calls (loadPendingDeletes w) = dw_calls w" "isDeleting s w \<Longrightarrow> isDeleting s (loadPendingDeletes w)"
  by (simp_all add: loadPendingDeletes_def fold_gate_simps split: sum.split)

lemma load_gates:
  assumes "isReady (loadPendingDeletes w)" "stored session (dw_db w) \<noteq> None"
  shows "isDeleting session (loadPendingDeletes w)"
proof (cases "store_list (dw_db w)")
  case (Inr "is")
  then have "session \<in> di_session ` set is"
    using listed_sessions [OF Inr] assms(2) [unfolded stored_listed] by simp
  then show ?thesis by (simp add: loadPendingDeletes_def Inr fold_gate_simps)
qed (use assms in \<open>simp add: loadPendingDeletes_def isReady_def\<close>)

lemma delete_step_inv:
  assumes "delete_step session w w'" "delete_inv session w"
  shows "delete_inv session w'"
  using assms(1)
proof (cases rule: delete_step.cases)
  case (Request provider)
  show ?thesis
  proof (cases "dw_stage w")
    case None
    let ?w = "(gate session w)\<lparr>dw_stage := Some (provider, Queued), dw_outcome := None\<rparr>"
    have "row_ok session ?w" using assms(2) row_ok_cong [of session ?w w] by (simp add: delete_inv_def)
    then show ?thesis using None Request by (simp add: deleteSession_request_def delete_inv_def)
  qed (use assms(2) Request in \<open>simp add: deleteSession_request_def\<close>)
next
  case (Reply r)
  with assms(2) show ?thesis by (simp add: advance_inv)
next
  case Load
  have "row_ok session w'" using assms(2) Load row_ok_cong [of session w' w] by (simp add: delete_inv_def load_simps)
  moreover have "isDeleting session w' \<and> stage_ok session w' p st" if "dw_stage w' = Some (p, st)" for p st
    using assms(2) Load that stage_ok_cong [of session w' w p st] by (simp add: delete_inv_def load_simps)
  ultimately show ?thesis using Load load_gates [of w session] by (auto simp: delete_inv_def load_simps)
next
  case (LoadFails e)
  have "row_ok session w'" using assms(2) LoadFails row_ok_cong [of session w' w] by (simp add: delete_inv_def)
  moreover have "isDeleting session w' \<and> stage_ok session w' p st" if "dw_stage w' = Some (p, st)" for p st
    using assms(2) LoadFails that stage_ok_cong [of session w' w p st] by (simp add: delete_inv_def)
  ultimately show ?thesis using LoadFails by (simp add: delete_inv_def isReady_def)
next
  case Restart
  have "row_ok session w'" using assms(2) Restart row_ok_cong [of session w' w] by (simp add: delete_inv_def restart_def)
  then show ?thesis using Restart by (simp add: delete_inv_def restart_def isReady_def)
next
  case Elsewhere
  then have s: "stored session (dw_db w') = stored session (dw_db w)" "isDeleting session w' = isDeleting session w"
      "dw_load w' = dw_load w" "dw_stage w' = dw_stage w" "dw_calls w' = dw_calls w"
    by (simp_all add: same_session_def)
  then show ?thesis
    using assms(2) row_ok_cong [of session w' w] stage_ok_cong [of session w' w]
    by (auto simp: delete_inv_def isReady_def)
qed

lemma delete_run_inv: "delete_run session w \<Longrightarrow> delete_inv session w"
proof (induction rule: delete_run.induct)
  case (Start w)
  then show ?case by (simp add: delete_start_def delete_inv_def row_ok_def)
next
  case (Step w w')
  then show ?case by (simp add: delete_step_inv)
qed

lemma run_replies: "delete_run session w \<Longrightarrow> delete_run session (fold (advance session) rs w)"
  by (induction rs arbitrary: w) (auto intro: delete_run.Step delete_step.Reply)

section \<open>What a step does to the stored intent\<close>

lemma reject_db [simp]: "dw_db (reject p st e w) = dw_db w"
  by (cases st) (simp_all add: reject_def split: option.split)

lemma updating_db: "dw_db (updating session p st i patch k w) = fst (store_update session (di_operationId i) patch (dw_db w))"
  by (simp add: updating_def split: prod.split sum.split)

lemma answered_db:
  assumes "st \<noteq> AwaitGet" "st \<noteq> AwaitLoad"
  shows "dw_db (answered session p st now uuid captured w) = dw_db (late_effect session st now w)"
  using assms
  by (cases st)
    (simp_all add: answered_def late_effect_def updating_db preparing_def finalizing_def
      split: prod.split sum.split option.split)

lemma reading_db:
  "dw_db (answered session p AwaitGet now uuid captured w) = dw_db w"
  "dw_db (answered session p AwaitLoad now uuid captured w) = dw_db w"
  by (simp_all add: answered_def fetched_def loaded_def split: sum.split option.split load_state.split)

lemma advance_db:
  "dw_db (advance session r w) = dw_db w
     \<or> (\<exists>p st now. dw_stage w = Some (p, st) \<and> dw_db (advance session r w) = dw_db (late_effect session st now w))"
proof (cases "dw_stage w")
  case (Some ps)
  obtain p st where st: "dw_stage w = Some (p, st)" using Some by (cases ps) simp
  show ?thesis
  proof (cases r)
    case (Answered now uuid captured)
    then have "advance session r w = answered session p st now uuid captured w" using st by (simp add: advance_def)
    moreover have "dw_db (answered session p st now uuid captured w) = dw_db w
        \<or> dw_db (answered session p st now uuid captured w) = dw_db (late_effect session st now w)"
      by (cases "st = AwaitGet"; cases "st = AwaitLoad") (simp_all only: reading_db answered_db simp_thms)
    ultimately show ?thesis using st by metis
  next
    case (Reject e)
    then show ?thesis using st by (simp add: advance_def)
  next
    case (RejectLate now e)
    then have "dw_db (advance session r w) = dw_db w \<or> dw_db (advance session r w) = dw_db (late_effect session st now w)"
      using st by (simp add: advance_def)
    then show ?thesis using st by metis
  qed
qed (simp add: advance_def)

lemma same_row_steps:
  assumes "delete_step session w w'"
  obtains (same) "stored session (dw_db w') = stored session (dw_db w)"
    | (effect) p st now where "dw_stage w = Some (p, st)" "dw_db w' = dw_db (late_effect session st now w)"
  using assms
proof (cases rule: delete_step.cases)
  case (Reply r)
  then show thesis using advance_db [of session r w] same effect by auto
qed (auto simp: deleteSession_request_def load_simps restart_def same_session_def intro: same)

text \<open>An update keeps the identity of the intent; only the recording of a target touches its targets.\<close>

definition advances_to :: "delete_intent \<Rightarrow> delete_intent \<Rightarrow> bool" where
  "advances_to i j \<longleftrightarrow>
     di_operationId j = di_operationId i \<and> di_session j = di_session i \<and> di_provider j = di_provider i
     \<and> di_createdAt j = di_createdAt i
     \<and> map dt_chat (di_targets j) = map dt_chat (di_targets i)
     \<and> map dt_providerData (di_targets j) = map dt_providerData (di_targets i)
     \<and> (\<forall>k<length (di_targets i).
          dt_status (di_targets i ! k) = TargetDeleted \<longrightarrow> dt_status (di_targets j ! k) = TargetDeleted)"

lemma advances_refl: "advances_to i i"
  by (simp add: advances_to_def)

lemma update_stored:
  assumes "holds session db i" "pat_targets p = None \<or> pat_targets p = Some (mark_deleted n (di_targets i))"
  shows "\<exists>j. holds session (fst (store_update session op p db)) j \<and> advances_to i j"
proof (rule store_update_cases [of session db op p])
  show "\<exists>j. holds session db j" if "stored session db = Some r" for r using assms(1) by blast
next
  assume "fst (store_update session op p db) = db"
  then show ?thesis using assms(1) advances_refl by auto
next
  fix j assume j: "holds session db j" "op = di_operationId j" "intent_ok (apply_patch p j)"
  then have "j = i" using assms(1) holds_unique by blast
  with j assms obtain db' where db': "store_update session op p db = (db', Inr (apply_patch p i))" "holds session db' (apply_patch p i)"
    by (metis store_update_holds)
  moreover have "advances_to i (apply_patch p i)"
    using assms(2) by (auto simp: advances_to_def mark_deleted_nth)
  ultimately show ?thesis by auto
qed

definition gone :: "js_string \<Rightarrow> catalog_db \<Rightarrow> bool" where
  "gone session db \<longleftrightarrow> getDeleteIntent session db = None \<and> isSessionTombstoned session db \<and> getSession session db = None"

lemma finalize_gone: "holds session db i \<Longrightarrow> gone session (fst (store_finalize session (di_operationId i) db))"
  by (simp add: gone_def store_finalize_eq finalize_effect(1-4) holds_def toDatabaseIntent_def)

lemma late_effect_stored:
  assumes inv: "delete_inv session w" and st: "dw_stage w = Some (p, st)" and i: "holds session (dw_db w) i"
  shows "(\<exists>j. holds session (dw_db (late_effect session st now w)) j \<and> advances_to i j)
    \<or> st = AwaitFinalize i \<and> gone session (dw_db (late_effect session st now w))"
proof -
  have ok: "stage_ok session w p st" using inv st by (simp add: delete_inv_def)
  have some: "stored session (dw_db w) \<noteq> None" using i by (simp add: holds_def)
  have up: "pat_targets patch = None \<Longrightarrow> \<exists>j. holds session (fst (store_update session op patch (dw_db w))) j \<and> advances_to i j"
    for op patch using update_stored [OF i] by blast
  have same: "\<exists>j. holds session (dw_db w) j \<and> advances_to i j" using i advances_refl by blast
  show ?thesis
  proof (cases st)
    case (AwaitRecord i' n err)
    then have "i' = i" using ok i holds_unique by (auto simp: owns_def)
    then show ?thesis using update_stored [OF i, of "record_patch now i n" n] by (simp add: AwaitRecord late_effect_def)
  next
    case (AwaitFinalize i')
    then have "i' = i" using ok i holds_unique by (auto simp: owns_def)
    then show ?thesis using finalize_gone [OF i] by (simp add: AwaitFinalize late_effect_def)
  next
    case (AwaitPrepare i')
    then show ?thesis using ok some by simp
  next
    case (AwaitStopUpdate i')
    then show ?thesis using up [of "stop_patch now i'"] by (simp add: late_effect_def)
  next
    case (AwaitBackingsUpdate i')
    then show ?thesis using up [of "backings_patch now"] by (simp add: late_effect_def)
  next
    case (AwaitCleanUpdate i')
    then show ?thesis using up [of "clean_patch now"] by (simp add: late_effect_def)
  next
    case (AwaitErrorUpdate i' e)
    then show ?thesis using up [of "error_patch now e"] by (simp add: late_effect_def)
  qed (use same in \<open>simp_all add: late_effect_def\<close>)
qed

section \<open>Properties\<close>

lemma step_stored:
  assumes "delete_step session w w'" "delete_inv session w" "holds session (dw_db w) i"
  shows "(\<exists>j. holds session (dw_db w') j \<and> advances_to i j)
    \<or> (\<exists>p. dw_stage w = Some (p, AwaitFinalize i)) \<and> gone session (dw_db w')"
  using assms(1)
proof (cases rule: same_row_steps)
  case same
  then have "holds session (dw_db w') i" using assms(3) by (simp add: holds_def)
  then show ?thesis using advances_refl by blast
next
  case (effect p st now)
  then show ?thesis using late_effect_stored [OF assms(2) effect(1) assms(3)] by auto
qed

text \<open>
  C1. The deletion of a session commits last. Whatever fails and however often the host
  restarts, the step that removes the stored delete intent happens only when every target of the
  intent is recorded as deleted, the host has reported the deletion of each of them and the clean-up
  for this intent; it leaves the session unregistered and tombstoned.
\<close>

theorem delete_commits_last:
  assumes "delete_run session w" "delete_step session w w'"
    "getDeleteIntent session (dw_db w) \<noteq> None" "getDeleteIntent session (dw_db w') = None"
  shows "(\<exists>i. store_get session (dw_db w) = Inr (Some i)
        \<and> (\<forall>t\<in>set (di_targets i). dt_status t = TargetDeleted \<and> BackingDeleted (dt_chat t) \<in> set (dw_calls w))
        \<and> CleanedUp \<in> set (dw_calls w))
    \<and> isSessionTombstoned session (dw_db w') \<and> getSession session (dw_db w') = None"
proof -
  have inv: "delete_inv session w" by (rule delete_run_inv [OF assms(1)])
  then obtain i where i: "holds session (dw_db w) i" using assms(3) by (auto simp: delete_inv_def row_ok_def)
  from step_stored [OF assms(2) inv i] assms(4) obtain p where st: "dw_stage w = Some (p, AwaitFinalize i)"
      and g: "gone session (dw_db w')"
    by (auto simp: holds_def)
  from st have "owns session p w i" "all_deleted i" "CleanedUp \<in> set (dw_calls w)"
    using inv by (simp_all add: delete_inv_def)
  then show ?thesis using store_get_holds [OF i] g by (auto simp: owns_def done_in_def all_deleted_def gone_def)
qed

text \<open>
  C3. The target snapshot of a stored delete intent is immutable: no step changes its targets,
  its provider or its operation, and the completion bit of a target never goes back to pending.
\<close>

theorem delete_snapshot_advances:
  assumes "delete_run session w" "delete_step session w w'"
    "store_get session (dw_db w) = Inr (Some i)" "store_get session (dw_db w') = Inr (Some j)"
  shows "map (\<lambda>t. (dt_chat t, dt_providerData t)) (di_targets j) = map (\<lambda>t. (dt_chat t, dt_providerData t)) (di_targets i)
    \<and> (\<forall>k<length (di_targets i).
         dt_status (di_targets i ! k) = TargetDeleted \<longrightarrow> dt_status (di_targets j ! k) = TargetDeleted)
    \<and> (di_operationId j, di_provider j) = (di_operationId i, di_provider i)"
proof -
  have inv: "delete_inv session w" by (rule delete_run_inv [OF assms(1)])
  have "stored session (dw_db w) \<noteq> None" using assms(3) by (auto simp: store_get_def split: option.splits)
  with inv obtain i' where i': "holds session (dw_db w) i'" by (auto simp: delete_inv_def row_ok_def)
  then have "i' = i" using store_get_holds assms(3) by fastforce
  with step_stored [OF assms(2) inv i'] assms(4) have "advances_to i j"
    using store_get_holds by (fastforce simp: store_get_def gone_def)
  then show ?thesis by (auto simp: advances_to_def list_eq_iff_nth_eq)
qed

text \<open>
  Once the host has loaded its pending deletes, a session with a stored delete intent or a
  running attempt is closed: \<open>assertMutable\<close> rejects every mutation.
\<close>

theorem delete_gate_closed:
  assumes "delete_run session w" "isReady w" "getDeleteIntent session (dw_db w) \<noteq> None \<or> dw_stage w \<noteq> None"
  shows "assertMutable session w = Some (Inl (PlainError (''Session is being deleted: '' @ session)))"
proof -
  have "delete_inv session w" by (rule delete_run_inv [OF assms(1)])
  then have "isDeleting session w" using assms(2,3) by (auto simp: delete_inv_def)
  then show ?thesis using assms(2) by (simp add: assertMutable_def isReady_def)
qed

section \<open>An attempt that meets no failure\<close>

definition pending :: "delete_intent \<Rightarrow> nat" where
  "pending i = length (filter (\<lambda>t. dt_status t = TargetPending) (di_targets i))"

text \<open>How many replies the attempt still awaits, when all of them are answers.\<close>

fun stages_left :: "nat \<Rightarrow> delete_stage \<Rightarrow> nat" where
  "stages_left n Queued = 10 + 2 * n"
| "stages_left n AwaitLoad = 9 + 2 * n"
| "stages_left n AwaitGet = 8 + 2 * n"
| "stages_left n (AwaitStopUpdate i) = 7 + 2 * n"
| "stages_left n (AwaitStop i) = 6 + 2 * n"
| "stages_left n (AwaitBackingsUpdate i) = 5 + 2 * n"
| "stages_left n (AwaitDelete i k err) = 4 + 2 * n"
| "stages_left n (AwaitRecord i k err) = 3 + 2 * n"
| "stages_left n (AwaitCleanUpdate i) = 4"
| "stages_left n (AwaitClean i) = 3"
| "stages_left n (AwaitFinalize i) = 2"
| "stages_left n (AwaitAnnounce i) = 1"
| "stages_left n _ = 0"

definition world_pending :: "js_string \<Rightarrow> delete_world \<Rightarrow> nat" where
  "world_pending session w = (case store_get session (dw_db w) of Inr (Some i) \<Rightarrow> pending i | _ \<Rightarrow> 0)"

lemma world_pending_holds: "holds session (dw_db w) i \<Longrightarrow> world_pending session w = pending i"
  by (simp add: world_pending_def store_get_holds)

fun on_track :: "js_string \<Rightarrow> delete_world \<Rightarrow> js_string \<Rightarrow> delete_stage \<Rightarrow> bool" where
  "on_track session w p Queued \<longleftrightarrow> (\<exists>i. owns session p w i)"
| "on_track session w p AwaitLoad \<longleftrightarrow> (\<exists>i. owns session p w i)"
| "on_track session w p AwaitGet \<longleftrightarrow> (\<exists>i. owns session p w i)"
| "on_track session w p (AwaitDelete i n err) \<longleftrightarrow> err = None"
| "on_track session w p (AwaitRecord i n err) \<longleftrightarrow> err = None"
| "on_track session w p (AwaitAnnounce i) \<longleftrightarrow> gone session (dw_db w)"
| "on_track session w p (AwaitErrorUpdate i e) \<longleftrightarrow> False"
| "on_track session w p AwaitCapture \<longleftrightarrow> False"
| "on_track session w p (AwaitPrepare i) \<longleftrightarrow> False"
| "on_track session w p _ \<longleftrightarrow> True"

definition deleted_world :: "js_string \<Rightarrow> delete_world \<Rightarrow> bool" where
  "deleted_world session w \<longleftrightarrow>
     dw_stage w = None \<and> dw_outcome w = Some DeleteDone \<and> \<not> isDeleting session w \<and> gone session (dw_db w)"

text \<open>Either the delete is done, or it is on its way with at most \<open>n\<close> answers to come.\<close>

definition finishes_in :: "js_string \<Rightarrow> nat \<Rightarrow> delete_world \<Rightarrow> bool" where
  "finishes_in session n w \<longleftrightarrow>
     deleted_world session w
     \<or> delete_inv session w \<and> isReady w
       \<and> (\<exists>p st. dw_stage w = Some (p, st) \<and> on_track session w p st \<and> stages_left (world_pending session w) st \<le> n)"

lemma finishes_in_mono: "finishes_in session n w \<Longrightarrow> n \<le> m \<Longrightarrow> finishes_in session m w"
  by (fastforce simp: finishes_in_def)

lemma updating_eq:
  assumes "holds session (dw_db w) i" "intent_ok (apply_patch patch i)"
  obtains db' where "updating session p st i patch k w = go_to p (k (apply_patch patch i)) (w\<lparr>dw_db := db'\<rparr>)"
    "holds session db' (apply_patch patch i)"
proof -
  obtain db' where "store_update session (di_operationId i) patch (dw_db w) = (db', Inr (apply_patch patch i))"
      "holds session db' (apply_patch patch i)"
    by (rule store_update_holds [OF assms])
  then show thesis by (intro that [of db']) (simp_all add: updating_def)
qed

lemma pending_patch: "pat_targets patch = None \<Longrightarrow> pending (apply_patch patch i) = pending i"
  by (simp add: pending_def)

lemma filter_update_length:
  "n < length xs \<Longrightarrow> P (xs ! n) \<Longrightarrow> \<not> P y \<Longrightarrow> length (filter P xs) = Suc (length (filter P (xs[n := y])))"
proof (induction xs arbitrary: n)
  case (Cons x xs)
  then show ?case by (cases n) auto
qed simp

lemma pending_record:
  "at_target i n err \<Longrightarrow> pending i = Suc (pending (apply_patch (record_patch t i n) i))"
  unfolding pending_def at_target_def
  using filter_update_length [of n "di_targets i" "\<lambda>t. dt_status t = TargetPending" "(di_targets i ! n)\<lparr>dt_status := TargetDeleted\<rparr>"]
  by (simp add: mark_deleted_def)

lemma enter_loop_track:
  "on_track session w p (enter_loop i m None)" "stages_left n (enter_loop i m None) \<le> 4 + 2 * n"
  by (simp_all add: enter_loop_def split: option.split)

lemma on_updating:
  assumes "holds session (dw_db w) i" "intent_ok (apply_patch patch i)" "isReady w"
    "delete_inv session (updating session p st i patch k w)"
    "\<And>w'. on_track session w' p (k (apply_patch patch i))"
    "stages_left (pending (apply_patch patch i)) (k (apply_patch patch i)) \<le> n"
  shows "finishes_in session n (updating session p st i patch k w)"
proof -
  obtain db' where db': "updating session p st i patch k w = go_to p (k (apply_patch patch i)) (w\<lparr>dw_db := db'\<rparr>)"
      "holds session db' (apply_patch patch i)"
    by (rule updating_eq [OF assms(1,2)])
  then have "world_pending session (go_to p (k (apply_patch patch i)) (w\<lparr>dw_db := db'\<rparr>)) = pending (apply_patch patch i)"
    by (intro world_pending_holds) simp
  then show ?thesis using assms(3-) db' unfolding finishes_in_def by simp
qed

lemma owns_go_to [simp]: "owns session p (go_to q st w) = owns session p w"
  by (simp add: owns_def fun_eq_iff)

lemma answer_progress:
  assumes inv: "delete_inv session w" and rdy: "isReady w" and st: "dw_stage w = Some (p, st)"
    and track: "on_track session w p st" and left: "stages_left (world_pending session w) st \<le> Suc n"
  shows "finishes_in session n (answered session p st now uuid captured w)"
proof -
  have ok: "stage_ok session w p st" and g: "isDeleting session w" using inv st by (auto simp: delete_inv_def)
  have inv': "delete_inv session (answered session p st now uuid captured w)" by (rule answered_inv [OF inv st])
  have pend: "world_pending session w = pending i" if "owns session p w i" for i
    using that world_pending_holds by (simp add: owns_def)
  have moved: "finishes_in session n (go_to p st' w')"
    if "answered session p st now uuid captured w = go_to p st' w'" "isReady w'" "on_track session (go_to p st' w') p st'"
      "stages_left (world_pending session (go_to p st' w')) st' \<le> n" for st' w'
    using inv' that unfolding finishes_in_def by simp
  have wp: "world_pending session (go_to p st' w') = world_pending session w" if "dw_db w' = dw_db w" for st' w'
    using that by (simp add: world_pending_def)
  show ?thesis
  proof (cases st)
    case Queued
    then show ?thesis
      using moved [of AwaitLoad w] track left rdy wp [of w] by (simp add: answered_def owns_def)
  next
    case AwaitLoad
    then show ?thesis
      using moved [of AwaitGet w] track left rdy wp [of w] by (simp add: answered_def loaded_def owns_def isReady_def)
  next
    case AwaitGet
    then obtain i where i: "owns session p w i" using track by auto
    then have "answered session p st now uuid captured w = go_to p (AwaitStopUpdate i) (gate session w)"
      using store_get_holds [of session "dw_db w" i] by (simp add: AwaitGet answered_def fetched_def owns_def)
    then show ?thesis
      using moved [of "AwaitStopUpdate i" "gate session w"] left rdy AwaitGet wp [of "gate session w"] by simp
  next
    case (AwaitStopUpdate i)
    then have i: "owns session p w i" using ok by simp
    then have h: "holds session (dw_db w) i" "intent_ok (apply_patch (stop_patch now i) i)"
      by (simp_all add: owns_def holds_def intent_ok_patch)
    show ?thesis
      using on_updating [OF h rdy, of p st AwaitStop n] inv' left pend [OF i]
      by (simp add: AwaitStopUpdate answered_def pending_patch)
  next
    case (AwaitStop i)
    then have "owns session p w i" using ok by simp
    then show ?thesis
      using moved [of "AwaitBackingsUpdate i" w] left rdy AwaitStop wp [of w] by (simp add: answered_def)
  next
    case (AwaitBackingsUpdate i)
    then have i: "owns session p w i" using ok by simp
    then have h: "holds session (dw_db w) i" "intent_ok (apply_patch (backings_patch now) i)"
      by (simp_all add: owns_def holds_def intent_ok_patch)
    have "4 + 2 * pending i \<le> n" using left pend [OF i] AwaitBackingsUpdate by simp
    then have "stages_left (pending i) (enter_loop (apply_patch (backings_patch now) i) 0 None) \<le> n"
      using enter_loop_track(2) order_trans by blast
    then show ?thesis
      using on_updating [OF h rdy, of p st "\<lambda>i'. enter_loop i' 0 None" n] inv'
      by (simp add: AwaitBackingsUpdate answered_def pending_patch enter_loop_track(1))
  next
    case (AwaitDelete i k err)
    then have "owns session p w i" "err = None" using ok track by simp_all
    then show ?thesis
      using moved [of "AwaitRecord i k err" "called (BackingDeleted (dt_chat (di_targets i ! k))) w"] left rdy AwaitDelete
        wp [of "called (BackingDeleted (dt_chat (di_targets i ! k))) w"]
      by (simp add: answered_def)
  next
    case (AwaitRecord i k err)
    then have i: "owns session p w i" "at_target i k err" "err = None" using ok track by simp_all
    then have h: "holds session (dw_db w) i" "intent_ok (apply_patch (record_patch now i k) i)"
      by (simp_all add: owns_def holds_def intent_ok_patch)
    let ?i = "apply_patch (record_patch now i k) i"
    have "4 + 2 * pending ?i \<le> n"
      using left pend [OF i(1)] AwaitRecord pending_record [OF i(2), of now] by simp
    then have "stages_left (pending ?i) (enter_loop ?i (Suc k) None) \<le> n"
      using enter_loop_track(2) order_trans by blast
    then show ?thesis
      using on_updating [OF h rdy, of p st "\<lambda>i'. enter_loop i' (Suc k) err" n] inv'
      by (simp add: AwaitRecord answered_def i(3) enter_loop_track(1))
  next
    case (AwaitCleanUpdate i)
    then have i: "owns session p w i" using ok by simp
    then have h: "holds session (dw_db w) i" "intent_ok (apply_patch (clean_patch now) i)"
      by (simp_all add: owns_def holds_def intent_ok_patch)
    show ?thesis
      using on_updating [OF h rdy, of p st AwaitClean n] inv' left
      by (simp add: AwaitCleanUpdate answered_def)
  next
    case (AwaitClean i)
    then show ?thesis
      using moved [of "AwaitFinalize i" "called CleanedUp w"] left rdy by (simp add: answered_def)
  next
    case (AwaitFinalize i)
    then have h: "holds session (dw_db w) i" using ok by (simp add: owns_def)
    obtain db' where "store_finalize session (di_operationId i) (dw_db w) = (db', None)" by (rule finalize_holds [OF h])
    then show ?thesis
      using moved [of "AwaitAnnounce i" "w\<lparr>dw_db := db'\<rparr>"] left rdy finalize_gone [OF h]
      by (simp add: AwaitFinalize answered_def finalizing_def)
  next
    case (AwaitAnnounce i)
    then show ?thesis
      using track by (simp add: answered_def finishes_in_def deleted_world_def)
  qed (use track left in simp_all)
qed

definition is_answer :: "reply \<Rightarrow> bool" where
  "is_answer r = (case r of Answered _ _ _ \<Rightarrow> True | _ \<Rightarrow> False)"

lemma answers_finish: "list_all is_answer rs \<Longrightarrow> finishes_in session (length rs) w \<Longrightarrow> deleted_world session (fold (advance session) rs w)"
proof (induction rs arbitrary: w)
  case Nil
  then have "stages_left (world_pending session w) st \<noteq> 0" if "on_track session w p st" for p st
    using that by (cases st) auto
  then show ?case using Nil by (fastforce simp: finishes_in_def)
next
  case (Cons r rs)
  then obtain now uuid captured where r: "r = Answered now uuid captured" by (cases r) (auto simp: is_answer_def)
  have "finishes_in session (length rs) (advance session r w)"
  proof (cases "deleted_world session w")
    case True
    then have "advance session r w = w" by (simp add: advance_def deleted_world_def)
    with True show ?thesis by (simp add: finishes_in_def)
  next
    case False
    with Cons.prems(2) obtain p st where st: "delete_inv session w" "isReady w" "dw_stage w = Some (p, st)" "on_track session w p st"
        "stages_left (world_pending session w) st \<le> Suc (length rs)"
      by (auto simp: finishes_in_def)
    from answer_progress [OF st] st(3) show ?thesis by (simp add: advance_def r)
  qed
  with Cons show ?case by simp
qed

text \<open>
  C2. A retry terminates: from every state that failures and restarts can leave behind, an
  attempt whose calls all succeed ends after at most ten awaited calls and two for each target that is
  still pending, with the session deleted, tombstoned, unregistered and open again.
\<close>

theorem delete_retry_completes:
  assumes "delete_run session w" "isReady w" "dw_stage w = None"
    "store_get session (dw_db w) = Inr (Some i)" "list_all is_answer rs"
    "10 + 2 * length (filter (\<lambda>t. dt_status t = TargetPending) (di_targets i)) \<le> length rs"
  shows "let w' = fold (advance session) rs (deleteSession_request session (di_provider i) w)
    in dw_stage w' = None \<and> dw_outcome w' = Some DeleteDone \<and> \<not> isDeleting session w'
       \<and> getDeleteIntent session (dw_db w') = None \<and> isSessionTombstoned session (dw_db w')
       \<and> getSession session (dw_db w') = None"
proof -
  have inv: "delete_inv session w" by (rule delete_run_inv [OF assms(1)])
  have "stored session (dw_db w) \<noteq> None" using assms(4) by (auto simp: store_get_def split: option.splits)
  with inv obtain i' where i': "holds session (dw_db w) i'" "done_in (dw_calls w) i'" by (auto simp: delete_inv_def row_ok_def)
  then have "i' = i" using store_get_holds [OF i'(1)] assms(4) by simp
  let ?w = "deleteSession_request session (di_provider i) w"
  have w: "?w = (gate session w)\<lparr>dw_stage := Some (di_provider i, Queued), dw_outcome := None\<rparr>"
    using assms(3) by (simp add: deleteSession_request_def)
  have "delete_inv session ?w" by (rule delete_step_inv [OF delete_step.Request inv])
  moreover have "owns session (di_provider i) ?w i" using i' w \<open>i' = i\<close> by (simp add: owns_def)
  moreover from this have "world_pending session ?w = pending i" using world_pending_holds by (simp add: owns_def)
  ultimately have "finishes_in session (length rs) ?w"
    using assms(2,6) by (auto simp: finishes_in_def w pending_def)
  then have "deleted_world session (fold (advance session) rs ?w)" by (rule answers_finish [OF assms(5)])
  then show ?thesis by (simp add: deleted_world_def gone_def Let_def)
qed


section \<open>A concrete run\<close>

text \<open>
  A session with two chats: the deletion of the first fails, the process restarts, and the retry
  deletes what is left.
\<close>

definition sample_start :: delete_world where
  "sample_start =
     \<lparr>dw_db = empty_db\<lparr>db_sessions := [(''codex:/s'', \<lparr>srow_provider = ''codex'', srow_startTime = 1,
        srow_external = Some False, srow_source = RegisteredExplicit\<rparr>)]\<rparr>,
      dw_load = LoadPending, dw_deleting = [], dw_stage = None, dw_outcome = None, dw_calls = []\<rparr>"

definition ans :: "int \<Rightarrow> reply" where
  "ans t = Answered t ''op-1'' [(''ahp-chat:/a'', Some ''receipt''), (''ahp-chat:/b'', None)]"

definition sample_failed :: delete_world where
  "sample_failed =
     loadPendingDeletes (restart
       (fold (advance ''codex:/s'')
         [ans 1, ans 2, ans 3, ans 4, ans 5, ans 6, ans 7, ans 8, Reject (PlainError ''offline''), ans 9, ans 10, ans 11]
         (deleteSession_request ''codex:/s'' ''codex'' (loadPendingDeletes sample_start))))"

lemma sample_failed_run: "delete_run ''codex:/s'' sample_failed"
proof -
  have "delete_run ''codex:/s'' sample_start"
    by (rule delete_run.Start) (simp add: delete_start_def sample_start_def getDeleteIntent_def empty_db_def)
  then have "delete_run ''codex:/s'' (loadPendingDeletes sample_start)"
    by (rule delete_run.Step) (rule delete_step.Load, simp add: sample_start_def)
  then have "delete_run ''codex:/s'' (deleteSession_request ''codex:/s'' ''codex'' (loadPendingDeletes sample_start))"
    by (rule delete_run.Step) (rule delete_step.Request)
  from run_replies [OF this] show ?thesis
    unfolding sample_failed_def
    by (rule delete_run.Step [OF delete_run.Step [OF _ delete_step.Restart] delete_step.Load]) (simp add: restart_def)
qed

definition sample_retry :: "nat \<Rightarrow> delete_world" where
  "sample_retry n = fold (advance ''codex:/s'') (replicate n (ans 20)) (deleteSession_request ''codex:/s'' ''codex'' sample_failed)"

lemma sample_retry_run: "delete_run ''codex:/s'' (sample_retry n)"
  unfolding sample_retry_def
  by (rule run_replies) (rule delete_run.Step [OF sample_failed_run delete_step.Request])

lemma sample_retry_step: "delete_step ''codex:/s'' (sample_retry n) (sample_retry (Suc n))"
proof -
  have "sample_retry (Suc n) = advance ''codex:/s'' (ans 20) (sample_retry n)"
    unfolding sample_retry_def replicate_append_same [symmetric] replicate_Suc by simp
  then show ?thesis by (simp add: delete_step.Reply)
qed

lemma delete_commits_last_witness:
  "getDeleteIntent ''codex:/s'' (dw_db (sample_retry 10)) \<noteq> None
   \<and> getDeleteIntent ''codex:/s'' (dw_db (sample_retry 11)) = None
   \<and> CleanedUp \<in> set (dw_calls (sample_retry 10))"
proof -
  have a: "getDeleteIntent ''codex:/s'' (dw_db (sample_retry 10)) \<noteq> None" by code_simp
  have b: "getDeleteIntent ''codex:/s'' (dw_db (sample_retry 11)) = None" by code_simp
  have "delete_step ''codex:/s'' (sample_retry 10) (sample_retry 11)"
    using sample_retry_step [of 10] by simp
  from delete_commits_last [OF sample_retry_run this a b] a b show ?thesis by auto
qed

definition sample_intent :: "int \<Rightarrow> int \<Rightarrow> target_status \<Rightarrow> delete_phase \<Rightarrow> js_string option \<Rightarrow> delete_intent" where
  "sample_intent attempt updated status phase err =
     \<lparr>di_operationId = ''op-1'', di_session = ''codex:/s'', di_provider = ''codex'', di_phase = phase,
      di_targets = [\<lparr>dt_chat = ''ahp-chat:/a'', dt_providerData = Some ''receipt'', dt_status = status\<rparr>,
                    \<lparr>dt_chat = ''ahp-chat:/b'', dt_providerData = None, dt_status = TargetDeleted\<rparr>],
      di_attempt = attempt, di_createdAt = 4, di_updatedAt = updated, di_lastError = err\<rparr>"

lemma delete_snapshot_advances_witness:
  "store_get ''codex:/s'' (dw_db (sample_retry 7)) = Inr (Some (sample_intent 2 20 TargetPending PhaseDeletingBackings None))
   \<and> store_get ''codex:/s'' (dw_db (sample_retry 8)) = Inr (Some (sample_intent 2 20 TargetDeleted PhaseDeletingBackings None))
   \<and> dt_status (di_targets (sample_intent 2 20 TargetDeleted PhaseDeletingBackings None) ! 1) = TargetDeleted"
proof -
  have a: "store_get ''codex:/s'' (dw_db (sample_retry 7)) = Inr (Some (sample_intent 2 20 TargetPending PhaseDeletingBackings None))"
    by code_simp
  have b: "store_get ''codex:/s'' (dw_db (sample_retry 8)) = Inr (Some (sample_intent 2 20 TargetDeleted PhaseDeletingBackings None))"
    by code_simp
  have "delete_step ''codex:/s'' (sample_retry 7) (sample_retry 8)" using sample_retry_step [of 7] by simp
  from delete_snapshot_advances [OF sample_retry_run this a b] a b show ?thesis
    by (simp add: sample_intent_def)
qed

lemma delete_gate_closed_witness:
  "assertMutable ''codex:/s'' sample_failed = Some (Inl (PlainError (''Session is being deleted: '' @ ''codex:/s'')))"
proof (rule delete_gate_closed [OF sample_failed_run])
  show "isReady sample_failed" by code_simp
  have "getDeleteIntent ''codex:/s'' (dw_db sample_failed) \<noteq> None" by code_simp
  then show "getDeleteIntent ''codex:/s'' (dw_db sample_failed) \<noteq> None \<or> dw_stage sample_failed \<noteq> None" ..
qed

lemma delete_retry_completes_witness:
  "let w' = fold (advance ''codex:/s'') (replicate 12 (ans 20)) (deleteSession_request ''codex:/s'' ''codex'' sample_failed)
   in dw_stage w' = None \<and> dw_outcome w' = Some DeleteDone \<and> \<not> isDeleting ''codex:/s'' w'
      \<and> getDeleteIntent ''codex:/s'' (dw_db w') = None \<and> isSessionTombstoned ''codex:/s'' (dw_db w')
      \<and> getSession ''codex:/s'' (dw_db w') = None"
proof -
  let ?i = "sample_intent 1 11 TargetPending PhaseDeletingBackings (Some ''offline'')"
  have "isReady sample_failed" "dw_stage sample_failed = None"
    "store_get ''codex:/s'' (dw_db sample_failed) = Inr (Some ?i)" by code_simp+
  moreover have "list_all is_answer (replicate 12 (ans 20))" by code_simp
  moreover have "10 + 2 * length (filter (\<lambda>t. dt_status t = TargetPending) (di_targets ?i)) \<le> length (replicate 12 (ans 20))"
    by (simp add: sample_intent_def)
  moreover have "di_provider ?i = ''codex''" by (simp add: sample_intent_def)
  ultimately show ?thesis using delete_retry_completes [OF sample_failed_run] by metis
qed


end
