(* ===== verification/Mutation_Queue.thy ===== *)
theory Mutation_Queue
  imports Prelude
begin

text \<open>
  How the lifecycle mutations of a session are serialized: \<open>_sessionTails\<close>, \<open>runSessionMutation\<close>
  and \<open>pendingSessionMutation\<close> of \<open>node/fumie/agentSessionLifecycleService.ts\<close>. A promise is the
  number of its mutation; \<open>mut_previous\<close> is the promise the task is chained behind, \<open>None\<close> for
  \<open>Promise.resolve()\<close>. The microtasks are steps of their own: the task starts once the previous
  promise has settled, in whichever way, and the \<open>cleanup\<close> reaction runs some time after the
  promise has settled.
\<close>

datatype mutation_status = MutationWaiting | MutationRunning | MutationSettled | MutationCleaned

record mutation =
  mut_key :: js_string
  mut_previous :: "nat option"
  mut_status :: mutation_status

record mutation_queue =
  mq_tails :: "(js_string \<times> nat) list"
  mq_mutations :: "mutation list"

definition empty_queue :: mutation_queue where
  "empty_queue = \<lparr>mq_tails = [], mq_mutations = []\<rparr>"

definition pendingSessionMutation :: "js_string \<Rightarrow> mutation_queue \<Rightarrow> nat option" where
  "pendingSessionMutation key q = map_of (mq_tails q) key"

definition runSessionMutation :: "js_string \<Rightarrow> mutation_queue \<Rightarrow> mutation_queue" where
  "runSessionMutation key q =
     \<lparr>mq_tails = AList.update key (length (mq_mutations q)) (mq_tails q),
      mq_mutations = mq_mutations q
        @ [\<lparr>mut_key = key, mut_previous = pendingSessionMutation key q, mut_status = MutationWaiting\<rparr>]\<rparr>"

definition mutation_at :: "mutation_queue \<Rightarrow> nat \<Rightarrow> mutation option" where
  "mutation_at q n = (if n < length (mq_mutations q) then Some (mq_mutations q ! n) else None)"

definition settled :: "mutation \<Rightarrow> bool" where
  "settled m \<longleftrightarrow> mut_status m = MutationSettled \<or> mut_status m = MutationCleaned"

definition with_status :: "nat \<Rightarrow> mutation_status \<Rightarrow> mutation_queue \<Rightarrow> mutation_queue" where
  "with_status n s q = q\<lparr>mq_mutations := (mq_mutations q)[n := (mq_mutations q ! n)\<lparr>mut_status := s\<rparr>]\<rparr>"

text \<open>Whether the task may start, and the \<open>cleanup\<close> reaction.\<close>

definition may_start :: "mutation_queue \<Rightarrow> mutation \<Rightarrow> bool" where
  "may_start q m =
     (mut_status m = MutationWaiting
      \<and> (case mut_previous m of
           None \<Rightarrow> True
         | Some p \<Rightarrow> (case mutation_at q p of Some m' \<Rightarrow> settled m' | None \<Rightarrow> False)))"

definition mutation_cleanup :: "nat \<Rightarrow> mutation \<Rightarrow> mutation_queue \<Rightarrow> mutation_queue" where
  "mutation_cleanup n m q =
     (let q1 = with_status n MutationCleaned q
      in if pendingSessionMutation (mut_key m) q = Some n
         then q1\<lparr>mq_tails := AList.delete (mut_key m) (mq_tails q1)\<rparr> else q1)"

inductive mutation_run :: "mutation_queue \<Rightarrow> bool" where
  Empty: "mutation_run empty_queue"
| Enqueue: "mutation_run q \<Longrightarrow> mutation_run (runSessionMutation key q)"
| Start: "mutation_run q \<Longrightarrow> mutation_at q n = Some m \<Longrightarrow> may_start q m \<Longrightarrow> mutation_run (with_status n MutationRunning q)"
| Settle: "mutation_run q \<Longrightarrow> mutation_at q n = Some m \<Longrightarrow> mut_status m = MutationRunning
    \<Longrightarrow> mutation_run (with_status n MutationSettled q)"
| Cleanup: "mutation_run q \<Longrightarrow> mutation_at q n = Some m \<Longrightarrow> mut_status m = MutationSettled
    \<Longrightarrow> mutation_run (mutation_cleanup n m q)"

section \<open>The invariant\<close>

text \<open>
  The mutations of a key form one chain in the order of their numbers; the tail is the last of
  them, and a mutation that was not chained, or that has started, has only settled ones before it.
\<close>

definition of_key :: "mutation_queue \<Rightarrow> js_string \<Rightarrow> nat \<Rightarrow> bool" where
  "of_key q key n = (map_option mut_key (mutation_at q n) = Some key)"

definition done_at :: "mutation_queue \<Rightarrow> nat \<Rightarrow> bool" where
  "done_at q n = (case mutation_at q n of Some m \<Rightarrow> settled m | None \<Rightarrow> False)"

definition settled_before :: "mutation_queue \<Rightarrow> js_string \<Rightarrow> nat \<Rightarrow> bool" where
  "settled_before q key n \<longleftrightarrow> (\<forall>j<n. of_key q key j \<longrightarrow> done_at q j)"

definition chained :: "mutation_queue \<Rightarrow> nat \<Rightarrow> mutation \<Rightarrow> bool" where
  "chained q n m \<longleftrightarrow>
     (case mut_previous m of
        None \<Rightarrow> settled_before q (mut_key m) n
      | Some p \<Rightarrow> p < n \<and> of_key q (mut_key m) p \<and> (\<forall>j<n. of_key q (mut_key m) j \<longrightarrow> j \<le> p))"

definition tail_ok :: "mutation_queue \<Rightarrow> js_string \<Rightarrow> bool" where
  "tail_ok q key \<longleftrightarrow>
     (case pendingSessionMutation key q of
        None \<Rightarrow> \<forall>j. of_key q key j \<longrightarrow> done_at q j
      | Some t \<Rightarrow> of_key q key t \<and> (\<forall>j. of_key q key j \<longrightarrow> j \<le> t))"

definition queue_inv :: "mutation_queue \<Rightarrow> bool" where
  "queue_inv q \<longleftrightarrow>
     (\<forall>n m. mutation_at q n = Some m \<longrightarrow>
        chained q n m \<and> (mut_status m \<noteq> MutationWaiting \<longrightarrow> settled_before q (mut_key m) n))
     \<and> (\<forall>key. tail_ok q key)"

lemma queue_invD:
  assumes "queue_inv q"
  shows chain_of: "mutation_at q n = Some m \<Longrightarrow> chained q n m"
    and started_after: "mutation_at q n = Some m \<Longrightarrow> mut_status m \<noteq> MutationWaiting \<Longrightarrow> settled_before q (mut_key m) n"
    and tail_of: "tail_ok q key"
  using assms by (simp_all add: queue_inv_def)

lemma first_of: "queue_inv q \<Longrightarrow> mutation_at q n = Some m \<Longrightarrow> mut_previous m = None \<Longrightarrow> settled_before q (mut_key m) n"
  using chain_of [of q n m] by (simp add: chained_def)

lemma next_of:
  "queue_inv q \<Longrightarrow> mutation_at q n = Some m \<Longrightarrow> mut_previous m = Some p
     \<Longrightarrow> p < n \<and> of_key q (mut_key m) p \<and> (\<forall>j<n. of_key q (mut_key m) j \<longrightarrow> j \<le> p)"
  using chain_of [of q n m] by (simp add: chained_def)

lemma with_status_at:
  "mutation_at (with_status n s q) j =
     map_option (\<lambda>m. if j = n then m\<lparr>mut_status := s\<rparr> else m) (mutation_at q j)"
  by (auto simp: mutation_at_def with_status_def nth_list_update)

lemma with_status_keys [simp]: "of_key (with_status n s q) key j = of_key q key j"
  by (cases "mutation_at q j") (simp_all add: of_key_def with_status_at)

lemma with_status_tails [simp]: "pendingSessionMutation key (with_status n s q) = pendingSessionMutation key q"
  by (simp add: pendingSessionMutation_def with_status_def)

lemma enqueue_at:
  "mutation_at (runSessionMutation key q) j =
     (if j = length (mq_mutations q)
      then Some \<lparr>mut_key = key, mut_previous = pendingSessionMutation key q, mut_status = MutationWaiting\<rparr>
      else mutation_at q j)"
  by (auto simp: mutation_at_def runSessionMutation_def nth_append)

lemma mutation_at_less: "mutation_at q n = Some m \<Longrightarrow> n < length (mq_mutations q)"
  by (simp add: mutation_at_def split: if_splits)

lemma of_key_less: "of_key q key n \<Longrightarrow> n < length (mq_mutations q)"
  by (auto simp: of_key_def dest: mutation_at_less)

lemma enqueue_old:
  "j < length (mq_mutations q) \<Longrightarrow> of_key (runSessionMutation key q) k j = of_key q k j"
  "j < length (mq_mutations q) \<Longrightarrow> done_at (runSessionMutation key q) j = done_at q j"
  by (simp_all add: of_key_def done_at_def enqueue_at)

lemma settled_before_mono:
  "(\<And>j. done_at q j \<Longrightarrow> done_at q' j) \<Longrightarrow> (\<And>j. of_key q' key j = of_key q key j)
     \<Longrightarrow> settled_before q key n \<Longrightarrow> settled_before q' key n"
  by (auto simp: settled_before_def)

lemma chained_mono:
  assumes "\<And>j. done_at q j \<Longrightarrow> done_at q' j" "\<And>key j. of_key q' key j = of_key q key j"
    "mut_key m' = mut_key m" "mut_previous m' = mut_previous m" "chained q n m"
  shows "chained q' n m'"
  using assms settled_before_mono [of q q' "mut_key m" n] by (auto simp: chained_def split: option.splits)

text \<open>A change of status that unsettles nothing keeps the chains.\<close>

lemma with_status_inv:
  assumes inv: "queue_inv q" and at: "mutation_at q n = Some m"
    and up: "settled m \<Longrightarrow> settled (m\<lparr>mut_status := s\<rparr>)" and st: "settled_before q (mut_key m) n"
  shows "queue_inv (with_status n s q)"
proof -
  have d: "done_at q j \<Longrightarrow> done_at (with_status n s q) j" for j
    using at up by (cases "mutation_at q j") (auto simp: done_at_def with_status_at)
  have "chained (with_status n s q) k m' \<and> (mut_status m' \<noteq> MutationWaiting \<longrightarrow> settled_before (with_status n s q) (mut_key m') k)"
    if k: "mutation_at (with_status n s q) k = Some m'" for k m'
  proof -
    obtain m0 where m0: "mutation_at q k = Some m0" "m' = (if k = n then m0\<lparr>mut_status := s\<rparr> else m0)"
      using k unfolding with_status_at map_option_eq_Some by blast
    then have "chained (with_status n s q) k m'"
      using inv chained_mono [of q "with_status n s q" m' m0 k] d by (auto simp: queue_inv_def)
    moreover have "settled_before q (mut_key m') k" if "mut_status m' \<noteq> MutationWaiting"
      using m0 at inv st that by (auto simp: queue_inv_def split: if_splits)
    ultimately show ?thesis using settled_before_mono [of q "with_status n s q"] d by simp
  qed
  moreover have "tail_ok (with_status n s q) key" for key
    using inv d by (auto simp: queue_inv_def tail_ok_def split: option.splits) (metis option.distinct(1))+
  ultimately show ?thesis by (simp add: queue_inv_def)
qed

lemma enqueue_inv:
  assumes inv: "queue_inv q"
  shows "queue_inv (runSessionMutation key q)"
proof -
  let ?q = "runSessionMutation key q" and ?n = "length (mq_mutations q)"
  have tail: "tail_ok q k" for k using inv by (simp add: queue_inv_def)
  have sb: "n \<le> ?n \<Longrightarrow> settled_before ?q k n = settled_before q k n" for k n
    using enqueue_old [of _ q key] by (auto simp: settled_before_def)
  have "chained ?q n m \<and> (mut_status m \<noteq> MutationWaiting \<longrightarrow> settled_before ?q (mut_key m) n)"
    if at: "mutation_at ?q n = Some m" for n m
  proof (cases "n = ?n")
    case True
    with at have m: "m = \<lparr>mut_key = key, mut_previous = pendingSessionMutation key q, mut_status = MutationWaiting\<rparr>"
      by (simp add: enqueue_at)
    have "chained ?q n m"
      using tail [of key] True of_key_less [of q key] enqueue_old [of _ q key]
      by (auto simp: chained_def m tail_ok_def sb settled_before_def split: option.splits)
    then show ?thesis by (simp add: m)
  next
    case False
    with at have q: "mutation_at q n = Some m" "n < ?n" by (auto simp: enqueue_at dest: mutation_at_less)
    then have "chained q n m \<and> (mut_status m \<noteq> MutationWaiting \<longrightarrow> settled_before q (mut_key m) n)"
      using inv by (simp add: queue_inv_def)
    then show ?thesis
      using q(2) enqueue_old(1) [of _ q key] by (auto simp: chained_def sb split: option.splits)
  qed
  moreover have "tail_ok ?q k" for k
  proof (cases "k = key")
    case True
    have "of_key ?q key j \<Longrightarrow> j \<le> ?n" for j using of_key_less [of ?q key j] by (simp add: runSessionMutation_def)
    moreover have "of_key ?q key ?n" by (simp add: of_key_def enqueue_at)
    moreover have "pendingSessionMutation key ?q = Some ?n"
      by (simp add: pendingSessionMutation_def runSessionMutation_def update_conv')
    ultimately show ?thesis by (simp add: True tail_ok_def)
  next
    case False
    have "of_key ?q k j = of_key q k j" "of_key q k j \<Longrightarrow> done_at ?q j = done_at q j" for j
      using False enqueue_old [of j q key] by (auto simp: of_key_def enqueue_at dest: mutation_at_less)
    moreover have "pendingSessionMutation k ?q = pendingSessionMutation k q"
      using False by (simp add: pendingSessionMutation_def runSessionMutation_def update_conv')
    ultimately show ?thesis using tail [of k] by (auto simp: tail_ok_def split: option.splits)
  qed
  ultimately show ?thesis by (simp add: queue_inv_def)
qed

lemma cleanup_inv:
  assumes inv: "queue_inv q" and at: "mutation_at q n = Some m" and st: "mut_status m = MutationSettled"
  shows "queue_inv (mutation_cleanup n m q)"
proof -
  let ?q = "with_status n MutationCleaned q"
  have sb: "settled_before q (mut_key m) n" using inv at st by (auto simp: queue_inv_def)
  have q: "queue_inv ?q" by (rule with_status_inv [OF inv at _ sb]) (simp add: settled_def)
  show ?thesis
  proof (cases "pendingSessionMutation (mut_key m) q = Some n")
    case True
    let ?r = "?q\<lparr>mq_tails := AList.delete (mut_key m) (mq_tails ?q)\<rparr>"
    have [simp]: "mutation_at ?r = mutation_at ?q" by (simp add: mutation_at_def fun_eq_iff)
    have [simp]: "of_key ?r = of_key ?q" "done_at ?r = done_at ?q" by (simp_all add: of_key_def done_at_def fun_eq_iff)
    have [simp]: "settled_before ?r = settled_before ?q" "chained ?r = chained ?q"
      by (simp_all add: settled_before_def chained_def fun_eq_iff split: option.split)
    have last: "of_key q (mut_key m) j \<Longrightarrow> j \<le> n" for j
      using True inv by (auto simp: queue_inv_def tail_ok_def split: option.splits)
    have "done_at ?q j" if "of_key q (mut_key m) j" for j
    proof (cases "j = n")
      case True
      then show ?thesis using at by (simp add: done_at_def with_status_at settled_def)
    next
      case False
      then have "done_at q j" using sb last [OF that] that by (simp add: settled_before_def)
      then show ?thesis using False by (cases "mutation_at q j") (simp_all add: done_at_def with_status_at)
    qed
    moreover have "pendingSessionMutation k ?r = (if k = mut_key m then None else pendingSessionMutation k ?q)" for k
      by (simp add: pendingSessionMutation_def delete_conv')
    ultimately have "tail_ok ?r k" for k
      using tail_of [OF q, of k] by (cases "k = mut_key m") (simp_all add: tail_ok_def split: option.splits)
    then have "queue_inv ?r" using q by (simp add: queue_inv_def)
    then show ?thesis using True by (simp add: mutation_cleanup_def Let_def)
  next
    case False
    then show ?thesis using q by (simp add: mutation_cleanup_def Let_def)
  qed
qed

lemma mutation_run_inv: "mutation_run q \<Longrightarrow> queue_inv q"
proof (induction rule: mutation_run.induct)
  case Empty
  show ?case
    by (simp add: queue_inv_def mutation_at_def empty_queue_def tail_ok_def of_key_def pendingSessionMutation_def)
next
  case (Enqueue q key)
  then show ?case by (simp add: enqueue_inv)
next
  case (Start q n m)
  have "settled_before q (mut_key m) n"
  proof (cases "mut_previous m")
    case None
    then show ?thesis using Start first_of by blast
  next
    case (Some p)
    obtain mp where mp: "mutation_at q p = Some mp" "settled mp"
      using Some Start(3) by (auto simp: may_start_def split: option.splits)
    have c: "p < n" "of_key q (mut_key m) p" "\<forall>j<n. of_key q (mut_key m) j \<longrightarrow> j \<le> p"
      using next_of [OF Start.IH Start(2) Some] by simp_all
    have "mut_status mp \<noteq> MutationWaiting" using mp(2) by (auto simp: settled_def)
    then have "settled_before q (mut_key m) p" using started_after [OF Start.IH mp(1)] c(2) mp(1) by (simp add: of_key_def)
    then show ?thesis using mp c by (auto simp: settled_before_def done_at_def order_le_less)
  qed
  then show ?case using Start by (intro with_status_inv) (auto simp: settled_def may_start_def)
next
  case (Settle q n m)
  then have "settled_before q (mut_key m) n" using started_after by fastforce
  then show ?case using Settle by (intro with_status_inv) (auto simp: settled_def)
next
  case (Cleanup q n m)
  then show ?case by (simp add: cleanup_inv)
qed

section \<open>Properties\<close>

text \<open>
  C13. The mutations of a session run one at a time and in the order they were asked for: while one
  runs, every earlier one of the session has settled and every later one waits, and the session has a
  pending mutation, so that an action is not dispatched past it.
\<close>

theorem mutations_serialized:
  assumes "mutation_run q" "mutation_at q n = Some m" "mut_status m = MutationRunning"
  shows "(\<forall>j m'. mutation_at q j = Some m' \<longrightarrow> mut_key m' = mut_key m \<longrightarrow>
           (j < n \<longrightarrow> settled m') \<and> (n < j \<longrightarrow> mut_status m' = MutationWaiting))
    \<and> pendingSessionMutation (mut_key m) q \<noteq> None"
proof -
  have inv: "queue_inv q" by (rule mutation_run_inv [OF assms(1)])
  have n: "of_key q (mut_key m) n" "\<not> done_at q n" using assms(2,3) by (auto simp: of_key_def done_at_def settled_def)
  have "settled m'" if "mutation_at q j = Some m'" "mut_key m' = mut_key m" "j < n" for j m'
    using inv assms(2,3) that by (fastforce simp: queue_inv_def settled_before_def of_key_def done_at_def)
  moreover have "mut_status m' = MutationWaiting" if "mutation_at q j = Some m'" "mut_key m' = mut_key m" "n < j" for j m'
    using inv n that by (fastforce simp: queue_inv_def settled_before_def)
  moreover have "pendingSessionMutation (mut_key m) q \<noteq> None"
    using inv n by (auto simp: queue_inv_def tail_ok_def split: option.splits)
  ultimately show ?thesis by blast
qed

definition sample_queue :: mutation_queue where
  "sample_queue = with_status 0 MutationRunning
     (runSessionMutation ''s'' (runSessionMutation ''t'' (runSessionMutation ''s'' empty_queue)))"

lemma mutations_serialized_witness:
  "mut_status (mq_mutations sample_queue ! 2) = MutationWaiting \<and> pendingSessionMutation ''s'' sample_queue = Some 2"
proof -
  let ?q = "runSessionMutation ''s'' (runSessionMutation ''t'' (runSessionMutation ''s'' empty_queue))"
  have "mutation_run ?q" by (intro mutation_run.intros)
  moreover have "mutation_at ?q 0 = Some \<lparr>mut_key = ''s'', mut_previous = None, mut_status = MutationWaiting\<rparr>" by code_simp
  ultimately have run: "mutation_run sample_queue"
    unfolding sample_queue_def by (rule mutation_run.Start) (simp add: may_start_def)
  have "mutation_at sample_queue 0 = Some \<lparr>mut_key = ''s'', mut_previous = None, mut_status = MutationRunning\<rparr>" by code_simp
  from mutations_serialized [OF run this]
  have "mutation_at sample_queue 2 = Some m' \<Longrightarrow> mut_key m' = ''s'' \<Longrightarrow> mut_status m' = MutationWaiting" for m' by simp
  moreover have "mutation_at sample_queue 2 = Some (mq_mutations sample_queue ! 2)" by code_simp
  moreover have "mut_key (mq_mutations sample_queue ! 2) = ''s''" by code_simp
  moreover have "pendingSessionMutation ''s'' sample_queue = Some 2" by code_simp
  ultimately show ?thesis by blast
qed

end
