(* ===== verification/Client_Admission.thy ===== *)
theory Client_Admission
  imports State_Lifecycle
begin

text \<open>
  What the host does with an action a client sends: the \<open>dispatchAction\<close> notification of
  \<open>node/protocolServerHandler.ts\<close> and the checks of \<open>node/agentService.ts\<close> in front of
  \<open>dispatchClientAction\<close>, with \<open>common/state/sessionWorkingDirectories.ts\<close> and the multi-root
  metadata of \<open>common/state/sessionState.ts\<close>.

  An action that needs asynchronous work first is queued behind the mutations of its session; once
  that work is done it goes through the same \<open>_dispatchActionNow\<close>, in the state of that moment. What
  \<open>AgentSideEffects\<close> does in reaction to an admitted action is not part of the model.
\<close>

unbundle bit_operations_syntax

datatype agent_host_client_type = EditorWindow | AgentsWindow | UnknownClient

text \<open>
  What the checks read besides the state: the lifecycle of the host (\<open>Session_Delete\<close>,
  \<open>Mutation_Queue\<close>), the peer chats that could not be resolved, whether the provider of a session is
  registered and supports several working directories, whether attachments have to be rewritten, and
  the comparison \<open>extUriBiasedIgnorePathCase.isEqual\<close>.
\<close>

record admission =
  adm_ready :: bool
  adm_deleting :: "js_string \<Rightarrow> bool"
  adm_pending :: "js_string \<Rightarrow> bool"
  adm_unresolvable :: "js_string list"
  adm_capability :: "js_string \<Rightarrow> bool"
  adm_rewrites :: "js_string \<Rightarrow> state_action \<Rightarrow> bool"
  adm_sameResource :: "uri \<Rightarrow> uri \<Rightarrow> bool"

definition HOST_WRITTEN_SESSION_CONFIG_KEYS :: "js_string list" where
  "HOST_WRITTEN_SESSION_CONFIG_KEYS = [''agentMerge.controller'']"

definition LOCKED_SESSION_WORKSPACE_CONFIG_KEYS :: "js_string list" where
  "LOCKED_SESSION_WORKSPACE_CONFIG_KEYS =
     [''isolation'', ''branch'', ''worktreeBranchPrefix'', ''worktreeIncludeFiles'', ''worktreeBranchTrack'',
      ''worktreeCreateNewBranch'']"

text \<open>\<open>keys.join(', ')\<close>\<close>

fun joined :: "js_string list \<Rightarrow> js_string" where
  "joined [] = []"
| "joined [k] = k"
| "joined (k # ks) = k @ '', '' @ joined ks"

section \<open>Working directories\<close>

definition parseUri_strict :: "platform \<Rightarrow> js_string \<Rightarrow> uri option" where
  "parseUri_strict pl value = (if fst (split_scheme value) = [] then None else parseUri pl value)"

definition uri_error :: js_error where "uri_error = PlainError ''[UriError]''"

definition validateSessionMultiRootMetadata :: "platform \<Rightarrow> json option \<Rightarrow> js_string option" where
  "validateSessionMultiRootMetadata pl value =
     (case value of
        Some (JObject raw) \<Rightarrow>
         (case map_of raw ''workspaceFile'' of
            Some (JString file) \<Rightarrow>
              if file = [] \<or> length file > 4096 then None
              else (case parseUri_strict pl file of None \<Rightarrow> None | Some u \<Rightarrow> if uri_scheme u = [] then None else Some file)
          | _ \<Rightarrow> None)
      | _ \<Rightarrow> None)"

definition readSessionMultiRootMetadata :: "platform \<Rightarrow> json js_record option \<Rightarrow> js_string option" where
  "readSessionMultiRootMetadata pl meta = validateSessionMultiRootMetadata pl (meta_value meta ''multiRoot'')"

definition readSessionWorkspaceless :: "json js_record option \<Rightarrow> bool" where
  "readSessionWorkspaceless meta = (meta_value meta ''workspaceless'' = Some (JBool True))"

text \<open>The action as its directory and whether it removes it; the canonical spelling of the directory.\<close>

definition resolveSessionWorkingDirectoryAction ::
    "platform \<Rightarrow> (uri \<Rightarrow> uri \<Rightarrow> bool) \<Rightarrow> bool \<Rightarrow> js_string \<Rightarrow> js_string list \<Rightarrow> bool \<Rightarrow> js_string js_result" where
  "resolveSessionWorkingDirectoryAction pl same removes dir workingDirectories hasImmutablePrimary =
     (case parseUri_strict pl dir of
        None \<Rightarrow> Inl uri_error
      | Some directory \<Rightarrow>
          if uri_scheme directory \<noteq> ''file'' then Inl (PlainError (''Working directory must be a file URI: '' @ dir))
          else
            let parsed = map (parseUri_strict pl) workingDirectories
            in if None \<in> set parsed then Inl uri_error
               else
                 let current = map the parsed;
                     index = find_index (\<lambda>value. same value directory) current
                 in if hasImmutablePrimary \<and> removes \<and> index = Some 0
                    then Inl (PlainError ''The primary working directory cannot be removed.'')
                    else Inr (asFormatted pl (case index of Some i \<Rightarrow> current ! i | None \<Rightarrow> directory)))"

definition directories_ready :: "session_with_chat option \<Rightarrow> js_string list option" where
  "directories_ready state =
     (case state of
        None \<Rightarrow> None
      | Some st \<Rightarrow>
          if ses_lifecycle st \<noteq> SessionReadyState then None
          else (case smeta_workingDirectories st of Some (d # ds) \<Rightarrow> Some (d # ds) | _ \<Rightarrow> None))"

definition dynamic_directories :: "platform \<Rightarrow> session_with_chat \<Rightarrow> bool" where
  "dynamic_directories pl st =
     (readSessionMultiRootMetadata pl (ses_meta st) \<noteq> None
      \<and> \<not> readSessionWorkspaceless (ses_meta st)
      \<and> Option.bind (ses_config st) (\<lambda>cfg. map_of (scfg_values cfg) ''isolation'') \<noteq> Some (JString ''worktree'')
      \<and> (case ses_chats st of
           [chat] \<Rightarrow> truthy_string (ses_defaultChat st) \<and> ses_defaultChat st = Some (csum_resource chat)
         | _ \<Rightarrow> False))"

definition prepareWorkingDirectoryAction ::
    "platform \<Rightarrow> admission \<Rightarrow> js_string \<Rightarrow> bool \<Rightarrow> js_string \<Rightarrow> state_manager \<Rightarrow> js_string js_result" where
  "prepareWorkingDirectoryAction pl adm session removes dir m =
     (let state = getSessionState pl session m
      in case (directories_ready state, state) of
        (Some workingDirectories, Some st) \<Rightarrow>
          if \<not> dynamic_directories pl st
          then Inl (PlainError (''Session does not support dynamic working-directory changes: '' @ session))
          else (case parseUri pl session of
            None \<Rightarrow> Inl uri_error
          | Some sessionUri \<Rightarrow>
              if \<not> adm_capability adm session
              then Inl (PlainError (''Provider does not support dynamic working-directory changes: ''
                     @ (if uri_scheme sessionUri = [] then ''(unknown)'' else uri_scheme sessionUri)))
              else resolveSessionWorkingDirectoryAction pl (adm_sameResource adm) removes dir workingDirectories True)
      | _ \<Rightarrow> Inl (PlainError (''Session is not ready for working-directory changes: '' @ session)))"

section \<open>Session configuration\<close>

definition withPreservedHostWrittenSessionConfig ::
    "session_with_chat option \<Rightarrow> session_config_changed_action \<Rightarrow> session_config_changed_action" where
  "withPreservedHostWrittenSessionConfig state action =
     (case Option.bind state ses_config of
        None \<Rightarrow> action
      | Some cfg \<Rightarrow>
          let preserved = concat (map (\<lambda>k. case map_of (scfg_values cfg) k of Some v \<Rightarrow> [(k, v)] | None \<Rightarrow> [])
                            HOST_WRITTEN_SESSION_CONFIG_KEYS)
          in if preserved = [] then action
             else action\<lparr>cfgChg_config := spread (spread [] (cfgChg_config action)) preserved\<rparr>)"

text \<open>\<open>equals(a, b)\<close> where either may be \<open>undefined\<close>.\<close>

definition optional_equals :: "json option \<Rightarrow> json option \<Rightarrow> bool" where
  "optional_equals x y = (case (x, y) of (None, None) \<Rightarrow> True | (Some a, Some b) \<Rightarrow> json_equals a b | _ \<Rightarrow> False)"

definition config_schema :: "session_with_chat option \<Rightarrow> session_config_property_schema js_record" where
  "config_schema state = (case Option.bind state ses_config of None \<Rightarrow> [] | Some cfg \<Rightarrow> scs_properties (scfg_schema cfg))"

definition config_values :: "session_with_chat option \<Rightarrow> json js_record" where
  "config_values state = (case Option.bind state ses_config of None \<Rightarrow> [] | Some cfg \<Rightarrow> scfg_values cfg)"

definition mutable_key :: "session_with_chat option \<Rightarrow> js_string \<Rightarrow> bool" where
  "mutable_key state key = (Option.bind (map_of (config_schema state) key) scps_sessionMutable = Some True)"

definition unknownKeys :: "session_with_chat option \<Rightarrow> json js_record \<Rightarrow> js_string list" where
  "unknownKeys state config = map fst (filter (\<lambda>(key, _). map_of (config_schema state) key = None) config)"

definition immutableKeys :: "session_with_chat option \<Rightarrow> agent_host_client_type \<Rightarrow> json js_record \<Rightarrow> js_string list" where
  "immutableKeys state clientType config =
     (if map_option ses_lifecycle state = Some SessionCreating \<and> clientType = EditorWindow then []
      else map fst (filter
        (\<lambda>(key, v). \<not> mutable_key state key \<and> \<not> optional_equals (Some v) (map_of (config_values state) key)) config))"

definition replaceChangesImmutableValue :: "session_with_chat option \<Rightarrow> session_config_changed_action \<Rightarrow> bool" where
  "replaceChangesImmutableValue state action =
     (cfgChg_replace action = Some True
      \<and> list_ex
          (\<lambda>(key, schema). scps_sessionMutable schema \<noteq> Some True \<and> map_of (config_values state) key \<noteq> None
             \<and> (map_of (cfgChg_config action) key = None
                \<or> \<not> optional_equals (map_of (cfgChg_config action) key) (map_of (config_values state) key)))
          (config_schema state))"

definition config_rejection ::
    "session_with_chat option \<Rightarrow> agent_host_client_type \<Rightarrow> session_config_changed_action \<Rightarrow> js_string option" where
  "config_rejection state clientType action =
     (let unknown = unknownKeys state (cfgChg_config action);
          immutable = immutableKeys state clientType (cfgChg_config action);
          locked = joined immutable
      in if unknown = [] \<and> immutable = [] \<and> \<not> replaceChangesImmutableValue state action then None
         else if unknown \<noteq> [] then Some (''Unknown session configuration: '' @ joined unknown)
         else Some (''Session configuration is locked after creation: ''
           @ (if locked \<noteq> [] then locked
              else joined (filter (\<lambda>k. map_of (config_values state) k \<noteq> None) LOCKED_SESSION_WORKSPACE_CONFIG_KEYS))))"

section \<open>The gate\<close>

definition turn_ids :: "chat_state \<Rightarrow> js_string list" where
  "turn_ids st = (case chat_activeTurn st of None \<Rightarrow> [] | Some t \<Rightarrow> [aturn_id t]) @ map turn_id (chat_turns st)"

definition isTurnIdUsedByAnotherChat :: "platform \<Rightarrow> js_string \<Rightarrow> js_string \<Rightarrow> js_string \<Rightarrow> state_manager \<Rightarrow> bool" where
  "isTurnIdUsedByAnotherChat pl sessionChannel chatChannel turnId m =
     (case getSessionState pl sessionChannel m of
        None \<Rightarrow> False
      | Some st \<Rightarrow>
          (ses_defaultChat st \<noteq> Some chatChannel
             \<and> (map_option aturn_id (swc_activeTurn st) = Some turnId \<or> list_ex (\<lambda>t. turn_id t = turnId) (swc_turns st)))
          \<or> list_ex
              (\<lambda>chat. csum_resource chat \<noteq> chatChannel \<and> \<not> isDefaultChatUri pl (csum_resource chat)
                 \<and> (case chat_state_at m (csum_resource chat) of
                      None \<Rightarrow> False
                    | Some c \<Rightarrow> turnId \<in> set (turn_ids c)))
              (ses_chats st))"

text \<open>A rejection is the reason and the action that is echoed with it.\<close>

type_synonym verdict = "js_string \<times> state_action + state_action"

definition admit_turn ::
    "platform \<Rightarrow> js_string \<Rightarrow> js_string \<Rightarrow> chat_turn_started_action \<Rightarrow> state_manager \<Rightarrow> verdict" where
  "admit_turn pl channel sessionChannel a m =
     (let action = ChatAct (ChatTurnStarted a)
      in if (case getSessionState pl sessionChannel m of
               None \<Rightarrow> False
             | Some st \<Rightarrow> smeta_status st AND status_IsArchived = status_IsArchived)
         then Inl (''Session is archived: '' @ sessionChannel, action)
         else if isTurnIdUsedByAnotherChat pl sessionChannel channel (turnStarted_turnId a) m
         then Inl (''Turn id is already used by another chat in this session.'', action)
         else Inr action)"

definition admit_config ::
    "platform \<Rightarrow> js_string \<Rightarrow> agent_host_client_type \<Rightarrow> session_config_changed_action \<Rightarrow> state_manager \<Rightarrow> verdict" where
  "admit_config pl sessionChannel clientType c m =
     (let state = getSessionState pl sessionChannel m;
          forbidden = filter (\<lambda>k. map_of (cfgChg_config c) k \<noteq> None) HOST_WRITTEN_SESSION_CONFIG_KEYS
      in if forbidden \<noteq> []
         then Inl (''Session config keys are host-owned and cannot be set by a client: '' @ joined forbidden @ ''.'',
                SessionAct (SessionConfigChanged c))
         else
           let c' = (if cfgChg_replace c = Some True then withPreservedHostWrittenSessionConfig state c else c)
           in case config_rejection state clientType c' of
                Some reason \<Rightarrow> Inl (reason, SessionAct (SessionConfigChanged c'))
              | None \<Rightarrow> Inr (SessionAct (SessionConfigChanged c')))"

definition admit_directory ::
    "platform \<Rightarrow> admission \<Rightarrow> js_string \<Rightarrow> js_string \<Rightarrow> agent_host_client_type \<Rightarrow> bool \<Rightarrow> js_string \<Rightarrow> state_manager
     \<Rightarrow> verdict" where
  "admit_directory pl adm channel sessionChannel clientType removes dir m =
     (let action = (\<lambda>d. SessionAct (if removes then SessionWorkingDirectoryRemoved d else SessionWorkingDirectorySet d))
      in if clientType \<noteq> EditorWindow
         then Inl (''Session working-directory actions require an Editor Window client.'', action dir)
         else if channel \<noteq> sessionChannel
         then Inl (''Session working-directory actions require a session channel.'', action dir)
         else case prepareWorkingDirectoryAction pl adm sessionChannel removes dir m of
           Inl e \<Rightarrow> Inl (error_message e, action dir)
         | Inr d \<Rightarrow> Inr (action d))"

definition admit ::
    "platform \<Rightarrow> admission \<Rightarrow> js_string \<Rightarrow> js_string \<Rightarrow> state_action \<Rightarrow> agent_host_client_type \<Rightarrow> state_manager \<Rightarrow> verdict" where
  "admit pl adm channel sessionChannel action clientType m =
     (if adm_deleting adm sessionChannel then Inl (''Session is being deleted: '' @ sessionChannel, action)
      else case action of
        ChatAct (ChatTurnStarted a) \<Rightarrow> admit_turn pl channel sessionChannel a m
      | SessionAct (SessionConfigChanged c) \<Rightarrow> admit_config pl sessionChannel clientType c m
      | SessionAct (SessionWorkingDirectoryReplaced _) \<Rightarrow>
          Inl (''Session working-directory replacement is not supported.'', action)
      | SessionAct (SessionWorkingDirectorySet d) \<Rightarrow> admit_directory pl adm channel sessionChannel clientType False d m
      | SessionAct (SessionWorkingDirectoryRemoved d) \<Rightarrow> admit_directory pl adm channel sessionChannel clientType True d m
      | _ \<Rightarrow> Inr action)"

definition dispatchActionNow ::
    "host \<Rightarrow> admission \<Rightarrow> js_string \<Rightarrow> js_string \<Rightarrow> state_action \<Rightarrow> action_origin \<Rightarrow> agent_host_client_type
     \<Rightarrow> state_manager \<Rightarrow> state_manager outcome" where
  "dispatchActionNow h adm channel sessionChannel action origin clientType m =
     (case admit (host_platform h) adm channel sessionChannel action clientType m of
        Inl (reason, echo) \<Rightarrow> (rejectClientAction channel echo origin reason m, None)
      | Inr action' \<Rightarrow> dispatchClientAction h channel action' origin m)"

section \<open>Receiving the notification\<close>

definition getUnresolvedPeerChats :: "platform \<Rightarrow> admission \<Rightarrow> js_string \<Rightarrow> state_manager \<Rightarrow> js_string list option" where
  "getUnresolvedPeerChats pl adm sessionChannel m =
     map_option
       (\<lambda>st. map csum_resource
          (filter (\<lambda>chat. \<not> isDefaultChatUri pl (csum_resource chat) \<and> chat_state_at m (csum_resource chat) = None
             \<and> csum_resource chat \<notin> set (adm_unresolvable adm)) (ses_chats st)))
       (getSessionState pl sessionChannel m)"

definition starts_turn :: "state_action \<Rightarrow> bool" where
  "starts_turn action = (case action of ChatAct (ChatTurnStarted _) \<Rightarrow> True | _ \<Rightarrow> False)"

definition reviews_files :: "state_action \<Rightarrow> bool" where
  "reviews_files action = (case action of ChangesetAct (ChangesetFilesReviewChanged _) \<Rightarrow> True | _ \<Rightarrow> False)"

text \<open>Whether \<open>dispatchAction\<close> dispatches at once; otherwise it queues a mutation of the session.\<close>

definition dispatches_now ::
    "platform \<Rightarrow> admission \<Rightarrow> js_string \<Rightarrow> js_string \<Rightarrow> bool \<Rightarrow> state_action \<Rightarrow> state_manager \<Rightarrow> bool" where
  "dispatches_now pl adm channel sessionChannel isChat action m =
     (let requiresSessionRestore = ((isChat \<or> isSessionAction action) \<and> getSessionState pl sessionChannel m = None);
          requiresPeerResolution = (isChat \<and> chat_state_at m channel = None);
          requiresTurnOwnerResolution =
            (starts_turn action
             \<and> (requiresSessionRestore \<or> or_default (getUnresolvedPeerChats pl adm sessionChannel m) [] \<noteq> []))
      in adm_ready adm \<and> \<not> adm_deleting adm sessionChannel \<and> \<not> adm_pending adm sessionChannel
         \<and> \<not> requiresSessionRestore \<and> \<not> requiresPeerResolution \<and> \<not> requiresTurnOwnerResolution
         \<and> \<not> adm_rewrites adm sessionChannel action \<and> \<not> reviews_files action)"

datatype receipt =
    Handled "js_error option"
  | QueuedFor js_string
  | Ignored

definition dispatchAction ::
    "host \<Rightarrow> admission \<Rightarrow> js_string \<Rightarrow> state_action \<Rightarrow> action_origin \<Rightarrow> agent_host_client_type \<Rightarrow> state_manager
     \<Rightarrow> state_manager \<times> receipt" where
  "dispatchAction h adm channel action origin clientType m =
     (let pl = host_platform h; isChat = isAhpChatChannel pl channel
      in case (if isChat then parseRequiredSessionUriFromChatUri pl channel else Inr channel) of
           Inl e \<Rightarrow> (m, Handled (Some e))
         | Inr sessionChannel \<Rightarrow>
             if dispatches_now pl adm channel sessionChannel isChat action m
             then (let (m', err) = dispatchActionNow h adm channel sessionChannel action origin clientType m
                   in (m', Handled err))
             else (m, QueuedFor sessionChannel))"

text \<open>What a queued action does when the asynchronous work in front of it has ended.\<close>

definition resumeAction ::
    "host \<Rightarrow> admission \<Rightarrow> js_string \<Rightarrow> js_string \<Rightarrow> state_action \<Rightarrow> action_origin \<Rightarrow> agent_host_client_type
     \<Rightarrow> state_manager \<Rightarrow> state_manager" where
  "resumeAction h adm channel sessionChannel action origin clientType m =
     (if adm_deleting adm sessionChannel
      then rejectClientAction channel action origin (''Session is being deleted: '' @ sessionChannel) m
      else case dispatchActionNow h adm channel sessionChannel action origin clientType m of
        (m', None) \<Rightarrow> m'
      | (m', Some e) \<Rightarrow> rejectClientAction channel action origin (error_message e) m')"

definition unsupported_client_action :: "state_action \<Rightarrow> js_string option" where
  "unsupported_client_action action =
     (case action of
        ChatAct (ChatWorkingDirectorySet _) \<Rightarrow> Some ''chat/workingDirectorySet''
      | ChatAct (ChatWorkingDirectoryRemoved _) \<Rightarrow> Some ''chat/workingDirectoryRemoved''
      | _ \<Rightarrow> None)"

definition changes_root_config :: "state_action \<Rightarrow> bool" where
  "changes_root_config action = (case action of RootAct (RootConfigChanged _) \<Rightarrow> True | _ \<Rightarrow> False)"

definition receiveDispatchAction ::
    "host \<Rightarrow> admission \<Rightarrow> js_string \<Rightarrow> state_action \<Rightarrow> action_origin \<Rightarrow> agent_host_client_type \<Rightarrow> state_manager
     \<Rightarrow> state_manager \<times> receipt" where
  "receiveDispatchAction h adm channel action origin clientType m =
     (case unsupported_client_action action of
        Some type \<Rightarrow> (rejectClientAction channel action origin (''Unsupported action: '' @ type) m, Handled None)
      | None \<Rightarrow>
          if isSessionAction action \<or> isChatAction action \<or> isTerminalAction action \<or> isChangesetAction action
             \<or> isAnnotationsAction action \<or> changes_root_config action
          then dispatchAction h adm channel action origin clientType m
          else (m, Ignored))"

end
