(* ===== verification/Admission_Properties.thy ===== *)
theory Admission_Properties
  imports Client_Admission Host_Activity Delete_Properties
begin

text \<open>
  What the checks of \<open>Client_Admission\<close> protect: the configuration of a session, a session that is
  being deleted, an archived session; and what they let through.
\<close>

section \<open>The configurations of the sessions\<close>

definition session_configs :: "state_manager \<Rightarrow> js_string \<Rightarrow> session_config_state option option" where
  "session_configs m s = map_option (\<lambda>e. ses_config (sent_state e)) (session_at m s)"

named_theorems config_simps

lemma configs_same: "sm_sessions m' = sm_sessions m \<Longrightarrow> session_configs m' = session_configs m"
  by (simp add: session_configs_def session_at_def fun_eq_iff)

lemma configs_fields [config_simps]:
  "session_configs (m\<lparr>sm_chats := b\<rparr>) = session_configs m" "session_configs (m\<lparr>sm_nextChat := n\<rparr>) = session_configs m"
  "session_configs (m\<lparr>sm_changesets := c\<rparr>) = session_configs m" "session_configs (m\<lparr>sm_annotations := d\<rparr>) = session_configs m"
  "session_configs (m\<lparr>sm_active := e\<rparr>) = session_configs m" "session_configs (m\<lparr>sm_serverSeq := k\<rparr>) = session_configs m"
  "session_configs (m\<lparr>sm_dirty := g\<rparr>) = session_configs m" "session_configs (m\<lparr>sm_root := r\<rparr>) = session_configs m"
  "session_configs (m\<lparr>sm_out := p\<rparr>) = session_configs m"
  by (rule configs_same; simp)+

lemma configs_entries [config_simps]:
  "session_configs (set_chat c y m) = session_configs m" "session_configs (new_chat u s sm st p d r m) = session_configs m"
  "session_configs (emit ev m) = session_configs m" "session_configs (markDirty s m) = session_configs m"
  "session_configs (emit_envelope c a og rs m) = session_configs m"
  by (simp_all add: set_chat_def new_chat_def emit_def markDirty_def emit_envelope_def Let_def config_simps)

lemma configs_set [config_simps]:
  "session_configs (set_session s e m) = (session_configs m)(s \<mapsto> ses_config (sent_state e))"
  by (simp add: session_configs_def session_at_def set_session_def update_conv' fun_eq_iff)

lemma configs_keep: "session_configs m s = Some c \<Longrightarrow> (session_configs m)(s \<mapsto> c) = session_configs m"
  by (rule ext) simp

lemma configs_at: "session_at m s = Some e \<Longrightarrow> session_configs m s = Some (ses_config (sent_state e))"
  by (simp add: session_configs_def)

lemma configs_used [config_simps]: "session_configs (markSessionUsed s m) = session_configs m"
  by (simp add: markSessionUsed_def config_simps configs_keep configs_at split: option.split)

lemma configs_fold: "(\<And>x m. session_configs (f x m) = session_configs m) \<Longrightarrow> session_configs (fold f xs m) = session_configs m"
  by (induction xs arbitrary: m) simp_all

lemma configs_synchronize [config_simps]: "session_configs (synchronizeChatEntries s cs m) = session_configs m"
proof -
  have "session_configs (synchronize_one s c m) = session_configs m" for c m
    by (simp add: synchronize_one_def config_simps split: option.split)
  then show ?thesis by (simp add: synchronizeChatEntries_def Let_def config_simps configs_fold)
qed

definition changes_config :: "session_action \<Rightarrow> bool" where
  "changes_config a = (case a of SessionConfigChanged _ \<Rightarrow> True | _ \<Rightarrow> False)"

lemma updated_keeps_config [simp]: "\<not> changes_config (SessionChatUpdated u)"
  by (simp add: changes_config_def)

lemma sessionReducer_config: "\<not> changes_config a \<Longrightarrow> ses_config (sessionReducer s a) = ses_config s"
  by (cases a)
    (auto simp: changes_config_def sessionChatAdded_def sessionChatRemoved_def sessionChatUpdated_def
      sessionActiveClientSet_def sessionActiveClientRemoved_def
      sessionWorkingDirectorySet_def sessionWorkingDirectoryRemoved_def sessionWorkingDirectoryReplaced_def
      sessionInputNeededSet_def sessionInputNeededRemoved_def sessionCustomizationToggled_def
      sessionCustomizationUpdated_def sessionCustomizationRemoved_def updateMcpServerCustomization_def Let_def
      split: option.split customization.split)

lemma configs_apply_session:
  "session_configs (apply_session s a m) =
     (case session_at m s of None \<Rightarrow> session_configs m
      | Some e \<Rightarrow> (session_configs m)(s \<mapsto> ses_config (sessionReducer (sent_state e) a)))"
  by (simp add: apply_session_def Let_def config_simps split: option.split session_action.split)

lemma configs_session [config_simps]:
  "\<not> changes_config a \<Longrightarrow> session_configs (dispatch_session s a og m) = session_configs m"
  by (simp add: dispatch_session_def configs_apply_session config_simps sessionReducer_config configs_keep configs_at
      split: option.split)

lemma configs_forward [config_simps]: "session_configs (forward_chat_status s c x st m) = session_configs m"
  by (simp add: forward_chat_status_def Let_def config_simps)

lemma configs_store:
  assumes "session_configs m s = Some (ses_config st)"
  shows "session_configs (fst (store_aggregate s cs st m)) = session_configs m"
proof -
  have agg: "ses_config (aggregated_state cs st) = ses_config st" by (simp add: aggregated_state_def Let_def)
  have mod: "session_configs (fst (store_modified s b t e m')) = session_configs m'"
    if "session_configs m' s = Some (ses_config (sent_state e))" for b t e m'
    using that by (simp add: store_modified_def Let_def config_simps configs_keep split: option.split sum.split)
  show ?thesis
    using assms by (simp add: store_aggregate_def Let_def mod config_simps agg configs_keep split: option.split)
qed

lemma configs_roll_up:
  "session_at m s = Some e \<Longrightarrow> session_configs (fst (roll_up_chat s c n (sent_state e) m)) = session_configs m"
  by (simp add: roll_up_chat_def Let_def configs_store config_simps configs_at)

lemma configs_root [config_simps]: "session_configs (dispatch_root ch a og m) = session_configs m"
  by (simp add: dispatch_root_def Let_def config_simps)

lemma configs_track [config_simps]: "session_configs (track_active_turn s c p n m) = session_configs m"
  by (simp add: track_active_turn_def addChatActiveTurn_def removeChatActiveTurn_def dispatch_active_count_def Let_def
      config_simps split: option.split)

lemma configs_chat_changed: "session_configs (fst (onChatStateChanged s c p n m)) = session_configs m"
proof -
  have "session_configs (fst (case session_at m2 s of None \<Rightarrow> (m2, None) | Some x \<Rightarrow> roll_up_chat s c n (sent_state x) m2))
      = session_configs m2" for m2
    by (simp add: configs_roll_up split: option.split)
  then show ?thesis by (simp add: onChatStateChanged_def Let_def config_simps)
qed

lemma configs_chat [config_simps]: "session_configs (fst (dispatch_chat pl c a og m)) = session_configs m"
proof -
  have "session_configs (fst (and_then r (\<lambda>m'. (emit_envelope c (ChatAct a) og None m', None)))) = session_configs (fst r)" for r
    by (cases r; cases "snd r") (simp_all add: config_simps)
  then show ?thesis
    by (simp add: dispatch_chat_def configs_chat_changed config_simps split: option.split sum.split)
qed

lemma configs_dispatch:
  assumes "\<And>a. action = SessionAct a \<Longrightarrow> \<not> changes_config a"
  shows "session_configs (fst (applyAndEmit h ch action og m)) = session_configs m"
  using assms
  by (cases action)
    (simp_all add: applyAndEmit_def config_simps dispatch_changeset_def dispatch_annotations_def Let_def
      split: prod.split option.split)


section \<open>What a client can do to a configuration\<close>

definition config_after :: "session_config_changed_action \<Rightarrow> session_config_state \<Rightarrow> session_config_state" where
  "config_after c cfg = cfg\<lparr>scfg_values :=
     (if cfgChg_replace c = Some True then spread [] (cfgChg_config c)
      else spread (spread [] (scfg_values cfg)) (cfgChg_config c))\<rparr>"

definition locked_key :: "session_config_state \<Rightarrow> js_string \<Rightarrow> bool" where
  "locked_key cfg k \<longleftrightarrow>
     (\<exists>p. map_of (scs_properties (scfg_schema cfg)) k = Some p \<and> scps_sessionMutable p \<noteq> Some True)"

text \<open>
  A change of the configuration that a client may make: the schema and the keys the host owns stay, no
  key the schema does not have enters, and, unless the session is still a draft in its editor window,
  the keys that are not mutable keep their values up to the comparison \<open>equals\<close>.
\<close>

definition keeps_locked :: "bool \<Rightarrow> session_config_state \<Rightarrow> session_config_state \<Rightarrow> bool" where
  "keeps_locked draft cfg cfg' \<longleftrightarrow>
     scfg_schema cfg' = scfg_schema cfg
     \<and> (\<forall>k \<in> set HOST_WRITTEN_SESSION_CONFIG_KEYS. map_of (scfg_values cfg') k = map_of (scfg_values cfg) k)
     \<and> (\<forall>k. map_of (scfg_values cfg') k \<noteq> None \<longrightarrow> map_of (scfg_values cfg) k = None
          \<longrightarrow> map_of (scs_properties (scfg_schema cfg)) k \<noteq> None)
     \<and> (\<not> draft \<longrightarrow> (\<forall>k. locked_key cfg k \<longrightarrow>
          map_of (scfg_values cfg') k = map_of (scfg_values cfg) k
          \<or> optional_equals (map_of (scfg_values cfg') k) (map_of (scfg_values cfg) k)))"

lemma keeps_locked_refl: "keeps_locked draft cfg cfg"
  by (auto simp: keeps_locked_def)

lemma distinct_spread: "distinct (map fst a) \<Longrightarrow> distinct (map fst (spread a b))"
  by (induction a b rule: spread.induct) (simp_all add: distinct_update)

lemma map_of_reversed: "distinct (map fst xs) \<Longrightarrow> map_of (rev xs) = map_of xs"
  by (intro map_of_eqI) (auto simp: map_of_is_SomeI simp flip: rev_map)

lemma map_of_copy [simp]: "map_of (spread [] b) = map_of (rev b)"
  by (simp add: map_of_spread)

lemma map_of_rev_spread [simp]: "map_of (rev (spread (spread [] a) b)) = map_of (spread (spread [] a) b)"
  by (rule map_of_reversed) (simp add: distinct_spread)

lemma rev_pair: "map_of (rev b) k = Some v \<Longrightarrow> (k, v) \<in> set b"
  by (drule map_of_SomeD) simp

lemma rev_None [simp]: "map_of (rev b) k = None \<longleftrightarrow> map_of b k = None"
  by (simp add: map_of_eq_None_iff)

lemma rev_absent [simp]: "map_of b k = None \<Longrightarrow> map_of (rev b) k = None"
  by simp

lemma accepted_config:
  assumes "config_rejection state ct c = None" and "Option.bind state ses_config = Some cfg"
  shows "\<And>k v. (k, v) \<in> set (cfgChg_config c) \<Longrightarrow> map_of (scs_properties (scfg_schema cfg)) k \<noteq> None"
    and "\<And>k v. (k, v) \<in> set (cfgChg_config c) \<Longrightarrow> locked_key cfg k
      \<Longrightarrow> \<not> (map_option ses_lifecycle state = Some SessionCreating \<and> ct = EditorWindow)
      \<Longrightarrow> optional_equals (Some v) (map_of (scfg_values cfg) k)"
    and "\<And>k. cfgChg_replace c = Some True \<Longrightarrow> locked_key cfg k \<Longrightarrow> map_of (scfg_values cfg) k \<noteq> None
      \<Longrightarrow> map_of (cfgChg_config c) k \<noteq> None"
proof -
  have none: "unknownKeys state (cfgChg_config c) = []" "immutableKeys state ct (cfgChg_config c) = []"
    "\<not> replaceChangesImmutableValue state c"
    using assms(1) by (auto simp: config_rejection_def Let_def split: if_splits)
  have read: "config_schema state = scs_properties (scfg_schema cfg)" "config_values state = scfg_values cfg"
    using assms(2) by (simp_all add: config_schema_def config_values_def)
  show "map_of (scs_properties (scfg_schema cfg)) k \<noteq> None" if "(k, v) \<in> set (cfgChg_config c)" for k v
    using none(1) that by (auto simp: unknownKeys_def read filter_empty_conv)
  show "optional_equals (Some v) (map_of (scfg_values cfg) k)"
    if "(k, v) \<in> set (cfgChg_config c)" "locked_key cfg k"
      "\<not> (map_option ses_lifecycle state = Some SessionCreating \<and> ct = EditorWindow)" for k v
    using none(2) that by (auto simp: immutableKeys_def read filter_empty_conv mutable_key_def locked_key_def split: if_splits)
  show "map_of (cfgChg_config c) k \<noteq> None"
    if "cfgChg_replace c = Some True" "locked_key cfg k" "map_of (scfg_values cfg) k \<noteq> None" for k
  proof -
    note locked = that
    obtain p where "(k, p) \<in> set (scs_properties (scfg_schema cfg))" "scps_sessionMutable p \<noteq> Some True"
      using locked(2) by (auto simp: locked_key_def dest: map_of_SomeD)
    then show ?thesis using none(3) locked(1,3) by (auto simp: replaceChangesImmutableValue_def read list_ex_iff)
  qed
qed

lemma preserved_value:
  assumes "Option.bind state ses_config = Some cfg" and "k \<in> set HOST_WRITTEN_SESSION_CONFIG_KEYS"
    and "map_of (cfgChg_config c) k = None"
  shows "map_of (rev (cfgChg_config (withPreservedHostWrittenSessionConfig state c))) k = map_of (scfg_values cfg) k"
  using assms
  by (auto simp: withPreservedHostWrittenSessionConfig_def HOST_WRITTEN_SESSION_CONFIG_KEYS_def Let_def map_of_spread
      split: option.splits)

lemma preserved_replace [simp]:
  "cfgChg_replace (withPreservedHostWrittenSessionConfig state c) = cfgChg_replace c"
  by (simp add: withPreservedHostWrittenSessionConfig_def Let_def split: option.split)

lemma admit_config_keeps:
  assumes "admit_config pl s ct c m = Inr action" and "getSessionState pl s m = Some st" and "ses_config st = Some cfg"
    and "distinct (map fst (scfg_values cfg))"
  shows "\<exists>c'. action = SessionAct (SessionConfigChanged c')
    \<and> keeps_locked (ses_lifecycle st = SessionCreating \<and> ct = EditorWindow) cfg (config_after c' cfg)"
proof -
  let ?state = "Some st"
  let ?draft = "ses_lifecycle st = SessionCreating \<and> ct = EditorWindow"
  define c' where "c' = (if cfgChg_replace c = Some True then withPreservedHostWrittenSessionConfig ?state c else c)"
  have ok: "action = SessionAct (SessionConfigChanged c')" "config_rejection ?state ct c' = None"
    and free: "\<And>k. k \<in> set HOST_WRITTEN_SESSION_CONFIG_KEYS \<Longrightarrow> map_of (cfgChg_config c) k = None"
    using assms(1,2) by (auto simp: c'_def admit_config_def Let_def filter_empty_conv split: if_splits option.splits)
  have cfg: "Option.bind ?state ses_config = Some cfg" using assms(3) by simp
  note acc = accepted_config [OF ok(2) cfg]
  define new where "new = map_of (rev (cfgChg_config c'))"
  have replace: "cfgChg_replace c' = cfgChg_replace c" by (simp add: c'_def)
  have vals: "map_of (scfg_values (config_after c' cfg)) k =
      (if cfgChg_replace c = Some True then new k
       else case new k of Some v \<Rightarrow> Some v | None \<Rightarrow> map_of (scfg_values cfg) k)" for k
    using assms(4) by (simp add: config_after_def replace new_def map_of_spread map_add_def map_of_reversed)
  have host: "map_of (scfg_values (config_after c' cfg)) k = map_of (scfg_values cfg) k"
    if "k \<in> set HOST_WRITTEN_SESSION_CONFIG_KEYS" for k
    using preserved_value [OF cfg that free [OF that]] free [OF that] unfolding vals by (simp add: c'_def new_def)
  have known: "map_of (scs_properties (scfg_schema cfg)) k \<noteq> None"
    if "map_of (scfg_values (config_after c' cfg)) k \<noteq> None" "map_of (scfg_values cfg) k = None" for k
    using that acc(1) rev_pair [of "cfgChg_config c'" k] by (auto simp: vals new_def split: if_splits option.splits)
  have locked: "map_of (scfg_values (config_after c' cfg)) k = map_of (scfg_values cfg) k
      \<or> optional_equals (map_of (scfg_values (config_after c' cfg)) k) (map_of (scfg_values cfg) k)"
    if "\<not> ?draft" "locked_key cfg k" for k
  proof (cases "new k")
    case None
    then show ?thesis using acc(3) [OF _ that(2)] by (cases "map_of (scfg_values cfg) k") (auto simp: vals replace new_def)
  next
    case (Some v)
    then have "optional_equals (Some v) (map_of (scfg_values cfg) k)"
      using acc(2) [OF rev_pair that(2)] that(1) by (simp add: new_def)
    then show ?thesis by (simp add: vals Some)
  qed
  have "keeps_locked ?draft cfg (config_after c' cfg)"
    unfolding keeps_locked_def using host known locked by (auto simp: config_after_def)
  then show ?thesis using ok(1) by blast
qed


section \<open>Client events\<close>

text \<open>
  What a client causes: the arrival of a notification, the end of the asynchronous work a queued
  action waited for (the action it dispatches then has its attachments rewritten), or the failure of
  that work. The lifecycle and the other inputs of the checks are those of that moment.
\<close>

datatype client_event =
    Arrived js_string state_action action_origin agent_host_client_type
  | Resumed js_string state_action action_origin agent_host_client_type
  | WorkFailed js_string state_action action_origin agent_host_client_type js_error

fun client_step :: "host \<Rightarrow> admission \<Rightarrow> client_event \<Rightarrow> state_manager \<Rightarrow> state_manager" where
  "client_step h adm (Arrived channel action origin ct) m = fst (receiveDispatchAction h adm channel action origin ct m)"
| "client_step h adm (Resumed channel action origin ct) m =
     (case (if isAhpChatChannel (host_platform h) channel
            then parseRequiredSessionUriFromChatUri (host_platform h) channel else Inr channel) of
        Inl e \<Rightarrow> m
      | Inr session \<Rightarrow> resumeAction h adm channel session action origin ct m)"
| "client_step h adm (WorkFailed channel action origin ct e) m = rejectClientAction channel action origin (error_message e) m"

fun event_client :: "client_event \<Rightarrow> agent_host_client_type" where
  "event_client (Arrived _ _ _ ct) = ct"
| "event_client (Resumed _ _ _ ct) = ct"
| "event_client (WorkFailed _ _ _ ct _) = ct"

text \<open>
  An event leaves the state as it is up to rejections, or dispatches the action that the checks
  answered with, and may reject it afterwards when the dispatch threw.
\<close>

definition rejects_only :: "state_manager \<Rightarrow> state_manager \<Rightarrow> bool" where
  "rejects_only m m' \<longleftrightarrow>
     m' = m \<or> (\<exists>channel action origin reason. m' = rejectClientAction channel action origin reason m)"

definition passes_as ::
    "host \<Rightarrow> admission \<Rightarrow> js_string \<Rightarrow> js_string \<Rightarrow> state_action \<Rightarrow> agent_host_client_type \<Rightarrow> state_manager \<Rightarrow> state_action \<Rightarrow> bool" where
  "passes_as h adm channel session action ct m action' \<longleftrightarrow>
     (\<not> isAhpChatChannel (host_platform h) channel \<longrightarrow> session = channel)
     \<and> (isAhpChatChannel (host_platform h) channel
          \<longrightarrow> parseRequiredSessionUriFromChatUri (host_platform h) channel = Inr session)
     \<and> admit (host_platform h) adm channel session action ct m = Inr action'"

definition dispatched_or_rejected ::
    "host \<Rightarrow> admission \<Rightarrow> agent_host_client_type \<Rightarrow> state_manager \<Rightarrow> state_manager \<Rightarrow> bool" where
  "dispatched_or_rejected h adm ct m m' \<longleftrightarrow>
     rejects_only m m'
     \<or> (\<exists>channel session action action' origin.
          passes_as h adm channel session action ct m action'
          \<and> rejects_only (fst (applyAndEmit h channel action' (Some origin) m)) m')"

lemma rejects_refl [simp]: "rejects_only m m" "rejects_only m (rejectClientAction channel action origin reason m)"
  by (auto simp: rejects_only_def)

lemma now_cases:
  assumes "dispatchActionNow h adm ch s a og ct m = (m', err)" and "\<not> isAhpChatChannel (host_platform h) ch \<longrightarrow> s = ch"
    and "isAhpChatChannel (host_platform h) ch \<longrightarrow> parseRequiredSessionUriFromChatUri (host_platform h) ch = Inr s"
  shows "dispatched_or_rejected h adm ct m m'"
    and "err \<noteq> None \<Longrightarrow> dispatched_or_rejected h adm ct m (rejectClientAction ch a og reason m')"
proof -
  have "(rejects_only m m' \<and> err = None)
      \<or> (\<exists>a'. passes_as h adm ch s a ct m a' \<and> m' = fst (applyAndEmit h ch a' (Some og) m))"
    using assms by (auto simp: dispatchActionNow_def dispatchClientAction_def passes_as_def rejects_only_def
        split: sum.splits prod.splits)
  then show "dispatched_or_rejected h adm ct m m'"
    and "err \<noteq> None \<Longrightarrow> dispatched_or_rejected h adm ct m (rejectClientAction ch a og reason m')"
    unfolding dispatched_or_rejected_def by (metis rejects_refl)+
qed

lemma client_step_cases: "dispatched_or_rejected h adm (event_client ev) m (client_step h adm ev m)"
proof -
  have quiet: "dispatched_or_rejected h adm ct m m" "dispatched_or_rejected h adm ct m (rejectClientAction c x o' r m)"
    for ct c x o' r by (simp_all add: dispatched_or_rejected_def)
  show ?thesis
  proof (cases ev)
    case (Arrived ch a og ct)
    have "dispatched_or_rejected h adm ct m (fst (dispatchAction h adm ch a og ct m))"
      by (auto simp: dispatchAction_def Let_def quiet split: sum.split prod.split intro: now_cases(1))
    then show ?thesis by (simp add: Arrived receiveDispatchAction_def quiet split: option.split)
  next
    case (Resumed ch a og ct)
    then show ?thesis
      by (auto simp: resumeAction_def quiet split: sum.split prod.split option.split intro: now_cases)
  qed (simp add: quiet)
qed

section \<open>The configuration is locked\<close>

lemma configs_rejects: "rejects_only m m' \<Longrightarrow> session_configs m' = session_configs m"
  by (auto simp: rejects_only_def rejectClientAction_def config_simps)

lemma admitted_config:
  "admit pl adm ch s a ct m = Inr (SessionAct (SessionConfigChanged c'))
     \<Longrightarrow> \<exists>c. admit_config pl s ct c m = Inr (SessionAct (SessionConfigChanged c'))"
  by (auto simp: admit_def admit_turn_def admit_directory_def Let_def
      split: if_splits state_action.splits chat_action.splits session_action.splits sum.splits)

lemma plain_state:
  "\<not> isAhpChatChannel pl s \<Longrightarrow> session_at m s = Some e
     \<Longrightarrow> \<exists>st. getSessionState pl s m = Some st \<and> ses_config st = ses_config (sent_state e)
           \<and> ses_lifecycle st = ses_lifecycle (sent_state e)"
  by (simp add: getSessionState_def resolveOwningSession_def mergeSessionWithDefaultChat_def session_state.defs)

lemma config_step:
  assumes s: "\<not> isAhpChatChannel (host_platform h) s" and e: "session_at m s = Some e" "ses_config (sent_state e) = Some cfg"
    and "distinct (map fst (scfg_values cfg))" and "passes_as h adm ch sc a ct m a'"
  shows "\<exists>cfg'. session_configs (fst (applyAndEmit h ch a' og m)) s = Some (Some cfg')
    \<and> keeps_locked (ses_lifecycle (sent_state e) = SessionCreating \<and> ct = EditorWindow) cfg cfg'"
proof (cases "\<exists>c'. a' = SessionAct (SessionConfigChanged c')")
  case False
  then have "session_configs (fst (applyAndEmit h ch a' og m)) = session_configs m"
    by (intro configs_dispatch) (auto simp: changes_config_def split: session_action.splits)
  then show ?thesis using e by (auto simp: configs_at intro: keeps_locked_refl)
next
  case True
  then obtain c' where a': "a' = SessionAct (SessionConfigChanged c')" by blast
  have view: "session_configs (fst (applyAndEmit h ch a' og m)) =
     (case session_at m ch of None \<Rightarrow> session_configs m
      | Some e \<Rightarrow> (session_configs m)(ch \<mapsto> ses_config (sessionConfigChanged (sent_state e) c')))"
    by (simp add: a' applyAndEmit_def dispatch_session_def configs_apply_session config_simps split: option.split)
  show ?thesis
  proof (cases "ch = s")
    case False
    then have "session_configs (fst (applyAndEmit h ch a' og m)) s = session_configs m s"
      by (simp add: view split: option.split)
    then show ?thesis using e by (auto simp: configs_at intro: keeps_locked_refl)
  next
    case True
    then have "sc = s" using assms(1,5) by (simp add: passes_as_def)
    then obtain c where c: "admit_config (host_platform h) s ct c m = Inr a'"
      using admitted_config assms(5) unfolding passes_as_def a' by blast
    obtain st where st: "getSessionState (host_platform h) s m = Some st" "ses_config st = Some cfg"
      "ses_lifecycle st = ses_lifecycle (sent_state e)"
      using plain_state [OF s e(1)] e(2) by auto
    have "session_configs (fst (applyAndEmit h ch a' og m)) s = Some (Some (config_after c' cfg))"
      unfolding view unfolding True by (simp add: e sessionConfigChanged_def config_after_def)
    moreover have "keeps_locked (ses_lifecycle (sent_state e) = SessionCreating \<and> ct = EditorWindow) cfg (config_after c' cfg)"
      using admit_config_keeps [OF c st(1,2) assms(4)] by (simp add: a' st(3))
    ultimately show ?thesis by blast
  qed
qed



section \<open>A session that is being deleted\<close>

fun event_session :: "platform \<Rightarrow> client_event \<Rightarrow> js_string option" where
  "event_session pl (Arrived channel _ _ _) =
     (if isAhpChatChannel pl channel then parseDefaultChatUri pl channel else Some channel)"
| "event_session pl (Resumed channel _ _ _) =
     (if isAhpChatChannel pl channel then parseDefaultChatUri pl channel else Some channel)"
| "event_session pl (WorkFailed channel _ _ _ _) =
     (if isAhpChatChannel pl channel then parseDefaultChatUri pl channel else Some channel)"

lemma required_session: "parseDefaultChatUri pl c = Some s \<Longrightarrow> parseRequiredSessionUriFromChatUri pl c = Inr s"
  by (simp add: parseRequiredSessionUriFromChatUri_def)

lemma deleting_rejects:
  assumes "event_session (host_platform h) ev = Some s" and "adm_deleting adm s"
  shows "rejects_only m (client_step h adm ev m)"
proof (cases ev)
  case (Arrived ch a og ct)
  have "rejects_only m (fst (dispatchAction h adm ch a og ct m))"
    using assms
    by (auto simp: Arrived dispatchAction_def dispatches_now_def Let_def split: if_splits sum.split dest: required_session)
  then show ?thesis by (simp add: Arrived receiveDispatchAction_def split: option.split)
next
  case (Resumed ch a og ct)
  then show ?thesis using assms by (auto simp: resumeAction_def split: if_splits sum.split dest: required_session)
qed simp

text \<open>
  C5. From the moment the host has loaded its pending deletes, a session whose delete intent is stored,
  or whose deletion runs, is frozen for clients: whatever one sends to the session or to one of its
  chats, and whatever queued action of theirs comes to its turn, at most an envelope with a rejection
  is added; no session, chat, turn or root state changes. This holds across restarts of the host
  in the middle of the deletion.
\<close>

theorem deleting_session_frozen:
  assumes "delete_run s w" and "isReady w" and "getDeleteIntent s (dw_db w) \<noteq> None \<or> dw_stage w \<noteq> None"
    and "adm_deleting adm = (\<lambda>x. isDeleting x w)" and "event_session (host_platform h) ev = Some s"
  shows "(sm_sessions (client_step h adm ev m), sm_chats (client_step h adm ev m), sm_active (client_step h adm ev m),
      sm_root (client_step h adm ev m)) = (sm_sessions m, sm_chats m, sm_active m, sm_root m)
    \<and> (\<forall>e. EmitEnvelope e \<in> set (sm_out (client_step h adm ev m))
         \<longrightarrow> EmitEnvelope e \<in> set (sm_out m) \<or> env_rejectionReason e \<noteq> None)"
proof -
  have "delete_inv s w" by (rule delete_run_inv [OF assms(1)])
  then have "adm_deleting adm s" using assms(2-4) by (auto simp: delete_inv_def)
  then have "rejects_only m (client_step h adm ev m)" by (rule deleting_rejects [OF assms(5)])
  then show ?thesis by (auto simp: rejects_only_def rejectClientAction_def emit_envelope_def emit_def Let_def)
qed

section \<open>What the checks let through\<close>

lemma removed_chat:
  assumes "distinct (map csum_resource (ses_chats st))"
  shows "c \<notin> csum_resource ` set (ses_chats (sessionChatRemoved st c))"
proof (cases "find_chat st c")
  case None
  then have "sessionChatRemoved st c = st" by (simp add: sessionChatRemoved_def)
  then show ?thesis using None by (auto simp: find_chat_def find_index_None_iff)
next
  case (Some i)
  let ?xs = "map csum_resource (ses_chats st)"
  have i: "i < length ?xs" "?xs ! i = c" using Some by (auto simp: find_chat_def dest: find_index_SomeD)
  have "map csum_resource (ses_chats (sessionChatRemoved st c)) = remove_at i ?xs"
    using Some by (simp add: sessionChatRemoved_def Let_def map_remove_at)
  moreover have "?xs ! i \<notin> set (remove_at i ?xs)"
    by (rule nth_removed [OF assms i(1)])
  ultimately show ?thesis using i(2) by (metis list.set_map)
qed

lemma sync_active:
  "is_active (sync_chats s R C c) \<Longrightarrow> is_active (C c) \<and> (c \<in> R \<or> (\<exists>v. C c = Some v \<and> fst v \<noteq> s))"
  by (auto simp: sync_chats_def sync_entry_def is_active_def split: if_splits option.splits prod.splits)

lemma gone_chat_quiet:
  "chat_at m c = None
     \<Longrightarrow> chat_at (fst (dispatchClientAction h c (ChatAct a) og m)) c = None
       \<and> sm_active (fst (dispatchClientAction h c (ChatAct a) og m)) = sm_active m"
  by (simp add: dispatchClientAction_def applyAndEmit_def dispatch_chat_def emit_envelope_def emit_def chat_at_def Let_def
      split: sum.split)

text \<open>
  C6. Nothing in the path of a client's action asks \<open>isClientDispatchable\<close>. A client may dispatch
  \<open>session/chatRemoved\<close>, which only the server originates, for a chat with a running turn: the host
  applies it and drops the chat, but the session stays in the table of sessions with a running turn,
  and no later action on that chat takes it out again, so the host counts a session as active in which
  no turn runs and does not shut down for lack of work.
\<close>

theorem client_strands_session:
  assumes "\<not> isAhpChatChannel (host_platform h) s" and "session_at m s = Some e"
    and "c \<in> csum_resource ` set (ses_chats (sent_state e))" and "distinct (map csum_resource (ses_chats (sent_state e)))"
    and "activity_ok (host_platform h) m" and "\<And>c'. runs_turn (host_platform h) m s c' \<longleftrightarrow> c' = c"
    and "adm_ready adm" "\<not> adm_deleting adm s" "\<not> adm_pending adm s" "\<not> adm_rewrites adm s (SessionAct (SessionChatRemoved c))"
  shows "let (m', answer) = receiveDispatchAction h adm s (SessionAct (SessionChatRemoved c)) og ct m
    in \<not> isClientDispatchable (SessionAct (SessionChatRemoved c)) \<and> answer = Handled None
       \<and> chat_at m' c = None \<and> (\<forall>c'. \<not> runs_turn (host_platform h) m' s c')
       \<and> (\<forall>acts. hasActiveTurn s
            (fold (\<lambda>(a, o') m. fst (dispatchClientAction h c (ChatAct a) o' m)) acts m'))"
proof -
  let ?pl = "host_platform h"
  let ?a = "SessionChatRemoved c"
  let ?m = "dispatch_session s ?a (Some og) m"
  have state: "getSessionState ?pl s m \<noteq> None" using plain_state [OF assms(1,2)] by auto
  then have receive: "receiveDispatchAction h adm s (SessionAct ?a) og ct m = (?m, Handled None)"
    using assms(1,7-10)
    by (simp add: receiveDispatchAction_def unsupported_client_action_def isSessionAction_def dispatchAction_def
        dispatches_now_def starts_turn_def reviews_files_def dispatchActionNow_def admit_def dispatchClientAction_def
        applyAndEmit_def Let_def)
  let ?R = "csum_resource ` set (ses_chats (sessionReducer (sent_state e) ?a))"
  have removed: "c \<notin> ?R" using removed_chat [OF assms(4)] by simp
  have view: "host_view ?m = host_view (apply_session s ?a m)" by (simp add: dispatch_session_def view_simps)
  then have chats: "chats_view ?m = sync_chats s ?R (chats_view m)"
    using view_apply_session [OF activityD(1) [OF assms(5)] assms(2), of ?a] by (simp add: host_view_def)
  have owner: "fst v = s" if "chats_view m c' = Some v" "parseDefaultChatUri ?pl c' = Some s" for c' v
    using view_okD(4) [OF activityD(4) [OF assms(5)] that(1)] that(2) by (auto simp: entry_fits_def split: prod.splits)
  have quiet: "\<not> runs_turn ?pl ?m s c'" for c'
  proof
    assume run: "runs_turn ?pl ?m s c'"
    then have uri: "parseDefaultChatUri ?pl c' = Some s" by (simp add: runs_turn_def)
    have "is_active (chats_view ?m c')" using run by (auto simp: runs_turn_def is_active_chat)
    then have "is_active (chats_view m c')" "c' \<in> ?R"
      using sync_active owner uri unfolding chats by blast+
    then have "runs_turn ?pl m s c'" using uri by (auto simp: runs_turn_def is_active_chat)
    then show False using assms(6) removed \<open>c' \<in> ?R\<close> by simp
  qed
  have gone: "chat_at ?m c = None"
  proof -
    have "chats_view m c = Some v \<Longrightarrow> fst v = s" for v
      using owner assms(6) [of c] by (simp add: runs_turn_def)
    then have "chats_view ?m c = None" using removed by (auto simp: chats sync_chats_def split: option.split)
    then show ?thesis by (simp add: chats_view_def)
  qed
  have active: "sm_active ?m = sm_active m" by simp
  have "hasActiveTurn s m" using active_session [OF assms(5)] assms(6) by blast
  moreover have "sm_active (fold (\<lambda>(a, o') m. fst (dispatchClientAction h c (ChatAct a) o' m)) acts m1) = sm_active m1"
    if "chat_at m1 c = None" for acts m1
    using that by (induction acts arbitrary: m1) (auto simp: gone_chat_quiet)
  ultimately have "hasActiveTurn s (fold (\<lambda>(a, o') m. fst (dispatchClientAction h c (ChatAct a) o' m)) acts ?m)" for acts
    using gone active by (simp add: hasActiveTurn_def)
  then show ?thesis using gone quiet by (simp add: receive)
qed


section \<open>Concrete states\<close>

definition sample_admission :: admission where
  "sample_admission = \<lparr>adm_ready = True, adm_deleting = (\<lambda>_. False), adm_pending = (\<lambda>_. False), adm_unresolvable = [],
     adm_capability = (\<lambda>_. False), adm_rewrites = (\<lambda>_ _. False), adm_sameResource = (=)\<rparr>"

definition sample_configured :: "session_config_state \<Rightarrow> session_entry" where
  "sample_configured cfg = newEntry ((createSessionState sample_host_session)\<lparr>ses_lifecycle := SessionReadyState,
     ses_config := Some cfg\<rparr>) sample_host_session UsedSession"

definition sample_property :: config_property_schema where
  "sample_property = ConfigPropertySchema CfgString ''p'' None None None None None None None None None None"

definition sample_locked :: session_config_state where
  "sample_locked =
     \<lparr>scfg_schema = \<lparr>scs_properties = [(''mode'', \<lparr>scps_base = sample_property, scps_enumDynamic = None, scps_sessionMutable = Some True\<rparr>),
         (''branch'', \<lparr>scps_base = sample_property, scps_enumDynamic = None, scps_sessionMutable = None\<rparr>)], scs_required = None\<rparr>,
      scfg_values = [(''mode'', JString ''ask''), (''branch'', JString ''main''), (''agentMerge.controller'', JString ''host'')]\<rparr>"

definition sample_replace :: state_action where
  "sample_replace = SessionAct (SessionConfigChanged \<lparr>cfgChg_config = [(''mode'', JString ''edit'')], cfgChg_replace = Some True\<rparr>)"

definition sample_origin :: action_origin where
  "sample_origin = \<lparr>org_clientId = ''w1'', org_clientSeq = 1\<rparr>"

lemma plain_session_uri: "\<not> isAhpChatChannel (host_platform sample_host) ''copilot:/s1''"
  by code_simp


lemma deleting_session_frozen_witness:
  "sm_sessions (client_step sample_host (sample_admission\<lparr>adm_deleting := (\<lambda>x. isDeleting x sample_failed)\<rparr>)
      (Resumed ''codex:/s'' (SessionAct (SessionTitleChanged ''late'')) sample_origin AgentsWindow)
      (new_state_manager sample_config None None)) = []"
proof -
  have a: "isReady sample_failed" by code_simp
  have b: "getDeleteIntent ''codex:/s'' (dw_db sample_failed) \<noteq> None" by code_simp
  have c: "event_session (host_platform sample_host)
      (Resumed ''codex:/s'' (SessionAct (SessionTitleChanged ''late'')) sample_origin AgentsWindow) = Some ''codex:/s''"
    by code_simp
  show ?thesis
    using deleting_session_frozen [OF sample_failed_run a disjI1 [OF b] _ c,
        of "sample_admission\<lparr>adm_deleting := (\<lambda>x. isDeleting x sample_failed)\<rparr>" "new_state_manager sample_config None None"]
    by (simp add: new_state_manager_def)
qed

text \<open>A session whose only chat runs a turn.\<close>

definition sample_running :: "js_string \<Rightarrow> state_manager" where
  "sample_running c =
     (let summary = createDefaultChatSummary sample_host_session c;
          turn = createActiveTurn ''t1'' (turnStarted_message sample_turn_start) (turnStarted_startedAt sample_turn_start);
          state = (createSessionState sample_host_session)\<lparr>ses_lifecycle := SessionReadyState, ses_chats := [summary]\<rparr>;
          new = new_state_manager sample_config None None
      in new\<lparr>sm_sessions := [(''copilot:/s1'', newEntry state sample_host_session UsedSession)],
          sm_chats := [(c, \<lparr>cent_id = 0, cent_session = ''copilot:/s1'', cent_summary = summary,
            cent_state = Some ((createChatState summary)\<lparr>chat_activeTurn := Some turn\<rparr>), cent_providerData = None,
            cent_draft = None, cent_resolver = None, cent_inFlight = False, cent_valid = True\<rparr>)],
          sm_active := [(''copilot:/s1'', [c])], sm_root := (sm_root new)\<lparr>root_activeSessions := Some 1\<rparr>\<rparr>)"

lemma sample_running_ok:
  assumes "parseDefaultChatUri pl c = Some ''copilot:/s1''"
  shows "activity_ok pl (sample_running c)" "runs_turn pl (sample_running c) ''copilot:/s1'' c' \<longleftrightarrow> c' = c"
proof -
  have "host_view (sample_running c) =
      (True, [''copilot:/s1'' \<mapsto> {c}], [c \<mapsto> (''copilot:/s1'', c, Some (c, True))], [(''copilot:/s1'', [c])], Some 1)"
    by (auto simp: sample_running_def host_view_def listed_chats_def chats_view_def session_at_def chat_at_def entry_view_def
        newEntry_def createDefaultChatSummary_def createChatState_def Let_def fun_eq_iff)
  moreover have "view_ok pl (True, [''copilot:/s1'' \<mapsto> {c}], [c \<mapsto> (''copilot:/s1'', c, Some (c, True))], [(''copilot:/s1'', [c])], Some 1)"
    using assms
    by (intro view_okI) (auto simp: table_ok_def entry_fits_def turns_of_def is_active_def split: if_splits)
  ultimately show "activity_ok pl (sample_running c)" by (simp add: activity_ok_def)
  show "runs_turn pl (sample_running c) ''copilot:/s1'' c' \<longleftrightarrow> c' = c"
    using assms by (auto simp: runs_turn_def sample_running_def chat_state_at_def chat_at_def Let_def)
qed

lemma client_strands_session_witness:
  "let c = buildDefaultChatUri ascii_platform ''copilot:/s1'';
       m' = fst (receiveDispatchAction sample_host sample_admission ''copilot:/s1'' (SessionAct (SessionChatRemoved c))
              sample_origin AgentsWindow (sample_running c))
   in chat_at m' c = None \<and> hasActiveTurn ''copilot:/s1'' m'"
proof -
  let ?c = "buildDefaultChatUri ascii_platform ''copilot:/s1''"
  have "pf_encode ascii_platform ''copilot:/s1'' \<noteq> []" by (simp add: ascii_encode_Nil)
  note uri = default_chat_uri_read_back [OF _ this]
  have read: "parseDefaultChatUri (host_platform sample_host) ?c = Some ''copilot:/s1''"
    unfolding sample_host_def by simp (rule uri; simp add: ascii_codec)
  have entry: "session_at (sample_running ?c) ''copilot:/s1'' = Some (newEntry ((createSessionState sample_host_session)
      \<lparr>ses_lifecycle := SessionReadyState, ses_chats := [createDefaultChatSummary sample_host_session ?c]\<rparr>)
      sample_host_session UsedSession)"
    by (simp add: sample_running_def session_at_def Let_def)
  show ?thesis
    using client_strands_session [OF plain_session_uri entry, where c = ?c and adm = sample_admission and og = sample_origin
        and ct = AgentsWindow] sample_running_ok [OF read]
    by (auto simp: Let_def newEntry_def createDefaultChatSummary_def sample_admission_def split: prod.splits dest: spec [of _ "[]"])
qed

end
