(* ===== verification/Client_Connections.thy ===== *)
theory Client_Connections
  imports State_Manager_Laws Subscription_Manager
begin

text \<open>
  The connections of clients, \<open>ProtocolServerHandler\<close> of \<open>node/protocolServerHandler.ts\<close>: the client
  records with their transports and subscriptions, the broadcast and the replay buffer, reconnecting,
  and the grace window after a disconnect with its timeouts; with the subscriber table of
  \<open>AgentService\<close> (\<open>addSubscriber\<close>, \<open>unsubscribe\<close>).

  The handlers that await are cut where they do: a \<open>subscribe_task\<close> is a call of
  \<open>AgentService.subscribe\<close> in flight, a \<open>reconnect_task\<close> a \<open>reconnect\<close> whose response is not sent yet.
  Requests that only pass to the agent service, notifications without a channel, telemetry, managed
  settings and log records are not modelled; the timeout that drops managed settings is, because it
  keeps a client's record.
  The timeouts of an absent client are part of its record; when a failing handshake has replaced that
  record and cannot be undone, they are gone with it.
\<close>

section \<open>State\<close>

datatype channel_subscription = StateChannel | ResourceWatchChannel | OtlpLogsChannel js_string

record connection =
  con_id :: nat
  con_subscriptions :: "(js_string \<times> channel_subscription) list"

datatype timeout = ManagedSettingsTimeout int | ReleaseTimeout js_string int

fun due :: "timeout \<Rightarrow> int" where
  "due (ManagedSettingsTimeout t) = t"
| "due (ReleaseTimeout _ t) = t"

text \<open>An active record has its transports, oldest first; a grace record when the client was last seen.\<close>

datatype client_record =
    ActiveRecord "connection list"
  | GraceRecord bool int "(js_string \<times> timeout) list"

text \<open>A snapshot in a reply is its resource and the \<open>fromSeq\<close> it stands for.\<close>

datatype server_message =
    ActionMessage action_envelope
  | InitializeReply nat "(js_string \<times> nat) list"
  | ReplayReply "action_envelope list" "js_string list"
  | SnapshotReply "(js_string \<times> nat) list"
  | SubscribeReply js_string nat

record subscribe_task =
  tsk_connection :: nat
  tsk_client :: js_string
  tsk_channel :: js_string
  tsk_registered :: bool
  tsk_snapshot :: "nat option"
  tsk_reconnect :: bool

record reconnect_task =
  rct_connection :: nat
  rct_client :: js_string
  rct_lastSeen :: nat
  rct_canReplay :: bool
  rct_subscriptions :: "js_string list"
  rct_missing :: "js_string list"
  rct_snapshots :: "(js_string \<times> nat) list"

record connections =
  cx_clients :: "(js_string \<times> client_record) list"
  cx_closed :: "connection list"
  cx_replay :: "action_envelope list"
  cx_sent :: "(nat \<times> server_message) list"
  cx_subscribers :: "(js_string \<times> js_string) list"
  cx_tasks :: "subscribe_task list"
  cx_reconnects :: "reconnect_task list"
  cx_next :: nat
  cx_now :: int
  cx_manager :: state_manager

definition new_connections :: "state_manager \<Rightarrow> connections" where
  "new_connections m =
     \<lparr>cx_clients = [], cx_closed = [], cx_replay = [], cx_sent = [], cx_subscribers = [], cx_tasks = [], cx_reconnects = [],
      cx_next = 0, cx_now = 0, cx_manager = m\<rparr>"

definition REPLAY_BUFFER_CAPACITY :: nat where "REPLAY_BUFFER_CAPACITY = 1000"

definition CLIENT_TOOL_CALL_DISCONNECT_TIMEOUT :: int where "CLIENT_TOOL_CALL_DISCONNECT_TIMEOUT = 30000"

definition CONNECTION_HISTORY_RETENTION :: int where "CONNECTION_HISTORY_RETENTION = 300000"

section \<open>Channels\<close>

definition otlp_level :: "js_string \<Rightarrow> js_string option" where
  "otlp_level uri =
     (let prefix = ''ahp-otlp://logs/'';
          level = map lower_char (takeWhile (\<lambda>c. c \<noteq> CHR ''/'' \<and> c \<noteq> CHR ''?'' \<and> c \<noteq> CHR ''#'') (drop (length prefix) uri))
      in if starts_with prefix (map lower_char uri)
            \<and> level \<in> {''trace'', ''debug'', ''info'', ''warn'', ''error'', ''fatal''}
         then Some level else None)"

definition isAhpResourceWatchChannel :: "platform \<Rightarrow> js_string \<Rightarrow> bool" where
  "isAhpResourceWatchChannel pl uri = (map_option uri_scheme (parseUri pl uri) = Some ''ahp-resource-watch'')"

text \<open>The canonical URI and the kind of a channel.\<close>

definition classifyChannel :: "platform \<Rightarrow> js_string \<Rightarrow> (js_string \<times> channel_subscription) option" where
  "classifyChannel pl channel =
     (if starts_with ''ahp-otlp:'' (map lower_char channel)
      then map_option (\<lambda>level. (''ahp-otlp://logs/'' @ level, OtlpLogsChannel level)) (otlp_level channel)
      else if isAhpResourceWatchChannel pl channel then Some (channel, ResourceWatchChannel)
      else Some (channel, StateChannel))"

text \<open>The key of a resource in the subscriber table; \<open>None\<close> when \<open>URI.parse\<close> throws.\<close>

definition resource_key :: "platform \<Rightarrow> js_string \<Rightarrow> js_string option" where
  "resource_key pl channel = map_option (asFormatted pl) (parseUri pl channel)"

section \<open>Records and connections\<close>

definition client_at :: "connections \<Rightarrow> js_string \<Rightarrow> client_record option" where
  "client_at w c = map_of (cx_clients w) c"

definition set_client :: "js_string \<Rightarrow> client_record \<Rightarrow> connections \<Rightarrow> connections" where
  "set_client c r w = w\<lparr>cx_clients := AList.update c r (cx_clients w)\<rparr>"

fun record_connections :: "client_record \<Rightarrow> connection list" where
  "record_connections (ActiveRecord cs) = cs"
| "record_connections (GraceRecord _ _ _) = []"

fun getActiveClientFromRecord :: "client_record \<Rightarrow> connection option" where
  "getActiveClientFromRecord (ActiveRecord cs) = (if cs = [] then None else Some (List.last cs))"
| "getActiveClientFromRecord (GraceRecord _ _ _) = None"

definition connection_of :: "nat \<Rightarrow> connections \<Rightarrow> (js_string \<times> connection) option" where
  "connection_of i w =
     find (\<lambda>(_, con). con_id con = i) (concat (map (\<lambda>(c, r). map (Pair c) (record_connections r)) (cx_clients w)))"

text \<open>The closed connections are those a call in flight may still refer to.\<close>

definition change_connection :: "nat \<Rightarrow> (connection \<Rightarrow> connection) \<Rightarrow> connections \<Rightarrow> connections" where
  "change_connection i f w =
     (let change = map (\<lambda>con. if con_id con = i then f con else con)
      in w\<lparr>cx_clients := map (\<lambda>(c, r). (c, case r of
             ActiveRecord cs \<Rightarrow> ActiveRecord (change cs)
           | GraceRecord seen t ts \<Rightarrow> GraceRecord seen t ts)) (cx_clients w),
           cx_closed := change (cx_closed w)\<rparr>)"

definition hasSubscriptionInOtherConnection :: "client_record \<Rightarrow> nat \<Rightarrow> js_string \<Rightarrow> bool" where
  "hasSubscriptionInOtherConnection r i uri =
     list_ex (\<lambda>con. con_id con \<noteq> i \<and> map_of (con_subscriptions con) uri \<noteq> None) (record_connections r)"

section \<open>Subscribers\<close>

definition addSubscriber :: "js_string \<Rightarrow> js_string \<Rightarrow> connections \<Rightarrow> connections" where
  "addSubscriber key client w = w\<lparr>cx_subscribers := set_add (key, client) (cx_subscribers w)\<rparr>"

definition unsubscribe :: "js_string \<Rightarrow> js_string \<Rightarrow> connections \<Rightarrow> connections" where
  "unsubscribe key client w = w\<lparr>cx_subscribers := removeAll (key, client) (cx_subscribers w)\<rparr>"

section \<open>Broadcast and replay buffer\<close>

definition transport_send :: "nat \<Rightarrow> server_message \<Rightarrow> connections \<Rightarrow> connections" where
  "transport_send i msg w = w\<lparr>cx_sent := cx_sent w @ [(i, msg)]\<rparr>"

definition catalog_action :: "state_action \<Rightarrow> bool" where
  "catalog_action a =
     (case a of
        SessionAct (SessionTitleChanged _) \<Rightarrow> True
      | SessionAct (SessionIsReadChanged _) \<Rightarrow> True
      | SessionAct (SessionIsArchivedChanged _) \<Rightarrow> True
      | _ \<Rightarrow> False)"

definition stateAndResourceWatchUris :: "connection \<Rightarrow> js_string list" where
  "stateAndResourceWatchUris con =
     map fst (filter (\<lambda>(_, k). k = StateChannel \<or> k = ResourceWatchChannel) (con_subscriptions con))"

definition isRelevantToClient :: "platform \<Rightarrow> connection \<Rightarrow> action_envelope \<Rightarrow> bool" where
  "isRelevantToClient pl con e =
     (if map_of (con_subscriptions con) (env_channel e) \<in> {Some StateChannel, Some ResourceWatchChannel} then True
      else if catalog_action (env_action e) \<and> map_of (con_subscriptions con) ROOT_STATE_URI = Some StateChannel then True
      else if \<not> isAhpRootChannel (uri_scheme_of pl) (env_channel e) then False
      else isActionEnvelopeRelevantToSubscriptionUris (uri_scheme_of pl) e (stateAndResourceWatchUris con))"

definition broadcast_to :: "platform \<Rightarrow> action_envelope \<Rightarrow> client_record \<Rightarrow> connections \<Rightarrow> connections" where
  "broadcast_to pl e r w =
     (case getActiveClientFromRecord r of
        Some con \<Rightarrow> if isRelevantToClient pl con e then transport_send (con_id con) (ActionMessage e) w else w
      | None \<Rightarrow> w)"

definition broadcastAction :: "platform \<Rightarrow> action_envelope \<Rightarrow> connections \<Rightarrow> connections" where
  "broadcastAction pl e w = fold (\<lambda>(_, r). broadcast_to pl e r) (cx_clients w) w"

definition push_replay :: "action_envelope \<Rightarrow> connections \<Rightarrow> connections" where
  "push_replay e w =
     (let buffer = cx_replay w @ [e]
      in w\<lparr>cx_replay := (if length buffer > REPLAY_BUFFER_CAPACITY then tl buffer else buffer)\<rparr>)"

section \<open>The grace window\<close>

definition ensureGraceRecord :: "js_string \<Rightarrow> connections \<Rightarrow> (int \<times> (js_string \<times> timeout) list \<times> bool) option" where
  "ensureGraceRecord clientId w =
     (case client_at w clientId of
        Some (ActiveRecord _) \<Rightarrow> None
      | Some (GraceRecord seen t ts) \<Rightarrow> Some (t, ts, seen)
      | None \<Rightarrow> Some (cx_now w, [], False))"

definition startClientToolCallDisconnectTimeout :: "js_string \<Rightarrow> js_string \<Rightarrow> js_string \<Rightarrow> connections \<Rightarrow> connections" where
  "startClientToolCallDisconnectTimeout clientId session chatChannel w =
     (case ensureGraceRecord clientId w of
        None \<Rightarrow> w
      | Some (lastSeenAt, ts, seen) \<Rightarrow>
          let elapsed = cx_now w - lastSeenAt;
              delay = max 0 (CLIENT_TOOL_CALL_DISCONNECT_TIMEOUT - elapsed)
          in set_client clientId
               (GraceRecord seen lastSeenAt (AList.update chatChannel (ReleaseTimeout session (cx_now w + delay)) ts)) w)"

definition clearClientToolCallDisconnectTimeout :: "js_string \<Rightarrow> js_string \<Rightarrow> connections \<Rightarrow> connections" where
  "clearClientToolCallDisconnectTimeout clientId channel w =
     (case client_at w clientId of
        Some (GraceRecord seen t ts) \<Rightarrow> set_client clientId (GraceRecord seen t (AList.delete channel ts)) w
      | _ \<Rightarrow> w)"

definition isPendingToolCallStatus :: "tool_call_status \<Rightarrow> bool" where
  "isPendingToolCallStatus st = (st = StStreaming \<or> st = StRunning \<or> st = StPendingConfirmation)"

definition pending_client_call :: "response_part \<Rightarrow> (tool_call_state \<times> js_string) option" where
  "pending_client_call part =
     (case part of
        ToolCallPart tc \<Rightarrow>
          (case tc_contributor (tcBase tc) of
             Some (ClientContributor c) \<Rightarrow> if isPendingToolCallStatus (tc_status tc) then Some (tc, c) else None
           | _ \<Rightarrow> None)
      | _ \<Rightarrow> None)"

definition pendingClientToolCalls :: "session_with_chat option \<Rightarrow> (tool_call_state \<times> js_string) list" where
  "pendingClientToolCalls state =
     (case Option.bind state swc_activeTurn of
        None \<Rightarrow> []
      | Some t \<Rightarrow> List.map_filter pending_client_call (aturn_responseParts t))"

definition hasPendingClientToolCall :: "session_with_chat option \<Rightarrow> js_string \<Rightarrow> bool" where
  "hasPendingClientToolCall state clientId = list_ex (\<lambda>(_, owner). owner = clientId) (pendingClientToolCalls state)"

definition isActiveClient :: "session_with_chat \<Rightarrow> js_string \<Rightarrow> bool" where
  "isActiveClient state clientId = list_ex (\<lambda>c. sac_clientId c = clientId) (ses_activeClients state)"

definition hasReplacementActiveClientTool :: "session_with_chat \<Rightarrow> js_string \<Rightarrow> js_string \<Rightarrow> bool" where
  "hasReplacementActiveClientTool state clientId toolName =
     list_ex (\<lambda>c. sac_clientId c \<noteq> clientId \<and> list_ex (\<lambda>t. tooldef_name t = toolName) (sac_tools c)) (ses_activeClients state)"

definition isGrace :: "connections \<Rightarrow> js_string \<Rightarrow> bool" where
  "isGrace w clientId = (case client_at w clientId of Some (GraceRecord _ _ _) \<Rightarrow> True | _ \<Rightarrow> False)"

definition checkOrphanedClientToolCalls :: "platform \<Rightarrow> js_string \<Rightarrow> js_string \<Rightarrow> connections \<Rightarrow> connections" where
  "checkOrphanedClientToolCalls pl session chatChannel w =
     (let owners = filter (isGrace w) (remdups (map snd (pendingClientToolCalls (getSessionState pl chatChannel (cx_manager w)))))
      in fold (\<lambda>owner. startClientToolCallDisconnectTimeout owner session chatChannel) owners w)"

section \<open>Envelopes of the state manager\<close>

definition starts_tool_call :: "state_action \<Rightarrow> bool" where
  "starts_tool_call a =
     (case a of ChatAct (ChatToolCallStart _) \<Rightarrow> True | ChatAct (ChatToolCallReady _) \<Rightarrow> True | _ \<Rightarrow> False)"

text \<open>The listener of \<open>onDidEmitEnvelope\<close>; an exception it throws ends it.\<close>

definition onEnvelope :: "platform \<Rightarrow> action_envelope \<Rightarrow> connections \<Rightarrow> connections" where
  "onEnvelope pl e w =
     (let w1 = broadcastAction pl e (push_replay e w)
      in if starts_tool_call (env_action e) \<and> isAhpChatChannel pl (env_channel e)
         then (case parseRequiredSessionUriFromChatUri pl (env_channel e) of
                 Inl _ \<Rightarrow> w1
               | Inr session \<Rightarrow> checkOrphanedClientToolCalls pl session (env_channel e) w1)
         else w1)"

text \<open>
  An operation of the state manager, and the listener on what it emitted. The listener sees the state
  after the whole operation; it reads it only to look for calls of absent clients.
\<close>

definition manager_op :: "host \<Rightarrow> host_op \<Rightarrow> connections \<Rightarrow> connections" where
  "manager_op h op w =
     (let m = host_step h op (cx_manager w)
      in fold (onEnvelope (host_platform h)) (drop (length (envelopes (cx_manager w))) (envelopes m)) (w\<lparr>cx_manager := m\<rparr>))"

end
