(* ===== verification/Client_Handlers.thy ===== *)
theory Client_Handlers
  imports Client_Connections
begin

text \<open>
  The handlers of \<open>ProtocolServerHandler\<close>: a client leaves a session, connects, reconnects,
  subscribes, unsubscribes and disconnects. A handler that may throw returns the exception with the
  state it leaves behind.
\<close>

text \<open>
  Inputs of the handlers: whether a log emitter is configured, and whether a resource watch of the
  agent service can be set up.
\<close>

record server_config =
  srv_host :: host
  srv_otlp :: bool
  srv_watch :: "js_string \<Rightarrow> bool"

definition srv_platform :: "server_config \<Rightarrow> platform" where
  "srv_platform sv = host_platform (srv_host sv)"

section \<open>Leaving a session\<close>

definition serverDispatch :: "server_config \<Rightarrow> js_string \<Rightarrow> state_action \<Rightarrow> connections \<Rightarrow> connections outcome" where
  "serverDispatch sv channel a w =
     (manager_op (srv_host sv) (OpServerDispatch channel a) w, snd (dispatchServerAction (srv_host sv) channel a (cx_manager w)))"

definition ready_of_call :: "active_turn \<Rightarrow> tool_call_state \<Rightarrow> chat_tool_call_ready_action" where
  "ready_of_call t tc =
     \<lparr>tca_turnId = aturn_id t, tca_toolCallId = tc_toolCallId (tcBase tc), tca_meta = None,
      tcReady_contributor = None, tcReady_intention = None,
      tcReady_invocationMessage =
        or_default (case tc of TcStreaming _ s \<Rightarrow> tcs_invocationMessage s | _ \<Rightarrow> None) (PlainText (tc_displayName (tcBase tc))),
      tcReady_toolInput = None, tcReady_confirmationTitle = None, tcReady_riskAssessment = None, tcReady_edits = None,
      tcReady_editable = None, tcReady_confirmed = Some NotNeededReason, tcReady_options = None\<rparr>"

definition failed_result :: "js_string \<Rightarrow> js_string \<Rightarrow> bool \<Rightarrow> tool_call_result" where
  "failed_result clientId displayName mayRetry =
     \<lparr>tcr_success = False, tcr_pastTenseMessage = PlainText (displayName @ '' failed''),
      tcr_content =
        (if mayRetry
         then Some [ResultText (''The client that was running '' @ displayName
                @ '' disconnected, but another active client now provides '' @ displayName
                @ ''. You may try calling the tool again.'')]
         else None),
      tcr_structuredContent = None,
      tcr_error = Some \<lparr>tcerr_message = ''Client '' @ clientId @ '' disconnected before completing '' @ displayName,
        tcerr_code = None\<rparr>\<rparr>"

definition failure_of_call ::
    "js_string \<Rightarrow> session_with_chat \<Rightarrow> active_turn \<Rightarrow> tool_call_state \<Rightarrow> chat_tool_call_complete_action" where
  "failure_of_call clientId state t tc =
     \<lparr>tca_turnId = aturn_id t, tca_toolCallId = tc_toolCallId (tcBase tc), tca_meta = None,
      tcComplete_result = failed_result clientId (tc_displayName (tcBase tc))
        (hasReplacementActiveClientTool state clientId (tc_toolName (tcBase tc))),
      tcComplete_requiresResultConfirmation = None\<rparr>"

definition fail_call ::
    "server_config \<Rightarrow> js_string \<Rightarrow> js_string \<Rightarrow> session_with_chat \<Rightarrow> active_turn \<Rightarrow> tool_call_state \<Rightarrow> connections
     \<Rightarrow> connections outcome" where
  "fail_call sv clientId chatChannel state t tc w =
     and_then
       (if tc_status tc = StStreaming
        then serverDispatch sv chatChannel (ChatAct (ChatToolCallReady (ready_of_call t tc))) w
        else (w, None))
       (serverDispatch sv chatChannel (ChatAct (ChatToolCallComplete (failure_of_call clientId state t tc))))"

fun fail_calls ::
    "server_config \<Rightarrow> js_string \<Rightarrow> js_string \<Rightarrow> session_with_chat \<Rightarrow> active_turn \<Rightarrow> tool_call_state list \<Rightarrow> connections
     \<Rightarrow> connections outcome" where
  "fail_calls sv clientId chatChannel state t [] w = (w, None)"
| "fail_calls sv clientId chatChannel state t (tc # tcs) w =
     and_then (fail_call sv clientId chatChannel state t tc w) (fail_calls sv clientId chatChannel state t tcs)"

definition completeDisconnectedClientToolCalls ::
    "server_config \<Rightarrow> js_string \<Rightarrow> js_string \<Rightarrow> connections \<Rightarrow> connections outcome" where
  "completeDisconnectedClientToolCalls sv clientId chatChannel w =
     (case getSessionState (srv_platform sv) chatChannel (cx_manager w) of
        None \<Rightarrow> (w, None)
      | Some state \<Rightarrow>
         (case swc_activeTurn state of
            None \<Rightarrow> (w, None)
          | Some t \<Rightarrow>
              fail_calls sv clientId chatChannel state t
                (map fst (filter (\<lambda>(_, owner). owner = clientId) (pendingClientToolCalls (Some state)))) w))"

definition removeActiveClient :: "server_config \<Rightarrow> js_string \<Rightarrow> js_string \<Rightarrow> connections \<Rightarrow> connections outcome" where
  "removeActiveClient sv session clientId w =
     (case getSessionState (srv_platform sv) session (cx_manager w) of
        None \<Rightarrow> (w, None)
      | Some state \<Rightarrow>
          if isActiveClient state clientId
          then serverDispatch sv session (SessionAct (SessionActiveClientRemoved clientId)) w else (w, None))"

definition releaseActiveClientForSession ::
    "server_config \<Rightarrow> js_string \<Rightarrow> js_string \<Rightarrow> js_string \<Rightarrow> connections \<Rightarrow> connections outcome" where
  "releaseActiveClientForSession sv session clientId chatChannel w =
     and_then
       (completeDisconnectedClientToolCalls sv clientId chatChannel (clearClientToolCallDisconnectTimeout clientId chatChannel w))
       (removeActiveClient sv session clientId)"

fun release_chats ::
    "server_config \<Rightarrow> js_string \<Rightarrow> js_string \<Rightarrow> js_string list \<Rightarrow> connections \<Rightarrow> connections outcome" where
  "release_chats sv session clientId [] w = (w, None)"
| "release_chats sv session clientId (c # cs) w =
     and_then (releaseActiveClientForSession sv session clientId c w) (release_chats sv session clientId cs)"

section \<open>Connecting\<close>

definition pruneClientRecords :: "connections \<Rightarrow> connections" where
  "pruneClientRecords w =
     w\<lparr>cx_clients := filter (\<lambda>(_, r). case r of
          GraceRecord _ lastSeenAt ts \<Rightarrow> \<not> (ts = [] \<and> lastSeenAt < cx_now w - CONNECTION_HISTORY_RETENTION)
        | ActiveRecord _ \<Rightarrow> True) (cx_clients w)\<rparr>"

definition attachConnection :: "js_string \<Rightarrow> connection \<Rightarrow> connections \<Rightarrow> connections" where
  "attachConnection clientId con w =
     pruneClientRecords
       (set_client clientId
         (case client_at w clientId of
            Some (ActiveRecord cs) \<Rightarrow> ActiveRecord (cs @ [con])
          | _ \<Rightarrow> ActiveRecord [con]) w)"

fun release_subscriptions ::
    "platform \<Rightarrow> js_string \<Rightarrow> client_record \<Rightarrow> nat \<Rightarrow> (js_string \<times> channel_subscription) list \<Rightarrow> connections
     \<Rightarrow> connections outcome" where
  "release_subscriptions pl clientId r i [] w = (w, None)"
| "release_subscriptions pl clientId r i ((uri, StateChannel) # subs) w =
     (if hasSubscriptionInOtherConnection r i uri then release_subscriptions pl clientId r i subs w
      else case resource_key pl uri of
        None \<Rightarrow> (w, Some (PlainError ''[UriError]''))
      | Some key \<Rightarrow> release_subscriptions pl clientId r i subs (unsubscribe key clientId w))"
| "release_subscriptions pl clientId r i (_ # subs) w = release_subscriptions pl clientId r i subs w"

definition releaseClientSubscriptions ::
    "platform \<Rightarrow> js_string \<Rightarrow> client_record \<Rightarrow> connection \<Rightarrow> connections \<Rightarrow> connections outcome" where
  "releaseClientSubscriptions pl clientId r con w = release_subscriptions pl clientId r (con_id con) (con_subscriptions con) w"

definition without_connection :: "nat \<Rightarrow> client_record \<Rightarrow> client_record" where
  "without_connection i r =
     (case r of ActiveRecord cs \<Rightarrow> ActiveRecord (filter (\<lambda>con. con_id con \<noteq> i) cs) | GraceRecord _ _ _ \<Rightarrow> r)"

definition rollbackFailedInitialization ::
    "platform \<Rightarrow> js_string \<Rightarrow> nat \<Rightarrow> client_record option \<Rightarrow> connections \<Rightarrow> connections outcome" where
  "rollbackFailedInitialization pl clientId i previous w =
     (case connection_of i w of
        None \<Rightarrow> (w, None)
      | Some (_, con) \<Rightarrow>
          let r = without_connection i (or_default (client_at w clientId) (ActiveRecord []));
              w1 = set_client clientId r w
          in and_then (releaseClientSubscriptions pl clientId r con w1)
               (\<lambda>w2. (if record_connections r = []
                  then (case previous of
                          Some (GraceRecord seen t ts) \<Rightarrow> set_client clientId (GraceRecord seen t ts) w2
                        | _ \<Rightarrow> w2\<lparr>cx_clients := AList.delete clientId (cx_clients w2)\<rparr>)
                  else w2, None)))"

definition install :: "nat \<Rightarrow> js_string \<Rightarrow> channel_subscription \<Rightarrow> connections \<Rightarrow> connections" where
  "install i uri k w = change_connection i (\<lambda>con. con\<lparr>con_subscriptions := AList.update uri k (con_subscriptions con)\<rparr>) w"

definition addInitialSubscription ::
    "server_config \<Rightarrow> js_string \<Rightarrow> nat \<Rightarrow> js_string \<Rightarrow> connections \<Rightarrow> connections outcome" where
  "addInitialSubscription sv clientId i channel w =
     (case classifyChannel (srv_platform sv) channel of
        None \<Rightarrow> (w, None)
      | Some (uri, OtlpLogsChannel level) \<Rightarrow> (if srv_otlp sv then install i uri (OtlpLogsChannel level) w else w, None)
      | Some (uri, k) \<Rightarrow>
          let w1 = install i uri k w
          in case resource_key (srv_platform sv) uri of
               None \<Rightarrow> (w1, Some (PlainError ''[UriError]''))
             | Some key \<Rightarrow> (clearClientToolCallDisconnectTimeout clientId uri (addSubscriber key clientId w1), None))"

fun initial_subscriptions ::
    "server_config \<Rightarrow> js_string \<Rightarrow> nat \<Rightarrow> js_string list \<Rightarrow> connections \<Rightarrow> connections outcome" where
  "initial_subscriptions sv clientId i [] w = (w, None)"
| "initial_subscriptions sv clientId i (u # us) w =
     and_then (addInitialSubscription sv clientId i u w) (initial_subscriptions sv clientId i us)"

definition new_connection :: "js_string \<Rightarrow> connections \<Rightarrow> connections" where
  "new_connection clientId w =
     attachConnection clientId \<lparr>con_id = cx_next w, con_subscriptions = []\<rparr> (w\<lparr>cx_next := Suc (cx_next w)\<rparr>)"

text \<open>
  The snapshots of the initial subscriptions; nothing runs in between, so they are all of one state.
  Reading the snapshot of a changeset also moves it to the end of the cache, which is left out here.
\<close>

definition initial_snapshots :: "server_config \<Rightarrow> js_string list \<Rightarrow> state_manager \<Rightarrow> (js_string \<times> nat) list" where
  "initial_snapshots sv uris m =
     List.map_filter (\<lambda>channel. case classifyChannel (srv_platform sv) channel of
         None \<Rightarrow> None
       | Some (_, OtlpLogsChannel _) \<Rightarrow> None
       | Some _ \<Rightarrow> map_option (\<lambda>(resource, _, fromSeq). (resource, fromSeq)) (snd (getSnapshot (srv_platform sv) channel m))) uris"

text \<open>\<open>_handleInitialize\<close> of a client whose protocol version the server accepts.\<close>

definition handleInitialize :: "server_config \<Rightarrow> js_string \<Rightarrow> js_string list \<Rightarrow> connections \<Rightarrow> connections outcome" where
  "handleInitialize sv clientId uris w =
     (let i = cx_next w
      in case initial_subscriptions sv clientId i uris (new_connection clientId w) of
           (w1, None) \<Rightarrow>
             (transport_send i (InitializeReply (sm_serverSeq (cx_manager w1)) (initial_snapshots sv uris (cx_manager w1))) w1, None)
         | (w1, Some e) \<Rightarrow>
             and_then (rollbackFailedInitialization (srv_platform sv) clientId i (client_at w clientId) w1) (\<lambda>w2. (w2, Some e)))"

section \<open>Reconnecting\<close>

definition not_found :: "js_string \<Rightarrow> js_error" where
  "not_found clientId = PlainError (''Reconnect client not found: '' @ clientId)"

definition oldestBuffered :: "connections \<Rightarrow> nat" where
  "oldestBuffered w = (case cx_replay w of e # _ \<Rightarrow> env_serverSeq e | [] \<Rightarrow> sm_serverSeq (cx_manager w))"

definition change_reconnect :: "nat \<Rightarrow> (reconnect_task \<Rightarrow> reconnect_task) \<Rightarrow> connections \<Rightarrow> connections" where
  "change_reconnect i f w = w\<lparr>cx_reconnects := map (\<lambda>t. if rct_connection t = i then f t else t) (cx_reconnects w)\<rparr>"

text \<open>The synchronous part of restoring one subscription; a state channel leaves a call in flight.\<close>

definition restore_subscription :: "server_config \<Rightarrow> js_string \<Rightarrow> nat \<Rightarrow> js_string \<Rightarrow> connections \<Rightarrow> connections" where
  "restore_subscription sv clientId i sub w =
     (let lost = change_reconnect i (\<lambda>t. t\<lparr>rct_missing := rct_missing t @ [sub]\<rparr>) w
      in case classifyChannel (srv_platform sv) sub of
        None \<Rightarrow> w
      | Some (uri, OtlpLogsChannel level) \<Rightarrow> if srv_otlp sv then install i uri (OtlpLogsChannel level) w else w
      | Some (uri, ResourceWatchChannel) \<Rightarrow>
          if srv_watch sv uri
          then change_reconnect i (\<lambda>t. t\<lparr>rct_snapshots := rct_snapshots t @ [(sub, sm_serverSeq (cx_manager w))]\<rparr>) (install i uri ResourceWatchChannel w)
          else lost
      | Some (uri, StateChannel) \<Rightarrow>
          if resource_key (srv_platform sv) uri = None then lost
          else w\<lparr>cx_tasks := cx_tasks w @ [\<lparr>tsk_connection = i, tsk_client = clientId, tsk_channel = uri,
                 tsk_registered = False, tsk_snapshot = None, tsk_reconnect = True\<rparr>]\<rparr>)"

definition handleReconnect :: "server_config \<Rightarrow> js_string \<Rightarrow> nat \<Rightarrow> js_string list \<Rightarrow> connections \<Rightarrow> connections outcome" where
  "handleReconnect sv clientId lastSeen subs w =
     (if client_at w clientId = None then (w, Some (not_found clientId))
      else
        let i = cx_next w;
            w1 = new_connection clientId w;
            task = \<lparr>rct_connection = i, rct_client = clientId, rct_lastSeen = lastSeen,
                    rct_canReplay = (lastSeen \<ge> oldestBuffered w1), rct_subscriptions = subs, rct_missing = [],
                    rct_snapshots = []\<rparr>
        in (fold (restore_subscription sv clientId i) subs (w1\<lparr>cx_reconnects := cx_reconnects w1 @ [task]\<rparr>), None))"

definition releases_chat :: "connection list \<Rightarrow> js_string \<Rightarrow> js_string \<Rightarrow> bool" where
  "releases_chat cons session chat =
     (\<not> list_ex (\<lambda>con. map_of (con_subscriptions con) session = Some StateChannel) cons
      \<and> \<not> list_ex (\<lambda>con. map_of (con_subscriptions con) chat = Some StateChannel) cons)"

fun reconcile_sessions ::
    "server_config \<Rightarrow> js_string \<Rightarrow> connection list \<Rightarrow> js_string list \<Rightarrow> connections \<Rightarrow> connections outcome" where
  "reconcile_sessions sv clientId cons [] w = (w, None)"
| "reconcile_sessions sv clientId cons (s # ss) w =
     and_then
       (case getSessionState (srv_platform sv) s (cx_manager w) of
          None \<Rightarrow> (w, None)
        | Some state \<Rightarrow>
            if isActiveClient state clientId
            then release_chats sv s clientId (filter (releases_chat cons s) (map csum_resource (ses_chats state))) w
            else (w, None))
       (reconcile_sessions sv clientId cons ss)"

definition reconcileActiveClientsAfterReconnect ::
    "server_config \<Rightarrow> js_string \<Rightarrow> connection list \<Rightarrow> connections \<Rightarrow> connections outcome" where
  "reconcileActiveClientsAfterReconnect sv clientId own w =
     (let cons = (case client_at w clientId of Some (ActiveRecord cs) \<Rightarrow> cs | _ \<Rightarrow> own)
      in reconcile_sessions sv clientId cons (map fst (sm_sessions (cx_manager w))) w)"

definition replay_actions :: "platform \<Rightarrow> connection \<Rightarrow> nat \<Rightarrow> connections \<Rightarrow> action_envelope list" where
  "replay_actions pl con lastSeen w =
     filter (\<lambda>e. env_serverSeq e > lastSeen \<and> isRelevantToClient pl con e) (cx_replay w)"

text \<open>The connection a call in flight works on: the live one, or the closed one it still refers to.\<close>

definition own_connection :: "nat \<Rightarrow> connections \<Rightarrow> connection" where
  "own_connection i w =
     (case connection_of i w of
        Some (_, con) \<Rightarrow> con
      | None \<Rightarrow> or_default (find (\<lambda>con. con_id con = i) (cx_closed w)) \<lparr>con_id = i, con_subscriptions = []\<rparr>)"

definition without_reconnect :: "nat \<Rightarrow> connections \<Rightarrow> connections" where
  "without_reconnect i w = w\<lparr>cx_reconnects := filter (\<lambda>t. rct_connection t \<noteq> i) (cx_reconnects w)\<rparr>"

text \<open>The end of \<open>_restoreReconnectSubscriptions\<close>, when no restored subscription is in flight any more.\<close>

definition finishReconnect :: "server_config \<Rightarrow> reconnect_task \<Rightarrow> connections \<Rightarrow> connections" where
  "finishReconnect sv t w =
     (let i = rct_connection t;
          own = own_connection i w
      in case reconcileActiveClientsAfterReconnect sv (rct_client t) [own] (without_reconnect i w) of
           (w2, Some e) \<Rightarrow> w2
         | (w2, None) \<Rightarrow>
             transport_send i
               (if rct_canReplay t then ReplayReply (replay_actions (srv_platform sv) own (rct_lastSeen t) w2) (rct_missing t)
                else SnapshotReply (List.map_filter (\<lambda>u. map_option (Pair u) (map_of (rct_snapshots t) u)) (rct_subscriptions t))) w2)"

section \<open>Subscribing\<close>

definition handleSubscribe :: "server_config \<Rightarrow> js_string \<Rightarrow> nat \<Rightarrow> js_string \<Rightarrow> connections \<Rightarrow> connections" where
  "handleSubscribe sv clientId i channel w =
     (case classifyChannel (srv_platform sv) channel of
        None \<Rightarrow> w
      | Some (uri, OtlpLogsChannel level) \<Rightarrow> if srv_otlp sv then install i uri (OtlpLogsChannel level) w else w
      | Some (uri, ResourceWatchChannel) \<Rightarrow>
          if srv_watch sv uri then install i uri ResourceWatchChannel w else w
      | Some (uri, StateChannel) \<Rightarrow>
          if resource_key (srv_platform sv) uri = None then w
          else w\<lparr>cx_tasks := cx_tasks w @ [\<lparr>tsk_connection = i, tsk_client = clientId, tsk_channel = uri,
                 tsk_registered = False, tsk_snapshot = None, tsk_reconnect = False\<rparr>]\<rparr>)"

text \<open>\<open>AgentService.subscribe\<close>: it registers the subscriber once an in-flight release of the session ended.\<close>

definition registerTask :: "platform \<Rightarrow> nat \<Rightarrow> connections \<Rightarrow> connections" where
  "registerTask pl n w =
     (let t = cx_tasks w ! n
      in case resource_key pl (tsk_channel t) of
           None \<Rightarrow> w
         | Some key \<Rightarrow> addSubscriber key (tsk_client t) (w\<lparr>cx_tasks := (cx_tasks w)[n := t\<lparr>tsk_registered := True\<rparr>]\<rparr>))"

text \<open>It returns a snapshot of the resource, \<open>fromSeq\<close> being the sequence number of that moment.\<close>

definition snapshotTask :: "nat \<Rightarrow> connections \<Rightarrow> connections" where
  "snapshotTask n w = w\<lparr>cx_tasks := (cx_tasks w)[n := (cx_tasks w ! n)\<lparr>tsk_snapshot := Some (sm_serverSeq (cx_manager w))\<rparr>]\<rparr>"

text \<open>The handler goes on after its \<open>await\<close>: only now the connection has the subscription.\<close>

definition answerTask :: "nat \<Rightarrow> connections \<Rightarrow> connections" where
  "answerTask n w =
     (let t = cx_tasks w ! n;
          i = tsk_connection t;
          fromSeq = or_default (tsk_snapshot t) (sm_serverSeq (cx_manager w));
          w1 = install i (tsk_channel t) StateChannel (w\<lparr>cx_tasks := remove_at n (cx_tasks w)\<rparr>);
          w2 = clearClientToolCallDisconnectTimeout (tsk_client t) (tsk_channel t) w1
      in if tsk_reconnect t then change_reconnect i (\<lambda>r. r\<lparr>rct_snapshots := rct_snapshots r @ [(tsk_channel t, fromSeq)]\<rparr>) w2
         else transport_send i (SubscribeReply (tsk_channel t) fromSeq) w2)"

definition failTask :: "platform \<Rightarrow> nat \<Rightarrow> connections \<Rightarrow> connections" where
  "failTask pl n w =
     (let t = cx_tasks w ! n;
          w1 = w\<lparr>cx_tasks := remove_at n (cx_tasks w)\<rparr>;
          w2 = (case resource_key pl (tsk_channel t) of None \<Rightarrow> w1 | Some key \<Rightarrow> unsubscribe key (tsk_client t) w1)
      in if tsk_reconnect t
         then change_reconnect (tsk_connection t) (\<lambda>r. r\<lparr>rct_missing := rct_missing r @ [tsk_channel t]\<rparr>) w2 else w2)"

section \<open>Unsubscribing and disconnecting\<close>

definition removeSubscription :: "server_config \<Rightarrow> nat \<Rightarrow> js_string \<Rightarrow> connections \<Rightarrow> connections outcome" where
  "removeSubscription sv i channel w =
     (case (classifyChannel (srv_platform sv) channel, connection_of i w) of
        (Some (uri, _), Some (clientId, con)) \<Rightarrow>
         (case map_of (con_subscriptions con) uri of
            None \<Rightarrow> (w, None)
          | Some k \<Rightarrow>
              let w1 = change_connection i (\<lambda>con. con\<lparr>con_subscriptions := AList.delete uri (con_subscriptions con)\<rparr>) w
              in if k \<noteq> StateChannel then (w1, None)
                 else if (case client_at w1 clientId of None \<Rightarrow> False | Some r \<Rightarrow> hasSubscriptionInOtherConnection r i uri)
                 then (w1, None)
                 else case resource_key (srv_platform sv) uri of
                   None \<Rightarrow> (w1, Some (PlainError ''[UriError]''))
                 | Some key \<Rightarrow>
                     let w2 = unsubscribe key clientId w1
                     in if isAhpChatChannel (srv_platform sv) uri
                        then (case parseRequiredSessionUriFromChatUri (srv_platform sv) uri of
                                Inl e \<Rightarrow> (w2, Some e)
                              | Inr session \<Rightarrow> releaseActiveClientForSession sv session clientId uri w2)
                        else (case getSessionState (srv_platform sv) uri (cx_manager w2) of
                                None \<Rightarrow> (w2, None)
                              | Some state \<Rightarrow> release_chats sv uri clientId (map csum_resource (ses_chats state)) w2))
      | _ \<Rightarrow> (w, None))"

definition arm_session :: "platform \<Rightarrow> js_string \<Rightarrow> js_string \<Rightarrow> connections \<Rightarrow> connections" where
  "arm_session pl clientId session w =
     (case getSessionState pl session (cx_manager w) of
        None \<Rightarrow> w
      | Some state \<Rightarrow>
          if isActiveClient state clientId \<or> hasPendingClientToolCall (Some state) clientId
          then fold (\<lambda>chat. startClientToolCallDisconnectTimeout clientId session (csum_resource chat)) (ses_chats state) w
          else w)"

definition handleClientDisconnected :: "platform \<Rightarrow> js_string \<Rightarrow> connections \<Rightarrow> connections" where
  "handleClientDisconnected pl clientId w =
     (let w1 = (case client_at w clientId of
                  Some (GraceRecord seen t ts) \<Rightarrow>
                    set_client clientId (GraceRecord seen t (AList.update ''managed-settings''
                      (ManagedSettingsTimeout (cx_now w + CLIENT_TOOL_CALL_DISCONNECT_TIMEOUT)) ts)) w
                | _ \<Rightarrow> w)
      in fold (arm_session pl clientId) (map fst (sm_sessions (cx_manager w))) w1)"

definition transportClosed :: "platform \<Rightarrow> nat \<Rightarrow> connections \<Rightarrow> connections outcome" where
  "transportClosed pl i w =
     (case connection_of i w of
        None \<Rightarrow> (w, None)
      | Some (clientId, con) \<Rightarrow>
          let r = without_connection i (or_default (client_at w clientId) (ActiveRecord []));
              w1 = (set_client clientId r w)\<lparr>cx_closed := con\<lparr>con_subscriptions := []\<rparr> # cx_closed w\<rparr>
          in and_then (releaseClientSubscriptions pl clientId r con w1)
               (\<lambda>w2. (if record_connections r = []
                  then handleClientDisconnected pl clientId (set_client clientId (GraceRecord True (cx_now w2) []) w2)
                  else w2, None)))"

text \<open>A timeout that is due fires.\<close>

definition fireTimeout :: "server_config \<Rightarrow> js_string \<Rightarrow> js_string \<Rightarrow> connections \<Rightarrow> connections outcome" where
  "fireTimeout sv clientId key w =
     (case client_at w clientId of
        Some (GraceRecord seen t ts) \<Rightarrow>
         (case map_of ts key of
            Some (ManagedSettingsTimeout _) \<Rightarrow> (set_client clientId (GraceRecord seen t (AList.delete key ts)) w, None)
          | Some (ReleaseTimeout session _) \<Rightarrow> releaseActiveClientForSession sv session clientId key w
          | None \<Rightarrow> (w, None))
      | _ \<Rightarrow> (w, None))"

end
