(* ===== verification/Connection_Runs.thy ===== *)
theory Connection_Runs
  imports Client_Handlers Host_Properties "HOL-Library.Sublist"
begin

text \<open>
  Runs of the protocol server: clients connect, reconnect, subscribe, unsubscribe and disconnect, calls
  in flight come back, timeouts fire and the host changes its state, in any order. Every run keeps the
  connections apart and the replay buffer equal to the newest envelopes of the log.
\<close>

inductive server_step :: "server_config \<Rightarrow> connections \<Rightarrow> connections \<Rightarrow> bool" for sv where
  Initialize: "server_step sv w (fst (handleInitialize sv c uris w))"
| Reconnect: "server_step sv w (fst (handleReconnect sv c lastSeen subs w))"
| FinishReconnect: "t \<in> set (cx_reconnects w)
    \<Longrightarrow> \<forall>k \<in> set (cx_tasks w). tsk_reconnect k \<longrightarrow> tsk_connection k \<noteq> rct_connection t
    \<Longrightarrow> server_step sv w (finishReconnect sv t w)"
| Subscribe: "connection_of i w = Some (c, con) \<Longrightarrow> server_step sv w (handleSubscribe sv c i channel w)"
| Register: "n < length (cx_tasks w) \<Longrightarrow> server_step sv w (registerTask (srv_platform sv) n w)"
| Snapshot: "n < length (cx_tasks w) \<Longrightarrow> tsk_registered (cx_tasks w ! n) \<Longrightarrow> server_step sv w (snapshotTask n w)"
| Answer: "n < length (cx_tasks w) \<Longrightarrow> tsk_snapshot (cx_tasks w ! n) \<noteq> None \<Longrightarrow> server_step sv w (answerTask n w)"
| Fail: "n < length (cx_tasks w) \<Longrightarrow> server_step sv w (failTask (srv_platform sv) n w)"
| Unsubscribe: "server_step sv w (fst (removeSubscription sv i channel w))"
| Close: "server_step sv w (fst (transportClosed (srv_platform sv) i w))"
| Timeout: "client_at w c = Some (GraceRecord seen t ts) \<Longrightarrow> map_of ts key = Some to \<Longrightarrow> due to \<le> cx_now w
    \<Longrightarrow> server_step sv w (fst (fireTimeout sv c key w))"
| Tick: "0 \<le> d \<Longrightarrow> server_step sv w (w\<lparr>cx_now := cx_now w + d\<rparr>)"
| Host: "has_reason op \<Longrightarrow> server_step sv w (manager_op (srv_host sv) op w)"

inductive_cases server_stepE: "server_step sv w w'"

inductive server_run :: "server_config \<Rightarrow> connections \<Rightarrow> bool" for sv where
  Start: "envelopes m = [] \<Longrightarrow> sm_serverSeq m = 0 \<Longrightarrow> server_run sv (new_connections m)"
| Step: "server_run sv w \<Longrightarrow> server_step sv w w' \<Longrightarrow> server_run sv w'"

section \<open>The log of the state manager only grows\<close>

lemma envelopes_core: "wire_core m' = wire_core m \<Longrightarrow> envelopes m' = envelopes m"
  by (simp add: wire_core_def)

interpretation log: wire_invariant "\<lambda>m. prefix es (envelopes m)" for es
proof
  show "prefix es (envelopes m')" if "wire_core m' = wire_core m" "prefix es (envelopes m)" for m' m
    using that by (simp add: wire_core_def)
qed (simp_all add: dispatch_root_def envelopes_emit_envelope Let_def prefix_prefix)

lemma log_grows: "has_reason op \<Longrightarrow> prefix (envelopes m) (envelopes (host_step h op m))"
  by (rule log.step) simp_all


section \<open>Live connections\<close>

definition live :: "connections \<Rightarrow> js_string \<Rightarrow> connection list" where
  "live w c = (case client_at w c of Some r \<Rightarrow> record_connections r | None \<Rightarrow> [])"

definition action_of :: "nat \<times> server_message \<Rightarrow> (nat \<times> action_envelope) option" where
  "action_of s = (case s of (i, ActionMessage e) \<Rightarrow> Some (i, e) | _ \<Rightarrow> None)"

text \<open>The envelopes that were sent as they were emitted, with the connection.\<close>

definition action_sends :: "connections \<Rightarrow> (nat \<times> action_envelope) list" where
  "action_sends w = List.map_filter action_of (cx_sent w)"

definition keys_ok :: "connections \<Rightarrow> bool" where
  "keys_ok w \<longleftrightarrow> distinct (map fst (cx_clients w))"

text \<open>The state of the connections and of the log, without the timeouts of absent clients.\<close>

definition wiring where
  "wiring w = (live w, keys_ok w, cx_next w)"

definition logging where
  "logging w = (cx_manager w, cx_replay w, action_sends w)"

named_theorems wiring_simps
named_theorems logging_simps

lemma client_set [simp]: "client_at (set_client c r w) c' = (if c' = c then Some r else client_at w c')"
  by (simp add: client_at_def set_client_def update_conv')

lemma wiring_fields [wiring_simps]:
  "wiring (w\<lparr>cx_closed := a\<rparr>) = wiring w" "wiring (w\<lparr>cx_replay := b\<rparr>) = wiring w" "wiring (w\<lparr>cx_sent := s\<rparr>) = wiring w"
  "wiring (w\<lparr>cx_subscribers := d\<rparr>) = wiring w" "wiring (w\<lparr>cx_tasks := e\<rparr>) = wiring w"
  "wiring (w\<lparr>cx_reconnects := f\<rparr>) = wiring w" "wiring (w\<lparr>cx_now := g\<rparr>) = wiring w" "wiring (w\<lparr>cx_manager := m\<rparr>) = wiring w"
  by (simp_all add: wiring_def live_def client_at_def keys_ok_def fun_eq_iff)

lemma logging_fields [logging_simps]:
  "logging (w\<lparr>cx_clients := a\<rparr>) = logging w" "logging (w\<lparr>cx_closed := b\<rparr>) = logging w"
  "logging (w\<lparr>cx_subscribers := d\<rparr>) = logging w" "logging (w\<lparr>cx_tasks := e\<rparr>) = logging w"
  "logging (w\<lparr>cx_reconnects := f\<rparr>) = logging w" "logging (w\<lparr>cx_now := g\<rparr>) = logging w" "logging (w\<lparr>cx_next := n\<rparr>) = logging w"
  by (simp_all add: logging_def action_sends_def)

lemma keys_set [simp]: "keys_ok (set_client c r w) = keys_ok w"
  by (simp add: keys_ok_def set_client_def distinct_update AList.update_keys)


lemma logging_set [logging_simps]: "logging (set_client c r w) = logging w"
  by (simp add: set_client_def logging_simps)

lemma live_set [simp]: "live (set_client c r w) = (live w)(c := record_connections r)"
  by (auto simp: live_def fun_eq_iff)

lemma wiring_grace:
  assumes "live w c = []"
  shows "wiring (set_client c (GraceRecord seen t ts) w) = wiring w"
proof -
  have "(live w)(c := []) = live w" using assms by auto
  then show ?thesis by (simp add: wiring_def) (simp add: set_client_def)
qed

lemma absent [simp]: "client_at w c = None \<Longrightarrow> live w c = []" "client_at w c = Some (GraceRecord seen t ts) \<Longrightarrow> live w c = []"
  by (simp_all add: live_def)

lemma wiring_timeout [wiring_simps]:
  "wiring (startClientToolCallDisconnectTimeout c s ch w) = wiring w"
  "wiring (clearClientToolCallDisconnectTimeout c ch w) = wiring w"
  by (auto simp: startClientToolCallDisconnectTimeout_def clearClientToolCallDisconnectTimeout_def ensureGraceRecord_def
      Let_def wiring_grace split: option.split client_record.split)

lemma logging_timeout [logging_simps]:
  "logging (startClientToolCallDisconnectTimeout c s ch w) = logging w"
  "logging (clearClientToolCallDisconnectTimeout c ch w) = logging w"
  by (simp_all add: startClientToolCallDisconnectTimeout_def clearClientToolCallDisconnectTimeout_def
      Let_def logging_simps split: option.split client_record.split)

lemma fold_frame: "(\<And>x w. f (g x w) = f w) \<Longrightarrow> f (fold g xs w) = f w"
  by (induction xs arbitrary: w) simp_all

lemma wiring_orphans [wiring_simps]: "wiring (checkOrphanedClientToolCalls pl s c w) = wiring w"
  by (simp add: checkOrphanedClientToolCalls_def Let_def fold_frame wiring_simps)

lemma logging_orphans [logging_simps]: "logging (checkOrphanedClientToolCalls pl s c w) = logging w"
  by (simp add: checkOrphanedClientToolCalls_def Let_def fold_frame logging_simps)

section \<open>One envelope\<close>

definition receivers :: "platform \<Rightarrow> action_envelope \<Rightarrow> (js_string \<times> client_record) list \<Rightarrow> nat list" where
  "receivers pl e cs = List.map_filter (\<lambda>(_, r). case getActiveClientFromRecord r of
     Some con \<Rightarrow> if isRelevantToClient pl con e then Some (con_id con) else None | None \<Rightarrow> None) cs"

lemma broadcast_fold:
  "fold (\<lambda>(_, r). broadcast_to pl e r) cs w
     = w\<lparr>cx_sent := cx_sent w @ map (\<lambda>i. (i, ActionMessage e)) (receivers pl e cs)\<rparr>"
  by (induction cs arbitrary: w)
    (auto simp: receivers_def broadcast_to_def transport_send_def List.map_filter_simps split: option.split)

lemma broadcast_eq:
  "broadcastAction pl e w = w\<lparr>cx_sent := cx_sent w @ map (\<lambda>i. (i, ActionMessage e)) (receivers pl e (cx_clients w))\<rparr>"
  by (simp add: broadcastAction_def broadcast_fold)

lemma map_filter_append: "List.map_filter f (xs @ ys) = List.map_filter f xs @ List.map_filter f ys"
  by (induction xs) (auto simp: List.map_filter_simps split: option.split)

lemma map_filter_member: "y \<in> set (List.map_filter f xs) \<Longrightarrow> \<exists>x \<in> set xs. f x = Some y"
  by (induction xs) (auto simp: List.map_filter_simps split: option.splits)

lemma action_of_sent: "List.map_filter action_of (map (\<lambda>i. (i, ActionMessage e)) is) = map (\<lambda>i. (i, e)) is"
  by (induction "is") (simp_all add: List.map_filter_simps action_of_def)

lemma wiring_envelope [wiring_simps]: "wiring (onEnvelope pl e w) = wiring w"
  by (simp add: onEnvelope_def broadcast_eq push_replay_def Let_def wiring_simps split: sum.split)

lemma logging_envelope:
  "logging (onEnvelope pl e w) = (cx_manager w,
     (if length (cx_replay w) \<ge> REPLAY_BUFFER_CAPACITY then tl (cx_replay w @ [e]) else cx_replay w @ [e]),
     action_sends w @ map (\<lambda>i. (i, e)) (receivers pl e (cx_clients w)))"
proof -
  have "logging (broadcastAction pl e (push_replay e w)) = (cx_manager w,
     (if length (cx_replay w) \<ge> REPLAY_BUFFER_CAPACITY then tl (cx_replay w @ [e]) else cx_replay w @ [e]),
     action_sends w @ map (\<lambda>i. (i, e)) (receivers pl e (cx_clients w)))"
    by (simp add: logging_def broadcast_eq push_replay_def action_sends_def map_filter_append action_of_sent Let_def)
  then show ?thesis by (simp add: onEnvelope_def Let_def logging_simps split: sum.split)
qed


section \<open>Connections are told apart\<close>

definition ids_ok :: "connections \<Rightarrow> bool" where
  "ids_ok w \<longleftrightarrow> keys_ok w
     \<and> (\<forall>c. distinct (map con_id (live w c)) \<and> (\<forall>con \<in> set (live w c). con_id con < cx_next w))
     \<and> (\<forall>c c'. c \<noteq> c' \<longrightarrow> con_id ` set (live w c) \<inter> con_id ` set (live w c') = {})"

text \<open>The connection that gets what is broadcast to its client: the newest one.\<close>

definition current :: "connections \<Rightarrow> connection \<Rightarrow> bool" where
  "current w con \<longleftrightarrow> (\<exists>c. live w c \<noteq> [] \<and> con = List.last (live w c))"

definition sends_to :: "nat \<Rightarrow> connections \<Rightarrow> action_envelope list" where
  "sends_to i w = map snd (filter (\<lambda>s. fst s = i) (action_sends w))"

lemma ids_frame: "wiring w' = wiring w \<Longrightarrow> ids_ok w' = ids_ok w"
  by (simp add: wiring_def ids_ok_def)

lemma current_frame: "wiring w' = wiring w \<Longrightarrow> current w' = current w"
  by (simp add: wiring_def current_def fun_eq_iff)

lemma sends_frame: "logging w' = logging w \<Longrightarrow> sends_to i w' = sends_to i w"
  by (simp add: logging_def sends_to_def)

lemma active_live: "getActiveClientFromRecord r = (if record_connections r = [] then None else Some (List.last (record_connections r)))"
  by (cases r) simp_all

lemma receivers_one:
  assumes "(c, r) \<in> set cs" "getActiveClientFromRecord r = Some con" "distinct (map fst cs)"
    and "\<And>c' r' con'. (c', r') \<in> set cs \<Longrightarrow> c' \<noteq> c \<Longrightarrow> getActiveClientFromRecord r' = Some con' \<Longrightarrow> con_id con' \<noteq> con_id con"
  shows "filter (\<lambda>i. i = con_id con) (receivers pl e cs) = (if isRelevantToClient pl con e then [con_id con] else [])"
  using assms
proof (induction cs)
  case (Cons x cs)
  obtain c' r' where x: "x = (c', r')" by (cases x)
  have none: "filter (\<lambda>i. i = con_id con) (receivers pl e ds) = []"
    if "\<And>c' r' con'. (c', r') \<in> set ds \<Longrightarrow> getActiveClientFromRecord r' = Some con' \<Longrightarrow> con_id con' \<noteq> con_id con" for ds
  proof -
    have "con_id con \<notin> set (receivers pl e ds)"
      using that by (fastforce simp: receivers_def dest!: map_filter_member split: option.splits if_splits)
    then show ?thesis by (auto simp: filter_empty_conv)
  qed
  show ?case
  proof (cases "c' = c")
    case True
    then have "r' = r" using Cons.prems(1,3) x by (auto simp: rev_image_eqI)
    moreover have "filter (\<lambda>i. i = con_id con) (receivers pl e cs) = []"
      using Cons.prems(3,4) True x by (intro none) (force simp: rev_image_eqI)
    ultimately show ?thesis using Cons.prems(2) x by (simp add: receivers_def List.map_filter_simps)
  next
    case False
    then have "(c, r) \<in> set cs" using Cons.prems(1) x by auto
    moreover have "getActiveClientFromRecord r' = Some con' \<Longrightarrow> con_id con' \<noteq> con_id con" for con'
      using Cons.prems(4) [of c' r'] False x by simp
    moreover have "distinct (map fst cs)" using Cons.prems(3) by simp
    moreover have "(c'', r'') \<in> set cs \<Longrightarrow> c'' \<noteq> c \<Longrightarrow> getActiveClientFromRecord r'' = Some con' \<Longrightarrow> con_id con' \<noteq> con_id con"
      for c'' r'' con' using Cons.prems(4) [of c'' r''] by simp
    ultimately have "filter (\<lambda>i. i = con_id con) (receivers pl e cs) = (if isRelevantToClient pl con e then [con_id con] else [])"
      "\<And>con'. getActiveClientFromRecord r' = Some con' \<Longrightarrow> con_id con' \<noteq> con_id con"
      using Cons.IH Cons.prems(2) by blast+
    then show ?thesis by (auto simp: x receivers_def List.map_filter_simps split: option.split)
  qed
qed simp

lemma receivers_current:
  assumes "ids_ok w" "current w con"
  shows "filter (\<lambda>i. i = con_id con) (receivers pl e (cx_clients w)) = (if isRelevantToClient pl con e then [con_id con] else [])"
proof -
  obtain c where c: "live w c \<noteq> []" "con = List.last (live w c)" using assms(2) by (auto simp: current_def)
  then obtain r where r: "client_at w c = Some r" "record_connections r = live w c"
    by (auto simp: live_def split: option.splits)
  have keys: "distinct (map fst (cx_clients w))" using assms(1) by (simp add: ids_ok_def keys_ok_def)
  have other: "con_id con' \<noteq> con_id con"
    if "(c', r') \<in> set (cx_clients w)" "c' \<noteq> c" "getActiveClientFromRecord r' = Some con'" for c' r' con'
  proof -
    have "live w c' = record_connections r'" using that(1) keys by (simp add: live_def client_at_def map_of_is_SomeI)
    then have "con' \<in> set (live w c')" using that(3) by (auto simp: active_live split: if_splits)
    moreover have "con \<in> set (live w c)" using c by simp
    ultimately show ?thesis using assms(1) that(2) unfolding ids_ok_def by blast
  qed
  show ?thesis
    by (rule receivers_one [OF _ _ keys other])
      (use r c in \<open>auto simp: client_at_def active_live dest: map_of_SomeD\<close>)
qed

lemma envelope_sends:
  assumes "ids_ok w" "current w con"
  shows "sends_to (con_id con) (onEnvelope pl e w) = sends_to (con_id con) w @ (if isRelevantToClient pl con e then [e] else [])"
proof -
  have "action_sends (onEnvelope pl e w) = action_sends w @ map (\<lambda>i. (i, e)) (receivers pl e (cx_clients w))"
    using logging_envelope [of pl e w] by (simp add: logging_def)
  then have "sends_to (con_id con) (onEnvelope pl e w)
      = sends_to (con_id con) w @ map (\<lambda>i. e) (filter (\<lambda>i. i = con_id con) (receivers pl e (cx_clients w)))"
    by (simp add: sends_to_def filter_map comp_def)
  then show ?thesis using receivers_current [OF assms, of pl e] by simp
qed

lemma envelopes_sends:
  assumes "ids_ok w" "current w con"
  shows "sends_to (con_id con) (fold (onEnvelope pl) es w) = sends_to (con_id con) w @ filter (isRelevantToClient pl con) es"
  using assms
proof (induction es arbitrary: w)
  case (Cons e es)
  have "ids_ok (onEnvelope pl e w)" "current (onEnvelope pl e w) con"
    using Cons.prems ids_frame [OF wiring_envelope] current_frame [OF wiring_envelope] by auto
  then show ?case using Cons.IH envelope_sends [OF Cons.prems] by simp
qed simp


section \<open>What the host does in a handler\<close>

text \<open>The state changes of the host within a handler: operations of the state manager, and timeouts it clears.\<close>

inductive host_reach :: "server_config \<Rightarrow> connections \<Rightarrow> connections \<Rightarrow> bool" for sv where
  Stay: "host_reach sv w w"
| Operate: "host_reach sv w w' \<Longrightarrow> has_reason op \<Longrightarrow> host_reach sv w (manager_op (srv_host sv) op w')"
| Clear: "host_reach sv w w' \<Longrightarrow> host_reach sv w (clearClientToolCallDisconnectTimeout c ch w')"

lemma reach_trans: "host_reach sv w2 w3 \<Longrightarrow> host_reach sv w1 w2 \<Longrightarrow> host_reach sv w1 w3"
  by (induction rule: host_reach.induct) (auto intro: host_reach.intros)

lemma reach_and_then:
  assumes "host_reach sv w (fst r)" and "\<And>w1. host_reach sv w w1 \<Longrightarrow> host_reach sv w (fst (f w1))"
  shows "host_reach sv w (fst (and_then r f))"
  using assms by (cases r; cases "snd r") auto

lemma reach_dispatch: "host_reach sv w w1 \<Longrightarrow> host_reach sv w (fst (serverDispatch sv channel a w1))"
  by (simp add: serverDispatch_def host_reach.Operate)

lemma reach_fail_calls: "host_reach sv w w1 \<Longrightarrow> host_reach sv w (fst (fail_calls sv c ch st t tcs w1))"
proof (induction tcs arbitrary: w1)
  case (Cons tc tcs)
  have "host_reach sv w (fst (fail_call sv c ch st t tc w1))"
    unfolding fail_call_def using Cons.prems by (intro reach_and_then reach_dispatch) (auto intro: reach_dispatch)
  then show ?case unfolding fail_calls.simps by (rule reach_and_then) (rule Cons.IH)
qed simp

lemma reach_release:
  assumes "host_reach sv w w1"
  shows "host_reach sv w (fst (releaseActiveClientForSession sv s c ch w1))"
proof -
  have "host_reach sv w (fst (completeDisconnectedClientToolCalls sv c ch w2))" if "host_reach sv w w2" for w2
    using that by (simp add: completeDisconnectedClientToolCalls_def reach_fail_calls split: option.split)
  moreover have "host_reach sv w (fst (removeActiveClient sv s c w2))" if "host_reach sv w w2" for w2
    using that by (simp add: removeActiveClient_def reach_dispatch split: option.split)
  ultimately show ?thesis
    unfolding releaseActiveClientForSession_def using assms by (intro reach_and_then) (auto intro: host_reach.Clear)
qed

lemma reach_release_chats: "host_reach sv w w1 \<Longrightarrow> host_reach sv w (fst (release_chats sv s c chs w1))"
proof (induction chs arbitrary: w1)
  case (Cons ch chs)
  then show ?case unfolding release_chats.simps by (intro reach_and_then reach_release) auto
qed simp

lemma reach_reconcile: "host_reach sv w w1 \<Longrightarrow> host_reach sv w (fst (reconcile_sessions sv c cons ss w1))"
proof (induction ss arbitrary: w1)
  case (Cons s ss)
  have "host_reach sv w (fst (case getSessionState (srv_platform sv) s (cx_manager w1) of None \<Rightarrow> (w1, None)
      | Some state \<Rightarrow> if isActiveClient state c
          then release_chats sv s c (filter (releases_chat cons s) (map csum_resource (ses_chats state))) w1 else (w1, None)))"
    using Cons.prems by (simp add: reach_release_chats split: option.split)
  then show ?case unfolding reconcile_sessions.simps by (rule reach_and_then) (rule Cons.IH)
qed simp

section \<open>The log along host operations\<close>

text \<open>The replay buffer holds the newest envelopes of the log, which are numbered.\<close>

definition log_ok :: "connections \<Rightarrow> bool" where
  "log_ok w \<longleftrightarrow> numbered (cx_manager w)
     \<and> cx_replay w = drop (length (envelopes (cx_manager w)) - REPLAY_BUFFER_CAPACITY) (envelopes (cx_manager w))"

lemma push_newest:
  assumes "b = drop (length L - n) L" "0 < n"
  shows "(if length b \<ge> n then tl (b @ [e]) else b @ [e]) = drop (length (L @ [e]) - n) (L @ [e])"
proof (cases "n \<le> length L")
  case True
  then have "length b = n" using assms(1) by simp
  then have "tl (b @ [e]) = tl b @ [e]" using assms(2) by (cases b) auto
  moreover have "Suc (length L) - n = Suc (length L - n)" using True by simp
  ultimately show ?thesis using True \<open>length b = n\<close> assms by (simp add: drop_Suc tl_drop)
next
  case False
  then show ?thesis using assms by simp
qed

lemma replay_fold:
  assumes "cx_replay w = drop (length L - REPLAY_BUFFER_CAPACITY) L"
  shows "cx_replay (fold (onEnvelope pl) es w) = drop (length (L @ es) - REPLAY_BUFFER_CAPACITY) (L @ es)
    \<and> cx_manager (fold (onEnvelope pl) es w) = cx_manager w"
  using assms
proof (induction es arbitrary: w L)
  case (Cons e es)
  have cap: "0 < REPLAY_BUFFER_CAPACITY" by (simp add: REPLAY_BUFFER_CAPACITY_def)
  have step: "cx_replay (onEnvelope pl e w) = drop (length (L @ [e]) - REPLAY_BUFFER_CAPACITY) (L @ [e])"
    "cx_manager (onEnvelope pl e w) = cx_manager w"
    using logging_envelope [of pl e w] push_newest [OF Cons.prems cap, of e] by (simp_all add: logging_def)
  show ?case using Cons.IH [OF step(1)] step(2) by simp
qed simp

lemma wiring_op [wiring_simps]: "wiring (manager_op h op w) = wiring w"
  by (simp add: manager_op_def Let_def fold_frame wiring_simps)

definition emitted :: "connections \<Rightarrow> connections \<Rightarrow> action_envelope list" where
  "emitted w w' = drop (length (envelopes (cx_manager w))) (envelopes (cx_manager w'))"

definition grows :: "connections \<Rightarrow> connections \<Rightarrow> bool" where
  "grows w w' \<longleftrightarrow> prefix (envelopes (cx_manager w)) (envelopes (cx_manager w'))"

lemma grows_refl [simp]: "grows w w" by (simp add: grows_def)

lemma grows_trans: "grows w1 w2 \<Longrightarrow> grows w2 w3 \<Longrightarrow> grows w1 w3"
  unfolding grows_def by (rule prefix_order.trans)

lemma emitted_trans: "grows w1 w2 \<Longrightarrow> grows w2 w3 \<Longrightarrow> emitted w1 w3 = emitted w1 w2 @ emitted w2 w3"
  by (auto simp: grows_def emitted_def prefix_def)

lemma op_manager: "has_reason op \<Longrightarrow> cx_manager (manager_op h op w) = host_step h op (cx_manager w)"
  and op_replay: "has_reason op \<Longrightarrow> log_ok w \<Longrightarrow> log_ok (manager_op h op w)"
proof -
  assume op: "has_reason op"
  let ?L = "envelopes (cx_manager w)" and ?m = "host_step h op (cx_manager w)"
  obtain es where es: "envelopes ?m = ?L @ es" using log_grows [OF op, of "cx_manager w" h] by (auto simp: prefix_def)
  have manager: "cx_manager (fold (onEnvelope pl) xs w') = cx_manager w'" for pl xs w'
  proof (induction xs arbitrary: w')
    case (Cons e xs)
    have "cx_manager (onEnvelope pl e w') = cx_manager w'" using logging_envelope [of pl e w'] by (simp add: logging_def)
    then show ?case using Cons.IH by simp
  qed simp
  show m: "cx_manager (manager_op h op w) = ?m" by (simp add: manager_op_def Let_def manager)
  assume ok: "log_ok w"
  then have "numbered ?m" using numbering.step [OF _ op] by (simp add: log_ok_def)
  moreover have "cx_replay (manager_op h op w) = drop (length (?L @ es) - REPLAY_BUFFER_CAPACITY) (?L @ es)"
    using replay_fold [of "w\<lparr>cx_manager := ?m\<rparr>" ?L "host_platform h" es] ok by (simp add: manager_op_def Let_def es log_ok_def)
  ultimately show "log_ok (manager_op h op w)" using m by (simp add: log_ok_def es)
qed

lemma op_grows: "has_reason op \<Longrightarrow> grows w (manager_op h op w)"
  by (simp add: grows_def op_manager log_grows)

lemma op_sends:
  assumes "has_reason op" "ids_ok w" "current w con"
  shows "sends_to (con_id con) (manager_op h op w) = sends_to (con_id con) w
    @ filter (isRelevantToClient (host_platform h) con) (emitted w (manager_op h op w))"
proof -
  let ?m = "host_step h op (cx_manager w)"
  have same: "wiring (w\<lparr>cx_manager := ?m\<rparr>) = wiring w" by (rule wiring_fields)
  have "sends_to (con_id con) (w\<lparr>cx_manager := ?m\<rparr>) = sends_to (con_id con) w" by (simp add: sends_to_def action_sends_def)
  moreover have "emitted w (manager_op h op w) = drop (length (envelopes (cx_manager w))) (envelopes ?m)"
    by (simp add: emitted_def op_manager [OF assms(1)])
  ultimately show ?thesis
    using envelopes_sends [of "w\<lparr>cx_manager := ?m\<rparr>" con "host_platform h"] assms ids_frame [OF same] current_frame [OF same]
    by (simp add: manager_op_def Let_def)
qed

lemma log_frame: "logging w' = logging w \<Longrightarrow> log_ok w' = log_ok w \<and> grows w w' \<and> emitted w w' = [] \<and> grows w' w \<and> sends_to i w' = sends_to i w"
  by (auto simp: logging_def log_ok_def grows_def emitted_def sends_to_def)

lemma reach_wiring: "host_reach sv w w' \<Longrightarrow> wiring w' = wiring w"
  by (induction rule: host_reach.induct) (simp_all add: wiring_simps)

lemma reach_grows: "host_reach sv w w' \<Longrightarrow> grows w w'"
proof (induction rule: host_reach.induct)
  case (Operate w w' op)
  then show ?case using grows_trans op_grows by blast
next
  case (Clear w w' c ch)
  then show ?case using grows_trans log_frame [OF logging_timeout(2)] by blast
qed simp

lemma reach_log: "host_reach sv w w' \<Longrightarrow> log_ok w \<Longrightarrow> log_ok w'"
  by (induction rule: host_reach.induct) (simp_all add: op_replay log_frame [OF logging_timeout(2)])

lemma reach_sends:
  assumes "host_reach sv w w'" "ids_ok w" "current w con"
  shows "sends_to (con_id con) w' = sends_to (con_id con) w
    @ filter (isRelevantToClient (srv_platform sv) con) (emitted w w')"
  using assms
proof (induction rule: host_reach.induct)
  case (Stay w)
  then show ?case by (simp add: emitted_def)
next
  case (Operate w w' op)
  note g = reach_grows [OF Operate.hyps(1)] and f = reach_wiring [OF Operate.hyps(1)]
  have "ids_ok w'" "current w' con" using Operate.prems ids_frame [OF f] current_frame [OF f] by auto
  then show ?case
    using Operate.IH Operate.prems op_sends [OF Operate.hyps(2), of w' con "srv_host sv"]
      emitted_trans [OF g op_grows [OF Operate.hyps(2), of w' "srv_host sv"]]
    by (simp add: srv_platform_def)
next
  case (Clear w w' c ch)
  have "logging (clearClientToolCallDisconnectTimeout c ch w') = logging w'" by (rule logging_timeout)
  then have "sends_to (con_id con) (clearClientToolCallDisconnectTimeout c ch w') = sends_to (con_id con) w'"
    "emitted w (clearClientToolCallDisconnectTimeout c ch w') = emitted w w'"
    by (rule sends_frame, simp add: emitted_def logging_def)
  then show ?case using Clear by simp
qed


section \<open>What a handler does to the connections\<close>

definition rewires :: "connections \<Rightarrow> connections \<Rightarrow> bool" where
  "rewires w w' \<longleftrightarrow> logging w' = logging w \<and> (ids_ok w \<longrightarrow> ids_ok w')"

named_theorems rewiring

lemma rewires_refl [rewiring]: "rewires w w"
  by (simp add: rewires_def)

lemma rewires_trans: "rewires w1 w2 \<Longrightarrow> rewires w2 w3 \<Longrightarrow> rewires w1 w3"
  by (simp add: rewires_def)

lemma rewires_same: "logging w' = logging w \<Longrightarrow> wiring w' = wiring w \<Longrightarrow> rewires w w'"
  using ids_frame [of w' w] by (simp add: rewires_def)

lemma rewires_step: "rewires w w1 \<Longrightarrow> logging w' = logging w1 \<Longrightarrow> wiring w' = wiring w1 \<Longrightarrow> rewires w w'"
  by (rule rewires_trans [OF _ rewires_same])

lemma rewires_fewer:
  assumes "logging w' = logging w" "keys_ok w \<Longrightarrow> keys_ok w'" "cx_next w' = cx_next w"
    and "\<And>c. keys_ok w \<Longrightarrow> distinct (map con_id (live w c)) \<Longrightarrow> distinct (map con_id (live w' c))"
    and "\<And>c. keys_ok w \<Longrightarrow> con_id ` set (live w' c) \<subseteq> con_id ` set (live w c)"
  shows "rewires w w'"
proof -
  have "ids_ok w'" if ok: "ids_ok w"
    unfolding ids_ok_def
  proof (intro conjI allI impI ballI)
    have keys: "keys_ok w" using ok by (simp add: ids_ok_def)
    note sub = assms(5) [OF keys]
    show "keys_ok w'" using ok assms(2) by (simp add: ids_ok_def)
    show "distinct (map con_id (live w' c))" for c using ok assms(4) [OF keys] by (simp add: ids_ok_def)
    show "con_id con < cx_next w'" if "con \<in> set (live w' c)" for c con
    proof -
      have "con_id con \<in> con_id ` set (live w c)" using sub [of c] that by blast
      then obtain con' where "con' \<in> set (live w c)" "con_id con = con_id con'" by blast
      moreover from this(1) have "con_id con' < cx_next w" using ok by (simp add: ids_ok_def)
      ultimately show ?thesis using assms(3) by simp
    qed
    show "con_id ` set (live w' c) \<inter> con_id ` set (live w' c') = {}" if "c \<noteq> c'" for c c'
    proof -
      have "con_id ` set (live w c) \<inter> con_id ` set (live w c') = {}" using ok that by (simp add: ids_ok_def)
      then show ?thesis using sub [of c] sub [of c'] by blast
    qed
  qed
  then show ?thesis using assms(1) by (simp add: rewires_def)
qed

lemma next_set [simp]: "cx_next (set_client c r w) = cx_next w"
  by (simp add: set_client_def)

lemma rewires_without: "rewires w (set_client c (without_connection i (or_default (client_at w c) (ActiveRecord []))) w)"
proof (rule rewires_fewer)
  let ?r = "without_connection i (or_default (client_at w c) (ActiveRecord []))"
  have r: "record_connections ?r = filter (\<lambda>con. con_id con \<noteq> i) (live w c)"
    by (auto simp: without_connection_def live_def split: option.split client_record.split)
  show "distinct (map con_id (live (set_client c ?r w) c'))" if "distinct (map con_id (live w c'))" for c'
    using that by (cases "c' = c") (auto simp: r intro: distinct_map_filter)
  show "con_id ` set (live (set_client c ?r w) c') \<subseteq> con_id ` set (live w c')" for c' by (auto simp: r)
qed (simp_all add: logging_simps)

lemma rewires_grace: "rewires w (set_client c (GraceRecord seen t ts) w)"
  by (rule rewires_fewer) (simp_all add: logging_simps)

lemma rewires_forget: "rewires w (w\<lparr>cx_clients := AList.delete c (cx_clients w)\<rparr>)"
  by (rule rewires_fewer)
    (auto simp: logging_simps keys_ok_def live_def client_at_def delete_conv' distinct_delete split: if_splits)

lemma live_change: "live (change_connection i f w) c = map (\<lambda>con. if con_id con = i then f con else con) (live w c)"
proof -
  have "map_of (map (\<lambda>(c, r). (c, g r)) xs) c = map_option g (map_of xs c)" for g :: "client_record \<Rightarrow> client_record" and xs
    by (induction xs) auto
  then show ?thesis
    by (simp add: live_def change_connection_def client_at_def Let_def split: option.split client_record.split)
qed

lemma logging_change [logging_simps]: "logging (change_connection i f w) = logging w"
  by (simp add: change_connection_def Let_def logging_def action_sends_def)

lemma rewires_change:
  assumes "\<And>con. con_id (f con) = con_id con"
  shows "rewires w (change_connection i f w)"
proof (rule rewires_fewer)
  have ids: "map con_id (live (change_connection i f w) c) = map con_id (live w c)" for c
    by (simp add: live_change assms)
  show "distinct (map con_id (live (change_connection i f w) c))" if "distinct (map con_id (live w c))" for c
    using that by (simp only: ids)
  show "con_id ` set (live (change_connection i f w) c) \<subseteq> con_id ` set (live w c)" for c
    using ids [of c] by (metis list.set_map order_refl)
qed (simp_all add: logging_simps keys_ok_def change_connection_def Let_def comp_def case_prod_unfold)

lemma rewires_install: "rewires w (install i uri k w)"
  unfolding install_def by (rule rewires_change) simp

lemma map_of_filter:
  "distinct (map fst xs) \<Longrightarrow> map_of (filter P xs) c = (case map_of xs c of Some r \<Rightarrow> if P (c, r) then Some r else None | None \<Rightarrow> None)"
proof (induction xs)
  case (Cons x xs)
  then have "map_of xs (fst x) = None" by (simp add: map_of_eq_None_iff)
  then show ?case using Cons by (cases x) (auto split: option.split)
qed simp

lemma live_prune: "keys_ok w \<Longrightarrow> live (pruneClientRecords w) c = live w c"
  by (simp add: live_def client_at_def pruneClientRecords_def map_of_filter keys_ok_def split: option.split client_record.split)

lemma rewires_prune: "rewires w (pruneClientRecords w)"
proof (rule rewires_fewer)
  show "logging (pruneClientRecords w) = logging w" "cx_next (pruneClientRecords w) = cx_next w"
    by (simp_all add: pruneClientRecords_def logging_simps)
  show "keys_ok w \<Longrightarrow> keys_ok (pruneClientRecords w)"
    by (auto simp: pruneClientRecords_def keys_ok_def intro: distinct_map_filter)
qed (simp_all add: live_prune)

lemma ids_added:
  assumes ok: "ids_ok w" and keys: "keys_ok w'" and nxt: "cx_next w' = Suc (cx_next w)"
    and live: "\<And>c'. live w' c' = (if c' = c then live w c @ [con] else live w c')" and con: "con_id con = cx_next w"
  shows "ids_ok w'"
proof -
  have bound: "con_id x < cx_next w" if "x \<in> set (live w c')" for x c' using ok that by (simp add: ids_ok_def)
  have fresh: "cx_next w \<notin> con_id ` set (live w c')" for c'
  proof
    assume "cx_next w \<in> con_id ` set (live w c')"
    then obtain x where "x \<in> set (live w c')" "con_id x = cx_next w" by auto
    then show False using bound by fastforce
  qed
  have "distinct (map con_id (live w' c'))" for c'
    using ok fresh [of c] con by (simp add: live ids_ok_def)
  moreover have "con_id x < cx_next w'" if "x \<in> set (live w' c')" for c' x
  proof (cases "x \<in> set (live w c')")
    case True
    then show ?thesis using bound nxt by fastforce
  next
    case False
    then show ?thesis using that con nxt by (simp add: live split: if_splits)
  qed
  moreover have "con_id ` set (live w' c1) \<inter> con_id ` set (live w' c2) = {}" if "c1 \<noteq> c2" for c1 c2
  proof -
    have "con_id ` set (live w c1) \<inter> con_id ` set (live w c2) = {}" using ok that by (simp add: ids_ok_def)
    then show ?thesis using that fresh [of c1] fresh [of c2] con by (auto simp: live)
  qed
  ultimately show ?thesis using keys unfolding ids_ok_def by blast
qed

lemma rewires_connect: "rewires w (new_connection c w)"
proof -
  let ?con = "\<lparr>con_id = cx_next w, con_subscriptions = []\<rparr>"
  let ?r = "case client_at w c of Some (ActiveRecord cs) \<Rightarrow> ActiveRecord (cs @ [?con]) | _ \<Rightarrow> ActiveRecord [?con]"
  let ?w = "set_client c ?r (w\<lparr>cx_next := Suc (cx_next w)\<rparr>)"
  have same: "client_at (w\<lparr>cx_next := n\<rparr>) = client_at w" for n by (simp add: client_at_def fun_eq_iff)
  then have "live (w\<lparr>cx_next := n\<rparr>) = live w" for n by (simp add: live_def fun_eq_iff)
  moreover have "record_connections ?r = live w c @ [?con]"
    by (simp add: live_def split: option.split client_record.split)
  ultimately have live: "live ?w c' = (if c' = c then live w c @ [?con] else live w c')" for c'
    unfolding live_set by simp
  have "keys_ok (w\<lparr>cx_next := Suc (cx_next w)\<rparr>) = keys_ok w" by (simp add: keys_ok_def)
  then have "ids_ok w \<Longrightarrow> ids_ok ?w" by (intro ids_added [OF _ _ _ live]) (simp_all add: ids_ok_def)
  then have "rewires w ?w" by (simp add: rewires_def logging_simps)
  then show ?thesis
    unfolding new_connection_def attachConnection_def same by (rule rewires_trans [OF _ rewires_prune])
qed

end
