(* ===== verification/Connection_Steps.thy ===== *)
theory Connection_Steps
  imports Connection_Runs
begin

text \<open>
  The shape of a step of the server: first it changes connections, then the host runs, then it may send
  replies. Hence the invariants of every run, and what a run sends on a channel.
\<close>

section \<open>Handlers\<close>

definition staged :: "server_config \<Rightarrow> connections \<Rightarrow> connections \<Rightarrow> bool" where
  "staged sv w w' \<longleftrightarrow> (\<exists>w1 w2. rewires w w1 \<and> host_reach sv w1 w2 \<and> logging w' = logging w2 \<and> wiring w' = wiring w2)"

lemma staged_rewires: "rewires w w' \<Longrightarrow> staged sv w w'"
  unfolding staged_def using host_reach.Stay by blast

lemma staged_reach: "rewires w w1 \<Longrightarrow> host_reach sv w1 w2 \<Longrightarrow> staged sv w w2"
  unfolding staged_def by blast

lemma logging_subscriber [logging_simps]:
  "logging (addSubscriber k c w) = logging w" "logging (unsubscribe k c w) = logging w"
  "logging (change_reconnect i f w) = logging w"
  by (simp_all add: addSubscriber_def unsubscribe_def change_reconnect_def logging_simps)

lemma wiring_subscriber [wiring_simps]:
  "wiring (addSubscriber k c w) = wiring w" "wiring (unsubscribe k c w) = wiring w"
  "wiring (change_reconnect i f w) = wiring w"
  by (simp_all add: addSubscriber_def unsubscribe_def change_reconnect_def wiring_simps)

lemma wiring_send [wiring_simps]: "wiring (transport_send i msg w) = wiring w"
  by (simp add: transport_send_def wiring_simps)

lemma logging_reply [logging_simps]:
  "logging (transport_send i (InitializeReply k ss) w) = logging w" "logging (transport_send i (ReplayReply es ms) w) = logging w"
  "logging (transport_send i (SnapshotReply ss) w) = logging w" "logging (transport_send i (SubscribeReply u k) w) = logging w"
  by (simp_all add: transport_send_def logging_def action_sends_def map_filter_append List.map_filter_simps action_of_def)

lemma rewires_quiet [rewiring]:
  "rewires w w1 \<Longrightarrow> rewires w (addSubscriber k c w1)" "rewires w w1 \<Longrightarrow> rewires w (unsubscribe k c w1)"
  "rewires w w1 \<Longrightarrow> rewires w (change_reconnect i f w1)" "rewires w w1 \<Longrightarrow> rewires w (w1\<lparr>cx_tasks := ks\<rparr>)"
  "rewires w w1 \<Longrightarrow> rewires w (w1\<lparr>cx_reconnects := rs\<rparr>)" "rewires w w1 \<Longrightarrow> rewires w (w1\<lparr>cx_closed := cs\<rparr>)"
  "rewires w w1 \<Longrightarrow> rewires w (w1\<lparr>cx_now := now\<rparr>)"
  "rewires w w1 \<Longrightarrow> rewires w (clearClientToolCallDisconnectTimeout c ch w1)"
  "rewires w w1 \<Longrightarrow> rewires w (startClientToolCallDisconnectTimeout c s ch w1)"
  "rewires w w1 \<Longrightarrow> rewires w (transport_send i (InitializeReply k' ss) w1)"
  "rewires w w1 \<Longrightarrow> rewires w (transport_send i (SubscribeReply u k') w1)"
  by (erule rewires_step, simp only: logging_simps, simp only: wiring_simps)+

lemma rewires_install_after [rewiring]: "rewires w w1 \<Longrightarrow> rewires w (install i u k w1)"
  by (rule rewires_trans [OF _ rewires_install])

lemma rewires_and_then:
  assumes "rewires w (fst r)" and "\<And>w1. rewires w w1 \<Longrightarrow> rewires w (fst (f w1))"
  shows "rewires w (fst (and_then r f))"
  using assms by (cases r; cases "snd r") auto

lemma rewires_initial: "rewires w w1 \<Longrightarrow> rewires w (fst (initial_subscriptions sv c i us w1))"
proof (induction us arbitrary: w1)
  case (Cons u us)
  have "rewires w (fst (addInitialSubscription sv c i u w1))"
    using Cons.prems
    by (auto simp: addInitialSubscription_def Let_def intro: rewiring split: option.split channel_subscription.split)
  then show ?case unfolding initial_subscriptions.simps by (rule rewires_and_then) (rule Cons.IH)
qed simp

lemma rewires_release: "rewires w w1 \<Longrightarrow> rewires w (fst (releaseClientSubscriptions pl c r con w1))"
proof -
  have "rewires w w1 \<Longrightarrow> rewires w (fst (release_subscriptions pl c r i subs w1))" for i subs
    by (induction pl c r i subs w1 rule: release_subscriptions.induct) (auto intro: rewiring split: option.split)
  then show "rewires w w1 \<Longrightarrow> ?thesis" by (simp add: releaseClientSubscriptions_def)
qed

lemma rewires_rollback:
  assumes "rewires w w1"
  shows "rewires w (fst (rollbackFailedInitialization pl c i old w1))"
proof (cases "connection_of i w1")
  case (Some x)
  obtain c' con where x: "x = (c', con)" by (cases x)
  let ?r = "without_connection i (or_default (client_at w1 c) (ActiveRecord []))"
  have *: "rewires w (set_client c ?r w1)" by (rule rewires_trans [OF assms rewires_without])
  show ?thesis
    unfolding rollbackFailedInitialization_def Some x
    by (auto simp: Let_def intro!: rewires_and_then rewires_release * intro: rewires_trans [OF _ rewires_grace]
        rewires_trans [OF _ rewires_forget] split: option.split client_record.split)
qed (use assms in \<open>simp add: rollbackFailedInitialization_def\<close>)

lemma rewires_initialize: "rewires w (fst (handleInitialize sv c us w))"
proof -
  have *: "rewires w (fst (initial_subscriptions sv c (cx_next w) us (new_connection c w)))"
    by (rule rewires_initial [OF rewires_connect])
  show ?thesis
  proof (cases "initial_subscriptions sv c (cx_next w) us (new_connection c w)")
    case (Pair w1 e)
    then have "rewires w w1" using * by simp
    then show ?thesis
      by (auto simp: handleInitialize_def Let_def Pair intro!: rewires_and_then rewires_rollback intro: rewiring split: option.split)
  qed
qed

lemma rewires_restore [rewiring]: "rewires w w1 \<Longrightarrow> rewires w (restore_subscription sv c i sub w1)"
  by (auto simp: restore_subscription_def Let_def intro: rewiring split: option.split channel_subscription.split)

lemma rewires_reconnect: "rewires w (fst (handleReconnect sv c lastSeen subs w))"
proof -
  have *: "rewires w w1 \<Longrightarrow> rewires w (fold (restore_subscription sv c i) us w1)" for w1 i us
    by (induction us arbitrary: w1) (auto intro: rewiring)
  show ?thesis by (auto simp: handleReconnect_def Let_def intro!: * rewiring rewires_connect)
qed

lemma rewires_tasks:
  "rewires w (handleSubscribe sv c i channel w)" "rewires w (registerTask pl n w)" "rewires w (snapshotTask n w)"
  "rewires w (answerTask n w)" "rewires w (failTask pl n w)"
  by (auto simp: handleSubscribe_def registerTask_def snapshotTask_def answerTask_def failTask_def Let_def
      intro!: rewiring split: option.split channel_subscription.split)

lemma rewires_disconnect:
  assumes "rewires w w1"
  shows "rewires w (handleClientDisconnected pl c w1)"
proof -
  have chats: "rewires w w2 \<Longrightarrow> rewires w (fold (\<lambda>x. startClientToolCallDisconnectTimeout c s (csum_resource x)) xs w2)" for s xs w2
    by (induction xs arbitrary: w2) (auto intro: rewiring)
  have "rewires w w2 \<Longrightarrow> rewires w (arm_session pl c s w2)" for s w2
    by (auto simp: arm_session_def intro: chats split: option.split)
  then have "rewires w w2 \<Longrightarrow> rewires w (fold (arm_session pl c) ss w2)" for ss w2
    by (induction ss arbitrary: w2) auto
  then show ?thesis
    using assms by (auto simp: handleClientDisconnected_def Let_def intro: rewires_trans [OF _ rewires_grace]
        split: option.split client_record.split)
qed

lemma rewires_close: "rewires w (fst (transportClosed pl i w))"
proof (cases "connection_of i w")
  case (Some x)
  obtain c con where x: "x = (c, con)" by (cases x)
  let ?r = "without_connection i (or_default (client_at w c) (ActiveRecord []))"
  have *: "rewires w ((set_client c ?r w)\<lparr>cx_closed := cs\<rparr>)" for cs by (intro rewiring rewires_without)
  show ?thesis
    unfolding transportClosed_def Some x
    by (auto simp: Let_def intro!: rewires_and_then rewires_release * rewires_disconnect intro: rewires_trans [OF _ rewires_grace])
qed (simp add: transportClosed_def rewiring)

section \<open>Every step is staged\<close>

lemma staged_unsubscribe: "staged sv w (fst (removeSubscription sv i channel w))"
proof (cases "classifyChannel (srv_platform sv) channel"; cases "connection_of i w")
  fix uk ccon
  assume c: "classifyChannel (srv_platform sv) channel = Some uk" and o: "connection_of i w = Some ccon"
  obtain u k c con where x: "uk = (u, k)" "ccon = (c, con)" by (cases uk; cases ccon)
  let ?w1 = "change_connection i (\<lambda>con. con\<lparr>con_subscriptions := AList.delete u (con_subscriptions con)\<rparr>) w"
  have w1: "rewires w ?w1" by (rule rewires_change) simp
  note still = staged_rewires [OF w1] staged_rewires [OF rewires_refl]
  have left: "staged sv w (unsubscribe key c ?w1)" for key by (rule staged_rewires [OF rewires_quiet(2) [OF w1]])
  have released: "host_reach sv (unsubscribe key c ?w1) w2 \<Longrightarrow> staged sv w w2" for key w2
    by (rule staged_reach [OF rewires_quiet(2) [OF w1]])
  show ?thesis
  proof (cases "map_of (con_subscriptions con) u")
    case None
    then show ?thesis unfolding removeSubscription_def c o x by (simp add: still)
  next
    case (Some k')
    show ?thesis
    proof (cases "resource_key (srv_platform sv) u")
      case None
      then show ?thesis unfolding removeSubscription_def c o x by (simp add: Some still Let_def)
    next
      case (Some key)
      have "host_reach sv (unsubscribe key c ?w1) (fst (release_chats sv s c chs (unsubscribe key c ?w1)))"
        "host_reach sv (unsubscribe key c ?w1) (fst (releaseActiveClientForSession sv s c u (unsubscribe key c ?w1)))" for s chs
        by (rule reach_release_chats [OF host_reach.Stay], rule reach_release [OF host_reach.Stay])
      then have "staged sv w (fst (release_chats sv s c chs (unsubscribe key c ?w1)))"
        "staged sv w (fst (releaseActiveClientForSession sv s c u (unsubscribe key c ?w1)))" for s chs
        using released by blast+
      then show ?thesis unfolding removeSubscription_def c o x
        by (simp add: Some \<open>map_of (con_subscriptions con) u = Some k'\<close> still left Let_def split: option.split sum.split)
    qed
  qed
qed (simp_all add: removeSubscription_def staged_rewires rewires_refl split: prod.split)

lemma reach_after_reconnect: "host_reach sv w (fst (reconcileActiveClientsAfterReconnect sv c own w))"
  by (simp add: reconcileActiveClientsAfterReconnect_def Let_def reach_reconcile host_reach.Stay)

lemma staged_step:
  assumes "server_step sv w w'"
  shows "staged sv w w'"
  using assms
proof (cases rule: server_step.cases)
  case (FinishReconnect t)
  let ?w1 = "without_reconnect (rct_connection t) w"
  obtain w2 e where r: "reconcileActiveClientsAfterReconnect sv (rct_client t) [own_connection (rct_connection t) w] ?w1 = (w2, e)"
    by fastforce
  then have "host_reach sv ?w1 w2" using reach_after_reconnect [of sv ?w1] by (metis fst_conv)
  moreover have "logging w' = logging w2 \<and> wiring w' = wiring w2"
    unfolding FinishReconnect(1) finishReconnect_def Let_def r
    by (simp add: logging_simps wiring_simps split: option.split)
  moreover have "rewires w ?w1" unfolding without_reconnect_def by (intro rewiring)
  ultimately show ?thesis unfolding staged_def by blast
next
  case (Unsubscribe i channel)
  show ?thesis unfolding Unsubscribe by (rule staged_unsubscribe)
next
  case (Timeout c seen t ts key to)
  have "rewires w (set_client c g w)" if "g = GraceRecord a b d" for g a b d
    using that by (simp add: rewires_grace)
  then show ?thesis
    unfolding Timeout(1) fireTimeout_def
    by (auto intro: staged_rewires rewiring staged_reach [OF rewires_refl] reach_release host_reach.Stay
        split: option.split client_record.split timeout.split)
next
  case (Host op)
  have "host_reach sv w (manager_op (srv_host sv) op w)" using Host(2) by (intro host_reach.intros)
  then show ?thesis using Host(1) staged_reach [OF rewires_refl] by simp
qed (simp_all add: staged_rewires rewires_initialize rewires_reconnect rewires_tasks rewires_close rewires_quiet rewires_refl)

lemma staged_keeps:
  assumes "staged sv w w'"
  shows "ids_ok w \<Longrightarrow> ids_ok w'" "log_ok w \<Longrightarrow> log_ok w'" "grows w w'"
proof -
  obtain w1 w2 where w1: "rewires w w1" and w2: "host_reach sv w1 w2" and l: "logging w' = logging w2" and c: "wiring w' = wiring w2"
    using assms by (auto simp: staged_def)
  have l1: "logging w1 = logging w" using w1 by (simp add: rewires_def)
  show "ids_ok w'" if "ids_ok w"
  proof -
    have "ids_ok w1" using w1 that by (simp add: rewires_def)
    then show ?thesis using ids_frame [OF reach_wiring [OF w2]] ids_frame [OF c] by simp
  qed
  show "log_ok w'" if "log_ok w"
    using that reach_log [OF w2] log_frame [OF l1] log_frame [OF l] by blast
  show "grows w w'"
    using grows_trans [OF _ grows_trans] reach_grows [OF w2] log_frame [OF l1] log_frame [OF l] by blast
qed

lemma ids_start: "ids_ok (new_connections m)"
  by (simp add: ids_ok_def keys_ok_def live_def client_at_def new_connections_def)

lemma log_start: "envelopes m = [] \<Longrightarrow> sm_serverSeq m = 0 \<Longrightarrow> log_ok (new_connections m)"
  by (simp add: log_ok_def new_connections_def numbered_def)

lemma run_ok: "server_run sv w \<Longrightarrow> ids_ok w \<and> log_ok w"
proof (induction rule: server_run.induct)
  case (Step w w')
  then show ?case using staged_keeps [OF staged_step] by blast
qed (simp_all add: ids_start log_start)

section \<open>Closing the last transport\<close>

lemma connection_of_live:
  assumes "ids_ok w" "con \<in> set (live w c)"
  shows "connection_of (con_id con) w = Some (c, con)"
proof -
  let ?all = "concat (map (\<lambda>(c, r). map (Pair c) (record_connections r)) (cx_clients w))"
  have keys: "distinct (map fst (cx_clients w))" using assms(1) by (simp add: ids_ok_def keys_ok_def)
  have all: "(c', con') \<in> set ?all \<longleftrightarrow> con' \<in> set (live w c')" for c' con'
    using keys by (fastforce simp: live_def client_at_def split: option.split dest: map_of_SomeD map_of_eq_Some_iff [THEN iffD2])
  have one: "x = (c, con)" if "x \<in> set ?all" "con_id (snd x) = con_id con" for x
  proof -
    obtain c' con' where x: "x = (c', con')" by (cases x)
    have con': "con' \<in> set (live w c')" using that(1) all x by blast
    have "c' = c"
    proof (rule ccontr)
      assume "c' \<noteq> c"
      then have "con_id ` set (live w c') \<inter> con_id ` set (live w c) = {}" using assms(1) by (simp add: ids_ok_def)
      then show False using con' assms(2) that(2) x by fastforce
    qed
    moreover have "inj_on con_id (set (live w c))" using assms(1) by (simp add: ids_ok_def distinct_map)
    ultimately show ?thesis using con' assms(2) that(2) x by (auto dest: inj_onD)
  qed
  have "(c, con) \<in> set ?all" using all assms(2) by blast
  then have some: "find (\<lambda>(_, con'). con_id con' = con_id con) ?all \<noteq> None"
    unfolding find_None_iff by blast
  then obtain y where y: "find (\<lambda>(_, con'). con_id con' = con_id con) ?all = Some y" by blast
  then have "y \<in> set ?all \<and> con_id (snd y) = con_id con"
    unfolding find_Some_iff by (auto simp only: case_prod_unfold intro: nth_mem)
  then have "y \<in> set ?all" "con_id (snd y) = con_id con" by blast+
  then show ?thesis using one y by (simp add: connection_of_def)
qed

lemma released_frames:
  assumes "release_subscriptions pl c r i subs w = (w', e)"
  shows "cx_tasks w' = cx_tasks w" "client_at w' = client_at w" "cx_now w' = cx_now w" "cx_manager w' = cx_manager w"
proof -
  have "cx_tasks (fst (release_subscriptions pl c r i subs w)) = cx_tasks w
    \<and> client_at (fst (release_subscriptions pl c r i subs w)) = client_at w
    \<and> cx_now (fst (release_subscriptions pl c r i subs w)) = cx_now w
    \<and> cx_manager (fst (release_subscriptions pl c r i subs w)) = cx_manager w"
    by (induction pl c r i subs w rule: release_subscriptions.induct)
      (auto simp: unsubscribe_def client_at_def fun_eq_iff split: option.split)
  then show "cx_tasks w' = cx_tasks w" "client_at w' = client_at w" "cx_now w' = cx_now w" "cx_manager w' = cx_manager w" using assms by simp_all
qed

lemma closed_shape:
  assumes "ids_ok w" "live w c = [con]" and ok: "snd (transportClosed pl (con_id con) w) = None"
  shows "\<exists>w2. fst (transportClosed pl (con_id con) w) = handleClientDisconnected pl c (set_client c (GraceRecord True (cx_now w2) []) w2)
    \<and> cx_tasks w2 = cx_tasks w \<and> cx_now w2 = cx_now w \<and> cx_manager w2 = cx_manager w"
proof -
  have con: "connection_of (con_id con) w = Some (c, con)" using connection_of_live [OF assms(1)] assms(2) by simp
  obtain r where r: "client_at w c = Some r" "record_connections r = [con]"
    using assms(2) by (auto simp: live_def split: option.splits)
  then have r': "r = ActiveRecord [con]" by (cases r) auto
  let ?w1 = "(set_client c (ActiveRecord []) w)\<lparr>cx_closed := con\<lparr>con_subscriptions := []\<rparr> # cx_closed w\<rparr>"
  obtain w2 e where rel: "release_subscriptions pl c (ActiveRecord []) (con_id con) (con_subscriptions con) ?w1 = (w2, e)"
    by fastforce
  have closed: "transportClosed pl (con_id con) w = and_then (w2, e) (\<lambda>w2. (handleClientDisconnected pl c (set_client c (GraceRecord True (cx_now w2) []) w2), None))"
    unfolding transportClosed_def con
    by (simp add: r r' without_connection_def releaseClientSubscriptions_def rel Let_def)
  then have "e = None" using ok by (cases e) simp_all
  then have "fst (transportClosed pl (con_id con) w) = handleClientDisconnected pl c (set_client c (GraceRecord True (cx_now w2) []) w2)"
    by (simp add: closed)
  moreover have "cx_tasks w2 = cx_tasks w \<and> cx_now w2 = cx_now w \<and> cx_manager w2 = cx_manager w"
    using released_frames [OF rel] by (simp add: set_client_def)
  ultimately show ?thesis by blast
qed

section \<open>What a step sends on a channel\<close>

text \<open>The connection is the one its client is served on, with a subscription to the channel.\<close>

definition subscribed :: "connections \<Rightarrow> nat \<Rightarrow> js_string \<Rightarrow> bool" where
  "subscribed w i u \<longleftrightarrow> (\<exists>con. current w con \<and> con_id con = i
     \<and> map_of (con_subscriptions con) u \<in> {Some StateChannel, Some ResourceWatchChannel})"

definition on_channel :: "js_string \<Rightarrow> action_envelope list \<Rightarrow> action_envelope list" where
  "on_channel u es = filter (\<lambda>e. env_channel e = u) es"

lemma on_channel_append [simp]: "on_channel u (xs @ ys) = on_channel u xs @ on_channel u ys"
  by (simp add: on_channel_def)

lemma on_channel_relevant:
  assumes "map_of (con_subscriptions con) u \<in> {Some StateChannel, Some ResourceWatchChannel}"
  shows "on_channel u (filter (isRelevantToClient pl con) es) = on_channel u es"
proof -
  have "isRelevantToClient pl con e" if "env_channel e = u" for e
    using assms that by (simp add: isRelevantToClient_def)
  then show ?thesis by (induction es) (auto simp: on_channel_def)
qed

lemma staged_stream:
  assumes "staged sv w w'" "ids_ok w" "subscribed w' i u"
  shows "on_channel u (sends_to i w') = on_channel u (sends_to i w) @ on_channel u (emitted w w')"
proof -
  obtain w1 w2 where w1: "rewires w w1" and w2: "host_reach sv w1 w2" and l: "logging w' = logging w2" and c: "wiring w' = wiring w2"
    using assms(1) by (auto simp: staged_def)
  have l1: "logging w1 = logging w" using w1 by (simp add: rewires_def)
  obtain con where con: "current w' con" "con_id con = i"
      "map_of (con_subscriptions con) u \<in> {Some StateChannel, Some ResourceWatchChannel}"
    using assms(3) by (auto simp: subscribed_def)
  have ids: "ids_ok w1" using w1 assms(2) by (simp add: rewires_def)
  have cur: "current w1 con" using con(1) current_frame [OF c] current_frame [OF reach_wiring [OF w2]] by simp
  have same: "emitted w w' = emitted w1 w2" using l l1 by (simp add: logging_def emitted_def)
  have "sends_to i w' = sends_to i w @ filter (isRelevantToClient (srv_platform sv) con) (emitted w1 w2)"
    using reach_sends [OF w2 ids cur] sends_frame [OF l] sends_frame [OF l1] con(2) by simp
  then show ?thesis using on_channel_relevant [OF con(3)] same by simp
qed

end
