(* ===== verification/Connection_Properties.thy ===== *)
theory Connection_Properties
  imports Connection_Steps
begin

text \<open>
  What clients get: the stream of a subscription, the reply of a reconnect, and where the two overlap or
  leave a gap; subscriptions and records that are left behind when a transport closes or a handshake fails.
\<close>

section \<open>Frames\<close>

lemma envelope_frames [simp]:
  "cx_tasks (onEnvelope pl e w) = cx_tasks w" "cx_reconnects (onEnvelope pl e w) = cx_reconnects w"
proof -
  have start: "cx_tasks (startClientToolCallDisconnectTimeout c s ch w) = cx_tasks w"
    "cx_reconnects (startClientToolCallDisconnectTimeout c s ch w) = cx_reconnects w" for c s ch w
    by (simp_all add: startClientToolCallDisconnectTimeout_def set_client_def Let_def split: option.split)
  have check: "cx_tasks (checkOrphanedClientToolCalls pl s c w) = cx_tasks w"
    "cx_reconnects (checkOrphanedClientToolCalls pl s c w) = cx_reconnects w" for s c w
    by (simp_all add: checkOrphanedClientToolCalls_def Let_def fold_frame start)
  show "cx_tasks (onEnvelope pl e w) = cx_tasks w" "cx_reconnects (onEnvelope pl e w) = cx_reconnects w"
    by (simp_all add: onEnvelope_def Let_def check broadcast_eq push_replay_def split: sum.split)
qed

lemma op_frames [simp]:
  "cx_tasks (manager_op h op w) = cx_tasks w" "cx_reconnects (manager_op h op w) = cx_reconnects w"
  by (simp_all add: manager_op_def Let_def fold_frame)

lemma op_wired: "live (manager_op h op w) = live w" "keys_ok (manager_op h op w) = keys_ok w"
  using wiring_op [of h op w] by (simp_all add: wiring_def)

text \<open>Within a handler the host sends nothing but envelopes, and only those it emits.\<close>

definition sends_only :: "connections \<Rightarrow> connections \<Rightarrow> bool" where
  "sends_only w w' \<longleftrightarrow> (\<exists>xs. cx_sent w' = cx_sent w @ map (\<lambda>(i, e). (i, ActionMessage e)) xs \<and> snd ` set xs \<subseteq> set (emitted w w'))"

lemma sent_frames [simp]:
  "cx_sent (startClientToolCallDisconnectTimeout c s ch w) = cx_sent w"
  "cx_sent (clearClientToolCallDisconnectTimeout c ch w) = cx_sent w"
  "cx_sent (checkOrphanedClientToolCalls pl s c w) = cx_sent w"
proof -
  show start: "cx_sent (startClientToolCallDisconnectTimeout c s ch w) = cx_sent w" for c s ch w
    by (simp add: startClientToolCallDisconnectTimeout_def set_client_def Let_def split: option.split)
  show "cx_sent (clearClientToolCallDisconnectTimeout c ch w) = cx_sent w"
    by (simp add: clearClientToolCallDisconnectTimeout_def set_client_def split: option.split client_record.split)
  show "cx_sent (checkOrphanedClientToolCalls pl s c w) = cx_sent w"
    by (simp add: checkOrphanedClientToolCalls_def Let_def fold_frame start)
qed

lemma fold_sent:
  "\<exists>xs. cx_sent (fold (onEnvelope pl) es w) = cx_sent w @ map (\<lambda>(i, e). (i, ActionMessage e)) xs \<and> snd ` set xs \<subseteq> set es"
proof (induction es arbitrary: w)
  case (Cons e es)
  let ?ys = "map (\<lambda>i. (i, e)) (receivers pl e (cx_clients w))"
  have one: "cx_sent (onEnvelope pl e w) = cx_sent w @ map (\<lambda>(i, e). (i, ActionMessage e)) ?ys"
    by (simp add: onEnvelope_def Let_def broadcast_eq push_replay_def comp_def split: sum.split)
  obtain xs where "cx_sent (fold (onEnvelope pl) es (onEnvelope pl e w))
      = cx_sent (onEnvelope pl e w) @ map (\<lambda>(i, e). (i, ActionMessage e)) xs" "snd ` set xs \<subseteq> set es"
    using Cons.IH by blast
  then have "cx_sent (fold (onEnvelope pl) (e # es) w) = cx_sent w @ map (\<lambda>(i, e). (i, ActionMessage e)) (?ys @ xs)
      \<and> snd ` set (?ys @ xs) \<subseteq> set (e # es)"
    using one by auto
  then show ?case by blast
qed simp

lemma sends_only_trans:
  assumes "sends_only w w'" "sends_only w' w''" "grows w w'" "grows w' w''"
  shows "sends_only w w''"
proof -
  obtain xs ys where x: "cx_sent w' = cx_sent w @ map (\<lambda>(i, e). (i, ActionMessage e)) xs" "snd ` set xs \<subseteq> set (emitted w w')"
    and y: "cx_sent w'' = cx_sent w' @ map (\<lambda>(i, e). (i, ActionMessage e)) ys" "snd ` set ys \<subseteq> set (emitted w' w'')"
    using assms(1,2) unfolding sends_only_def by blast
  then have "cx_sent w'' = cx_sent w @ map (\<lambda>(i, e). (i, ActionMessage e)) (xs @ ys) \<and> snd ` set (xs @ ys) \<subseteq> set (emitted w w'')"
    using emitted_trans [OF assms(3,4)] by auto
  then show ?thesis unfolding sends_only_def by blast
qed

lemma op_sends_only:
  assumes "has_reason op"
  shows "sends_only w (manager_op h op w)"
proof -
  let ?m = "host_step h op (cx_manager w)"
  have "emitted w (manager_op h op w) = drop (length (envelopes (cx_manager w))) (envelopes ?m)"
    by (simp add: emitted_def op_manager [OF assms])
  then show ?thesis
    using fold_sent [of "host_platform h" "drop (length (envelopes (cx_manager w))) (envelopes ?m)" "w\<lparr>cx_manager := ?m\<rparr>"]
    by (simp add: sends_only_def manager_op_def Let_def)
qed

lemma sends_only_quiet: "cx_sent w' = cx_sent w \<Longrightarrow> sends_only w w'"
  unfolding sends_only_def by (rule exI [of _ "[]"]) simp

lemma reach_sends_only: "host_reach sv w w' \<Longrightarrow> sends_only w w'"
proof (induction rule: host_reach.induct)
  case (Operate w w' op)
  then show ?case using sends_only_trans [OF _ op_sends_only] reach_grows op_grows by blast
next
  case (Clear w w' c ch)
  have "grows w' (clearClientToolCallDisconnectTimeout c ch w')" using log_frame [OF logging_timeout(2)] by blast
  then show ?case using sends_only_trans [OF Clear.IH sends_only_quiet [of _ w']] reach_grows [OF Clear.hyps] by simp
qed (simp add: sends_only_quiet)

lemma reach_frames: "host_reach sv w w' \<Longrightarrow> cx_tasks w' = cx_tasks w \<and> cx_reconnects w' = cx_reconnects w"
  by (induction rule: host_reach.induct)
    (auto simp: clearClientToolCallDisconnectTimeout_def set_client_def split: option.split client_record.split)

section \<open>The stream of a subscription\<close>

text \<open>Runs in which a connection stays subscribed to a channel.\<close>

inductive listens :: "server_config \<Rightarrow> nat \<Rightarrow> js_string \<Rightarrow> connections \<Rightarrow> connections \<Rightarrow> bool" for sv i u where
  Begin: "subscribed w i u \<Longrightarrow> listens sv i u w w"
| Go_on: "listens sv i u w w' \<Longrightarrow> server_step sv w' w'' \<Longrightarrow> subscribed w'' i u \<Longrightarrow> listens sv i u w w''"

lemma listens_run: "listens sv i u w w' \<Longrightarrow> server_run sv w \<Longrightarrow> server_run sv w' \<and> grows w w'"
proof (induction rule: listens.induct)
  case (Go_on w w' w'')
  then have "server_run sv w'" "grows w w'" by blast+
  then show ?case using Go_on.hyps(2) staged_keeps(3) [OF staged_step] grows_trans server_run.Step by blast
qed simp

lemma subscribed_stream_sent:
  assumes "server_run sv w" "listens sv i u w w'"
  shows "on_channel u (sends_to i w') = on_channel u (sends_to i w) @ on_channel u (emitted w w')"
  using assms(2,1)
proof (induction rule: listens.induct)
  case (Begin w)
  then show ?case by (simp add: emitted_def on_channel_def)
next
  case (Go_on w w' w'')
  have run: "server_run sv w'" "grows w w'" using listens_run [OF Go_on.hyps(1) Go_on.prems] by blast+
  have "ids_ok w'" using run_ok [OF run(1)] by blast
  then have "on_channel u (sends_to i w'') = on_channel u (sends_to i w') @ on_channel u (emitted w' w'')"
    using staged_stream [OF staged_step [OF Go_on.hyps(2)]] Go_on.hyps(3) by blast
  then show ?case
    using Go_on.IH Go_on.prems emitted_trans [OF run(2) staged_keeps(3) [OF staged_step [OF Go_on.hyps(2)]]] by simp
qed

text \<open>
  C7. A subscription streams everything: from any state of any run, as long as a connection stays the one
  its client is served on and keeps its subscription to a channel, the actions sent to it on that
  channel are exactly the envelopes the host emits there, each once and in their order, whatever other
  clients connect, leave or reconnect, and whatever timeouts fire, in between.
\<close>

theorem subscribed_stream_complete:
  assumes "server_run sv w" "listens sv i u w w'"
  shows "on_channel u (sends_to i w') = on_channel u (sends_to i w) @ on_channel u (emitted w w')"
  using assms by (rule subscribed_stream_sent)

section \<open>The reply of a reconnect\<close>

lemma run_log:
  assumes "server_run sv w"
  shows "map env_serverSeq (envelopes (cx_manager w)) = [1..<Suc (sm_serverSeq (cx_manager w))]"
    "length (envelopes (cx_manager w)) = sm_serverSeq (cx_manager w)"
    "cx_replay w = drop (length (envelopes (cx_manager w)) - REPLAY_BUFFER_CAPACITY) (envelopes (cx_manager w))"
proof -
  show 1: "map env_serverSeq (envelopes (cx_manager w)) = [1..<Suc (sm_serverSeq (cx_manager w))]"
    using run_ok [OF assms] by (simp add: log_ok_def numbered_def)
  then have "length (map env_serverSeq (envelopes (cx_manager w))) = sm_serverSeq (cx_manager w)" by (simp only: length_upt diff_Suc_1)
  then show "length (envelopes (cx_manager w)) = sm_serverSeq (cx_manager w)" by simp
  show "cx_replay w = drop (length (envelopes (cx_manager w)) - REPLAY_BUFFER_CAPACITY) (envelopes (cx_manager w))"
    using run_ok [OF assms] by (simp add: log_ok_def)
qed

lemma seq_nth: "map f L = [1..<Suc n] \<Longrightarrow> i < length L \<Longrightarrow> f (L ! i) = Suc i"
proof -
  assume L: "map f L = [1..<Suc n]" and i: "i < length L"
  have "length (map f L) = n" unfolding L by (simp only: length_upt diff_Suc_1)
  then have "i < n" using i by simp
  moreover have "f (L ! i) = map f L ! i" using i by simp
  ultimately show "f (L ! i) = Suc i" unfolding L by (simp del: upt_Suc)
qed

lemma numbered_drop:
  assumes "map f L = [1..<Suc n]"
  shows "drop k L = filter (\<lambda>e. k < f e) L"
proof -
  have seq: "f (L ! i) = Suc i" if "i < length L" for i using assms that by (rule seq_nth)
  have "filter (\<lambda>e. k < f e) (take k L) = []"
    using seq by (auto simp: filter_empty_conv in_set_conv_nth)
  moreover have "filter (\<lambda>e. k < f e) (drop k L) = drop k L"
    using seq by (auto simp: filter_id_conv in_set_conv_nth)
  moreover have "filter (\<lambda>e. k < f e) L = filter (\<lambda>e. k < f e) (take k L @ drop k L)" by simp
  ultimately show ?thesis by (simp only: filter_append append_Nil)
qed

lemma oldest_first:
  assumes "server_run sv w" "0 < sm_serverSeq (cx_manager w)"
  shows "oldestBuffered w = Suc (sm_serverSeq (cx_manager w) - REPLAY_BUFFER_CAPACITY)"
proof -
  let ?L = "envelopes (cx_manager w)" and ?n = "sm_serverSeq (cx_manager w)"
  note log = run_log [OF assms(1)]
  have less: "?n - REPLAY_BUFFER_CAPACITY < length ?L" using log(2) assms(2) by (simp add: REPLAY_BUFFER_CAPACITY_def)
  then have "cx_replay w = ?L ! (?n - REPLAY_BUFFER_CAPACITY) # drop (Suc (?n - REPLAY_BUFFER_CAPACITY)) ?L"
    using log(2,3) by (simp add: Cons_nth_drop_Suc)
  then show ?thesis using seq_nth [OF log(1) less] by (simp add: oldestBuffered_def)
qed

text \<open>
  C8. What a reconnecting client is sent for the time it was away: the envelopes it would have been sent
  then, but only those after its last one that are among the newest 1000 of the log. That is all it missed
  whenever the server took the replay path on the log of that moment, and it is all it missed until the log has grown 1000
  envelopes past the last one the client saw; from then on the envelope that follows that one is gone.
\<close>

theorem reconnect_replay_complete:
  assumes "server_run sv w"
  shows "replay_actions pl con lastSeen w
      = filter (\<lambda>e. env_serverSeq e > max lastSeen (sm_serverSeq (cx_manager w) - REPLAY_BUFFER_CAPACITY) \<and> isRelevantToClient pl con e)
          (envelopes (cx_manager w))
    \<and> (lastSeen \<ge> oldestBuffered w \<or> sm_serverSeq (cx_manager w) \<le> lastSeen + REPLAY_BUFFER_CAPACITY \<longrightarrow>
        replay_actions pl con lastSeen w
          = filter (\<lambda>e. env_serverSeq e > lastSeen \<and> isRelevantToClient pl con e) (envelopes (cx_manager w)))
    \<and> (sm_serverSeq (cx_manager w) > lastSeen + REPLAY_BUFFER_CAPACITY \<longrightarrow>
        envelopes (cx_manager w) ! lastSeen \<notin> set (replay_actions pl con lastSeen w))"
proof (intro conjI impI)
  let ?L = "envelopes (cx_manager w)" and ?n = "sm_serverSeq (cx_manager w)"
  note log = run_log [OF assms]
  have buffer: "cx_replay w = filter (\<lambda>e. ?n - REPLAY_BUFFER_CAPACITY < env_serverSeq e) ?L"
    using log(2,3) numbered_drop [OF log(1), of "?n - REPLAY_BUFFER_CAPACITY"] by simp
  then show all: "replay_actions pl con lastSeen w
      = filter (\<lambda>e. env_serverSeq e > max lastSeen (?n - REPLAY_BUFFER_CAPACITY) \<and> isRelevantToClient pl con e) ?L"
    by (simp add: replay_actions_def conj_ac)
  show "replay_actions pl con lastSeen w = filter (\<lambda>e. env_serverSeq e > lastSeen \<and> isRelevantToClient pl con e) ?L"
    if le: "lastSeen \<ge> oldestBuffered w \<or> ?n \<le> lastSeen + REPLAY_BUFFER_CAPACITY"
  proof -
    have "?n - REPLAY_BUFFER_CAPACITY \<le> lastSeen"
      using le oldest_first [OF assms] by (cases "?n = 0") auto
    then show ?thesis using all by (simp add: max_absorb1)
  qed
  show "?L ! lastSeen \<notin> set (replay_actions pl con lastSeen w)" if "?n > lastSeen + REPLAY_BUFFER_CAPACITY"
    using seq_nth [OF log(1), of lastSeen] log(2) that by (auto simp: all)
qed

section \<open>Where the reply of a reconnect overlaps the stream\<close>

lemma current_own:
  assumes "ids_ok w" "current w con"
  shows "own_connection (con_id con) w = con"
proof -
  obtain c where "live w c \<noteq> []" "con = List.last (live w c)" using assms(2) by (auto simp: current_def)
  then have "con \<in> set (live w c)" by simp
  then show ?thesis using connection_of_live [OF assms(1)] by (simp add: own_connection_def)
qed

lemma emitted_newer:
  assumes "server_run sv w" "server_run sv w'" "grows w w'" "e \<in> set (emitted w w')"
  shows "sm_serverSeq (cx_manager w) < env_serverSeq e" "e \<in> set (envelopes (cx_manager w'))"
proof -
  have "emitted w w' = filter (\<lambda>e. sm_serverSeq (cx_manager w) < env_serverSeq e) (envelopes (cx_manager w'))"
    unfolding emitted_def run_log(2) [OF assms(1)] by (rule numbered_drop [OF run_log(1) [OF assms(2)]])
  then show "sm_serverSeq (cx_manager w) < env_serverSeq e" "e \<in> set (envelopes (cx_manager w'))" using assms(4) by auto
qed

lemma finish_sends:
  assumes "snd (reconcileActiveClientsAfterReconnect sv (rct_client t) [own_connection (rct_connection t) w]
      (without_reconnect (rct_connection t) w)) = None"
  obtains w' where "host_reach sv (without_reconnect (rct_connection t) w) w'"
    "finishReconnect sv t w = transport_send (rct_connection t)
       (if rct_canReplay t then ReplayReply (replay_actions (srv_platform sv) (own_connection (rct_connection t) w) (rct_lastSeen t) w')
          (rct_missing t)
        else SnapshotReply (List.map_filter (\<lambda>u. map_option (Pair u) (map_of (rct_snapshots t) u)) (rct_subscriptions t))) w'"
proof -
  obtain w' where r: "reconcileActiveClientsAfterReconnect sv (rct_client t) [own_connection (rct_connection t) w]
      (without_reconnect (rct_connection t) w) = (w', None)"
    using assms by (cases "reconcileActiveClientsAfterReconnect sv (rct_client t) [own_connection (rct_connection t) w]
      (without_reconnect (rct_connection t) w)") auto
  have "host_reach sv (without_reconnect (rct_connection t) w) w'"
    using reach_after_reconnect [of sv "without_reconnect (rct_connection t) w" "rct_client t" "[own_connection (rct_connection t) w]"] r
    by simp
  then show ?thesis using that r by (simp add: finishReconnect_def Let_def)
qed

lemma sends_mono: "sends_only w w' \<Longrightarrow> set (sends_to i w) \<subseteq> set (sends_to i w')"
  by (auto simp: sends_only_def sends_to_def action_sends_def map_filter_append)

lemma sends_reply [simp]:
  "sends_to i (transport_send j (if b then ReplayReply es ms else SnapshotReply ss) w) = sends_to i w"
  "sends_to i (transport_send j (SubscribeReply u k) w) = sends_to i w"
  by (simp_all add: sends_to_def transport_send_def action_sends_def map_filter_append List.map_filter_simps action_of_def)

text \<open>
  C9. Between the moment a reconnecting client has one of its subscriptions back and the moment the last
  of them is restored and the reply leaves, the stream is already running. An envelope emitted there is
  sent to the client as it happens, and it comes again with the reply: a replay contains it a second
  time, and a snapshot of the channel is older than it, so that the client, which applies whatever
  arrives, applies the action twice or goes back to a state without it.
\<close>

theorem reconnect_reply_overlaps_stream:
  assumes run: "server_run sv w" and op: "has_reason op" and task: "t \<in> set (cx_reconnects w)"
    and ready: "\<forall>k \<in> set (cx_tasks w). tsk_reconnect k \<longrightarrow> tsk_connection k \<noteq> rct_connection t"
    and restored: "subscribed w (rct_connection t) u"
    and seen: "rct_lastSeen t \<le> sm_serverSeq (cx_manager w)"
    and taken: "u \<in> set (rct_subscriptions t)" "map_of (rct_snapshots t) u = Some k" "k \<le> sm_serverSeq (cx_manager w)"
    and w1: "w1 = manager_op (srv_host sv) op w" and e: "e \<in> set (emitted w w1)" "env_channel e = u"
    and quiet: "snd (reconcileActiveClientsAfterReconnect sv (rct_client t) [own_connection (rct_connection t) w1]
      (without_reconnect (rct_connection t) w1)) = None"
    and w2: "w2 = finishReconnect sv t w1" and recent: "sm_serverSeq (cx_manager w2) < env_serverSeq e + REPLAY_BUFFER_CAPACITY"
  shows "server_run sv w2 \<and> e \<in> set (sends_to (rct_connection t) w2)
    \<and> (if rct_canReplay t then \<exists>es ms. List.last (cx_sent w2) = (rct_connection t, ReplayReply es ms) \<and> e \<in> set es
       else \<exists>ss. List.last (cx_sent w2) = (rct_connection t, SnapshotReply ss) \<and> map_of ss u = Some k \<and> k < env_serverSeq e)"
proof -
  let ?i = "rct_connection t"
  have step1: "server_step sv w w1" unfolding w1 using op by (rule server_step.Host)
  have run1: "server_run sv w1" using run step1 by (rule server_run.Step)
  have "t \<in> set (cx_reconnects w1)" "\<forall>k \<in> set (cx_tasks w1). tsk_reconnect k \<longrightarrow> tsk_connection k \<noteq> ?i"
    using task ready by (simp_all add: w1)
  then have step2: "server_step sv w1 w2" unfolding w2 by (rule server_step.FinishReconnect)
  have run2: "server_run sv w2" using run1 step2 by (rule server_run.Step)
  note g1 = staged_keeps(3) [OF staged_step [OF step1]] and g2 = staged_keeps(3) [OF staged_step [OF step2]]
  have newer: "sm_serverSeq (cx_manager w) < env_serverSeq e" and logged: "e \<in> set (envelopes (cx_manager w1))"
    using emitted_newer [OF run run1 g1 e(1)] by blast+
  have ids: "ids_ok w" "ids_ok w1" using run_ok run run1 by blast+
  obtain con where con: "current w con" "con_id con = ?i"
      "map_of (con_subscriptions con) u \<in> {Some StateChannel, Some ResourceWatchChannel}"
    using restored by (auto simp: subscribed_def)
  have "current w1 con" using con(1) current_frame [OF wiring_op] by (simp add: w1)
  then have own: "own_connection ?i w1 = con" using current_own [OF ids(2), of con] con(2) by simp
  have relevant: "isRelevantToClient pl con e" for pl using con(3) e(2) by (simp add: isRelevantToClient_def)
  have "sends_to ?i w1 = sends_to ?i w @ filter (isRelevantToClient (srv_platform sv) con) (emitted w w1)"
    using op_sends [OF op ids(1) con(1)] con(2) by (simp add: w1 srv_platform_def)
  then have sent: "e \<in> set (sends_to ?i w1)" using e(1) relevant by simp
  obtain w' where reach: "host_reach sv (without_reconnect ?i w1) w'"
    and finish: "w2 = transport_send ?i
       (if rct_canReplay t then ReplayReply (replay_actions (srv_platform sv) con (rct_lastSeen t) w') (rct_missing t)
        else SnapshotReply (List.map_filter (\<lambda>u. map_option (Pair u) (map_of (rct_snapshots t) u)) (rct_subscriptions t))) w'"
    using finish_sends [OF quiet] unfolding own w2 by metis
  have "sends_to ?i (without_reconnect ?i w1) = sends_to ?i w1"
    by (simp add: sends_to_def action_sends_def without_reconnect_def)
  then have "e \<in> set (sends_to ?i w2)" using sent sends_mono [OF reach_sends_only [OF reach], of ?i] unfolding finish by auto
  moreover have "\<exists>es ms. List.last (cx_sent w2) = (?i, ReplayReply es ms) \<and> e \<in> set es" if "rct_canReplay t"
  proof -
    have same: "cx_manager w' = cx_manager w2" "cx_replay w' = cx_replay w2" by (simp_all add: finish transport_send_def)
    have "e \<in> set (envelopes (cx_manager w2))" using logged g2 unfolding grows_def by (auto simp: prefix_def)
    moreover have "cx_replay w2 = filter (\<lambda>e. sm_serverSeq (cx_manager w2) - REPLAY_BUFFER_CAPACITY < env_serverSeq e) (envelopes (cx_manager w2))"
      using run_log(2,3) [OF run2] numbered_drop [OF run_log(1) [OF run2], of "sm_serverSeq (cx_manager w2) - REPLAY_BUFFER_CAPACITY"]
      by simp
    moreover have "sm_serverSeq (cx_manager w2) - REPLAY_BUFFER_CAPACITY < env_serverSeq e"
      using recent newer by simp
    ultimately have "e \<in> set (cx_replay w2)" by simp
    then have "e \<in> set (replay_actions (srv_platform sv) con (rct_lastSeen t) w')"
      using seen newer relevant by (simp add: replay_actions_def same)
    then show ?thesis using that by (simp add: finish transport_send_def)
  qed
  moreover have "\<exists>ss. List.last (cx_sent w2) = (?i, SnapshotReply ss) \<and> map_of ss u = Some k \<and> k < env_serverSeq e"
    if "\<not> rct_canReplay t"
  proof -
    have "u \<in> set us \<Longrightarrow> map_of (List.map_filter (\<lambda>u. map_option (Pair u) (f u)) us) u = f u" for f :: "js_string \<Rightarrow> nat option" and us
      by (induction us) (auto simp: List.map_filter_simps map_of_eq_None_iff split: option.split dest!: map_filter_member)
    from this [OF taken(1)] show ?thesis using that taken newer by (simp add: finish transport_send_def)
  qed
  ultimately show ?thesis using run2 by simp
qed

section \<open>The gap between a snapshot and its subscription\<close>

text \<open>Everything sent as an action was emitted.\<close>

definition sent_ok :: "connections \<Rightarrow> bool" where
  "sent_ok w \<longleftrightarrow> (\<forall>i. set (sends_to i w) \<subseteq> set (envelopes (cx_manager w)))"

lemma sent_ok_run: "server_run sv w \<Longrightarrow> sent_ok w"
proof (induction rule: server_run.induct)
  case (Start m)
  then show ?case by (simp add: sent_ok_def sends_to_def action_sends_def new_connections_def List.map_filter_simps)
next
  case (Step w w')
  obtain w1 w2 where w1: "rewires w w1" and w2: "host_reach sv w1 w2" and l: "logging w' = logging w2"
    using staged_step [OF Step.hyps(2)] by (auto simp: staged_def)
  have l1: "logging w1 = logging w" using w1 by (simp add: rewires_def)
  obtain xs where "cx_sent w2 = cx_sent w1 @ map (\<lambda>(i, e). (i, ActionMessage e)) xs" and new: "snd ` set xs \<subseteq> set (emitted w1 w2)"
    using reach_sends_only [OF w2] by (auto simp: sends_only_def)
  moreover have "List.map_filter action_of (map (\<lambda>(i, e). (i, ActionMessage e)) xs) = xs"
    by (induction xs) (auto simp: List.map_filter_simps action_of_def)
  ultimately have "action_sends w2 = action_sends w1 @ xs" by (simp add: action_sends_def map_filter_append)
  then have "set (sends_to i w') \<subseteq> set (sends_to i w) \<union> set (emitted w1 w2)" for i
    using new l l1 by (fastforce simp: sends_to_def logging_def)
  moreover have "set (emitted w1 w2) \<subseteq> set (envelopes (cx_manager w'))"
    using l by (auto simp: emitted_def logging_def dest: in_set_dropD)
  moreover have "set (envelopes (cx_manager w)) \<subseteq> set (envelopes (cx_manager w'))"
    using staged_keeps(3) [OF staged_step [OF Step.hyps(2)]] by (auto simp: grows_def prefix_def)
  ultimately show ?case using Step.IH unfolding sent_ok_def by blast
qed

lemma sends_install [simp]: "sends_to i (install j u k w) = sends_to i w"
  using logging_change by (intro sends_frame) (simp add: install_def)

text \<open>
  C10. A subscription can start with a hole. The snapshot is taken when \<open>AgentService.subscribe\<close> returns,
  but the connection has the subscription only when the handler goes on after its \<open>await\<close>. An envelope
  of the channel emitted in between is in neither: the snapshot is of an earlier state, the envelope was
  not sent, and however long the client listens from then on it is never sent.
\<close>

theorem subscribe_snapshot_gap:
  assumes run: "server_run sv w" and n: "n < length (cx_tasks w)" and t: "t = cx_tasks w ! n"
    and plain: "tsk_registered t" "\<not> tsk_reconnect t"
    and con: "current w con" "con_id con = tsk_connection t"
    and op: "has_reason op" and w1: "w1 = manager_op (srv_host sv) op (snapshotTask n w)"
    and e: "e \<in> set (emitted w w1)" "\<not> isRelevantToClient (srv_platform sv) con e"
    and w2: "w2 = answerTask n w1"
  shows "server_run sv w2
    \<and> List.last (cx_sent w2) = (tsk_connection t, SubscribeReply (tsk_channel t) (sm_serverSeq (cx_manager w)))
    \<and> sm_serverSeq (cx_manager w) < env_serverSeq e \<and> e \<in> set (envelopes (cx_manager w2))
    \<and> (\<forall>u w3. listens sv (tsk_connection t) u w2 w3 \<longrightarrow> e \<notin> set (on_channel u (sends_to (tsk_connection t) w3)))"
proof -
  let ?i = "tsk_connection t" and ?w0 = "snapshotTask n w"
  have step0: "server_step sv w ?w0" using n plain(1) t by (intro server_step.Snapshot) auto
  have run0: "server_run sv ?w0" using run step0 by (rule server_run.Step)
  have step1: "server_step sv ?w0 w1" unfolding w1 using op by (rule server_step.Host)
  have run1: "server_run sv w1" using run0 step1 by (rule server_run.Step)
  have task: "cx_tasks w1 ! n = t\<lparr>tsk_snapshot := Some (sm_serverSeq (cx_manager w))\<rparr>" "n < length (cx_tasks w1)"
    using n by (simp_all add: w1 snapshotTask_def t)
  then have step2: "server_step sv w1 w2" unfolding w2 by (intro server_step.Answer) simp_all
  have run2: "server_run sv w2" using run1 step2 by (rule server_run.Step)
  have kept: "cx_manager ?w0 = cx_manager w" "sends_to ?i ?w0 = sends_to ?i w" "wiring ?w0 = wiring w"
    by (simp_all add: snapshotTask_def sends_to_def action_sends_def wiring_simps)
  have same: "emitted w w1 = emitted ?w0 w1" by (simp add: emitted_def kept)
  have g: "grows w w1"
    using staged_keeps(3) [OF staged_step [OF step0]] staged_keeps(3) [OF staged_step [OF step1]] by (rule grows_trans)
  have newer: "sm_serverSeq (cx_manager w) < env_serverSeq e" and logged: "e \<in> set (envelopes (cx_manager w1))"
    using emitted_newer [OF run run1 g e(1)] by blast+
  have answer: "cx_manager w2 = cx_manager w1" "sends_to ?i w2 = sends_to ?i w1"
    "List.last (cx_sent w2) = (?i, SubscribeReply (tsk_channel t) (sm_serverSeq (cx_manager w)))"
  proof -
    have "logging w2 = logging w1"
      unfolding w2 using rewires_tasks(4) [of w1 n] by (simp add: rewires_def)
    then show "cx_manager w2 = cx_manager w1" "sends_to ?i w2 = sends_to ?i w1"
      by (simp_all add: logging_def sends_to_def)
    show "List.last (cx_sent w2) = (?i, SubscribeReply (tsk_channel t) (sm_serverSeq (cx_manager w)))"
      using plain(2) by (simp add: w2 answerTask_def task Let_def transport_send_def)
  qed
  have ids: "ids_ok ?w0" and cur: "current ?w0 con"
    using run_ok [OF run0] con(1) current_frame [OF kept(3)] by auto
  have "sends_to ?i w1 = sends_to ?i w @ filter (isRelevantToClient (srv_platform sv) con) (emitted w w1)"
    using op_sends [OF op ids cur] con(2) kept(2) unfolding same by (simp add: w1 srv_platform_def)
  moreover have "e \<notin> set (sends_to ?i w)"
  proof
    assume "e \<in> set (sends_to ?i w)"
    then have "env_serverSeq e \<in> set (map env_serverSeq (envelopes (cx_manager w)))"
      using sent_ok_run [OF run] by (auto simp: sent_ok_def)
    then show False unfolding run_log(1) [OF run] using newer by simp
  qed
  ultimately have unsent: "e \<notin> set (sends_to ?i w2)" using e(2) answer(2) by simp
  have "e \<notin> set (on_channel u (sends_to ?i w3))" if l: "listens sv ?i u w2 w3" for u w3
  proof
    assume "e \<in> set (on_channel u (sends_to ?i w3))"
    then have "e \<in> set (on_channel u (sends_to ?i w2)) \<union> set (on_channel u (emitted w2 w3))"
      unfolding subscribed_stream_sent [OF run2 l] by simp
    then have "e \<in> set (emitted w2 w3)" using unsent unfolding on_channel_def set_filter by blast
    then have "sm_serverSeq (cx_manager w2) < env_serverSeq e"
      using emitted_newer(1) [OF run2] listens_run [OF l run2] by blast
    moreover have "env_serverSeq e \<in> set (map env_serverSeq (envelopes (cx_manager w2)))"
      using logged by (simp add: answer(1))
    ultimately show False unfolding run_log(1) [OF run2] by simp
  qed
  then show ?thesis using run2 answer newer logged by simp
qed

section \<open>A subscription nobody holds\<close>

lemma armed_frames:
  "cx_tasks (handleClientDisconnected pl c w) = cx_tasks w"
proof -
  have start: "cx_tasks (startClientToolCallDisconnectTimeout c s ch w) = cx_tasks w" for c s ch w
    by (simp add: startClientToolCallDisconnectTimeout_def set_client_def Let_def split: option.split)
  have "cx_tasks (arm_session pl c s w) = cx_tasks w" for s w
    by (simp add: arm_session_def fold_frame start split: option.split)
  then show ?thesis
    by (simp add: handleClientDisconnected_def Let_def fold_frame set_client_def split: option.split client_record.split)
qed

lemma disconnected_live:
  assumes "live w c = []"
  shows "live (handleClientDisconnected pl c w) = live w"
proof -
  have arm: "wiring (arm_session pl c s w) = wiring w" for s w
    by (simp add: arm_session_def fold_frame wiring_simps split: option.split)
  have "wiring (handleClientDisconnected pl c w) = wiring w"
    using assms
    by (simp add: handleClientDisconnected_def Let_def fold_frame arm wiring_grace split: option.split client_record.split)
  then show ?thesis by (simp add: wiring_def)
qed

lemma closed_last:
  assumes "ids_ok w" "live w c = [con]" and ok: "snd (transportClosed pl (con_id con) w) = None"
  shows "live (fst (transportClosed pl (con_id con) w)) c = []" "cx_tasks (fst (transportClosed pl (con_id con) w)) = cx_tasks w"
proof -
  obtain w2 where w': "fst (transportClosed pl (con_id con) w) = handleClientDisconnected pl c (set_client c (GraceRecord True (cx_now w2) []) w2)"
    and tasks: "cx_tasks w2 = cx_tasks w"
    using closed_shape [OF assms] by blast
  let ?w3 = "set_client c (GraceRecord True (cx_now w2) []) w2"
  have gone: "live ?w3 c = []" by simp
  then show "live (fst (transportClosed pl (con_id con) w)) c = []" unfolding w' disconnected_live [OF gone] .
  have "cx_tasks ?w3 = cx_tasks w2" by (simp add: set_client_def)
  then show "cx_tasks (fst (transportClosed pl (con_id con) w)) = cx_tasks w" using tasks unfolding w' armed_frames by simp
qed

text \<open>
  C15. A subscription can be left behind. When the last transport of a client closes while a subscribe of
  it is in flight, closing releases only what the connection has by then; the call goes on, registers
  the client as a subscriber of the resource and completes, and no connection holds that subscription,
  so nothing will release it.
\<close>

theorem closed_subscribe_leaks:
  assumes run: "server_run sv w" and n: "n < length (cx_tasks w)" and t: "t = cx_tasks w ! n" and plain: "\<not> tsk_reconnect t"
    and last_one: "live w (tsk_client t) = [con]" "con_id con = tsk_connection t"
    and key: "resource_key (srv_platform sv) (tsk_channel t) = Some key"
    and ok: "snd (transportClosed (srv_platform sv) (tsk_connection t) w) = None"
    and w1: "w1 = fst (transportClosed (srv_platform sv) (tsk_connection t) w)"
    and w2: "w2 = answerTask n (snapshotTask n (registerTask (srv_platform sv) n w1))"
  shows "server_run sv w2 \<and> (key, tsk_client t) \<in> set (cx_subscribers w2) \<and> live w2 (tsk_client t) = []
    \<and> cx_tasks w2 = remove_at n (cx_tasks w)"
proof -
  let ?pl = "srv_platform sv" and ?c = "tsk_client t"
  have ids: "ids_ok w" using run_ok [OF run] by blast
  have gone: "live w1 ?c = []" and tasks: "cx_tasks w1 = cx_tasks w"
    using closed_last [OF ids last_one(1)] ok last_one(2) by (simp_all add: w1)
  have run1: "server_run sv w1" unfolding w1 using run server_step.Close by (rule server_run.Step)
  let ?r = "registerTask ?pl n w1" and ?s = "snapshotTask n (registerTask ?pl n w1)"
  have "server_run sv ?r" using run1 server_step.Register by (rule server_run.Step) (use n tasks in simp)
  moreover have registered: "cx_tasks ?r = (cx_tasks w)[n := t\<lparr>tsk_registered := True\<rparr>]" "(key, ?c) \<in> set (cx_subscribers ?r)"
    using key t by (simp_all add: registerTask_def tasks Let_def addSubscriber_def set_add_def)
  ultimately have "server_run sv ?s"
    using server_run.Step server_step.Snapshot [of n ?r sv] n by simp
  moreover have snapped: "cx_tasks ?s = (cx_tasks w)[n := t\<lparr>tsk_registered := True, tsk_snapshot := Some (sm_serverSeq (cx_manager ?r))\<rparr>]"
    using n by (simp add: snapshotTask_def registered)
  ultimately have "server_run sv w2"
    unfolding w2 using server_run.Step server_step.Answer [of n ?s sv] n by simp
  have subs: "cx_subscribers (answerTask n x) = cx_subscribers x" for x
    by (simp add: answerTask_def Let_def install_def change_connection_def change_reconnect_def transport_send_def
        clearClientToolCallDisconnectTimeout_def set_client_def split: option.split client_record.split)
  have left: "cx_tasks (answerTask n x) = remove_at n (cx_tasks x)" for x
    by (simp add: answerTask_def Let_def install_def change_connection_def change_reconnect_def transport_send_def
        clearClientToolCallDisconnectTimeout_def set_client_def split: option.split client_record.split)
  have "live w2 ?c = []"
  proof -
    have "live ?s = live w1"
      by (simp add: snapshotTask_def registerTask_def Let_def addSubscriber_def live_def client_at_def fun_eq_iff split: option.split)
    moreover have "live (answerTask n x) ?c = [] \<longleftrightarrow> live x ?c = []" for x
    proof -
      have quiet: "live x' = live x''" if "wiring x' = wiring x''" for x' x'' using that by (simp add: wiring_def)
      have send: "live (transport_send i msg x) = live x" "live (change_reconnect i f x) = live x"
        "live (clearClientToolCallDisconnectTimeout c ch x) = live x" "live (x\<lparr>cx_tasks := ks\<rparr>) = live x" for i msg f x ks c ch
        by (rule quiet, simp only: wiring_simps)+
      show ?thesis by (simp add: answerTask_def Let_def send install_def live_change)
    qed
    ultimately show ?thesis using gone by (simp add: w2)
  qed
  moreover have "cx_subscribers ?s = cx_subscribers ?r" by (simp add: snapshotTask_def)
  moreover have "remove_at n (cx_tasks ?s) = remove_at n (cx_tasks w)" using n by (simp add: snapped remove_at_def)
  ultimately show ?thesis using \<open>server_run sv w2\<close> registered(2) by (simp add: w2 subs left)
qed

section \<open>Witnesses\<close>

definition sample_protocol :: server_config where
  "sample_protocol = \<lparr>srv_host = sample_host, srv_otlp = False, srv_watch = (\<lambda>_. False)\<rparr>"

lemma sample_channel: "classifyChannel ascii_platform ROOT_STATE_URI = Some (ROOT_STATE_URI, StateChannel)"
  by code_simp

lemma sample_key: "resource_key ascii_platform ROOT_STATE_URI = Some ''ahp-root:''"
  by code_simp

lemma sample_platform [simp]: "srv_platform sample_protocol = ascii_platform" "srv_host sample_protocol = sample_host"
  by (simp_all add: srv_platform_def sample_protocol_def sample_host_def)

definition sample_begin :: connections where
  "sample_begin = new_connections (new_state_manager sample_config None None)"

definition sample_subscribed :: connections where
  "sample_subscribed = fst (handleInitialize sample_protocol ''c'' [ROOT_STATE_URI] sample_begin)"

lemma sample_server_run: "server_run sample_protocol sample_begin" "server_run sample_protocol sample_subscribed"
proof -
  show "server_run sample_protocol sample_begin"
    unfolding sample_begin_def by (rule server_run.Start) (rule sample_new)+
  then show "server_run sample_protocol sample_subscribed"
    unfolding sample_subscribed_def using server_step.Initialize by (rule server_run.Step)
qed

lemma sample_subscribed_eq:
  "cx_clients sample_subscribed = [(''c'', ActiveRecord [\<lparr>con_id = 0, con_subscriptions = [(ROOT_STATE_URI, StateChannel)]\<rparr>])]"
  "cx_manager sample_subscribed = new_state_manager sample_config None None" "cx_now sample_subscribed = 0"
  "cx_replay sample_subscribed = []" "action_sends sample_subscribed = []"
  by (simp_all add: sample_subscribed_def sample_begin_def handleInitialize_def Let_def new_connection_def attachConnection_def
      pruneClientRecords_def set_client_def client_at_def new_connections_def addInitialSubscription_def sample_channel sample_key
      install_def change_connection_def addSubscriber_def clearClientToolCallDisconnectTimeout_def transport_send_def action_sends_def
      action_of_def List.map_filter_simps)

lemma sample_emits:
  assumes "cx_manager w = new_state_manager sample_config None None"
  shows "emitted w (manager_op sample_host (sample_root_op 1) w)
     = [\<lparr>env_channel = ROOT_STATE_URI, env_action = RootAct (RootActiveSessionsChanged 1), env_serverSeq = 1, env_origin = None,
         env_rejectionReason = None\<rparr>]"
proof -
  have "has_reason (sample_root_op 1)" by (simp add: sample_root_op_def)
  then show ?thesis
    by (simp add: emitted_def op_manager assms sample_root_step envelopes_emit_envelope sample_new)
qed

lemma subscribed_stream_complete_witness:
  "map env_serverSeq (on_channel ROOT_STATE_URI (sends_to 0 (manager_op sample_host (sample_root_op 1) sample_subscribed))) = [1]"
proof -
  let ?con = "\<lparr>con_id = 0, con_subscriptions = [(ROOT_STATE_URI, StateChannel)]\<rparr>"
  let ?w = "manager_op sample_host (sample_root_op 1) sample_subscribed"
  have live: "live sample_subscribed ''c'' = [?con]" by (simp add: live_def client_at_def sample_subscribed_eq)
  have sub: "subscribed w 0 ROOT_STATE_URI" if "live w = live sample_subscribed" for w
    using live that by (auto simp: subscribed_def current_def intro!: exI [of _ ?con] exI [of _ "''c''"])
  have "server_step sample_protocol sample_subscribed (manager_op (srv_host sample_protocol) (sample_root_op 1) sample_subscribed)"
    by (rule server_step.Host) (simp add: sample_root_op_def)
  then have "listens sample_protocol 0 ROOT_STATE_URI sample_subscribed ?w"
    using listens.intros(2) [OF listens.intros(1)] sub op_wired(1) by simp
  from subscribed_stream_complete [OF sample_server_run(2) this]
  show ?thesis using sample_emits [OF sample_subscribed_eq(2)]
    by (simp add: sends_to_def sample_subscribed_eq on_channel_def)
qed

lemma reconnect_replay_complete_witness:
  "replay_actions ascii_platform \<lparr>con_id = 0, con_subscriptions = [(ROOT_STATE_URI, StateChannel)]\<rparr> 0
     (manager_op sample_host (sample_root_op 1) sample_subscribed)
   = [\<lparr>env_channel = ROOT_STATE_URI, env_action = RootAct (RootActiveSessionsChanged 1), env_serverSeq = 1, env_origin = None,
       env_rejectionReason = None\<rparr>]"
proof -
  let ?w = "manager_op sample_host (sample_root_op 1) sample_subscribed"
  have op: "has_reason (sample_root_op 1)" by (simp add: sample_root_op_def)
  have "server_step sample_protocol sample_subscribed (manager_op (srv_host sample_protocol) (sample_root_op 1) sample_subscribed)"
    using op by (rule server_step.Host)
  then have run: "server_run sample_protocol ?w" using server_run.Step [OF sample_server_run(2)] by simp
  have manager: "cx_manager ?w = host_step sample_host (sample_root_op 1) (new_state_manager sample_config None None)"
    using op by (simp add: op_manager sample_subscribed_eq)
  have facts: "envelopes (cx_manager ?w) = emitted sample_subscribed ?w" "sm_serverSeq (cx_manager ?w) = 1"
    unfolding emitted_def manager sample_root_step by (simp_all add: sample_subscribed_eq sample_new)
  show ?thesis
    using reconnect_replay_complete [OF run, of ascii_platform "\<lparr>con_id = 0, con_subscriptions = [(ROOT_STATE_URI, StateChannel)]\<rparr>" 0]
    by (simp add: facts sample_emits sample_subscribed_eq isRelevantToClient_def REPLAY_BUFFER_CAPACITY_def del: One_nat_def)
qed

definition sample_connected :: connections where
  "sample_connected = fst (handleInitialize sample_protocol ''c'' [] sample_begin)"

definition sample_away :: connections where
  "sample_away = fst (transportClosed ascii_platform 0 sample_connected)"

definition sample_back :: connections where
  "sample_back = fst (handleReconnect sample_protocol ''c'' 0 [ROOT_STATE_URI] sample_away)"

definition sample_restored :: connections where
  "sample_restored = answerTask 0 (snapshotTask 0 (registerTask ascii_platform 0 sample_back))"

lemma sample_connected_eq:
  "sample_connected = \<lparr>cx_clients = [(''c'', ActiveRecord [\<lparr>con_id = 0, con_subscriptions = []\<rparr>])], cx_closed = [], cx_replay = [],
     cx_sent = [(0, InitializeReply 0 [])], cx_subscribers = [], cx_tasks = [], cx_reconnects = [], cx_next = 1, cx_now = 0,
     cx_manager = new_state_manager sample_config None None\<rparr>"
  by (simp add: sample_connected_def sample_begin_def handleInitialize_def Let_def new_connection_def attachConnection_def
      pruneClientRecords_def set_client_def client_at_def new_connections_def transport_send_def initial_snapshots_def
      List.map_filter_simps sample_new)

lemma sample_sessions: "sm_sessions (new_state_manager sample_config None None) = []"
  by (simp add: new_state_manager_def)

lemma sample_away_eq:
  "sample_away = \<lparr>cx_clients = [(''c'', GraceRecord True 0 [(''managed-settings'', ManagedSettingsTimeout 30000)])],
     cx_closed = [\<lparr>con_id = 0, con_subscriptions = []\<rparr>], cx_replay = [],
     cx_sent = [(0, InitializeReply 0 [])], cx_subscribers = [], cx_tasks = [], cx_reconnects = [], cx_next = 1, cx_now = 0,
     cx_manager = new_state_manager sample_config None None\<rparr>"
  by (simp add: sample_away_def sample_connected_eq transportClosed_def connection_of_def client_at_def Let_def set_client_def
      without_connection_def releaseClientSubscriptions_def handleClientDisconnected_def sample_sessions
      CLIENT_TOOL_CALL_DISCONNECT_TIMEOUT_def)

lemma sample_back_eq:
  "sample_back = \<lparr>cx_clients = [(''c'', ActiveRecord [\<lparr>con_id = 1, con_subscriptions = []\<rparr>])],
     cx_closed = [\<lparr>con_id = 0, con_subscriptions = []\<rparr>], cx_replay = [],
     cx_sent = [(0, InitializeReply 0 [])], cx_subscribers = [],
     cx_tasks = [\<lparr>tsk_connection = 1, tsk_client = ''c'', tsk_channel = ROOT_STATE_URI, tsk_registered = False, tsk_snapshot = None,
       tsk_reconnect = True\<rparr>],
     cx_reconnects = [\<lparr>rct_connection = 1, rct_client = ''c'', rct_lastSeen = 0, rct_canReplay = True,
       rct_subscriptions = [ROOT_STATE_URI], rct_missing = [], rct_snapshots = []\<rparr>],
     cx_next = 2, cx_now = 0, cx_manager = new_state_manager sample_config None None\<rparr>"
  by (simp add: sample_back_def sample_away_eq handleReconnect_def client_at_def Let_def new_connection_def attachConnection_def
      pruneClientRecords_def set_client_def oldestBuffered_def sample_new restore_subscription_def sample_channel sample_key)

lemma sample_restored_eq:
  "sample_restored = \<lparr>cx_clients = [(''c'', ActiveRecord [\<lparr>con_id = 1, con_subscriptions = [(ROOT_STATE_URI, StateChannel)]\<rparr>])],
     cx_closed = [\<lparr>con_id = 0, con_subscriptions = []\<rparr>], cx_replay = [],
     cx_sent = [(0, InitializeReply 0 [])], cx_subscribers = [(''ahp-root:'', ''c'')], cx_tasks = [],
     cx_reconnects = [\<lparr>rct_connection = 1, rct_client = ''c'', rct_lastSeen = 0, rct_canReplay = True,
       rct_subscriptions = [ROOT_STATE_URI], rct_missing = [], rct_snapshots = [(ROOT_STATE_URI, 0)]\<rparr>],
     cx_next = 2, cx_now = 0, cx_manager = new_state_manager sample_config None None\<rparr>"
  by (simp add: sample_restored_def sample_back_eq registerTask_def sample_key Let_def addSubscriber_def set_add_def snapshotTask_def
      answerTask_def install_def change_connection_def clearClientToolCallDisconnectTimeout_def client_at_def change_reconnect_def
      sample_new remove_at_def)

lemma sample_runs:
  "server_run sample_protocol sample_connected" "server_run sample_protocol sample_away" "server_run sample_protocol sample_back"
  "server_run sample_protocol sample_restored"
proof -
  show 1: "server_run sample_protocol sample_connected"
    unfolding sample_connected_def by (rule server_run.Step [OF sample_server_run(1) server_step.Initialize])
  show 2: "server_run sample_protocol sample_away"
    using server_run.Step [OF 1 server_step.Close [of sample_protocol _ 0]] by (simp add: sample_away_def)
  show 3: "server_run sample_protocol sample_back"
    unfolding sample_back_def by (rule server_run.Step [OF 2 server_step.Reconnect])
  have 4: "server_run sample_protocol (registerTask ascii_platform 0 sample_back)"
    using server_run.Step [OF 3 server_step.Register [of 0 _ sample_protocol]] by (simp add: sample_back_eq)
  have 5: "server_run sample_protocol (snapshotTask 0 (registerTask ascii_platform 0 sample_back))"
    by (rule server_run.Step [OF 4 server_step.Snapshot])
      (simp_all add: sample_back_eq registerTask_def sample_key Let_def addSubscriber_def)
  show "server_run sample_protocol sample_restored"
    unfolding sample_restored_def
    by (rule server_run.Step [OF 5 server_step.Answer])
      (simp_all add: sample_back_eq registerTask_def sample_key Let_def addSubscriber_def snapshotTask_def)
qed

lemma sample_wired:
  "cx_manager (manager_op sample_host (sample_root_op 1) w) = host_step sample_host (sample_root_op 1) (cx_manager w)"
  by (rule op_manager) (simp add: sample_root_op_def)

lemma reconnect_reply_overlaps_stream_witness:
  "\<exists>w2 e es ms. server_run sample_protocol w2 \<and> e \<in> set (sends_to 1 w2) \<and> List.last (cx_sent w2) = (1, ReplayReply es ms) \<and> e \<in> set es"
proof -
  let ?w1 = "manager_op sample_host (sample_root_op 1) sample_restored"
  let ?t = "\<lparr>rct_connection = 1, rct_client = ''c'', rct_lastSeen = 0, rct_canReplay = True,
       rct_subscriptions = [ROOT_STATE_URI], rct_missing = [], rct_snapshots = [(ROOT_STATE_URI, 0)]\<rparr>"
  let ?con = "\<lparr>con_id = 1, con_subscriptions = [(ROOT_STATE_URI, StateChannel)]\<rparr>"
  let ?e = "\<lparr>env_channel = ROOT_STATE_URI, env_action = RootAct (RootActiveSessionsChanged 1), env_serverSeq = 1, env_origin = None,
         env_rejectionReason = None\<rparr>"
  have op: "has_reason (sample_root_op 1)" by (simp add: sample_root_op_def)
  have manager: "cx_manager sample_restored = new_state_manager sample_config None None" by (simp add: sample_restored_eq)
  have "live sample_restored ''c'' = [?con]" by (simp add: live_def client_at_def sample_restored_eq)
  then have sub: "subscribed sample_restored 1 ROOT_STATE_URI"
    by (auto simp: subscribed_def current_def intro!: exI [of _ ?con] exI [of _ "''c''"])
  have sessions: "sm_sessions (cx_manager ?w1) = []"
    unfolding sample_wired manager sample_root_step by (simp add: emit_envelope_def emit_def sample_sessions)
  have seq: "sm_serverSeq (cx_manager ?w1) = 1"
    unfolding sample_wired manager sample_root_step by (simp add: sample_new)
  have quiet: "reconcileActiveClientsAfterReconnect sample_protocol c own (without_reconnect i ?w1) = (without_reconnect i ?w1, None)" for c own i
    by (simp add: reconcileActiveClientsAfterReconnect_def without_reconnect_def sessions Let_def del: One_nat_def)
  have after: "cx_manager (finishReconnect sample_protocol ?t ?w1) = cx_manager ?w1"
    by (simp add: finishReconnect_def quiet Let_def del: One_nat_def) (simp add: transport_send_def without_reconnect_def)
  have "server_run sample_protocol (finishReconnect sample_protocol ?t ?w1) \<and> ?e \<in> set (sends_to (rct_connection ?t) (finishReconnect sample_protocol ?t ?w1))
    \<and> (if rct_canReplay ?t then \<exists>es ms. List.last (cx_sent (finishReconnect sample_protocol ?t ?w1)) = (rct_connection ?t, ReplayReply es ms) \<and> ?e \<in> set es
       else \<exists>ss. List.last (cx_sent (finishReconnect sample_protocol ?t ?w1)) = (rct_connection ?t, SnapshotReply ss) \<and> map_of ss ROOT_STATE_URI = Some 0
         \<and> 0 < env_serverSeq ?e)"
  proof (rule reconnect_reply_overlaps_stream [OF sample_runs(4) op _ _ _ _ _ _ _ _ _ _ _ refl])
    show "?t \<in> set (cx_reconnects sample_restored)" by (simp add: sample_restored_eq)
    show "\<forall>k\<in>set (cx_tasks sample_restored). tsk_reconnect k \<longrightarrow> tsk_connection k \<noteq> rct_connection ?t" by (simp add: sample_restored_eq)
    show "subscribed sample_restored (rct_connection ?t) ROOT_STATE_URI" using sub by simp
    show "?w1 = manager_op (srv_host sample_protocol) (sample_root_op 1) sample_restored" by simp
    show "?e \<in> set (emitted sample_restored ?w1)" using sample_emits [OF manager] by simp
    show "sm_serverSeq (cx_manager (finishReconnect sample_protocol ?t ?w1)) < env_serverSeq ?e + REPLAY_BUFFER_CAPACITY"
      unfolding after seq by (simp add: REPLAY_BUFFER_CAPACITY_def)
  qed (simp_all add: quiet del: One_nat_def)
  then show ?thesis by auto
qed

definition sample_asked :: connections where
  "sample_asked = handleSubscribe sample_protocol ''c'' 0 ROOT_STATE_URI sample_connected"

definition sample_registered :: connections where
  "sample_registered = registerTask ascii_platform 0 sample_asked"

lemma sample_asked_eq:
  "sample_asked = sample_connected\<lparr>cx_tasks := [\<lparr>tsk_connection = 0, tsk_client = ''c'', tsk_channel = ROOT_STATE_URI,
     tsk_registered = False, tsk_snapshot = None, tsk_reconnect = False\<rparr>]\<rparr>"
  by (simp add: sample_asked_def handleSubscribe_def sample_channel sample_key sample_connected_eq)

lemma sample_registered_eq:
  "sample_registered = sample_connected\<lparr>cx_subscribers := [(''ahp-root:'', ''c'')],
     cx_tasks := [\<lparr>tsk_connection = 0, tsk_client = ''c'', tsk_channel = ROOT_STATE_URI,
       tsk_registered = True, tsk_snapshot = None, tsk_reconnect = False\<rparr>]\<rparr>"
  by (simp add: sample_registered_def sample_asked_eq registerTask_def sample_key addSubscriber_def set_add_def sample_connected_eq Let_def)

lemma sample_asked_runs: "server_run sample_protocol sample_asked" "server_run sample_protocol sample_registered"
proof -
  show 1: "server_run sample_protocol sample_asked"
    unfolding sample_asked_def
    by (rule server_run.Step [OF sample_runs(1) server_step.Subscribe [where con = "\<lparr>con_id = 0, con_subscriptions = []\<rparr>"]])
      (simp add: sample_connected_eq connection_of_def)
  show "server_run sample_protocol sample_registered"
    using server_run.Step [OF 1 server_step.Register [of 0 _ sample_protocol]] by (simp add: sample_registered_def sample_asked_eq)
qed

lemma subscribe_snapshot_gap_witness:
  "\<exists>w2 e. server_run sample_protocol w2 \<and> List.last (cx_sent w2) = (0, SubscribeReply ROOT_STATE_URI 0)
     \<and> env_serverSeq e = 1 \<and> e \<in> set (envelopes (cx_manager w2)) \<and> subscribed w2 0 ROOT_STATE_URI \<and> e \<notin> set (sends_to 0 w2)"
proof -
  let ?con = "\<lparr>con_id = 0, con_subscriptions = []\<rparr>"
  let ?e = "\<lparr>env_channel = ROOT_STATE_URI, env_action = RootAct (RootActiveSessionsChanged 1), env_serverSeq = 1, env_origin = None,
         env_rejectionReason = None\<rparr>"
  let ?s = "snapshotTask 0 sample_registered"
  let ?w1 = "manager_op sample_host (sample_root_op 1) ?s" and ?t = "cx_tasks sample_registered ! 0"
  let ?w2 = "answerTask 0 ?w1"
  have op: "has_reason (sample_root_op 1)" by (simp add: sample_root_op_def)
  have manager: "cx_manager sample_registered = new_state_manager sample_config None None" "cx_manager ?s = new_state_manager sample_config None None"
    by (simp_all add: sample_registered_eq sample_connected_eq snapshotTask_def)
  have same: "emitted sample_registered ?w1 = emitted ?s ?w1" by (simp add: emitted_def manager)
  have live: "live sample_registered ''c'' = [?con]" "live ?s ''c'' = [?con]"
    by (simp_all add: live_def client_at_def sample_registered_eq sample_connected_eq snapshotTask_def)
  have gap: "server_run sample_protocol ?w2
    \<and> List.last (cx_sent ?w2) = (tsk_connection ?t, SubscribeReply (tsk_channel ?t) (sm_serverSeq (cx_manager sample_registered)))
    \<and> sm_serverSeq (cx_manager sample_registered) < env_serverSeq ?e \<and> ?e \<in> set (envelopes (cx_manager ?w2))
    \<and> (\<forall>u w3. listens sample_protocol (tsk_connection ?t) u ?w2 w3 \<longrightarrow> ?e \<notin> set (on_channel u (sends_to (tsk_connection ?t) w3)))"
  proof (rule subscribe_snapshot_gap [OF sample_asked_runs(2) _ refl _ _ _ _ op _ _ _ refl])
    show "current sample_registered ?con" using live(1) by (auto simp: current_def intro!: exI [of _ "''c''"])
    show "?w1 = manager_op (srv_host sample_protocol) (sample_root_op 1) ?s" by simp
    show "?e \<in> set (emitted sample_registered ?w1)" unfolding same using sample_emits [OF manager(2)] by simp
    show "\<not> isRelevantToClient (srv_platform sample_protocol) ?con ?e"
      by (simp add: isRelevantToClient_def catalog_action_def isActionEnvelopeRelevantToSubscriptionUris_def stateAndResourceWatchUris_def)
  qed (simp_all add: sample_registered_eq)
  have task: "cx_tasks ?w1 ! 0 = \<lparr>tsk_connection = 0, tsk_client = ''c'', tsk_channel = ROOT_STATE_URI,
       tsk_registered = True, tsk_snapshot = Some 0, tsk_reconnect = False\<rparr>"
    by (simp add: snapshotTask_def sample_registered_eq sample_new sample_connected_eq)
  have "live ?w1 ''c'' = [?con]" using live(2) by (simp add: op_wired)
  then have "live ?w2 ''c'' = [\<lparr>con_id = 0, con_subscriptions = [(ROOT_STATE_URI, StateChannel)]\<rparr>]"
  proof -
    assume l: "live ?w1 ''c'' = [?con]"
    have quiet: "live x' = live x''" if "wiring x' = wiring x''" for x' x'' using that by (simp add: wiring_def)
    have send: "live (transport_send i msg x) = live x" "live (clearClientToolCallDisconnectTimeout c ch x) = live x"
      "live (x\<lparr>cx_tasks := ks\<rparr>) = live x" for i msg x ks c ch
      by (rule quiet, simp only: wiring_simps)+
    show ?thesis by (simp add: answerTask_def Let_def task send install_def live_change l del: op_frames One_nat_def)
  qed
  then have sub: "subscribed ?w2 0 ROOT_STATE_URI"
    by (auto simp: subscribed_def current_def intro!: exI [of _ "\<lparr>con_id = 0, con_subscriptions = [(ROOT_STATE_URI, StateChannel)]\<rparr>"] exI [of _ "''c''"])
  then have "listens sample_protocol 0 ROOT_STATE_URI ?w2 ?w2" by (rule listens.Begin)
  then have "?e \<notin> set (sends_to 0 ?w2)" using gap by (auto simp: sample_registered_eq on_channel_def)
  then show ?thesis using gap sub by (intro exI [of _ ?w2] exI [of _ ?e]) (simp add: sample_registered_eq sample_connected_eq sample_new)
qed

lemma closed_subscribe_leaks_witness:
  "\<exists>w2. server_run sample_protocol w2 \<and> (''ahp-root:'', ''c'') \<in> set (cx_subscribers w2) \<and> live w2 ''c'' = [] \<and> cx_tasks w2 = []"
proof -
  let ?t = "cx_tasks sample_asked ! 0" and ?w1 = "fst (transportClosed ascii_platform 0 sample_asked)"
  have "server_run sample_protocol (answerTask 0 (snapshotTask 0 (registerTask ascii_platform 0 ?w1)))
    \<and> (''ahp-root:'', tsk_client ?t) \<in> set (cx_subscribers (answerTask 0 (snapshotTask 0 (registerTask ascii_platform 0 ?w1))))
    \<and> live (answerTask 0 (snapshotTask 0 (registerTask ascii_platform 0 ?w1))) (tsk_client ?t) = []
    \<and> cx_tasks (answerTask 0 (snapshotTask 0 (registerTask ascii_platform 0 ?w1))) = remove_at 0 (cx_tasks sample_asked)"
  proof (rule closed_subscribe_leaks [OF sample_asked_runs(1) _ refl])
    show "live sample_asked (tsk_client ?t) = [\<lparr>con_id = 0, con_subscriptions = []\<rparr>]"
      by (simp add: live_def client_at_def sample_asked_eq sample_connected_eq)
    show "snd (transportClosed (srv_platform sample_protocol) (tsk_connection ?t) sample_asked) = None"
      by (simp add: sample_asked_eq sample_connected_eq transportClosed_def connection_of_def client_at_def Let_def
          without_connection_def releaseClientSubscriptions_def)
  qed (simp_all add: sample_asked_eq sample_key)
  then show ?thesis by (auto simp: sample_asked_eq)
qed

section \<open>A handshake that fails\<close>

lemma live_install: "live (install i u k w) c = map (\<lambda>con. if con_id con = i
    then con\<lparr>con_subscriptions := AList.update u k (con_subscriptions con)\<rparr> else con) (live w c)"
  by (simp add: install_def live_change)

lemma connect_fresh:
  assumes "live w c = []"
  shows "client_at (new_connection c w) c = Some (ActiveRecord [\<lparr>con_id = cx_next w, con_subscriptions = []\<rparr>])"
proof -
  let ?con = "\<lparr>con_id = cx_next w, con_subscriptions = []\<rparr>"
  let ?w = "w\<lparr>cx_next := Suc (cx_next w)\<rparr>"
  have same: "client_at ?w c = client_at w c" by (simp add: client_at_def)
  let ?r = "case client_at ?w c of Some (ActiveRecord cs) \<Rightarrow> ActiveRecord (cs @ [?con]) | _ \<Rightarrow> ActiveRecord [?con]"
  have r: "?r = ActiveRecord [?con]"
    using assms unfolding same by (auto simp: live_def split: option.splits client_record.splits)
  have set: "set_client c x v = v\<lparr>cx_clients := AList.update c x (cx_clients v)\<rparr>" for x v by (simp add: set_client_def)
  have keep: "map_of (filter P (AList.update c x xs)) c = Some x" if "P (c, x)" for P :: "js_string \<times> client_record \<Rightarrow> bool" and x xs
    using that by (induction xs) auto
  show ?thesis
    unfolding new_connection_def attachConnection_def r
    by (simp add: client_at_def pruneClientRecords_def set_client_def keep)
qed

text \<open>
  C16. A new client that asks for a channel whose URI does not parse is left behind half connected. The
  handshake fails as it should, but undoing it parses the same URI again and throws before the record is
  removed: it stays an active record without any transport, for which no timeout is ever armed, so tool
  calls stamped with that client can wait forever.
\<close>

theorem failed_initialize_strands_record:
  assumes "server_run sv w" "client_at w c = None"
    and u: "classifyChannel (srv_platform sv) u = Some (u, StateChannel)" "resource_key (srv_platform sv) u = None"
  shows "\<exists>w' e. handleInitialize sv c [u] w = (w', Some e) \<and> server_run sv w' \<and> client_at w' c = Some (ActiveRecord [])
    \<and> (\<forall>s ch. startClientToolCallDisconnectTimeout c s ch w' = w')"
proof -
  let ?i = "cx_next w" and ?w0 = "new_connection c w"
  let ?con = "\<lparr>con_id = ?i, con_subscriptions = [(u, StateChannel)]\<rparr>"
  let ?w1 = "install ?i u StateChannel ?w0"
  have ok: "ids_ok ?w1"
    using run_ok [OF assms(1)] rewires_install_after [OF rewires_connect, of w ?i u StateChannel c] by (simp add: rewires_def)
  have live: "live ?w1 c = [?con]"
    by (simp add: live_install) (simp add: live_def connect_fresh [OF absent(1) [OF assms(2)]])
  then have at: "client_at ?w1 c = Some (ActiveRecord [?con])"
  proof -
    obtain r where r: "client_at ?w1 c = Some r" "record_connections r = [?con]" using live by (auto simp: live_def split: option.splits)
    then show ?thesis by (cases r) auto
  qed
  have found: "connection_of ?i ?w1 = Some (c, ?con)" using connection_of_live [OF ok, of ?con c] live by simp
  let ?w2 = "set_client c (ActiveRecord []) ?w1"
  have undo: "rollbackFailedInitialization (srv_platform sv) c ?i old ?w1 = (?w2, Some (PlainError ''[UriError]''))" for old
    unfolding rollbackFailedInitialization_def found
    by (simp add: at without_connection_def releaseClientSubscriptions_def u(2) hasSubscriptionInOtherConnection_def Let_def)
  have "addInitialSubscription sv c ?i u ?w0 = (?w1, Some (PlainError ''[UriError]''))"
    by (simp add: addInitialSubscription_def u Let_def)
  then have failed: "handleInitialize sv c [u] w = (?w2, Some (PlainError ''[UriError]''))"
    by (simp add: handleInitialize_def Let_def undo)
  have "server_run sv ?w2"
    using server_run.Step [OF assms(1) server_step.Initialize [of sv w c "[u]"]] by (simp add: failed)
  moreover have "client_at ?w2 c = Some (ActiveRecord [])" by simp
  moreover have "startClientToolCallDisconnectTimeout c s ch ?w2 = ?w2" for s ch
    by (simp add: startClientToolCallDisconnectTimeout_def ensureGraceRecord_def)
  ultimately show ?thesis using failed by blast
qed

lemma failed_initialize_strands_record_witness:
  "\<exists>w' e. handleInitialize sample_protocol ''c'' [''a:////x''] sample_begin = (w', Some e) \<and> server_run sample_protocol w'
    \<and> client_at w' ''c'' = Some (ActiveRecord [])"
proof -
  have "classifyChannel ascii_platform ''a:////x'' = Some (''a:////x'', StateChannel)" "resource_key ascii_platform ''a:////x'' = None"
    by code_simp+
  moreover have "client_at sample_begin ''c'' = None" by (simp add: sample_begin_def new_connections_def client_at_def)
  ultimately show ?thesis using failed_initialize_strands_record [OF sample_server_run(1), of "''c''" "''a:////x''"] by auto
qed

end
