(* ===== verification/Client_Release.thy ===== *)
theory Client_Release
  imports Connection_Steps Host_Activity
begin

text \<open>
  A client that does not come back: closing its last transport arms a timeout for every chat it is
  involved in, and the timeout leaves no call waiting for it and no session counting on it.
\<close>

section \<open>The running turn of a chat\<close>

definition turn_at :: "state_manager \<Rightarrow> js_string \<Rightarrow> active_turn option" where
  "turn_at m c = Option.bind (chat_state_at m c) chat_activeTurn"

definition clients_at :: "state_manager \<Rightarrow> js_string \<Rightarrow> session_active_client list option" where
  "clients_at m s = map_option (\<lambda>e. ses_activeClients (sent_state e)) (session_at m s)"

definition chats_distinct :: "state_manager \<Rightarrow> bool" where
  "chats_distinct m \<longleftrightarrow> distinct (map fst (sm_chats m))"

text \<open>A step that changes no turn, but may end chats, and no list of active clients.\<close>

definition keeps_turns :: "state_manager \<Rightarrow> state_manager \<Rightarrow> bool" where
  "keeps_turns m m' \<longleftrightarrow> (chats_distinct m \<longrightarrow> chats_distinct m' \<and> (\<forall>c. turn_at m' c \<in> {turn_at m c, None}))"

named_theorems turn_frames

lemma keeps_turns_refl [turn_frames]: "keeps_turns m m"
  by (simp add: keeps_turns_def)

lemma keeps_turns_trans: "keeps_turns m1 m2 \<Longrightarrow> keeps_turns m2 m3 \<Longrightarrow> keeps_turns m1 m3"
  unfolding keeps_turns_def by (metis insert_iff singletonD)

lemma keeps_turns_chats: "sm_chats m' = sm_chats m \<Longrightarrow> keeps_turns m m'"
  by (simp add: keeps_turns_def turn_at_def chat_state_at_def chat_at_def chats_distinct_def)

lemma turns_quiet [simp]:
  "sm_chats (emit e m) = sm_chats m" "sm_chats (markDirty s m) = sm_chats m" "sm_chats (emit_envelope u a og r m) = sm_chats m"
  "sm_chats (dispatch_root u x og m) = sm_chats m" "sm_chats (dispatch_active_count m) = sm_chats m"
  "sm_chats (markSessionUsed s m) = sm_chats m" "sm_chats (set_session s y m) = sm_chats m"
  by (simp_all add: emit_def markDirty_def emit_envelope_def dispatch_root_def dispatch_active_count_def markSessionUsed_def
      set_session_def Let_def split: option.split)

lemma clients_quiet [simp]:
  "clients_at (emit e m) s = clients_at m s" "clients_at (markDirty s' m) s = clients_at m s"
  "clients_at (emit_envelope u a og r m) s = clients_at m s" "clients_at (dispatch_root u x og m) s = clients_at m s"
  "clients_at (dispatch_active_count m) s = clients_at m s" "clients_at (markSessionUsed s' m) s = clients_at m s"
  "clients_at (set_chat c z m) s = clients_at m s" "clients_at (m\<lparr>sm_chats := cs\<rparr>) s = clients_at m s"
  "clients_at (m\<lparr>sm_active := as\<rparr>) s = clients_at m s" "clients_at (m\<lparr>sm_nextChat := n\<rparr>) s = clients_at m s"
  by (auto simp: clients_at_def session_at_def emit_def markDirty_def emit_envelope_def dispatch_root_def
      dispatch_active_count_def markSessionUsed_def set_session_def set_chat_def update_conv' Let_def split: option.split)

lemma clients_set_session [simp]:
  "clients_at (set_session s' e m) s = (if s = s' then Some (ses_activeClients (sent_state e)) else clients_at m s)"
  by (simp add: clients_at_def session_at_def set_session_def update_conv')

lemma turn_set_chat:
  "turn_at (set_chat c e m) c' = (if c' = c then Option.bind (cent_state e) chat_activeTurn else turn_at m c')"
  by (simp add: turn_at_def chat_state_at_def chat_at_def set_chat_def update_conv')

lemma distinct_set_chat [simp]: "chats_distinct (set_chat c e m) = chats_distinct m"
  by (simp add: chats_distinct_def)

lemma turn_nextChat: "turn_at (m\<lparr>sm_nextChat := n\<rparr>) c = turn_at m c" "chats_distinct (m\<lparr>sm_nextChat := n\<rparr>) = chats_distinct m"
  by (simp_all add: turn_at_def chat_state_at_def chat_at_def chats_distinct_def)

lemma keeps_turns_one: "keeps_turns m (synchronize_one s x m)" "clients_at (synchronize_one s x m) s' = clients_at m s'"
proof -
  have "Option.bind (map_option (merge_summary x) st) chat_activeTurn = Option.bind st chat_activeTurn" for st
    by (cases st) (simp_all add: merge_summary_def)
  moreover have "turn_at m c = Option.bind (cent_state e) chat_activeTurn" if "chat_at m c = Some e" for c e
    using that by (simp add: turn_at_def chat_state_at_def)
  moreover have "turn_at m c = None" if "chat_at m c = None" for c using that by (simp add: turn_at_def chat_state_at_def)
  ultimately show "keeps_turns m (synchronize_one s x m)"
    by (auto simp: keeps_turns_def synchronize_one_def new_chat_def turn_set_chat turn_nextChat split: option.split if_splits)
  show "clients_at (synchronize_one s x m) s' = clients_at m s'"
    by (simp add: synchronize_one_def new_chat_def split: option.split)
qed

lemma keeps_turns_synchronize:
  "keeps_turns m (synchronizeChatEntries s xs m)" "clients_at (synchronizeChatEntries s xs m) s' = clients_at m s'"
proof -
  have fold: "keeps_turns m (fold (synchronize_one s) xs m)" "clients_at (fold (synchronize_one s) xs m) s' = clients_at m s'" for m
    by (induction xs arbitrary: m) (auto simp: keeps_turns_one keeps_turns_refl intro: keeps_turns_trans [OF keeps_turns_one(1)])
  let ?keep = "\<lambda>(c, e). \<not> (cent_session e = s \<and> c \<notin> csum_resource ` set xs)"
  have "keeps_turns m1 (m1\<lparr>sm_chats := filter ?keep (sm_chats m1)\<rparr>)" for m1
  proof -
    have "map_of (filter ?keep (sm_chats m1)) c \<in> {map_of (sm_chats m1) c, None}" if "chats_distinct m1" for c
      using that map_of_filter_distinct [of "sm_chats m1" "\<lambda>c e. ?keep (c, e)" c] by (auto simp: chats_distinct_def split: option.splits)
    then have "turn_at (m1\<lparr>sm_chats := filter ?keep (sm_chats m1)\<rparr>) c \<in> {turn_at m1 c, None}" if "chats_distinct m1" for c
      using that by (auto simp: turn_at_def chat_state_at_def chat_at_def dest!: meta_spec [of _ c])
    then show ?thesis by (simp add: keeps_turns_def chats_distinct_def distinct_filter_keys)
  qed
  then show "keeps_turns m (synchronizeChatEntries s xs m)"
    unfolding synchronizeChatEntries_def Let_def by (rule keeps_turns_trans [OF fold(1)])
  show "clients_at (synchronizeChatEntries s xs m) s' = clients_at m s'"
    by (simp add: synchronizeChatEntries_def Let_def fold)
qed

lemma apply_session_effect:
  "keeps_turns m (apply_session s a m)"
  "clients_at (apply_session s a m) s' = (case session_at m s of
      Some e \<Rightarrow> if s' = s then Some (ses_activeClients (sessionReducer (sent_state e) a)) else clients_at m s'
    | None \<Rightarrow> clients_at m s')"
proof -
  show "clients_at (apply_session s a m) s' = (case session_at m s of
      Some e \<Rightarrow> if s' = s then Some (ses_activeClients (sessionReducer (sent_state e) a)) else clients_at m s'
    | None \<Rightarrow> clients_at m s')"
    by (simp add: apply_session_def Let_def keeps_turns_synchronize split: option.split session_action.split)
  show "keeps_turns m (apply_session s a m)"
  proof (cases "session_at m s")
    case (Some e)
    let ?new = "sessionReducer (sent_state e) a"
    let ?m1 = "synchronizeChatEntries s (ses_chats ?new) (set_session s (e\<lparr>sent_state := ?new\<rparr>) m)"
    have "keeps_turns m ?m1" by (rule keeps_turns_trans [OF keeps_turns_chats keeps_turns_synchronize(1)]) simp
    moreover have "sm_chats (apply_session s a m) = sm_chats ?m1"
      by (simp add: apply_session_def Some Let_def split: session_action.split)
    ultimately show ?thesis by (rule keeps_turns_trans [OF _ keeps_turns_chats])
  qed (simp add: apply_session_def keeps_turns_refl)
qed

lemma dispatch_session_effect:
  "keeps_turns m (dispatch_session s a og m)" "clients_at (dispatch_session s a og m) s' = clients_at (apply_session s a m) s'"
  unfolding dispatch_session_def by (rule keeps_turns_trans [OF apply_session_effect(1) keeps_turns_chats]) simp_all

lemma forward_effect:
  "keeps_turns m (forward_chat_status s c x st m)"
  "clients_at (forward_chat_status s c x st m) s' = clients_at m s'"
proof -
  show "keeps_turns m (forward_chat_status s c x st m)"
    by (simp add: forward_chat_status_def Let_def keeps_turns_refl dispatch_session_effect)
  have chat_updated: "ses_activeClients (sessionReducer z (SessionChatUpdated y)) = ses_activeClients z" for z y
    by (simp add: sessionChatUpdated_def Let_def split: option.split)
  show "clients_at (forward_chat_status s c x st m) s' = clients_at m s'"
    using chat_updated by (auto simp: forward_chat_status_def Let_def dispatch_session_effect apply_session_effect
        split: option.split) (simp_all add: clients_at_def)
qed

lemma store_effect:
  assumes "\<And>e. session_at m s = Some e \<Longrightarrow> ses_activeClients (sent_state e) = ses_activeClients st"
  shows "keeps_turns m (fst (store_aggregate s xs st m))" "clients_at (fst (store_aggregate s xs st m)) s' = clients_at m s'"
proof -
  have chats: "sm_chats (fst (store_modified s b t e m)) = sm_chats m"
    and clients: "session_at m s \<noteq> None \<Longrightarrow> clients_at m s = Some (ses_activeClients (sent_state e))
      \<Longrightarrow> clients_at (fst (store_modified s b t e m)) s' = clients_at m s'" for b t e m
    by (auto simp: store_modified_def Let_def split: option.split sum.split)
  have "sm_chats (fst (store_aggregate s xs st m)) = sm_chats m"
    by (simp add: store_aggregate_def Let_def chats split: option.split)
  then show "keeps_turns m (fst (store_aggregate s xs st m))" by (rule keeps_turns_chats)
  show "clients_at (fst (store_aggregate s xs st m)) s' = clients_at m s'"
  proof (cases "session_at m s")
    case (Some e)
    let ?e = "e\<lparr>sent_state := aggregated_state xs st\<rparr>"
    let ?m1 = "set_session s ?e m"
    have same: "clients_at ?m1 s' = clients_at m s'" for s'
      using assms [OF Some] Some by (simp add: aggregated_state_def Let_def) (simp add: clients_at_def)
    let ?m2 = "if smeta_status (aggregated_state xs st) \<noteq> smeta_status st
      then emit (EmitStatus s (smeta_status (aggregated_state xs st))) ?m1 else ?m1"
    have m2: "session_at ?m2 s \<noteq> None" "clients_at ?m2 = clients_at ?m1"
      by (simp_all add: session_at_def set_session_def emit_def update_conv' clients_at_def fun_eq_iff)
    have "clients_at ?m2 s = Some (ses_activeClients (sent_state ?e))" unfolding m2(2) by simp
    then have "clients_at (fst (store_modified s b x ?e ?m2)) s' = clients_at ?m2 s'" for b x
      using clients [OF m2(1)] by blast
    then show ?thesis unfolding store_aggregate_def Some option.case Let_def m2(2) same by simp
  qed (simp add: store_aggregate_def)
qed

lemma track_effect: "sm_chats (track_active_turn s c p n m) = sm_chats m" "clients_at (track_active_turn s c p n m) s' = clients_at m s'"
  by (simp_all add: track_active_turn_def addChatActiveTurn_def removeChatActiveTurn_def Let_def split: option.split)

lemma changed_effect:
  "keeps_turns m (fst (onChatStateChanged s c p n m))" "clients_at (fst (onChatStateChanged s c p n m)) s' = clients_at m s'"
proof -
  define m1 where "m1 = (if chat_turns n \<noteq> [] \<or> chat_activeTurn n \<noteq> None then markSessionUsed s m else m)"
  define m2 where "m2 = track_active_turn s c p n m1"
  have m1: "sm_chats m1 = sm_chats m" "clients_at m1 s' = clients_at m s'" for s' by (simp_all add: m1_def)
  have m2: "keeps_turns m m2" "clients_at m2 s' = clients_at m s'" for s'
    using m1 by (simp_all add: m2_def track_effect keeps_turns_chats)
  have fst: "fst (onChatStateChanged s c p n m) = (case session_at m2 s of None \<Rightarrow> m2
      | Some e \<Rightarrow> fst (roll_up_chat s c n (sent_state e) m2))"
    by (simp add: onChatStateChanged_def Let_def m1_def m2_def split: option.split)
  have "keeps_turns m2 (fst (roll_up_chat s c n (sent_state e) m2))
    \<and> clients_at (fst (roll_up_chat s c n (sent_state e) m2)) s' = clients_at m2 s'" if e: "session_at m2 s = Some e" for e
  proof -
    let ?m3 = "forward_chat_status s c (chatSummaryFromState n) (sent_state e) m2"
    have "clients_at ?m3 s = clients_at m2 s" by (rule forward_effect)
    then have a: "session_at ?m3 s = Some e' \<Longrightarrow> ses_activeClients (sent_state e') = ses_activeClients (sent_state e)" for e'
      using e by (simp add: clients_at_def)
    note st = store_effect [OF a]
    have "keeps_turns m2 (fst (store_aggregate s xs (sent_state e) ?m3))" for xs
      by (rule keeps_turns_trans [OF forward_effect(1) st(1)])
    moreover have "clients_at (fst (store_aggregate s xs (sent_state e) ?m3)) s' = clients_at m2 s'" for xs
      using st(2) forward_effect(2) by (rule trans)
    ultimately show ?thesis unfolding roll_up_chat_def Let_def by blast
  qed
  then show "keeps_turns m (fst (onChatStateChanged s c p n m))" "clients_at (fst (onChatStateChanged s c p n m)) s' = clients_at m s'"
    unfolding fst using m2 by (cases "session_at m2 s"; auto intro: keeps_turns_trans [OF m2(1)])+
qed

lemma dispatch_chat_effect:
  assumes "chats_distinct m" "dispatch_chat pl c a og m = (m', None)"
  shows "chats_distinct m'" "clients_at m' s = clients_at m s"
    "turn_at m' c = None \<or> (\<exists>st st'. chat_state_at m c = Some st \<and> chatReducer st a = Inr st' \<and> turn_at m' c = chat_activeTurn st')"
proof -
  have emitted: "chats_distinct (emit_envelope u x og' r m) = chats_distinct m" "turn_at (emit_envelope u x og' r m) = turn_at m" for u x og' r m
    by (simp_all add: chats_distinct_def turn_at_def chat_state_at_def chat_at_def fun_eq_iff)
  obtain s' where chat: "isAhpChatChannel pl c" "parseRequiredSessionUriFromChatUri pl c = Inr s'"
    using assms(2) by (auto simp: dispatch_chat_def split: if_splits sum.splits)
  have "chats_distinct m' \<and> clients_at m' s = clients_at m s
    \<and> (turn_at m' c = None \<or> (\<exists>st st'. chat_state_at m c = Some st \<and> chatReducer st a = Inr st' \<and> turn_at m' c = chat_activeTurn st'))"
  proof (cases "chat_state_at m c")
    case None
    then have "m' = emit_envelope c (ChatAct a) og None m"
      using assms(2) chat by (auto simp: dispatch_chat_def chat_state_at_def split: option.splits)
    then show ?thesis using assms(1) None emitted by (simp add: turn_at_def)
  next
    case (Some st)
    then obtain e where e: "chat_at m c = Some e" "cent_state e = Some st" by (auto simp: chat_state_at_def bind_eq_Some_conv)
    obtain st' where st': "chatReducer st a = Inr st'"
      using assms(2) chat e by (auto simp: dispatch_chat_def split: sum.splits)
    let ?m1 = "set_chat c (e\<lparr>cent_state := Some st'\<rparr>) m"
    obtain m2 where m2: "onChatStateChanged s' c st st' ?m1 = (m2, None)" "m' = emit_envelope c (ChatAct a) og None m2"
      using assms(2) chat e st' by (cases "onChatStateChanged s' c st st' ?m1"; cases "snd (onChatStateChanged s' c st st' ?m1)")
        (auto simp: dispatch_chat_def)
    have "turn_at ?m1 c = chat_activeTurn st'" by (simp add: turn_set_chat)
    moreover have "keeps_turns ?m1 m2" "clients_at m2 s = clients_at ?m1 s"
      using changed_effect [where m = ?m1 and s = s' and c = c and p = st and n = st'] m2(1) by simp_all
    ultimately have "chats_distinct m2 \<and> turn_at m2 c \<in> {chat_activeTurn st', None} \<and> clients_at m2 s = clients_at m s"
      using assms(1) unfolding keeps_turns_def by (metis clients_quiet(7) distinct_set_chat)
    then show ?thesis using Some st' emitted by (auto simp: m2(2))
  qed
  then show "chats_distinct m'" "clients_at m' s = clients_at m s"
    "turn_at m' c = None \<or> (\<exists>st st'. chat_state_at m c = Some st \<and> chatReducer st a = Inr st' \<and> turn_at m' c = chat_activeTurn st')"
    by blast+
qed

section \<open>Calls that wait for a client\<close>

definition waiting :: "js_string \<Rightarrow> active_turn option \<Rightarrow> tool_call_state set" where
  "waiting c turn = {tc. \<exists>t. turn = Some t \<and> ToolCallPart tc \<in> set (aturn_responseParts t)
     \<and> tc_contributor (tcBase tc) = Some (ClientContributor c) \<and> isPendingToolCallStatus (tc_status tc)}"

text \<open>The calls still to be failed account for every call that waits.\<close>

definition covers :: "tool_call_state list \<Rightarrow> tool_call_state set \<Rightarrow> bool" where
  "covers tcs S \<longleftrightarrow> (\<forall>p\<in>S. \<exists>tc\<in>set tcs. tc_toolCallId (tcBase tc) = tc_toolCallId (tcBase p)
     \<and> (tc_status p = StStreaming \<longrightarrow> tc_status tc = StStreaming))"

lemma covers_none [simp]: "covers tcs (waiting c None)"
  by (simp add: covers_def waiting_def)

lemma turn_on_tool_call:
  "chat_activeTurn (on_tool_call s a f) = map_option (\<lambda>t. if aturn_id t = tca_turnId a
     then t\<lparr>aturn_responseParts := map (update_tool_call_part (tca_toolCallId a) f) (aturn_responseParts t)\<rparr> else t) (chat_activeTurn s)"
proof (cases "chat_activeTurn s")
  case (Some t)
  have "t = t\<lparr>aturn_responseParts := ps\<rparr>" if "ps = aturn_responseParts t" for ps using that by simp
  then show ?thesis
    by (auto simp: on_tool_call_def updateToolCallInParts_def Let_def Some set_active_parts_def set_active_turn_def)
qed (simp add: on_tool_call_def updateToolCallInParts_def)

lemma turn_refresh [simp]: "chat_activeTurn (refreshSummaryStatus s) = chat_activeTurn s"
  by (simp add: refreshSummaryStatus_def Let_def)

text \<open>A call of the turn after an update of the calls with one id.\<close>

lemma waiting_updated:
  assumes "p' \<in> waiting c (map_option (\<lambda>t. if aturn_id t = i then t\<lparr>aturn_responseParts := map (update_tool_call_part k f) (aturn_responseParts t)\<rparr> else t) turn)"
    and turn: "map_option aturn_id turn \<in> {None, Some i}"
  obtains p where "ToolCallPart p \<in> set (aturn_responseParts (the turn))" "turn \<noteq> None"
    "p' = (if tc_toolCallId (tcBase p) = k then f p else p)"
proof -
  obtain t where t: "turn = Some t" using assms(1) by (cases turn) (auto simp: waiting_def)
  then have "aturn_id t = i" using turn by simp
  then obtain q where q: "q \<in> set (aturn_responseParts t)" "ToolCallPart p' = update_tool_call_part k f q"
    using assms(1) t by (auto simp: waiting_def)
  from q(2) obtain p where "q = ToolCallPart p" by (cases q) (auto simp: update_tool_call_part_def)
  then show ?thesis using that q t by (auto simp: update_tool_call_part_def split: if_splits)
qed

lemma pending_simps [simp]: "isPendingToolCallStatus st \<longleftrightarrow> st \<in> {StStreaming, StRunning, StPendingConfirmation}"
  by (auto simp: isPendingToolCallStatus_def)

lemma ready_call:
  assumes "tcReady_contributor a = None" "tcReady_confirmed a \<noteq> None"
  shows "tc_toolCallId (tcBase (toolCallReady a tc)) = tc_toolCallId (tcBase tc)"
    "tc_contributor (tcBase (toolCallReady a tc)) = tc_contributor (tcBase tc)"
    "tc_status (toolCallReady a tc) = (if isPendingToolCallStatus (tc_status tc) then StRunning else tc_status tc)"
  using assms
  by (cases tc; auto simp: toolCallReady_def ready_transition_def ready_base_def tcBaseWithMeta_def refineToolCallContributor_def)+

lemma complete_call:
  assumes "tcComplete_requiresResultConfirmation a = None"
  shows "tc_toolCallId (tcBase (toolCallComplete a tc)) = tc_toolCallId (tcBase tc)"
    "tc_contributor (tcBase (toolCallComplete a tc)) = tc_contributor (tcBase tc)"
    "isPendingToolCallStatus (tc_status (toolCallComplete a tc)) \<Longrightarrow> tc_status tc = StStreaming \<and> toolCallComplete a tc = tc"
  using assms
  by (cases tc; auto simp: toolCallComplete_def tcBaseWithMeta_def Let_def split: if_splits)+

lemma ready_step:
  assumes "map_option aturn_id turn \<in> {None, Some (tca_turnId a)}" "tcReady_contributor a = None" "tcReady_confirmed a \<noteq> None"
    and "covers (tc # tcs) (waiting c turn)" "tca_toolCallId a = tc_toolCallId (tcBase tc)"
  shows "\<forall>p\<in>waiting c (map_option (\<lambda>t. if aturn_id t = tca_turnId a
      then t\<lparr>aturn_responseParts := map (update_tool_call_part (tca_toolCallId a) (toolCallReady a)) (aturn_responseParts t)\<rparr> else t) turn).
    if tc_toolCallId (tcBase p) = tc_toolCallId (tcBase tc) then tc_status p \<noteq> StStreaming
    else \<exists>tc'\<in>set tcs. tc_toolCallId (tcBase tc') = tc_toolCallId (tcBase p) \<and> (tc_status p = StStreaming \<longrightarrow> tc_status tc' = StStreaming)"
proof
  fix p'
  assume p': "p' \<in> waiting c (map_option (\<lambda>t. if aturn_id t = tca_turnId a
      then t\<lparr>aturn_responseParts := map (update_tool_call_part (tca_toolCallId a) (toolCallReady a)) (aturn_responseParts t)\<rparr> else t) turn)"
  then obtain p where p: "ToolCallPart p \<in> set (aturn_responseParts (the turn))" "turn \<noteq> None"
    "p' = (if tc_toolCallId (tcBase p) = tca_toolCallId a then toolCallReady a p else p)"
    using assms(1) by (rule waiting_updated)
  note r = ready_call [OF assms(2,3), of p]
  have "p \<in> waiting c turn" if "tc_toolCallId (tcBase p) \<noteq> tc_toolCallId (tcBase tc)"
    using p' p that assms(5) by (auto simp: waiting_def)
  then have "\<exists>tc'\<in>set (tc # tcs). tc_toolCallId (tcBase tc') = tc_toolCallId (tcBase p) \<and> (tc_status p = StStreaming \<longrightarrow> tc_status tc' = StStreaming)"
    if "tc_toolCallId (tcBase p) \<noteq> tc_toolCallId (tcBase tc)"
    using assms(4) that unfolding covers_def by blast
  then show "if tc_toolCallId (tcBase p') = tc_toolCallId (tcBase tc) then tc_status p' \<noteq> StStreaming
    else \<exists>tc'\<in>set tcs. tc_toolCallId (tcBase tc') = tc_toolCallId (tcBase p') \<and> (tc_status p' = StStreaming \<longrightarrow> tc_status tc' = StStreaming)"
    using p(3) r assms(5) by auto
qed

lemma complete_step:
  assumes "map_option aturn_id turn \<in> {None, Some (tca_turnId a)}" "tcComplete_requiresResultConfirmation a = None"
    "tca_toolCallId a = tc_toolCallId (tcBase tc)"
    and cov: "\<forall>p\<in>waiting c turn. if tc_toolCallId (tcBase p) = tc_toolCallId (tcBase tc)
        then tc_status p = StStreaming \<longrightarrow> (\<exists>tc'\<in>set tcs. tc_toolCallId (tcBase tc') = tc_toolCallId (tcBase p) \<and> tc_status tc' = StStreaming)
      else \<exists>tc'\<in>set tcs. tc_toolCallId (tcBase tc') = tc_toolCallId (tcBase p) \<and> (tc_status p = StStreaming \<longrightarrow> tc_status tc' = StStreaming)"
  shows "covers tcs (waiting c (map_option (\<lambda>t. if aturn_id t = tca_turnId a
      then t\<lparr>aturn_responseParts := map (update_tool_call_part (tca_toolCallId a) (toolCallComplete a)) (aturn_responseParts t)\<rparr> else t) turn))"
  unfolding covers_def
proof
  fix p'
  assume p': "p' \<in> waiting c (map_option (\<lambda>t. if aturn_id t = tca_turnId a
      then t\<lparr>aturn_responseParts := map (update_tool_call_part (tca_toolCallId a) (toolCallComplete a)) (aturn_responseParts t)\<rparr> else t) turn)"
  then obtain p where p: "ToolCallPart p \<in> set (aturn_responseParts (the turn))" "turn \<noteq> None"
    "p' = (if tc_toolCallId (tcBase p) = tca_toolCallId a then toolCallComplete a p else p)"
    using assms(1) by (rule waiting_updated)
  have pend: "isPendingToolCallStatus (tc_status p')" "tc_contributor (tcBase p') = Some (ClientContributor c)" using p' by (auto simp: waiting_def)
  have same: "p' = p \<and> (tc_toolCallId (tcBase p) = tca_toolCallId a \<longrightarrow> tc_status p = StStreaming)"
    using p(3) pend(1) complete_call(3) [OF assms(2), of p] by (auto split: if_splits)
  then have "p \<in> waiting c turn" using p pend by (auto simp: waiting_def)
  then show "\<exists>tc'\<in>set tcs. tc_toolCallId (tcBase tc') = tc_toolCallId (tcBase p') \<and> (tc_status p' = StStreaming \<longrightarrow> tc_status tc' = StStreaming)"
    using bspec [OF cov \<open>p \<in> waiting c turn\<close>] same assms(3)
    by (cases "tc_toolCallId (tcBase p) = tc_toolCallId (tcBase tc)") auto
qed

section \<open>Failing the calls\<close>

text \<open>The turn is over or still the one the calls were taken from, and the calls still to be failed account for all that wait.\<close>

definition failing :: "js_string \<Rightarrow> js_string \<Rightarrow> active_turn \<Rightarrow> tool_call_state list \<Rightarrow> state_manager \<Rightarrow> bool" where
  "failing c ch t tcs m \<longleftrightarrow> chats_distinct m \<and> map_option aturn_id (turn_at m ch) \<in> {None, Some (aturn_id t)}
     \<and> covers tcs (waiting c (turn_at m ch))"

lemma server_dispatch_ok:
  assumes "serverDispatch sv ch a w = (w', None)"
  shows "applyAndEmit (srv_host sv) ch a None (cx_manager w) = (cx_manager w', None)"
proof -
  have "w' = manager_op (srv_host sv) (OpServerDispatch ch a) w" "snd (dispatchServerAction (srv_host sv) ch a (cx_manager w)) = None"
    using assms by (auto simp: serverDispatch_def)
  moreover from this(1) have "cx_manager w' = host_step (srv_host sv) (OpServerDispatch ch a) (cx_manager w)"
    using op_manager [of "OpServerDispatch ch a" "srv_host sv" w] by simp
  ultimately show ?thesis by (simp add: dispatchServerAction_def prod_eq_iff)
qed

lemma dispatch_tool_turn:
  assumes "serverDispatch sv ch (ChatAct a) w = (w', None)" "chats_distinct (cx_manager w)"
    and "\<And>st. chatReducer st a = Inr (refreshSummaryStatus (on_tool_call st b f))"
  shows "chats_distinct (cx_manager w') \<and> clients_at (cx_manager w') s = clients_at (cx_manager w) s
    \<and> turn_at (cx_manager w') ch \<in> {None, map_option (\<lambda>t. if aturn_id t = tca_turnId b
       then t\<lparr>aturn_responseParts := map (update_tool_call_part (tca_toolCallId b) f) (aturn_responseParts t)\<rparr> else t)
         (turn_at (cx_manager w) ch)}"
proof -
  have d: "dispatch_chat (srv_platform sv) ch a None (cx_manager w) = (cx_manager w', None)"
    using server_dispatch_ok [OF assms(1)] by (simp add: applyAndEmit_def srv_platform_def)
  note e = dispatch_chat_effect [OF assms(2) d]
  have "turn_at (cx_manager w) ch = chat_activeTurn st" if "chat_state_at (cx_manager w) ch = Some st" for st
    using that by (simp add: turn_at_def)
  then show ?thesis using e(1) e(2) [of s] e(3) assms(3) by (auto simp: turn_on_tool_call)
qed

lemma turn_id_updated:
  assumes "turn' \<in> {None, map_option (\<lambda>t. if aturn_id t = i then t\<lparr>aturn_responseParts := g t\<rparr> else t) turn}"
    and "map_option aturn_id turn \<in> {None, Some i}"
  shows "map_option aturn_id turn' \<in> {None, Some i}"
  using assms by (cases turn) auto

lemma fail_call_effect:
  assumes "fail_call sv c ch st t tc w = (w', None)" "failing c ch t (tc # tcs) (cx_manager w)"
  shows "failing c ch t tcs (cx_manager w')" "clients_at (cx_manager w') s = clients_at (cx_manager w) s"
proof -
  let ?r = "ready_of_call t tc" and ?f = "failure_of_call c st t tc"
  let ?up = "\<lambda>i f. map_option (\<lambda>t'. if aturn_id t' = aturn_id t
       then t'\<lparr>aturn_responseParts := map (update_tool_call_part i f) (aturn_responseParts t')\<rparr> else t')"
  have r: "tca_turnId ?r = aturn_id t" "tca_toolCallId ?r = tc_toolCallId (tcBase tc)" "tcReady_contributor ?r = None" "tcReady_confirmed ?r \<noteq> None"
    by (simp_all add: ready_of_call_def)
  have f: "tca_turnId ?f = aturn_id t" "tca_toolCallId ?f = tc_toolCallId (tcBase tc)" "tcComplete_requiresResultConfirmation ?f = None"
    by (simp_all add: failure_of_call_def)
  have m: "chats_distinct (cx_manager w)" "map_option aturn_id (turn_at (cx_manager w) ch) \<in> {None, Some (aturn_id t)}"
    "covers (tc # tcs) (waiting c (turn_at (cx_manager w) ch))"
    using assms(2) by (simp_all add: failing_def)
  let ?cov = "\<lambda>turn. \<forall>p\<in>waiting c turn. if tc_toolCallId (tcBase p) = tc_toolCallId (tcBase tc)
      then tc_status p = StStreaming \<longrightarrow> (\<exists>tc'\<in>set tcs. tc_toolCallId (tcBase tc') = tc_toolCallId (tcBase p) \<and> tc_status tc' = StStreaming)
      else \<exists>tc'\<in>set tcs. tc_toolCallId (tcBase tc') = tc_toolCallId (tcBase p) \<and> (tc_status p = StStreaming \<longrightarrow> tc_status tc' = StStreaming)"
  have "\<exists>w1. serverDispatch sv ch (ChatAct (ChatToolCallComplete ?f)) w1 = (w', None) \<and> chats_distinct (cx_manager w1)
      \<and> clients_at (cx_manager w1) s = clients_at (cx_manager w) s
      \<and> map_option aturn_id (turn_at (cx_manager w1) ch) \<in> {None, Some (aturn_id t)} \<and> ?cov (turn_at (cx_manager w1) ch)"
  proof (cases "tc_status tc = StStreaming")
    case True
    obtain w1 e where w1: "serverDispatch sv ch (ChatAct (ChatToolCallReady ?r)) w = (w1, e)" by fastforce
    with assms(1) True have e: "e = None" "serverDispatch sv ch (ChatAct (ChatToolCallComplete ?f)) w1 = (w', None)"
      by (cases e; simp add: fail_call_def)+
    have "chatReducer st (ChatToolCallReady ?r) = Inr (refreshSummaryStatus (on_tool_call st ?r (toolCallReady ?r)))" for st by simp
    note d = dispatch_tool_turn [OF w1 [unfolded e(1)] m(1) this, of s, unfolded r(1,2)]
    have turn: "turn_at (cx_manager w1) ch \<in> {None, ?up (tc_toolCallId (tcBase tc)) (toolCallReady ?r) (turn_at (cx_manager w) ch)}"
      using d by blast
    have "\<forall>p\<in>waiting c (?up (tc_toolCallId (tcBase tc)) (toolCallReady ?r) (turn_at (cx_manager w) ch)).
        if tc_toolCallId (tcBase p) = tc_toolCallId (tcBase tc) then tc_status p \<noteq> StStreaming
        else \<exists>tc'\<in>set tcs. tc_toolCallId (tcBase tc') = tc_toolCallId (tcBase p) \<and> (tc_status p = StStreaming \<longrightarrow> tc_status tc' = StStreaming)"
      using ready_step [where turn = "turn_at (cx_manager w) ch" and a = ?r, unfolded r(1,2), OF m(2) r(3,4) m(3) refl] .
    then have cov: "?cov (?up (tc_toolCallId (tcBase tc)) (toolCallReady ?r) (turn_at (cx_manager w) ch))" by simp
    have none: "?cov None" by (simp add: waiting_def)
    have "?cov (turn_at (cx_manager w1) ch)" using turn cov none by (elim insertE emptyE) (simp_all only:)
    then show ?thesis using d e(2) turn_id_updated [OF turn m(2)] by blast
  next
    case False
    then have "?cov (turn_at (cx_manager w) ch)" using m(3) unfolding covers_def by fastforce
    moreover have "serverDispatch sv ch (ChatAct (ChatToolCallComplete ?f)) w = (w', None)"
      using assms(1) False by (simp add: fail_call_def)
    ultimately show ?thesis using m(1,2) by blast
  qed
  then obtain w1 where w1: "serverDispatch sv ch (ChatAct (ChatToolCallComplete ?f)) w1 = (w', None)" "chats_distinct (cx_manager w1)"
    and kept: "clients_at (cx_manager w1) s = clients_at (cx_manager w) s"
    and turn1: "map_option aturn_id (turn_at (cx_manager w1) ch) \<in> {None, Some (aturn_id t)}" and cov: "?cov (turn_at (cx_manager w1) ch)"
    by blast
  have "chatReducer st (ChatToolCallComplete ?f) = Inr (refreshSummaryStatus (on_tool_call st ?f (toolCallComplete ?f)))" for st by simp
  note d = dispatch_tool_turn [OF w1 this, of s, unfolded f(1,2)]
  then have turn: "turn_at (cx_manager w') ch \<in> {None, ?up (tc_toolCallId (tcBase tc)) (toolCallComplete ?f) (turn_at (cx_manager w1) ch)}"
    by blast
  have "covers tcs (waiting c (?up (tc_toolCallId (tcBase tc)) (toolCallComplete ?f) (turn_at (cx_manager w1) ch)))"
    using complete_step [where turn = "turn_at (cx_manager w1) ch" and a = ?f, unfolded f(1,2), OF turn1 f(3) refl cov] .
  then have "covers tcs (waiting c (turn_at (cx_manager w') ch))" using turn by (elim insertE emptyE) simp_all
  then show "failing c ch t tcs (cx_manager w')" using d turn_id_updated [OF turn turn1] by (simp add: failing_def)
  show "clients_at (cx_manager w') s = clients_at (cx_manager w) s" using d kept by simp
qed

lemma fail_calls_effect:
  "fail_calls sv c ch st t tcs w = (w', None) \<Longrightarrow> failing c ch t tcs (cx_manager w)
    \<Longrightarrow> failing c ch t [] (cx_manager w') \<and> clients_at (cx_manager w') s = clients_at (cx_manager w) s"
proof (induction tcs arbitrary: w)
  case (Cons tc tcs)
  obtain w1 e where w1: "fail_call sv c ch st t tc w = (w1, e)" by fastforce
  then have "e = None" "fail_calls sv c ch st t tcs w1 = (w', None)" using Cons.prems(1) by (cases e; simp)+
  then show ?case using Cons.IH Cons.prems(2) fail_call_effect w1 by metis
qed simp

lemma state_turn: "getSessionState pl ch m = Some st \<Longrightarrow> isAhpChatChannel pl ch \<Longrightarrow> swc_activeTurn st = turn_at m ch"
  by (auto simp: getSessionState_def mergeSessionWithDefaultChat_def session_state.defs session_with_chat.defs turn_at_def
      split: option.splits)

lemma waiting_pending:
  "hasPendingClientToolCall (getSessionState pl ch m) c \<Longrightarrow> isAhpChatChannel pl ch \<Longrightarrow> waiting c (turn_at m ch) \<noteq> {}"
proof -
  assume has: "hasPendingClientToolCall (getSessionState pl ch m) c" and chat: "isAhpChatChannel pl ch"
  obtain tc where tc: "(tc, c) \<in> set (pendingClientToolCalls (getSessionState pl ch m))"
    using has by (auto simp: hasPendingClientToolCall_def list_ex_iff)
  then obtain t where t: "Option.bind (getSessionState pl ch m) swc_activeTurn = Some t"
    "(tc, c) \<in> set (List.map_filter pending_client_call (aturn_responseParts t))"
    by (cases "Option.bind (getSessionState pl ch m) swc_activeTurn") (simp_all add: pendingClientToolCalls_def)
  then obtain st where st: "getSessionState pl ch m = Some st" "swc_activeTurn st = Some t" by (auto simp: bind_eq_Some_conv)
  then obtain part where part: "part \<in> set (aturn_responseParts t)" "pending_client_call part = Some (tc, c)"
    using map_filter_member [OF t(2)] by blast
  have "turn_at m ch = Some t" using state_turn [OF st(1) chat] st(2) by simp
  moreover have "part = ToolCallPart tc" "tc_contributor (tcBase tc) = Some (ClientContributor c)" "isPendingToolCallStatus (tc_status tc)"
    using part(2) by (auto simp: pending_client_call_def split: response_part.splits option.splits tool_call_contributor.splits if_splits)
  ultimately have "tc \<in> waiting c (turn_at m ch)" using part(1) by (auto simp: waiting_def)
  then show ?thesis by blast
qed

lemma complete_effect:
  assumes "completeDisconnectedClientToolCalls sv c ch w = (w', None)" "chats_distinct (cx_manager w)"
    "isAhpChatChannel (srv_platform sv) ch"
  shows "chats_distinct (cx_manager w')" "clients_at (cx_manager w') s = clients_at (cx_manager w) s"
    "getSessionState (srv_platform sv) ch (cx_manager w') = None \<or> waiting c (turn_at (cx_manager w') ch) = {}"
proof -
  let ?m = "cx_manager w" and ?pl = "srv_platform sv"
  have "chats_distinct (cx_manager w') \<and> clients_at (cx_manager w') s = clients_at ?m s
    \<and> (getSessionState ?pl ch (cx_manager w') = None \<or> waiting c (turn_at (cx_manager w') ch) = {})"
  proof (cases "getSessionState ?pl ch ?m")
    case None
    then show ?thesis using assms by (simp add: completeDisconnectedClientToolCalls_def)
  next
    case (Some st)
    note turn = state_turn [OF Some assms(3)]
    show ?thesis
    proof (cases "swc_activeTurn st")
      case None
      then show ?thesis using assms Some turn by (simp add: completeDisconnectedClientToolCalls_def waiting_def)
    next
      case (Some t)
      let ?tcs = "map fst (filter (\<lambda>(_, owner). owner = c) (pendingClientToolCalls (Some st)))"
      have run: "fail_calls sv c ch st t ?tcs w = (w', None)"
        using assms(1) \<open>getSessionState ?pl ch ?m = Some st\<close> Some by (simp add: completeDisconnectedClientToolCalls_def)
      have "tc \<in> set ?tcs" if "tc \<in> waiting c (Some t)" for tc
      proof -
        have "ToolCallPart tc \<in> set (aturn_responseParts t)" "pending_client_call (ToolCallPart tc) = Some (tc, c)"
          using that by (auto simp: waiting_def pending_client_call_def)
        then have "(tc, c) \<in> set (List.map_filter pending_client_call (aturn_responseParts t))"
          by (force simp: List.map_filter_def)
        then show ?thesis by (force simp: pendingClientToolCalls_def Some)
      qed
      then have "failing c ch t ?tcs ?m"
        using assms(2) turn Some unfolding failing_def covers_def by (metis insertCI option.map(2))
      from fail_calls_effect [OF run this, of s] show ?thesis by (auto simp: failing_def covers_def)
    qed
  qed
  then show "chats_distinct (cx_manager w')" "clients_at (cx_manager w') s = clients_at (cx_manager w) s"
    "getSessionState (srv_platform sv) ch (cx_manager w') = None \<or> waiting c (turn_at (cx_manager w') ch) = {}" by blast+
qed

lemma state_clients:
  "\<not> isAhpChatChannel pl s \<Longrightarrow> map_option ses_activeClients (getSessionState pl s m) = clients_at m s"
  by (simp add: getSessionState_def resolveOwningSession_def clients_at_def mergeSessionWithDefaultChat_def
      session_state.defs session_with_chat.defs option.map_comp comp_def)

lemma removed_client:
  assumes "distinct (map sac_clientId xs)" "find_index (\<lambda>x. sac_clientId x = c) xs = Some i"
  shows "c \<notin> sac_clientId ` set (remove_at i xs)"
proof -
  have i: "i < length xs" "sac_clientId (xs ! i) = c" using find_index_SomeD [OF assms(2)] by auto
  have "map sac_clientId (remove_at i xs) = remove_at i (map sac_clientId xs)" by (simp add: map_remove_at)
  moreover have "map sac_clientId xs ! i \<notin> set (remove_at i (map sac_clientId xs))"
    using assms(1) i(1) by (intro nth_removed) simp_all
  ultimately show ?thesis using i by (metis list.set_map nth_map)
qed

lemma release_effect:
  assumes "releaseActiveClientForSession sv s c ch w = (w', None)" "chats_distinct (cx_manager w)"
    and channels: "isAhpChatChannel (srv_platform sv) ch" "\<not> isAhpChatChannel (srv_platform sv) s"
    and "\<And>xs. clients_at (cx_manager w) s = Some xs \<Longrightarrow> distinct (map sac_clientId xs)"
  shows "\<not> hasPendingClientToolCall (getSessionState (srv_platform sv) ch (cx_manager w')) c"
    "\<forall>st. getSessionState (srv_platform sv) s (cx_manager w') = Some st \<longrightarrow> \<not> isActiveClient st c"
proof -
  let ?pl = "srv_platform sv" and ?w0 = "clearClientToolCallDisconnectTimeout c ch w"
  have w0: "cx_manager ?w0 = cx_manager w"
    using logging_timeout(2) [of c ch w] by (simp add: logging_def)
  obtain w1 e where w1: "completeDisconnectedClientToolCalls sv c ch ?w0 = (w1, e)" by fastforce
  then have e: "e = None" "removeActiveClient sv s c w1 = (w', None)"
    using assms(1) by (cases e; simp add: releaseActiveClientForSession_def)+
  note c = complete_effect [OF w1 [unfolded e(1)], unfolded w0, OF assms(2) channels(1)]
  have distinct: "distinct (map sac_clientId xs)" if "clients_at (cx_manager w1) s = Some xs" for xs
    using assms(5) c(2) that by simp
  show "\<not> hasPendingClientToolCall (getSessionState ?pl ch (cx_manager w')) c"
    "\<forall>st. getSessionState ?pl s (cx_manager w') = Some st \<longrightarrow> \<not> isActiveClient st c"
  proof -
    consider "w' = w1" "\<forall>st. getSessionState ?pl s (cx_manager w') = Some st \<longrightarrow> \<not> isActiveClient st c"
      | "serverDispatch sv s (SessionAct (SessionActiveClientRemoved c)) w1 = (w', None)"
    proof (cases "getSessionState ?pl s (cx_manager w1)")
      case None
      then have "w' = w1" using e(2) by (simp add: removeActiveClient_def)
      then show ?thesis using that(1) None by simp
    next
      case (Some st)
      then show ?thesis using e(2) that by (cases "isActiveClient st c") (simp_all add: removeActiveClient_def)
    qed
    then have "(getSessionState ?pl ch (cx_manager w') = None \<or> waiting c (turn_at (cx_manager w') ch) = {})
      \<and> (\<forall>st. getSessionState ?pl s (cx_manager w') = Some st \<longrightarrow> \<not> isActiveClient st c)"
    proof cases
      case 1
      then show ?thesis using c(3) by simp
    next
      case 2
      let ?m = "cx_manager w1" and ?a = "SessionActiveClientRemoved c"
      have m': "cx_manager w' = dispatch_session s ?a None ?m"
        using server_dispatch_ok [OF 2] by (simp add: applyAndEmit_def)
      have kept: "turn_at (cx_manager w') ch \<in> {turn_at ?m ch, None}"
        using dispatch_session_effect(1) [of ?m s ?a None] c(1) unfolding m' keeps_turns_def by blast
      have clients: "clients_at (cx_manager w') s' = (case session_at ?m s of
          Some e \<Rightarrow> if s' = s then Some (ses_activeClients (sessionReducer (sent_state e) ?a)) else clients_at ?m s'
        | None \<Rightarrow> clients_at ?m s')" for s'
        unfolding m' dispatch_session_effect(2) by (rule apply_session_effect)
      have "getSessionState ?pl ch (cx_manager w') = None" if "getSessionState ?pl ch ?m = None"
      proof (cases "resolveOwningSession ?pl ch")
        case (Some s')
        then have "clients_at ?m s' = None" using that by (simp add: getSessionState_def clients_at_def)
        then have "clients_at (cx_manager w') s' = None" using clients [of s'] by (auto simp: clients_at_def split: option.splits)
        then show ?thesis using Some by (simp add: getSessionState_def clients_at_def)
      qed (simp add: getSessionState_def)
      moreover have "waiting c (turn_at (cx_manager w') ch) = {}" if "waiting c (turn_at ?m ch) = {}"
        using kept that by (auto simp: waiting_def)
      ultimately have calls: "getSessionState ?pl ch (cx_manager w') = None \<or> waiting c (turn_at (cx_manager w') ch) = {}"
        using c(3) by (metis (no_types))
      moreover have "\<not> isActiveClient st c" if "getSessionState ?pl s (cx_manager w') = Some st" for st
      proof -
        have st: "clients_at (cx_manager w') s = Some (ses_activeClients st)"
          using state_clients [OF channels(2), of "cx_manager w'"] that by simp
        have "c \<notin> sac_clientId ` set (ses_activeClients st)"
        proof (cases "session_at ?m s")
          case None
          then show ?thesis using st clients [of s] by (simp add: clients_at_def)
        next
          case (Some e)
          let ?xs = "ses_activeClients (sent_state e)"
          have "distinct (map sac_clientId ?xs)" using distinct Some by (simp add: clients_at_def)
          moreover have "ses_activeClients st = ses_activeClients (sessionActiveClientRemoved (sent_state e) c)"
            using st clients [of s] Some by simp
          ultimately show ?thesis
            using removed_client [of ?xs c]
            by (auto simp: sessionActiveClientRemoved_def find_index_None_iff split: option.splits)
        qed
        then show ?thesis by (auto simp: isActiveClient_def list_ex_iff)
      qed
      then show ?thesis using calls by simp
    qed
    then show "\<not> hasPendingClientToolCall (getSessionState ?pl ch (cx_manager w')) c"
      "\<forall>st. getSessionState ?pl s (cx_manager w') = Some st \<longrightarrow> \<not> isActiveClient st c"
      using waiting_pending [OF _ channels(1), of "cx_manager w'" c] by (auto simp: hasPendingClientToolCall_def pendingClientToolCalls_def)
  qed
qed

section \<open>Arming the timeouts\<close>

definition armed :: "js_string \<Rightarrow> js_string set \<Rightarrow> int \<Rightarrow> connections \<Rightarrow> bool" where
  "armed c chats now w \<longleftrightarrow> cx_now w = now \<and> (\<exists>ts. client_at w c = Some (GraceRecord True now ts)
     \<and> (\<forall>ch\<in>chats. \<exists>s. map_of ts ch = Some (ReleaseTimeout s (now + CLIENT_TOOL_CALL_DISCONNECT_TIMEOUT))))"

lemma start_arms:
  assumes "armed c chats now w"
  shows "armed c (insert ch chats) now (startClientToolCallDisconnectTimeout c s ch w)"
    "cx_manager (startClientToolCallDisconnectTimeout c s ch w) = cx_manager w"
proof -
  obtain ts where ts: "cx_now w = now" "client_at w c = Some (GraceRecord True now ts)"
    "\<forall>ch\<in>chats. \<exists>s. map_of ts ch = Some (ReleaseTimeout s (now + CLIENT_TOOL_CALL_DISCONNECT_TIMEOUT))"
    using assms by (auto simp: armed_def)
  have start: "startClientToolCallDisconnectTimeout c s ch w = set_client c (GraceRecord True now
      (AList.update ch (ReleaseTimeout s (now + CLIENT_TOOL_CALL_DISCONNECT_TIMEOUT)) ts)) w"
    by (simp add: startClientToolCallDisconnectTimeout_def ensureGraceRecord_def ts CLIENT_TOOL_CALL_DISCONNECT_TIMEOUT_def)
  have "cx_now (set_client c r w) = cx_now w" for r by (simp add: set_client_def)
  then show "armed c (insert ch chats) now (startClientToolCallDisconnectTimeout c s ch w)"
    unfolding start armed_def using ts by (auto simp: update_conv')
  show "cx_manager (startClientToolCallDisconnectTimeout c s ch w) = cx_manager w"
    unfolding start by (simp add: set_client_def)
qed

lemma chats_armed:
  "armed c chats now w \<Longrightarrow>
     armed c (csum_resource ` set xs \<union> chats) now (fold (\<lambda>x. startClientToolCallDisconnectTimeout c s (csum_resource x)) xs w)
   \<and> cx_manager (fold (\<lambda>x. startClientToolCallDisconnectTimeout c s (csum_resource x)) xs w) = cx_manager w"
proof (induction xs arbitrary: chats w)
  case (Cons x xs)
  let ?w = "startClientToolCallDisconnectTimeout c s (csum_resource x) w"
  have "armed c (insert (csum_resource x) chats) now ?w" "cx_manager ?w = cx_manager w" using start_arms [OF Cons.prems] by blast+
  then show ?case using Cons.IH [of "insert (csum_resource x) chats" ?w] by (simp add: insert_commute Un_insert_right)
qed simp

text \<open>The chats of a session that a client takes part in.\<close>

definition involved_chats :: "platform \<Rightarrow> js_string \<Rightarrow> state_manager \<Rightarrow> js_string \<Rightarrow> js_string set" where
  "involved_chats pl c m s =
     (case getSessionState pl s m of
        Some st \<Rightarrow> if isActiveClient st c \<or> hasPendingClientToolCall (Some st) c then csum_resource ` set (ses_chats st) else {}
      | None \<Rightarrow> {})"

lemma sessions_armed:
  "armed c chats now w \<Longrightarrow>
     armed c ((\<Union>s\<in>set ss. involved_chats pl c (cx_manager w) s) \<union> chats) now (fold (arm_session pl c) ss w)"
proof (induction ss arbitrary: chats w)
  case (Cons s ss)
  have one: "armed c (involved_chats pl c (cx_manager w) s \<union> chats) now (arm_session pl c s w)"
    "cx_manager (arm_session pl c s w) = cx_manager w"
    using chats_armed [OF Cons.prems] Cons.prems by (auto simp: arm_session_def involved_chats_def split: option.split)
  show ?case using Cons.IH [OF one(1)] one(2) by (simp add: Un_ac)
qed simp

lemma disconnected_arms:
  assumes "client_at w c = Some (GraceRecord True (cx_now w) ts)"
  shows "armed c (\<Union>s\<in>fst ` set (sm_sessions (cx_manager w)). involved_chats pl c (cx_manager w) s) (cx_now w)
    (handleClientDisconnected pl c w)"
proof -
  let ?w = "set_client c (GraceRecord True (cx_now w) (AList.update ''managed-settings''
      (ManagedSettingsTimeout (cx_now w + CLIENT_TOOL_CALL_DISCONNECT_TIMEOUT)) ts)) w"
  have kept: "cx_manager ?w = cx_manager w" "cx_now ?w = cx_now w" by (simp_all add: set_client_def)
  have "armed c {} (cx_now w) ?w" by (simp add: armed_def kept)
  from sessions_armed [OF this, of pl "map fst (sm_sessions (cx_manager w))"]
  show ?thesis by (simp add: handleClientDisconnected_def assms kept)
qed

lemma closed_arms:
  assumes "ids_ok w" "live w c = [con]" and ok: "snd (transportClosed pl (con_id con) w) = None"
  shows "armed c (\<Union>s\<in>fst ` set (sm_sessions (cx_manager w)). involved_chats pl c (cx_manager w) s) (cx_now w)
    (fst (transportClosed pl (con_id con) w))"
proof -
  obtain w2 where w2: "fst (transportClosed pl (con_id con) w) = handleClientDisconnected pl c (set_client c (GraceRecord True (cx_now w2) []) w2)"
    "cx_now w2 = cx_now w" "cx_manager w2 = cx_manager w"
    using closed_shape [OF assms] by blast
  have kept: "cx_manager (set_client c r w2) = cx_manager w" "cx_now (set_client c r w2) = cx_now w" for r
    by (simp_all add: set_client_def w2)
  have "client_at (set_client c (GraceRecord True (cx_now w2) []) w2) c
      = Some (GraceRecord True (cx_now (set_client c (GraceRecord True (cx_now w2) []) w2)) [])"
    by (simp add: kept w2)
  from disconnected_arms [OF this, of pl] show ?thesis unfolding w2(1) kept .
qed


text \<open>
  C12. When that timeout fires, nobody waits for the client any more: no tool call of the chat that its
  tools were to answer is streaming, waiting or running, and it is no longer an active client of the
  session, so the turn can go on and another client can take over.
\<close>

theorem release_leaves_nothing_waiting:
  assumes "client_at w c = Some (GraceRecord seen t ts)" "map_of ts chat = Some (ReleaseTimeout s d)"
    and "fireTimeout sv c chat w = (w', None)"
    and "isAhpChatChannel (srv_platform sv) chat" "\<not> isAhpChatChannel (srv_platform sv) s"
    and "distinct (map fst (sm_chats (cx_manager w)))"
    and "\<And>e. session_at (cx_manager w) s = Some e \<Longrightarrow> distinct (map sac_clientId (ses_activeClients (sent_state e)))"
  shows "\<not> hasPendingClientToolCall (getSessionState (srv_platform sv) chat (cx_manager w')) c
    \<and> (\<forall>st. getSessionState (srv_platform sv) s (cx_manager w') = Some st \<longrightarrow> \<not> isActiveClient st c)"
proof -
  have "releaseActiveClientForSession sv s c chat w = (w', None)" using assms(1-3) by (simp add: fireTimeout_def)
  moreover have "distinct (map sac_clientId xs)" if "clients_at (cx_manager w) s = Some xs" for xs
    using that assms(7) by (auto simp: clients_at_def)
  ultimately show ?thesis
    using release_effect [of sv s c chat w w'] assms(4-6) by (simp add: chats_distinct_def)
qed

section \<open>Witnesses\<close>

definition release_handler :: server_config where
  "release_handler = \<lparr>srv_host = sample_host, srv_otlp = False, srv_watch = (\<lambda>_. False)\<rparr>"

lemma release_handler_simps [simp]: "srv_platform release_handler = ascii_platform" "srv_host release_handler = sample_host"
  by (simp_all add: srv_platform_def release_handler_def sample_host_def)

definition sample_chat_uri :: js_string where
  "sample_chat_uri = buildDefaultChatUri ascii_platform ''copilot:/s1''"

lemma sample_chat_channel:
  "isAhpChatChannel ascii_platform sample_chat_uri" "parseDefaultChatUri ascii_platform sample_chat_uri = Some ''copilot:/s1''"
proof -
  have "pf_encode ascii_platform ''copilot:/s1'' \<noteq> []" by (simp add: ascii_encode_Nil)
  note uri = default_chat_uri_read_back [OF _ this]
  show "isAhpChatChannel ascii_platform sample_chat_uri" "parseDefaultChatUri ascii_platform sample_chat_uri = Some ''copilot:/s1''"
    unfolding sample_chat_uri_def by (rule uri(2), simp add: ascii_codec) (rule uri(1), simp add: ascii_codec)
qed

lemma sample_session_channel: "\<not> isAhpChatChannel ascii_platform ''copilot:/s1''"
  by code_simp

definition sample_call :: tool_call_state where
  "sample_call = TcRunning \<lparr>tc_toolCallId = ''c1'', tc_toolName = ''edit'', tc_displayName = ''Edit'',
       tc_intention = None, tc_contributor = Some (ClientContributor ''c''), tc_meta = None\<rparr>
     \<lparr>tcp_invocationMessage = PlainText ''edit'', tcp_toolInput = None\<rparr>
     \<lparr>tcpost_confirmed = UserActionReason, tcpost_selectedOption = None\<rparr> \<lparr>tcrun_content = None\<rparr>"

definition sample_waiting_manager :: state_manager where
  "sample_waiting_manager =
     (let summary = createDefaultChatSummary sample_host_session sample_chat_uri;
          turn = (createActiveTurn ''t1'' (turnStarted_message sample_turn_start) (turnStarted_startedAt sample_turn_start))
            \<lparr>aturn_responseParts := [ToolCallPart sample_call]\<rparr>;
          state = (createSessionState sample_host_session)\<lparr>ses_lifecycle := SessionReadyState, ses_chats := [summary],
            ses_activeClients := [\<lparr>sac_clientId = ''c'', sac_displayName = None, sac_tools = [], sac_customizations = None\<rparr>]\<rparr>
      in (new_state_manager sample_config None None)
          \<lparr>sm_sessions := [(''copilot:/s1'', newEntry state sample_host_session UsedSession)],
           sm_chats := [(sample_chat_uri, \<lparr>cent_id = 0, cent_session = ''copilot:/s1'', cent_summary = summary,
             cent_state = Some ((createChatState summary)\<lparr>chat_modifiedAt := iso_format 0, chat_activeTurn := Some turn\<rparr>), cent_providerData = None,
             cent_draft = None, cent_resolver = None, cent_inFlight = False, cent_valid = True\<rparr>)]\<rparr>)"

lemma sample_waiting_facts:
  "envelopes sample_waiting_manager = []" "sm_serverSeq sample_waiting_manager = 0"
  "distinct (map fst (sm_chats sample_waiting_manager))"
  "fst ` set (sm_sessions sample_waiting_manager) = {''copilot:/s1''}"
  by (simp_all add: sample_waiting_manager_def new_state_manager_def envelopes_def List.map_filter_simps Let_def)

definition sample_present :: connections where
  "sample_present = fst (handleInitialize release_handler ''c'' [] (new_connections sample_waiting_manager))"

lemma sample_present_run: "server_run release_handler sample_present"
  unfolding sample_present_def
  by (rule server_run.Step [OF server_run.Start server_step.Initialize]) (rule sample_waiting_facts)+

lemma sample_present_eq:
  "sample_present = \<lparr>cx_clients = [(''c'', ActiveRecord [\<lparr>con_id = 0, con_subscriptions = []\<rparr>])], cx_closed = [], cx_replay = [],
     cx_sent = [(0, InitializeReply 0 [])], cx_subscribers = [], cx_tasks = [], cx_reconnects = [], cx_next = 1, cx_now = 0,
     cx_manager = sample_waiting_manager\<rparr>"
  by (simp add: sample_present_def handleInitialize_def Let_def new_connection_def attachConnection_def
      pruneClientRecords_def set_client_def client_at_def new_connections_def transport_send_def initial_snapshots_def
      List.map_filter_simps sample_waiting_facts)

lemma sample_session_state:
  "\<exists>st. getSessionState ascii_platform ''copilot:/s1'' sample_waiting_manager = Some st \<and> isActiveClient st ''c''
     \<and> ses_chats st = [createDefaultChatSummary sample_host_session sample_chat_uri]"
  by (simp add: getSessionState_def resolveOwningSession_def sample_session_channel sample_waiting_manager_def session_at_def Let_def
      mergeSessionWithDefaultChat_def session_state.defs session_with_chat.defs isActiveClient_def newEntry_def)


definition sample_gone :: connections where
  "sample_gone = (new_connections sample_waiting_manager)
     \<lparr>cx_clients := [(''c'', GraceRecord True 0 [(sample_chat_uri, ReleaseTimeout ''copilot:/s1'' 30000)])], cx_now := 30000\<rparr>"

lemma sample_time: "date_parse (iso_format 0) = Some 0" "\<exists>s. to_iso_string (Some 0) = Inr s"
  by (rule date_parse_iso_format) (simp_all add: to_iso_string_def max_time_def)

lemma sample_rolls_up:
  assumes "chat_modifiedAt n = iso_format 0"
    and "length (ses_chats st) = 1" "csum_resource (hd (ses_chats st)) = c"
  shows "snd (roll_up_chat s c n st m) = None"
proof -
  obtain x where x: "ses_chats st = [x]" "csum_resource x = c" using assms(2,3) by (cases "ses_chats st") auto
  have "csum_modifiedAt (chatSummaryFromState n) = iso_format 0"
    using assms(1) by (simp add: chatSummaryFromState_def Let_def)
  moreover obtain iso where sample_iso: "to_iso_string (Some 0) = Inr iso" using sample_time(2) by blast
  ultimately have "agg_modifiedAt (aggregateChatSummaries [chatSummaryFromState n] d) = Some (Some 0)" for d
    by (simp add: aggregateChatSummaries_def Let_def max_time_of_def sample_time split: option.split prod.split)
  then show ?thesis
    by (simp add: roll_up_chat_def x store_aggregate_def Let_def store_modified_def sample_iso split: option.split)
qed

lemma and_then_None: "snd r = None \<Longrightarrow> (\<And>w. snd (f w) = None) \<Longrightarrow> snd (and_then r f) = None"
  by (cases r; cases "snd r") auto

lemma sample_dispatch_ok:
  assumes "tcComplete_requiresResultConfirmation a = None"
  shows "snd (dispatch_chat ascii_platform sample_chat_uri (ChatToolCallComplete a) None sample_waiting_manager) = None"
proof -
  have rolled: "snd (onChatStateChanged ''copilot:/s1'' sample_chat_uri p n m) = None"
    if "chat_modifiedAt n = iso_format 0" and "\<forall>e. session_at m ''copilot:/s1'' = Some e
        \<longrightarrow> length (ses_chats (sent_state e)) = 1 \<and> csum_resource (hd (ses_chats (sent_state e))) = sample_chat_uri" for p n m
  proof -
    have "session_at (track_active_turn s c p n m') = session_at m'" for s c m'
      by (simp add: track_active_turn_def addChatActiveTurn_def removeChatActiveTurn_def dispatch_active_count_def dispatch_root_def
          emit_envelope_def emit_def session_at_def fun_eq_iff Let_def split: option.split)
    moreover have "session_at (markSessionUsed ''copilot:/s1'' m) ''copilot:/s1'' = map_option (\<lambda>e. e\<lparr>sent_use := UsedSession\<rparr>) (session_at m ''copilot:/s1'')"
      by (simp add: markSessionUsed_def session_at_def set_session_def update_conv' split: option.split)
    ultimately show ?thesis
      using that by (auto simp: onChatStateChanged_def Let_def intro!: sample_rolls_up split: option.split)
  qed
  have kept: "chat_modifiedAt (refreshSummaryStatus (on_tool_call st b f)) = chat_modifiedAt st" for st b f
    by (simp add: refreshSummaryStatus_def on_tool_call_def updateToolCallInParts_def set_active_parts_def set_active_turn_def Let_def split: option.split)
  obtain entry st where entry: "chat_at sample_waiting_manager sample_chat_uri = Some entry" "cent_state entry = Some st" "chat_modifiedAt st = iso_format 0"
    by (simp add: sample_waiting_manager_def chat_at_def Let_def)
  have sessions: "session_at (set_chat c x m) = session_at m" for c x m by (simp add: session_at_def set_chat_def fun_eq_iff)
  have one: "\<forall>e. session_at sample_waiting_manager ''copilot:/s1'' = Some e
      \<longrightarrow> length (ses_chats (sent_state e)) = 1 \<and> csum_resource (hd (ses_chats (sent_state e))) = sample_chat_uri"
    by (simp add: sample_waiting_manager_def session_at_def Let_def newEntry_def createDefaultChatSummary_def)
  show ?thesis
    unfolding dispatch_chat_def sample_chat_channel(1) parseRequiredSessionUriFromChatUri_def sample_chat_channel(2) entry(1)
    by (simp add: entry(2) sample_chat_channel(1)) (intro and_then_None rolled, simp_all add: kept entry(3) sessions one [simplified])
qed

lemma sample_release_ok: "snd (fireTimeout release_handler ''c'' sample_chat_uri sample_gone) = None"
proof -
  have remove: "snd (removeActiveClient release_handler s c w) = None" for s c w
    by (simp add: removeActiveClient_def serverDispatch_def dispatchServerAction_def applyAndEmit_def split: option.split)
  let ?w = "clearClientToolCallDisconnectTimeout ''c'' sample_chat_uri sample_gone"
  have manager: "cx_manager ?w = sample_waiting_manager"
    using logging_timeout(2) [of "''c''" sample_chat_uri sample_gone] by (simp add: logging_def sample_gone_def new_connections_def)
  have "snd (fail_call release_handler ''c'' sample_chat_uri st t sample_call ?w) = None" for st t
    by (simp add: fail_call_def sample_call_def serverDispatch_def dispatchServerAction_def applyAndEmit_def manager)
      (simp add: sample_host_def sample_dispatch_ok failure_of_call_def)
  then have "snd (fail_calls release_handler ''c'' sample_chat_uri st t [sample_call] ?w) = None" for st t
    by (simp add: and_then_None)
  moreover obtain st t where "getSessionState ascii_platform sample_chat_uri sample_waiting_manager = Some st" "swc_activeTurn st = Some t"
    "aturn_responseParts t = [ToolCallPart sample_call]"
    by (simp add: getSessionState_def resolveOwningSession_def sample_chat_channel sample_waiting_manager_def session_at_def Let_def
      mergeSessionWithDefaultChat_def session_state.defs session_with_chat.defs newEntry_def chat_state_at_def chat_at_def)
  moreover have "pending_client_call (ToolCallPart sample_call) = Some (sample_call, ''c'')"
    by (simp add: pending_client_call_def sample_call_def)
  ultimately have "snd (completeDisconnectedClientToolCalls release_handler ''c'' sample_chat_uri ?w) = None"
    by (simp add: completeDisconnectedClientToolCalls_def manager pendingClientToolCalls_def List.map_filter_simps del: fail_calls.simps)
  then have "snd (releaseActiveClientForSession release_handler ''copilot:/s1'' ''c'' sample_chat_uri sample_gone) = None"
    unfolding releaseActiveClientForSession_def by (intro and_then_None remove)
  then show ?thesis by (simp add: fireTimeout_def client_at_def sample_gone_def)
qed

lemma release_leaves_nothing_waiting_witness:
  "hasPendingClientToolCall (getSessionState ascii_platform sample_chat_uri (cx_manager sample_gone)) ''c''
   \<and> \<not> hasPendingClientToolCall (getSessionState ascii_platform sample_chat_uri
        (cx_manager (fst (fireTimeout release_handler ''c'' sample_chat_uri sample_gone)))) ''c''"
proof -
  let ?w' = "fst (fireTimeout release_handler ''c'' sample_chat_uri sample_gone)"
  have at: "client_at sample_gone ''c'' = Some (GraceRecord True 0 [(sample_chat_uri, ReleaseTimeout ''copilot:/s1'' 30000)])"
    by (simp add: client_at_def sample_gone_def)
  have fire: "fireTimeout release_handler ''c'' sample_chat_uri sample_gone = (?w', None)"
    using sample_release_ok by (simp add: prod_eq_iff)
  have manager: "cx_manager sample_gone = sample_waiting_manager" by (simp add: sample_gone_def new_connections_def)
  have before: "hasPendingClientToolCall (getSessionState ascii_platform sample_chat_uri (cx_manager sample_gone)) ''c''"
    by (simp add: manager getSessionState_def resolveOwningSession_def sample_chat_channel sample_waiting_manager_def session_at_def Let_def
      mergeSessionWithDefaultChat_def session_state.defs session_with_chat.defs newEntry_def chat_state_at_def chat_at_def
      hasPendingClientToolCall_def pendingClientToolCalls_def List.map_filter_simps pending_client_call_def sample_call_def)
  show ?thesis
    using before release_leaves_nothing_waiting [OF at _ fire] sample_chat_channel sample_session_channel sample_waiting_facts(3)
    by (simp add: manager) (simp add: session_at_def sample_waiting_manager_def Let_def newEntry_def)
qed

end
