(* ===== verification/Spec2Isabelle.thy ===== *)
theory Spec2Isabelle
  imports Chat_Properties Changeset Annotations Terminal Session_Properties Automation Root_Channel
    State_Actions Subscription_Properties Manager_Properties Changeset_Cache Channel_Uris Host_Activity
    Delete_Properties Mutation_Queue Admission_Properties
    Connection_Properties Client_Release
begin

text \<open>
  Verification development for the agent host of Fumie (\<open>src/src/vs/platform/agentHost\<close>).

  The agent host keeps the state of every session, chat, terminal, changeset and annotations
  channel on a server, and every connected client keeps a replica of the channels it
  subscribed to. Both sides change state only by running the same pure reducers over a stream
  of actions; clients apply their own actions optimistically and reconcile them with the
  server's stream. Paths below are relative to \<open>src/src/vs/platform/agentHost\<close>, those of the
  protocol to its \<open>common/state/protocol\<close>.

  How the parts interact. A client dispatches an action on a subscription (\<open>Subscription\<close>): it is
  applied at once to the optimistic state and sent as \<open>dispatchAction\<close>. The server checks it
  (\<open>Client_Admission\<close>) and gives it to the state manager (\<open>State_Manager\<close>), which runs the reducer of
  the channel, numbers the result and emits an envelope. The protocol server (\<open>Client_Connections\<close>)
  puts every envelope into its replay buffer and sends it to the clients that subscribed to its
  channel, the sender included; there the subscription manager (\<open>Subscription_Manager\<close>) routes it to the
  subscription, which applies it to the confirmed state and drops the pending action it echoes. A client that lost
  its transport reconnects with the number of the last envelope it saw and is sent what it missed, or
  snapshots. Deleting a session goes through a durable intent (\<open>Session_Delete\<close>, \<open>Lifecycle_Store\<close>)
  and is serialized with the other mutations of the session (\<open>Mutation_Queue\<close>).
\<close>

section \<open>The theories and the code they model\<close>

text \<open>
  Shared vocabulary.
  \<^item> \<open>Prelude\<close>: JavaScript values, thrown errors as values of a sum, the array operations of the reducers.
  \<^item> \<open>Keyed_Channel\<close>: the contract of a keyed collection, locale \<open>keyed_channel\<close>.
  \<^item> \<open>Common_State\<close>: \<open>common/state.ts\<close> and the types of other channels that all of them use.
  \<^item> \<open>Timestamps\<close>: \<open>common/timestamps.ts\<close>, with the \<open>Date\<close> algorithms of the language.

  The channels: state, actions and every case of the reducer of each.
  \<^item> \<open>Chat_State\<close>, \<open>Chat_Actions\<close>, \<open>Chat_Reducer\<close>: \<open>channels-chat/{state,actions,reducer}.ts\<close>.
  \<^item> \<open>Session_State\<close>, \<open>Session_Reducer\<close>: \<open>channels-session/{state,actions,reducer}.ts\<close>.
  \<^item> \<open>Terminal\<close>, \<open>Changeset\<close>, \<open>Annotations\<close>: \<open>channels-terminal\<close>, \<open>channels-changeset\<close>, \<open>channels-annotations\<close>.
  \<^item> \<open>Automation\<close>: \<open>channels-automation\<close> and \<open>channels-automation-run\<close>.
  \<^item> \<open>Root_Channel\<close>: \<open>channels-root\<close> and \<open>channels-resource-watch\<close>.
  \<^item> \<open>State_Actions\<close>: the union of all actions and the envelope (\<open>common/actions.ts\<close>), the table of the
    actions a client may originate (\<open>action-origin.generated.ts\<close>, \<open>common/reducer-helpers.ts\<close>), the guards of
    \<open>common/state/sessionActions.ts\<close>.

  The names of channels.
  \<^item> \<open>Base64\<close>: \<open>encodeBase64\<close>, \<open>decodeBase64\<close> of \<open>src/src/vs/base/common/buffer.ts\<close>.
  \<^item> \<open>Channel_Uris\<close>: \<open>URI.parse\<close> of \<open>src/src/vs/base/common/uri.ts\<close>, the builders and parsers of
    \<open>common/state/sessionState.ts\<close>, \<open>common/annotationsUri.ts\<close> and \<open>common/changesetUri.ts\<close>.
  \<^item> \<open>Uri_Format\<close>: \<open>URI.toString\<close>, \<open>URI.with\<close>, the URIs of subagent sessions.

  The client.
  \<^item> \<open>Subscription\<close>: the subscription classes of \<open>common/state/agentSubscription.ts\<close>: the state a
    subscription confirmed, its pending actions, the replay of the latter on top of the former.
  \<^item> \<open>Subscription_Manager\<close>: \<open>AgentSubscriptionManager\<close> of the same file: reference counts, idle release,
    the order of subscribe and unsubscribe, routing, reconnect snapshots.

  The server.
  \<^item> \<open>Session_Catalog\<close>: the factories and projections of \<open>common/state/sessionState.ts\<close>, the diffs of summaries.
  \<^item> \<open>Root_Config\<close>: \<open>equals\<close> of \<open>src/src/vs/base/common/objects.ts\<close>, \<open>common/agentCustomizationSettings.ts\<close>.
  \<^item> \<open>Changeset_Cache\<close>: \<open>node/agentHostChangesetStateCache.ts\<close>.
  \<^item> \<open>State_Manager\<close>, \<open>State_Lifecycle\<close>: \<open>node/agentHostStateManager.ts\<close>: every dispatch path, the summary
    notifier; sessions, chats, changesets, annotations and snapshots.
  \<^item> \<open>Client_Admission\<close>: \<open>dispatchAction\<close> of \<open>node/protocolServerHandler.ts\<close> and the checks of
    \<open>node/agentService.ts\<close> before a dispatch, with \<open>common/state/sessionWorkingDirectories.ts\<close>.
  \<^item> \<open>Client_Connections\<close>, \<open>Client_Handlers\<close>: the connections of \<open>node/protocolServerHandler.ts\<close> and the
    subscriber table of \<open>node/agentService.ts\<close>. The first holds the state (\<open>_clients\<close> with its active and
    grace records, \<open>_replayBuffer\<close>, the subscriber table, the calls in flight) with broadcast, buffer and
    timeouts; the second the handlers \<open>initialize\<close>, \<open>reconnect\<close>, \<open>subscribe\<close>, \<open>unsubscribe\<close>, the close
    of a transport and the release of a client that stays away.
  \<^item> \<open>Lifecycle_Store\<close>: the tables and the SQL of \<open>node/agentHostDatabase.ts\<close>,
    \<open>node/fumie/sessionLifecycleStore.ts\<close>.
  \<^item> \<open>Session_Delete\<close>, \<open>Mutation_Queue\<close>: \<open>node/fumie/agentSessionLifecycleService.ts\<close>: the delete
    transaction cut at its awaits, with failures and restarts; the chain of mutations of a session.
\<close>

section \<open>What the lemmas show\<close>

text \<open>
  \<^item> \<open>Chat_Evolution\<close>, \<open>Chat_Properties\<close>: one relation on response parts that every case of the chat reducer
    respects; from it the life cycle of tool calls, that they run only when approved, that text only
    grows, that ending a turn closes every tool call. The summary status follows the turn, except after a tool call
    action for a tool call that is gone, which erases the error of the status.
  \<^item> \<open>Session_Properties\<close>: the well-formedness invariant of a session and its keyed collections.
    \<open>Terminal\<close>, \<open>Changeset\<close>, \<open>Annotations\<close>, \<open>Automation\<close> hold their own lemmas behind their reducers.
  \<^item> \<open>Subscription_Laws\<close>, \<open>Subscription_Properties\<close>: the two contracts of the subscription classes; the
    value of a subscription, convergence of a replica, rejected actions, replay after a reconnect, and where
    two classes break the contract for rejected actions.
  \<^item> \<open>Manager_Properties\<close>: the invariant of the subscription manager along its runs.
  \<^item> \<open>State_Manager_Laws\<close>, \<open>Host_Properties\<close>: the operations of the server as one step function; the numbering of
    envelopes, and the replica of the root channel that follows the server.
  \<^item> \<open>Host_View\<close>, \<open>Host_Activity\<close>: the table of active sessions is exact along every run.
  \<^item> \<open>Admission_Properties\<close>: locked configuration, archived sessions and sessions under deletion stay as they
    are, whatever clients send; and how a client can strand a session.
  \<^item> \<open>Delete_Properties\<close>: by rule induction over runs with failures and restarts, a delete commits last,
    a retry completes it, its progress only advances. \<open>Mutation_Queue\<close>: the mutations of a session never
    overlap and run in their order.
  \<^item> \<open>Connection_Runs\<close>, \<open>Connection_Steps\<close>, \<open>Connection_Properties\<close>: runs of the whole server, the shape
    of a step, the invariant of the connections; the stream of a subscription has every envelope once
    and in order, a replay has all a client missed up to the capacity of the buffer, and four places
    where a stream overlaps, has a gap, or something is left behind.
  \<^item> \<open>Client_Release\<close>: what happens to the calls and sessions of a client that does not come back.

  The interfaces are locales. \<open>keyed_channel\<close> (\<open>Keyed_Channel\<close>) is interpreted on the collections of
  sessions, changesets, annotations and automations; \<open>wire_invariant\<close> (\<open>State_Manager_Laws\<close>), an
  invariant that speaks of the number, the root state and the emitted envelopes of the server only, on the numbering, on
  the replicated root state and on the log; \<open>write_ahead\<close> and \<open>replica\<close> (\<open>Subscription_Laws\<close>) on the
  subscription classes and on the root channel. Each interpretation is on the model's own definitions.
\<close>

section \<open>Conventions, bounds and abstractions\<close>

text \<open>
  \<^item> Exceptions are values: \<open>js_result\<close> is a sum, and a method that may throw half way returns the object
    with the error (\<open>outcome\<close>).
  \<^item> There is no fuel. Every recursion is structural or has a termination proof (the search for a year, the
    graceful decoding of a URI, the comparison of JSON values, the eviction of idle subscriptions). A process
    that goes on for ever is a run: an inductive relation or a fold over a list of operations.
  \<^item> The status of a session or chat is a 32-bit word, the elements of a \<open>Uint8Array\<close> are 8-bit words; the other
    numbers of the protocol are integers.
  \<^item> A limit has the code's value: the replay buffer holds 1000 envelopes, an absent client's
    calls fail after 30000 ms and its record is dropped after 300000 ms. The grace and the idle limit of the
    subscription manager and the limit of the changeset cache are arguments, as in the code. Time is an
    integer that the environment advances.
  \<^item> Objects whose identity matters (entries of the subscription manager, chat entries with a pending
    resolver, connections) carry a number; elsewhere a comparison of references is a comparison of values, which
    may only leave out an event about a change that changes nothing.
  \<^item> A method that awaits is cut at each \<open>await\<close>; its continuation is a step of its own, so that every order
    in which continuations can run is an order of steps. How an awaited call of the environment ends is an
    argument of the continuation.
  \<^item> A listener of \<open>onDidEmitEnvelope\<close> runs in the code in the middle of the operation that emits. In
    \<open>Client_Connections\<close> the envelopes of an operation are handled in their order after the
    operation, so a listener that reads the state sees the one at its end.
  \<^item> The text codec, \<open>decodeURIComponent\<close> and \<open>encodeURIComponent\<close> of the platform (record \<open>platform\<close>),
    \<open>canEvict\<close> of the changeset cache, the callbacks of a delete and the resolvers of restored chats are
    arguments. Hypotheses on them are stated where they are used and hold for
    \<open>ascii_platform\<close>, which the witnesses use.
  \<^item> A column that holds JSON text is a value of the type the code parses it to, or \<open>None\<close>.
  \<^item> The timeouts of an absent client are part of its grace record. When a failing handshake has
    replaced the record and cannot be undone, they are lost with it. A snapshot given to a client that connects
    does not touch the changeset cache.
\<close>

section \<open>Not modelled\<close>

text \<open>
  \<^item> Of \<open>node/protocolServerHandler.ts\<close>: the table of requests that only forward their parameters to the agent
    service, the negotiation of the protocol version, telemetry, managed settings, requests from the server to a
    client, log records and notifications without a channel. They keep no state the modelled parts
    read, except the timeout of the managed settings, which is modelled.
  \<^item> Of \<open>node/agentService.ts\<close>: all but the admission of actions and the subscriber table. It drives
    external SDK processes, git and files, and what it does between them is to call
    the state manager. \<open>node/agentSideEffects.ts\<close> and the agent providers likewise: their effect
    on the modelled state is a sequence of host operations, and the runs allow every such sequence.
  \<^item> Event listeners of the client, \<open>getActiveSubscriptions\<close>, \<open>emitProgress\<close> and \<open>emitAuthRequired\<close>: they expose or forward
    state and change none.
  \<^item> Opening and migrating the database: I/O with the file system and SQLite.
  \<^item> Reading a date in a form the protocol does not prescribe: ECMAScript leaves it to the host.
  \<^item> The editor platform, the workbench and the bundled extensions: upstream code that the agent host is
    embedded in, and programs of their own.
\<close>

end
